(* ===== verification/Prelude.thy ===== *)
theory Prelude
  imports Complex_Main "HOL-Library.AList" "HOL-Library.Multiset" "HOL-Library.Sublist"
begin

text \<open>
  The shared base of the development: the collections of simplification rules, results with
  errors as sums, Go maps as association lists with an explicit iteration order, and the
  contract of the many ``append unless already there'' loops of the program, stated once as a
  locale.
\<close>

named_theorems domain_consts
named_theorems zero_defs
named_theorems go_strings
named_theorems result_simps


section \<open>Results: Go's pair of a value and an error\<close>

text \<open>
  A Go function that returns \<open>(T, error)\<close> is a function into \<open>'e + 'a\<close>: \<open>Inl\<close> holds the
  error of an early return, \<open>Inr\<close> the value. \<open>bindE\<close> is the pattern
  \<^verbatim>\<open>v, err := f(); if err != nil { return err }\<close>.
\<close>

definition bindE :: "'e + 'a \<Rightarrow> ('a \<Rightarrow> 'e + 'b) \<Rightarrow> 'e + 'b" where
  "bindE r f = (case r of Inl e \<Rightarrow> Inl e | Inr a \<Rightarrow> f a)"

definition mapError :: "('e \<Rightarrow> 'f) \<Rightarrow> 'e + 'a \<Rightarrow> 'f + 'a" where
  "mapError g r = (case r of Inl e \<Rightarrow> Inl (g e) | Inr a \<Rightarrow> Inr a)"

lemma bindE_simps [simp, result_simps]:
  "bindE (Inl e) f = Inl e"
  "bindE (Inr a) f = f a"
  by (simp_all add: bindE_def)

lemma bindE_Inr [result_simps]:
  "bindE r f = Inr b \<longleftrightarrow> (\<exists>a. r = Inr a \<and> f a = Inr b)"
  by (cases r) auto

lemma bindE_Inl [result_simps]:
  "bindE r f = Inl e \<longleftrightarrow> r = Inl e \<or> (\<exists>a. r = Inr a \<and> f a = Inl e)"
  by (cases r) auto

lemma bindE_split:
  "P (bindE r f) \<longleftrightarrow> (\<forall>e. r = Inl e \<longrightarrow> P (Inl e)) \<and> (\<forall>a. r = Inr a \<longrightarrow> P (f a))"
  by (cases r) auto

lemma mapError_simps [simp, result_simps]:
  "mapError g (Inl e) = Inl (g e)"
  "mapError g (Inr a) = Inr a"
  by (simp_all add: mapError_def)

lemma mapError_Inr [result_simps]: "mapError g r = Inr a \<longleftrightarrow> r = Inr a"
  by (cases r) auto

lemma mapError_Inl [result_simps]: "mapError g r = Inl e \<longleftrightarrow> (\<exists>d. r = Inl d \<and> e = g d)"
  by (cases r) auto

text \<open>A check that returns only an error: the first element that fails ends the loop.\<close>

fun forE :: "('a \<Rightarrow> 'e + unit) \<Rightarrow> 'a list \<Rightarrow> 'e + unit" where
  "forE f [] = Inr ()"
| "forE f (x # xs) = bindE (f x) (\<lambda>_. forE f xs)"

lemma forE_Inr [result_simps]: "forE f xs = Inr u \<longleftrightarrow> (\<forall>x\<in>set xs. f x = Inr ())"
  by (induction xs) (auto simp: bindE_Inr)

definition guardE :: "bool \<Rightarrow> 'e \<Rightarrow> 'e + unit" where
  "guardE ok e = (if ok then Inr () else Inl e)"

lemma guardE_Inr [simp, result_simps]: "guardE ok e = Inr u \<longleftrightarrow> ok"
  by (simp add: guardE_def)

lemma guardE_simps [simp, result_simps]: "guardE True e = Inr ()" "guardE False e = Inl e"
  by (simp_all add: guardE_def)


section \<open>Go maps\<close>

text \<open>
  A Go map that the code ranges over is an association list with distinct keys. The language
  leaves the iteration order open, so every function with such a loop takes the order as an
  argument: a function that rearranges the list of keys. \<open>map_order\<close> says that it is a
  rearrangement and nothing else.
\<close>

type_synonym key_order = "string list \<Rightarrow> string list"

definition map_order :: "key_order \<Rightarrow> bool" where
  "map_order ord \<longleftrightarrow> (\<forall>ks. mset (ord ks) = mset ks)"

definition range_map :: "key_order \<Rightarrow> (string \<times> 'v) list \<Rightarrow> (string \<times> 'v) list" where
  "range_map ord m =
     List.map_filter (\<lambda>k. map_option (Pair k) (map_of m k)) (ord (map fst m))"

definition mapGet :: "(string \<times> string) list \<Rightarrow> string \<Rightarrow> string" where
  \<comment> \<open>reading a \<^verbatim>\<open>map[string]string\<close>: the empty string for a missing key\<close>
  "mapGet m k = (case map_of m k of None \<Rightarrow> [] | Some v \<Rightarrow> v)"

lemma map_order_id [simp]: "map_order (\<lambda>ks. ks)"
  by (simp add: map_order_def)

lemma map_order_rev [simp]: "map_order rev"
  by (simp add: map_order_def)

lemma map_filter_keys:
  "set ks \<subseteq> dom m \<Longrightarrow>
   List.map_filter (\<lambda>k. map_option (Pair k) (m k)) ks = map (\<lambda>k. (k, the (m k))) ks"
  by (induction ks) (auto simp: List.map_filter_def)

lemma map_the_map_of:
  "distinct (map fst m) \<Longrightarrow> map (\<lambda>k. (k, the (map_of m k))) (map fst m) = m"
  unfolding map_map by (rule map_idI) (auto simp: map_of_is_SomeI)

lemma mset_range_map:
  assumes "map_order ord" and "distinct (map fst m)"
  shows "mset (range_map ord m) = mset m"
proof -
  let ?g = "\<lambda>k. (k, the (map_of m k))"
  have ms: "mset (ord (map fst m)) = mset (map fst m)"
    using assms(1) by (simp add: map_order_def)
  then have "set (ord (map fst m)) = set (map fst m)"
    by (metis set_mset_mset)
  then have "set (ord (map fst m)) \<subseteq> dom (map_of m)"
    by (simp add: dom_map_of_conv_image_fst)
  then have "range_map ord m = map ?g (ord (map fst m))"
    unfolding range_map_def by (rule map_filter_keys)
  then have "mset (range_map ord m) = image_mset ?g (mset (map fst m))"
    using ms by simp
  also have "\<dots> = mset (map ?g (map fst m))"
    by (simp add: multiset.map_comp)
  also have "\<dots> = mset m"
    using assms(2) by (simp only: map_the_map_of)
  finally show ?thesis .
qed

lemma set_range_map:
  "map_order ord \<Longrightarrow> distinct (map fst m) \<Longrightarrow> set (range_map ord m) = set m"
  by (metis mset_range_map set_mset_mset)

lemma distinct_keys_range_map:
  assumes "map_order ord" and "distinct (map fst m)"
  shows "distinct (map fst (range_map ord m))"
proof -
  have "mset (map fst (range_map ord m)) = mset (map fst m)"
    using mset_range_map [OF assms] by (metis mset_map)
  then show ?thesis
    using assms(2) by (metis mset_eq_imp_distinct_iff)
qed

lemma length_range_map:
  "map_order ord \<Longrightarrow> distinct (map fst m) \<Longrightarrow> length (range_map ord m) = length m"
  by (metis mset_range_map mset_eq_length)

lemma range_map_id [simp]: "distinct (map fst m) \<Longrightarrow> range_map (\<lambda>ks. ks) m = m"
proof -
  assume d: "distinct (map fst m)"
  have "set (map fst m) \<subseteq> dom (map_of m)"
    by (simp add: dom_map_of_conv_image_fst)
  then show ?thesis
    unfolding range_map_def using map_filter_keys [of "map fst m" "map_of m"] map_the_map_of [OF d]
    by simp
qed

lemma fst_set_update: "fst ` set (AList.update k v m) = insert k (fst ` set m)"
  by (induction m) auto

lemma set_update_subset: "set (AList.update k v m) \<subseteq> insert (k, v) (set m)"
  by (induction m) auto

lemma in_set_update:
  "distinct (map fst m) \<Longrightarrow>
   p \<in> set (AList.update k v m) \<longleftrightarrow> p = (k, v) \<or> (p \<in> set m \<and> fst p \<noteq> k)"
  by (induction m) (auto simp: fst_set_update)

lemma map_of_update [simp]: "map_of (AList.update k v m) = (map_of m)(k \<mapsto> v)"
  by (rule ext) (simp add: update_conv')

lemma update_not_Nil [simp]: "AList.update k v m \<noteq> []"
  by (cases m) auto

lemma length_update: "length (AList.update k v m) = (if k \<in> fst ` set m then length m else Suc (length m))"
  by (induction m) auto


section \<open>Decoded documents\<close>

text \<open>What the YAML decoder leaves in a \<open>map[string]any\<close>: maps with string keys, sequences,
  strings, and scalars of any other type.\<close>

datatype Yaml = YMap "(string \<times> Yaml) list" | YSeq "Yaml list" | YString string | YOther


section \<open>Append unless already there\<close>

text \<open>
  Reviewers, evidence requirements, signals, file names and affected systems are all collected
  by the same loop: look for an element with the same key and append the candidate when there
  is none. \<open>key\<close> is what the loop compares; \<open>add\<close> is the operation of the code. The provider
  promises how one addition changes the keys; the client lemmas lift it to the whole loop.
\<close>

locale append_unique =
  fixes key :: "'a \<Rightarrow> 'k"
    and add :: "'a list \<Rightarrow> 'a \<Rightarrow> 'a list"
  assumes add_keys:
    "map key (add xs x) = (if key x \<in> key ` set xs then map key xs else map key xs @ [key x])"
begin

lemma add_distinct: "distinct (map key xs) \<Longrightarrow> distinct (map key (add xs x))"
  by (simp add: add_keys)

lemma add_key_set: "key ` set (add xs x) = insert (key x) (key ` set xs)"
proof -
  have "key ` set (add xs x) = set (map key (add xs x))" by simp
  then show ?thesis by (auto simp: add_keys)
qed

lemma foldl_distinct:
  "distinct (map key xs) \<Longrightarrow> distinct (map key (foldl add xs ys))"
  by (induction ys arbitrary: xs) (simp_all add: add_distinct)

lemma foldl_key_set: "key ` set (foldl add xs ys) = key ` set xs \<union> key ` set ys"
  by (induction ys arbitrary: xs) (auto simp: add_key_set)

lemma foldl_keys_prefix: "prefix (map key xs) (map key (foldl add xs ys))"
proof (induction ys arbitrary: xs)
  case (Cons y ys)
  have "prefix (map key xs) (map key (add xs y))"
    by (simp add: add_keys)
  also have "prefix (map key (add xs y)) (map key (foldl add (add xs y) ys))"
    by (rule Cons.IH)
  finally show ?case by simp
qed simp

lemma foldl_absorb:
  "key ` set ys \<subseteq> key ` set xs \<Longrightarrow> map key (foldl add xs ys) = map key xs"
proof (induction ys arbitrary: xs)
  case (Cons y ys)
  then have "map key (add xs y) = map key xs" by (simp add: add_keys)
  moreover from this have "key ` set (add xs y) = key ` set xs"
    by (metis set_map)
  ultimately show ?case using Cons by simp
qed simp

end

definition append_new :: "('a \<Rightarrow> 'k) \<Rightarrow> 'a list \<Rightarrow> 'a \<Rightarrow> 'a list" where
  "append_new key xs x = (if key x \<in> key ` set xs then xs else xs @ [x])"

lemma append_new_append_unique: "append_unique key (append_new key)"
  by unfold_locales (simp add: append_new_def)


section \<open>List facts\<close>

lemma list_ex_map_comp: "list_ex P (map f xs) = list_ex (P \<circ> f) xs"
  by (induction xs) auto

lemma find_Some_in_set: "find P xs = Some x \<Longrightarrow> x \<in> set xs \<and> P x"
  by (induction xs) (auto split: if_splits)

lemma find_None_all: "find P xs = None \<longleftrightarrow> (\<forall>x\<in>set xs. \<not> P x)"
  by (induction xs) auto

lemma foldl_invariant:
  assumes "P s" and "\<And>s x. x \<in> set xs \<Longrightarrow> P s \<Longrightarrow> P (f s x)"
  shows "P (foldl f s xs)"
  using assms by (induction xs arbitrary: s) auto

lemma Max_insert_max:
  "finite S \<Longrightarrow> Max (insert (max a b) S) = Max (insert a (insert (b :: 'a :: linorder) S))"
  by (cases "S = {}") (simp_all add: ac_simps)

lemma Max_insert_image:
  "finite S \<Longrightarrow> S \<noteq> {} \<Longrightarrow> Max (insert b (f ` S)) = max (Max (f ` S)) (b :: 'a :: linorder)"
  by (simp add: max.commute)

lemma sum_list_map_mset: "mset xs = mset ys \<Longrightarrow> sum_list (map f xs) = sum_list (map f (ys :: 'a list) :: int list)"
  by (metis mset_map sum_mset_sum_list)

end
