(* ===== verification/GoStrings.thy ===== *)
theory GoStrings
  imports Prelude "HOL-Library.Char_ord" "HOL-Library.List_Lexorder"
begin

text \<open>
  The parts of Go's \<open>strings\<close>, \<open>strconv\<close>, \<open>encoding/hex\<close>, \<open>path\<close> and \<open>path/filepath\<close>
  that the program calls. A Go string is a sequence of bytes, here a \<^typ>\<open>string\<close>; case
  folding and white space are those of the ASCII range, and the path separator is the slash
  (the Unix build).
\<close>

section \<open>Case and white space\<close>

definition lower_char :: "char \<Rightarrow> char" where
  "lower_char c =
     (let n = (of_char c :: nat) in if 65 \<le> n \<and> n \<le> 90 then char_of (n + 32) else c)"

definition upper_char :: "char \<Rightarrow> char" where
  "upper_char c =
     (let n = (of_char c :: nat) in if 97 \<le> n \<and> n \<le> 122 then char_of (n - 32) else c)"

definition ToLower :: "string \<Rightarrow> string" where
  "ToLower s = map lower_char s"

definition ToUpper :: "string \<Rightarrow> string" where
  "ToUpper s = map upper_char s"

definition EqualFold :: "string \<Rightarrow> string \<Rightarrow> bool" where
  "EqualFold s t \<longleftrightarrow> ToLower s = ToLower t"

definition isSpace :: "char \<Rightarrow> bool" where
  "isSpace c \<longleftrightarrow>
     c \<in> set [CHR 0x09, CHR 0x0A, CHR 0x0B, CHR 0x0C, CHR 0x0D, CHR '' '']"

definition trimBy :: "(char \<Rightarrow> bool) \<Rightarrow> string \<Rightarrow> string" where
  "trimBy P s = rev (dropWhile P (rev (dropWhile P s)))"

definition TrimSpace :: "string \<Rightarrow> string" where
  "TrimSpace = trimBy isSpace"

definition Trim :: "string \<Rightarrow> string \<Rightarrow> string" where
  "Trim s cutset = trimBy (\<lambda>c. c \<in> set cutset) s"

definition TrimRight :: "string \<Rightarrow> string \<Rightarrow> string" where
  "TrimRight s cutset = rev (dropWhile (\<lambda>c. c \<in> set cutset) (rev s))"

definition HasSpace :: "string \<Rightarrow> bool" where
  \<comment> \<open>\<^verbatim>\<open>strings.IndexFunc(s, unicode.IsSpace) >= 0\<close>\<close>
  "HasSpace s \<longleftrightarrow> list_ex isSpace s"

section \<open>Prefixes, suffixes, substrings\<close>

definition HasPrefix :: "string \<Rightarrow> string \<Rightarrow> bool" where
  "HasPrefix s p \<longleftrightarrow> prefix p s"

definition HasSuffix :: "string \<Rightarrow> string \<Rightarrow> bool" where
  "HasSuffix s p \<longleftrightarrow> suffix p s"

definition Contains :: "string \<Rightarrow> string \<Rightarrow> bool" where
  "Contains s t \<longleftrightarrow> sublist t s"

definition TrimPrefix :: "string \<Rightarrow> string \<Rightarrow> string" where
  "TrimPrefix s p = (if HasPrefix s p then drop (length p) s else s)"

definition TrimSuffix :: "string \<Rightarrow> string \<Rightarrow> string" where
  "TrimSuffix s p = (if HasSuffix s p then take (length s - length p) s else s)"

section \<open>Splitting and joining\<close>

fun splitBy :: "(char \<Rightarrow> bool) \<Rightarrow> string \<Rightarrow> string list" where
  "splitBy P [] = [[]]"
| "splitBy P (c # cs) =
     (if P c then [] # splitBy P cs
      else (case splitBy P cs of [] \<Rightarrow> [[c]] | w # ws \<Rightarrow> (c # w) # ws))"

text \<open>Every call in the program splits at a single byte.\<close>

definition Split :: "string \<Rightarrow> char \<Rightarrow> string list" where
  "Split s sep = splitBy (\<lambda>c. c = sep) s"

definition Fields :: "string \<Rightarrow> string list" where
  "Fields s = filter (\<lambda>w. w \<noteq> []) (splitBy isSpace s)"

fun Join :: "string list \<Rightarrow> string \<Rightarrow> string" where
  "Join [] sep = []"
| "Join [w] sep = w"
| "Join (w # ws) sep = w @ sep @ Join ws sep"

definition Cut :: "string \<Rightarrow> char \<Rightarrow> string \<times> string \<times> bool" where
  "Cut s sep =
     (if sep \<in> set s
      then (takeWhile (\<lambda>c. c \<noteq> sep) s, tl (dropWhile (\<lambda>c. c \<noteq> sep) s), True)
      else (s, [], False))"

section \<open>Numbers\<close>

definition digit :: "nat \<Rightarrow> char" where
  "digit n = char_of (48 + n)"

fun natString :: "nat \<Rightarrow> string" where
  "natString n = (if n < 10 then [digit n] else natString (n div 10) @ [digit (n mod 10)])"

declare natString.simps [simp del]

definition Itoa :: "int \<Rightarrow> string" where
  "Itoa i = (if i < 0 then CHR ''-'' # natString (nat (- i)) else natString (nat i))"

definition isDigit :: "char \<Rightarrow> bool" where
  "isDigit c \<longleftrightarrow> 48 \<le> (of_char c :: nat) \<and> (of_char c :: nat) \<le> 57"

fun digitsValue :: "nat \<Rightarrow> string \<Rightarrow> nat option" where
  "digitsValue acc [] = Some acc"
| "digitsValue acc (c # cs) =
     (if isDigit c then digitsValue (10 * acc + (of_char c - 48)) cs else None)"

definition ParseInt64 :: "string \<Rightarrow> int option" where
  \<comment> \<open>base 10, 64 bits; \<^verbatim>\<open>strconv.Atoi\<close> is the same function on a 64-bit build\<close>
  "ParseInt64 s =
     (let neg = (s \<noteq> [] \<and> hd s = CHR ''-'');
          ds = (if s \<noteq> [] \<and> (hd s = CHR ''-'' \<or> hd s = CHR ''+'') then tl s else s)
      in if ds = [] then None
         else (case digitsValue 0 ds of
                 None \<Rightarrow> None
               | Some n \<Rightarrow>
                   if neg then (if n \<le> 2 ^ 63 then Some (- int n) else None)
                   else (if n < 2 ^ 63 then Some (int n) else None)))"

definition hexDigit :: "nat \<Rightarrow> char" where
  "hexDigit n = (if n < 10 then digit n else char_of (87 + n))"

definition hexEncode :: "string \<Rightarrow> string" where
  "hexEncode bs = concat (map (\<lambda>b. [hexDigit (of_char b div 16), hexDigit (of_char b mod 16)]) bs)"

section \<open>Paths\<close>

definition lastElement :: "string \<Rightarrow> string" where
  \<comment> \<open>what follows the last slash\<close>
  "lastElement p = rev (takeWhile (\<lambda>c. c \<noteq> CHR ''/'') (rev p))"

definition Ext :: "string \<Rightarrow> string" where
  "Ext p =
     (let e = rev (lastElement p)
      in if CHR ''.'' \<in> set e then CHR ''.'' # rev (takeWhile (\<lambda>c. c \<noteq> CHR ''.'') e) else [])"

definition Base :: "string \<Rightarrow> string" where
  "Base p =
     (if p = [] then ''.''
      else (let b = lastElement (TrimRight p ''/'') in if b = [] then ''/'' else b))"

definition IsAbs :: "string \<Rightarrow> bool" where
  "IsAbs p \<longleftrightarrow> HasPrefix p ''/''"

subsection \<open>Glob patterns: \<open>path.Match\<close>\<close>

text \<open>
  The algorithm of the library, chunk by chunk. A chunk is matched against the rest of the
  name, \<open>None\<close> once it has failed; the outer \<open>None\<close> is \<open>ErrBadPattern\<close>. Every caller of the
  program drops the error, and a bad pattern never matches.
\<close>

definition getEsc :: "string \<Rightarrow> (char \<times> string) option" where
  "getEsc chunk =
     (case chunk of
        [] \<Rightarrow> None
      | c # cs \<Rightarrow>
          if c = CHR ''-'' \<or> c = CHR '']'' then None
          else (let rest = (if c = CHR 0x5C then cs else c # cs)
                in if length rest < 2 then None else Some (hd rest, tl rest)))"

lemma getEsc_shorter: "getEsc c = Some (r, c') \<Longrightarrow> length c' < length c"
  by (auto simp: getEsc_def Let_def split: list.splits if_splits)

function classRanges :: "string \<Rightarrow> char option \<Rightarrow> bool \<Rightarrow> bool \<Rightarrow> (bool \<times> string) option" where
  "classRanges chunk r nonempty matched =
     (if nonempty \<and> chunk \<noteq> [] \<and> hd chunk = CHR '']'' then Some (matched, tl chunk)
      else case getEsc chunk of
        None \<Rightarrow> None
      | Some (lo, c1) \<Rightarrow>
          (case (if c1 \<noteq> [] \<and> hd c1 = CHR ''-'' then getEsc (tl c1) else Some (lo, c1)) of
             None \<Rightarrow> None
           | Some (hi, c2) \<Rightarrow>
               classRanges c2 r True
                 (matched \<or> (case r of None \<Rightarrow> False | Some x \<Rightarrow> lo \<le> x \<and> x \<le> hi))))"
  by pat_completeness auto
termination
  by (relation "measure (\<lambda>(c, _). length c)")
     (auto dest!: getEsc_shorter split: if_splits)

declare classRanges.simps [simp del]

lemma classRanges_shorter: "classRanges c r ne m = Some (b, c') \<Longrightarrow> length c' < length c"
proof (induction c r ne m rule: classRanges.induct)
  case (1 c r ne m)
  show ?case
  proof (cases "ne \<and> c \<noteq> [] \<and> hd c = CHR '']''")
    case True
    then have "classRanges c r ne m = Some (m, tl c)" by (subst classRanges.simps) simp
    then have "c' = tl c" using "1.prems" by simp
    then show ?thesis using True by (cases c) auto
  next
    case False
    with "1.prems" obtain lo c1 where e: "getEsc c = Some (lo, c1)"
      by (auto simp: classRanges.simps [of c r ne m] split: option.splits)
    from False e "1.prems" obtain hi c2 where
      e2: "(if c1 \<noteq> [] \<and> hd c1 = CHR ''-'' then getEsc (tl c1) else Some (lo, c1)) = Some (hi, c2)"
      and rec: "classRanges c2 r True
        (m \<or> (case r of None \<Rightarrow> False | Some x \<Rightarrow> lo \<le> x \<and> x \<le> hi)) = Some (b, c')"
      by (auto simp: classRanges.simps [of c r ne m] split: option.splits)
    from "1.IH" [OF False e refl e2 refl rec] have "length c' < length c2" .
    moreover have "length c2 \<le> length c1"
      using e2 by (auto dest!: getEsc_shorter split: if_splits)
    ultimately show ?thesis using getEsc_shorter [OF e] by simp
  qed
qed

function matchChunk :: "string \<Rightarrow> string option \<Rightarrow> string option option" where
  "matchChunk [] st = Some st"
| "matchChunk (c # cs) st =
     (let st = (if st = Some [] then None else st)
      in if c = CHR ''['' then
           (let neg = (cs \<noteq> [] \<and> hd cs = CHR ''^'')
            in case classRanges (if neg then tl cs else cs) (map_option hd st) False False of
                 None \<Rightarrow> None
               | Some (m, rest) \<Rightarrow>
                   matchChunk rest (if m = neg then None else map_option tl st))
         else if c = CHR ''?'' then
           matchChunk cs
             (case st of None \<Rightarrow> None | Some s \<Rightarrow> if hd s = CHR ''/'' then None else Some (tl s))
         else if c = CHR 0x5C \<and> cs = [] then None
         else (let lit = (if c = CHR 0x5C then hd cs else c);
                   rest = (if c = CHR 0x5C then tl cs else cs)
               in matchChunk rest
                    (case st of None \<Rightarrow> None | Some s \<Rightarrow> if hd s = lit then Some (tl s) else None)))"
  by pat_completeness auto
termination
proof (relation "measure (\<lambda>(c, _). length c)", goal_cases)
  case (2 c cs st x neg y m rest)
  then have "length rest < length (if neg then tl cs else cs)"
    using classRanges_shorter by metis
  also have "\<dots> \<le> length cs" by auto
  finally show ?case by simp
qed auto

fun scanBody :: "bool \<Rightarrow> string \<Rightarrow> string \<times> string" where
  "scanBody inrange [] = ([], [])"
| "scanBody inrange [c] = (if c = CHR ''*'' \<and> \<not> inrange then ([], [c]) else ([c], []))"
| "scanBody inrange (c # d # ds) =
     (if c = CHR 0x5C then map_prod (\<lambda>a. c # d # a) id (scanBody inrange ds)
      else if c = CHR ''*'' \<and> \<not> inrange then ([], c # d # ds)
      else map_prod (\<lambda>a. c # a) id
             (scanBody (if c = CHR ''['' then True else if c = CHR '']'' then False else inrange)
                (d # ds)))"

definition scanChunk :: "string \<Rightarrow> bool \<times> string \<times> string" where
  "scanChunk pattern =
     (pattern \<noteq> [] \<and> hd pattern = CHR ''*'',
      scanBody False (dropWhile (\<lambda>c. c = CHR ''*'') pattern))"

lemma scanBody_append: "scanBody inrange s = (a, b) \<Longrightarrow> s = a @ b"
proof (induction inrange s arbitrary: a b rule: scanBody.induct)
  case (3 inrange c d ds)
  let ?r = "if c = CHR ''['' then True else if c = CHR '']'' then False else inrange"
  consider (esc) "c = CHR 0x5C" | (star) "c \<noteq> CHR 0x5C" "c = CHR ''*'' \<and> \<not> inrange"
    | (lit) "c \<noteq> CHR 0x5C" "\<not> (c = CHR ''*'' \<and> \<not> inrange)" by blast
  then show ?case
  proof cases
    case esc
    then show ?thesis using 3 by (cases "scanBody inrange ds") simp
  next
    case star
    then show ?thesis using "3.prems" by simp
  next
    case lit
    obtain a' b' where ab: "scanBody ?r (d # ds) = (a', b')" by (cases "scanBody ?r (d # ds)")
    from "3.IH"(2) [OF lit ab] have "d # ds = a' @ b'" .
    moreover have "scanBody inrange (c # d # ds) = (c # a', b')" using lit ab by auto
    ultimately show ?thesis using "3.prems" by simp
  qed
qed (auto split: if_splits)

lemma scanChunk_shorter:
  assumes "scanChunk pattern = (star, chunk, rest)" and "pattern \<noteq> []"
  shows "length rest < length pattern"
proof -
  obtain c cs where p: "pattern = c # cs" using assms(2) by (cases pattern) auto
  from assms(1) have b: "scanBody False (dropWhile (\<lambda>c. c = CHR ''*'') pattern) = (chunk, rest)"
    by (simp add: scanChunk_def)
  then have eq: "dropWhile (\<lambda>c. c = CHR ''*'') pattern = chunk @ rest" by (rule scanBody_append)
  show ?thesis
  proof (cases "c = CHR ''*''")
    case True
    then have "chunk @ rest = dropWhile (\<lambda>c. c = CHR ''*'') cs" using eq p by simp
    then have "length (chunk @ rest) \<le> length cs" by (metis length_dropWhile_le)
    then show ?thesis using p by simp
  next
    case False
    then have "scanBody False (c # cs) = (chunk, rest)" using b p by simp
    with False have "chunk \<noteq> []"
      by (cases cs) (auto simp: map_prod_def split: if_splits prod.splits)
    then show ?thesis using eq False p by (cases chunk) auto
  qed
qed

fun skipMatch :: "string \<Rightarrow> bool \<Rightarrow> string \<Rightarrow> string option" where
  "skipMatch chunk lastChunk [] = None"
| "skipMatch chunk lastChunk (c # cs) =
     (if c = CHR ''/'' then None
      else case matchChunk chunk (Some cs) of
        None \<Rightarrow> None
      | Some None \<Rightarrow> skipMatch chunk lastChunk cs
      | Some (Some t) \<Rightarrow> if lastChunk \<and> t \<noteq> [] then skipMatch chunk lastChunk cs else Some t)"

function pathMatch :: "string \<Rightarrow> string \<Rightarrow> bool" where
  "pathMatch pattern name =
     (if pattern = [] then name = []
      else (let (star, chunk, rest) = scanChunk pattern
            in if star \<and> chunk = [] then CHR ''/'' \<notin> set name
               else case matchChunk chunk (Some name) of
                 None \<Rightarrow> False
               | Some m \<Rightarrow>
                   (if m \<noteq> None \<and> (the m = [] \<or> rest \<noteq> []) then pathMatch rest (the m)
                    else if star then
                      (case skipMatch chunk (rest = []) name of
                         None \<Rightarrow> False
                       | Some t \<Rightarrow> pathMatch rest t)
                    else False)))"
  by pat_completeness auto
termination
  by (relation "measure (\<lambda>(p, _). length p)") (auto dest: scanChunk_shorter [OF sym])

declare pathMatch.simps [simp del]

section \<open>Laws of the string functions\<close>

lemmas string_search_defs [go_strings] =
  HasPrefix_def HasSuffix_def Contains_def TrimPrefix_def TrimSuffix_def

lemma splitBy_not_Nil [simp]: "splitBy P s \<noteq> []"
  by (induction s) (auto split: list.splits)

lemma Split_not_Nil [simp]: "Split s sep \<noteq> []"
  by (simp add: Split_def)

lemma Join_Cons: "ws \<noteq> [] \<Longrightarrow> Join (w # ws) sep = w @ sep @ Join ws sep"
  by (cases ws) auto

lemma Join_Split: "Join (Split s sep) [sep] = s"
proof (induction s)
  case (Cons c cs)
  obtain w ws where r: "splitBy (\<lambda>c. c = sep) cs = w # ws"
    by (cases "splitBy (\<lambda>c. c = sep) cs") auto
  show ?case
  proof (cases "c = sep")
    case True
    then show ?thesis using Cons by (simp add: Split_def Join_Cons)
  next
    case False
    then show ?thesis using Cons r by (cases ws) (auto simp: Split_def)
  qed
qed (simp add: Split_def)

lemma splitBy_append_sep:
  "(\<forall>c\<in>set w. \<not> P c) \<Longrightarrow> P sep \<Longrightarrow> splitBy P (w @ sep # s) = w # splitBy P s"
  by (induction w) auto

lemma splitBy_no_sep: "(\<forall>c\<in>set w. \<not> P c) \<Longrightarrow> splitBy P w = [w]"
  by (induction w) auto

lemma Split_Join:
  "ws \<noteq> [] \<Longrightarrow> (\<forall>w\<in>set ws. sep \<notin> set w) \<Longrightarrow> Split (Join ws [sep]) sep = ws"
proof (induction ws)
  case (Cons w ws)
  then have w: "\<forall>c\<in>set w. c \<noteq> sep" by auto
  show ?case
  proof (cases "ws = []")
    case True
    then show ?thesis using w by (simp add: Split_def splitBy_no_sep)
  next
    case False
    then show ?thesis
      using Cons w by (simp add: Split_def Join_Cons splitBy_append_sep)
  qed
qed simp

lemma Split_sep_free: "w \<in> set (Split s sep) \<Longrightarrow> sep \<notin> set w"
proof (induction s arbitrary: w)
  case (Cons c cs)
  obtain v vs where "splitBy (\<lambda>c. c = sep) cs = v # vs"
    by (cases "splitBy (\<lambda>c. c = sep) cs") auto
  then show ?case using Cons by (auto simp: Split_def split: if_splits)
qed (simp add: Split_def)

lemma Split_Split_same: "Split (Join (Split s sep) [sep]) sep = Split s sep"
  by (simp add: Join_Split)

lemma lower_char_range:
  "(of_char c :: nat) \<le> 90 \<Longrightarrow> 65 \<le> (of_char c :: nat) \<Longrightarrow> of_char (lower_char c) = (of_char c + 32 :: nat)"
  by (simp add: lower_char_def Let_def)

lemma lower_char_idem [simp]: "lower_char (lower_char c) = lower_char c"
proof (cases "65 \<le> (of_char c :: nat) \<and> (of_char c :: nat) \<le> 90")
  case True
  then have "of_char (lower_char c) = (of_char c + 32 :: nat)" by (simp add: lower_char_range)
  then show ?thesis using True by (simp add: lower_char_def [of "lower_char c"] Let_def)
next
  case False
  then have "lower_char c = c" by (auto simp: lower_char_def Let_def)
  then show ?thesis by simp
qed

lemma ToLower_idem [simp]: "ToLower (ToLower s) = ToLower s"
  by (simp add: ToLower_def)

lemma EqualFold_refl [simp]: "EqualFold s s"
  by (simp add: EqualFold_def)

lemma EqualFold_sym: "EqualFold s t \<longleftrightarrow> EqualFold t s"
  by (auto simp: EqualFold_def)

lemma trimBy_no_ends:
  assumes "trimBy P s \<noteq> []"
  shows "\<not> P (hd (trimBy P s)) \<and> \<not> P (last (trimBy P s))"
proof -
  let ?a = "dropWhile P s"
  let ?b = "dropWhile P (rev ?a)"
  have b: "?b \<noteq> []" using assms by (simp add: trimBy_def)
  then have "\<not> P (hd ?b)" by (rule hd_dropWhile)
  then have l: "\<not> P (last (trimBy P s))" using b by (simp add: trimBy_def last_rev)
  have a: "?a \<noteq> []" using b by (metis dropWhile.simps(1) rev.simps(1))
  then have ha: "\<not> P (hd ?a)" by (rule hd_dropWhile)
  have "prefix (rev ?b) ?a"
    by (metis suffix_dropWhile suffix_to_prefix rev_rev_ident)
  then obtain u where "?a = rev ?b @ u" by (auto elim: prefixE)
  moreover have "rev ?b \<noteq> []" using b by (simp only: rev_is_Nil_conv not_False_eq_True)
  ultimately have "hd ?a = hd (trimBy P s)" unfolding trimBy_def by (metis hd_append2)
  then show ?thesis using ha l by simp
qed

lemma trimBy_idem [simp]: "trimBy P (trimBy P s) = trimBy P s"
proof (cases "trimBy P s = []")
  case False
  let ?t = "trimBy P s"
  from trimBy_no_ends [OF False] have h: "\<not> P (hd ?t)" and l: "\<not> P (last ?t)" by auto
  have "dropWhile P ?t = ?t" using False h by (cases ?t) auto
  moreover have "dropWhile P (rev ?t) = rev ?t"
    using False l by (cases "rev ?t") (auto simp: last_rev hd_rev)
  ultimately show ?thesis unfolding trimBy_def [of P ?t] by simp
next
  case True
  then show ?thesis by (simp only: True) (simp add: trimBy_def)
qed

lemma TrimSpace_idem [simp]: "TrimSpace (TrimSpace s) = TrimSpace s"
  by (simp add: TrimSpace_def)

lemma dropWhile_all: "(\<forall>x\<in>set (dropWhile P s). P x) \<longleftrightarrow> (\<forall>x\<in>set s. P x)"
  by (induction s) auto

lemma TrimSpace_empty: "TrimSpace s = [] \<longleftrightarrow> (\<forall>c\<in>set s. isSpace c)"
  by (simp add: TrimSpace_def trimBy_def dropWhile_eq_Nil_conv dropWhile_all)

lemma TrimSpace_Nil [simp]: "TrimSpace [] = []"
  by (simp add: TrimSpace_def trimBy_def)

lemma set_dropWhile_sub: "set (dropWhile P s) \<subseteq> set s"
  by (metis set_mono_suffix suffix_dropWhile)

lemma set_trimBy: "set (trimBy P s) \<subseteq> set s"
  using set_dropWhile_sub [of P s] set_dropWhile_sub [of P "rev (dropWhile P s)"]
  by (auto simp: trimBy_def)

lemma Contains_ToLower_mono: "Contains s t \<Longrightarrow> Contains (ToLower s) (ToLower t)"
  unfolding Contains_def ToLower_def sublist_def by (metis map_append)

subsection \<open>Decimal numbers\<close>

lemma of_char_digit: "n < 10 \<Longrightarrow> (of_char (digit n) :: nat) = 48 + n"
  by (simp add: digit_def)

lemma isDigit_digit: "n < 10 \<Longrightarrow> isDigit (digit n)"
  by (simp add: isDigit_def of_char_digit)

lemma digitsValue_append:
  "digitsValue acc (a @ b) = (case digitsValue acc a of None \<Rightarrow> None | Some v \<Rightarrow> digitsValue v b)"
  by (induction acc a rule: digitsValue.induct) auto

lemma digitsValue_natString: "digitsValue 0 (natString n) = Some n"
proof (induction n rule: natString.induct)
  case (1 n)
  show ?case
  proof (cases "n < 10")
    case True
    then show ?thesis by (subst natString.simps) (simp add: isDigit_digit of_char_digit)
  next
    case False
    with "1.IH" have "digitsValue 0 (natString (n div 10)) = Some (n div 10)" by simp
    then show ?thesis
      using False by (subst natString.simps)
        (simp add: digitsValue_append isDigit_digit of_char_digit)
  qed
qed

lemma natString_not_Nil [simp]: "natString n \<noteq> []"
  by (subst natString.simps) simp

lemma hd_natString: "isDigit (hd (natString n))"
proof (induction n rule: natString.induct)
  case (1 n)
  then show ?case by (subst natString.simps) (auto simp: isDigit_digit)
qed

lemma natString_no_sign: "hd (natString n) \<noteq> CHR ''-'' \<and> hd (natString n) \<noteq> CHR ''+''"
  using hd_natString [of n] by (auto simp: isDigit_def)

lemma ParseInt64_digits:
  assumes "digitsValue 0 ds = Some n" and "ds \<noteq> []"
    and "hd ds \<noteq> CHR ''-''" and "hd ds \<noteq> CHR ''+''"
  shows "n < 2 ^ 63 \<Longrightarrow> ParseInt64 ds = Some (int n)"
    and "n \<le> 2 ^ 63 \<Longrightarrow> ParseInt64 (CHR ''-'' # ds) = Some (- int n)"
  using assms by (simp_all add: ParseInt64_def Let_def del: power_numeral)

lemma ParseInt64_Itoa:
  assumes "- (2 ^ 63) \<le> i" and "i < 2 ^ 63"
  shows "ParseInt64 (Itoa i) = Some i"
proof -
  have n: "digitsValue 0 (natString m) = Some m" "hd (natString m) \<noteq> CHR ''-''"
    "hd (natString m) \<noteq> CHR ''+''" for m
    using digitsValue_natString natString_no_sign by blast+
  show ?thesis
  proof (cases "i < 0")
    case True
    then have "nat (- i) \<le> 2 ^ 63" using assms by simp
    from ParseInt64_digits(2) [OF n(1) natString_not_Nil n(2,3) this] show ?thesis
      using True by (simp add: Itoa_def)
  next
    case False
    then have "nat i < 2 ^ 63" using assms by simp
    from ParseInt64_digits(1) [OF n(1) natString_not_Nil n(2,3) this] show ?thesis
      using False by (simp add: Itoa_def)
  qed
qed

lemma natString_inject: "natString m = natString n \<Longrightarrow> m = n"
  by (metis digitsValue_natString option.inject)

lemma Itoa_inject: "Itoa i = Itoa j \<Longrightarrow> i = j"
proof (cases "i < 0"; cases "j < 0")
  assume eq: "Itoa i = Itoa j"
  have s: "natString m \<noteq> CHR ''-'' # t" for m t
    using natString_no_sign [of m] by (metis list.sel(1))
  { assume "i < 0" "j < 0" then show ?thesis using eq natString_inject by (force simp: Itoa_def) }
  { assume "i < 0" "\<not> j < 0" then show ?thesis using eq s by (metis Itoa_def) }
  { assume "\<not> i < 0" "j < 0" then show ?thesis using eq s by (metis Itoa_def) }
  { assume "\<not> i < 0" "\<not> j < 0" then show ?thesis using eq natString_inject by (force simp: Itoa_def) }
qed

end
