(* ===== verification/Domain.thy ===== *)
theory Domain
  imports GoStrings
begin

text \<open>
  The data of the program, package \<open>internal/domain\<close>: every struct is a record (its fields
  carry a prefix, since Isabelle's field names are global), every string type with named values
  is a synonym of \<^typ>\<open>string\<close> with its named constants, as in Go, where such a type also
  holds the empty string and any other. A slice is a list, a \<open>time.Time\<close> an integer that is 0
  for the zero time, a \<open>map[string]string\<close> an association list, a nilable pointer an option.
\<close>

type_synonym time = int
type_synonym metadata = "(string \<times> string) list"


section \<open>String types with named values\<close>

type_synonym FileStatus = string
type_synonym Severity = string
type_synonym MutationKind = string
type_synonym RiskType = string
type_synonym ConflictRoute = string
type_synonym EvidenceType = string
type_synonym MergeLane = string
type_synonym DecisionStatus = string
type_synonym EvidenceStatus = string
type_synonym DeploymentOutcomeKind = string
type_synonym DeploymentStrategy = string
type_synonym BlastRadius = string
type_synonym Criticality = string
type_synonym SystemKind = string

subsection \<open>File statuses\<close>

definition FileAdded :: FileStatus where
  [domain_consts]: "FileAdded = ''added''"

definition FileModified :: FileStatus where
  [domain_consts]: "FileModified = ''modified''"

definition FileRemoved :: FileStatus where
  [domain_consts]: "FileRemoved = ''removed''"

definition FileRenamed :: FileStatus where
  [domain_consts]: "FileRenamed = ''renamed''"

lemma FileStatus_distinct [simp]:
  "FileAdded \<noteq> []" "[] \<noteq> FileAdded" "FileAdded \<noteq> FileModified" "FileAdded \<noteq> FileRemoved"
  "FileAdded \<noteq> FileRenamed" "FileModified \<noteq> []" "[] \<noteq> FileModified" "FileModified \<noteq> FileAdded"
  "FileModified \<noteq> FileRemoved" "FileModified \<noteq> FileRenamed" "FileRemoved \<noteq> []" "[] \<noteq> FileRemoved"
  "FileRemoved \<noteq> FileAdded" "FileRemoved \<noteq> FileModified" "FileRemoved \<noteq> FileRenamed"
  "FileRenamed \<noteq> []" "[] \<noteq> FileRenamed" "FileRenamed \<noteq> FileAdded" "FileRenamed \<noteq> FileModified"
  "FileRenamed \<noteq> FileRemoved"
  by (simp_all add: domain_consts)

subsection \<open>Severities\<close>

definition SeverityLow :: Severity where
  [domain_consts]: "SeverityLow = ''low''"

definition SeverityMedium :: Severity where
  [domain_consts]: "SeverityMedium = ''medium''"

definition SeverityHigh :: Severity where
  [domain_consts]: "SeverityHigh = ''high''"

definition SeverityCritical :: Severity where
  [domain_consts]: "SeverityCritical = ''critical''"

lemma Severity_distinct [simp]:
  "SeverityLow \<noteq> []" "[] \<noteq> SeverityLow" "SeverityLow \<noteq> SeverityMedium"
  "SeverityLow \<noteq> SeverityHigh" "SeverityLow \<noteq> SeverityCritical" "SeverityMedium \<noteq> []"
  "[] \<noteq> SeverityMedium" "SeverityMedium \<noteq> SeverityLow" "SeverityMedium \<noteq> SeverityHigh"
  "SeverityMedium \<noteq> SeverityCritical" "SeverityHigh \<noteq> []" "[] \<noteq> SeverityHigh"
  "SeverityHigh \<noteq> SeverityLow" "SeverityHigh \<noteq> SeverityMedium" "SeverityHigh \<noteq> SeverityCritical"
  "SeverityCritical \<noteq> []" "[] \<noteq> SeverityCritical" "SeverityCritical \<noteq> SeverityLow"
  "SeverityCritical \<noteq> SeverityMedium" "SeverityCritical \<noteq> SeverityHigh"
  by (simp_all add: domain_consts)

subsection \<open>Mutation kinds\<close>

definition MutationUnknown :: MutationKind where
  [domain_consts]: "MutationUnknown = ''unknown_mutation''"

definition MutationAuthBehaviorChange :: MutationKind where
  [domain_consts]: "MutationAuthBehaviorChange = ''auth_behavior_change''"

definition MutationDatabaseSchema :: MutationKind where
  [domain_consts]: "MutationDatabaseSchema = ''database_schema_mutation''"

definition MutationRuntimeConfig :: MutationKind where
  [domain_consts]: "MutationRuntimeConfig = ''runtime_config_mutation''"

definition MutationAPIContract :: MutationKind where
  [domain_consts]: "MutationAPIContract = ''api_contract_mutation''"

definition MutationDependency :: MutationKind where
  [domain_consts]: "MutationDependency = ''dependency_mutation''"

definition MutationInfrastructure :: MutationKind where
  [domain_consts]: "MutationInfrastructure = ''infrastructure_mutation''"

definition MutationDataAccess :: MutationKind where
  [domain_consts]: "MutationDataAccess = ''data_access_mutation''"

definition MutationDeploymentWorkflow :: MutationKind where
  [domain_consts]: "MutationDeploymentWorkflow = ''deployment_workflow_mutation''"

definition MutationObservabilityContract :: MutationKind where
  [domain_consts]: "MutationObservabilityContract = ''observability_contract_mutation''"

lemma MutationKind_distinct [simp]:
  "MutationUnknown \<noteq> []" "[] \<noteq> MutationUnknown" "MutationUnknown \<noteq> MutationAuthBehaviorChange"
  "MutationUnknown \<noteq> MutationDatabaseSchema" "MutationUnknown \<noteq> MutationRuntimeConfig"
  "MutationUnknown \<noteq> MutationAPIContract" "MutationUnknown \<noteq> MutationDependency"
  "MutationUnknown \<noteq> MutationInfrastructure" "MutationUnknown \<noteq> MutationDataAccess"
  "MutationUnknown \<noteq> MutationDeploymentWorkflow"
  "MutationUnknown \<noteq> MutationObservabilityContract" "MutationAuthBehaviorChange \<noteq> []"
  "[] \<noteq> MutationAuthBehaviorChange" "MutationAuthBehaviorChange \<noteq> MutationUnknown"
  "MutationAuthBehaviorChange \<noteq> MutationDatabaseSchema"
  "MutationAuthBehaviorChange \<noteq> MutationRuntimeConfig"
  "MutationAuthBehaviorChange \<noteq> MutationAPIContract"
  "MutationAuthBehaviorChange \<noteq> MutationDependency"
  "MutationAuthBehaviorChange \<noteq> MutationInfrastructure"
  "MutationAuthBehaviorChange \<noteq> MutationDataAccess"
  "MutationAuthBehaviorChange \<noteq> MutationDeploymentWorkflow"
  "MutationAuthBehaviorChange \<noteq> MutationObservabilityContract" "MutationDatabaseSchema \<noteq> []"
  "[] \<noteq> MutationDatabaseSchema" "MutationDatabaseSchema \<noteq> MutationUnknown"
  "MutationDatabaseSchema \<noteq> MutationAuthBehaviorChange"
  "MutationDatabaseSchema \<noteq> MutationRuntimeConfig"
  "MutationDatabaseSchema \<noteq> MutationAPIContract" "MutationDatabaseSchema \<noteq> MutationDependency"
  "MutationDatabaseSchema \<noteq> MutationInfrastructure"
  "MutationDatabaseSchema \<noteq> MutationDataAccess"
  "MutationDatabaseSchema \<noteq> MutationDeploymentWorkflow"
  "MutationDatabaseSchema \<noteq> MutationObservabilityContract" "MutationRuntimeConfig \<noteq> []"
  "[] \<noteq> MutationRuntimeConfig" "MutationRuntimeConfig \<noteq> MutationUnknown"
  "MutationRuntimeConfig \<noteq> MutationAuthBehaviorChange"
  "MutationRuntimeConfig \<noteq> MutationDatabaseSchema"
  "MutationRuntimeConfig \<noteq> MutationAPIContract" "MutationRuntimeConfig \<noteq> MutationDependency"
  "MutationRuntimeConfig \<noteq> MutationInfrastructure"
  "MutationRuntimeConfig \<noteq> MutationDataAccess"
  "MutationRuntimeConfig \<noteq> MutationDeploymentWorkflow"
  "MutationRuntimeConfig \<noteq> MutationObservabilityContract" "MutationAPIContract \<noteq> []"
  "[] \<noteq> MutationAPIContract" "MutationAPIContract \<noteq> MutationUnknown"
  "MutationAPIContract \<noteq> MutationAuthBehaviorChange"
  "MutationAPIContract \<noteq> MutationDatabaseSchema" "MutationAPIContract \<noteq> MutationRuntimeConfig"
  "MutationAPIContract \<noteq> MutationDependency" "MutationAPIContract \<noteq> MutationInfrastructure"
  "MutationAPIContract \<noteq> MutationDataAccess"
  "MutationAPIContract \<noteq> MutationDeploymentWorkflow"
  "MutationAPIContract \<noteq> MutationObservabilityContract" "MutationDependency \<noteq> []"
  "[] \<noteq> MutationDependency" "MutationDependency \<noteq> MutationUnknown"
  "MutationDependency \<noteq> MutationAuthBehaviorChange"
  "MutationDependency \<noteq> MutationDatabaseSchema" "MutationDependency \<noteq> MutationRuntimeConfig"
  "MutationDependency \<noteq> MutationAPIContract" "MutationDependency \<noteq> MutationInfrastructure"
  "MutationDependency \<noteq> MutationDataAccess" "MutationDependency \<noteq> MutationDeploymentWorkflow"
  "MutationDependency \<noteq> MutationObservabilityContract" "MutationInfrastructure \<noteq> []"
  "[] \<noteq> MutationInfrastructure" "MutationInfrastructure \<noteq> MutationUnknown"
  "MutationInfrastructure \<noteq> MutationAuthBehaviorChange"
  "MutationInfrastructure \<noteq> MutationDatabaseSchema"
  "MutationInfrastructure \<noteq> MutationRuntimeConfig"
  "MutationInfrastructure \<noteq> MutationAPIContract" "MutationInfrastructure \<noteq> MutationDependency"
  "MutationInfrastructure \<noteq> MutationDataAccess"
  "MutationInfrastructure \<noteq> MutationDeploymentWorkflow"
  "MutationInfrastructure \<noteq> MutationObservabilityContract" "MutationDataAccess \<noteq> []"
  "[] \<noteq> MutationDataAccess" "MutationDataAccess \<noteq> MutationUnknown"
  "MutationDataAccess \<noteq> MutationAuthBehaviorChange"
  "MutationDataAccess \<noteq> MutationDatabaseSchema" "MutationDataAccess \<noteq> MutationRuntimeConfig"
  "MutationDataAccess \<noteq> MutationAPIContract" "MutationDataAccess \<noteq> MutationDependency"
  "MutationDataAccess \<noteq> MutationInfrastructure"
  "MutationDataAccess \<noteq> MutationDeploymentWorkflow"
  "MutationDataAccess \<noteq> MutationObservabilityContract" "MutationDeploymentWorkflow \<noteq> []"
  "[] \<noteq> MutationDeploymentWorkflow" "MutationDeploymentWorkflow \<noteq> MutationUnknown"
  "MutationDeploymentWorkflow \<noteq> MutationAuthBehaviorChange"
  "MutationDeploymentWorkflow \<noteq> MutationDatabaseSchema"
  "MutationDeploymentWorkflow \<noteq> MutationRuntimeConfig"
  "MutationDeploymentWorkflow \<noteq> MutationAPIContract"
  "MutationDeploymentWorkflow \<noteq> MutationDependency"
  "MutationDeploymentWorkflow \<noteq> MutationInfrastructure"
  "MutationDeploymentWorkflow \<noteq> MutationDataAccess"
  "MutationDeploymentWorkflow \<noteq> MutationObservabilityContract"
  "MutationObservabilityContract \<noteq> []" "[] \<noteq> MutationObservabilityContract"
  "MutationObservabilityContract \<noteq> MutationUnknown"
  "MutationObservabilityContract \<noteq> MutationAuthBehaviorChange"
  "MutationObservabilityContract \<noteq> MutationDatabaseSchema"
  "MutationObservabilityContract \<noteq> MutationRuntimeConfig"
  "MutationObservabilityContract \<noteq> MutationAPIContract"
  "MutationObservabilityContract \<noteq> MutationDependency"
  "MutationObservabilityContract \<noteq> MutationInfrastructure"
  "MutationObservabilityContract \<noteq> MutationDataAccess"
  "MutationObservabilityContract \<noteq> MutationDeploymentWorkflow"
  by (simp_all add: domain_consts)

subsection \<open>Risk types\<close>

definition RiskRuntime :: RiskType where
  [domain_consts]: "RiskRuntime = ''runtime''"

definition RiskSecurity :: RiskType where
  [domain_consts]: "RiskSecurity = ''security''"

definition RiskSchema :: RiskType where
  [domain_consts]: "RiskSchema = ''schema''"

definition RiskDependency :: RiskType where
  [domain_consts]: "RiskDependency = ''dependency''"

definition RiskRollout :: RiskType where
  [domain_consts]: "RiskRollout = ''rollout''"

definition RiskOwnership :: RiskType where
  [domain_consts]: "RiskOwnership = ''ownership''"

definition RiskConflict :: RiskType where
  [domain_consts]: "RiskConflict = ''conflict''"

lemma RiskType_distinct [simp]:
  "RiskRuntime \<noteq> []" "[] \<noteq> RiskRuntime" "RiskRuntime \<noteq> RiskSecurity" "RiskRuntime \<noteq> RiskSchema"
  "RiskRuntime \<noteq> RiskDependency" "RiskRuntime \<noteq> RiskRollout" "RiskRuntime \<noteq> RiskOwnership"
  "RiskRuntime \<noteq> RiskConflict" "RiskSecurity \<noteq> []" "[] \<noteq> RiskSecurity"
  "RiskSecurity \<noteq> RiskRuntime" "RiskSecurity \<noteq> RiskSchema" "RiskSecurity \<noteq> RiskDependency"
  "RiskSecurity \<noteq> RiskRollout" "RiskSecurity \<noteq> RiskOwnership" "RiskSecurity \<noteq> RiskConflict"
  "RiskSchema \<noteq> []" "[] \<noteq> RiskSchema" "RiskSchema \<noteq> RiskRuntime" "RiskSchema \<noteq> RiskSecurity"
  "RiskSchema \<noteq> RiskDependency" "RiskSchema \<noteq> RiskRollout" "RiskSchema \<noteq> RiskOwnership"
  "RiskSchema \<noteq> RiskConflict" "RiskDependency \<noteq> []" "[] \<noteq> RiskDependency"
  "RiskDependency \<noteq> RiskRuntime" "RiskDependency \<noteq> RiskSecurity" "RiskDependency \<noteq> RiskSchema"
  "RiskDependency \<noteq> RiskRollout" "RiskDependency \<noteq> RiskOwnership"
  "RiskDependency \<noteq> RiskConflict" "RiskRollout \<noteq> []" "[] \<noteq> RiskRollout"
  "RiskRollout \<noteq> RiskRuntime" "RiskRollout \<noteq> RiskSecurity" "RiskRollout \<noteq> RiskSchema"
  "RiskRollout \<noteq> RiskDependency" "RiskRollout \<noteq> RiskOwnership" "RiskRollout \<noteq> RiskConflict"
  "RiskOwnership \<noteq> []" "[] \<noteq> RiskOwnership" "RiskOwnership \<noteq> RiskRuntime"
  "RiskOwnership \<noteq> RiskSecurity" "RiskOwnership \<noteq> RiskSchema" "RiskOwnership \<noteq> RiskDependency"
  "RiskOwnership \<noteq> RiskRollout" "RiskOwnership \<noteq> RiskConflict" "RiskConflict \<noteq> []"
  "[] \<noteq> RiskConflict" "RiskConflict \<noteq> RiskRuntime" "RiskConflict \<noteq> RiskSecurity"
  "RiskConflict \<noteq> RiskSchema" "RiskConflict \<noteq> RiskDependency" "RiskConflict \<noteq> RiskRollout"
  "RiskConflict \<noteq> RiskOwnership"
  by (simp_all add: domain_consts)

subsection \<open>Conflict routes\<close>

definition ConflictRouteNone :: ConflictRoute where
  [domain_consts]: "ConflictRouteNone = ''none''"

definition ConflictRouteRefreshAndVerify :: ConflictRoute where
  [domain_consts]: "ConflictRouteRefreshAndVerify = ''refresh_and_verify''"

definition ConflictRouteHumanResolution :: ConflictRoute where
  [domain_consts]: "ConflictRouteHumanResolution = ''human_resolution''"

lemma ConflictRoute_distinct [simp]:
  "ConflictRouteNone \<noteq> []" "[] \<noteq> ConflictRouteNone"
  "ConflictRouteNone \<noteq> ConflictRouteRefreshAndVerify"
  "ConflictRouteNone \<noteq> ConflictRouteHumanResolution" "ConflictRouteRefreshAndVerify \<noteq> []"
  "[] \<noteq> ConflictRouteRefreshAndVerify" "ConflictRouteRefreshAndVerify \<noteq> ConflictRouteNone"
  "ConflictRouteRefreshAndVerify \<noteq> ConflictRouteHumanResolution"
  "ConflictRouteHumanResolution \<noteq> []" "[] \<noteq> ConflictRouteHumanResolution"
  "ConflictRouteHumanResolution \<noteq> ConflictRouteNone"
  "ConflictRouteHumanResolution \<noteq> ConflictRouteRefreshAndVerify"
  by (simp_all add: domain_consts)

subsection \<open>Evidence types\<close>

definition EvidenceUnitTests :: EvidenceType where
  [domain_consts]: "EvidenceUnitTests = ''unit_tests''"

definition EvidenceIntegrationTests :: EvidenceType where
  [domain_consts]: "EvidenceIntegrationTests = ''integration_tests''"

definition EvidenceAuthTests :: EvidenceType where
  [domain_consts]: "EvidenceAuthTests = ''auth_integration_tests''"

definition EvidenceMigrationPlan :: EvidenceType where
  [domain_consts]: "EvidenceMigrationPlan = ''migration_plan''"

definition EvidenceRollbackPlan :: EvidenceType where
  [domain_consts]: "EvidenceRollbackPlan = ''rollback_plan''"

definition EvidenceSecurityReview :: EvidenceType where
  [domain_consts]: "EvidenceSecurityReview = ''security_review''"

definition EvidenceRuntimeCanary :: EvidenceType where
  [domain_consts]: "EvidenceRuntimeCanary = ''runtime_canary''"

definition EvidenceContractTests :: EvidenceType where
  [domain_consts]: "EvidenceContractTests = ''contract_tests''"

lemma EvidenceType_distinct [simp]:
  "EvidenceUnitTests \<noteq> []" "[] \<noteq> EvidenceUnitTests"
  "EvidenceUnitTests \<noteq> EvidenceIntegrationTests" "EvidenceUnitTests \<noteq> EvidenceAuthTests"
  "EvidenceUnitTests \<noteq> EvidenceMigrationPlan" "EvidenceUnitTests \<noteq> EvidenceRollbackPlan"
  "EvidenceUnitTests \<noteq> EvidenceSecurityReview" "EvidenceUnitTests \<noteq> EvidenceRuntimeCanary"
  "EvidenceUnitTests \<noteq> EvidenceContractTests" "EvidenceIntegrationTests \<noteq> []"
  "[] \<noteq> EvidenceIntegrationTests" "EvidenceIntegrationTests \<noteq> EvidenceUnitTests"
  "EvidenceIntegrationTests \<noteq> EvidenceAuthTests"
  "EvidenceIntegrationTests \<noteq> EvidenceMigrationPlan"
  "EvidenceIntegrationTests \<noteq> EvidenceRollbackPlan"
  "EvidenceIntegrationTests \<noteq> EvidenceSecurityReview"
  "EvidenceIntegrationTests \<noteq> EvidenceRuntimeCanary"
  "EvidenceIntegrationTests \<noteq> EvidenceContractTests" "EvidenceAuthTests \<noteq> []"
  "[] \<noteq> EvidenceAuthTests" "EvidenceAuthTests \<noteq> EvidenceUnitTests"
  "EvidenceAuthTests \<noteq> EvidenceIntegrationTests" "EvidenceAuthTests \<noteq> EvidenceMigrationPlan"
  "EvidenceAuthTests \<noteq> EvidenceRollbackPlan" "EvidenceAuthTests \<noteq> EvidenceSecurityReview"
  "EvidenceAuthTests \<noteq> EvidenceRuntimeCanary" "EvidenceAuthTests \<noteq> EvidenceContractTests"
  "EvidenceMigrationPlan \<noteq> []" "[] \<noteq> EvidenceMigrationPlan"
  "EvidenceMigrationPlan \<noteq> EvidenceUnitTests"
  "EvidenceMigrationPlan \<noteq> EvidenceIntegrationTests"
  "EvidenceMigrationPlan \<noteq> EvidenceAuthTests" "EvidenceMigrationPlan \<noteq> EvidenceRollbackPlan"
  "EvidenceMigrationPlan \<noteq> EvidenceSecurityReview"
  "EvidenceMigrationPlan \<noteq> EvidenceRuntimeCanary"
  "EvidenceMigrationPlan \<noteq> EvidenceContractTests" "EvidenceRollbackPlan \<noteq> []"
  "[] \<noteq> EvidenceRollbackPlan" "EvidenceRollbackPlan \<noteq> EvidenceUnitTests"
  "EvidenceRollbackPlan \<noteq> EvidenceIntegrationTests" "EvidenceRollbackPlan \<noteq> EvidenceAuthTests"
  "EvidenceRollbackPlan \<noteq> EvidenceMigrationPlan"
  "EvidenceRollbackPlan \<noteq> EvidenceSecurityReview"
  "EvidenceRollbackPlan \<noteq> EvidenceRuntimeCanary"
  "EvidenceRollbackPlan \<noteq> EvidenceContractTests" "EvidenceSecurityReview \<noteq> []"
  "[] \<noteq> EvidenceSecurityReview" "EvidenceSecurityReview \<noteq> EvidenceUnitTests"
  "EvidenceSecurityReview \<noteq> EvidenceIntegrationTests"
  "EvidenceSecurityReview \<noteq> EvidenceAuthTests"
  "EvidenceSecurityReview \<noteq> EvidenceMigrationPlan"
  "EvidenceSecurityReview \<noteq> EvidenceRollbackPlan"
  "EvidenceSecurityReview \<noteq> EvidenceRuntimeCanary"
  "EvidenceSecurityReview \<noteq> EvidenceContractTests" "EvidenceRuntimeCanary \<noteq> []"
  "[] \<noteq> EvidenceRuntimeCanary" "EvidenceRuntimeCanary \<noteq> EvidenceUnitTests"
  "EvidenceRuntimeCanary \<noteq> EvidenceIntegrationTests"
  "EvidenceRuntimeCanary \<noteq> EvidenceAuthTests" "EvidenceRuntimeCanary \<noteq> EvidenceMigrationPlan"
  "EvidenceRuntimeCanary \<noteq> EvidenceRollbackPlan"
  "EvidenceRuntimeCanary \<noteq> EvidenceSecurityReview"
  "EvidenceRuntimeCanary \<noteq> EvidenceContractTests" "EvidenceContractTests \<noteq> []"
  "[] \<noteq> EvidenceContractTests" "EvidenceContractTests \<noteq> EvidenceUnitTests"
  "EvidenceContractTests \<noteq> EvidenceIntegrationTests"
  "EvidenceContractTests \<noteq> EvidenceAuthTests" "EvidenceContractTests \<noteq> EvidenceMigrationPlan"
  "EvidenceContractTests \<noteq> EvidenceRollbackPlan"
  "EvidenceContractTests \<noteq> EvidenceSecurityReview"
  "EvidenceContractTests \<noteq> EvidenceRuntimeCanary"
  by (simp_all add: domain_consts)

subsection \<open>Merge lanes\<close>

definition MergeLaneGreen :: MergeLane where
  [domain_consts]: "MergeLaneGreen = ''GREEN''"

definition MergeLaneYellow :: MergeLane where
  [domain_consts]: "MergeLaneYellow = ''YELLOW''"

definition MergeLaneRed :: MergeLane where
  [domain_consts]: "MergeLaneRed = ''RED''"

definition MergeLaneBlack :: MergeLane where
  [domain_consts]: "MergeLaneBlack = ''BLACK''"

lemma MergeLane_distinct [simp]:
  "MergeLaneGreen \<noteq> []" "[] \<noteq> MergeLaneGreen" "MergeLaneGreen \<noteq> MergeLaneYellow"
  "MergeLaneGreen \<noteq> MergeLaneRed" "MergeLaneGreen \<noteq> MergeLaneBlack" "MergeLaneYellow \<noteq> []"
  "[] \<noteq> MergeLaneYellow" "MergeLaneYellow \<noteq> MergeLaneGreen" "MergeLaneYellow \<noteq> MergeLaneRed"
  "MergeLaneYellow \<noteq> MergeLaneBlack" "MergeLaneRed \<noteq> []" "[] \<noteq> MergeLaneRed"
  "MergeLaneRed \<noteq> MergeLaneGreen" "MergeLaneRed \<noteq> MergeLaneYellow"
  "MergeLaneRed \<noteq> MergeLaneBlack" "MergeLaneBlack \<noteq> []" "[] \<noteq> MergeLaneBlack"
  "MergeLaneBlack \<noteq> MergeLaneGreen" "MergeLaneBlack \<noteq> MergeLaneYellow"
  "MergeLaneBlack \<noteq> MergeLaneRed"
  by (simp_all add: domain_consts)

subsection \<open>Decision statuses\<close>

definition DecisionPending :: DecisionStatus where
  [domain_consts]: "DecisionPending = ''pending''"

definition DecisionApproved :: DecisionStatus where
  [domain_consts]: "DecisionApproved = ''approved''"

definition DecisionEscalated :: DecisionStatus where
  [domain_consts]: "DecisionEscalated = ''escalated''"

definition DecisionBlocked :: DecisionStatus where
  [domain_consts]: "DecisionBlocked = ''blocked''"

lemma DecisionStatus_distinct [simp]:
  "DecisionPending \<noteq> []" "[] \<noteq> DecisionPending" "DecisionPending \<noteq> DecisionApproved"
  "DecisionPending \<noteq> DecisionEscalated" "DecisionPending \<noteq> DecisionBlocked"
  "DecisionApproved \<noteq> []" "[] \<noteq> DecisionApproved" "DecisionApproved \<noteq> DecisionPending"
  "DecisionApproved \<noteq> DecisionEscalated" "DecisionApproved \<noteq> DecisionBlocked"
  "DecisionEscalated \<noteq> []" "[] \<noteq> DecisionEscalated" "DecisionEscalated \<noteq> DecisionPending"
  "DecisionEscalated \<noteq> DecisionApproved" "DecisionEscalated \<noteq> DecisionBlocked"
  "DecisionBlocked \<noteq> []" "[] \<noteq> DecisionBlocked" "DecisionBlocked \<noteq> DecisionPending"
  "DecisionBlocked \<noteq> DecisionApproved" "DecisionBlocked \<noteq> DecisionEscalated"
  by (simp_all add: domain_consts)

subsection \<open>Evidence statuses\<close>

definition EvidencePending :: EvidenceStatus where
  [domain_consts]: "EvidencePending = ''pending''"

definition EvidenceRunning :: EvidenceStatus where
  [domain_consts]: "EvidenceRunning = ''running''"

definition EvidenceSatisfied :: EvidenceStatus where
  [domain_consts]: "EvidenceSatisfied = ''satisfied''"

definition EvidenceFailed :: EvidenceStatus where
  [domain_consts]: "EvidenceFailed = ''failed''"

definition EvidenceWaived :: EvidenceStatus where
  [domain_consts]: "EvidenceWaived = ''waived''"

lemma EvidenceStatus_distinct [simp]:
  "EvidencePending \<noteq> []" "[] \<noteq> EvidencePending" "EvidencePending \<noteq> EvidenceRunning"
  "EvidencePending \<noteq> EvidenceSatisfied" "EvidencePending \<noteq> EvidenceFailed"
  "EvidencePending \<noteq> EvidenceWaived" "EvidenceRunning \<noteq> []" "[] \<noteq> EvidenceRunning"
  "EvidenceRunning \<noteq> EvidencePending" "EvidenceRunning \<noteq> EvidenceSatisfied"
  "EvidenceRunning \<noteq> EvidenceFailed" "EvidenceRunning \<noteq> EvidenceWaived" "EvidenceSatisfied \<noteq> []"
  "[] \<noteq> EvidenceSatisfied" "EvidenceSatisfied \<noteq> EvidencePending"
  "EvidenceSatisfied \<noteq> EvidenceRunning" "EvidenceSatisfied \<noteq> EvidenceFailed"
  "EvidenceSatisfied \<noteq> EvidenceWaived" "EvidenceFailed \<noteq> []" "[] \<noteq> EvidenceFailed"
  "EvidenceFailed \<noteq> EvidencePending" "EvidenceFailed \<noteq> EvidenceRunning"
  "EvidenceFailed \<noteq> EvidenceSatisfied" "EvidenceFailed \<noteq> EvidenceWaived" "EvidenceWaived \<noteq> []"
  "[] \<noteq> EvidenceWaived" "EvidenceWaived \<noteq> EvidencePending" "EvidenceWaived \<noteq> EvidenceRunning"
  "EvidenceWaived \<noteq> EvidenceSatisfied" "EvidenceWaived \<noteq> EvidenceFailed"
  by (simp_all add: domain_consts)

subsection \<open>Deployment outcomes\<close>

definition DeploymentOutcomeSuccess :: DeploymentOutcomeKind where
  [domain_consts]: "DeploymentOutcomeSuccess = ''success''"

definition DeploymentOutcomeRollback :: DeploymentOutcomeKind where
  [domain_consts]: "DeploymentOutcomeRollback = ''rollback''"

definition DeploymentOutcomeIncident :: DeploymentOutcomeKind where
  [domain_consts]: "DeploymentOutcomeIncident = ''incident''"

lemma DeploymentOutcomeKind_distinct [simp]:
  "DeploymentOutcomeSuccess \<noteq> []" "[] \<noteq> DeploymentOutcomeSuccess"
  "DeploymentOutcomeSuccess \<noteq> DeploymentOutcomeRollback"
  "DeploymentOutcomeSuccess \<noteq> DeploymentOutcomeIncident" "DeploymentOutcomeRollback \<noteq> []"
  "[] \<noteq> DeploymentOutcomeRollback" "DeploymentOutcomeRollback \<noteq> DeploymentOutcomeSuccess"
  "DeploymentOutcomeRollback \<noteq> DeploymentOutcomeIncident" "DeploymentOutcomeIncident \<noteq> []"
  "[] \<noteq> DeploymentOutcomeIncident" "DeploymentOutcomeIncident \<noteq> DeploymentOutcomeSuccess"
  "DeploymentOutcomeIncident \<noteq> DeploymentOutcomeRollback"
  by (simp_all add: domain_consts)

subsection \<open>Deployment strategies\<close>

definition DeployDirect :: DeploymentStrategy where
  [domain_consts]: "DeployDirect = ''direct''"

definition DeployCanary :: DeploymentStrategy where
  [domain_consts]: "DeployCanary = ''canary''"

definition DeployPhased :: DeploymentStrategy where
  [domain_consts]: "DeployPhased = ''phased''"

definition DeployManualApproval :: DeploymentStrategy where
  [domain_consts]: "DeployManualApproval = ''manual_approval''"

lemma DeploymentStrategy_distinct [simp]:
  "DeployDirect \<noteq> []" "[] \<noteq> DeployDirect" "DeployDirect \<noteq> DeployCanary"
  "DeployDirect \<noteq> DeployPhased" "DeployDirect \<noteq> DeployManualApproval" "DeployCanary \<noteq> []"
  "[] \<noteq> DeployCanary" "DeployCanary \<noteq> DeployDirect" "DeployCanary \<noteq> DeployPhased"
  "DeployCanary \<noteq> DeployManualApproval" "DeployPhased \<noteq> []" "[] \<noteq> DeployPhased"
  "DeployPhased \<noteq> DeployDirect" "DeployPhased \<noteq> DeployCanary"
  "DeployPhased \<noteq> DeployManualApproval" "DeployManualApproval \<noteq> []" "[] \<noteq> DeployManualApproval"
  "DeployManualApproval \<noteq> DeployDirect" "DeployManualApproval \<noteq> DeployCanary"
  "DeployManualApproval \<noteq> DeployPhased"
  by (simp_all add: domain_consts)

subsection \<open>Blast radii\<close>

definition BlastRadiusUnknown :: BlastRadius where
  [domain_consts]: "BlastRadiusUnknown = ''unknown''"

definition BlastRadiusIsolated :: BlastRadius where
  [domain_consts]: "BlastRadiusIsolated = ''isolated''"

definition BlastRadiusLocalized :: BlastRadius where
  [domain_consts]: "BlastRadiusLocalized = ''localized''"

definition BlastRadiusSystemic :: BlastRadius where
  [domain_consts]: "BlastRadiusSystemic = ''systemic''"

lemma BlastRadius_distinct [simp]:
  "BlastRadiusUnknown \<noteq> []" "[] \<noteq> BlastRadiusUnknown" "BlastRadiusUnknown \<noteq> BlastRadiusIsolated"
  "BlastRadiusUnknown \<noteq> BlastRadiusLocalized" "BlastRadiusUnknown \<noteq> BlastRadiusSystemic"
  "BlastRadiusIsolated \<noteq> []" "[] \<noteq> BlastRadiusIsolated"
  "BlastRadiusIsolated \<noteq> BlastRadiusUnknown" "BlastRadiusIsolated \<noteq> BlastRadiusLocalized"
  "BlastRadiusIsolated \<noteq> BlastRadiusSystemic" "BlastRadiusLocalized \<noteq> []"
  "[] \<noteq> BlastRadiusLocalized" "BlastRadiusLocalized \<noteq> BlastRadiusUnknown"
  "BlastRadiusLocalized \<noteq> BlastRadiusIsolated" "BlastRadiusLocalized \<noteq> BlastRadiusSystemic"
  "BlastRadiusSystemic \<noteq> []" "[] \<noteq> BlastRadiusSystemic"
  "BlastRadiusSystemic \<noteq> BlastRadiusUnknown" "BlastRadiusSystemic \<noteq> BlastRadiusIsolated"
  "BlastRadiusSystemic \<noteq> BlastRadiusLocalized"
  by (simp_all add: domain_consts)

subsection \<open>Criticalities\<close>

definition CriticalityLow :: Criticality where
  [domain_consts]: "CriticalityLow = ''low''"

definition CriticalityNormal :: Criticality where
  [domain_consts]: "CriticalityNormal = ''normal''"

definition CriticalityHigh :: Criticality where
  [domain_consts]: "CriticalityHigh = ''high''"

definition CriticalityTier0 :: Criticality where
  [domain_consts]: "CriticalityTier0 = ''tier0''"

lemma Criticality_distinct [simp]:
  "CriticalityLow \<noteq> []" "[] \<noteq> CriticalityLow" "CriticalityLow \<noteq> CriticalityNormal"
  "CriticalityLow \<noteq> CriticalityHigh" "CriticalityLow \<noteq> CriticalityTier0"
  "CriticalityNormal \<noteq> []" "[] \<noteq> CriticalityNormal" "CriticalityNormal \<noteq> CriticalityLow"
  "CriticalityNormal \<noteq> CriticalityHigh" "CriticalityNormal \<noteq> CriticalityTier0"
  "CriticalityHigh \<noteq> []" "[] \<noteq> CriticalityHigh" "CriticalityHigh \<noteq> CriticalityLow"
  "CriticalityHigh \<noteq> CriticalityNormal" "CriticalityHigh \<noteq> CriticalityTier0"
  "CriticalityTier0 \<noteq> []" "[] \<noteq> CriticalityTier0" "CriticalityTier0 \<noteq> CriticalityLow"
  "CriticalityTier0 \<noteq> CriticalityNormal" "CriticalityTier0 \<noteq> CriticalityHigh"
  by (simp_all add: domain_consts)

subsection \<open>System kinds\<close>

definition SystemService :: SystemKind where
  [domain_consts]: "SystemService = ''service''"

definition SystemAPI :: SystemKind where
  [domain_consts]: "SystemAPI = ''api''"

definition SystemDatabase :: SystemKind where
  [domain_consts]: "SystemDatabase = ''database''"

definition SystemQueue :: SystemKind where
  [domain_consts]: "SystemQueue = ''queue''"

definition SystemInfra :: SystemKind where
  [domain_consts]: "SystemInfra = ''infra''"

lemma SystemKind_distinct [simp]:
  "SystemService \<noteq> []" "[] \<noteq> SystemService" "SystemService \<noteq> SystemAPI"
  "SystemService \<noteq> SystemDatabase" "SystemService \<noteq> SystemQueue" "SystemService \<noteq> SystemInfra"
  "SystemAPI \<noteq> []" "[] \<noteq> SystemAPI" "SystemAPI \<noteq> SystemService" "SystemAPI \<noteq> SystemDatabase"
  "SystemAPI \<noteq> SystemQueue" "SystemAPI \<noteq> SystemInfra" "SystemDatabase \<noteq> []" "[] \<noteq> SystemDatabase"
  "SystemDatabase \<noteq> SystemService" "SystemDatabase \<noteq> SystemAPI" "SystemDatabase \<noteq> SystemQueue"
  "SystemDatabase \<noteq> SystemInfra" "SystemQueue \<noteq> []" "[] \<noteq> SystemQueue"
  "SystemQueue \<noteq> SystemService" "SystemQueue \<noteq> SystemAPI" "SystemQueue \<noteq> SystemDatabase"
  "SystemQueue \<noteq> SystemInfra" "SystemInfra \<noteq> []" "[] \<noteq> SystemInfra" "SystemInfra \<noteq> SystemService"
  "SystemInfra \<noteq> SystemAPI" "SystemInfra \<noteq> SystemDatabase" "SystemInfra \<noteq> SystemQueue"
  by (simp_all add: domain_consts)

section \<open>Structs\<close>

record Author =
  au_Login :: string
  au_DisplayName :: string
  au_Email :: string
  au_Type :: string

record ChangedFile =
  cf_Path :: string
  cf_PreviousPath :: string
  cf_Language :: string
  cf_Status :: FileStatus
  cf_Additions :: int
  cf_Deletions :: int
  cf_Changes :: int
  cf_Patch :: string

record RepoRef =
  rr_Owner :: string
  rr_Name :: string
  rr_FullName :: string
  rr_DefaultBranch :: string

record PullRequestRef =
  pr_Number :: int
  pr_URL :: string
  pr_HeadSHA :: string
  pr_BaseSHA :: string

record RiskSummary =
  rs_Score :: int
  rs_Severity :: Severity
  rs_Contributors :: "RiskType list"

record MutationSignal =
  ms_Source :: string
  ms_Value :: string
  ms_Weight :: int

record Mutation =
  mu_ID :: string
  mu_Kind :: MutationKind
  mu_Severity :: Severity
  mu_Confidence :: rat
  mu_Title :: string
  mu_Description :: string
  mu_Files :: "string list"
  mu_Signals :: "MutationSignal list"
  mu_Detector :: string
  mu_Metadata :: metadata

record Risk =
  ri_Type :: RiskType
  ri_Score :: int
  ri_Severity :: Severity
  ri_Summary :: string
  ri_Reason :: string
  ri_AffectedSystems :: "string list"
  ri_Mitigations :: "string list"

record ConflictFinding =
  fi_Kind :: string
  fi_Severity :: Severity
  fi_Summary :: string
  fi_Paths :: "string list"

record ConflictAssessment =
  ca_BaseSHA :: string
  ca_CurrentBaseSHA :: string
  ca_Route :: ConflictRoute
  ca_Score :: int
  ca_RequiresHumanResolution :: bool
  ca_Findings :: "ConflictFinding list"
  ca_Mitigations :: "string list"

record GitHubCheckBinding =
  gb_Name :: string
  gb_AppID :: int

record EvidenceRequirement =
  er_Type :: EvidenceType
  er_Name :: string
  er_Required :: bool
  er_Reason :: string
  er_Producer :: string
  er_GitHubCheck :: "GitHubCheckBinding option"

record PolicyViolation =
  pv_Policy :: string
  pv_Reason :: string
  pv_Severity :: Severity

record PolicyDecision =
  pd_Status :: DecisionStatus
  pd_Summary :: string
  pd_Reasons :: "string list"
  pd_Violations :: "PolicyViolation list"
  pd_AppliedPolicies :: "string list"
  pd_MinimumLane :: MergeLane
  pd_DecidedAt :: time

record EvidenceExecution =
  ee_ChangePacketID :: string
  ee_Name :: string
  ee_Type :: EvidenceType
  ee_Status :: EvidenceStatus
  ee_Required :: bool
  ee_Summary :: string
  ee_DetailsURL :: string
  ee_UpdatedBy :: string
  ee_Metadata :: metadata
  ee_UpdatedAt :: time

record EvidenceAuditEntry =
  ae_ID :: string
  ae_ChangePacketID :: string
  ae_EvidenceName :: string
  ae_FromStatus :: EvidenceStatus
  ae_ToStatus :: EvidenceStatus
  ae_Actor :: string
  ae_Summary :: string
  ae_DetailsURL :: string
  ae_Metadata :: metadata
  ae_OccurredAt :: time

record DeploymentOutcome =
  do_ID :: string
  do_ChangePacketID :: string
  do_Outcome :: DeploymentOutcomeKind
  do_Source :: string
  do_Lane :: MergeLane
  do_RiskTypes :: "RiskType list"
  do_ObservedAt :: time

record RiskCalibrationMetric =
  cm_Dimension :: string
  cm_Value :: string
  cm_Samples :: int
  cm_Adverse :: int
  cm_AdverseRate :: rat
  cm_Recommendation :: string

record RiskCalibrationReport =
  cr_GeneratedAt :: time
  cr_ByRiskType :: "RiskCalibrationMetric list"
  cr_ByLane :: "RiskCalibrationMetric list"

record ReviewerRequirement =
  rv_Team :: string
  rv_Reason :: string
  rv_Mandatory :: bool
  rv_MaxReviewers :: int

record DeploymentRequirement =
  dr_Strategy :: DeploymentStrategy
  dr_Environments :: "string list"
  dr_RequiresCanary :: bool
  dr_RequiresRollbackPlan :: bool
  dr_FreezeWindow :: string
  dr_Owners :: "string list"

record SystemRef =
  sr_Kind :: SystemKind
  sr_Name :: string
  sr_Namespace :: string
  sr_Owner :: string
  sr_Criticality :: Criticality

record RuntimeImpact =
  im_BlastRadius :: BlastRadius
  im_Criticality :: Criticality
  im_Services :: "SystemRef list"
  im_APIs :: "SystemRef list"
  im_Datastores :: "SystemRef list"
  im_Queues :: "SystemRef list"
  im_Notes :: "string list"

record OwnershipBoundary =
  ob_Domain :: string
  ob_Team :: string
  ob_Systems :: "string list"
  ob_Escalation :: string
  ob_Critical :: bool

record ChangePacket =
  cp_ID :: string
  cp_Repo :: RepoRef
  cp_PR :: PullRequestRef
  cp_Author :: Author
  cp_Title :: string
  cp_Summary :: string
  cp_Source :: string
  cp_Files :: "ChangedFile list"
  cp_Mutations :: "Mutation list"
  cp_Risks :: "Risk list"
  cp_RiskSummary :: RiskSummary
  cp_Conflict :: ConflictAssessment
  cp_Evidence :: "EvidenceRequirement list"
  cp_Runtime :: RuntimeImpact
  cp_Ownership :: "OwnershipBoundary list"
  cp_Reviewers :: "ReviewerRequirement list"
  cp_Deployment :: DeploymentRequirement
  cp_MergeLane :: MergeLane
  cp_Decision :: PolicyDecision
  cp_Metadata :: metadata
  cp_CreatedAt :: time
  cp_UpdatedAt :: time

section \<open>Zero values\<close>

text \<open>Go's zero value of each struct: what \<^verbatim>\<open>T{}\<close> and a failed call return.\<close>

definition zeroAuthor :: Author where
  [zero_defs]: "zeroAuthor =
    \<lparr>au_Login = [],
     au_DisplayName = [],
     au_Email = [],
     au_Type = []\<rparr>"

definition zeroChangedFile :: ChangedFile where
  [zero_defs]: "zeroChangedFile =
    \<lparr>cf_Path = [],
     cf_PreviousPath = [],
     cf_Language = [],
     cf_Status = [],
     cf_Additions = 0,
     cf_Deletions = 0,
     cf_Changes = 0,
     cf_Patch = []\<rparr>"

definition zeroRepoRef :: RepoRef where
  [zero_defs]: "zeroRepoRef =
    \<lparr>rr_Owner = [],
     rr_Name = [],
     rr_FullName = [],
     rr_DefaultBranch = []\<rparr>"

definition zeroPullRequestRef :: PullRequestRef where
  [zero_defs]: "zeroPullRequestRef =
    \<lparr>pr_Number = 0,
     pr_URL = [],
     pr_HeadSHA = [],
     pr_BaseSHA = []\<rparr>"

definition zeroRiskSummary :: RiskSummary where
  [zero_defs]: "zeroRiskSummary =
    \<lparr>rs_Score = 0,
     rs_Severity = [],
     rs_Contributors = []\<rparr>"

definition zeroMutationSignal :: MutationSignal where
  [zero_defs]: "zeroMutationSignal =
    \<lparr>ms_Source = [],
     ms_Value = [],
     ms_Weight = 0\<rparr>"

definition zeroMutation :: Mutation where
  [zero_defs]: "zeroMutation =
    \<lparr>mu_ID = [],
     mu_Kind = [],
     mu_Severity = [],
     mu_Confidence = 0,
     mu_Title = [],
     mu_Description = [],
     mu_Files = [],
     mu_Signals = [],
     mu_Detector = [],
     mu_Metadata = []\<rparr>"

definition zeroRisk :: Risk where
  [zero_defs]: "zeroRisk =
    \<lparr>ri_Type = [],
     ri_Score = 0,
     ri_Severity = [],
     ri_Summary = [],
     ri_Reason = [],
     ri_AffectedSystems = [],
     ri_Mitigations = []\<rparr>"

definition zeroConflictFinding :: ConflictFinding where
  [zero_defs]: "zeroConflictFinding =
    \<lparr>fi_Kind = [],
     fi_Severity = [],
     fi_Summary = [],
     fi_Paths = []\<rparr>"

definition zeroConflictAssessment :: ConflictAssessment where
  [zero_defs]: "zeroConflictAssessment =
    \<lparr>ca_BaseSHA = [],
     ca_CurrentBaseSHA = [],
     ca_Route = [],
     ca_Score = 0,
     ca_RequiresHumanResolution = False,
     ca_Findings = [],
     ca_Mitigations = []\<rparr>"

definition zeroGitHubCheckBinding :: GitHubCheckBinding where
  [zero_defs]: "zeroGitHubCheckBinding =
    \<lparr>gb_Name = [],
     gb_AppID = 0\<rparr>"

definition zeroEvidenceRequirement :: EvidenceRequirement where
  [zero_defs]: "zeroEvidenceRequirement =
    \<lparr>er_Type = [],
     er_Name = [],
     er_Required = False,
     er_Reason = [],
     er_Producer = [],
     er_GitHubCheck = None\<rparr>"

definition zeroPolicyViolation :: PolicyViolation where
  [zero_defs]: "zeroPolicyViolation =
    \<lparr>pv_Policy = [],
     pv_Reason = [],
     pv_Severity = []\<rparr>"

definition zeroPolicyDecision :: PolicyDecision where
  [zero_defs]: "zeroPolicyDecision =
    \<lparr>pd_Status = [],
     pd_Summary = [],
     pd_Reasons = [],
     pd_Violations = [],
     pd_AppliedPolicies = [],
     pd_MinimumLane = [],
     pd_DecidedAt = 0\<rparr>"

definition zeroEvidenceExecution :: EvidenceExecution where
  [zero_defs]: "zeroEvidenceExecution =
    \<lparr>ee_ChangePacketID = [],
     ee_Name = [],
     ee_Type = [],
     ee_Status = [],
     ee_Required = False,
     ee_Summary = [],
     ee_DetailsURL = [],
     ee_UpdatedBy = [],
     ee_Metadata = [],
     ee_UpdatedAt = 0\<rparr>"

definition zeroEvidenceAuditEntry :: EvidenceAuditEntry where
  [zero_defs]: "zeroEvidenceAuditEntry =
    \<lparr>ae_ID = [],
     ae_ChangePacketID = [],
     ae_EvidenceName = [],
     ae_FromStatus = [],
     ae_ToStatus = [],
     ae_Actor = [],
     ae_Summary = [],
     ae_DetailsURL = [],
     ae_Metadata = [],
     ae_OccurredAt = 0\<rparr>"

definition zeroDeploymentOutcome :: DeploymentOutcome where
  [zero_defs]: "zeroDeploymentOutcome =
    \<lparr>do_ID = [],
     do_ChangePacketID = [],
     do_Outcome = [],
     do_Source = [],
     do_Lane = [],
     do_RiskTypes = [],
     do_ObservedAt = 0\<rparr>"

definition zeroRiskCalibrationMetric :: RiskCalibrationMetric where
  [zero_defs]: "zeroRiskCalibrationMetric =
    \<lparr>cm_Dimension = [],
     cm_Value = [],
     cm_Samples = 0,
     cm_Adverse = 0,
     cm_AdverseRate = 0,
     cm_Recommendation = []\<rparr>"

definition zeroRiskCalibrationReport :: RiskCalibrationReport where
  [zero_defs]: "zeroRiskCalibrationReport =
    \<lparr>cr_GeneratedAt = 0,
     cr_ByRiskType = [],
     cr_ByLane = []\<rparr>"

definition zeroReviewerRequirement :: ReviewerRequirement where
  [zero_defs]: "zeroReviewerRequirement =
    \<lparr>rv_Team = [],
     rv_Reason = [],
     rv_Mandatory = False,
     rv_MaxReviewers = 0\<rparr>"

definition zeroDeploymentRequirement :: DeploymentRequirement where
  [zero_defs]: "zeroDeploymentRequirement =
    \<lparr>dr_Strategy = [],
     dr_Environments = [],
     dr_RequiresCanary = False,
     dr_RequiresRollbackPlan = False,
     dr_FreezeWindow = [],
     dr_Owners = []\<rparr>"

definition zeroSystemRef :: SystemRef where
  [zero_defs]: "zeroSystemRef =
    \<lparr>sr_Kind = [],
     sr_Name = [],
     sr_Namespace = [],
     sr_Owner = [],
     sr_Criticality = []\<rparr>"

definition zeroRuntimeImpact :: RuntimeImpact where
  [zero_defs]: "zeroRuntimeImpact =
    \<lparr>im_BlastRadius = [],
     im_Criticality = [],
     im_Services = [],
     im_APIs = [],
     im_Datastores = [],
     im_Queues = [],
     im_Notes = []\<rparr>"

definition zeroOwnershipBoundary :: OwnershipBoundary where
  [zero_defs]: "zeroOwnershipBoundary =
    \<lparr>ob_Domain = [],
     ob_Team = [],
     ob_Systems = [],
     ob_Escalation = [],
     ob_Critical = False\<rparr>"

definition zeroChangePacket :: ChangePacket where
  [zero_defs]: "zeroChangePacket =
    \<lparr>cp_ID = [],
     cp_Repo = zeroRepoRef,
     cp_PR = zeroPullRequestRef,
     cp_Author = zeroAuthor,
     cp_Title = [],
     cp_Summary = [],
     cp_Source = [],
     cp_Files = [],
     cp_Mutations = [],
     cp_Risks = [],
     cp_RiskSummary = zeroRiskSummary,
     cp_Conflict = zeroConflictAssessment,
     cp_Evidence = [],
     cp_Runtime = zeroRuntimeImpact,
     cp_Ownership = [],
     cp_Reviewers = [],
     cp_Deployment = zeroDeploymentRequirement,
     cp_MergeLane = [],
     cp_Decision = zeroPolicyDecision,
     cp_Metadata = [],
     cp_CreatedAt = 0,
     cp_UpdatedAt = 0\<rparr>"

end
