(* ===== verification/Effects.thy ===== *)
theory Effects
  imports Prelude
begin

text \<open>
  Operations with effects. A Go method that reads or changes shared state and may fail is a
  function from a world to a result and a world; the world after a failed call is kept, because
  a Go function that returns an error does not undo what it has done.
\<close>

type_synonym ('w, 'e, 'a) io = "'w \<Rightarrow> ('e + 'a) \<times> 'w"

definition retM :: "'a \<Rightarrow> ('w, 'e, 'a) io" where
  "retM a w = (Inr a, w)"

definition failM :: "'e \<Rightarrow> ('w, 'e, 'a) io" where
  "failM e w = (Inl e, w)"

definition bindM :: "('w, 'e, 'a) io \<Rightarrow> ('a \<Rightarrow> ('w, 'e, 'b) io) \<Rightarrow> ('w, 'e, 'b) io" where
  "bindM m f w = (case m w of (Inl e, w') \<Rightarrow> (Inl e, w') | (Inr a, w') \<Rightarrow> f a w')"

definition liftM :: "'e + 'a \<Rightarrow> ('w, 'e, 'a) io" where
  "liftM r w = (r, w)"

definition wrapM :: "('d \<Rightarrow> 'e) \<Rightarrow> ('w, 'd, 'a) io \<Rightarrow> ('w, 'e, 'a) io" where
  \<comment> \<open>wrapping the error of a call, as in \<^verbatim>\<open>fmt.Errorf("...: %w", err)\<close>\<close>
  "wrapM g m w = (case m w of (r, w') \<Rightarrow> (mapError g r, w'))"

fun forM :: "('a \<Rightarrow> ('w, 'e, unit) io) \<Rightarrow> 'a list \<Rightarrow> ('w, 'e, unit) io" where
  "forM f [] = retM ()"
| "forM f (x # xs) = bindM (f x) (\<lambda>_. forM f xs)"

lemma io_simps [simp]:
  "retM a w = (Inr a, w)"
  "failM e w = (Inl e, w)"
  "liftM r w = (r, w)"
  by (simp_all add: retM_def failM_def liftM_def)

lemma bindM_simps [simp]:
  "m w = (Inl e, w') \<Longrightarrow> bindM m f w = (Inl e, w')"
  "m w = (Inr a, w') \<Longrightarrow> bindM m f w = f a w'"
  by (simp_all add: bindM_def)

lemma bindM_ok:
  "bindM m f w = (Inr b, w') \<longleftrightarrow> (\<exists>a w1. m w = (Inr a, w1) \<and> f a w1 = (Inr b, w'))"
  by (auto simp: bindM_def split: prod.splits sum.splits)

lemma bindM_err:
  "bindM m f w = (Inl e, w') \<longleftrightarrow>
     m w = (Inl e, w') \<or> (\<exists>a w1. m w = (Inr a, w1) \<and> f a w1 = (Inl e, w'))"
  by (auto simp: bindM_def split: prod.splits sum.splits)

lemma bindM_assoc: "bindM (bindM m f) g = bindM m (\<lambda>a. bindM (f a) g)"
  by (auto simp: bindM_def fun_eq_iff split: prod.splits sum.splits)

lemma wrapM_simps [simp]:
  "m w = (Inl e, w') \<Longrightarrow> wrapM g m w = (Inl (g e), w')"
  "m w = (Inr a, w') \<Longrightarrow> wrapM g m w = (Inr a, w')"
  by (simp_all add: wrapM_def)

lemma wrapM_ok: "wrapM g m w = (Inr a, w') \<longleftrightarrow> m w = (Inr a, w')"
  by (cases "m w"; cases "fst (m w)") (auto simp: wrapM_def)

lemma wrapM_err: "wrapM g m w = (Inl e, w') \<longleftrightarrow> (\<exists>d. m w = (Inl d, w') \<and> e = g d)"
  by (cases "m w"; cases "fst (m w)") (auto simp: wrapM_def)

lemmas io_results = bindM_ok bindM_err wrapM_ok wrapM_err

text \<open>A predicate on worlds that an operation keeps, whether it fails or not.\<close>

definition keeps :: "('w \<Rightarrow> bool) \<Rightarrow> ('w, 'e, 'a) io \<Rightarrow> bool" where
  "keeps P m \<longleftrightarrow> (\<forall>w. P w \<longrightarrow> P (snd (m w)))"

lemma keepsD: "keeps P m \<Longrightarrow> P w \<Longrightarrow> m w = (r, w') \<Longrightarrow> P w'"
  by (metis keeps_def snd_conv)

lemma keeps_ret [simp]: "keeps P (retM a)" and keeps_fail [simp]: "keeps P (failM e)"
  and keeps_lift [simp]: "keeps P (liftM r)"
  by (simp_all add: keeps_def)

lemma keeps_bind [intro]: "keeps P m \<Longrightarrow> (\<And>a. keeps P (f a)) \<Longrightarrow> keeps P (bindM m f)"
  unfolding keeps_def bindM_def by (auto split: prod.splits sum.splits)

lemma keeps_wrap [intro]: "keeps P m \<Longrightarrow> keeps P (wrapM g m)"
  unfolding keeps_def wrapM_def by (auto split: prod.splits)

lemma keeps_forM [intro]: "(\<And>x. x \<in> set xs \<Longrightarrow> keeps P (f x)) \<Longrightarrow> keeps P (forM f xs)"
  by (induction xs) (auto intro!: keeps_bind)

end
