(* ===== verification/Events.thy ===== *)
theory Events
  imports Domain Effects
begin

text \<open>
  The event bus, \<open>internal/events\<close>: envelopes, the in-memory bus and the recording bus. A handler
  is an operation on a world of any type; the bus interface is a record of operations. The NATS
  bus is a client of a service that is not part of the program, apart from the names of subjects
  and durable consumers, which are modelled.
\<close>

section \<open>Envelopes\<close>

type_synonym EventType = string

definition EventPROpened :: EventType where
  [domain_consts]: "EventPROpened = ''PROpened''"
definition EventChangePacketCreated :: EventType where
  [domain_consts]: "EventChangePacketCreated = ''ChangePacketCreated''"
definition EventMutationDetected :: EventType where
  [domain_consts]: "EventMutationDetected = ''MutationDetected''"
definition EventRiskAssigned :: EventType where
  [domain_consts]: "EventRiskAssigned = ''RiskAssigned''"
definition EventMergeLaneAssigned :: EventType where
  [domain_consts]: "EventMergeLaneAssigned = ''MergeLaneAssigned''"
definition EventPolicyViolationDetected :: EventType where
  [domain_consts]: "EventPolicyViolationDetected = ''PolicyViolationDetected''"

text \<open>The payload is any value in Go; these are the values the program publishes.\<close>

datatype EventPayload =
    PROpenedPayload string int string
  | PacketPayload ChangePacket
  | MutationsPayload "Mutation list"
  | RisksPayload "Risk list"
  | ViolationsPayload "PolicyViolation list"
  | LanePayload string MergeLane

record Envelope =
  en_ID :: string
  en_Type :: EventType
  en_Source :: string
  en_CorrelationID :: string
  en_CausationID :: string
  en_ChangePacketID :: string
  en_Metadata :: metadata
  en_Payload :: EventPayload

definition NewEnvelope :: "string \<Rightarrow> EventType \<Rightarrow> string \<Rightarrow> EventPayload \<Rightarrow> Envelope" where
  \<comment> \<open>the first argument is the identifier that \<open>identity.New\<close> draws\<close>
  "NewEnvelope newID kind source payload =
     \<lparr>en_ID = newID, en_Type = kind, en_Source = source, en_CorrelationID = [], en_CausationID = [],
      en_ChangePacketID = [], en_Metadata = [], en_Payload = payload\<rparr>"

section \<open>Buses\<close>

type_synonym 'w Handler = "Envelope \<Rightarrow> ('w, string, unit) io"

record 'w MemoryBus =
  mb_closed :: bool
  mb_handlers :: "EventType \<Rightarrow> 'w Handler list"

definition NewMemoryBus :: "'w MemoryBus" where
  "NewMemoryBus = \<lparr>mb_closed = False, mb_handlers = (\<lambda>_. [])\<rparr>"

definition MemoryBus_Publish :: "'w MemoryBus \<Rightarrow> Envelope \<Rightarrow> ('w, string, unit) io" where
  "MemoryBus_Publish b event =
     (if mb_closed b then failM ''event bus closed''
      else forM (\<lambda>handler. handler event) (mb_handlers b (en_Type event)))"

definition MemoryBus_Subscribe :: "'w MemoryBus \<Rightarrow> EventType \<Rightarrow> 'w Handler \<Rightarrow> string + 'w MemoryBus" where
  "MemoryBus_Subscribe b kind handler =
     (if mb_closed b then Inl ''event bus closed''
      else Inr (b\<lparr>mb_handlers := (mb_handlers b)(kind := mb_handlers b kind @ [handler])\<rparr>))"

definition MemoryBus_Close :: "'w MemoryBus \<Rightarrow> 'w MemoryBus" where
  "MemoryBus_Close b = b\<lparr>mb_closed := True, mb_handlers := (\<lambda>_. [])\<rparr>"

type_synonym 'w Publish = "Envelope \<Rightarrow> ('w, string, unit) io"

definition RecordingBus_Publish ::
  "'w Publish \<Rightarrow> 'w Publish option \<Rightarrow> Envelope \<Rightarrow> ('w, string, unit) io" where
  \<comment> \<open>the base bus and the event store, if there is one\<close>
  "RecordingBus_Publish base store event =
     bindM (base event) (\<lambda>_.
       case store of None \<Rightarrow> retM () | Some save \<Rightarrow> save event)"

section \<open>Names on the NATS bus\<close>

definition sanitizeToken :: "string \<Rightarrow> string" where
  "sanitizeToken val =
     map (\<lambda>c. if c = CHR ''.'' then CHR ''_'' else c)
       (map (\<lambda>c. if c = CHR '' '' then CHR ''_'' else c) (ToLower val))"

definition subjectFor :: "string \<Rightarrow> EventType \<Rightarrow> string" where
  "subjectFor subjectPrefix kind = subjectPrefix @ ''.events.'' @ sanitizeToken kind"

section \<open>Lemmas\<close>

lemma sanitizeToken_single: "CHR ''.'' \<notin> set (sanitizeToken val) \<and> CHR '' '' \<notin> set (sanitizeToken val)"
  by (auto simp: sanitizeToken_def)

text \<open>A closed bus delivers nothing and refuses subscriptions; a subscription is delivered after
  the earlier ones, and a failed base publication is not recorded.\<close>

lemma MemoryBus_closed:
  "MemoryBus_Publish (MemoryBus_Close b) event w = (Inl ''event bus closed'', w)"
  "MemoryBus_Subscribe (MemoryBus_Close b) kind h = Inl ''event bus closed''"
  by (simp_all add: MemoryBus_Publish_def MemoryBus_Subscribe_def MemoryBus_Close_def)

lemma forM_append: "forM f (xs @ ys) w = bindM (forM f xs) (\<lambda>_. forM f ys) w"
  by (induction xs arbitrary: w) (auto simp: bindM_def split: prod.splits sum.splits)

lemma Subscribe_Publish:
  assumes "MemoryBus_Subscribe b (en_Type event) h = Inr b'"
  shows "MemoryBus_Publish b' event w = bindM (MemoryBus_Publish b event) (\<lambda>_. h event) w"
proof -
  have "\<not> mb_closed b" "b' = b\<lparr>mb_handlers := (mb_handlers b)(en_Type event := mb_handlers b (en_Type event) @ [h])\<rparr>"
    using assms by (auto simp: MemoryBus_Subscribe_def split: if_splits)
  then show ?thesis
    by (simp add: MemoryBus_Publish_def forM_append)
       (simp add: bindM_def split: prod.splits sum.splits)
qed

lemma Subscribe_other:
  assumes "MemoryBus_Subscribe b kind h = Inr b'" and "en_Type event \<noteq> kind"
  shows "MemoryBus_Publish b' event w = MemoryBus_Publish b event w"
  using assms by (auto simp: MemoryBus_Subscribe_def MemoryBus_Publish_def split: if_splits)

section \<open>Properties\<close>

text \<open>
  Publication on the in-memory bus. A new subscriber of an event type is called after the
  earlier ones, exactly when all of them succeeded; events of other types do not reach it; a
  closed bus calls nobody, changes nothing and reports an error; and the recording bus stores an
  event only after the base bus accepted it.
\<close>

theorem bus_delivery:
  "(MemoryBus_Subscribe b kind h = Inr b' \<longrightarrow>
      MemoryBus_Publish b' event w =
        (if en_Type event = kind then bindM (MemoryBus_Publish b event) (\<lambda>_. h event) w
         else MemoryBus_Publish b event w))
   \<and> MemoryBus_Publish (MemoryBus_Close b) event w = (Inl ''event bus closed'', w)
   \<and> (MemoryBus_Publish b event w = (Inl e, w') \<longrightarrow>
        RecordingBus_Publish (MemoryBus_Publish b) (Some save) event w = (Inl e, w'))
   \<and> (MemoryBus_Publish b event w = (Inr (), w') \<longrightarrow>
        RecordingBus_Publish (MemoryBus_Publish b) (Some save) event w = save event w')"
  using Subscribe_Publish [of b event h b'] Subscribe_other [of b kind h b' event] MemoryBus_closed
  by (auto simp: RecordingBus_Publish_def)

definition sampleEvent :: Envelope where
  "sampleEvent = NewEnvelope ''evt_1'' EventRiskAssigned ''risk'' (RisksPayload [])"

theorem bus_delivery_witness:
  "\<exists>b'. MemoryBus_Subscribe NewMemoryBus EventRiskAssigned (\<lambda>_ n. (Inr (), Suc n)) = Inr b'
     \<and> MemoryBus_Publish b' sampleEvent 0 = (Inr (), 1)"
proof -
  let ?h = "\<lambda>_ n. (Inr (), Suc n)"
  obtain b' where b: "MemoryBus_Subscribe NewMemoryBus EventRiskAssigned ?h = Inr b'"
    by (simp add: MemoryBus_Subscribe_def NewMemoryBus_def)
  then have "MemoryBus_Publish b' sampleEvent 0 = bindM (MemoryBus_Publish NewMemoryBus sampleEvent) (\<lambda>_. ?h sampleEvent) 0"
    using bus_delivery [of NewMemoryBus EventRiskAssigned ?h b' sampleEvent 0]
    by (simp add: sampleEvent_def NewEnvelope_def)
  then show ?thesis using b by (simp add: MemoryBus_Publish_def NewMemoryBus_def)
qed

end
