(* ===== verification/Store.thy ===== *)
theory Store
  imports Events
begin

text \<open>
  Storage, \<open>internal/store\<close>: the interface \<open>Repository\<close> as a record of operations on a world, and
  the in-memory repository. What clients rely on is the locale \<open>repository\<close>: the maps of packets,
  evidence and audit entries and how each operation changes them; it is interpreted on the
  in-memory repository. A map that the code ranges over is an association list; the iteration
  order and the current time are arguments. The methods hold the repository's lock for their
  whole body, so each is one atomic step.
\<close>

section \<open>The interface\<close>

datatype StoreError = ErrChangePacketNotFound | StoreFailed string

record 'w Repository =
  rp_SaveChangePacket :: "ChangePacket \<Rightarrow> ('w, StoreError, unit) io"
  rp_GetChangePacket :: "string \<Rightarrow> ('w, StoreError, ChangePacket) io"
  rp_FindLatestChangePacket :: "string \<Rightarrow> int \<Rightarrow> string \<Rightarrow> ('w, StoreError, ChangePacket) io"
  rp_ListChangePackets :: "int \<Rightarrow> ('w, StoreError, ChangePacket list) io"
  rp_SaveEvent :: "Envelope \<Rightarrow> ('w, StoreError, unit) io"
  rp_UpsertEvidenceExecution :: "EvidenceExecution \<Rightarrow> ('w, StoreError, unit) io"
  rp_ListEvidenceExecutions :: "string \<Rightarrow> ('w, StoreError, EvidenceExecution list) io"
  rp_RecordEvidenceUpdate :: "EvidenceExecution \<Rightarrow> EvidenceAuditEntry \<Rightarrow> ('w, StoreError, unit) io"
  rp_ListEvidenceAuditEntries :: "string \<Rightarrow> int \<Rightarrow> ('w, StoreError, EvidenceAuditEntry list) io"
  rp_SaveDeploymentOutcome :: "DeploymentOutcome \<Rightarrow> ('w, StoreError, unit) io"
  rp_ListDeploymentOutcomes :: "int \<Rightarrow> ('w, StoreError, DeploymentOutcome list) io"

section \<open>The in-memory repository\<close>

record MemoryRepository =
  mr_changePackets :: "(string \<times> ChangePacket) list"
  mr_events :: "string \<rightharpoonup> Envelope"
  mr_evidenceByCPID :: "string \<Rightarrow> (string \<times> EvidenceExecution) list"
  mr_auditByCPID :: "string \<Rightarrow> EvidenceAuditEntry list"
  mr_outcomes :: "DeploymentOutcome list"

definition NewMemoryRepository :: MemoryRepository where
  "NewMemoryRepository =
     \<lparr>mr_changePackets = [], mr_events = Map.empty, mr_evidenceByCPID = (\<lambda>_. []),
      mr_auditByCPID = (\<lambda>_. []), mr_outcomes = []\<rparr>"

definition limited :: "int \<Rightarrow> 'a list \<Rightarrow> 'a list" where
  "limited limit items = (if limit > 0 \<and> int (length items) > limit then take (nat limit) items else items)"

definition SaveDeploymentOutcome ::
  "DeploymentOutcome \<Rightarrow> ('z MemoryRepository_scheme, StoreError, unit) io" where
  "SaveDeploymentOutcome outcome r = (Inr (), r\<lparr>mr_outcomes := mr_outcomes r @ [outcome]\<rparr>)"

definition ListDeploymentOutcomes ::
  "int \<Rightarrow> ('z MemoryRepository_scheme, StoreError, DeploymentOutcome list) io" where
  \<comment> \<open>a stable sort, latest first\<close>
  "ListDeploymentOutcomes limit r =
     (Inr (limited limit (sort_key (\<lambda>d. - do_ObservedAt d) (mr_outcomes r))), r)"

definition cloneAuditEntry :: "EvidenceAuditEntry \<Rightarrow> EvidenceAuditEntry" where
  \<comment> \<open>the field is replaced by a fresh map, and then that fresh map is ranged over\<close>
  "cloneAuditEntry entry =
     (if length (ae_Metadata entry) = 0 then entry
      else (let fresh = entry\<lparr>ae_Metadata := []\<rparr>
            in foldl (\<lambda>e (key, val). e\<lparr>ae_Metadata := AList.update key val (ae_Metadata e)\<rparr>)
                 fresh (ae_Metadata fresh)))"

definition storeExecution ::
  "time \<Rightarrow> EvidenceExecution \<Rightarrow> 'z MemoryRepository_scheme \<Rightarrow> 'z MemoryRepository_scheme" where
  \<comment> \<open>the common part of the two operations that write an execution\<close>
  "storeExecution now execution r =
     (let execution = (if ee_UpdatedAt execution = 0 then execution\<lparr>ee_UpdatedAt := now\<rparr> else execution);
          id = ee_ChangePacketID execution
      in r\<lparr>mr_evidenceByCPID := (mr_evidenceByCPID r)
             (id := AList.update (ee_Name execution) execution (mr_evidenceByCPID r id))\<rparr>)"

definition RecordEvidenceUpdate ::
  "time \<Rightarrow> EvidenceExecution \<Rightarrow> EvidenceAuditEntry \<Rightarrow> ('z MemoryRepository_scheme, StoreError, unit) io" where
  "RecordEvidenceUpdate now execution audit r =
     (let r = storeExecution now execution r;
          id = ae_ChangePacketID audit
      in (Inr (), r\<lparr>mr_auditByCPID := (mr_auditByCPID r)
             (id := mr_auditByCPID r id @ [cloneAuditEntry audit])\<rparr>))"

definition ListEvidenceAuditEntries ::
  "string \<Rightarrow> int \<Rightarrow> ('z MemoryRepository_scheme, StoreError, EvidenceAuditEntry list) io" where
  "ListEvidenceAuditEntries changePacketID limit r =
     (let stored = mr_auditByCPID r changePacketID;
          entries = map cloneAuditEntry (rev stored)
      in (Inr (limited limit entries), r))"

definition ensureEvidenceStep ::
  "time \<Rightarrow> string \<Rightarrow> (string \<times> EvidenceExecution) list \<Rightarrow> EvidenceRequirement
     \<Rightarrow> (string \<times> EvidenceExecution) list" where
  "ensureEvidenceStep now packetID evidence requirement =
     (case map_of evidence (er_Name requirement) of
        Some current \<Rightarrow>
          AList.update (er_Name requirement)
            (current\<lparr>ee_Type := er_Type requirement, ee_Required := er_Required requirement\<rparr>) evidence
      | None \<Rightarrow>
          AList.update (er_Name requirement)
            (zeroEvidenceExecution\<lparr>ee_ChangePacketID := packetID, ee_Name := er_Name requirement,
               ee_Type := er_Type requirement, ee_Status := EvidencePending,
               ee_Required := er_Required requirement, ee_UpdatedBy := ''merger'',
               ee_UpdatedAt := now\<rparr>) evidence)"

definition ensureEvidenceLocked ::
  "time \<Rightarrow> ChangePacket \<Rightarrow> 'z MemoryRepository_scheme \<Rightarrow> 'z MemoryRepository_scheme" where
  "ensureEvidenceLocked now packet r =
     r\<lparr>mr_evidenceByCPID := (mr_evidenceByCPID r)
         (cp_ID packet := foldl (ensureEvidenceStep now (cp_ID packet))
            (mr_evidenceByCPID r (cp_ID packet)) (cp_Evidence packet))\<rparr>"

definition SaveChangePacket ::
  "time \<Rightarrow> ChangePacket \<Rightarrow> ('z MemoryRepository_scheme, StoreError, unit) io" where
  "SaveChangePacket now packet r =
     (let r = r\<lparr>mr_changePackets := AList.update (cp_ID packet) packet (mr_changePackets r)\<rparr>
      in (Inr (), ensureEvidenceLocked now packet r))"

definition GetChangePacket :: "string \<Rightarrow> ('z MemoryRepository_scheme, StoreError, ChangePacket) io" where
  "GetChangePacket i r =
     (case map_of (mr_changePackets r) i of
        None \<Rightarrow> (Inl ErrChangePacketNotFound, r)
      | Some packet \<Rightarrow> (Inr packet, r))"

definition matchesHead :: "string \<Rightarrow> int \<Rightarrow> string \<Rightarrow> ChangePacket \<Rightarrow> bool" where
  "matchesHead repoFullName prNumber headSHA packet \<longleftrightarrow>
     rr_FullName (cp_Repo packet) = repoFullName \<and> pr_Number (cp_PR packet) = prNumber
     \<and> pr_HeadSHA (cp_PR packet) = headSHA"

definition latestStep :: "string \<Rightarrow> int \<Rightarrow> string \<Rightarrow> ChangePacket option \<Rightarrow> string \<times> ChangePacket
    \<Rightarrow> ChangePacket option" where
  "latestStep repoFullName prNumber headSHA latest entry =
     (let packet = snd entry
      in if \<not> matchesHead repoFullName prNumber headSHA packet then latest
         else (case latest of
                 None \<Rightarrow> Some packet
               | Some l \<Rightarrow> if cp_UpdatedAt packet > cp_UpdatedAt l then Some packet else latest))"

definition FindLatestChangePacket ::
  "key_order \<Rightarrow> string \<Rightarrow> int \<Rightarrow> string \<Rightarrow> ('z MemoryRepository_scheme, StoreError, ChangePacket) io" where
  "FindLatestChangePacket ord repoFullName prNumber headSHA r =
     (case foldl (latestStep repoFullName prNumber headSHA) None (range_map ord (mr_changePackets r)) of
        None \<Rightarrow> (Inl ErrChangePacketNotFound, r)
      | Some packet \<Rightarrow> (Inr packet, r))"

definition ListChangePackets ::
  "key_order \<Rightarrow> int \<Rightarrow> ('z MemoryRepository_scheme, StoreError, ChangePacket list) io" where
  \<comment> \<open>\<^verbatim>\<open>sort.Slice\<close> is not stable: packets with the same time come in an order that the iteration
    order, which is an argument, already leaves open\<close>
  "ListChangePackets ord limit r =
     (Inr (limited limit
        (sort_key (\<lambda>p. - cp_UpdatedAt p) (map snd (range_map ord (mr_changePackets r))))), r)"

definition SaveEvent :: "Envelope \<Rightarrow> ('z MemoryRepository_scheme, StoreError, unit) io" where
  "SaveEvent event r = (Inr (), r\<lparr>mr_events := (mr_events r)(en_ID event \<mapsto> event)\<rparr>)"

definition UpsertEvidenceExecution ::
  "time \<Rightarrow> EvidenceExecution \<Rightarrow> ('z MemoryRepository_scheme, StoreError, unit) io" where
  "UpsertEvidenceExecution now execution r = (Inr (), storeExecution now execution r)"

definition ListEvidenceExecutions ::
  "key_order \<Rightarrow> string \<Rightarrow> ('z MemoryRepository_scheme, StoreError, EvidenceExecution list) io" where
  "ListEvidenceExecutions ord changePacketID r =
     (Inr (sort_key ee_Name (map snd (range_map ord (mr_evidenceByCPID r changePacketID)))), r)"

definition memoryRepository :: "key_order \<Rightarrow> time \<Rightarrow> 'z MemoryRepository_scheme Repository" where
  "memoryRepository ord now =
     \<lparr>rp_SaveChangePacket = SaveChangePacket now,
      rp_GetChangePacket = GetChangePacket,
      rp_FindLatestChangePacket = FindLatestChangePacket ord,
      rp_ListChangePackets = ListChangePackets ord,
      rp_SaveEvent = SaveEvent,
      rp_UpsertEvidenceExecution = UpsertEvidenceExecution now,
      rp_ListEvidenceExecutions = ListEvidenceExecutions ord,
      rp_RecordEvidenceUpdate = RecordEvidenceUpdate now,
      rp_ListEvidenceAuditEntries = ListEvidenceAuditEntries,
      rp_SaveDeploymentOutcome = SaveDeploymentOutcome,
      rp_ListDeploymentOutcomes = ListDeploymentOutcomes\<rparr>"

section \<open>The contract of a repository\<close>

text \<open>
  The abstract view: a map of packets, a map of evidence executions per packet, a log of audit
  entries per packet. \<open>valid\<close> is the representation invariant. Saving a packet creates pending
  executions for new requirements and keeps the status of the executions that exist.
\<close>

definition ensured :: "(string \<rightharpoonup> EvidenceExecution) \<Rightarrow> (string \<rightharpoonup> EvidenceExecution)
    \<Rightarrow> EvidenceRequirement list \<Rightarrow> bool" where
  "ensured old new requirements \<longleftrightarrow>
     dom new = dom old \<union> er_Name ` set requirements
     \<and> (\<forall>n e. old n = Some e \<longrightarrow> (\<exists>e'. new n = Some e' \<and> ee_Status e' = ee_Status e \<and> ee_Name e' = ee_Name e))
     \<and> (\<forall>n e. old n = None \<longrightarrow> new n = Some e \<longrightarrow> ee_Status e = EvidencePending)"

locale repository =
  fixes R :: "'w Repository"
    and valid :: "'w \<Rightarrow> bool"
    and packets :: "'w \<Rightarrow> string \<rightharpoonup> ChangePacket"
    and evidence :: "'w \<Rightarrow> string \<Rightarrow> string \<rightharpoonup> EvidenceExecution"
    and audit :: "'w \<Rightarrow> string \<Rightarrow> EvidenceAuditEntry list"
  assumes get: "valid w \<Longrightarrow> rp_GetChangePacket R i w =
      (case packets w i of None \<Rightarrow> (Inl ErrChangePacketNotFound, w) | Some p \<Rightarrow> (Inr p, w))"
    and list: "valid w \<Longrightarrow> \<exists>es. rp_ListEvidenceExecutions R i w = (Inr es, w)
      \<and> distinct (map ee_Name es) \<and> (\<forall>e. e \<in> set es \<longleftrightarrow> evidence w i (ee_Name e) = Some e)"
    and evidence_name: "valid w \<Longrightarrow> evidence w i n = Some e \<Longrightarrow> ee_Name e = n"
    and packet_id: "valid w \<Longrightarrow> packets w i = Some p \<Longrightarrow> cp_ID p = i"
    and record_update: "valid w \<Longrightarrow> \<exists>w' e' a'. rp_RecordEvidenceUpdate R e a w = (Inr (), w') \<and> valid w'
      \<and> packets w' = packets w
      \<and> evidence w' = (evidence w)(ee_ChangePacketID e := (evidence w (ee_ChangePacketID e))(ee_Name e \<mapsto> e'))
      \<and> e' = e\<lparr>ee_UpdatedAt := ee_UpdatedAt e'\<rparr>
      \<and> audit w' = (audit w)(ae_ChangePacketID a := audit w (ae_ChangePacketID a) @ [a'])
      \<and> a' = a\<lparr>ae_Metadata := ae_Metadata a'\<rparr>"
    and save: "valid w \<Longrightarrow> \<exists>w'. rp_SaveChangePacket R p w = (Inr (), w') \<and> valid w'
      \<and> packets w' = (packets w)(cp_ID p \<mapsto> p) \<and> audit w' = audit w
      \<and> (\<forall>i. i \<noteq> cp_ID p \<longrightarrow> evidence w' i = evidence w i)
      \<and> ensured (evidence w (cp_ID p)) (evidence w' (cp_ID p)) (cp_Evidence p)"
    and list_audit: "valid w \<Longrightarrow> \<exists>as. rp_ListEvidenceAuditEntries R i limit w = (Inr as, w)"
    and save_outcome: "valid w \<Longrightarrow> \<exists>w'. rp_SaveDeploymentOutcome R d w = (Inr (), w') \<and> valid w'
      \<and> packets w' = packets w \<and> evidence w' = evidence w \<and> audit w' = audit w"

section \<open>The in-memory repository meets the contract\<close>

definition mem_valid :: "'z MemoryRepository_scheme \<Rightarrow> bool" where
  "mem_valid r \<longleftrightarrow>
     distinct (map fst (mr_changePackets r))
     \<and> (\<forall>k p. (k, p) \<in> set (mr_changePackets r) \<longrightarrow> cp_ID p = k)
     \<and> (\<forall>i. distinct (map fst (mr_evidenceByCPID r i)))
     \<and> (\<forall>i n e. (n, e) \<in> set (mr_evidenceByCPID r i) \<longrightarrow> ee_Name e = n)"

definition mem_packets :: "'z MemoryRepository_scheme \<Rightarrow> string \<rightharpoonup> ChangePacket" where
  "mem_packets r = map_of (mr_changePackets r)"

definition mem_evidence :: "'z MemoryRepository_scheme \<Rightarrow> string \<Rightarrow> string \<rightharpoonup> EvidenceExecution" where
  "mem_evidence r i = map_of (mr_evidenceByCPID r i)"

lemma NewMemoryRepository_valid: "mem_valid NewMemoryRepository"
  by (simp add: mem_valid_def NewMemoryRepository_def)

lemma cloneAuditEntry_eq: "cloneAuditEntry a = a\<lparr>ae_Metadata := []\<rparr>"
  by (cases "ae_Metadata a") (simp_all add: cloneAuditEntry_def)

lemma mem_valid_update:
  assumes "mem_valid r" and "ee_Name e = n"
  shows "mem_valid (r\<lparr>mr_evidenceByCPID := (mr_evidenceByCPID r)(i := AList.update n e (mr_evidenceByCPID r i))\<rparr>)"
  using assms set_update_subset [of n e "mr_evidenceByCPID r i"]
  by (auto simp: mem_valid_def distinct_update)

lemma mem_list:
  assumes "map_order ord" and "mem_valid r"
  shows "\<exists>es. ListEvidenceExecutions ord i r = (Inr es, r) \<and> distinct (map ee_Name es) \<and> sorted (map ee_Name es)
    \<and> (\<forall>e. e \<in> set es \<longleftrightarrow> mem_evidence r i (ee_Name e) = Some e)"
proof -
  let ?m = "mr_evidenceByCPID r i"
  let ?vs = "map snd (range_map ord ?m)"
  have d: "distinct (map fst ?m)" and n: "\<And>k e. (k, e) \<in> set ?m \<Longrightarrow> ee_Name e = k"
    using assms(2) by (auto simp: mem_valid_def)
  have s: "set (range_map ord ?m) = set ?m" by (rule set_range_map [OF assms(1) d])
  have "map ee_Name ?vs = map fst (range_map ord ?m)" using n s by auto
  then have dn: "distinct (map ee_Name ?vs)"
    using distinct_keys_range_map [OF assms(1) d] by (simp only:)
  have "distinct (map ee_Name (sort_key ee_Name ?vs))"
    using dn by (metis mset_eq_imp_distinct_iff mset_map mset_sort)
  moreover have "e \<in> set (sort_key ee_Name ?vs) \<longleftrightarrow> mem_evidence r i (ee_Name e) = Some e" for e
  proof -
    have "e \<in> set (sort_key ee_Name ?vs) \<longleftrightarrow> e \<in> snd ` set ?m" using s by simp
    also have "\<dots> \<longleftrightarrow> (ee_Name e, e) \<in> set ?m" using n by force
    also have "\<dots> \<longleftrightarrow> map_of ?m (ee_Name e) = Some e" using d by simp
    finally show ?thesis by (simp add: mem_evidence_def)
  qed
  ultimately show ?thesis by (simp add: ListEvidenceExecutions_def)
qed

lemma ensureEvidenceStep_ensured:
  "distinct (map fst ev) \<Longrightarrow> (\<forall>n e. (n, e) \<in> set ev \<longrightarrow> ee_Name e = n) \<Longrightarrow>
   distinct (map fst (ensureEvidenceStep now i ev q))
   \<and> (\<forall>n e. (n, e) \<in> set (ensureEvidenceStep now i ev q) \<longrightarrow> ee_Name e = n)
   \<and> ensured (map_of ev) (map_of (ensureEvidenceStep now i ev q)) [q]"
proof (cases "map_of ev (er_Name q)")
  case None
  assume d: "distinct (map fst ev)" and n: "\<forall>n e. (n, e) \<in> set ev \<longrightarrow> ee_Name e = n"
  then show ?thesis
    using None by (auto simp: ensureEvidenceStep_def distinct_update in_set_update ensured_def
        zeroEvidenceExecution_def)
next
  case (Some cur)
  assume d: "distinct (map fst ev)" and n: "\<forall>n e. (n, e) \<in> set ev \<longrightarrow> ee_Name e = n"
  then have "ee_Name cur = er_Name q" using Some map_of_SomeD by fast
  then show ?thesis
    using Some d n by (auto simp: ensureEvidenceStep_def distinct_update in_set_update ensured_def
        dest: eq_key_imp_eq_value)
qed

lemma ensured_trans: "ensured a b xs \<Longrightarrow> ensured b c ys \<Longrightarrow> ensured a c (xs @ ys)"
proof -
  assume ab: "ensured a b xs" and bc: "ensured b c ys"
  have "dom c = dom a \<union> er_Name ` set (xs @ ys)" using ab bc by (auto simp: ensured_def)
  moreover have "\<exists>e'. c n = Some e' \<and> ee_Status e' = ee_Status e \<and> ee_Name e' = ee_Name e" if "a n = Some e" for n e
    using that ab bc unfolding ensured_def by metis
  moreover have "ee_Status e = EvidencePending" if "a n = None" "c n = Some e" for n e
  proof (cases "b n")
    case None
    then show ?thesis using that bc by (simp add: ensured_def)
  next
    case (Some e')
    then have "ee_Status e' = EvidencePending" using that(1) ab by (simp add: ensured_def)
    then show ?thesis using Some that(2) bc unfolding ensured_def by (metis option.inject)
  qed
  ultimately show ?thesis by (simp add: ensured_def)
qed

lemma ensured_refl: "ensured a a []"
  by (simp add: ensured_def)

lemma ensure_fold:
  "distinct (map fst ev) \<Longrightarrow> (\<forall>n e. (n, e) \<in> set ev \<longrightarrow> ee_Name e = n) \<Longrightarrow>
   distinct (map fst (foldl (ensureEvidenceStep now i) ev qs))
   \<and> (\<forall>n e. (n, e) \<in> set (foldl (ensureEvidenceStep now i) ev qs) \<longrightarrow> ee_Name e = n)
   \<and> ensured (map_of ev) (map_of (foldl (ensureEvidenceStep now i) ev qs)) qs"
proof (induction qs arbitrary: ev)
  case (Cons q qs)
  let ?e1 = "ensureEvidenceStep now i ev q"
  note s = ensureEvidenceStep_ensured [OF Cons.prems, of now i q]
  note r = Cons.IH [of ?e1]
  have "ensured (map_of ev) (map_of (foldl (ensureEvidenceStep now i) ?e1 qs)) ([q] @ qs)"
    using s r ensured_trans by blast
  then show ?case using s r by simp
qed (simp add: ensured_refl)

interpretation memory: repository "memoryRepository ord now" "\<lambda>r. map_order ord \<and> mem_valid r"
    mem_packets mem_evidence mr_auditByCPID for ord now
proof unfold_locales
  fix w :: "'a MemoryRepository_scheme" and i n e p a limit d
  assume v: "map_order ord \<and> mem_valid w"
  show "rp_GetChangePacket (memoryRepository ord now) i w =
      (case mem_packets w i of None \<Rightarrow> (Inl ErrChangePacketNotFound, w) | Some p \<Rightarrow> (Inr p, w))"
    by (simp add: memoryRepository_def GetChangePacket_def mem_packets_def)
  show "\<exists>es. rp_ListEvidenceExecutions (memoryRepository ord now) i w = (Inr es, w)
      \<and> distinct (map ee_Name es) \<and> (\<forall>e. e \<in> set es \<longleftrightarrow> mem_evidence w i (ee_Name e) = Some e)"
    using mem_list [of ord w i] v by (auto simp: memoryRepository_def)
  show "\<exists>as. rp_ListEvidenceAuditEntries (memoryRepository ord now) i limit w = (Inr as, w)"
    by (simp add: memoryRepository_def ListEvidenceAuditEntries_def Let_def)
  show "\<exists>w'. rp_SaveDeploymentOutcome (memoryRepository ord now) d w = (Inr (), w') \<and> (map_order ord \<and> mem_valid w')
      \<and> mem_packets w' = mem_packets w \<and> mem_evidence w' = mem_evidence w \<and> mr_auditByCPID w' = mr_auditByCPID w"
    using v by (simp add: memoryRepository_def SaveDeploymentOutcome_def mem_valid_def mem_packets_def
        mem_evidence_def fun_eq_iff)
  show "ee_Name e = n" if "mem_evidence w i n = Some e"
    using v that by (auto simp: mem_valid_def mem_evidence_def dest: map_of_SomeD)
  show "cp_ID p = i" if "mem_packets w i = Some p"
    using v that by (auto simp: mem_valid_def mem_packets_def dest: map_of_SomeD)
  show "\<exists>w' e' a'. rp_RecordEvidenceUpdate (memoryRepository ord now) e a w = (Inr (), w')
      \<and> (map_order ord \<and> mem_valid w') \<and> mem_packets w' = mem_packets w
      \<and> mem_evidence w' = (mem_evidence w)(ee_ChangePacketID e := (mem_evidence w (ee_ChangePacketID e))(ee_Name e \<mapsto> e'))
      \<and> e' = e\<lparr>ee_UpdatedAt := ee_UpdatedAt e'\<rparr>
      \<and> mr_auditByCPID w' = (mr_auditByCPID w)(ae_ChangePacketID a := mr_auditByCPID w (ae_ChangePacketID a) @ [a'])
      \<and> a' = a\<lparr>ae_Metadata := ae_Metadata a'\<rparr>"
  proof -
    let ?e = "if ee_UpdatedAt e = 0 then e\<lparr>ee_UpdatedAt := now\<rparr> else e"
    let ?r = "storeExecution now e w"
    let ?w = "?r\<lparr>mr_auditByCPID := (mr_auditByCPID ?r)(ae_ChangePacketID a := mr_auditByCPID ?r (ae_ChangePacketID a) @ [cloneAuditEntry a])\<rparr>"
    have r: "?r = w\<lparr>mr_evidenceByCPID := (mr_evidenceByCPID w)(ee_ChangePacketID e :=
        AList.update (ee_Name e) ?e (mr_evidenceByCPID w (ee_ChangePacketID e)))\<rparr>"
      by (simp add: storeExecution_def Let_def)
    have "mem_valid ?r" unfolding r by (rule mem_valid_update) (use v in auto)
    then have "mem_valid ?w" by (simp add: mem_valid_def)
    moreover have "mem_evidence ?w = (mem_evidence w)(ee_ChangePacketID e := (mem_evidence w (ee_ChangePacketID e))(ee_Name e \<mapsto> ?e))"
      by (rule ext) (simp add: r mem_evidence_def)
    ultimately show ?thesis
      using v by (intro exI [of _ ?w] exI [of _ ?e] exI [of _ "cloneAuditEntry a"])
        (simp add: memoryRepository_def RecordEvidenceUpdate_def Let_def mem_packets_def cloneAuditEntry_eq r)
  qed
  show "\<exists>w'. rp_SaveChangePacket (memoryRepository ord now) p w = (Inr (), w') \<and> (map_order ord \<and> mem_valid w')
      \<and> mem_packets w' = (mem_packets w)(cp_ID p \<mapsto> p) \<and> mr_auditByCPID w' = mr_auditByCPID w
      \<and> (\<forall>i. i \<noteq> cp_ID p \<longrightarrow> mem_evidence w' i = mem_evidence w i)
      \<and> ensured (mem_evidence w (cp_ID p)) (mem_evidence w' (cp_ID p)) (cp_Evidence p)"
  proof -
    let ?w = "ensureEvidenceLocked now p (w\<lparr>mr_changePackets := AList.update (cp_ID p) p (mr_changePackets w)\<rparr>)"
    have "distinct (map fst (mr_evidenceByCPID w (cp_ID p)))"
      "\<forall>n e. (n, e) \<in> set (mr_evidenceByCPID w (cp_ID p)) \<longrightarrow> ee_Name e = n"
      using v by (auto simp: mem_valid_def)
    note f = ensure_fold [OF this, of now "cp_ID p" "cp_Evidence p"]
    have "mem_valid ?w"
      using v f set_update_subset [of "cp_ID p" p "mr_changePackets w"]
      by (auto simp: mem_valid_def ensureEvidenceLocked_def distinct_update)
    then show ?thesis
      using v f by (intro exI [of _ ?w])
        (simp add: memoryRepository_def SaveChangePacket_def ensureEvidenceLocked_def mem_packets_def
          mem_evidence_def)
  qed
qed

section \<open>The latest packet of a head commit\<close>

lemma latest_fold:
  assumes "foldl (latestStep repo pr sha) l es = l'"
  shows "(l' = None \<longleftrightarrow> l = None \<and> (\<forall>(k, p) \<in> set es. \<not> matchesHead repo pr sha p))
    \<and> (\<forall>q. l' = Some q \<longrightarrow> (l = Some q \<or> matchesHead repo pr sha q \<and> q \<in> snd ` set es)
          \<and> (\<forall>p \<in> snd ` set es. matchesHead repo pr sha p \<longrightarrow> cp_UpdatedAt p \<le> cp_UpdatedAt q)
          \<and> (\<forall>p. l = Some p \<longrightarrow> cp_UpdatedAt p \<le> cp_UpdatedAt q))"
  using assms
proof (induction es arbitrary: l)
  case (Cons x es)
  obtain k p where x: "x = (k, p)" by (cases x)
  let ?l1 = "latestStep repo pr sha l x"
  have IH: "(l' = None \<longleftrightarrow> ?l1 = None \<and> (\<forall>(k, p) \<in> set es. \<not> matchesHead repo pr sha p))
    \<and> (\<forall>q. l' = Some q \<longrightarrow> (?l1 = Some q \<or> matchesHead repo pr sha q \<and> q \<in> snd ` set es)
          \<and> (\<forall>p \<in> snd ` set es. matchesHead repo pr sha p \<longrightarrow> cp_UpdatedAt p \<le> cp_UpdatedAt q)
          \<and> (\<forall>p. ?l1 = Some p \<longrightarrow> cp_UpdatedAt p \<le> cp_UpdatedAt q))"
    using Cons.IH [of ?l1] Cons.prems by simp
  show ?case
  proof (cases "matchesHead repo pr sha p")
    case False
    then have "?l1 = l" by (simp add: latestStep_def x)
    then show ?thesis using IH False x by auto
  next
    case True
    then obtain m where m: "?l1 = Some m" "m = p \<or> l = Some m" "cp_UpdatedAt p \<le> cp_UpdatedAt m"
      "\<forall>q. l = Some q \<longrightarrow> cp_UpdatedAt q \<le> cp_UpdatedAt m"
    proof (cases l)
      case (Some a)
      then show thesis
        using True that [of "if cp_UpdatedAt a < cp_UpdatedAt p then p else a"]
        by (auto simp: latestStep_def x)
    qed (simp add: latestStep_def x)
    then show ?thesis using IH True x by (auto; force)
  qed
qed auto

section \<open>Properties\<close>

text \<open>
  The lookup that binds a GitHub check to a packet is exact: it fails with the not-found error
  exactly when no stored packet has the repository, pull request and head commit; otherwise it
  returns such a packet, and none of them is newer, whatever the iteration order.
\<close>

theorem FindLatestChangePacket_latest:
  assumes "map_order ord" and "mem_valid r"
  shows "(FindLatestChangePacket ord repo pr sha r = (Inl ErrChangePacketNotFound, r)
      \<longleftrightarrow> (\<forall>i p. mem_packets r i = Some p \<longrightarrow> \<not> matchesHead repo pr sha p))
    \<and> (\<forall>p r'. FindLatestChangePacket ord repo pr sha r = (Inr p, r') \<longrightarrow>
         r' = r \<and> matchesHead repo pr sha p \<and> mem_packets r (cp_ID p) = Some p
         \<and> (\<forall>i q. mem_packets r i = Some q \<longrightarrow> matchesHead repo pr sha q \<longrightarrow> cp_UpdatedAt q \<le> cp_UpdatedAt p))"
proof -
  let ?m = "mr_changePackets r"
  have d: "distinct (map fst ?m)" and ids: "\<And>k p. (k, p) \<in> set ?m \<Longrightarrow> cp_ID p = k"
    using assms(2) by (auto simp: mem_valid_def)
  have s: "set (range_map ord ?m) = set ?m" by (rule set_range_map [OF assms(1) d])
  have stored: "mem_packets r i = Some p \<longleftrightarrow> (i, p) \<in> set ?m" for i p
    using d by (simp add: mem_packets_def)
  note f = latest_fold [OF refl, of repo pr sha None "range_map ord ?m"]
  show ?thesis
  proof (cases "foldl (latestStep repo pr sha) None (range_map ord ?m)")
    case None
    then show ?thesis using f s by (auto simp: FindLatestChangePacket_def stored)
  next
    case (Some q)
    then have q: "matchesHead repo pr sha q" "q \<in> snd ` set ?m"
      "\<forall>p \<in> snd ` set ?m. matchesHead repo pr sha p \<longrightarrow> cp_UpdatedAt p \<le> cp_UpdatedAt q"
      using f s by auto
    then have "mem_packets r (cp_ID q) = Some q" using ids by (auto simp: stored)
    then show ?thesis using Some q by (force simp: FindLatestChangePacket_def stored)
  qed
qed

definition sampleStore :: MemoryRepository where
  "sampleStore = snd (SaveChangePacket 7 (zeroChangePacket\<lparr>cp_ID := ''cp_1'', cp_PR := zeroPullRequestRef\<lparr>pr_HeadSHA := ''abc''\<rparr>\<rparr>) NewMemoryRepository)"

lemma sampleStore_valid: "mem_valid sampleStore"
  by (simp add: sampleStore_def SaveChangePacket_def NewMemoryRepository_def ensureEvidenceLocked_def
      mem_valid_def zero_defs)

theorem FindLatestChangePacket_latest_witness:
  "\<exists>p. FindLatestChangePacket rev [] 0 ''abc'' sampleStore = (Inr p, sampleStore) \<and> cp_ID p = ''cp_1''"
proof -
  let ?p = "zeroChangePacket\<lparr>cp_ID := ''cp_1'', cp_PR := zeroPullRequestRef\<lparr>pr_HeadSHA := ''abc''\<rparr>\<rparr>"
  have st: "mem_packets sampleStore = [''cp_1'' \<mapsto> ?p]"
    by (simp add: sampleStore_def SaveChangePacket_def NewMemoryRepository_def ensureEvidenceLocked_def
        mem_packets_def zero_defs)
  have "matchesHead [] 0 ''abc'' ?p" by (simp add: matchesHead_def zero_defs)
  note L = FindLatestChangePacket_latest [OF map_order_rev sampleStore_valid, of "[]" 0 "''abc''"]
  have "FindLatestChangePacket rev [] 0 ''abc'' sampleStore \<noteq> (Inl ErrChangePacketNotFound, sampleStore)"
    using L st \<open>matchesHead [] 0 ''abc'' ?p\<close> by auto
  then obtain p where p: "FindLatestChangePacket rev [] 0 ''abc'' sampleStore = (Inr p, sampleStore)"
    by (auto simp: FindLatestChangePacket_def split: option.splits)
  then have "mem_packets sampleStore (cp_ID p) = Some p" using L by blast
  then have "cp_ID p = ''cp_1''" using st by (auto split: if_splits)
  then show ?thesis using p by blast
qed

text \<open>
  C38: the audit log of the in-memory repository. A recorded entry is the first of the next
  listing of its packet, before all earlier entries, and every field of it survives except its
  metadata, which is always lost: \<open>cloneAuditEntry\<close> clears the map before it copies it.
\<close>

theorem audit_listing:
  "\<exists>r' rest. RecordEvidenceUpdate now execution audit r = (Inr (), r')
     \<and> ListEvidenceAuditEntries (ae_ChangePacketID audit) 0 r = (Inr rest, r)
     \<and> ListEvidenceAuditEntries (ae_ChangePacketID audit) 0 r' = (Inr (audit\<lparr>ae_Metadata := []\<rparr> # rest), r')
     \<and> (\<forall>entry \<in> set rest. ae_Metadata entry = [])"
  by (simp add: RecordEvidenceUpdate_def ListEvidenceAuditEntries_def limited_def cloneAuditEntry_eq
      storeExecution_def Let_def)

theorem audit_listing_witness:
  "\<exists>r'. RecordEvidenceUpdate 7 zeroEvidenceExecution
       (zeroEvidenceAuditEntry\<lparr>ae_ChangePacketID := ''cp_1'', ae_Metadata := [(''k'', ''v'')]\<rparr>) sampleStore = (Inr (), r')
     \<and> ListEvidenceAuditEntries ''cp_1'' 0 r'
         = (Inr [zeroEvidenceAuditEntry\<lparr>ae_ChangePacketID := ''cp_1'', ae_Metadata := []\<rparr>], r')"
  using audit_listing [of 7 zeroEvidenceExecution
      "zeroEvidenceAuditEntry\<lparr>ae_ChangePacketID := ''cp_1'', ae_Metadata := [(''k'', ''v'')]\<rparr>" sampleStore]
  by (auto simp: ListEvidenceAuditEntries_def limited_def sampleStore_def SaveChangePacket_def
      NewMemoryRepository_def ensureEvidenceLocked_def)

end
