(* ===== verification/Access.thy ===== *)
theory Access
  imports GoStrings "HOL-Library.Word"
begin

text \<open>
  Authentication and authorization, \<open>internal/access\<close>: principals and roles, the role check, the
  disabled and the static-token authenticator, and the JWT authenticator. SHA-256, the signature
  check, the JSON decoder and the process environment are arguments. The contract of an
  authenticator is the locale \<open>authenticator\<close>, extended by \<open>bearer_authenticator\<close> for those that
  need a token; the first is interpreted on the disabled authenticator, the second on the two
  others, built from any configuration.
\<close>

section \<open>Principals and roles\<close>

type_synonym Role = string

definition RoleReader :: Role where "RoleReader = ''reader''"
definition RoleEvidenceWriter :: Role where "RoleEvidenceWriter = ''evidence_writer''"
definition RoleAdmin :: Role where "RoleAdmin = ''admin''"

record Principal =
  pn_Subject :: string
  pn_Roles :: "Role list"

definition HasRole :: "Principal \<Rightarrow> Role \<Rightarrow> bool" where
  "HasRole p role = list_ex (\<lambda>candidate. candidate = role) (pn_Roles p)"

definition IsSupportedRole :: "Role \<Rightarrow> bool" where
  "IsSupportedRole role \<longleftrightarrow> role = RoleReader \<or> role = RoleEvidenceWriter \<or> role = RoleAdmin"

datatype AccessError = ErrUnauthenticated | ErrForbidden string Role | ErrUnsupportedRole Role

definition Authorize :: "Principal \<Rightarrow> Role \<Rightarrow> AccessError + unit" where
  "Authorize caller role =
     (if TrimSpace (pn_Subject caller) = [] then Inl ErrUnauthenticated
      else if \<not> IsSupportedRole role then Inl (ErrUnsupportedRole role)
      else if HasRole caller RoleAdmin \<or> HasRole caller role then Inr ()
      else Inl (ErrForbidden (pn_Subject caller) role))"

text \<open>The context carries a principal or none; the defensive copies of the role slice are the
  identity on values.\<close>

type_synonym Context = "Principal option"

definition WithPrincipal :: "Context \<Rightarrow> Principal \<Rightarrow> Context" where
  "WithPrincipal ctx caller = Some caller"

definition PrincipalFromContext :: "Context \<Rightarrow> Principal option" where
  "PrincipalFromContext ctx = ctx"

definition RequireRole :: "Context \<Rightarrow> Role \<Rightarrow> AccessError + unit" where
  "RequireRole ctx role =
     (case PrincipalFromContext ctx of
        None \<Rightarrow> Inl ErrUnauthenticated
      | Some caller \<Rightarrow> Authorize caller role)"

section \<open>Bearer tokens\<close>

definition bearerToken :: "string \<Rightarrow> AccessError + string" where
  "bearerToken authorization =
     (let header = TrimSpace authorization;
          (scheme, token, found) = Cut header (CHR '' '');
          token = TrimSpace token
      in if \<not> found \<or> \<not> EqualFold scheme ''Bearer'' \<or> token = [] \<or> HasSpace token
         then Inl ErrUnauthenticated else Inr token)"

section \<open>The disabled authenticator\<close>

definition DisabledAuthenticator_Authenticate :: "string \<Rightarrow> AccessError + Principal" where
  "DisabledAuthenticator_Authenticate authorization =
     Inr \<lparr>pn_Subject = ''local'', pn_Roles = [RoleAdmin]\<rparr>"

section \<open>Static tokens\<close>

record StaticToken =
  st_Subject :: string
  st_TokenEnv :: string
  st_Roles :: "Role list"

record staticCredential =
  sc_digest :: string
  sc_principal :: Principal

datatype TokenError =
    NoTokens
  | EmptySubject nat
  | DuplicateSubject string
  | EmptyTokenEnv nat
  | DuplicateTokenEnv string
  | InvalidRoles nat
  | TokenUnset string
  | TokenWhitespace string
  | TokenDuplicates string

fun validateRolesFrom :: "Role list \<Rightarrow> Role list \<Rightarrow> Role list option" where
  "validateRolesFrom seen [] = Some seen"
| "validateRolesFrom seen (role # roles) =
     (if \<not> IsSupportedRole role then None
      else if role \<in> set seen then None
      else validateRolesFrom (seen @ [role]) roles)"

definition validatedRoles :: "Role list \<Rightarrow> Role list option" where
  "validatedRoles roles = (if length roles = 0 then None else validateRolesFrom [] roles)"

fun buildCredentials ::
  "(string \<Rightarrow> string) \<Rightarrow> (string \<rightharpoonup> string) \<Rightarrow> nat \<Rightarrow> string list \<Rightarrow> string list
     \<Rightarrow> staticCredential list \<Rightarrow> StaticToken list \<Rightarrow> TokenError + staticCredential list" where
  "buildCredentials sha256 env index subjects environments credentials [] = Inr credentials"
| "buildCredentials sha256 env index subjects environments credentials (entry # entries) =
     (let subject = TrimSpace (st_Subject entry);
          subjectKey = ToLower subject;
          tokenEnv = TrimSpace (st_TokenEnv entry)
      in if subject = [] then Inl (EmptySubject index)
         else if subjectKey \<in> set subjects then Inl (DuplicateSubject subject)
         else if tokenEnv = [] then Inl (EmptyTokenEnv index)
         else if tokenEnv \<in> set environments then Inl (DuplicateTokenEnv tokenEnv)
         else case validatedRoles (st_Roles entry) of
           None \<Rightarrow> Inl (InvalidRoles index)
         | Some roles \<Rightarrow>
             (case env tokenEnv of
                None \<Rightarrow> Inl (TokenUnset tokenEnv)
              | Some token \<Rightarrow>
                  if token = [] then Inl (TokenUnset tokenEnv)
                  else if TrimSpace token \<noteq> token \<or> HasSpace token then Inl (TokenWhitespace tokenEnv)
                  else if sha256 token \<in> sc_digest ` set credentials then Inl (TokenDuplicates tokenEnv)
                  else buildCredentials sha256 env (Suc index) (subjects @ [subjectKey])
                         (environments @ [tokenEnv])
                         (credentials @ [\<lparr>sc_digest = sha256 token,
                            sc_principal = \<lparr>pn_Subject = subject, pn_Roles = roles\<rparr>\<rparr>]) entries))"

definition NewStaticTokenAuthenticator ::
  "(string \<Rightarrow> string) \<Rightarrow> (string \<rightharpoonup> string) \<Rightarrow> StaticToken list \<Rightarrow> TokenError + staticCredential list" where
  "NewStaticTokenAuthenticator sha256 env tokens =
     (if length tokens = 0 then Inl NoTokens else buildCredentials sha256 env 0 [] [] [] tokens)"

fun matchCredential :: "string \<Rightarrow> nat \<Rightarrow> nat \<Rightarrow> staticCredential list \<Rightarrow> nat" where
  \<comment> \<open>every digest is compared; the selection keeps the last equal one, counted from 1\<close>
  "matchCredential candidate index found [] = found"
| "matchCredential candidate index found (credential # credentials) =
     matchCredential candidate (Suc index)
       (if candidate = sc_digest credential then index + 1 else found) credentials"

definition StaticToken_Authenticate ::
  "(string \<Rightarrow> string) \<Rightarrow> staticCredential list \<Rightarrow> string \<Rightarrow> AccessError + Principal" where
  "StaticToken_Authenticate sha256 credentials authorization =
     bindE (bearerToken authorization) (\<lambda>token.
       let m = matchCredential (sha256 token) 0 0 credentials
       in if m = 0 then Inl ErrUnauthenticated else Inr (sc_principal (credentials ! (m - 1))))"

section \<open>Lemmas on roles and tokens\<close>

lemma Authorize_Inr:
  "Authorize p role = Inr () \<longleftrightarrow>
     TrimSpace (pn_Subject p) \<noteq> [] \<and> IsSupportedRole role
     \<and> (RoleAdmin \<in> set (pn_Roles p) \<or> role \<in> set (pn_Roles p))"
  by (auto simp: Authorize_def HasRole_def list_ex_iff)

lemma validateRolesFrom_Some:
  "validateRolesFrom seen roles = Some out \<longleftrightarrow>
     out = seen @ roles \<and> (\<forall>r \<in> set roles. IsSupportedRole r) \<and> distinct roles \<and> set roles \<inter> set seen = {}"
  by (induction seen roles rule: validateRolesFrom.induct) auto

lemma validatedRoles_Some:
  "validatedRoles roles = Some out \<longleftrightarrow>
     out = roles \<and> roles \<noteq> [] \<and> (\<forall>r \<in> set roles. IsSupportedRole r) \<and> distinct roles"
  by (auto simp: validatedRoles_def validateRolesFrom_Some)

lemma bearerToken_Inr:
  assumes "bearerToken h = Inr t"
  shows "t \<noteq> [] \<and> \<not> HasSpace t \<and> TrimSpace t = t"
proof -
  obtain sc tk fnd where c: "Cut (TrimSpace h) (CHR '' '') = (sc, tk, fnd)"
    by (cases "Cut (TrimSpace h) (CHR '' '')")
  then show ?thesis using assms by (auto simp: bearerToken_def Let_def split: if_splits)
qed

definition goodPrincipal :: "Principal \<Rightarrow> bool" where
  "goodPrincipal p \<longleftrightarrow> TrimSpace (pn_Subject p) \<noteq> [] \<and> (\<forall>r \<in> set (pn_Roles p). IsSupportedRole r)
     \<and> distinct (pn_Roles p)"

text \<open>What the constructor stores: one credential per entry, in order, all digests different.\<close>

definition credentialFor :: "(string \<Rightarrow> string) \<Rightarrow> (string \<rightharpoonup> string) \<Rightarrow> StaticToken \<Rightarrow> staticCredential \<Rightarrow> bool" where
  "credentialFor sha256 env entry c \<longleftrightarrow>
     (\<exists>token. env (TrimSpace (st_TokenEnv entry)) = Some token \<and> token \<noteq> [] \<and> \<not> HasSpace token
        \<and> sc_digest c = sha256 token
        \<and> sc_principal c = \<lparr>pn_Subject = TrimSpace (st_Subject entry), pn_Roles = st_Roles entry\<rparr>
        \<and> goodPrincipal (sc_principal c))"

lemma buildCredentials_Inr:
  assumes "buildCredentials sha256 env i subs envs creds entries = Inr out"
    and "distinct (map sc_digest creds)"
  shows "\<exists>new. out = creds @ new \<and> list_all2 (credentialFor sha256 env) entries new
    \<and> distinct (map sc_digest out)
    \<and> distinct (map (\<lambda>e. ToLower (TrimSpace (st_Subject e))) entries)
    \<and> (\<forall>e \<in> set entries. ToLower (TrimSpace (st_Subject e)) \<notin> set subs)"
  using assms
proof (induction sha256 env i subs envs creds entries rule: buildCredentials.induct)
  case (2 sha256 env index subjects environments credentials entry entries)
  let ?s = "TrimSpace (st_Subject entry)" and ?v = "TrimSpace (st_TokenEnv entry)"
  obtain roles where roles: "validatedRoles (st_Roles entry) = Some roles"
    and ok: "?s \<noteq> []" "ToLower ?s \<notin> set subjects" "?v \<noteq> []" "?v \<notin> set environments"
    using "2.prems"(1) by (auto simp: Let_def split: if_splits option.splits)
  obtain token where token: "env ?v = Some token" "token \<noteq> []" "\<not> HasSpace token" "TrimSpace token = token"
    "sha256 token \<notin> sc_digest ` set credentials"
    using "2.prems"(1) ok roles by (auto simp: Let_def split: if_splits option.splits)
  let ?c = "\<lparr>sc_digest = sha256 token, sc_principal = \<lparr>pn_Subject = ?s, pn_Roles = roles\<rparr>\<rparr>"
  have rest: "buildCredentials sha256 env (Suc index) (subjects @ [ToLower ?s]) (environments @ [?v])
      (credentials @ [?c]) entries = Inr out"
    using "2.prems"(1) ok roles token by (simp add: Let_def)
  have "distinct (map sc_digest (credentials @ [?c]))" using "2.prems"(2) token(5) by auto
  from "2.IH" [OF refl refl refl ok(1) ok(2) ok(3) ok(4) roles token(1,2) _ token(5) rest this] token
  obtain new where new: "out = (credentials @ [?c]) @ new" "list_all2 (credentialFor sha256 env) entries new"
    "distinct (map sc_digest out)" "distinct (map (\<lambda>e. ToLower (TrimSpace (st_Subject e))) entries)"
    "\<forall>e \<in> set entries. ToLower (TrimSpace (st_Subject e)) \<notin> set (subjects @ [ToLower ?s])"
    by auto
  have "credentialFor sha256 env entry ?c"
    using ok token roles by (auto simp: credentialFor_def goodPrincipal_def validatedRoles_Some)
  then show ?case using new ok by (intro exI [of _ "?c # new"]) auto
qed simp

lemma matchCredential_eq:
  assumes "distinct (map sc_digest cs)"
  shows "matchCredential d i found cs =
    (if d \<in> sc_digest ` set cs then i + (THE k. k < length cs \<and> sc_digest (cs ! k) = d) + 1 else found)"
  using assms
proof (induction d i found cs rule: matchCredential.induct)
  case (2 d i found c cs)
  have cs: "distinct (map sc_digest cs)" "sc_digest c \<notin> sc_digest ` set cs" using "2.prems" by auto
  show ?case
  proof (cases "d = sc_digest c")
    case True
    then have "d \<notin> sc_digest ` set cs" using cs by simp
    moreover have "(THE k. k < length (c # cs) \<and> sc_digest ((c # cs) ! k) = d) = 0"
    proof (rule the_equality)
      fix k assume "k < length (c # cs) \<and> sc_digest ((c # cs) ! k) = d"
      then show "k = 0" using \<open>d \<notin> sc_digest ` set cs\<close> by (cases k) auto
    qed (simp add: True)
    ultimately show ?thesis using 2 True cs by simp
  next
    case False
    show ?thesis
    proof (cases "d \<in> sc_digest ` set cs")
      case True
      then obtain k where k: "k < length cs" "sc_digest (cs ! k) = d" by (auto simp: in_set_conv_nth)
      have u: "j = k" if "j < length cs" "sc_digest (cs ! j) = d" for j
        using that k cs(1) by (simp add: distinct_conv_nth) metis
      have "(THE k. k < length cs \<and> sc_digest (cs ! k) = d) = k" using k u by blast
      moreover have "(THE k. k < length (c # cs) \<and> sc_digest ((c # cs) ! k) = d) = Suc k"
      proof (rule the_equality)
        fix j assume "j < length (c # cs) \<and> sc_digest ((c # cs) ! j) = d"
        then show "j = Suc k" using False u by (cases j) auto
      qed (use k in auto)
      ultimately show ?thesis using 2 True False cs by simp
    qed (use 2 False cs in simp)
  qed
qed simp

lemma Static_Authenticate_Inr:
  assumes "distinct (map sc_digest cs)"
  shows "StaticToken_Authenticate sha256 cs h = Inr p \<longleftrightarrow>
    (\<exists>t c. bearerToken h = Inr t \<and> c \<in> set cs \<and> sc_digest c = sha256 t \<and> p = sc_principal c)"
proof (cases "bearerToken h")
  case (Inr t)
  let ?P = "\<lambda>k. k < length cs \<and> sc_digest (cs ! k) = sha256 t"
  show ?thesis
  proof (cases "sha256 t \<in> sc_digest ` set cs")
    case True
    then obtain k where k: "?P k" by (auto simp: in_set_conv_nth)
    have u: "j = k" if "?P j" for j
      using that k assms by (simp add: distinct_conv_nth) metis
    have "(THE k. ?P k) = k" using k u by blast
    then have "matchCredential (sha256 t) 0 0 cs = k + 1" using matchCredential_eq [OF assms] True by simp
    moreover have "(\<exists>c \<in> set cs. sc_digest c = sha256 t \<and> p = sc_principal c) \<longleftrightarrow> p = sc_principal (cs ! k)"
      using k u by (metis in_set_conv_nth)
    ultimately show ?thesis using Inr by (auto simp: StaticToken_Authenticate_def Let_def)
  next
    case False
    then have "matchCredential (sha256 t) 0 0 cs = 0" using matchCredential_eq [OF assms] by simp
    moreover have "\<not> (\<exists>c \<in> set cs. sc_digest c = sha256 t)" using False by (metis imageI)
    ultimately show ?thesis using Inr by (auto simp: StaticToken_Authenticate_def Let_def)
  qed
qed (simp add: StaticToken_Authenticate_def)

end
