(* ===== verification/Checks.thy ===== *)
theory Checks
  imports Domain Effects
begin

text \<open>
  Publication of check runs, \<open>internal/checks/publisher.go\<close>: the conclusion derived from the
  merge lane and the Markdown summary. A summary is a string of UTF-8 bytes, so its truncation,
  which counts runes, comes with Go's decoding of a string into runes. The GitHub client is an
  argument.
\<close>

section \<open>Runes\<close>

definition byteIn :: "nat \<Rightarrow> nat \<Rightarrow> char \<Rightarrow> bool" where
  "byteIn lo hi c \<longleftrightarrow> lo \<le> (of_char c :: nat) \<and> (of_char c :: nat) \<le> hi"

definition leadWidth :: "char \<Rightarrow> nat" where
  \<comment> \<open>the number of bytes that the first byte announces, 0 for a byte that starts no rune\<close>
  "leadWidth c =
     (if byteIn 0 0x7F c then 1 else if byteIn 0xC2 0xDF c then 2
      else if byteIn 0xE0 0xEF c then 3 else if byteIn 0xF0 0xF4 c then 4 else 0)"

definition secondByte :: "char \<Rightarrow> char \<Rightarrow> bool" where
  \<comment> \<open>the range of the second byte leaves out overlong forms, surrogates and what exceeds U+10FFFF\<close>
  "secondByte c d =
     byteIn (if byteIn 0xE0 0xE0 c then 0xA0 else if byteIn 0xF0 0xF0 c then 0x90 else 0x80)
            (if byteIn 0xED 0xED c then 0x9F else if byteIn 0xF4 0xF4 c then 0x8F else 0xBF) d"

definition runeWidth :: "string \<Rightarrow> nat" where
  \<comment> \<open>the width of the encoded rune at the front, 0 when there is none that is valid\<close>
  "runeWidth s =
     (case s of
        [] \<Rightarrow> 0
      | c # cs \<Rightarrow>
          (let w = leadWidth c; ts = take (w - 1) cs
           in if length ts = w - 1 \<and> (ts = [] \<or> secondByte c (hd ts)) \<and> list_all (byteIn 0x80 0xBF) (tl ts)
              then w else 0))"

definition RuneError :: string where
  "RuneError = [CHR 0xEF, CHR 0xBF, CHR 0xBD]"

function runes :: "string \<Rightarrow> string list" where
  \<comment> \<open>\<^verbatim>\<open>[]rune(s)\<close>, each rune as the bytes that \<^verbatim>\<open>string\<close> writes for it\<close>
  "runes [] = []"
| "runes (c # cs) =
     (let w = runeWidth (c # cs)
      in if w = 0 then RuneError # runes cs else take w (c # cs) # runes (drop (w - 1) cs))"
  by pat_completeness auto
termination by (relation "measure length") auto

definition truncateSummary :: "string \<Rightarrow> nat \<Rightarrow> string" where
  "truncateSummary val maxRunes =
     (let rs = runes val
      in if length rs \<le> maxRunes then val
         else concat (take (maxRunes - 1) rs) @ [CHR 0xE2, CHR 0x80, CHR 0xA6])"

section \<open>The summary\<close>

abbreviation newline :: string where
  "newline \<equiv> [CHR 0x0A]"

definition emDash :: string where
  "emDash = [CHR 0xE2, CHR 0x80, CHR 0x94]"

definition writeDecisionSummary :: "ChangePacket \<Rightarrow> string" where
  "writeDecisionSummary packet =
     (let d = cp_Decision packet
      in (if pd_Summary d \<noteq> [] then newline @ ''**Why:** '' @ pd_Summary d @ newline else [])
       @ (if length (pd_AppliedPolicies d) > 0
          then newline @ ''**Applied policies:** '' @ Join (pd_AppliedPolicies d) '', '' @ newline else []))"

definition writeMutationsSummary :: "ChangePacket \<Rightarrow> string" where
  "writeMutationsSummary packet =
     (if length (cp_Mutations packet) = 0 then []
      else newline @ ''### Detected mutations'' @ newline
        @ concat (map (\<lambda>m. ''- **'' @ mu_Severity m @ ''** `'' @ mu_Kind m @ ''` '' @ emDash @ '' ''
             @ mu_Title m @ newline) (cp_Mutations packet)))"

definition writeRiskSummary :: "ChangePacket \<Rightarrow> string" where
  "writeRiskSummary packet =
     (if length (cp_Risks packet) = 0 then []
      else newline @ ''### Risk and mitigation'' @ newline
        @ concat (map (\<lambda>r. ''- **'' @ ri_Type r @ '' (+'' @ Itoa (ri_Score r) @ ''):** '' @ ri_Summary r @ newline
             @ concat (map (\<lambda>m. ''  - '' @ m @ newline) (ri_Mitigations r))) (cp_Risks packet)))"

definition reviewerRequirement :: "ReviewerRequirement \<Rightarrow> string" where
  "reviewerRequirement reviewer = (if rv_Mandatory reviewer then ''required'' else ''recommended'')"

definition writeReviewerSummary :: "ChangePacket \<Rightarrow> string" where
  "writeReviewerSummary packet =
     (if length (cp_Reviewers packet) = 0 then []
      else newline @ ''### Required reviewers'' @ newline
        @ concat (map (\<lambda>r. ''- `'' @ rv_Team r @ ''` ('' @ reviewerRequirement r @ ''): '' @ rv_Reason r
             @ newline) (cp_Reviewers packet)))"

definition evidenceStatuses :: "EvidenceExecution list \<Rightarrow> string \<rightharpoonup> EvidenceStatus" where
  "evidenceStatuses executions =
     foldl (\<lambda>statuses execution. statuses(ee_Name execution \<mapsto> ee_Status execution)) Map.empty executions"

definition statusOf :: "(string \<rightharpoonup> EvidenceStatus) \<Rightarrow> string \<Rightarrow> EvidenceStatus" where
  \<comment> \<open>reading the Go map: the empty string for a missing key\<close>
  "statusOf statuses name = (case statuses name of None \<Rightarrow> [] | Some s \<Rightarrow> s)"

definition evidenceSummaryLine :: "EvidenceRequirement \<Rightarrow> EvidenceStatus \<Rightarrow> string" where
  "evidenceSummaryLine evidence status =
     (let requirement = (if er_Required evidence then ''required'' else ''optional'');
          status = (if status = [] then EvidencePending else status);
          marker = (if status = EvidenceSatisfied \<or> status = EvidenceWaived then ''x'' else '' '');
          line = ''- ['' @ marker @ ''] `'' @ er_Name evidence @ ''` ('' @ requirement @ '') '' @ emDash
            @ '' **'' @ status @ ''**''
      in if er_Reason evidence \<noteq> [] then line @ '': '' @ er_Reason evidence else line)"

definition writeEvidenceSummary :: "ChangePacket \<Rightarrow> EvidenceExecution list \<Rightarrow> string" where
  "writeEvidenceSummary packet executions =
     (if length (cp_Evidence packet) = 0 then []
      else newline @ ''### Evidence checklist'' @ newline
        @ (let statusByName = evidenceStatuses executions
           in concat (map (\<lambda>q. evidenceSummaryLine q (statusOf statusByName (er_Name q)) @ newline)
                (cp_Evidence packet))))"

definition writeDeploymentSummary :: "ChangePacket \<Rightarrow> string" where
  "writeDeploymentSummary packet =
     (let d = cp_Deployment packet
      in newline @ ''### Deployment guidance'' @ newline
       @ ''- Strategy: **'' @ dr_Strategy d @ ''**'' @ newline
       @ (if dr_RequiresCanary d then ''- Canary rollout required'' @ newline else [])
       @ (if dr_RequiresRollbackPlan d then ''- Rollback plan required'' @ newline else [])
       @ (if length (dr_Environments d) > 0
          then ''- Environments: '' @ Join (dr_Environments d) '', '' @ newline else []))"

definition fullSummary :: "ChangePacket \<Rightarrow> EvidenceExecution list \<Rightarrow> string" where
  \<comment> \<open>the contents of the builder before the truncation\<close>
  "fullSummary packet executions =
     ''## Merger change control'' @ newline @ newline
     @ ''| Merge lane | Risk | Decision |'' @ newline
     @ ''| --- | ---: | --- |'' @ newline
     @ ''| **'' @ cp_MergeLane packet @ ''** | '' @ Itoa (rs_Score (cp_RiskSummary packet)) @ '' (''
     @ rs_Severity (cp_RiskSummary packet) @ '') | '' @ pd_Status (cp_Decision packet) @ '' |'' @ newline
     @ writeDecisionSummary packet
     @ writeMutationsSummary packet
     @ writeRiskSummary packet
     @ writeReviewerSummary packet
     @ writeEvidenceSummary packet executions
     @ writeDeploymentSummary packet"

definition buildCheckSummary :: "ChangePacket \<Rightarrow> EvidenceExecution list \<Rightarrow> string" where
  "buildCheckSummary packet executions = truncateSummary (fullSummary packet executions) 60000"

section \<open>Publication\<close>

record CheckRunInput =
  ci_RepoOwner :: string
  ci_RepoName :: string
  ci_HeadSHA :: string
  ci_Name :: string
  ci_Status :: string
  ci_Conclusion :: string
  ci_Summary :: string
  ci_DetailsURL :: string

type_synonym 'w PublishCheckRun = "CheckRunInput \<Rightarrow> ('w, string, unit) io"

record 'w CheckRunPublisher =
  cc_PublishCheckRun :: "'w PublishCheckRun"
  cc_ForInstallation :: "(int \<Rightarrow> 'w PublishCheckRun) option" \<comment> \<open>for a client that is an \<open>InstallationBinder\<close>\<close>

type_synonym 'w GitHubCheckPublisher = "'w CheckRunPublisher option" \<comment> \<open>its client, or nil\<close>

definition conclusionFor :: "MergeLane \<Rightarrow> string" where
  "conclusionFor lane =
     (if lane = MergeLaneGreen then ''success''
      else if lane = MergeLaneBlack then ''action_required''
      else if lane = MergeLaneRed then ''neutral''
      else ''neutral'')"

definition boundClient :: "'w CheckRunPublisher \<Rightarrow> ChangePacket \<Rightarrow> 'w PublishCheckRun" where
  "boundClient client packet =
     (case cc_ForInstallation client of
        None \<Rightarrow> cc_PublishCheckRun client
      | Some forInstallation \<Rightarrow>
          (let rawInstallationID = mapGet (cp_Metadata packet) ''installation_id''
           in if rawInstallationID = [] then cc_PublishCheckRun client
              else (case ParseInt64 rawInstallationID of
                      None \<Rightarrow> cc_PublishCheckRun client
                    | Some installationID \<Rightarrow> forInstallation installationID)))"

definition checkRunFor :: "ChangePacket \<Rightarrow> EvidenceExecution list \<Rightarrow> CheckRunInput" where
  "checkRunFor packet executions =
     \<lparr>ci_RepoOwner = rr_Owner (cp_Repo packet), ci_RepoName = rr_Name (cp_Repo packet),
      ci_HeadSHA = pr_HeadSHA (cp_PR packet), ci_Name = ''merger/change-control'',
      ci_Status = ''completed'', ci_Conclusion = conclusionFor (cp_MergeLane packet),
      ci_Summary = buildCheckSummary packet executions, ci_DetailsURL = []\<rparr>"

definition PublishWithEvidence ::
  "'w GitHubCheckPublisher \<Rightarrow> ChangePacket \<Rightarrow> EvidenceExecution list \<Rightarrow> ('w, string, unit) io" where
  "PublishWithEvidence p packet executions =
     (case p of
        None \<Rightarrow> retM ()
      | Some client \<Rightarrow> boundClient client packet (checkRunFor packet executions))"

definition checks_Publish :: "'w GitHubCheckPublisher \<Rightarrow> ChangePacket \<Rightarrow> ('w, string, unit) io" where
  "checks_Publish p packet = PublishWithEvidence p packet []"

section \<open>Lemmas on runes\<close>

text \<open>An encoded rune is decoded as itself in front of any other bytes.\<close>

definition encodedRune :: "string \<Rightarrow> bool" where
  "encodedRune r \<longleftrightarrow> r \<noteq> [] \<and> runeWidth r = length r"

lemma runeWidth_le: "runeWidth s \<le> length s"
  by (cases s) (auto simp: runeWidth_def Let_def)

lemma runeWidth_append: "runeWidth s \<noteq> 0 \<Longrightarrow> runeWidth (s @ t) = runeWidth s"
  by (cases s) (auto simp: runeWidth_def Let_def split: if_splits)

lemma runeWidth_take: "runeWidth (take (runeWidth s) s) = runeWidth s"
proof (cases s)
  case (Cons c cs)
  then show ?thesis
    by (cases "leadWidth c") (auto simp: runeWidth_def Let_def)
qed (simp add: runeWidth_def)

lemma runes_encoded: "r \<in> set (runes s) \<Longrightarrow> encodedRune r"
proof (induction s rule: runes.induct)
  case (2 c cs)
  let ?w = "runeWidth (c # cs)"
  have "encodedRune RuneError" by (simp add: encodedRune_def RuneError_def runeWidth_def leadWidth_def secondByte_def byteIn_def)
  moreover have "encodedRune (take ?w (c # cs))" if "?w \<noteq> 0"
    using that runeWidth_le [of "c # cs"] runeWidth_take [of "c # cs"] by (simp add: encodedRune_def)
  ultimately show ?case using 2 by (auto simp: Let_def simp del: take_Suc_Cons split: if_splits)
qed simp

lemma runes_append: "encodedRune r \<Longrightarrow> runes (r @ s) = r # runes s"
proof -
  assume e: "encodedRune r"
  then obtain c cs where r: "r = c # cs" by (cases r) (auto simp: encodedRune_def)
  have "runeWidth (r @ s) = Suc (length cs)"
    using e runeWidth_append [of r s] by (simp add: encodedRune_def r)
  then show ?thesis by (simp add: r)
qed

lemma runes_concat: "(\<forall>r \<in> set rs. encodedRune r) \<Longrightarrow> runes (concat rs @ s) = rs @ runes s"
  by (induction rs) (auto simp: runes_append)

lemma truncateSummary_runes:
  assumes "0 < n"
  shows "length (runes (truncateSummary s n)) \<le> n
    \<and> (length (runes s) \<le> n \<longrightarrow> truncateSummary s n = s)
    \<and> (\<not> length (runes s) \<le> n \<longrightarrow> butlast (runes (truncateSummary s n)) = take (n - 1) (runes s))"
proof -
  let ?dots = "[CHR 0xE2, CHR 0x80, CHR 0xA6]"
  have d: "runes ?dots = [?dots]"
    by (simp add: runeWidth_def leadWidth_def secondByte_def byteIn_def)
  have "runes (concat (take (n - 1) (runes s)) @ ?dots) = take (n - 1) (runes s) @ [?dots]"
    unfolding d [symmetric] by (rule runes_concat) (auto dest: in_set_takeD intro: runes_encoded)
  then show ?thesis using assms by (simp add: truncateSummary_def Let_def)
qed

lemma evidenceStatuses_lookup:
  assumes "distinct (map ee_Name es)" and "e \<in> set es"
  shows "evidenceStatuses es (ee_Name e) = Some (ee_Status e)"
  using assms
proof (induction es rule: rev_induct)
  case (snoc x es)
  then show ?case by (cases "e = x") (auto simp: evidenceStatuses_def image_iff)
qed simp

lemma evidenceStatuses_None: "evidenceStatuses es n = None \<longleftrightarrow> n \<notin> ee_Name ` set es"
  by (induction es rule: rev_induct) (auto simp: evidenceStatuses_def)

section \<open>Properties\<close>

text \<open>
  Publication of a check run. Without a client nothing is published and nothing changes; with
  one, exactly one check run goes to GitHub, through the client bound to the installation whose
  number the packet's metadata holds, or through the given client when there is no valid number.
  It names the packet's repository and head commit; its conclusion is success exactly for the green
  lane and action required exactly for the black lane; its summary has at most 60000 runes, and
  when the text is longer, the published one is cut after 59999 whole runes.
\<close>

theorem PublishWithEvidence_published:
  "PublishWithEvidence None packet executions w = (Inr (), w)
   \<and> (\<exists>input. PublishWithEvidence (Some client) packet executions = boundClient client packet input
        \<and> ci_RepoOwner input = rr_Owner (cp_Repo packet) \<and> ci_RepoName input = rr_Name (cp_Repo packet)
        \<and> ci_HeadSHA input = pr_HeadSHA (cp_PR packet) \<and> ci_Status input = ''completed''
        \<and> (ci_Conclusion input = ''success'' \<longleftrightarrow> cp_MergeLane packet = MergeLaneGreen)
        \<and> (ci_Conclusion input = ''action_required'' \<longleftrightarrow> cp_MergeLane packet = MergeLaneBlack)
        \<and> length (runes (ci_Summary input)) \<le> 60000
        \<and> (if length (runes (fullSummary packet executions)) \<le> 60000
           then ci_Summary input = fullSummary packet executions
           else butlast (runes (ci_Summary input)) = take 59999 (runes (fullSummary packet executions))))
   \<and> boundClient client packet =
       (case (cc_ForInstallation client, ParseInt64 (mapGet (cp_Metadata packet) ''installation_id'')) of
          (Some forInstallation, Some n) \<Rightarrow> forInstallation n
        | _ \<Rightarrow> cc_PublishCheckRun client)"
proof -
  let ?s = "fullSummary packet executions"
  have t: "length (runes (truncateSummary ?s 60000)) \<le> 60000"
    "length (runes ?s) \<le> 60000 \<longrightarrow> truncateSummary ?s 60000 = ?s"
    "\<not> length (runes ?s) \<le> 60000 \<longrightarrow> butlast (runes (truncateSummary ?s 60000)) = take 59999 (runes ?s)"
    using truncateSummary_runes [of 60000 ?s] by simp_all
  have "ParseInt64 [] = None" by (simp add: ParseInt64_def)
  then have "boundClient client packet =
       (case (cc_ForInstallation client, ParseInt64 (mapGet (cp_Metadata packet) ''installation_id'')) of
          (Some forInstallation, Some n) \<Rightarrow> forInstallation n
        | _ \<Rightarrow> cc_PublishCheckRun client)"
    by (auto simp: boundClient_def Let_def split: option.split)
  moreover have "conclusionFor l = ''success'' \<longleftrightarrow> l = MergeLaneGreen"
    "conclusionFor l = ''action_required'' \<longleftrightarrow> l = MergeLaneBlack" for l
    by (simp_all add: conclusionFor_def)
  moreover have "PublishWithEvidence (Some client) packet executions
      = boundClient client packet (checkRunFor packet executions)"
    by (simp add: PublishWithEvidence_def)
  ultimately show ?thesis
    using t by (intro conjI exI [of _ "checkRunFor packet executions"])
      (simp_all add: PublishWithEvidence_def checkRunFor_def buildCheckSummary_def del: runes.simps)
qed

end
