(* ===== verification/Lanes.thy ===== *)
theory Lanes
  imports Domain
begin

text \<open>
  Merge-lane assignment, \<open>internal/lanes/assigner.go\<close>, with an abstract specification: four
  lanes in their order, the lane the packet earns, and the policy's minimum lane as a lower
  bound. The interface \<open>lanes.Assigner\<close> is the locale \<open>lane_assigner\<close>.
\<close>

section \<open>The assigner\<close>

record LanesConfig =
  lc_GreenMax :: int
  lc_YellowMax :: int
  lc_RedMax :: int

definition laneOrder :: "MergeLane \<Rightarrow> int" where
  \<comment> \<open>the map literal of \<open>maxLane\<close>; a missing key reads as 0\<close>
  "laneOrder l =
     (if l = MergeLaneGreen then 1 else if l = MergeLaneYellow then 2
      else if l = MergeLaneRed then 3 else if l = MergeLaneBlack then 4 else 0)"

definition lanes_maxLane :: "MergeLane \<Rightarrow> MergeLane \<Rightarrow> MergeLane" where
  "lanes_maxLane a b =
     (if b = [] then a else if laneOrder b > laneOrder a then b else a)"

definition requiresEscalatedReview :: "ChangePacket \<Rightarrow> bool" where
  "requiresEscalatedReview packet = list_ex rv_Mandatory (cp_Reviewers packet)"

definition forcedLane :: "ChangePacket \<Rightarrow> MergeLane option" where
  "forcedLane packet =
     (let d = cp_Decision packet; c = cp_Conflict packet
      in if pd_Status d = DecisionBlocked \<or> ca_RequiresHumanResolution c then Some MergeLaneBlack
         else if ca_Route c = ConflictRouteRefreshAndVerify
           then Some (lanes_maxLane MergeLaneRed (pd_MinimumLane d))
         else if pd_MinimumLane d = MergeLaneBlack then Some MergeLaneBlack
         else if pd_Status d = DecisionPending \<or> pd_Status d = DecisionEscalated
           then Some (lanes_maxLane MergeLaneRed (pd_MinimumLane d))
         else None)"

definition Assign :: "LanesConfig \<Rightarrow> ChangePacket \<Rightarrow> string + MergeLane" where
  "Assign cfg packet =
     (case forcedLane packet of
        Some lane \<Rightarrow> Inr lane
      | None \<Rightarrow>
          (let score = rs_Score (cp_RiskSummary packet);
               canary = dr_RequiresCanary (cp_Deployment packet);
               minLane = pd_MinimumLane (cp_Decision packet)
           in if score \<le> lc_GreenMax cfg \<and> length (cp_Reviewers packet) = 0 \<and> \<not> canary
                then Inr (lanes_maxLane MergeLaneGreen minLane)
              else if score \<le> lc_YellowMax cfg \<and> \<not> requiresEscalatedReview packet
                then Inr (lanes_maxLane MergeLaneYellow minLane)
              else if score \<le> lc_RedMax cfg \<or> requiresEscalatedReview packet \<or> canary
                then Inr (lanes_maxLane MergeLaneRed minLane)
              else Inr MergeLaneBlack))"

section \<open>The abstract specification\<close>

datatype Lane = Green | Yellow | Red | Black

fun laneRank :: "Lane \<Rightarrow> nat" where
  "laneRank Green = 1"
| "laneRank Yellow = 2"
| "laneRank Red = 3"
| "laneRank Black = 4"

lemma laneRank_inject [simp]: "laneRank a = laneRank b \<longleftrightarrow> a = b"
  by (cases a; cases b) simp_all

instantiation Lane :: linorder
begin

definition less_eq_Lane :: "Lane \<Rightarrow> Lane \<Rightarrow> bool" where
  "less_eq_Lane a b \<longleftrightarrow> laneRank a \<le> laneRank b"

definition less_Lane :: "Lane \<Rightarrow> Lane \<Rightarrow> bool" where
  "less_Lane a b \<longleftrightarrow> laneRank a < laneRank b"

instance
  by standard (auto simp: less_eq_Lane_def less_Lane_def)

end

lemmas Lane_order = less_eq_Lane_def less_Lane_def

definition absLane :: "MergeLane \<Rightarrow> Lane option" where
  "absLane l =
     (if l = MergeLaneGreen then Some Green else if l = MergeLaneYellow then Some Yellow
      else if l = MergeLaneRed then Some Red else if l = MergeLaneBlack then Some Black else None)"

definition laneFloor :: "ChangePacket \<Rightarrow> Lane" where
  "laneFloor packet =
     (case absLane (pd_MinimumLane (cp_Decision packet)) of None \<Rightarrow> Green | Some l \<Rightarrow> l)"

definition undecided :: "ChangePacket \<Rightarrow> bool" where
  "undecided packet \<longleftrightarrow>
     pd_Status (cp_Decision packet) = DecisionPending
     \<or> pd_Status (cp_Decision packet) = DecisionEscalated"

definition stopped :: "ChangePacket \<Rightarrow> bool" where
  "stopped packet \<longleftrightarrow>
     pd_Status (cp_Decision packet) = DecisionBlocked
     \<or> ca_RequiresHumanResolution (cp_Conflict packet)"

definition earnedLane :: "LanesConfig \<Rightarrow> ChangePacket \<Rightarrow> Lane" where
  "earnedLane cfg packet =
     (let score = rs_Score (cp_RiskSummary packet);
          canary = dr_RequiresCanary (cp_Deployment packet)
      in if stopped packet then Black
         else if undecided packet \<or> requiresEscalatedReview packet
              \<or> ca_Route (cp_Conflict packet) = ConflictRouteRefreshAndVerify then Red
         else if score \<le> lc_GreenMax cfg \<and> cp_Reviewers packet = [] \<and> \<not> canary then Green
         else if score \<le> lc_YellowMax cfg then Yellow
         else if score \<le> lc_RedMax cfg \<or> canary then Red
         else Black)"

definition laneSpec :: "LanesConfig \<Rightarrow> ChangePacket \<Rightarrow> Lane" where
  "laneSpec cfg packet = max (earnedLane cfg packet) (laneFloor packet)"

lemma laneOrder_absLane:
  "laneOrder l = (case absLane l of None \<Rightarrow> 0 | Some a \<Rightarrow> int (laneRank a))"
  by (auto simp: laneOrder_def absLane_def)

lemma absLane_empty [simp]: "absLane [] = None"
  by (simp add: absLane_def domain_consts)

lemma absLane_consts [simp]:
  "absLane MergeLaneGreen = Some Green" "absLane MergeLaneYellow = Some Yellow"
  "absLane MergeLaneRed = Some Red" "absLane MergeLaneBlack = Some Black"
  by (simp_all add: absLane_def)

lemma absLane_inject: "absLane l = Some a \<Longrightarrow> absLane m = Some a \<Longrightarrow> l = m"
  by (cases a) (auto simp: absLane_def split: if_splits)

lemma absLane_maxLane:
  "absLane a = Some x \<Longrightarrow>
   absLane (lanes_maxLane a b) = Some (max x (case absLane b of None \<Rightarrow> Green | Some y \<Rightarrow> y))"
proof (cases "absLane b")
  case (Some y)
  then have "b \<noteq> []" by auto
  moreover assume "absLane a = Some x"
  ultimately show ?thesis
    using Some by (auto simp: lanes_maxLane_def laneOrder_absLane max_def Lane_order)
qed (cases x; simp add: lanes_maxLane_def laneOrder_absLane max_def Lane_order)

lemma escalated_reviewers: "requiresEscalatedReview p \<Longrightarrow> cp_Reviewers p \<noteq> []"
  by (auto simp: requiresEscalatedReview_def)

lemma max_Black [simp]: "max Black x = Black" "max x Black = Black"
  by (cases x; simp add: max_def Lane_order)+

lemma forcedLane_spec:
  assumes "forcedLane p = Some l"
  shows "absLane l = Some (laneSpec cfg p)"
proof -
  consider (stop) "stopped p"
    | (drift) "\<not> stopped p" "ca_Route (cp_Conflict p) = ConflictRouteRefreshAndVerify"
    | (black) "\<not> stopped p" "ca_Route (cp_Conflict p) \<noteq> ConflictRouteRefreshAndVerify"
        "pd_MinimumLane (cp_Decision p) = MergeLaneBlack"
    | (pend) "\<not> stopped p" "ca_Route (cp_Conflict p) \<noteq> ConflictRouteRefreshAndVerify"
        "pd_MinimumLane (cp_Decision p) \<noteq> MergeLaneBlack" "undecided p"
    using assms
    by (auto simp: forcedLane_def Let_def stopped_def undecided_def split: if_splits)
  then show ?thesis
    using assms
    by cases
      (auto simp: forcedLane_def Let_def stopped_def undecided_def laneSpec_def earnedLane_def
        laneFloor_def absLane_maxLane)
qed

lemma Assign_absLane: "\<exists>l. Assign cfg p = Inr l \<and> absLane l = Some (laneSpec cfg p)"
proof (cases "forcedLane p")
  case (Some l)
  then show ?thesis using forcedLane_spec by (simp add: Assign_def)
next
  case None
  then have "\<not> stopped p" "\<not> undecided p"
    "ca_Route (cp_Conflict p) \<noteq> ConflictRouteRefreshAndVerify"
    by (auto simp: forcedLane_def Let_def stopped_def undecided_def split: if_splits)
  then show ?thesis
    using None escalated_reviewers [of p]
    by (auto simp: Assign_def Let_def laneSpec_def earnedLane_def laneFloor_def absLane_maxLane)
qed

section \<open>The interface \<open>Assigner\<close>\<close>

text \<open>
  What the clients of an assigner rely on: it always answers with one of the four lanes, a
  stopped packet is in the last lane, an undecided one in the third or the last, and the
  policy's minimum lane is respected.
\<close>

locale lane_assigner =
  fixes assign :: "ChangePacket \<Rightarrow> string + MergeLane"
  assumes assign_total: "\<exists>l a. assign p = Inr l \<and> absLane l = Some a"
    and assign_stopped: "stopped p \<Longrightarrow> assign p = Inr MergeLaneBlack"
    and assign_undecided: "undecided p \<Longrightarrow> assign p = Inr l \<Longrightarrow> absLane l = Some a \<Longrightarrow> Red \<le> a"
    and assign_floor: "assign p = Inr l \<Longrightarrow> absLane l = Some a \<Longrightarrow> laneFloor p \<le> a"
begin

lemma assign_not_error: "assign p \<noteq> Inl e"
  using assign_total [of p] by auto

lemma green_is_decided:
  assumes "assign p = Inr MergeLaneGreen"
  shows "\<not> stopped p \<and> \<not> undecided p \<and> laneFloor p = Green"
proof (intro conjI notI)
  assume "stopped p"
  then show False using assms assign_stopped by simp
next
  assume "undecided p"
  then have "Red \<le> Green" using assms assign_undecided by simp
  then show False by (simp add: Lane_order)
next
  have "laneFloor p \<le> Green" using assms assign_floor by simp
  then show "laneFloor p = Green" by (cases "laneFloor p") (simp_all add: Lane_order)
qed

end

lemma earnedLane_undecided: "undecided p \<Longrightarrow> Red \<le> earnedLane cfg p"
  by (auto simp: earnedLane_def Let_def Lane_order)

interpretation threshold: lane_assigner "Assign cfg" for cfg
proof unfold_locales
  fix p l a
  show "\<exists>l a. Assign cfg p = Inr l \<and> absLane l = Some a"
    using Assign_absLane by blast
  show "Assign cfg p = Inr MergeLaneBlack" if "stopped p"
    using that by (auto simp: Assign_def forcedLane_def Let_def stopped_def)
  show "Red \<le> a" if "undecided p" "Assign cfg p = Inr l" "absLane l = Some a"
    using that Assign_absLane [of cfg p] earnedLane_undecided [of p cfg]
    by (auto simp: laneSpec_def le_max_iff_disj)
  show "laneFloor p \<le> a" if "Assign cfg p = Inr l" "absLane l = Some a"
    using that Assign_absLane [of cfg p] by (auto simp: laneSpec_def)
qed

section \<open>Properties\<close>

text \<open>
  C29: lane assignment implements its abstract specification. For every configuration and packet
  the assigner returns one of the four lanes, and it is the greater of the lane the packet earns
  and the policy's minimum lane.
\<close>

theorem Assign_refines_laneSpec:
  "\<exists>l. Assign cfg packet = Inr l
     \<and> absLane l = Some (max (earnedLane cfg packet) (laneFloor packet))"
  using Assign_absLane [of cfg packet] by (simp add: laneSpec_def)

text \<open>
  A change is reported as \<open>GREEN\<close> exactly when nothing holds it back: no block and no
  conflict to resolve by hand, no base drift to verify, a settled decision, no reviewer, no
  canary, a score within the green threshold and no higher minimum lane.
\<close>

theorem Assign_green_iff:
  "Assign cfg packet = Inr MergeLaneGreen \<longleftrightarrow>
     pd_Status (cp_Decision packet) \<notin> {DecisionBlocked, DecisionPending, DecisionEscalated}
     \<and> \<not> ca_RequiresHumanResolution (cp_Conflict packet)
     \<and> ca_Route (cp_Conflict packet) \<noteq> ConflictRouteRefreshAndVerify
     \<and> cp_Reviewers packet = [] \<and> \<not> dr_RequiresCanary (cp_Deployment packet)
     \<and> rs_Score (cp_RiskSummary packet) \<le> lc_GreenMax cfg
     \<and> pd_MinimumLane (cp_Decision packet) \<notin> {MergeLaneYellow, MergeLaneRed, MergeLaneBlack}"
proof -
  obtain l where l: "Assign cfg packet = Inr l" "absLane l = Some (laneSpec cfg packet)"
    using Assign_absLane by blast
  have "Assign cfg packet = Inr MergeLaneGreen \<longleftrightarrow> laneSpec cfg packet = Green"
    using l absLane_inject [of l Green MergeLaneGreen] by auto
  also have "\<dots> \<longleftrightarrow> earnedLane cfg packet = Green \<and> laneFloor packet = Green"
    by (cases "earnedLane cfg packet"; cases "laneFloor packet")
       (simp_all add: laneSpec_def max_def Lane_order)
  also have "laneFloor packet = Green \<longleftrightarrow>
      pd_MinimumLane (cp_Decision packet) \<notin> {MergeLaneYellow, MergeLaneRed, MergeLaneBlack}"
    by (simp add: laneFloor_def absLane_def)
  also have "earnedLane cfg packet = Green \<longleftrightarrow>
      \<not> stopped packet \<and> \<not> undecided packet
      \<and> ca_Route (cp_Conflict packet) \<noteq> ConflictRouteRefreshAndVerify
      \<and> cp_Reviewers packet = [] \<and> \<not> dr_RequiresCanary (cp_Deployment packet)
      \<and> rs_Score (cp_RiskSummary packet) \<le> lc_GreenMax cfg"
    using escalated_reviewers [of packet] by (auto simp: earnedLane_def Let_def)
  finally show ?thesis by (auto simp: stopped_def undecided_def)
qed

text \<open>
  The lane is monotone in the risk score. Raising the score of a packet and leaving
  everything else as it is never moves it to a lower lane.
\<close>

theorem Assign_monotone_in_score:
  assumes "s \<le> t"
    and "Assign cfg (packet\<lparr>cp_RiskSummary := (cp_RiskSummary packet)\<lparr>rs_Score := s\<rparr>\<rparr>) = Inr l"
    and "Assign cfg (packet\<lparr>cp_RiskSummary := (cp_RiskSummary packet)\<lparr>rs_Score := t\<rparr>\<rparr>) = Inr m"
  shows "laneOrder l \<le> laneOrder m"
proof -
  let ?p = "\<lambda>n. packet\<lparr>cp_RiskSummary := (cp_RiskSummary packet)\<lparr>rs_Score := n\<rparr>\<rparr>"
  have "absLane l = Some (laneSpec cfg (?p s))" "absLane m = Some (laneSpec cfg (?p t))"
    using Assign_absLane [of cfg "?p s"] Assign_absLane [of cfg "?p t"] assms(2,3) by auto
  moreover have "earnedLane cfg (?p s) \<le> earnedLane cfg (?p t)"
    using assms(1)
    by (auto simp: earnedLane_def Let_def stopped_def undecided_def requiresEscalatedReview_def
        Lane_order)
  then have "laneSpec cfg (?p s) \<le> laneSpec cfg (?p t)"
    unfolding laneSpec_def by (rule max.mono) (simp add: laneFloor_def)
  ultimately show ?thesis by (simp add: laneOrder_absLane Lane_order)
qed

definition samplePacket :: ChangePacket where
  "samplePacket = zeroChangePacket\<lparr>cp_Decision := zeroPolicyDecision\<lparr>pd_Status := DecisionApproved\<rparr>\<rparr>"

definition sampleLanes :: LanesConfig where
  "sampleLanes = \<lparr>lc_GreenMax = 20, lc_YellowMax = 55, lc_RedMax = 85\<rparr>"

lemmas sample_defs = samplePacket_def sampleLanes_def zero_defs

theorem Assign_monotone_in_score_witness:
  "laneOrder MergeLaneGreen \<le> laneOrder MergeLaneRed"
proof -
  have "Assign sampleLanes (samplePacket\<lparr>cp_RiskSummary := (cp_RiskSummary samplePacket)\<lparr>rs_Score := 10\<rparr>\<rparr>)
      = Inr MergeLaneGreen"
    by (simp add: Assign_def forcedLane_def Let_def lanes_maxLane_def sample_defs)
  moreover have "Assign sampleLanes (samplePacket\<lparr>cp_RiskSummary := (cp_RiskSummary samplePacket)\<lparr>rs_Score := 80\<rparr>\<rparr>)
      = Inr MergeLaneRed"
    by (simp add: Assign_def forcedLane_def Let_def lanes_maxLane_def sample_defs
        requiresEscalatedReview_def)
  ultimately show ?thesis using Assign_monotone_in_score [of 10 80] by simp
qed

text \<open>
  A packet whose policy decision is pending or escalated is assigned at least the \<open>RED\<close>
  lane, whatever its score, and a blocked one or one with conflict markers the \<open>BLACK\<close> lane.
\<close>

theorem Assign_undecided_at_least_red:
  assumes "Assign cfg packet = Inr l"
  shows "(pd_Status (cp_Decision packet) \<in> {DecisionPending, DecisionEscalated} \<longrightarrow> 3 \<le> laneOrder l)
    \<and> (pd_Status (cp_Decision packet) = DecisionBlocked
        \<or> ca_RequiresHumanResolution (cp_Conflict packet) \<longrightarrow> l = MergeLaneBlack)"
proof (intro conjI impI)
  assume "pd_Status (cp_Decision packet) \<in> {DecisionPending, DecisionEscalated}"
  then have u: "undecided packet" by (auto simp: undecided_def)
  obtain a where a: "absLane l = Some a" using threshold.assign_total [of cfg packet] assms by auto
  then have "Red \<le> a" using threshold.assign_undecided [OF u assms] by simp
  then show "3 \<le> laneOrder l" using a by (simp add: laneOrder_absLane Lane_order)
next
  assume "pd_Status (cp_Decision packet) = DecisionBlocked
    \<or> ca_RequiresHumanResolution (cp_Conflict packet)"
  then have "stopped packet" by (simp add: stopped_def)
  then show "l = MergeLaneBlack" using threshold.assign_stopped assms by auto
qed

theorem Assign_undecided_at_least_red_witness:
  "3 \<le> laneOrder MergeLaneRed"
proof -
  let ?p = "samplePacket\<lparr>cp_Decision := zeroPolicyDecision\<lparr>pd_Status := DecisionPending\<rparr>\<rparr>"
  have "Assign sampleLanes ?p = Inr MergeLaneRed"
    by (simp add: Assign_def forcedLane_def Let_def lanes_maxLane_def sample_defs domain_consts)
  from Assign_undecided_at_least_red [OF this] show ?thesis by simp
qed

end
