(* ===== verification/ControlPlane.thy ===== *)
theory ControlPlane
  imports Store Access Checks Lanes
begin

text \<open>
  The control-plane service, \<open>internal/controlplane/service.go\<close> and \<open>errors.go\<close>: reading packets,
  recording deployment outcomes, the calibration report, and the update of an evidence execution
  with the reconciliation of the packet's decision. The repository, the lane assigner and the check
  publisher are the fields of the service, as in the code; the clock and the identifiers are
  arguments. What an update does is proved once, in the locale \<open>evidence_service\<close>, from the
  contract of the repository and the fact that publishing a check run does not touch the store; it
  is interpreted on the in-memory store beside a GitHub client.
\<close>

section \<open>The service\<close>

datatype ServiceError =
    EvidenceValidationError string string \<comment> \<open>field and message\<close>
  | EvidenceNotFoundError string string \<comment> \<open>packet and name\<close>
  | EvidenceTransitionError string EvidenceStatus EvidenceStatus
  | RepositoryError StoreError
  | ReloadError StoreError
  | LaneError string
  | PersistError StoreError
  | PublishError string

type_synonym 'w CheckPublisher = "ChangePacket \<Rightarrow> EvidenceExecution list \<Rightarrow> ('w, string, unit) io"

record 'w Service =
  sv_repository :: "'w Repository"
  sv_laneAssigner :: "(ChangePacket \<Rightarrow> string + MergeLane) option"
  sv_checkPublisher :: "'w CheckPublisher option"

record CallEnv = \<comment> \<open>the readings of the clock during one call and the identifier it draws\<close>
  ce_Now :: "nat \<Rightarrow> time"
  ce_NewID :: string

type_synonym 'w Option = "'w Service \<Rightarrow> 'w Service"

definition WithLaneAssigner :: "(ChangePacket \<Rightarrow> string + MergeLane) \<Rightarrow> 'w Option" where
  "WithLaneAssigner assigner service = service\<lparr>sv_laneAssigner := Some assigner\<rparr>"

definition WithCheckPublisher :: "'w CheckPublisher \<Rightarrow> 'w Option" where
  "WithCheckPublisher publisher service = service\<lparr>sv_checkPublisher := Some publisher\<rparr>"

definition NewServiceWithOptions :: "'w Repository \<Rightarrow> 'w Option option list \<Rightarrow> 'w Service" where
  "NewServiceWithOptions store options =
     foldl (\<lambda>service option. case option of None \<Rightarrow> service | Some f \<Rightarrow> f service)
       \<lparr>sv_repository = store, sv_laneAssigner = None, sv_checkPublisher = None\<rparr> options"

definition NewService :: "'w Repository \<Rightarrow> 'w Service" where
  "NewService store = NewServiceWithOptions store []"

definition serviceWith ::
  "'w Repository \<Rightarrow> (ChangePacket \<Rightarrow> string + MergeLane) option \<Rightarrow> 'w CheckPublisher option \<Rightarrow> 'w Service" where
  \<comment> \<open>a service with an optional assigner and an optional publisher, as its owners build it\<close>
  "serviceWith store assigner publisher =
     NewServiceWithOptions store
       [map_option WithLaneAssigner assigner, map_option WithCheckPublisher publisher]"

lemma serviceWith_fields [simp]:
  "sv_repository (serviceWith store a p) = store" "sv_laneAssigner (serviceWith store a p) = a"
  "sv_checkPublisher (serviceWith store a p) = p"
  by (cases a; cases p;
      simp add: serviceWith_def NewServiceWithOptions_def WithLaneAssigner_def WithCheckPublisher_def)+

record ChangePacketView =
  vw_Packet :: ChangePacket
  vw_Evidence :: "EvidenceExecution list"
  vw_Audit :: "EvidenceAuditEntry list"

definition DefaultListLimit :: int where "DefaultListLimit = 50"

definition Service_GetChangePacket :: "'w Service \<Rightarrow> string \<Rightarrow> ('w, ServiceError, ChangePacketView) io" where
  "Service_GetChangePacket s i =
     wrapM RepositoryError
       (bindM (rp_GetChangePacket (sv_repository s) i) (\<lambda>packet.
        bindM (rp_ListEvidenceExecutions (sv_repository s) i) (\<lambda>evidence.
        bindM (rp_ListEvidenceAuditEntries (sv_repository s) i DefaultListLimit) (\<lambda>audit.
          retM \<lparr>vw_Packet = packet, vw_Evidence = evidence, vw_Audit = audit\<rparr>))))"

definition Service_ListEvidenceAuditEntries ::
  "'w Service \<Rightarrow> string \<Rightarrow> int \<Rightarrow> ('w, ServiceError, EvidenceAuditEntry list) io" where
  "Service_ListEvidenceAuditEntries s changePacketID limit =
     wrapM RepositoryError
       (bindM (rp_GetChangePacket (sv_repository s) changePacketID) (\<lambda>_.
          rp_ListEvidenceAuditEntries (sv_repository s) changePacketID limit))"

definition Service_ListChangePackets :: "'w Service \<Rightarrow> int \<Rightarrow> ('w, ServiceError, ChangePacket list) io" where
  "Service_ListChangePackets s limit =
     wrapM RepositoryError (rp_ListChangePackets (sv_repository s) limit)"

section \<open>Deployment outcomes\<close>

definition validDeploymentOutcome :: "DeploymentOutcomeKind \<Rightarrow> bool" where
  "validDeploymentOutcome outcome \<longleftrightarrow>
     outcome = DeploymentOutcomeSuccess \<or> outcome = DeploymentOutcomeRollback
     \<or> outcome = DeploymentOutcomeIncident"

definition validOutcomeSource :: "string \<Rightarrow> bool" where
  \<comment> \<open>the loop runs over runes; a byte outside ASCII belongs to a rune that is not allowed\<close>
  "validOutcomeSource source \<longleftrightarrow>
     \<not> length source > 64
     \<and> list_all (\<lambda>c. (CHR ''a'' \<le> c \<and> c \<le> CHR ''z'') \<or> (CHR ''A'' \<le> c \<and> c \<le> CHR ''Z'')
          \<or> (CHR ''0'' \<le> c \<and> c \<le> CHR ''9'') \<or> c = CHR ''.'' \<or> c = CHR ''_'' \<or> c = CHR ''-'') source"

definition RecordDeploymentOutcome ::
  "CallEnv \<Rightarrow> 'w Service \<Rightarrow> DeploymentOutcome \<Rightarrow> ('w, ServiceError, DeploymentOutcome) io" where
  "RecordDeploymentOutcome env s outcome =
     (if TrimSpace (do_ChangePacketID outcome) = []
        then failM (EvidenceValidationError ''changePacketId'' ''is required'')
      else if \<not> validDeploymentOutcome (do_Outcome outcome)
        then failM (EvidenceValidationError ''outcome'' ''must be one of success, rollback, or incident'')
      else if \<not> validOutcomeSource (do_Source outcome)
        then failM (EvidenceValidationError ''source''
          ''must contain only letters, numbers, dot, underscore, or hyphen and be 64 characters or fewer'')
      else bindM (wrapM RepositoryError (rp_GetChangePacket (sv_repository s) (do_ChangePacketID outcome))) (\<lambda>packet.
        let outcome = (if do_ID outcome = [] then outcome\<lparr>do_ID := ce_NewID env\<rparr> else outcome);
            outcome = (if do_ObservedAt outcome = 0 then outcome\<lparr>do_ObservedAt := ce_Now env 0\<rparr> else outcome);
            outcome = outcome\<lparr>do_Lane := cp_MergeLane packet,
              do_RiskTypes := rs_Contributors (cp_RiskSummary packet)\<rparr>
        in bindM (wrapM RepositoryError (rp_SaveDeploymentOutcome (sv_repository s) outcome)) (\<lambda>_. retM outcome)))"

record calibrationCounter =
  cn_samples :: nat
  cn_adverse :: nat

definition adverse :: "DeploymentOutcome \<Rightarrow> bool" where
  "adverse outcome \<longleftrightarrow>
     do_Outcome outcome = DeploymentOutcomeRollback \<or> do_Outcome outcome = DeploymentOutcomeIncident"

definition addCalibration ::
  "(string \<times> calibrationCounter) list \<Rightarrow> string \<Rightarrow> DeploymentOutcome \<Rightarrow> (string \<times> calibrationCounter) list" where
  "addCalibration counters key outcome =
     (if key = [] then counters
      else let counter = (case map_of counters key of
                 None \<Rightarrow> \<lparr>cn_samples = 0, cn_adverse = 0\<rparr> | Some c \<Rightarrow> c);
               counter = counter\<lparr>cn_samples := cn_samples counter + 1\<rparr>;
               counter = (if adverse outcome then counter\<lparr>cn_adverse := cn_adverse counter + 1\<rparr> else counter)
           in AList.update key counter counters)"

definition calibrationMetric :: "string \<Rightarrow> string \<times> calibrationCounter \<Rightarrow> RiskCalibrationMetric" where
  "calibrationMetric dimension entry =
     (let val = fst entry; counter = snd entry;
          rate = of_nat (cn_adverse counter) / of_nat (cn_samples counter) :: rat;
          recommendation =
            (if 5 \<le> cn_samples counter \<and> rate \<ge> 20 / 100 then ''review risk weight or require stronger evidence''
             else if 5 \<le> cn_samples counter \<and> rate < 5 / 100 then ''monitor; no calibration change recommended''
             else ''collect more outcomes before adjusting policy'')
      in \<lparr>cm_Dimension = dimension, cm_Value = val, cm_Samples = int (cn_samples counter),
          cm_Adverse = int (cn_adverse counter), cm_AdverseRate = rate, cm_Recommendation = recommendation\<rparr>)"

definition calibrationMetrics ::
  "key_order \<Rightarrow> string \<Rightarrow> (string \<times> calibrationCounter) list \<Rightarrow> RiskCalibrationMetric list" where
  "calibrationMetrics ord dimension counters =
     sort_key cm_Value (map (calibrationMetric dimension) (range_map ord counters))"

definition calibrationStep where
  \<comment> \<open>the counters by lane and by risk type\<close>
  "calibrationStep counters outcome =
     (addCalibration (fst counters) (do_Lane outcome) outcome,
      foldl (\<lambda>byRisk riskType. addCalibration byRisk riskType outcome) (snd counters) (do_RiskTypes outcome))"

definition RiskCalibrationReport_of ::
  "key_order \<Rightarrow> CallEnv \<Rightarrow> 'w Service \<Rightarrow> ('w, ServiceError, RiskCalibrationReport) io" where
  "RiskCalibrationReport_of ord env s =
     bindM (wrapM RepositoryError (rp_ListDeploymentOutcomes (sv_repository s) 10000)) (\<lambda>outcomes.
       let (byLane, byRisk) = foldl calibrationStep ([], []) outcomes
       in retM \<lparr>cr_GeneratedAt = ce_Now env 0,
            cr_ByRiskType = calibrationMetrics ord ''risk_type'' byRisk,
            cr_ByLane = calibrationMetrics ord ''lane'' byLane\<rparr>)"

section \<open>Evidence\<close>

definition validEvidenceStatus :: "EvidenceStatus \<Rightarrow> bool" where
  "validEvidenceStatus status \<longleftrightarrow>
     status \<in> set [EvidencePending, EvidenceRunning, EvidenceSatisfied, EvidenceFailed, EvidenceWaived]"

definition canTransitionEvidence :: "EvidenceStatus \<Rightarrow> EvidenceStatus \<Rightarrow> bool" where
  "canTransitionEvidence source target =
     (if source = target then True
      else if source = EvidencePending then
        target = EvidenceRunning \<or> target = EvidenceSatisfied \<or> target = EvidenceFailed \<or> target = EvidenceWaived
      else if source = EvidenceRunning then
        target = EvidenceSatisfied \<or> target = EvidenceFailed \<or> target = EvidenceWaived
      else if source = EvidenceFailed then target = EvidenceRunning \<or> target = EvidenceWaived
      else if source = EvidenceSatisfied \<or> source = EvidenceWaived then False
      else False)"

definition findEvidenceRequirement :: "EvidenceRequirement list \<Rightarrow> string \<Rightarrow> EvidenceRequirement option" where
  "findEvidenceRequirement requirements name = find (\<lambda>requirement. er_Name requirement = name) requirements"

definition currentEvidenceStatus :: "'w Service \<Rightarrow> string \<Rightarrow> string \<Rightarrow> ('w, ServiceError, EvidenceStatus) io" where
  "currentEvidenceStatus s changePacketID name =
     bindM (wrapM RepositoryError (rp_ListEvidenceExecutions (sv_repository s) changePacketID)) (\<lambda>executions.
       case find (\<lambda>execution. ee_Name execution = name) executions of
         Some execution \<Rightarrow> retM (ee_Status execution)
       | None \<Rightarrow> retM EvidencePending)"

definition complete :: "EvidenceStatus \<Rightarrow> bool" where
  "complete status \<longleftrightarrow> \<not> (status \<noteq> EvidenceSatisfied \<and> status \<noteq> EvidenceWaived)"

definition requiredEvidenceComplete :: "EvidenceRequirement list \<Rightarrow> EvidenceExecution list \<Rightarrow> bool" where
  "requiredEvidenceComplete requirements executions =
     (let statusByName = evidenceStatuses executions
      in list_all (\<lambda>requirement. \<not> er_Required requirement \<or> complete (statusOf statusByName (er_Name requirement)))
           requirements)"

definition hasMandatoryReviewers :: "ReviewerRequirement list \<Rightarrow> bool" where
  "hasMandatoryReviewers reviewers = list_ex rv_Mandatory reviewers"

definition reconciledPacket :: "time \<Rightarrow> EvidenceExecution list \<Rightarrow> ChangePacket \<Rightarrow> ChangePacket" where
  \<comment> \<open>the packet with its decision brought up to date\<close>
  "reconciledPacket now executions packet =
     (let packet =
        (if pd_Status (cp_Decision packet) \<noteq> DecisionBlocked
         then packet\<lparr>cp_Decision := (cp_Decision packet)
                \<lparr>pd_Status := (if requiredEvidenceComplete (cp_Evidence packet) executions
                               \<and> \<not> hasMandatoryReviewers (cp_Reviewers packet)
                             then DecisionApproved else DecisionPending),
                 pd_DecidedAt := now\<rparr>\<rparr>
         else packet)
      in packet\<lparr>cp_UpdatedAt := now\<rparr>)"

definition reconcileDecision :: "CallEnv \<Rightarrow> 'w Service \<Rightarrow> ChangePacket \<Rightarrow> ('w, ServiceError, unit) io" where
  "reconcileDecision env s packet =
     bindM (wrapM ReloadError (rp_ListEvidenceExecutions (sv_repository s) (cp_ID packet))) (\<lambda>executions.
       let packet = reconciledPacket (ce_Now env 1) executions packet
       in bindM
            (case sv_laneAssigner s of
               None \<Rightarrow> retM packet
             | Some assign \<Rightarrow>
                 bindM (liftM (mapError LaneError (assign packet))) (\<lambda>lane. retM (packet\<lparr>cp_MergeLane := lane\<rparr>)))
            (\<lambda>packet.
              bindM (wrapM PersistError (rp_SaveChangePacket (sv_repository s) packet)) (\<lambda>_.
                case sv_checkPublisher s of
                  None \<Rightarrow> retM ()
                | Some publish \<Rightarrow> wrapM PublishError (publish packet executions))))"

definition auditFor :: "CallEnv \<Rightarrow> EvidenceStatus \<Rightarrow> EvidenceExecution \<Rightarrow> EvidenceAuditEntry" where
  "auditFor env currentStatus execution =
     \<lparr>ae_ID = ce_NewID env, ae_ChangePacketID = ee_ChangePacketID execution, ae_EvidenceName = ee_Name execution,
      ae_FromStatus = currentStatus, ae_ToStatus = ee_Status execution, ae_Actor = ee_UpdatedBy execution,
      ae_Summary = ee_Summary execution, ae_DetailsURL = ee_DetailsURL execution,
      ae_Metadata = ee_Metadata execution, ae_OccurredAt = ee_UpdatedAt execution\<rparr>"

definition attributed :: "Context \<Rightarrow> EvidenceExecution \<Rightarrow> EvidenceExecution" where
  \<comment> \<open>an authenticated caller is the author of the update, whatever the request says\<close>
  "attributed ctx execution =
     (case PrincipalFromContext ctx of
        Some caller \<Rightarrow> execution\<lparr>ee_UpdatedBy := pn_Subject caller\<rparr>
      | None \<Rightarrow> execution)"

definition UpdateEvidenceExecution ::
  "CallEnv \<Rightarrow> Context \<Rightarrow> 'w Service \<Rightarrow> EvidenceExecution \<Rightarrow> ('w, ServiceError, EvidenceExecution) io" where
  "UpdateEvidenceExecution env ctx s execution =
     (if TrimSpace (ee_ChangePacketID execution) = []
        then failM (EvidenceValidationError ''changePacketId'' ''is required'')
      else if TrimSpace (ee_Name execution) = []
        then failM (EvidenceValidationError ''name'' ''is required'')
      else if \<not> validEvidenceStatus (ee_Status execution)
        then failM (EvidenceValidationError ''status''
          ''must be one of pending, running, satisfied, failed, or waived'')
      else
        let execution = attributed ctx execution
        in if ee_Status execution = EvidenceWaived \<and> TrimSpace (ee_UpdatedBy execution) = []
             then failM (EvidenceValidationError ''updatedBy'' ''is required when waiving evidence'')
           else
             bindM (wrapM RepositoryError (rp_GetChangePacket (sv_repository s) (ee_ChangePacketID execution))) (\<lambda>packet.
               case findEvidenceRequirement (cp_Evidence packet) (ee_Name execution) of
                 None \<Rightarrow> failM (EvidenceNotFoundError (ee_ChangePacketID execution) (ee_Name execution))
               | Some requirement \<Rightarrow>
                   bindM (currentEvidenceStatus s (ee_ChangePacketID execution) (ee_Name execution)) (\<lambda>currentStatus.
                     if \<not> canTransitionEvidence currentStatus (ee_Status execution)
                       then failM (EvidenceTransitionError (ee_Name execution) currentStatus (ee_Status execution))
                     else
                       let execution = execution\<lparr>ee_Type := er_Type requirement, ee_Required := er_Required requirement,
                             ee_UpdatedAt := ce_Now env 0\<rparr>
                       in bindM (wrapM RepositoryError (rp_RecordEvidenceUpdate (sv_repository s) execution
                                 (auditFor env currentStatus execution))) (\<lambda>_.
                          bindM (reconcileDecision env s packet) (\<lambda>_. retM execution)))))"

section \<open>What an update does\<close>

text \<open>The status the store records for a name; an execution that does not exist is pending.\<close>

definition recordedStatus :: "(string \<rightharpoonup> EvidenceExecution) \<Rightarrow> string \<Rightarrow> EvidenceStatus" where
  "recordedStatus ev n = (case ev n of None \<Rightarrow> EvidencePending | Some e \<Rightarrow> ee_Status e)"

text \<open>When an update is refused, and with which error.\<close>

definition updateError ::
  "Context \<Rightarrow> (string \<rightharpoonup> ChangePacket) \<Rightarrow> (string \<Rightarrow> string \<rightharpoonup> EvidenceExecution) \<Rightarrow> EvidenceExecution
     \<Rightarrow> ServiceError option" where
  "updateError ctx packets evidence x =
     (let i = ee_ChangePacketID x; n = ee_Name x; t = ee_Status x; s = recordedStatus (evidence i) n
      in if TrimSpace i = [] then Some (EvidenceValidationError ''changePacketId'' ''is required'')
         else if TrimSpace n = [] then Some (EvidenceValidationError ''name'' ''is required'')
         else if \<not> validEvidenceStatus t then Some (EvidenceValidationError ''status''
           ''must be one of pending, running, satisfied, failed, or waived'')
         else if t = EvidenceWaived \<and> TrimSpace (ee_UpdatedBy (attributed ctx x)) = []
           then Some (EvidenceValidationError ''updatedBy'' ''is required when waiving evidence'')
         else case packets i of
           None \<Rightarrow> Some (RepositoryError ErrChangePacketNotFound)
         | Some p \<Rightarrow>
             if n \<notin> er_Name ` set (cp_Evidence p) then Some (EvidenceNotFoundError i n)
             else if \<not> canTransitionEvidence s t then Some (EvidenceTransitionError n s t) else None)"

text \<open>One status changes, and the audit log of the packet gains the entry that says so.\<close>

definition evidenceRecorded where
  "evidenceRecorded x evidence audit evidence' audit' \<longleftrightarrow>
     (\<forall>j m. recordedStatus (evidence' j) m =
        (if j = ee_ChangePacketID x \<and> m = ee_Name x then ee_Status x else recordedStatus (evidence j) m))
     \<and> (\<exists>a. audit' = audit(ee_ChangePacketID x := audit (ee_ChangePacketID x) @ [a])
          \<and> ae_ChangePacketID a = ee_ChangePacketID x \<and> ae_EvidenceName a = ee_Name x
          \<and> ae_FromStatus a = recordedStatus (evidence (ee_ChangePacketID x)) (ee_Name x)
          \<and> ae_ToStatus a = ee_Status x \<and> ae_Actor a = ee_UpdatedBy x)"

text \<open>The decision the packet should carry, given the recorded statuses.\<close>

definition allComplete :: "ChangePacket \<Rightarrow> (string \<rightharpoonup> EvidenceExecution) \<Rightarrow> bool" where
  "allComplete p ev \<longleftrightarrow>
     (\<forall>q \<in> set (cp_Evidence p). er_Required q \<longrightarrow> recordedStatus ev (er_Name q) \<in> {EvidenceSatisfied, EvidenceWaived})"

definition dueDecision :: "ChangePacket \<Rightarrow> (string \<rightharpoonup> EvidenceExecution) \<Rightarrow> DecisionStatus" where
  "dueDecision p ev =
     (if pd_Status (cp_Decision p) = DecisionBlocked then DecisionBlocked
      else if allComplete p ev \<and> (\<forall>r \<in> set (cp_Reviewers p). \<not> rv_Mandatory r) then DecisionApproved
      else DecisionPending)"

definition reconciled where
  \<comment> \<open>packet \<open>p\<close> becomes \<open>p'\<close>: a new decision and lane, and otherwise the same requirements\<close>
  "reconciled assigner p ev p' \<longleftrightarrow>
     cp_ID p' = cp_ID p \<and> cp_Repo p' = cp_Repo p \<and> cp_PR p' = cp_PR p \<and> cp_Evidence p' = cp_Evidence p \<and> cp_Reviewers p' = cp_Reviewers p
     \<and> cp_RiskSummary p' = cp_RiskSummary p \<and> pd_Status (cp_Decision p') = dueDecision p ev
     \<and> (case assigner of
          None \<Rightarrow> cp_MergeLane p' = cp_MergeLane p
        | Some assign \<Rightarrow> \<exists>lane. assign (p'\<lparr>cp_MergeLane := cp_MergeLane p\<rparr>) = Inr lane \<and> cp_MergeLane p' = lane)"

lemma recordedStatus_simps [simp]:
  "recordedStatus Map.empty n = EvidencePending"
  "recordedStatus (ev(m \<mapsto> e)) n = (if n = m then ee_Status e else recordedStatus ev n)"
  by (simp_all add: recordedStatus_def)

lemma ensured_recordedStatus: "ensured old new qs \<Longrightarrow> recordedStatus new n = recordedStatus old n"
  unfolding ensured_def recordedStatus_def by (auto split: option.splits) (metis option.inject)+

lemma attributed_fields [simp]:
  "ee_ChangePacketID (attributed ctx x) = ee_ChangePacketID x" "ee_Name (attributed ctx x) = ee_Name x"
  "ee_Status (attributed ctx x) = ee_Status x"
  by (simp_all add: attributed_def split: option.split)

lemma requiredEvidenceComplete_iff:
  assumes "distinct (map ee_Name es)" and "\<forall>e. e \<in> set es \<longleftrightarrow> ev (ee_Name e) = Some e"
    and "\<And>n e. ev n = Some e \<Longrightarrow> ee_Name e = n"
  shows "requiredEvidenceComplete (cp_Evidence p) es \<longleftrightarrow> allComplete p ev"
proof -
  have "complete (statusOf (evidenceStatuses es) n) \<longleftrightarrow> recordedStatus ev n \<in> {EvidenceSatisfied, EvidenceWaived}" for n
  proof (cases "ev n")
    case None
    then have "n \<notin> ee_Name ` set es" using assms(2) by auto
    then have "evidenceStatuses es n = None" by (simp add: evidenceStatuses_None)
    then show ?thesis using None by (simp add: statusOf_def complete_def recordedStatus_def)
  next
    case (Some e)
    then have "e \<in> set es" "ee_Name e = n" using assms(2,3) by auto
    then have "evidenceStatuses es n = Some (ee_Status e)" using evidenceStatuses_lookup [OF assms(1)] by blast
    then show ?thesis using Some by (auto simp: statusOf_def complete_def recordedStatus_def)
  qed
  then show ?thesis
    by (auto simp: requiredEvidenceComplete_def allComplete_def list_all_iff)
qed

text \<open>The collaborators report an error only when one of their own calls does.\<close>

definition assignFails :: "(ChangePacket \<Rightarrow> string + MergeLane) option \<Rightarrow> string \<Rightarrow> bool" where
  "assignFails assigner e \<longleftrightarrow> (\<exists>assign q. assigner = Some assign \<and> assign q = Inl e)"

definition publishFails :: "'w CheckPublisher option \<Rightarrow> string \<Rightarrow> bool" where
  "publishFails publisher e \<longleftrightarrow>
     (\<exists>publish q es v v'. publisher = Some publish \<and> publish q es v = (Inl e, v'))"

locale evidence_service = repository R valid packets evidence audit
  for R :: "'w Repository" and valid packets evidence audit +
  fixes publisher :: "'w CheckPublisher option"
  assumes publish_frame: "publisher = Some publish \<Longrightarrow> valid w \<Longrightarrow> publish p es w = (r, w') \<Longrightarrow>
      valid w' \<and> packets w' = packets w \<and> evidence w' = evidence w \<and> audit w' = audit w"
begin

lemma current_status:
  assumes "valid w"
  shows "currentEvidenceStatus (serviceWith R a publisher) i n w = (Inr (recordedStatus (evidence w i) n), w)"
proof -
  obtain es where es: "rp_ListEvidenceExecutions R i w = (Inr es, w)" "distinct (map ee_Name es)"
    "\<forall>e. e \<in> set es \<longleftrightarrow> evidence w i (ee_Name e) = Some e"
    using list [OF assms] by blast
  have "(case find (\<lambda>x. ee_Name x = n) es of Some x \<Rightarrow> ee_Status x | None \<Rightarrow> EvidencePending)
      = recordedStatus (evidence w i) n"
  proof (cases "find (\<lambda>x. ee_Name x = n) es")
    case None
    then have "evidence w i n = None"
    proof (cases "evidence w i n")
      case (Some e)
      then show ?thesis
        using es(3) evidence_name [OF assms Some] \<open>find _ es = None\<close> by (auto simp: find_None_all)
    qed simp
    then show ?thesis using None by (simp add: recordedStatus_def)
  next
    case (Some x)
    then have "evidence w i n = Some x" using find_Some_in_set [OF Some] es(3) by auto
    then show ?thesis using Some by (simp add: recordedStatus_def)
  qed
  then show ?thesis
    using es(1) by (auto simp: currentEvidenceStatus_def bindM_def wrapM_def split: option.splits)
qed

lemma reconcile_effect:
  assumes "valid w"
  obtains r w' where "reconcileDecision env (serviceWith R a publisher) p w = (r, w')" "valid w'" "audit w' = audit w"
    "\<forall>j m. recordedStatus (evidence w' j) m = recordedStatus (evidence w j) m"
    "(\<exists>e. r = Inl (LaneError e) \<and> assignFails a e) \<and> packets w' = packets w
     \<or> (r = Inr () \<or> (\<exists>e. r = Inl (PublishError e) \<and> publishFails publisher e))
        \<and> (\<exists>p'. reconciled a p (evidence w (cp_ID p)) p' \<and> packets w' = (packets w)(cp_ID p \<mapsto> p'))"
proof -
  note finish = that
  obtain es where es: "rp_ListEvidenceExecutions R (cp_ID p) w = (Inr es, w)" "distinct (map ee_Name es)"
    "\<forall>e. e \<in> set es \<longleftrightarrow> evidence w (cp_ID p) (ee_Name e) = Some e"
    using list [OF assms] by blast
  let ?q = "reconciledPacket (ce_Now env 1) es p"
  have q: "cp_ID ?q = cp_ID p" "cp_Repo ?q = cp_Repo p" "cp_PR ?q = cp_PR p" "cp_Evidence ?q = cp_Evidence p" "cp_Reviewers ?q = cp_Reviewers p"
    "cp_RiskSummary ?q = cp_RiskSummary p" "cp_MergeLane ?q = cp_MergeLane p"
    "pd_Status (cp_Decision ?q) = dueDecision p (evidence w (cp_ID p))"
    using requiredEvidenceComplete_iff [OF es(2,3) evidence_name [OF assms]]
    by (auto simp: reconciledPacket_def dueDecision_def hasMandatoryReviewers_def list_ex_iff)
  have saved: thesis if r: "reconcileDecision env (serviceWith R a publisher) p w =
      bindM (wrapM PersistError (rp_SaveChangePacket R p')) (\<lambda>_. case publisher of None \<Rightarrow> retM ()
        | Some publish \<Rightarrow> wrapM PublishError (publish p' es)) w"
    and p': "reconciled a p (evidence w (cp_ID p)) p'" for p'
  proof -
    have i: "cp_ID p' = cp_ID p" using p' by (simp add: reconciled_def)
    obtain w1 where w1: "rp_SaveChangePacket R p' w = (Inr (), w1)" "valid w1"
      "packets w1 = (packets w)(cp_ID p \<mapsto> p')" "audit w1 = audit w"
      "\<forall>j. j \<noteq> cp_ID p \<longrightarrow> evidence w1 j = evidence w j"
      "ensured (evidence w (cp_ID p)) (evidence w1 (cp_ID p)) (cp_Evidence p')"
      using save [OF assms, of p'] i by auto
    have st: "recordedStatus (evidence w1 j) m = recordedStatus (evidence w j) m" for j m
      using w1(5,6) ensured_recordedStatus by (cases "j = cp_ID p") auto
    show thesis
    proof (cases publisher)
      case None
      then show thesis using finish [of "Inr ()" w1] r w1 st p' by auto
    next
      case (Some publish)
      obtain r2 w2 where w2: "publish p' es w1 = (r2, w2)" by (cases "publish p' es w1")
      note f = publish_frame [OF Some w1(2) w2]
      show thesis
      proof (cases r2)
        case (Inl e)
        then have "publishFails publisher e" using Some w2 by (auto simp: publishFails_def)
        then show thesis using finish [of "Inl (PublishError e)" w2] r w1 w2 st f p' Some Inl by auto
      next
        case (Inr u)
        then show thesis using finish [of "Inr ()" w2] r w1 w2 st f p' Some by auto
      qed
    qed
  qed
  show thesis
  proof (cases a)
    case None
    show thesis
      by (rule saved [of ?q])
        (use None es(1) q in \<open>simp_all add: reconcileDecision_def reconciled_def Let_def bindM_def del: One_nat_def\<close>)
  next
    case (Some assign)
    show thesis
    proof (cases "assign ?q")
      case (Inl e)
      then have "reconcileDecision env (serviceWith R a publisher) p w = (Inl (LaneError e), w)"
        using Some es(1) by (simp add: reconcileDecision_def Let_def)
      moreover have "assignFails a e" using Some Inl by (auto simp: assignFails_def)
      ultimately show thesis using finish assms by blast
    next
      case (Inr lane)
      have "?q\<lparr>cp_MergeLane := cp_MergeLane ?q\<rparr> = ?q" by simp
      then have same: "assign (?q\<lparr>cp_MergeLane := cp_MergeLane p\<rparr>) = Inr lane" using q(7) Inr by metis
      show thesis
        by (rule saved [of "?q\<lparr>cp_MergeLane := lane\<rparr>"])
          (use Some Inr es(1) q same in \<open>simp_all add: reconcileDecision_def reconciled_def Let_def bindM_def del: One_nat_def\<close>)
    qed
  qed
qed

lemma update_refused:
  assumes "valid w" and "updateError ctx (packets w) (evidence w) x = Some e"
  shows "UpdateEvidenceExecution env ctx (serviceWith R a publisher) x w = (Inl e, w)"
proof (cases "packets w (ee_ChangePacketID x)")
  case None
  then show ?thesis
    using assms get [OF assms(1), of "ee_ChangePacketID x"]
    by (auto simp: UpdateEvidenceExecution_def updateError_def Let_def split: if_splits)
next
  case (Some p)
  have "findEvidenceRequirement (cp_Evidence p) (ee_Name x) = None \<longleftrightarrow> ee_Name x \<notin> er_Name ` set (cp_Evidence p)"
    unfolding findEvidenceRequirement_def find_None_all by (metis imageE imageI)
  then show ?thesis
    using assms Some get [OF assms(1), of "ee_ChangePacketID x"]
      current_status [OF assms(1), of a "ee_ChangePacketID x" "ee_Name x"]
    by (cases "findEvidenceRequirement (cp_Evidence p) (ee_Name x)")
      (auto simp: UpdateEvidenceExecution_def updateError_def Let_def split: if_splits)
qed

lemma update_accepted:
  assumes "valid w" and "updateError ctx (packets w) (evidence w) x = None"
  obtains p requirement where "packets w (ee_ChangePacketID x) = Some p" "cp_ID p = ee_ChangePacketID x"
    "requirement \<in> set (cp_Evidence p)" "er_Name requirement = ee_Name x"
    "canTransitionEvidence (recordedStatus (evidence w (ee_ChangePacketID x)) (ee_Name x)) (ee_Status x)"
    "UpdateEvidenceExecution env ctx (serviceWith R a publisher) x w =
       (let y = (attributed ctx x)\<lparr>ee_Type := er_Type requirement, ee_Required := er_Required requirement,
              ee_UpdatedAt := ce_Now env 0\<rparr>
        in bindM (wrapM RepositoryError (rp_RecordEvidenceUpdate R y
               (auditFor env (recordedStatus (evidence w (ee_ChangePacketID x)) (ee_Name x)) y))) (\<lambda>_.
           bindM (reconcileDecision env (serviceWith R a publisher) p) (\<lambda>_. retM y)) w)"
proof -
  note finish = that
  obtain p where p: "packets w (ee_ChangePacketID x) = Some p" "ee_Name x \<in> er_Name ` set (cp_Evidence p)"
    "canTransitionEvidence (recordedStatus (evidence w (ee_ChangePacketID x)) (ee_Name x)) (ee_Status x)"
    "TrimSpace (ee_ChangePacketID x) \<noteq> []" "TrimSpace (ee_Name x) \<noteq> []" "validEvidenceStatus (ee_Status x)"
    "\<not> (ee_Status x = EvidenceWaived \<and> TrimSpace (ee_UpdatedBy (attributed ctx x)) = [])"
    using assms(2) by (auto simp: updateError_def Let_def split: if_splits option.splits)
  obtain q where q: "findEvidenceRequirement (cp_Evidence p) (ee_Name x) = Some q"
    using p(2) by (cases "findEvidenceRequirement (cp_Evidence p) (ee_Name x)")
      (auto simp: findEvidenceRequirement_def find_None_all)
  then have "q \<in> set (cp_Evidence p)" "er_Name q = ee_Name x"
    by (auto simp: findEvidenceRequirement_def dest: find_Some_in_set)
  moreover have "cp_ID p = ee_ChangePacketID x" using packet_id [OF assms(1) p(1)] .
  ultimately show thesis
    using p q get [OF assms(1), of "ee_ChangePacketID x"]
      current_status [OF assms(1), of a "ee_ChangePacketID x" "ee_Name x"]
    by (intro finish [of p q]) (simp_all add: UpdateEvidenceExecution_def Let_def, blast)
qed

text \<open>The effect of an accepted update.\<close>

lemma update_effect:
  assumes "valid w" and "updateError ctx (packets w) (evidence w) x = None"
  obtains r w' p where "UpdateEvidenceExecution env ctx (serviceWith R a publisher) x w = (r, w')" "valid w'"
    "packets w (ee_ChangePacketID x) = Some p"
    "evidenceRecorded (attributed ctx x) (evidence w) (audit w) (evidence w') (audit w')"
    "(\<exists>e. r = Inl (LaneError e) \<and> assignFails a e) \<and> packets w' = packets w
     \<or> ((\<exists>y. r = Inr y) \<or> (\<exists>e. r = Inl (PublishError e) \<and> publishFails publisher e))
        \<and> (\<exists>p'. reconciled a p (evidence w' (cp_ID p)) p' \<and> packets w' = (packets w)(ee_ChangePacketID x \<mapsto> p'))"
proof -
  note finish = that
  let ?i = "ee_ChangePacketID x" and ?n = "ee_Name x"
  obtain p q where p: "packets w ?i = Some p" "cp_ID p = ?i" "q \<in> set (cp_Evidence p)" "er_Name q = ?n"
    "canTransitionEvidence (recordedStatus (evidence w ?i) ?n) (ee_Status x)"
    and u: "UpdateEvidenceExecution env ctx (serviceWith R a publisher) x w =
       (let y = (attributed ctx x)\<lparr>ee_Type := er_Type q, ee_Required := er_Required q, ee_UpdatedAt := ce_Now env 0\<rparr>
        in bindM (wrapM RepositoryError (rp_RecordEvidenceUpdate R y
               (auditFor env (recordedStatus (evidence w ?i) ?n) y))) (\<lambda>_.
           bindM (reconcileDecision env (serviceWith R a publisher) p) (\<lambda>_. retM y)) w)"
    using update_accepted [OF assms, of env a] .
  let ?y = "(attributed ctx x)\<lparr>ee_Type := er_Type q, ee_Required := er_Required q, ee_UpdatedAt := ce_Now env 0\<rparr>"
  let ?a = "auditFor env (recordedStatus (evidence w ?i) ?n) ?y"
  obtain w1 y' a' where w1: "rp_RecordEvidenceUpdate R ?y ?a w = (Inr (), w1)" "valid w1" "packets w1 = packets w"
    "evidence w1 = (evidence w)(?i := (evidence w ?i)(?n \<mapsto> y'))" "y' = ?y\<lparr>ee_UpdatedAt := ee_UpdatedAt y'\<rparr>"
    "audit w1 = (audit w)(?i := audit w ?i @ [a'])" "a' = ?a\<lparr>ae_Metadata := ae_Metadata a'\<rparr>"
    using record_update [OF assms(1), of ?y ?a] by (auto simp: auditFor_def)
  obtain r w2 where w2: "reconcileDecision env (serviceWith R a publisher) p w1 = (r, w2)" "valid w2" "audit w2 = audit w1"
    "\<forall>j m. recordedStatus (evidence w2 j) m = recordedStatus (evidence w1 j) m"
    "(\<exists>e. r = Inl (LaneError e) \<and> assignFails a e) \<and> packets w2 = packets w1
     \<or> (r = Inr () \<or> (\<exists>e. r = Inl (PublishError e) \<and> publishFails publisher e))
        \<and> (\<exists>p'. reconciled a p (evidence w1 (cp_ID p)) p' \<and> packets w2 = (packets w1)(cp_ID p \<mapsto> p'))"
    using reconcile_effect [OF w1(2), of env a p] .
  have y': "ee_Status y' = ee_Status x" by (subst w1(5)) simp
  have "ae_EvidenceName a' = ?n" "ae_ChangePacketID a' = ?i" "ae_ToStatus a' = ee_Status x"
    "ae_FromStatus a' = recordedStatus (evidence w ?i) ?n" "ae_Actor a' = ee_UpdatedBy (attributed ctx x)"
    by (subst w1(7), simp add: auditFor_def)+
  then have rec: "evidenceRecorded (attributed ctx x) (evidence w) (audit w) (evidence w2) (audit w2)"
    using w1 w2(3,4) y' by (auto simp: evidenceRecorded_def)
  have due: "reconciled a p (evidence w2 (cp_ID p)) p' \<longleftrightarrow> reconciled a p (evidence w1 (cp_ID p)) p'" for p'
    by (simp add: reconciled_def dueDecision_def allComplete_def w2(4))
  have run: "UpdateEvidenceExecution env ctx (serviceWith R a publisher) x w =
      (case r of Inl e \<Rightarrow> (Inl e, w2) | Inr _ \<Rightarrow> (Inr ?y, w2))"
    unfolding u Let_def using w1(1) w2(1) by (cases r) simp_all
  show thesis
  proof (cases r)
    case (Inl e)
    then show thesis
      using finish [OF _ w2(2) p(1) rec, of "Inl e"] run w2(5) due p(2) w1(3) by auto
  next
    case (Inr v)
    then show thesis
      using finish [OF _ w2(2) p(1) rec, of "Inr ?y"] run w2(5) due p(2) w1(3) by auto
  qed
qed

end

end
