(* ===== verification/Durable.thy ===== *)
theory Durable
  imports ControlPlane
begin

text \<open>
  The life of an evidence execution under the control-plane service, as a state machine, on a store that
  may fail: the abstract transitions, the audit trail, the steps a running service takes, and what each
  step keeps. The contract \<open>durable_repository\<close> is weaker than \<open>repository\<close>: a call may report an error at
  any time, and then it has had its whole effect or none.
\<close>

section \<open>The abstract life cycle\<close>

inductive advances :: "EvidenceStatus \<Rightarrow> EvidenceStatus \<Rightarrow> bool" where
  start: "advances EvidencePending EvidenceRunning"
| settle: "s \<in> {EvidencePending, EvidenceRunning} \<Longrightarrow> t \<in> {EvidenceSatisfied, EvidenceFailed} \<Longrightarrow> advances s t"
| waive: "s \<in> {EvidencePending, EvidenceRunning, EvidenceFailed} \<Longrightarrow> advances s EvidenceWaived"
| retry: "advances EvidenceFailed EvidenceRunning"

inductive_cases advances_from: "advances s t"

lemma canTransition_advances: "canTransitionEvidence s t \<longleftrightarrow> s = t \<or> advances s t"
proof
  show "s = t \<or> advances s t" if "canTransitionEvidence s t"
    using that by (auto simp: canTransitionEvidence_def intro: advances.intros split: if_splits)
  show "canTransitionEvidence s t" if "s = t \<or> advances s t"
    using that by (auto simp: canTransitionEvidence_def elim!: advances_from)
qed

lemma canTransition_refl [simp]: "canTransitionEvidence s s"
  by (simp add: canTransitionEvidence_def)

definition settled :: "EvidenceStatus \<Rightarrow> bool" where
  "settled s \<longleftrightarrow> s = EvidenceSatisfied \<or> s = EvidenceWaived"

lemma settled_final: "settled s \<Longrightarrow> canTransitionEvidence s t \<Longrightarrow> t = s"
  by (auto simp: settled_def canTransitionEvidence_def split: if_splits)

section \<open>Audit trails\<close>

text \<open>Replaying the log of one name from the pending state; \<open>None\<close> when an entry does not follow.\<close>

fun replay :: "EvidenceStatus \<Rightarrow> EvidenceAuditEntry list \<Rightarrow> EvidenceStatus option" where
  "replay s [] = Some s"
| "replay s (a # as) =
     (if ae_FromStatus a = s \<and> canTransitionEvidence s (ae_ToStatus a) then replay (ae_ToStatus a) as else None)"

definition entriesFor :: "string \<Rightarrow> EvidenceAuditEntry list \<Rightarrow> EvidenceAuditEntry list" where
  "entriesFor n as = filter (\<lambda>a. ae_EvidenceName a = n) as"

definition trail where
  "trail evidence audit \<longleftrightarrow>
     (\<forall>i n. replay EvidencePending (entriesFor n (audit i)) = Some (recordedStatus (evidence i) n))"

lemma replay_append:
  "replay s (as @ bs) = Option.bind (replay s as) (\<lambda>t. replay t bs)"
  by (induction s as rule: replay.induct) auto

lemma replay_settled: "replay s as = Some t \<Longrightarrow> settled s \<Longrightarrow> t = s"
proof (induction s as rule: replay.induct)
  case (2 s a as)
  then show ?case using settled_final [of s "ae_ToStatus a"] by (simp split: if_splits)
qed simp

lemma trail_recorded:
  assumes "trail evidence audit" and "evidenceRecorded x evidence audit evidence' audit'"
    and "canTransitionEvidence (recordedStatus (evidence (ee_ChangePacketID x)) (ee_Name x)) (ee_Status x)"
  shows "trail evidence' audit'"
proof -
  obtain a where a: "audit' = audit(ee_ChangePacketID x := audit (ee_ChangePacketID x) @ [a])"
    "ae_EvidenceName a = ee_Name x" "ae_ToStatus a = ee_Status x"
    "ae_FromStatus a = recordedStatus (evidence (ee_ChangePacketID x)) (ee_Name x)"
    and s: "\<And>j m. recordedStatus (evidence' j) m =
      (if j = ee_ChangePacketID x \<and> m = ee_Name x then ee_Status x else recordedStatus (evidence j) m)"
    using assms(2) unfolding evidenceRecorded_def by blast
  have "replay EvidencePending (entriesFor n (audit' i)) = Some (recordedStatus (evidence' i) n)" for i n
    using assms(1,3) a s by (auto simp: trail_def entriesFor_def replay_append)
  then show ?thesis by (simp add: trail_def)
qed

section \<open>The steps of a running service\<close>

inductive service_step :: "'w Service \<Rightarrow> 'w \<Rightarrow> 'w \<Rightarrow> bool" for s where
  saved: "rp_SaveChangePacket (sv_repository s) p w = (r, w') \<Longrightarrow> service_step s w w'"
| updated: "UpdateEvidenceExecution env ctx s x w = (r, w') \<Longrightarrow> service_step s w w'"
| outcome: "RecordDeploymentOutcome env s d w = (r, w') \<Longrightarrow> service_step s w w'"
| viewed: "Service_GetChangePacket s i w = (r, w') \<Longrightarrow> service_step s w w'"
| audited: "Service_ListEvidenceAuditEntries s i limit w = (r, w') \<Longrightarrow> service_step s w w'"

section \<open>A store that may fail\<close>

definition unchanged where
  "unchanged valid packets evidence audit w w' \<longleftrightarrow>
     valid w' \<and> packets w' = packets w \<and> evidence w' = evidence w \<and> audit w' = audit w"

locale durable_repository =
  fixes R :: "'w Repository"
    and valid :: "'w \<Rightarrow> bool"
    and packets :: "'w \<Rightarrow> string \<rightharpoonup> ChangePacket"
    and evidence :: "'w \<Rightarrow> string \<Rightarrow> string \<rightharpoonup> EvidenceExecution"
    and audit :: "'w \<Rightarrow> string \<Rightarrow> EvidenceAuditEntry list"
  assumes durable_name: "valid w \<Longrightarrow> evidence w i n = Some e \<Longrightarrow> ee_Name e = n"
    and durable_id: "valid w \<Longrightarrow> packets w i = Some p \<Longrightarrow> cp_ID p = i"
    and durable_get: "valid w \<Longrightarrow> rp_GetChangePacket R i w = (rg, w') \<Longrightarrow>
      unchanged valid packets evidence audit w w' \<and> (\<forall>p. rg = Inr p \<longrightarrow> packets w i = Some p)"
    and durable_list: "valid w \<Longrightarrow> rp_ListEvidenceExecutions R i w = (rl, w') \<Longrightarrow>
      unchanged valid packets evidence audit w w'
      \<and> (\<forall>es. rl = Inr es \<longrightarrow> distinct (map ee_Name es) \<and> (\<forall>e. e \<in> set es \<longleftrightarrow> evidence w i (ee_Name e) = Some e))"
    and durable_record: "valid w \<Longrightarrow> rp_RecordEvidenceUpdate R e a w = (r, w') \<Longrightarrow>
      unchanged valid packets evidence audit w w' \<and> r \<noteq> Inr ()
      \<or> (\<exists>e' a'. valid w' \<and> packets w' = packets w
           \<and> evidence w' = (evidence w)(ee_ChangePacketID e := (evidence w (ee_ChangePacketID e))(ee_Name e \<mapsto> e'))
           \<and> e' = e\<lparr>ee_UpdatedAt := ee_UpdatedAt e'\<rparr>
           \<and> audit w' = (audit w)(ae_ChangePacketID a := audit w (ae_ChangePacketID a) @ [a'])
           \<and> a' = a\<lparr>ae_Metadata := ae_Metadata a', ae_OccurredAt := ae_OccurredAt a'\<rparr>)"
    and durable_save: "valid w \<Longrightarrow> rp_SaveChangePacket R p w = (r, w') \<Longrightarrow>
      unchanged valid packets evidence audit w w' \<and> r \<noteq> Inr ()
      \<or> valid w' \<and> packets w' = (packets w)(cp_ID p \<mapsto> p) \<and> audit w' = audit w
        \<and> (\<forall>i. i \<noteq> cp_ID p \<longrightarrow> evidence w' i = evidence w i)
        \<and> ensured (evidence w (cp_ID p)) (evidence w' (cp_ID p)) (cp_Evidence p)"
    and durable_list_audit: "valid w \<Longrightarrow> rp_ListEvidenceAuditEntries R i limit w = (ra, w') \<Longrightarrow>
      unchanged valid packets evidence audit w w'"
    and durable_outcome: "valid w \<Longrightarrow> rp_SaveDeploymentOutcome R d w = (r, w') \<Longrightarrow>
      unchanged valid packets evidence audit w w'"

text \<open>A store that never fails is one of these.\<close>

sublocale repository \<subseteq> durable_repository
proof
  show "unchanged valid packets evidence audit w w' \<and> r \<noteq> Inr ()
      \<or> (\<exists>e' a'. valid w' \<and> packets w' = packets w
           \<and> evidence w' = (evidence w)(ee_ChangePacketID e := (evidence w (ee_ChangePacketID e))(ee_Name e \<mapsto> e'))
           \<and> e' = e\<lparr>ee_UpdatedAt := ee_UpdatedAt e'\<rparr>
           \<and> audit w' = (audit w)(ae_ChangePacketID a := audit w (ae_ChangePacketID a) @ [a'])
           \<and> a' = a\<lparr>ae_Metadata := ae_Metadata a', ae_OccurredAt := ae_OccurredAt a'\<rparr>)"
    if v: "valid w" and q: "rp_RecordEvidenceUpdate R e a w = (r, w')" for w w' e a r
  proof -
    obtain e' a' where u: "valid w'" "packets w' = packets w"
      "evidence w' = (evidence w)(ee_ChangePacketID e := (evidence w (ee_ChangePacketID e))(ee_Name e \<mapsto> e'))"
      "e' = e\<lparr>ee_UpdatedAt := ee_UpdatedAt e'\<rparr>"
      "audit w' = (audit w)(ae_ChangePacketID a := audit w (ae_ChangePacketID a) @ [a'])" "a' = a\<lparr>ae_Metadata := ae_Metadata a'\<rparr>"
      using record_update [OF v, of e a] q by auto
    have "ae_OccurredAt a' = ae_OccurredAt a" by (subst u(6)) simp
    then have "a' = a\<lparr>ae_Metadata := ae_Metadata a', ae_OccurredAt := ae_OccurredAt a'\<rparr>" using u(6) by simp
    then show ?thesis using u by blast
  qed
  show "unchanged valid packets evidence audit w w' \<and> r \<noteq> Inr ()
      \<or> valid w' \<and> packets w' = (packets w)(cp_ID p \<mapsto> p) \<and> audit w' = audit w
        \<and> (\<forall>i. i \<noteq> cp_ID p \<longrightarrow> evidence w' i = evidence w i)
        \<and> ensured (evidence w (cp_ID p)) (evidence w' (cp_ID p)) (cp_Evidence p)"
    if "valid w" "rp_SaveChangePacket R p w = (r, w')" for w w' p r
    using save [OF that(1), of p] that(2) by auto
  show "unchanged valid packets evidence audit w w' \<and> (\<forall>p. r = Inr p \<longrightarrow> packets w i = Some p)"
    if "valid w" "rp_GetChangePacket R i w = (r, w')" for w w' i r
    using get [OF that(1), of i] that by (auto simp: unchanged_def split: option.splits)
  show "unchanged valid packets evidence audit w w'
      \<and> (\<forall>es. r = Inr es \<longrightarrow> distinct (map ee_Name es) \<and> (\<forall>e. e \<in> set es \<longleftrightarrow> evidence w i (ee_Name e) = Some e))"
    if "valid w" "rp_ListEvidenceExecutions R i w = (r, w')" for w w' i r
    using list [OF that(1), of i] that by (auto simp: unchanged_def)
  show "unchanged valid packets evidence audit w w'"
    if "valid w" "rp_ListEvidenceAuditEntries R i limit w = (r, w')" for w w' i limit r
    using list_audit [OF that(1), of i limit] that by (auto simp: unchanged_def)
  show "unchanged valid packets evidence audit w w'"
    if "valid w" "rp_SaveDeploymentOutcome R d w = (r, w')" for w w' d r
    using save_outcome [OF that(1), of d] that by (auto simp: unchanged_def)
qed (fact evidence_name packet_id)+

section \<open>The service on such a store\<close>

locale durable_service = durable_repository R valid packets evidence audit
  for R :: "'w Repository" and valid packets evidence audit +
  fixes publisher :: "'w CheckPublisher option"
  assumes publish_keeps: "publisher = Some publish \<Longrightarrow> valid w \<Longrightarrow> publish p es w = (r, w') \<Longrightarrow>
      valid w' \<and> packets w' = packets w \<and> evidence w' = evidence w \<and> audit w' = audit w"
begin

text \<open>What every step keeps: the representation invariant, the trail, and the log so far; and a
  status only moves along the life cycle.\<close>

definition safe_step :: "'w \<Rightarrow> 'w \<Rightarrow> bool" where
  "safe_step w w' \<longleftrightarrow> valid w' \<and> (trail (evidence w) (audit w) \<longrightarrow> trail (evidence w') (audit w'))
     \<and> (\<forall>i. prefix (audit w i) (audit w' i))
     \<and> (\<forall>i n. canTransitionEvidence (recordedStatus (evidence w i) n) (recordedStatus (evidence w' i) n))"

text \<open>A quiet action changes no status and no log.\<close>

definition quiet :: "'w \<Rightarrow> 'w \<Rightarrow> bool" where
  "quiet w w' \<longleftrightarrow> valid w' \<and> audit w' = audit w
     \<and> (\<forall>i n. recordedStatus (evidence w' i) n = recordedStatus (evidence w i) n)"

lemma quiet_trans: "quiet w w1 \<Longrightarrow> quiet w1 w2 \<Longrightarrow> quiet w w2"
  by (simp add: quiet_def)

lemma quiet_valid: "quiet w w' \<Longrightarrow> valid w'"
  by (simp add: quiet_def)

lemma unchanged_quiet: "unchanged valid packets evidence audit w w' \<Longrightarrow> quiet w w'"
  by (simp add: unchanged_def quiet_def)

lemma quiet_safe: "quiet w w' \<Longrightarrow> safe_step w w'"
  by (simp add: quiet_def safe_step_def trail_def)

lemma safe_quiet: "safe_step w w1 \<Longrightarrow> quiet w1 w2 \<Longrightarrow> safe_step w w2"
  by (simp add: quiet_def safe_step_def trail_def)

lemma quiet_then_safe: "quiet w w1 \<Longrightarrow> safe_step w1 w2 \<Longrightarrow> safe_step w w2"
  by (simp add: quiet_def safe_step_def trail_def)

text \<open>Actions that are quiet on valid states, and how they compose.\<close>

definition quietly :: "('w, 'e, 'a) io \<Rightarrow> bool" where
  "quietly m \<longleftrightarrow> (\<forall>w. valid w \<longrightarrow> quiet w (snd (m w)))"

lemma quietlyD: "quietly m \<Longrightarrow> valid w \<Longrightarrow> m w = (r, w') \<Longrightarrow> quiet w w'"
  by (metis quietly_def snd_conv)

lemma quietly_simps [simp]: "quietly (retM a)" "quietly (failM e)" "quietly (liftM r)"
  by (simp_all add: quietly_def quiet_def)

lemma quietly_bind [intro]: "quietly m \<Longrightarrow> (\<And>a. quietly (f a)) \<Longrightarrow> quietly (bindM m f)"
  unfolding quietly_def bindM_def
  by (auto split: prod.splits sum.splits) (metis quiet_trans quiet_valid snd_conv)+

lemma quietly_wrap [intro]: "quietly m \<Longrightarrow> quietly (wrapM g m)"
  by (auto simp: quietly_def wrapM_def split: prod.splits)

lemma quietly_calls [intro]:
  "quietly (rp_GetChangePacket R i)" "quietly (rp_ListEvidenceExecutions R i)"
  "quietly (rp_ListEvidenceAuditEntries R i limit)" "quietly (rp_SaveDeploymentOutcome R d)"
  unfolding quietly_def
  by (metis durable_get unchanged_quiet prod.collapse, metis durable_list unchanged_quiet prod.collapse,
      metis durable_list_audit unchanged_quiet prod.collapse, metis durable_outcome unchanged_quiet prod.collapse)

lemma quietly_save [intro]: "quietly (rp_SaveChangePacket R p)"
  unfolding quietly_def
proof (intro allI impI)
  fix w
  assume v: "valid w"
  obtain r w' where s: "rp_SaveChangePacket R p w = (r, w')" by fastforce
  have "quiet w w'" if "valid w'" "audit w' = audit w" "\<forall>i. i \<noteq> cp_ID p \<longrightarrow> evidence w' i = evidence w i"
    "ensured (evidence w (cp_ID p)) (evidence w' (cp_ID p)) (cp_Evidence p)"
    using that ensured_recordedStatus unfolding quiet_def by (metis (no_types))
  then show "quiet w (snd (rp_SaveChangePacket R p w))"
    using durable_save [OF v s] unchanged_quiet s by auto
qed

lemma quietly_publish [intro]: "publisher = Some publish \<Longrightarrow> quietly (publish p es)"
  unfolding quietly_def quiet_def by (metis publish_keeps prod.collapse)

lemma quietly_reconcile: "quietly (reconcileDecision env (serviceWith R a publisher) p)"
  unfolding reconcileDecision_def Let_def
  by (auto split: option.splits intro!: quietly_bind quietly_wrap)

lemma current_is_recorded:
  assumes "valid w" and "currentEvidenceStatus (serviceWith R a publisher) i n w = (r, w')"
  shows "quiet w w' \<and> (\<forall>s. r = Inr s \<longrightarrow> s = recordedStatus (evidence w i) n)"
proof -
  obtain rl w1 where l: "rp_ListEvidenceExecutions R i w = (rl, w1)" by fastforce
  note d = durable_list [OF assms(1) l]
  have w': "w' = w1" using assms(2) l
    by (auto simp: currentEvidenceStatus_def bindM_def wrapM_def mapError_def split: sum.splits option.splits)
  have "s = recordedStatus (evidence w i) n" if s: "r = Inr s" for s
  proof -
    obtain es where es: "rl = Inr es" and f: "s = (case find (\<lambda>x. ee_Name x = n) es of Some x \<Rightarrow> ee_Status x | None \<Rightarrow> EvidencePending)"
      using assms(2) l s
      by (auto simp: currentEvidenceStatus_def bindM_def wrapM_def mapError_def split: sum.splits option.splits)
    have in_es: "\<And>e. e \<in> set es \<longleftrightarrow> evidence w i (ee_Name e) = Some e" using d es by blast
    show ?thesis
    proof (cases "find (\<lambda>x. ee_Name x = n) es")
      case None
      have "evidence w i n = None"
      proof (cases "evidence w i n")
        case (Some e)
        then show ?thesis
          using in_es [of e] durable_name [OF assms(1) Some] \<open>find _ es = None\<close> by (auto simp: find_None_all)
      qed simp
      then show ?thesis using f None by (simp add: recordedStatus_def)
    next
      case (Some x)
      then have "evidence w i n = Some x" using find_Some_in_set [OF Some] in_es [of x] by auto
      then show ?thesis using f Some by (simp add: recordedStatus_def)
    qed
  qed
  then show ?thesis using d w' unchanged_quiet by blast
qed

text \<open>Recording an update that the life cycle allows is safe.\<close>

lemma record_safe:
  assumes v: "valid w" and c: "rp_RecordEvidenceUpdate R y (auditFor env s y) w = (r, w')"
    and s: "s = recordedStatus (evidence w (ee_ChangePacketID y)) (ee_Name y)" and t: "canTransitionEvidence s (ee_Status y)"
  shows "safe_step w w'"
  using durable_record [OF v c]
proof (elim disjE)
  assume "unchanged valid packets evidence audit w w' \<and> r \<noteq> Inr ()"
  then show ?thesis using unchanged_quiet quiet_safe by blast
next
  let ?a = "auditFor env s y"
  assume "\<exists>e' a'. valid w' \<and> packets w' = packets w
      \<and> evidence w' = (evidence w)(ee_ChangePacketID y := (evidence w (ee_ChangePacketID y))(ee_Name y \<mapsto> e'))
      \<and> e' = y\<lparr>ee_UpdatedAt := ee_UpdatedAt e'\<rparr>
      \<and> audit w' = (audit w)(ae_ChangePacketID ?a := audit w (ae_ChangePacketID ?a) @ [a'])
      \<and> a' = ?a\<lparr>ae_Metadata := ae_Metadata a', ae_OccurredAt := ae_OccurredAt a'\<rparr>"
  then obtain e' a' where u: "valid w'"
    "evidence w' = (evidence w)(ee_ChangePacketID y := (evidence w (ee_ChangePacketID y))(ee_Name y \<mapsto> e'))"
    "e' = y\<lparr>ee_UpdatedAt := ee_UpdatedAt e'\<rparr>"
    "audit w' = (audit w)(ee_ChangePacketID y := audit w (ee_ChangePacketID y) @ [a'])"
    "a' = ?a\<lparr>ae_Metadata := ae_Metadata a', ae_OccurredAt := ae_OccurredAt a'\<rparr>"
    by (auto simp: auditFor_def)
  have e': "ee_Status e' = ee_Status y" by (subst u(3)) simp
  have a': "ae_EvidenceName a' = ee_Name y" "ae_ChangePacketID a' = ee_ChangePacketID y" "ae_ToStatus a' = ee_Status y"
    "ae_FromStatus a' = s" "ae_Actor a' = ee_UpdatedBy y"
    by (subst u(5), simp add: auditFor_def)+
  have rec: "evidenceRecorded y (evidence w) (audit w) (evidence w') (audit w')"
    using u(2,4) e' a' s by (auto simp: evidenceRecorded_def)
  have "trail (evidence w') (audit w')" if "trail (evidence w) (audit w)"
    using trail_recorded [OF that rec] t s by simp
  then show ?thesis using u(1,2,4) e' t s by (auto simp: safe_step_def)
qed

lemma record_and_reconcile_safe:
  assumes v: "valid w" and s: "s = recordedStatus (evidence w (ee_ChangePacketID y)) (ee_Name y)"
    and t: "canTransitionEvidence s (ee_Status y)"
    and run: "bindM (wrapM RepositoryError (rp_RecordEvidenceUpdate R y (auditFor env s y))) (\<lambda>_.
      bindM (reconcileDecision env (serviceWith R a publisher) p) (\<lambda>_. retM z)) w = (r, w')"
  shows "safe_step w w'"
proof -
  obtain rr w1 where rec: "rp_RecordEvidenceUpdate R y (auditFor env s y) w = (rr, w1)" by fastforce
  have safe: "safe_step w w1" by (rule record_safe [OF v rec s t])
  have q: "quietly (bindM (reconcileDecision env (serviceWith R a publisher) p) (\<lambda>_. retM z))"
    by (intro quietly_bind quietly_reconcile) simp
  show ?thesis
  proof (cases rr)
    case (Inl e)
    then show ?thesis using run rec safe by simp
  next
    case (Inr u)
    then have "bindM (reconcileDecision env (serviceWith R a publisher) p) (\<lambda>_. retM z) w1 = (r, w')" using run rec by simp
    then show ?thesis using safe_quiet [OF safe quietlyD [OF q]] safe by (simp add: safe_step_def)
  qed
qed

lemma update_safe:
  assumes v: "valid w" and run: "UpdateEvidenceExecution env ctx (serviceWith R a publisher) x w = (r, w')"
  shows "safe_step w w'"
proof (cases "\<exists>e. UpdateEvidenceExecution env ctx (serviceWith R a publisher) x w = (Inl e, w)")
  case True
  then show ?thesis using run v quiet_safe by (auto simp: quiet_def)
next
  case no_guard: False
  let ?y = "attributed ctx x" and ?i = "ee_ChangePacketID x" and ?n = "ee_Name x"
  obtain rg w1 where g: "rp_GetChangePacket R ?i w = (rg, w1)" by fastforce
  have q1: "quiet w w1" using durable_get [OF v g] unchanged_quiet by blast
  show ?thesis
  proof (cases rg)
    case (Inl e)
    then show ?thesis using run no_guard g quiet_safe [OF q1]
      by (auto simp: UpdateEvidenceExecution_def Let_def split: if_splits)
  next
    case (Inr p)
    show ?thesis
    proof (cases "findEvidenceRequirement (cp_Evidence p) ?n")
      case None
      then show ?thesis using run no_guard g Inr quiet_safe [OF q1]
        by (auto simp: UpdateEvidenceExecution_def Let_def split: if_splits)
    next
      case (Some q)
      obtain rs w2 where c: "currentEvidenceStatus (serviceWith R a publisher) ?i ?n w1 = (rs, w2)" by fastforce
      note cur = current_is_recorded [OF quiet_valid [OF q1] c]
      have q2: "quiet w w2" using quiet_trans [OF q1] cur by blast
      show ?thesis
      proof (cases rs)
        case (Inl e)
        then show ?thesis using run no_guard g \<open>rg = Inr p\<close> Some c quiet_safe [OF q2]
          by (auto simp: UpdateEvidenceExecution_def Let_def split: if_splits)
      next
        case st: (Inr s)
        let ?z = "?y\<lparr>ee_Type := er_Type q, ee_Required := er_Required q, ee_UpdatedAt := ce_Now env 0\<rparr>"
        have s: "s = recordedStatus (evidence w2 (ee_ChangePacketID ?z)) (ee_Name ?z)"
          using cur st by (auto simp: quiet_def)
        show ?thesis
        proof (cases "canTransitionEvidence s (ee_Status x)")
          case False
          then show ?thesis using run no_guard g \<open>rg = Inr p\<close> Some c st quiet_safe [OF q2]
            by (auto simp: UpdateEvidenceExecution_def Let_def split: if_splits)
        next
          case True
          have "bindM (wrapM RepositoryError (rp_RecordEvidenceUpdate R ?z (auditFor env s ?z))) (\<lambda>_.
              bindM (reconcileDecision env (serviceWith R a publisher) p) (\<lambda>_. retM ?z)) w2 = (r, w')"
            using run no_guard g \<open>rg = Inr p\<close> Some c st True
            by (auto simp: UpdateEvidenceExecution_def Let_def split: if_splits)
          from record_and_reconcile_safe [OF quiet_valid [OF q2] s _ this] True
          have "safe_step w2 w'" by simp
          then show ?thesis using quiet_then_safe [OF q2] by blast
        qed
      qed
    qed
  qed
qed

lemma step_safe:
  assumes "service_step (serviceWith R a publisher) w w'" and "valid w"
  shows "safe_step w w'"
  using assms(1)
proof cases
  case (saved p r)
  then show ?thesis using quietlyD [OF quietly_save assms(2)] quiet_safe by simp
next
  case (updated env ctx x r)
  then show ?thesis using update_safe assms(2) by blast
next
  case (outcome env d r)
  have "quietly (RecordDeploymentOutcome env (serviceWith R a publisher) d)"
    unfolding RecordDeploymentOutcome_def Let_def by (auto intro!: quietly_bind quietly_wrap)
  from quietlyD [OF this assms(2) outcome] show ?thesis by (rule quiet_safe)
next
  case (viewed i r)
  have "quietly (Service_GetChangePacket (serviceWith R a publisher) i)"
    unfolding Service_GetChangePacket_def by (auto intro!: quietly_bind quietly_wrap)
  from quietlyD [OF this assms(2) viewed] show ?thesis by (rule quiet_safe)
next
  case (audited i limit r)
  have "quietly (Service_ListEvidenceAuditEntries (serviceWith R a publisher) i limit)"
    unfolding Service_ListEvidenceAuditEntries_def by (auto intro!: quietly_bind quietly_wrap)
  from quietlyD [OF this assms(2) audited] show ?thesis by (rule quiet_safe)
qed

lemma steps_safe:
  assumes "(service_step (serviceWith R a publisher))\<^sup>*\<^sup>* w w'" and "valid w"
  shows "valid w' \<and> (trail (evidence w) (audit w) \<longrightarrow> trail (evidence w') (audit w'))
    \<and> (\<forall>i. prefix (audit w i) (audit w' i))
    \<and> (\<forall>i n. settled (recordedStatus (evidence w i) n) \<longrightarrow>
         recordedStatus (evidence w' i) n = recordedStatus (evidence w i) n)"
  using assms
proof (induction rule: rtranclp_induct)
  case (step y z)
  have "safe_step y z" using step_safe step.hyps(2) step.IH step.prems by blast
  then show ?case
    using step.IH [OF step.prems] settled_final unfolding safe_step_def
    by (metis prefix_order.trans)
qed simp

end

text \<open>The service on a store that never fails is an instance.\<close>

sublocale evidence_service \<subseteq> durable_service
  by unfold_locales (fact publish_frame)

end
