(* ===== verification/EvidenceMachine.thy ===== *)
theory EvidenceMachine
  imports Durable
begin

text \<open>
  The life of an evidence execution under the control-plane service on a store that does not fail: the
  exact effect of an update, progress, and the in-memory store beside a GitHub client as the instance
  on which all of it holds. What holds on every store, whether it fails or not, is in \<open>Durable\<close>.
\<close>

section \<open>Producers\<close>

definition satisfying :: "string \<Rightarrow> string \<Rightarrow> EvidenceExecution" where
  "satisfying i n =
     zeroEvidenceExecution\<lparr>ee_ChangePacketID := i, ee_Name := n, ee_Status := EvidenceSatisfied\<rparr>"

definition satisfyAll :: "CallEnv \<Rightarrow> Context \<Rightarrow> 'w Service \<Rightarrow> string \<Rightarrow> string list \<Rightarrow> ('w, ServiceError, unit) io" where
  \<comment> \<open>a producer that reports success for one evidence after the other\<close>
  "satisfyAll env ctx s i names =
     forM (\<lambda>n. bindM (UpdateEvidenceExecution env ctx s (satisfying i n)) (\<lambda>_. retM ())) names"

context evidence_service
begin

lemma update_cases:
  assumes "valid w" and "UpdateEvidenceExecution env ctx (serviceWith R a publisher) x w = (r, w')"
  obtains e where "updateError ctx (packets w) (evidence w) x = Some e" "r = Inl e" "w' = w"
  | "updateError ctx (packets w) (evidence w) x = None" "valid w'"
    "evidenceRecorded (attributed ctx x) (evidence w) (audit w) (evidence w') (audit w')"
    "canTransitionEvidence (recordedStatus (evidence w (ee_ChangePacketID x)) (ee_Name x)) (ee_Status x)"
proof (cases "updateError ctx (packets w) (evidence w) x")
  case None
  have "canTransitionEvidence (recordedStatus (evidence w (ee_ChangePacketID x)) (ee_Name x)) (ee_Status x)"
    using None by (auto simp: updateError_def Let_def split: if_splits option.splits)
  moreover obtain r1 w1 where "UpdateEvidenceExecution env ctx (serviceWith R a publisher) x w = (r1, w1)" "valid w1"
    "evidenceRecorded (attributed ctx x) (evidence w) (audit w) (evidence w1) (audit w1)"
    using update_effect [OF assms(1) None, of env a] by metis
  ultimately show thesis using that(2) None assms(2) by simp
next
  case (Some e)
  then show thesis using that(1) update_refused [OF assms(1) Some, of env a] assms(2) by simp
qed

lemma update_accepted_world:
  assumes "valid w" and "updateError ctx (packets w) (evidence w) x = None"
  shows "\<exists>r w'. UpdateEvidenceExecution env ctx (serviceWith R a publisher) x w = (r, w')
    \<and> evidenceRecorded (attributed ctx x) (evidence w) (audit w) (evidence w') (audit w')"
proof -
  obtain r w' where "UpdateEvidenceExecution env ctx (serviceWith R a publisher) x w = (r, w')" by fastforce
  then show ?thesis using update_cases [OF assms(1)] assms(2) by force
qed

text \<open>Progress: an update that the life cycle allows succeeds when the collaborators do.\<close>

lemma update_succeeds:
  assumes "valid w" and "updateError ctx (packets w) (evidence w) x = None"
    and "\<And>e. \<not> assignFails a e" and "\<And>e. \<not> publishFails publisher e"
  obtains y w' p p' where "UpdateEvidenceExecution env ctx (serviceWith R a publisher) x w = (Inr y, w')" "valid w'"
    "packets w (ee_ChangePacketID x) = Some p" "packets w' (ee_ChangePacketID x) = Some p'"
    "reconciled a p (evidence w' (ee_ChangePacketID x)) p'"
    "\<And>n. recordedStatus (evidence w' (ee_ChangePacketID x)) n =
       (if n = ee_Name x then ee_Status x else recordedStatus (evidence w (ee_ChangePacketID x)) n)"
proof -
  note finish = that
  obtain r w' p where u: "UpdateEvidenceExecution env ctx (serviceWith R a publisher) x w = (r, w')" "valid w'"
    "packets w (ee_ChangePacketID x) = Some p"
    "evidenceRecorded (attributed ctx x) (evidence w) (audit w) (evidence w') (audit w')"
    "(\<exists>e. r = Inl (LaneError e) \<and> assignFails a e) \<and> packets w' = packets w
     \<or> ((\<exists>y. r = Inr y) \<or> (\<exists>e. r = Inl (PublishError e) \<and> publishFails publisher e))
        \<and> (\<exists>p'. reconciled a p (evidence w' (cp_ID p)) p' \<and> packets w' = (packets w)(ee_ChangePacketID x \<mapsto> p'))"
    using update_effect [OF assms(1,2), of env a] .
  have "cp_ID p = ee_ChangePacketID x" using packet_id [OF assms(1) u(3)] .
  then obtain y p' where "r = Inr y" "reconciled a p (evidence w' (ee_ChangePacketID x)) p'"
    "packets w' (ee_ChangePacketID x) = Some p'"
    using u(5) assms(3,4) by auto
  then show thesis
    using finish [of y w' p p'] u(1-4) unfolding evidenceRecorded_def by simp
qed

lemma satisfyAll_progress:
  assumes "valid w" and "packets w i = Some p" and "TrimSpace i \<noteq> []"
    and "\<And>n. n \<in> set ns \<Longrightarrow> TrimSpace n \<noteq> [] \<and> n \<in> er_Name ` set (cp_Evidence p)
           \<and> recordedStatus (evidence w i) n \<in> {EvidencePending, EvidenceRunning, EvidenceSatisfied}"
    and "\<And>e. \<not> assignFails a e" and "\<And>e. \<not> publishFails publisher e"
  shows "\<exists>w' p'. satisfyAll env ctx (serviceWith R a publisher) i ns w = (Inr (), w') \<and> packets w' i = Some p'
    \<and> (\<forall>n. recordedStatus (evidence w' i) n =
         (if n \<in> set ns then EvidenceSatisfied else recordedStatus (evidence w i) n))
    \<and> (ns \<noteq> [] \<longrightarrow> pd_Status (cp_Decision p') = dueDecision p (evidence w' i))"
  using assms(1,2,4)
proof (induction ns arbitrary: w p)
  case Nil
  then show ?case by (simp add: satisfyAll_def)
next
  case (Cons n ns)
  let ?x = "satisfying i n"
  have x: "ee_ChangePacketID ?x = i" "ee_Name ?x = n" "ee_Status ?x = EvidenceSatisfied"
    by (simp_all add: satisfying_def)
  have "canTransitionEvidence (recordedStatus (evidence w i) n) EvidenceSatisfied"
    using Cons.prems(3) [of n] by (auto simp: canTransitionEvidence_def)
  then have "updateError ctx (packets w) (evidence w) ?x = None"
    using Cons.prems(2) Cons.prems(3) [of n] assms(3) x
    by (simp add: updateError_def Let_def validEvidenceStatus_def)
  from update_succeeds [OF Cons.prems(1) this assms(5,6), of env] x Cons.prems(2)
  obtain y w1 p1 where u: "UpdateEvidenceExecution env ctx (serviceWith R a publisher) ?x w = (Inr y, w1)" "valid w1"
    "packets w1 i = Some p1" "reconciled a p (evidence w1 i) p1"
    "\<And>m. recordedStatus (evidence w1 i) m = (if m = n then EvidenceSatisfied else recordedStatus (evidence w i) m)"
    by (metis option.inject)
  have same: "cp_Evidence p1 = cp_Evidence p" "cp_Reviewers p1 = cp_Reviewers p"
    "pd_Status (cp_Decision p1) = dueDecision p (evidence w1 i)"
    using u(4) by (simp_all add: reconciled_def)
  have due: "dueDecision p1 ev = dueDecision p ev" for ev
    using same by (auto simp: dueDecision_def allComplete_def)
  have "\<And>m. m \<in> set ns \<Longrightarrow> TrimSpace m \<noteq> [] \<and> m \<in> er_Name ` set (cp_Evidence p1)
      \<and> recordedStatus (evidence w1 i) m \<in> {EvidencePending, EvidenceRunning, EvidenceSatisfied}"
    using Cons.prems(3) same(1) u(5) by auto
  from Cons.IH [OF u(2,3) this] obtain w' p' where
    IH: "satisfyAll env ctx (serviceWith R a publisher) i ns w1 = (Inr (), w')" "packets w' i = Some p'"
    "\<forall>m. recordedStatus (evidence w' i) m = (if m \<in> set ns then EvidenceSatisfied else recordedStatus (evidence w1 i) m)"
    "ns \<noteq> [] \<longrightarrow> pd_Status (cp_Decision p') = dueDecision p1 (evidence w' i)"
    by blast
  have "satisfyAll env ctx (serviceWith R a publisher) i (n # ns) w = (Inr (), w')"
    using u(1) IH(1) by (simp add: satisfyAll_def bindM_def)
  moreover have "pd_Status (cp_Decision p') = dueDecision p (evidence w' i)"
  proof (cases "ns = []")
    case True
    then show ?thesis using IH(1,2) u(3) same(3) by (simp add: satisfyAll_def)
  qed (use IH(4) due in simp)
  ultimately show ?case using IH(2,3) u(5) by auto
qed

end

section \<open>The in-memory store beside a GitHub client\<close>

record 'g World = MemoryRepository +
  wo_GitHub :: 'g

definition onGitHub :: "('g, 'e, 'a) io \<Rightarrow> ('g World, 'e, 'a) io" where
  "onGitHub m w = (case m (wo_GitHub w) of (r, g) \<Rightarrow> (r, w\<lparr>wo_GitHub := g\<rparr>))"

definition worldClient :: "'g CheckRunPublisher \<Rightarrow> 'g World CheckRunPublisher" where
  "worldClient c =
     \<lparr>cc_PublishCheckRun = (\<lambda>input. onGitHub (cc_PublishCheckRun c input)),
      cc_ForInstallation = map_option (\<lambda>f n input. onGitHub (f n input)) (cc_ForInstallation c)\<rparr>"

definition worldPublisher :: "'g GitHubCheckPublisher option \<Rightarrow> 'g World CheckPublisher option" where
  "worldPublisher publisher = map_option (\<lambda>p. PublishWithEvidence (map_option worldClient p)) publisher"

definition memoryService ::
  "key_order \<Rightarrow> time \<Rightarrow> (ChangePacket \<Rightarrow> string + MergeLane) option \<Rightarrow> 'g GitHubCheckPublisher option
     \<Rightarrow> 'g World Service" where
  "memoryService ord now assigner publisher =
     serviceWith (memoryRepository ord now) assigner (worldPublisher publisher)"

definition initialWorld :: "'g \<Rightarrow> 'g World" where
  "initialWorld g =
     \<lparr>mr_changePackets = [], mr_events = Map.empty, mr_evidenceByCPID = (\<lambda>_. []),
      mr_auditByCPID = (\<lambda>_. []), mr_outcomes = [], wo_GitHub = g\<rparr>"

lemma worldPublisher_frame:
  assumes "worldPublisher publisher = Some publish" and "publish p es w = (r, w')"
  shows "\<exists>g. w' = w\<lparr>wo_GitHub := g\<rparr>"
proof -
  have same: "\<exists>g. w = w\<lparr>wo_GitHub := g\<rparr>" by (rule exI [of _ "wo_GitHub w"]) simp
  have "\<exists>g. w' = w\<lparr>wo_GitHub := g\<rparr>" if "onGitHub m w = (r, w')" for m :: "(_, string, unit) io"
    using that by (auto simp: onGitHub_def split: prod.splits)
  then show ?thesis
    using assms same
    by (auto simp: worldPublisher_def PublishWithEvidence_def boundClient_def worldClient_def Let_def
        split: option.splits if_splits)
qed

lemma mem_view_GitHub [simp]:
  "mem_valid (w\<lparr>wo_GitHub := g\<rparr>) = mem_valid w" "mem_packets (w\<lparr>wo_GitHub := g\<rparr>) = mem_packets w"
  "mem_evidence (w\<lparr>wo_GitHub := g\<rparr>) = mem_evidence w"
  by (simp_all add: mem_valid_def mem_packets_def mem_evidence_def fun_eq_iff)

interpretation world: evidence_service "memoryRepository ord now" "\<lambda>w. map_order ord \<and> mem_valid w"
    mem_packets mem_evidence mr_auditByCPID "worldPublisher publisher"
  for ord now and publisher :: "'g GitHubCheckPublisher option"
proof unfold_locales
  fix publish p es r and w w' :: "'g World"
  assume "worldPublisher publisher = Some publish" "map_order ord \<and> mem_valid w" "publish p es w = (r, w')"
  then show "(map_order ord \<and> mem_valid w') \<and> mem_packets w' = mem_packets w \<and> mem_evidence w' = mem_evidence w
      \<and> mr_auditByCPID w' = mr_auditByCPID w"
    using worldPublisher_frame by fastforce
qed

lemma initialWorld_facts:
  "mem_valid (initialWorld g)" "trail (mem_evidence (initialWorld g)) (mr_auditByCPID (initialWorld g))"
  by (simp_all add: initialWorld_def mem_valid_def mem_evidence_def trail_def entriesFor_def recordedStatus_def)

lemma Assign_green:
  assumes "Assign cfg packet = Inr MergeLaneGreen"
  shows "pd_Status (cp_Decision packet) \<notin> {DecisionBlocked, DecisionPending}"
    "cp_Reviewers packet = []" "rs_Score (cp_RiskSummary packet) \<le> lc_GreenMax cfg"
  using assms by (auto simp: Assign_def forcedLane_def lanes_maxLane_def laneOrder_def Let_def split: if_splits)

section \<open>A sample store\<close>

definition testsRequirement :: EvidenceRequirement where
  "testsRequirement = zeroEvidenceRequirement\<lparr>er_Name := ''tests'', er_Required := True\<rparr>"

definition testsPacket :: ChangePacket where
  "testsPacket = zeroChangePacket\<lparr>cp_ID := ''cp_1'', cp_Evidence := [testsRequirement],
     cp_Decision := zeroPolicyDecision\<lparr>pd_Status := DecisionPending\<rparr>\<rparr>"

definition sampleWorld :: "unit World" where
  "sampleWorld = snd (SaveChangePacket 7 testsPacket (initialWorld ()))"

definition sampleEnv :: CallEnv where
  "sampleEnv = \<lparr>ce_Now = (\<lambda>k. 100 + int k), ce_NewID = ''evidence_audit_1''\<rparr>"

lemma sampleWorld_packets: "mem_packets sampleWorld = [''cp_1'' \<mapsto> testsPacket]"
  by (simp add: sampleWorld_def SaveChangePacket_def initialWorld_def ensureEvidenceLocked_def mem_packets_def
      testsPacket_def)

lemma sampleWorld_valid: "mem_valid sampleWorld"
  by (simp add: sampleWorld_def SaveChangePacket_def initialWorld_def ensureEvidenceLocked_def mem_valid_def
      testsPacket_def testsRequirement_def ensureEvidenceStep_def zero_defs)

lemma sampleWorld_status: "recordedStatus (mem_evidence sampleWorld i) n = EvidencePending"
  by (simp add: sampleWorld_def SaveChangePacket_def initialWorld_def ensureEvidenceLocked_def mem_evidence_def
      testsPacket_def testsRequirement_def ensureEvidenceStep_def zero_defs recordedStatus_def)

lemma sampleWorld_reached:
  "service_step (memoryService rev 7 assigner publisher) (initialWorld ()) sampleWorld"
  unfolding sampleWorld_def
  by (rule service_step.saved [of _ testsPacket _ "fst (SaveChangePacket 7 testsPacket (initialWorld ()))"])
    (simp add: memoryService_def memoryRepository_def)

lemma sample_names: "TrimSpace ''cp_1'' \<noteq> []" "TrimSpace ''tests'' \<noteq> []"
  by code_simp+

lemma sample_accepted: "updateError None (mem_packets sampleWorld) (mem_evidence sampleWorld) (satisfying ''cp_1'' ''tests'') = None"
  using sample_names
  by (simp add: updateError_def Let_def satisfying_def sampleWorld_packets sampleWorld_status validEvidenceStatus_def
      canTransitionEvidence_def testsPacket_def testsRequirement_def)

text \<open>The store after the evidence was reported as satisfied, and after two more reports: a failure, and success again.\<close>

abbreviation sampleService :: "unit World Service" where
  "sampleService \<equiv> memoryService rev 7 (Some (Assign sampleLanes)) None"

definition reportedWorld :: "EvidenceStatus \<Rightarrow> unit World \<Rightarrow> unit World" where
  "reportedWorld status w = snd (UpdateEvidenceExecution sampleEnv None sampleService
     ((satisfying ''cp_1'' ''tests'')\<lparr>ee_Status := status\<rparr>) w)"

definition settledWorld :: "unit World" where
  "settledWorld = reportedWorld EvidenceSatisfied sampleWorld"

definition laterWorld :: "unit World" where
  "laterWorld = reportedWorld EvidenceSatisfied (reportedWorld EvidenceFailed settledWorld)"

lemma settledWorld_facts:
  "recordedStatus (mem_evidence settledWorld ''cp_1'') ''tests'' = EvidenceSatisfied"
  "map ae_ToStatus (mr_auditByCPID settledWorld ''cp_1'') = [EvidenceSatisfied]"
  "map_option cp_MergeLane (mem_packets settledWorld ''cp_1'') = Some MergeLaneGreen"
  by code_simp+

lemma reportedWorld_step: "service_step sampleService w (reportedWorld status w)"
  unfolding reportedWorld_def by (rule service_step.updated) (rule surjective_pairing)

lemma settledWorld_reached: "(service_step sampleService)\<^sup>*\<^sup>* (initialWorld ()) settledWorld"
  unfolding settledWorld_def using sampleWorld_reached reportedWorld_step by (meson r_into_rtranclp rtranclp.rtrancl_into_rtrancl)

lemma laterWorld_reached: "(service_step sampleService)\<^sup>*\<^sup>* settledWorld laterWorld"
  unfolding laterWorld_def using reportedWorld_step by (meson r_into_rtranclp rtranclp.rtrancl_into_rtrancl)

section \<open>Properties\<close>

text \<open>
  C1: an update of evidence, on every branch. A request that is invalid, names an unknown packet or
  evidence, or is not a step of the life cycle is refused with that error and changes nothing. Any
  other request records exactly one new status, with the authenticated caller as its author, and
  appends exactly one audit entry from the old status to the new one; the packet is stored with the
  decision due under the recorded statuses and the lane that the assigner gives it. The only errors
  left are a failing assigner, which leaves the packet as it was, and a failing publication, which
  comes after everything was stored.
\<close>

theorem UpdateEvidenceExecution_exact:
  assumes "map_order ord" and "mem_valid w"
  shows "case updateError ctx (mem_packets w) (mem_evidence w) x of
      Some e \<Rightarrow> UpdateEvidenceExecution env ctx (memoryService ord now assigner publisher) x w = (Inl e, w)
    | None \<Rightarrow> \<exists>r w' p. UpdateEvidenceExecution env ctx (memoryService ord now assigner publisher) x w = (r, w')
        \<and> mem_valid w' \<and> mem_packets w (ee_ChangePacketID x) = Some p
        \<and> evidenceRecorded (attributed ctx x) (mem_evidence w) (mr_auditByCPID w) (mem_evidence w') (mr_auditByCPID w')
        \<and> ((\<exists>e. r = Inl (LaneError e) \<and> assignFails assigner e) \<and> mem_packets w' = mem_packets w
           \<or> ((\<exists>y. r = Inr y) \<or> (\<exists>e. r = Inl (PublishError e) \<and> publishFails (worldPublisher publisher) e))
             \<and> (\<exists>p'. reconciled assigner p (mem_evidence w' (cp_ID p)) p'
                  \<and> mem_packets w' = (mem_packets w)(ee_ChangePacketID x \<mapsto> p')))"
proof (cases "updateError ctx (mem_packets w) (mem_evidence w) x")
  case None
  then show ?thesis
    using world.update_effect [where ord = ord and now = now and publisher = publisher and env = env
        and a = assigner, OF conjI [OF assms] None, folded memoryService_def]
    by simp metis
next
  case (Some e)
  then show ?thesis
    using world.update_refused [of ord w ctx x e] assms by (simp add: memoryService_def)
qed

theorem UpdateEvidenceExecution_exact_witness:
  "\<exists>r w'. UpdateEvidenceExecution sampleEnv None (memoryService rev 7 (Some (\<lambda>_. Inr MergeLaneRed)) None)
       (satisfying ''cp_1'' ''tests'') sampleWorld = (r, w')
     \<and> recordedStatus (mem_evidence w' ''cp_1'') ''tests'' = EvidenceSatisfied
     \<and> (\<exists>a. mr_auditByCPID w' ''cp_1'' = mr_auditByCPID sampleWorld ''cp_1'' @ [a] \<and> ae_ToStatus a = EvidenceSatisfied)"
proof -
  let ?x = "satisfying ''cp_1'' ''tests''"
  obtain r w' where
    "UpdateEvidenceExecution sampleEnv None (memoryService rev 7 (Some (\<lambda>_. Inr MergeLaneRed)) None) ?x sampleWorld = (r, w')"
    "evidenceRecorded (attributed None ?x) (mem_evidence sampleWorld) (mr_auditByCPID sampleWorld)
       (mem_evidence w') (mr_auditByCPID w')"
    using UpdateEvidenceExecution_exact [OF map_order_rev sampleWorld_valid, where ctx = None and x = ?x
        and env = sampleEnv and now = 7 and assigner = "Some (\<lambda>_. Inr MergeLaneRed)" and publisher = None] sample_accepted
    by auto
  then show ?thesis
    by (auto simp: evidenceRecorded_def satisfying_def)
qed

text \<open>
  C2: the audit trail is complete. In every store that a service can reach from an empty one, by
  saving packets, updating evidence (with any outcome), recording outcomes and reading, the audit
  entries of each packet and evidence name replay from pending, step by step along the life cycle,
  to the recorded status; no status ever changes without its entry.
\<close>

theorem reachable_audit_trail:
  assumes "map_order ord"
    and "(service_step (memoryService ord now assigner publisher))\<^sup>*\<^sup>* (initialWorld g) w"
  shows "mem_valid w \<and> replay EvidencePending (entriesFor n (mr_auditByCPID w i)) = Some (recordedStatus (mem_evidence w i) n)"
  using world.steps_safe [of ord now assigner publisher "initialWorld g" w] assms initialWorld_facts [of g]
  by (simp add: memoryService_def trail_def)

theorem reachable_audit_trail_witness:
  "mr_auditByCPID settledWorld ''cp_1'' \<noteq> []
   \<and> replay EvidencePending (entriesFor ''tests'' (mr_auditByCPID settledWorld ''cp_1'')) = Some EvidenceSatisfied"
  using reachable_audit_trail [OF map_order_rev settledWorld_reached, of "''tests''" "''cp_1''"] settledWorld_facts(1,2) by auto

text \<open>
  C10: settled evidence and the audit log are final. Whatever a service does, evidence that is
  satisfied or waived keeps its status, and audit entries are never removed, changed or reordered.
\<close>

theorem settled_evidence_final:
  assumes "map_order ord" and "mem_valid w"
    and "(service_step (memoryService ord now assigner publisher))\<^sup>*\<^sup>* w w'"
  shows "prefix (mr_auditByCPID w i) (mr_auditByCPID w' i)
    \<and> (settled (recordedStatus (mem_evidence w i) n) \<longrightarrow>
         recordedStatus (mem_evidence w' i) n = recordedStatus (mem_evidence w i) n)"
  using world.steps_safe [of ord now assigner publisher w w'] assms
  by (simp add: memoryService_def)

theorem settled_evidence_final_witness:
  "settled (recordedStatus (mem_evidence settledWorld ''cp_1'') ''tests'') \<and> mr_auditByCPID settledWorld ''cp_1'' \<noteq> []
   \<and> recordedStatus (mem_evidence laterWorld ''cp_1'') ''tests'' = EvidenceSatisfied
   \<and> prefix (mr_auditByCPID settledWorld ''cp_1'') (mr_auditByCPID laterWorld ''cp_1'')"
proof -
  have "mem_valid settledWorld"
    using world.steps_safe [OF settledWorld_reached [unfolded memoryService_def] conjI [OF map_order_rev initialWorld_facts(1)]] by simp
  from settled_evidence_final [OF map_order_rev this laterWorld_reached, of "''cp_1''" "''tests''"]
  have "prefix (mr_auditByCPID settledWorld ''cp_1'') (mr_auditByCPID laterWorld ''cp_1'')"
    "recordedStatus (mem_evidence laterWorld ''cp_1'') ''tests'' = EvidenceSatisfied"
    using settledWorld_facts(1) by (simp_all add: settled_def)
  then show ?thesis using settledWorld_facts(1,2) by (auto simp: settled_def)
qed

text \<open>
  C9: the green lane is earned. When a service with the threshold assigner has handled an update, a
  packet that it stored in the green lane is approved, has every required evidence satisfied or
  waived, names no reviewer at all, and has a score within the green threshold; a blocked packet
  stays blocked and is stored in the black lane.
\<close>

theorem stored_lane_earned:
  assumes "map_order ord" and "mem_valid w"
    and "updateError ctx (mem_packets w) (mem_evidence w) x = None"
    and "UpdateEvidenceExecution env ctx (memoryService ord now (Some (Assign cfg)) publisher) x w = (r, w')"
    and "mem_packets w (ee_ChangePacketID x) = Some p"
  shows "\<exists>p'. mem_packets w' (ee_ChangePacketID x) = Some p'
    \<and> (cp_MergeLane p' = MergeLaneGreen \<longrightarrow>
         pd_Status (cp_Decision p') = DecisionApproved \<and> allComplete p' (mem_evidence w' (ee_ChangePacketID x))
         \<and> cp_Reviewers p' = [] \<and> rs_Score (cp_RiskSummary p') \<le> lc_GreenMax cfg)
    \<and> (pd_Status (cp_Decision p) = DecisionBlocked \<longrightarrow>
         pd_Status (cp_Decision p') = DecisionBlocked \<and> cp_MergeLane p' = MergeLaneBlack)"
proof -
  let ?i = "ee_ChangePacketID x"
  have i: "cp_ID p = ?i" using assms(2,5) by (auto simp: mem_valid_def mem_packets_def dest: map_of_SomeD)
  have "\<not> assignFails (Some (Assign cfg)) e" for e
    using threshold.assign_not_error by (auto simp: assignFails_def)
  moreover obtain r1 w1 p1 where
    "UpdateEvidenceExecution env ctx (memoryService ord now (Some (Assign cfg)) publisher) x w = (r1, w1)"
    "map_order ord \<and> mem_valid w1" "mem_packets w ?i = Some p1"
    "evidenceRecorded (attributed ctx x) (mem_evidence w) (mr_auditByCPID w) (mem_evidence w1) (mr_auditByCPID w1)"
    "(\<exists>e. r1 = Inl (LaneError e) \<and> assignFails (Some (Assign cfg)) e) \<and> mem_packets w1 = mem_packets w
     \<or> ((\<exists>y. r1 = Inr y) \<or> (\<exists>e. r1 = Inl (PublishError e) \<and> publishFails (worldPublisher publisher) e))
        \<and> (\<exists>p'. reconciled (Some (Assign cfg)) p1 (mem_evidence w1 (cp_ID p1)) p'
             \<and> mem_packets w1 = (mem_packets w)(?i \<mapsto> p'))"
    using world.update_effect [where ord = ord and now = now and publisher = publisher and env = env
        and a = "Some (Assign cfg)", OF conjI [OF assms(1,2)] assms(3), folded memoryService_def] .
  ultimately obtain p' where p': "reconciled (Some (Assign cfg)) p (mem_evidence w' ?i) p'" "mem_packets w' ?i = Some p'"
    using assms(4,5) i by auto
  let ?q = "p'\<lparr>cp_MergeLane := cp_MergeLane p\<rparr>"
  have q: "Assign cfg ?q = Inr (cp_MergeLane p')" "pd_Status (cp_Decision p') = dueDecision p (mem_evidence w' ?i)"
    "cp_Evidence p' = cp_Evidence p"
    using p'(1) by (auto simp: reconciled_def)
  have "pd_Status (cp_Decision p') = DecisionApproved \<and> allComplete p' (mem_evidence w' ?i)
      \<and> cp_Reviewers p' = [] \<and> rs_Score (cp_RiskSummary p') \<le> lc_GreenMax cfg"
    if "cp_MergeLane p' = MergeLaneGreen"
  proof -
    have "Assign cfg ?q = Inr MergeLaneGreen" using q(1) that by simp
    then show ?thesis
      using Assign_green [of cfg ?q] q(2,3) by (auto simp: dueDecision_def allComplete_def split: if_splits)
  qed
  moreover have "cp_MergeLane p' = MergeLaneBlack" if "pd_Status (cp_Decision p') = DecisionBlocked"
    using threshold.assign_stopped [of ?q cfg] q(1) that by (simp add: stopped_def)
  ultimately show ?thesis
    using p'(2) q(2) by (auto simp: dueDecision_def)
qed

theorem stored_lane_earned_witness:
  "\<exists>r p'. UpdateEvidenceExecution sampleEnv None sampleService (satisfying ''cp_1'' ''tests'') sampleWorld = (r, settledWorld)
     \<and> mem_packets settledWorld ''cp_1'' = Some p' \<and> cp_MergeLane p' = MergeLaneGreen
     \<and> pd_Status (cp_Decision p') = DecisionApproved \<and> allComplete p' (mem_evidence settledWorld ''cp_1'')"
proof -
  have "(satisfying ''cp_1'' ''tests'')\<lparr>ee_Status := EvidenceSatisfied\<rparr> = satisfying ''cp_1'' ''tests''" by (simp add: satisfying_def)
  then obtain r where u: "UpdateEvidenceExecution sampleEnv None sampleService (satisfying ''cp_1'' ''tests'') sampleWorld = (r, settledWorld)"
    unfolding settledWorld_def reportedWorld_def by (metis prod.collapse)
  have "mem_packets sampleWorld (ee_ChangePacketID (satisfying ''cp_1'' ''tests'')) = Some testsPacket"
    by (simp add: satisfying_def sampleWorld_packets)
  from stored_lane_earned [OF map_order_rev sampleWorld_valid sample_accepted u this] u settledWorld_facts(3)
  show ?thesis by (auto simp: satisfying_def)
qed

text \<open>
  C11: reporting success ends with the decision that is due. When every required evidence of a packet (at least
  one) is pending, running or already satisfied, and the assigner and the publication of checks do not fail, then
  reporting success for each of them, one after the other, succeeds. It leaves the packet approved, unless the
  packet was blocked, which it stays, or names a mandatory reviewer, for whom it stays pending.
\<close>

theorem satisfied_packet_approved:
  assumes "map_order ord" and "mem_valid w" and "mem_packets w i = Some p" and "TrimSpace i \<noteq> []"
    and "names \<noteq> []" and "set names = er_Name ` set (filter er_Required (cp_Evidence p))"
    and "\<forall>n \<in> set names. TrimSpace n \<noteq> []
           \<and> recordedStatus (mem_evidence w i) n \<in> {EvidencePending, EvidenceRunning, EvidenceSatisfied}"
    and "\<forall>e. \<not> assignFails assigner e" and "\<forall>e. \<not> publishFails (worldPublisher publisher) e"
  shows "\<exists>w' p'. satisfyAll env ctx (memoryService ord now assigner publisher) i names w = (Inr (), w')
    \<and> mem_packets w' i = Some p'
    \<and> pd_Status (cp_Decision p') =
        (if pd_Status (cp_Decision p) = DecisionBlocked then DecisionBlocked
         else if \<exists>r \<in> set (cp_Reviewers p). rv_Mandatory r then DecisionPending else DecisionApproved)"
proof -
  have "\<And>n. n \<in> set names \<Longrightarrow> TrimSpace n \<noteq> [] \<and> n \<in> er_Name ` set (cp_Evidence p)
      \<and> recordedStatus (mem_evidence w i) n \<in> {EvidencePending, EvidenceRunning, EvidenceSatisfied}"
    using assms(6,7) by auto
  from world.satisfyAll_progress [where now = now and env = env and ctx = ctx
        and a = assigner and publisher = publisher, OF conjI [OF assms(1,2)] assms(3,4) this] assms(5,8,9)
  obtain w' p' where w': "satisfyAll env ctx (memoryService ord now assigner publisher) i names w = (Inr (), w')"
    "mem_packets w' i = Some p'" "pd_Status (cp_Decision p') = dueDecision p (mem_evidence w' i)"
    "\<forall>n. recordedStatus (mem_evidence w' i) n =
      (if n \<in> set names then EvidenceSatisfied else recordedStatus (mem_evidence w i) n)"
    unfolding memoryService_def by blast
  have "allComplete p (mem_evidence w' i)" using w'(4) assms(6) by (auto simp: allComplete_def)
  then show ?thesis using w' by (auto simp: dueDecision_def)
qed

theorem satisfied_packet_approved_witness:
  "\<exists>w' p'. satisfyAll sampleEnv None (memoryService rev 7 None None) ''cp_1'' [''tests''] sampleWorld = (Inr (), w')
     \<and> mem_packets w' ''cp_1'' = Some p' \<and> pd_Status (cp_Decision p') = DecisionApproved"
proof -
  have p: "mem_packets sampleWorld ''cp_1'' = Some testsPacket" by (simp add: sampleWorld_packets)
  have "set [''tests''] = er_Name ` set (filter er_Required (cp_Evidence testsPacket))"
    by (simp add: testsPacket_def testsRequirement_def)
  moreover have "\<forall>n \<in> set [''tests'']. TrimSpace n \<noteq> []
      \<and> recordedStatus (mem_evidence sampleWorld ''cp_1'') n \<in> {EvidencePending, EvidenceRunning, EvidenceSatisfied}"
    using sample_names by (simp add: sampleWorld_status)
  moreover have "\<forall>e. \<not> assignFails None e" "\<forall>e. \<not> publishFails (worldPublisher (None :: unit GitHubCheckPublisher option)) e"
    by (simp_all add: assignFails_def publishFails_def worldPublisher_def)
  moreover have "pd_Status (cp_Decision testsPacket) \<noteq> DecisionBlocked" "cp_Reviewers testsPacket = []"
    by (simp_all add: testsPacket_def zero_defs)
  ultimately show ?thesis
    using satisfied_packet_approved [OF map_order_rev sampleWorld_valid p sample_names(1), of "[''tests'']" None None sampleEnv None 7]
    by simp
qed

end
