(* ===== verification/Calibration.thy ===== *)
theory Calibration
  imports EvidenceMachine
begin

text \<open>
  Deployment outcomes and the calibration report of the control-plane service on the in-memory
  store: what is stored for an outcome, and that the report counts exactly the stored outcomes.
\<close>

section \<open>Counting\<close>

text \<open>The calls of \<open>addCalibration\<close> for a dimension, as pairs of a key and an outcome.\<close>

definition lanePairs :: "DeploymentOutcome list \<Rightarrow> (string \<times> DeploymentOutcome) list" where
  "lanePairs os = map (\<lambda>d. (do_Lane d, d)) os"

definition riskPairs :: "DeploymentOutcome list \<Rightarrow> (string \<times> DeploymentOutcome) list" where
  "riskPairs os = concat (map (\<lambda>d. map (\<lambda>r. (r, d)) (do_RiskTypes d)) os)"

definition countedFor :: "(string \<times> DeploymentOutcome) list \<Rightarrow> string \<Rightarrow> calibrationCounter" where
  "countedFor ps k =
     \<lparr>cn_samples = length (filter (\<lambda>p. fst p = k) ps),
      cn_adverse = length (filter (\<lambda>p. fst p = k \<and> adverse (snd p)) ps)\<rparr>"

definition keysOf :: "(string \<times> DeploymentOutcome) list \<Rightarrow> string set" where
  "keysOf ps = fst ` set ps - {[]}"

definition counted :: "(string \<times> DeploymentOutcome) list \<Rightarrow> (string \<times> calibrationCounter) list \<Rightarrow> bool" where
  "counted ps counters \<longleftrightarrow> distinct (map fst counters)
     \<and> (\<forall>k. map_of counters k = (if k \<in> keysOf ps then Some (countedFor ps k) else None))"

lemma counted_Nil: "counted [] []"
  by (simp add: counted_def keysOf_def)

lemma countedFor_snoc:
  "countedFor (ps @ [(k, d)]) j =
     (if j = k then \<lparr>cn_samples = cn_samples (countedFor ps k) + 1,
        cn_adverse = cn_adverse (countedFor ps k) + (if adverse d then 1 else 0)\<rparr> else countedFor ps j)"
  by (auto simp: countedFor_def)

lemma countedFor_absent: "k \<notin> fst ` set ps \<Longrightarrow> countedFor ps k = \<lparr>cn_samples = 0, cn_adverse = 0\<rparr>"
  by (auto simp: countedFor_def filter_empty_conv)

lemma counted_step:
  assumes "counted ps counters"
  shows "counted (ps @ [(k, d)]) (addCalibration counters k d)"
proof (cases "k = []")
  case True
  then have "keysOf (ps @ [(k, d)]) = keysOf ps" by (auto simp: keysOf_def)
  then show ?thesis
    using assms True by (auto simp: counted_def addCalibration_def countedFor_snoc keysOf_def)
next
  case False
  let ?c = "case map_of counters k of None \<Rightarrow> \<lparr>cn_samples = 0, cn_adverse = 0\<rparr> | Some c \<Rightarrow> c"
  have "?c = countedFor ps k"
    using assms False by (auto simp: counted_def keysOf_def countedFor_absent)
  then have "addCalibration counters k d = AList.update k (countedFor (ps @ [(k, d)]) k) counters"
    using False by (cases "countedFor ps k") (simp add: addCalibration_def Let_def countedFor_snoc)
  then show ?thesis
    using assms False by (auto simp: counted_def distinct_update keysOf_def countedFor_snoc)
qed

lemma counted_fold:
  "counted ps counters \<Longrightarrow> counted (ps @ qs) (foldl (\<lambda>c p. addCalibration c (fst p) (snd p)) counters qs)"
proof (induction qs arbitrary: ps counters)
  case (Cons q qs)
  then show ?case using Cons.IH [OF counted_step [OF Cons.prems, of "fst q" "snd q"]] by simp
qed simp

lemma calibration_folds:
  "foldl calibrationStep (a, b) os =
     (foldl (\<lambda>c p. addCalibration c (fst p) (snd p)) a (lanePairs os),
      foldl (\<lambda>c p. addCalibration c (fst p) (snd p)) b (riskPairs os))"
proof (induction os arbitrary: a b)
  case (Cons d os)
  have "foldl (\<lambda>c p. addCalibration c (fst p) (snd p)) b (map (\<lambda>r. (r, d)) rs)
      = foldl (\<lambda>c r. addCalibration c r d) b rs" for b rs
    by (induction rs arbitrary: b) simp_all
  then show ?case using Cons by (simp add: calibrationStep_def lanePairs_def riskPairs_def)
qed (simp add: lanePairs_def riskPairs_def)

lemma counted_metrics:
  assumes "map_order ord" and "counted ps counters"
  shows "set (calibrationMetrics ord dimension counters) = (\<lambda>k. calibrationMetric dimension (k, countedFor ps k)) ` keysOf ps
    \<and> sorted (map cm_Value (calibrationMetrics ord dimension counters))
    \<and> distinct (map cm_Value (calibrationMetrics ord dimension counters))"
proof -
  have d: "distinct (map fst counters)" using assms(2) by (simp add: counted_def)
  have v: "cm_Value (calibrationMetric dimension e) = fst e" for e by (simp add: calibrationMetric_def Let_def)
  have "set counters = (\<lambda>k. (k, countedFor ps k)) ` keysOf ps"
  proof (rule set_eqI)
    fix e :: "string \<times> calibrationCounter"
    have "e \<in> set counters \<longleftrightarrow> map_of counters (fst e) = Some (snd e)" using d by simp
    then show "e \<in> set counters \<longleftrightarrow> e \<in> (\<lambda>k. (k, countedFor ps k)) ` keysOf ps"
      using assms(2) by (cases e) (auto simp: counted_def)
  qed
  then have "set (calibrationMetrics ord dimension counters) = (\<lambda>k. calibrationMetric dimension (k, countedFor ps k)) ` keysOf ps"
    using set_range_map [OF assms(1) d] by (simp add: calibrationMetrics_def image_image)
  moreover have "mset (map cm_Value (calibrationMetrics ord dimension counters)) = mset (map fst (range_map ord counters))"
    by (simp add: calibrationMetrics_def v multiset.map_comp o_def)
  then have "distinct (map cm_Value (calibrationMetrics ord dimension counters))"
    using distinct_keys_range_map [OF assms(1) d] by (metis mset_eq_imp_distinct_iff)
  ultimately show ?thesis by (simp add: calibrationMetrics_def)
qed

section \<open>Properties\<close>

text \<open>
  Recording a deployment outcome. A request without a packet, with an unknown outcome, with an
  ill-formed source or for an unknown packet is refused and nothing is stored; otherwise the outcome
  is appended to the stored ones with the lane and the risk types that the packet has at that moment,
  whatever the request said, and with an identifier and a time; packets, evidence and audit entries
  stay as they are.
\<close>

theorem RecordDeploymentOutcome_exact:
  "(let s = memoryService ord now assigner publisher;
        refused = TrimSpace (do_ChangePacketID d) = [] \<or> \<not> validDeploymentOutcome (do_Outcome d)
          \<or> \<not> validOutcomeSource (do_Source d) \<or> mem_packets w (do_ChangePacketID d) = None
    in case RecordDeploymentOutcome env s d w of
         (Inl e, w') \<Rightarrow> refused \<and> w' = w
       | (Inr stored, w') \<Rightarrow> \<not> refused
           \<and> w' = w\<lparr>mr_outcomes := mr_outcomes w @ [stored]\<rparr>
           \<and> do_Lane stored = cp_MergeLane (the (mem_packets w (do_ChangePacketID d)))
           \<and> do_RiskTypes stored = rs_Contributors (cp_RiskSummary (the (mem_packets w (do_ChangePacketID d))))
           \<and> do_ChangePacketID stored = do_ChangePacketID d \<and> do_Outcome stored = do_Outcome d
           \<and> do_ID stored = (if do_ID d = [] then ce_NewID env else do_ID d)
           \<and> do_ObservedAt stored = (if do_ObservedAt d = 0 then ce_Now env 0 else do_ObservedAt d))"
  by (cases "mem_packets w (do_ChangePacketID d)")
    (auto simp: RecordDeploymentOutcome_def memoryService_def memoryRepository_def GetChangePacket_def
      SaveDeploymentOutcome_def mem_packets_def bindM_def wrapM_def Let_def)

text \<open>
  The calibration report is exact. It has one metric per lane and one per risk type among the
  latest 10000 outcomes, in ascending order of the value; its numbers are the counts of those outcomes
  and of the rollbacks and incidents among them, whatever the iteration order; and the store is only
  read.
\<close>

theorem RiskCalibrationReport_exact:
  assumes "map_order ord"
  shows "\<exists>report os. RiskCalibrationReport_of ord env (memoryService ord now assigner publisher) w = (Inr report, w)
    \<and> os = limited 10000 (sort_key (\<lambda>d. - do_ObservedAt d) (mr_outcomes w))
    \<and> set (cr_ByLane report) = (\<lambda>k. calibrationMetric ''lane'' (k, countedFor (lanePairs os) k)) ` keysOf (lanePairs os)
    \<and> set (cr_ByRiskType report) = (\<lambda>k. calibrationMetric ''risk_type'' (k, countedFor (riskPairs os) k)) ` keysOf (riskPairs os)
    \<and> sorted (map cm_Value (cr_ByLane report)) \<and> distinct (map cm_Value (cr_ByLane report))
    \<and> sorted (map cm_Value (cr_ByRiskType report)) \<and> distinct (map cm_Value (cr_ByRiskType report))"
proof -
  let ?os = "limited 10000 (sort_key (\<lambda>d. - do_ObservedAt d) (mr_outcomes w))"
  let ?f = "foldl (\<lambda>c p. addCalibration c (fst p) (snd p)) []"
  let ?r = "\<lparr>cr_GeneratedAt = ce_Now env 0, cr_ByRiskType = calibrationMetrics ord ''risk_type'' (?f (riskPairs ?os)),
    cr_ByLane = calibrationMetrics ord ''lane'' (?f (lanePairs ?os))\<rparr>"
  have "RiskCalibrationReport_of ord env (memoryService ord now assigner publisher) w = (Inr ?r, w)"
    by (simp add: RiskCalibrationReport_of_def memoryService_def memoryRepository_def ListDeploymentOutcomes_def
        bindM_def wrapM_def calibration_folds)
  moreover have "counted ps (?f ps)" for ps using counted_fold [OF counted_Nil, of ps] by simp
  note counted_metrics [OF assms this]
  ultimately show ?thesis by (intro exI [of _ ?r] exI [of _ ?os]) simp
qed

definition sampleOutcome :: DeploymentOutcome where
  "sampleOutcome = zeroDeploymentOutcome\<lparr>do_ID := ''outcome_1'', do_Lane := MergeLaneGreen,
     do_Outcome := DeploymentOutcomeRollback\<rparr>"

theorem RiskCalibrationReport_exact_witness:
  "\<exists>report. RiskCalibrationReport_of rev sampleEnv (memoryService rev 7 None None)
       (sampleWorld\<lparr>mr_outcomes := [sampleOutcome]\<rparr>) = (Inr report, sampleWorld\<lparr>mr_outcomes := [sampleOutcome]\<rparr>)
     \<and> map cm_Value (cr_ByLane report) = [MergeLaneGreen] \<and> map cm_Adverse (cr_ByLane report) = [1]"
proof -
  let ?w = "sampleWorld\<lparr>mr_outcomes := [sampleOutcome]\<rparr>"
  let ?m = "calibrationMetric ''lane'' (MergeLaneGreen, countedFor (lanePairs [sampleOutcome]) MergeLaneGreen)"
  have "limited 10000 (sort_key (\<lambda>d. - do_ObservedAt d) (mr_outcomes ?w)) = [sampleOutcome]"
    by (simp add: limited_def)
  then obtain report where r: "RiskCalibrationReport_of rev sampleEnv (memoryService rev 7 None None) ?w = (Inr report, ?w)"
    "set (cr_ByLane report) = (\<lambda>k. calibrationMetric ''lane'' (k, countedFor (lanePairs [sampleOutcome]) k))
       ` keysOf (lanePairs [sampleOutcome])" "distinct (map cm_Value (cr_ByLane report))"
    using RiskCalibrationReport_exact [OF map_order_rev, of sampleEnv 7 None None ?w] by auto
  have "keysOf (lanePairs [sampleOutcome]) = {MergeLaneGreen}"
    by (auto simp: keysOf_def lanePairs_def sampleOutcome_def)
  then have "set (cr_ByLane report) = {?m}" using r(2) by simp
  then have "cr_ByLane report = [?m]" using r(3)
    by (cases "cr_ByLane report"; cases "tl (cr_ByLane report)") auto
  moreover have "cm_Value ?m = MergeLaneGreen" "cm_Adverse ?m = 1"
    by (simp_all add: calibrationMetric_def countedFor_def lanePairs_def sampleOutcome_def adverse_def Let_def)
  ultimately show ?thesis using r(1) by simp
qed

definition sampleReport :: DeploymentOutcome where
  "sampleReport = sampleOutcome\<lparr>do_ChangePacketID := ''cp_1'', do_Source := ''ci''\<rparr>"

theorem RecordDeploymentOutcome_exact_witness:
  "\<exists>stored. RecordDeploymentOutcome sampleEnv (memoryService rev 7 None None) sampleReport sampleWorld =
       (Inr stored, sampleWorld\<lparr>mr_outcomes := mr_outcomes sampleWorld @ [stored]\<rparr>)
     \<and> do_Lane stored = cp_MergeLane testsPacket"
proof -
  have ok: "TrimSpace (do_ChangePacketID sampleReport) \<noteq> []" "validDeploymentOutcome (do_Outcome sampleReport)"
    "validOutcomeSource (do_Source sampleReport)" "do_ChangePacketID sampleReport = ''cp_1''"
    "mem_packets sampleWorld ''cp_1'' = Some testsPacket"
    by (code_simp | simp add: sampleWorld_packets)+
  then show ?thesis
    using RecordDeploymentOutcome_exact [of rev 7 None None sampleReport sampleWorld sampleEnv]
    by (auto simp: Let_def split: prod.splits sum.splits)
qed

end
