(* ===== verification/Jwt.thy ===== *)
theory Jwt
  imports Access
begin

text \<open>
  The JWT authenticator, \<open>internal/access/jwt_authenticator.go\<close>. The JSON decoder, the signature
  check (HMAC-SHA256 or RSA), the file system and the environment are arguments; base64 without
  padding in the URL alphabet is modelled. A time is the number of seconds that Go's
  \<open>time.Time\<close> holds: \<open>time.Unix\<close> adds the offset of the year 1 in 64-bit arithmetic, with
  wrap-around.
\<close>

section \<open>Base64\<close>

definition b64Value :: "char \<Rightarrow> nat option" where
  "b64Value c =
     (let n = (of_char c :: nat)
      in if 65 \<le> n \<and> n \<le> 90 then Some (n - 65)
         else if 97 \<le> n \<and> n \<le> 122 then Some (n - 71)
         else if 48 \<le> n \<and> n \<le> 57 then Some (n + 4)
         else if c = CHR ''-'' then Some 62
         else if c = CHR ''_'' then Some 63 else None)"

fun b64Bytes :: "nat list \<Rightarrow> string option" where
  "b64Bytes [] = Some []"
| "b64Bytes [a] = None"
| "b64Bytes [a, b] = Some [char_of (4 * a + b div 16)]"
| "b64Bytes [a, b, c] = Some [char_of (4 * a + b div 16), char_of (16 * (b mod 16) + c div 4)]"
| "b64Bytes (a # b # c # d # rest) =
     map_option (\<lambda>bs. char_of (4 * a + b div 16) # char_of (16 * (b mod 16) + c div 4)
         # char_of (64 * (c mod 4) + d) # bs) (b64Bytes rest)"

definition DecodeString :: "string \<Rightarrow> string option" where
  \<comment> \<open>\<^verbatim>\<open>base64.RawURLEncoding.DecodeString\<close>; line breaks are skipped\<close>
  "DecodeString s =
     (let vs = map b64Value (filter (\<lambda>c. c \<noteq> CHR 0x0A \<and> c \<noteq> CHR 0x0D) s)
      in if None \<in> set vs then None else b64Bytes (map the vs))"

section \<open>Data\<close>

datatype Json =
    JNull | JBool bool | JNumber string | JString string | JArray "Json list"
  | JObject "(string \<times> Json) list"

definition JWTAlgorithmHS256 :: string where "JWTAlgorithmHS256 = ''HS256''"
definition JWTAlgorithmRS256 :: string where "JWTAlgorithmRS256 = ''RS256''"

record JWTClaimBinding =
  jb_ClaimValue :: string
  jb_Roles :: "Role list"

record JWTConfig =
  jc_Algorithm :: string
  jc_Issuer :: string
  jc_Audience :: string
  jc_SubjectClaim :: string
  jc_RolesClaim :: string
  jc_SecretEnv :: string
  jc_PublicKeyPath :: string
  jc_RoleBindings :: "JWTClaimBinding list"

type_synonym jwtVerifier = "string \<Rightarrow> string \<Rightarrow> bool" \<comment> \<open>signing input and signature\<close>

record JWTAuthenticator =
  ja_algorithm :: string
  ja_issuer :: string
  ja_audience :: string
  ja_subjectClaim :: string
  ja_rolesClaim :: string
  ja_bindings :: "string \<rightharpoonup> Role list"
  ja_verifier :: jwtVerifier

datatype JWTError =
    UnsupportedAlgorithm string
  | EmptyIssuer
  | EmptyAudience
  | EmptyClaimValue nat
  | DuplicateClaimValue string
  | BindingRoles nat
  | NoBindings
  | EmptySecretEnv
  | SecretUnset string
  | EmptyKeyPath
  | KeyFailed string

record JWTEnv =
  je_LookupEnv :: "string \<rightharpoonup> string"
  je_HMAC :: "string \<Rightarrow> string \<Rightarrow> string" \<comment> \<open>key and message\<close>
  je_RSAKey :: "string \<Rightarrow> string + (string \<Rightarrow> string \<Rightarrow> bool)" \<comment> \<open>the verifier of the key file\<close>
  je_HeaderAlg :: "string \<rightharpoonup> string" \<comment> \<open>the field \<open>alg\<close> of a JSON object\<close>
  je_Claims :: "string \<rightharpoonup> (string \<times> Json) list"

section \<open>Construction\<close>

definition hmacSHA256Verifier :: "JWTEnv \<Rightarrow> string \<Rightarrow> jwtVerifier" where
  "hmacSHA256Verifier env secret signingInput signature = (signature = je_HMAC env secret signingInput)"

definition newJWTVerifier :: "JWTEnv \<Rightarrow> string \<Rightarrow> JWTConfig \<Rightarrow> JWTError + jwtVerifier" where
  "newJWTVerifier env algorithm cfg =
     (if algorithm = JWTAlgorithmHS256 then
        (let secretEnv = TrimSpace (jc_SecretEnv cfg)
         in if secretEnv = [] then Inl EmptySecretEnv
            else case je_LookupEnv env secretEnv of
              None \<Rightarrow> Inl (SecretUnset secretEnv)
            | Some secret \<Rightarrow>
                if secret = [] then Inl (SecretUnset secretEnv)
                else Inr (hmacSHA256Verifier env secret))
      else if algorithm = JWTAlgorithmRS256 then
        (let publicKeyPath = TrimSpace (jc_PublicKeyPath cfg)
         in if publicKeyPath = [] then Inl EmptyKeyPath
            else mapError KeyFailed (je_RSAKey env publicKeyPath))
      else Inl (UnsupportedAlgorithm algorithm))"

fun buildBindings ::
  "nat \<Rightarrow> (string \<rightharpoonup> Role list) \<Rightarrow> JWTClaimBinding list \<Rightarrow> JWTError + (string \<rightharpoonup> Role list)" where
  "buildBindings index bindings [] = Inr bindings"
| "buildBindings index bindings (binding # rest) =
     (let claimValue = TrimSpace (jb_ClaimValue binding)
      in if claimValue = [] then Inl (EmptyClaimValue index)
         else if bindings claimValue \<noteq> None then Inl (DuplicateClaimValue claimValue)
         else case validatedRoles (jb_Roles binding) of
           None \<Rightarrow> Inl (BindingRoles index)
         | Some roles \<Rightarrow> buildBindings (Suc index) (bindings(claimValue \<mapsto> roles)) rest)"

definition NewJWTAuthenticator :: "JWTEnv \<Rightarrow> JWTConfig \<Rightarrow> JWTError + JWTAuthenticator" where
  "NewJWTAuthenticator env cfg =
     (let algorithm = ToUpper (TrimSpace (jc_Algorithm cfg));
          issuer = TrimSpace (jc_Issuer cfg);
          audience = TrimSpace (jc_Audience cfg)
      in if algorithm \<noteq> JWTAlgorithmHS256 \<and> algorithm \<noteq> JWTAlgorithmRS256
           then Inl (UnsupportedAlgorithm (jc_Algorithm cfg))
         else if issuer = [] then Inl EmptyIssuer
         else if audience = [] then Inl EmptyAudience
         else bindE (buildBindings 0 Map.empty (jc_RoleBindings cfg)) (\<lambda>bindings.
           if length (jc_RoleBindings cfg) = 0 then Inl NoBindings
           else bindE (newJWTVerifier env algorithm cfg) (\<lambda>verifier.
             let subjectClaim = TrimSpace (jc_SubjectClaim cfg);
                 rolesClaim = TrimSpace (jc_RolesClaim cfg)
             in Inr \<lparr>ja_algorithm = algorithm, ja_issuer = issuer, ja_audience = audience,
                  ja_subjectClaim = (if subjectClaim = [] then ''sub'' else subjectClaim),
                  ja_rolesClaim = (if rolesClaim = [] then ''roles'' else rolesClaim),
                  ja_bindings = bindings, ja_verifier = verifier\<rparr>)))"

section \<open>Authentication\<close>

definition decodeJWTComponent :: "string \<Rightarrow> AccessError + string" where
  "decodeJWTComponent segment =
     (case DecodeString segment of None \<Rightarrow> Inl ErrUnauthenticated | Some v \<Rightarrow> Inr v)"

definition validateJWTHeader :: "JWTEnv \<Rightarrow> string \<Rightarrow> string \<Rightarrow> AccessError + unit" where
  "validateJWTHeader env headerSegment algorithm =
     bindE (decodeJWTComponent headerSegment) (\<lambda>headerJSON.
       case je_HeaderAlg env headerJSON of
         None \<Rightarrow> Inl ErrUnauthenticated
       | Some alg \<Rightarrow> guardE (EqualFold (TrimSpace alg) algorithm) ErrUnauthenticated)"

definition decodeJWTClaimsSegment :: "JWTEnv \<Rightarrow> string \<Rightarrow> AccessError + (string \<times> Json) list" where
  "decodeJWTClaimsSegment env claimsSegment =
     bindE (decodeJWTComponent claimsSegment) (\<lambda>claimsJSON.
       case je_Claims env claimsJSON of None \<Rightarrow> Inl ErrUnauthenticated | Some claims \<Rightarrow> Inr claims)"

definition verifiedClaims ::
  "JWTEnv \<Rightarrow> JWTAuthenticator \<Rightarrow> string \<Rightarrow> string \<Rightarrow> string \<Rightarrow> AccessError + (string \<times> Json) list" where
  "verifiedClaims env a headerSegment claimsSegment signatureSegment =
     (let signingInput = headerSegment @ ''.'' @ claimsSegment
      in bindE (decodeJWTComponent signatureSegment) (\<lambda>signature.
         bindE (validateJWTHeader env headerSegment (ja_algorithm a)) (\<lambda>_.
         bindE (guardE (ja_verifier a signingInput signature) ErrUnauthenticated) (\<lambda>_.
         decodeJWTClaimsSegment env claimsSegment))))"

definition splitJWT :: "string \<Rightarrow> AccessError + (string \<times> string \<times> string)" where
  "splitJWT token =
     (let parts = Split token (CHR ''.'')
      in if length parts \<noteq> 3 then Inl ErrUnauthenticated
         else if list_ex (\<lambda>part. TrimSpace part = []) parts then Inl ErrUnauthenticated
         else Inr (parts ! 0, parts ! 1, parts ! 2))"

definition stringClaim :: "Json option \<Rightarrow> string option" where
  "stringClaim val = (case val of Some (JString text) \<Rightarrow> Some text | _ \<Rightarrow> None)"

definition audienceMatches :: "Json option \<Rightarrow> string \<Rightarrow> bool" where
  "audienceMatches val audience =
     (case val of
        Some (JString text) \<Rightarrow> text = audience
      | Some (JArray items) \<Rightarrow> list_ex (\<lambda>item. stringClaim (Some item) = Some audience) items
      | _ \<Rightarrow> False)"

definition timeUnix :: "int \<Rightarrow> int" where
  \<comment> \<open>the seconds field of \<^verbatim>\<open>time.Unix(seconds, 0)\<close>\<close>
  "timeUnix seconds = sint (word_of_int (seconds + 62135596800) :: 64 word)"

definition numericDate :: "Json option \<Rightarrow> int option" where
  \<comment> \<open>the decoder keeps numbers as text, so the case of a float does not arise\<close>
  "numericDate val =
     (case val of Some (JNumber n) \<Rightarrow> map_option timeUnix (ParseInt64 n) | _ \<Rightarrow> None)"

definition validateClaims :: "JWTAuthenticator \<Rightarrow> int \<Rightarrow> (string \<times> Json) list \<Rightarrow> AccessError + unit" where
  \<comment> \<open>\<open>now\<close> is the seconds field of the current time; a date has no nanoseconds, so the current
    time is before it exactly when its seconds are fewer\<close>
  "validateClaims a now claims =
     (if stringClaim (map_of claims ''iss'') \<noteq> Some (ja_issuer a) then Inl ErrUnauthenticated
      else if \<not> audienceMatches (map_of claims ''aud'') (ja_audience a) then Inl ErrUnauthenticated
      else case numericDate (map_of claims ''exp'') of
        None \<Rightarrow> Inl ErrUnauthenticated
      | Some expiresAt \<Rightarrow>
          if \<not> now < expiresAt then Inl ErrUnauthenticated
          else (case numericDate (map_of claims ''nbf'') of
                  None \<Rightarrow> Inr ()
                | Some notBefore \<Rightarrow> if now < notBefore then Inl ErrUnauthenticated else Inr ()))"

definition subjectFromClaims :: "JWTAuthenticator \<Rightarrow> (string \<times> Json) list \<Rightarrow> AccessError + string" where
  "subjectFromClaims a claims =
     (case stringClaim (map_of claims (ja_subjectClaim a)) of
        None \<Rightarrow> Inl ErrUnauthenticated
      | Some subject \<Rightarrow>
          if TrimSpace subject = [] then Inl ErrUnauthenticated else Inr (TrimSpace subject))"

definition splitClaimString :: "string \<Rightarrow> string list" where
  "splitClaimString val =
     (if Contains val '','' then filter (\<lambda>t. t \<noteq> []) (map TrimSpace (Split val (CHR '','')))
      else Fields val)"

fun stringItems :: "Json list \<Rightarrow> string list option" where
  "stringItems [] = Some []"
| "stringItems (item # items) =
     (case item of JString text \<Rightarrow> map_option ((#) (TrimSpace text)) (stringItems items) | _ \<Rightarrow> None)"

definition claimValues :: "Json option \<Rightarrow> AccessError + string list" where
  "claimValues val =
     (case val of
        None \<Rightarrow> Inr []
      | Some JNull \<Rightarrow> Inr []
      | Some (JString text) \<Rightarrow> Inr (splitClaimString text)
      | Some (JArray items) \<Rightarrow>
          (case stringItems items of None \<Rightarrow> Inl ErrUnauthenticated | Some vs \<Rightarrow> Inr vs)
      | Some _ \<Rightarrow> Inl ErrUnauthenticated)"

fun appendBoundRoles :: "Role list \<Rightarrow> Role list \<Rightarrow> Role list" where
  \<comment> \<open>the set \<open>seen\<close> is the set of the roles that are already in the list\<close>
  "appendBoundRoles current [] = current"
| "appendBoundRoles current (role # bound) =
     appendBoundRoles (if role \<in> set current then current else current @ [role]) bound"

definition rolesFromClaims :: "JWTAuthenticator \<Rightarrow> (string \<times> Json) list \<Rightarrow> AccessError + Role list" where
  "rolesFromClaims a claims =
     bindE (claimValues (map_of claims (ja_rolesClaim a))) (\<lambda>values.
       Inr (foldl (\<lambda>roles val. appendBoundRoles roles
              (case ja_bindings a val of None \<Rightarrow> [] | Some bound \<Rightarrow> bound)) [] values))"

definition JWT_Authenticate ::
  "JWTEnv \<Rightarrow> JWTAuthenticator \<Rightarrow> int \<Rightarrow> string \<Rightarrow> AccessError + Principal" where
  "JWT_Authenticate env a now authorization =
     bindE (bearerToken authorization) (\<lambda>token.
     bindE (splitJWT token) (\<lambda>(headerSegment, claimsSegment, signatureSegment).
     bindE (verifiedClaims env a headerSegment claimsSegment signatureSegment) (\<lambda>claims.
     bindE (validateClaims a now claims) (\<lambda>_.
     bindE (subjectFromClaims a claims) (\<lambda>subject.
     bindE (rolesFromClaims a claims) (\<lambda>roles.
       Inr \<lparr>pn_Subject = subject, pn_Roles = roles\<rparr>))))))"

section \<open>The contract of an authenticator\<close>

text \<open>
  What the transports rely on: a principal that is returned has a subject and only supported
  roles, each once. An authenticator that is not disabled also rejects every header without a
  bearer token.
\<close>

locale authenticator =
  fixes authenticate :: "string \<Rightarrow> AccessError + Principal"
  assumes good: "authenticate h = Inr p \<Longrightarrow> goodPrincipal p"
begin

lemma authorized_iff:
  assumes "authenticate h = Inr p" and "IsSupportedRole role"
  shows "Authorize p role = Inr () \<longleftrightarrow> RoleAdmin \<in> set (pn_Roles p) \<or> role \<in> set (pn_Roles p)"
  using good [OF assms(1)] assms(2) by (simp add: Authorize_Inr goodPrincipal_def)

lemma never_unauthenticated_after:
  "authenticate h = Inr p \<Longrightarrow> Authorize p role \<noteq> Inl ErrUnauthenticated"
  using good [of h p] by (simp add: Authorize_def goodPrincipal_def)

end

locale bearer_authenticator = authenticator +
  assumes bearer_only: "bearerToken h = Inl e \<Longrightarrow> \<exists>e'. authenticate h = Inl e'"
begin

lemma anonymous_rejected: "\<exists>e. authenticate [] = Inl e"
  by (rule bearer_only [of "[]" ErrUnauthenticated]) (simp add: bearerToken_def Cut_def)

end

interpretation disabled: authenticator DisabledAuthenticator_Authenticate
proof
  fix h p
  have "TrimSpace ''local'' \<noteq> []" by code_simp
  then show "goodPrincipal p" if "DisabledAuthenticator_Authenticate h = Inr p"
    using that
    by (auto simp: DisabledAuthenticator_Authenticate_def goodPrincipal_def IsSupportedRole_def)
qed

text \<open>The static authenticator built from a configuration; when it cannot be built, nothing is
  served.\<close>

definition staticLogin ::
  "(string \<Rightarrow> string) \<Rightarrow> (string \<rightharpoonup> string) \<Rightarrow> StaticToken list \<Rightarrow> string \<Rightarrow> AccessError + Principal" where
  "staticLogin sha256 env tokens h =
     (case NewStaticTokenAuthenticator sha256 env tokens of
        Inl _ \<Rightarrow> Inl ErrUnauthenticated
      | Inr credentials \<Rightarrow> StaticToken_Authenticate sha256 credentials h)"

lemma static_credentials:
  assumes "NewStaticTokenAuthenticator sha256 env tokens = Inr cs"
  shows "list_all2 (credentialFor sha256 env) tokens cs \<and> distinct (map sc_digest cs)
    \<and> distinct (map (\<lambda>e. ToLower (TrimSpace (st_Subject e))) tokens)"
  using assms buildCredentials_Inr [of sha256 env 0 "[]" "[]" "[]" tokens cs]
  by (auto simp: NewStaticTokenAuthenticator_def split: if_splits)

interpretation static: bearer_authenticator "staticLogin sha256 env tokens" for sha256 env tokens
proof
  fix h p e
  show "goodPrincipal p" if ok: "staticLogin sha256 env tokens h = Inr p"
  proof -
    obtain cs where cs: "NewStaticTokenAuthenticator sha256 env tokens = Inr cs"
      "StaticToken_Authenticate sha256 cs h = Inr p"
      using ok by (auto simp: staticLogin_def split: sum.splits)
    note s = static_credentials [OF cs(1)]
    obtain c where "c \<in> set cs" "p = sc_principal c"
      using cs(2) s by (auto simp: Static_Authenticate_Inr)
    then show ?thesis using s by (auto simp: list_all2_conv_all_nth in_set_conv_nth credentialFor_def)
  qed
  show "\<exists>e'. staticLogin sha256 env tokens h = Inl e'" if "bearerToken h = Inl e"
    using that by (auto simp: staticLogin_def StaticToken_Authenticate_def split: sum.splits)
qed

definition jwtLogin :: "JWTEnv \<Rightarrow> JWTConfig \<Rightarrow> int \<Rightarrow> string \<Rightarrow> AccessError + Principal" where
  "jwtLogin env cfg now h =
     (case NewJWTAuthenticator env cfg of
        Inl _ \<Rightarrow> Inl ErrUnauthenticated
      | Inr a \<Rightarrow> JWT_Authenticate env a now h)"

lemma appendBoundRoles_facts:
  "distinct current \<Longrightarrow> distinct (appendBoundRoles current bound)
   \<and> set (appendBoundRoles current bound) = set current \<union> set bound"
  by (induction current bound rule: appendBoundRoles.induct) auto

lemma boundRoles_facts:
  "distinct acc \<Longrightarrow>
   distinct (foldl (\<lambda>roles val. appendBoundRoles roles (f val)) acc vs)
   \<and> set (foldl (\<lambda>roles val. appendBoundRoles roles (f val)) acc vs) = set acc \<union> (\<Union>v \<in> set vs. set (f v))"
  by (induction vs arbitrary: acc) (auto simp: appendBoundRoles_facts)

lemma rolesFromClaims_Inr:
  assumes "rolesFromClaims a claims = Inr rs"
  shows "\<exists>vs. claimValues (map_of claims (ja_rolesClaim a)) = Inr vs \<and> distinct rs
    \<and> set rs = (\<Union>v \<in> set vs. set (case ja_bindings a v of None \<Rightarrow> [] | Some bound \<Rightarrow> bound))"
proof -
  let ?f = "\<lambda>v. case ja_bindings a v of None \<Rightarrow> [] | Some bound \<Rightarrow> bound"
  obtain vs where "claimValues (map_of claims (ja_rolesClaim a)) = Inr vs"
    "foldl (\<lambda>roles val. appendBoundRoles roles (?f val)) [] vs = rs"
    using assms unfolding rolesFromClaims_def bindE_Inr by blast
  then show ?thesis using boundRoles_facts [of "[]" ?f vs] by auto
qed

lemma buildBindings_Inr:
  "buildBindings i b bs = Inr b' \<Longrightarrow> (\<forall>v rs. b v = Some rs \<longrightarrow> (\<forall>r \<in> set rs. IsSupportedRole r)) \<Longrightarrow>
   (\<forall>v rs. b' v = Some rs \<longrightarrow> (\<forall>r \<in> set rs. IsSupportedRole r))"
proof (induction i b bs rule: buildBindings.induct)
  case (2 i b x bs)
  then obtain roles where r: "validatedRoles (jb_Roles x) = Some roles"
    "TrimSpace (jb_ClaimValue x) \<noteq> []" "b (TrimSpace (jb_ClaimValue x)) = None"
    "buildBindings (Suc i) (b(TrimSpace (jb_ClaimValue x) \<mapsto> roles)) bs = Inr b'"
    by (auto simp: Let_def split: if_splits option.splits)
  have "\<forall>r \<in> set roles. IsSupportedRole r" using r(1) by (simp add: validatedRoles_Some)
  then have pre: "\<forall>v rs. (b(TrimSpace (jb_ClaimValue x) \<mapsto> roles)) v = Some rs \<longrightarrow> (\<forall>r \<in> set rs. IsSupportedRole r)"
    using "2.prems"(2) by simp
  show ?case by (rule "2.IH" [OF refl r(2) _ r(1) r(4) pre]) (simp add: r(3))
qed simp

lemma NewJWTAuthenticator_Inr:
  assumes "NewJWTAuthenticator env cfg = Inr a"
  shows "ja_issuer a \<noteq> [] \<and> ja_audience a \<noteq> []
    \<and> (\<forall>v rs. ja_bindings a v = Some rs \<longrightarrow> (\<forall>r \<in> set rs. IsSupportedRole r))
    \<and> newJWTVerifier env (ja_algorithm a) cfg = Inr (ja_verifier a)"
proof -
  obtain b where "buildBindings 0 Map.empty (jc_RoleBindings cfg) = Inr b" "ja_bindings a = b"
    using assms by (auto simp: NewJWTAuthenticator_def Let_def bindE_Inr split: if_splits)
  then have "\<forall>v rs. ja_bindings a v = Some rs \<longrightarrow> (\<forall>r \<in> set rs. IsSupportedRole r)"
    using buildBindings_Inr by force
  then show ?thesis
    using assms by (auto simp: NewJWTAuthenticator_def Let_def bindE_Inr split: if_splits)
qed

lemma JWT_Authenticate_Inr:
  assumes "JWT_Authenticate env a now h = Inr p"
  obtains token hs cs ss claims sig where "bearerToken h = Inr token" "splitJWT token = Inr (hs, cs, ss)"
    "DecodeString ss = Some sig" "ja_verifier a (hs @ ''.'' @ cs) sig"
    "decodeJWTClaimsSegment env cs = Inr claims" "validateClaims a now claims = Inr ()"
    "subjectFromClaims a claims = Inr (pn_Subject p)" "rolesFromClaims a claims = Inr (pn_Roles p)"
    "validateJWTHeader env hs (ja_algorithm a) = Inr ()"
  using assms
  by (auto simp: JWT_Authenticate_def verifiedClaims_def decodeJWTComponent_def bindE_Inr Let_def
      split: option.splits prod.splits)

interpretation jwt: bearer_authenticator "jwtLogin env cfg now" for env cfg now
proof
  fix h p e
  show "goodPrincipal p" if ok: "jwtLogin env cfg now h = Inr p"
  proof -
    obtain a where a: "NewJWTAuthenticator env cfg = Inr a" "JWT_Authenticate env a now h = Inr p"
      using ok by (auto simp: jwtLogin_def split: sum.splits)
    from a(2) obtain claims where c: "subjectFromClaims a claims = Inr (pn_Subject p)"
      "rolesFromClaims a claims = Inr (pn_Roles p)"
      by (rule JWT_Authenticate_Inr)
    have "TrimSpace (pn_Subject p) \<noteq> []"
      using c(1) by (auto simp: subjectFromClaims_def split: option.splits if_splits)
        (metis TrimSpace_idem)
    moreover obtain vs where d: "distinct (pn_Roles p)"
      "set (pn_Roles p) = (\<Union>v \<in> set vs. set (case ja_bindings a v of None \<Rightarrow> [] | Some bound \<Rightarrow> bound))"
      using rolesFromClaims_Inr [OF c(2)] by blast
    have "IsSupportedRole r" if "r \<in> set (pn_Roles p)" for r
      using that NewJWTAuthenticator_Inr [OF a(1)] unfolding d(2)
      by (fastforce split: option.splits dest: sym)
    ultimately show ?thesis using d(1) by (simp add: goodPrincipal_def)
  qed
  show "\<exists>e'. jwtLogin env cfg now h = Inl e'" if "bearerToken h = Inl e"
    using that by (auto simp: jwtLogin_def JWT_Authenticate_def split: sum.splits)
qed


lemma list_all2_members:
  "list_all2 P xs ys \<Longrightarrow> (\<forall>y \<in> set ys. \<exists>x \<in> set xs. P x y) \<and> (\<forall>x \<in> set xs. \<exists>y \<in> set ys. P x y)"
  by (induction rule: list_all2_induct) auto

section \<open>Properties\<close>

text \<open>
  The static authenticator accepts exactly the configured tokens. Once it is built, a header is
  accepted as a principal exactly when it carries a bearer token whose digest is that of the token
  in the environment variable of some entry, and the principal is that entry's subject and roles;
  every entry has such a non-empty token without white space, no two entries share a subject (up
  to case) and no two tokens share a digest.
\<close>

theorem static_token_exact:
  assumes "NewStaticTokenAuthenticator sha256 env tokens = Inr cs"
  shows "(StaticToken_Authenticate sha256 cs h = Inr p \<longleftrightarrow>
      (\<exists>t entry token. bearerToken h = Inr t \<and> entry \<in> set tokens
         \<and> env (TrimSpace (st_TokenEnv entry)) = Some token \<and> sha256 token = sha256 t
         \<and> p = \<lparr>pn_Subject = TrimSpace (st_Subject entry), pn_Roles = st_Roles entry\<rparr>))
    \<and> (\<forall>entry \<in> set tokens. \<exists>token. env (TrimSpace (st_TokenEnv entry)) = Some token
         \<and> token \<noteq> [] \<and> \<not> HasSpace token)
    \<and> distinct (map (\<lambda>entry. ToLower (TrimSpace (st_Subject entry))) tokens)
    \<and> distinct (map (\<lambda>entry. sha256 (the (env (TrimSpace (st_TokenEnv entry))))) tokens)"
proof -
  note s = static_credentials [OF assms]
  have pairs: "\<And>c. c \<in> set cs \<Longrightarrow> \<exists>entry \<in> set tokens. credentialFor sha256 env entry c"
    "\<And>entry. entry \<in> set tokens \<Longrightarrow> \<exists>c \<in> set cs. credentialFor sha256 env entry c"
    using s list_all2_members [of "credentialFor sha256 env" tokens cs] by auto
  have "map sc_digest cs = map (\<lambda>entry. sha256 (the (env (TrimSpace (st_TokenEnv entry))))) tokens"
    using s by (fastforce simp: list_all2_conv_all_nth credentialFor_def intro!: nth_equalityI)
  then have "distinct (map (\<lambda>entry. sha256 (the (env (TrimSpace (st_TokenEnv entry))))) tokens)"
    using s by metis
  moreover have "StaticToken_Authenticate sha256 cs h = Inr p \<longleftrightarrow>
      (\<exists>t entry token. bearerToken h = Inr t \<and> entry \<in> set tokens
         \<and> env (TrimSpace (st_TokenEnv entry)) = Some token \<and> sha256 token = sha256 t
         \<and> p = \<lparr>pn_Subject = TrimSpace (st_Subject entry), pn_Roles = st_Roles entry\<rparr>)"
    (is "?L \<longleftrightarrow> ?R")
  proof
    assume ?L
    then obtain t c where "bearerToken h = Inr t" "c \<in> set cs" "sc_digest c = sha256 t" "p = sc_principal c"
      using s by (auto simp: Static_Authenticate_Inr)
    then show ?R using pairs(1) [of c] by (fastforce simp: credentialFor_def)
  next
    assume ?R
    then obtain t entry token where r: "bearerToken h = Inr t" "entry \<in> set tokens"
      "env (TrimSpace (st_TokenEnv entry)) = Some token" "sha256 token = sha256 t"
      "p = \<lparr>pn_Subject = TrimSpace (st_Subject entry), pn_Roles = st_Roles entry\<rparr>" by blast
    then obtain c where "c \<in> set cs" "credentialFor sha256 env entry c" using pairs(2) by blast
    then show ?L using r s by (auto simp: Static_Authenticate_Inr credentialFor_def)
  qed
  ultimately show ?thesis using s pairs(2) by (fastforce simp: credentialFor_def)
qed

definition sampleTokens :: "StaticToken list" where
  "sampleTokens = [\<lparr>st_Subject = ''ci'', st_TokenEnv = ''CI_TOKEN'', st_Roles = [RoleEvidenceWriter]\<rparr>]"

theorem static_token_exact_witness:
  "\<exists>cs. NewStaticTokenAuthenticator (\<lambda>t. t) [''CI_TOKEN'' \<mapsto> ''secret''] sampleTokens = Inr cs
     \<and> StaticToken_Authenticate (\<lambda>t. t) cs ''Bearer secret''
         = Inr \<lparr>pn_Subject = ''ci'', pn_Roles = [RoleEvidenceWriter]\<rparr>"
proof -
  let ?env = "[''CI_TOKEN'' \<mapsto> ''secret'']"
  obtain cs where cs: "NewStaticTokenAuthenticator (\<lambda>t. t) ?env sampleTokens = Inr cs"
  proof -
    have "isl (NewStaticTokenAuthenticator (\<lambda>t. t) ?env sampleTokens) = False" by code_simp
    then show thesis using that by (cases "NewStaticTokenAuthenticator (\<lambda>t. t) ?env sampleTokens") auto
  qed
  have "bearerToken ''Bearer secret'' = Inr ''secret''" "TrimSpace ''CI_TOKEN'' = ''CI_TOKEN''"
    "TrimSpace ''ci'' = ''ci''"
    by code_simp+
  then have "StaticToken_Authenticate (\<lambda>t. t) cs ''Bearer secret''
         = Inr \<lparr>pn_Subject = ''ci'', pn_Roles = [RoleEvidenceWriter]\<rparr>"
    using static_token_exact [OF cs, of "''Bearer secret''" "\<lparr>pn_Subject = ''ci'', pn_Roles = [RoleEvidenceWriter]\<rparr>"]
    by (simp add: sampleTokens_def)
  then show ?thesis using cs by blast
qed

text \<open>
  C39: a JWT is accepted only when everything it claims was checked. The three segments come from
  the bearer token, the header names the configured algorithm, the decoded signature passes the
  configured verifier on exactly the received header and claims segments, issuer and audience are
  the configured ones, the expiry lies in the future, a not-before date does not, and the principal
  has a non-blank subject and exactly the roles that the bindings give to the values of the role
  claim.
\<close>

theorem JWT_Authenticate_sound:
  assumes "NewJWTAuthenticator env cfg = Inr a" and "JWT_Authenticate env a now h = Inr p"
  shows "\<exists>token header claims64 signature64 signature claims expiry vs.
      bearerToken h = Inr token \<and> splitJWT token = Inr (header, claims64, signature64)
    \<and> validateJWTHeader env header (ja_algorithm a) = Inr ()
    \<and> DecodeString signature64 = Some signature \<and> ja_verifier a (header @ ''.'' @ claims64) signature
    \<and> newJWTVerifier env (ja_algorithm a) cfg = Inr (ja_verifier a)
    \<and> decodeJWTClaimsSegment env claims64 = Inr claims
    \<and> stringClaim (map_of claims ''iss'') = Some (TrimSpace (jc_Issuer cfg))
    \<and> audienceMatches (map_of claims ''aud'') (TrimSpace (jc_Audience cfg))
    \<and> numericDate (map_of claims ''exp'') = Some expiry \<and> now < expiry
    \<and> (\<forall>d. numericDate (map_of claims ''nbf'') = Some d \<longrightarrow> d \<le> now)
    \<and> claimValues (map_of claims (ja_rolesClaim a)) = Inr vs
    \<and> goodPrincipal p
    \<and> set (pn_Roles p) = (\<Union>v \<in> set vs. set (case ja_bindings a v of None \<Rightarrow> [] | Some bound \<Rightarrow> bound))"
proof -
  obtain token hs cs ss claims sig where j: "bearerToken h = Inr token" "splitJWT token = Inr (hs, cs, ss)"
    "DecodeString ss = Some sig" "ja_verifier a (hs @ ''.'' @ cs) sig"
    "decodeJWTClaimsSegment env cs = Inr claims" "validateClaims a now claims = Inr ()"
    "subjectFromClaims a claims = Inr (pn_Subject p)" "rolesFromClaims a claims = Inr (pn_Roles p)"
    "validateJWTHeader env hs (ja_algorithm a) = Inr ()"
    using assms(2) by (rule JWT_Authenticate_Inr)
  have v: "stringClaim (map_of claims ''iss'') = Some (ja_issuer a)" "audienceMatches (map_of claims ''aud'') (ja_audience a)"
    "\<exists>e. numericDate (map_of claims ''exp'') = Some e \<and> now < e"
    "\<forall>d. numericDate (map_of claims ''nbf'') = Some d \<longrightarrow> d \<le> now"
    using j(6) by (auto simp: validateClaims_def split: if_splits option.splits)
  have i: "ja_issuer a = TrimSpace (jc_Issuer cfg)" "ja_audience a = TrimSpace (jc_Audience cfg)"
    using assms(1) by (auto simp: NewJWTAuthenticator_def Let_def bindE_Inr split: if_splits)
  obtain vs where vs: "claimValues (map_of claims (ja_rolesClaim a)) = Inr vs"
    "set (pn_Roles p) = (\<Union>v \<in> set vs. set (case ja_bindings a v of None \<Rightarrow> [] | Some bound \<Rightarrow> bound))"
    using rolesFromClaims_Inr [OF j(8)] by blast
  have "goodPrincipal p" using jwt.good [of env cfg now h p] assms by (simp add: jwtLogin_def)
  then show ?thesis
    using j v i vs NewJWTAuthenticator_Inr [OF assms(1)] by metis
qed

definition sampleJWTEnv :: JWTEnv where
  "sampleJWTEnv =
     \<lparr>je_LookupEnv = (\<lambda>k. if k = ''KEY'' then Some ''k'' else None),
      je_HMAC = (\<lambda>key message. ''abc''), je_RSAKey = (\<lambda>_. Inl ''no such file''),
      je_HeaderAlg = (\<lambda>_. Some ''HS256''),
      je_Claims = (\<lambda>_. Some [(''iss'', JString ''idp''), (''aud'', JArray [JString ''merger'']),
        (''exp'', JNumber ''100''), (''sub'', JString ''eve''), (''roles'', JString ''ops'')])\<rparr>"

definition sampleJWTConfig :: JWTConfig where
  "sampleJWTConfig =
     \<lparr>jc_Algorithm = ''hs256'', jc_Issuer = ''idp'', jc_Audience = ''merger'', jc_SubjectClaim = [],
      jc_RolesClaim = [], jc_SecretEnv = ''KEY'', jc_PublicKeyPath = [],
      jc_RoleBindings = [\<lparr>jb_ClaimValue = ''ops'', jb_Roles = [RoleReader]\<rparr>]\<rparr>"

lemma sampleJWT_strings:
  "ToUpper (TrimSpace ''hs256'') = JWTAlgorithmHS256" "TrimSpace ''idp'' = ''idp''"
  "TrimSpace ''merger'' = ''merger''" "TrimSpace ''KEY'' = ''KEY''" "TrimSpace ''ops'' = ''ops''"
  "TrimSpace ''eve'' = ''eve''" "EqualFold (TrimSpace ''HS256'') JWTAlgorithmHS256" "TrimSpace [] = []"
  "splitClaimString ''ops'' = [''ops'']" "validatedRoles [RoleReader] = Some [RoleReader]"
  "bearerToken ''Bearer aa.bb.YWJj'' = Inr ''aa.bb.YWJj''"
  "splitJWT ''aa.bb.YWJj'' = Inr (''aa'', ''bb'', ''YWJj'')" "DecodeString ''aa'' = Some ''i''"
  "DecodeString ''bb'' = Some ''m''" "DecodeString ''YWJj'' = Some ''abc''"
  by code_simp+

lemma sampleJWT_date: "ParseInt64 ''100'' = Some 100"
  by (simp add: ParseInt64_def isDigit_def)

lemma timeUnix_small: "\<bar>n\<bar> < 2 ^ 62 \<Longrightarrow> timeUnix n = n + 62135596800"
  unfolding timeUnix_def signed_of_int by (simp add: signed_take_bit_int_eq_self_iff) arith

theorem JWT_Authenticate_sound_witness:
  "\<exists>a token header claims64 signature64. NewJWTAuthenticator sampleJWTEnv sampleJWTConfig = Inr a
     \<and> JWT_Authenticate sampleJWTEnv a 62135596899 ''Bearer aa.bb.YWJj''
         = Inr \<lparr>pn_Subject = ''eve'', pn_Roles = [RoleReader]\<rparr>
     \<and> splitJWT token = Inr (header, claims64, signature64) \<and> DecodeString signature64 = Some ''abc''"
proof -
  let ?a = "\<lparr>ja_algorithm = JWTAlgorithmHS256, ja_issuer = ''idp'', ja_audience = ''merger'',
    ja_subjectClaim = ''sub'', ja_rolesClaim = ''roles'', ja_bindings = [''ops'' \<mapsto> [RoleReader]],
    ja_verifier = hmacSHA256Verifier sampleJWTEnv ''k''\<rparr>"
  have a: "NewJWTAuthenticator sampleJWTEnv sampleJWTConfig = Inr ?a"
    by (simp add: NewJWTAuthenticator_def sampleJWTConfig_def sampleJWT_strings newJWTVerifier_def)
      (simp add: sampleJWTEnv_def)
  have j: "JWT_Authenticate sampleJWTEnv ?a 62135596899 ''Bearer aa.bb.YWJj''
      = Inr \<lparr>pn_Subject = ''eve'', pn_Roles = [RoleReader]\<rparr>"
    by (simp add: JWT_Authenticate_def sampleJWT_strings verifiedClaims_def decodeJWTComponent_def
        validateJWTHeader_def decodeJWTClaimsSegment_def hmacSHA256Verifier_def Let_def)
      (simp add: sampleJWTEnv_def sampleJWT_strings validateClaims_def stringClaim_def audienceMatches_def
        numericDate_def sampleJWT_date timeUnix_small subjectFromClaims_def rolesFromClaims_def claimValues_def)
  obtain token header claims64 signature64 signature where
    t: "splitJWT token = Inr (header, claims64, signature64)" "DecodeString signature64 = Some signature"
      "ja_verifier ?a (header @ ''.'' @ claims64) signature"
    using JWT_Authenticate_sound [OF a j] by (elim exE conjE) (rule that)
  from t(3) have "signature = ''abc''" by (simp add: hmacSHA256Verifier_def sampleJWTEnv_def)
  then show ?thesis using a j t(1,2) by blast
qed

end
