(* ===== verification/Http.thy ===== *)
theory Http
  imports Calibration Jwt
begin

text \<open>
  The HTTP transport of the control plane, \<open>internal/controlplane/http.go\<close> and \<open>access.go\<close>:
  request routing, limits, error codes and messages, and the access middleware in front of all of
  it. A request carries what the handlers read of it; JSON decoding, including the limit on the size
  of a body, is an argument, as is \<open>strconv.Quote\<close>. The \<open>ServeMux\<close> of the standard library
  answers a path that is not in clean form with a redirect, so that such a path does not reach a handler.
\<close>

section \<open>Requests and responses\<close>

record Request =
  rq_Method :: string
  rq_Path :: string
  rq_Query :: "string \<rightharpoonup> string list"
  rq_Authorization :: string
  rq_Body :: string

datatype Payload =
    ViewPayload ChangePacketView
  | PacketItems "ChangePacket list"
  | AuditItems "EvidenceAuditEntry list"
  | ExecutionPayload EvidenceExecution
  | OutcomePayload DeploymentOutcome
  | ReportPayload RiskCalibrationReport
  | PlainText string

record Response =
  hr_Status :: int
  hr_Headers :: "(string \<times> string) list"
  hr_Body :: Payload

type_synonym 'w Handle = "'w \<Rightarrow> Response \<times> 'w"

record EvidenceRequest =
  eq_Status :: EvidenceStatus
  eq_Summary :: string
  eq_DetailsURL :: string
  eq_UpdatedBy :: string
  eq_Type :: EvidenceType
  eq_Required :: bool

record HttpEnv =
  he_Call :: CallEnv
  he_Order :: key_order
  he_Quote :: "string \<Rightarrow> string"
  he_DecodeEvidence :: "nat \<Rightarrow> string \<rightharpoonup> EvidenceRequest \<times> bool"
    \<comment> \<open>from the size limit and the body: the first value, and whether only the end follows\<close>
  he_DecodeOutcome :: "nat \<Rightarrow> string \<rightharpoonup> DeploymentOutcomeKind \<times> string"

definition MaxListLimit :: int where "MaxListLimit = 200"

definition maxEvidenceRequestBodySize :: nat where "maxEvidenceRequestBodySize = 65536"

definition http_Error :: "string \<Rightarrow> int \<Rightarrow> Response" where
  "http_Error message status =
     \<lparr>hr_Status = status, hr_Headers = [(''Content-Type'', ''text/plain; charset=utf-8''),
        (''X-Content-Type-Options'', ''nosniff'')], hr_Body = PlainText (message @ [CHR 0x0A])\<rparr>"

definition methodNotAllowed :: "string \<Rightarrow> Response" where
  "methodNotAllowed allowed =
     (let r = http_Error ''method not allowed'' 405
      in r\<lparr>hr_Headers := (''Allow'', allowed) # hr_Headers r\<rparr>)"

definition writeJSON :: "int \<Rightarrow> Payload \<Rightarrow> Response" where
  "writeJSON status payload =
     \<lparr>hr_Status = status, hr_Headers = [(''Content-Type'', ''application/json'')], hr_Body = payload\<rparr>"

section \<open>Errors\<close>

definition storeError :: "ServiceError \<Rightarrow> StoreError option" where
  \<comment> \<open>the store error that \<^verbatim>\<open>errors.Is\<close> finds in the chain of wrapped errors\<close>
  "storeError err =
     (case err of RepositoryError e \<Rightarrow> Some e | ReloadError e \<Rightarrow> Some e | PersistError e \<Rightarrow> Some e | _ \<Rightarrow> None)"

definition statusForError :: "ServiceError \<Rightarrow> int" where
  "statusForError err =
     (if storeError err = Some ErrChangePacketNotFound then 404
      else case err of
        EvidenceValidationError _ _ \<Rightarrow> 400
      | EvidenceNotFoundError _ _ \<Rightarrow> 404
      | EvidenceTransitionError _ _ _ \<Rightarrow> 409
      | _ \<Rightarrow> 500)"

definition publicErrorMessage :: "(string \<Rightarrow> string) \<Rightarrow> ServiceError \<Rightarrow> string" where
  "publicErrorMessage quote err =
     (if storeError err = Some ErrChangePacketNotFound then ''change packet not found''
      else case err of
        EvidenceValidationError field message \<Rightarrow> ''invalid evidence '' @ field @ '': '' @ message
      | EvidenceNotFoundError packet name \<Rightarrow>
          ''evidence '' @ quote name @ '' is not required by change packet '' @ quote packet
      | EvidenceTransitionError name source target \<Rightarrow>
          ''evidence '' @ quote name @ '' cannot transition from '' @ quote source @ '' to '' @ quote target
      | _ \<Rightarrow> ''internal server error'')"

definition respond :: "HttpEnv \<Rightarrow> int \<Rightarrow> ('a \<Rightarrow> Payload) \<Rightarrow> ('w, ServiceError, 'a) io \<Rightarrow> 'w Handle" where
  \<comment> \<open>the common end of the handlers; logging is left out\<close>
  "respond env status payload m w =
     (case m w of
        (Inl err, w') \<Rightarrow> (http_Error (publicErrorMessage (he_Quote env) err) (statusForError err), w')
      | (Inr a, w') \<Rightarrow> (writeJSON status (payload a), w'))"

section \<open>Handlers\<close>

definition parseListLimit :: "Request \<Rightarrow> string + int" where
  "parseListLimit r =
     (case rq_Query r ''limit'' of
        None \<Rightarrow> Inr DefaultListLimit
      | Some values \<Rightarrow>
          if length values \<noteq> 1 \<or> values ! 0 = [] then Inl ''limit must be a positive integer''
          else (case ParseInt64 (values ! 0) of
                  None \<Rightarrow> Inl ''limit must be a positive integer''
                | Some limit \<Rightarrow>
                    if limit \<le> 0 then Inl ''limit must be a positive integer''
                    else Inr (if limit > MaxListLimit then MaxListLimit else limit)))"

definition listChangePackets :: "HttpEnv \<Rightarrow> 'w Service \<Rightarrow> Request \<Rightarrow> 'w Handle" where
  "listChangePackets env s r w =
     (case parseListLimit r of
        Inl _ \<Rightarrow> (http_Error ''invalid limit parameter'' 400, w)
      | Inr limit \<Rightarrow>
          (case Service_ListChangePackets s limit w of
             (Inl _, w') \<Rightarrow> (http_Error ''internal server error'' 500, w')
           | (Inr packets, w') \<Rightarrow> (writeJSON 200 (PacketItems packets), w')))"

definition handleChangePackets :: "HttpEnv \<Rightarrow> 'w Service \<Rightarrow> Request \<Rightarrow> 'w Handle" where
  "handleChangePackets env s r w =
     (if rq_Method r = ''GET'' then listChangePackets env s r w else (methodNotAllowed ''GET'', w))"

definition getChangePacket :: "HttpEnv \<Rightarrow> 'w Service \<Rightarrow> string \<Rightarrow> 'w Handle" where
  "getChangePacket env s i = respond env 200 ViewPayload (Service_GetChangePacket s i)"

definition listEvidenceAudit :: "HttpEnv \<Rightarrow> 'w Service \<Rightarrow> Request \<Rightarrow> string \<Rightarrow> 'w Handle" where
  "listEvidenceAudit env s r changePacketID w =
     (case parseListLimit r of
        Inl _ \<Rightarrow> (http_Error ''invalid limit parameter'' 400, w)
      | Inr limit \<Rightarrow> respond env 200 AuditItems (Service_ListEvidenceAuditEntries s changePacketID limit) w)"

definition recordDeploymentOutcome :: "HttpEnv \<Rightarrow> 'w Service \<Rightarrow> Request \<Rightarrow> string \<Rightarrow> 'w Handle" where
  "recordDeploymentOutcome env s r changePacketID w =
     (case he_DecodeOutcome env maxEvidenceRequestBodySize (rq_Body r) of
        None \<Rightarrow> (http_Error ''invalid request body'' 400, w)
      | Some (outcome, source) \<Rightarrow>
          respond env 202 OutcomePayload (RecordDeploymentOutcome (he_Call env) s
            (zeroDeploymentOutcome\<lparr>do_ChangePacketID := changePacketID, do_Outcome := outcome, do_Source := source\<rparr>)) w)"

definition requestedExecution :: "string \<Rightarrow> string \<Rightarrow> EvidenceRequest \<Rightarrow> EvidenceExecution" where
  "requestedExecution changePacketID evidenceName request =
     zeroEvidenceExecution\<lparr>ee_ChangePacketID := changePacketID, ee_Name := evidenceName,
       ee_Type := eq_Type request, ee_Status := eq_Status request, ee_Required := eq_Required request,
       ee_Summary := eq_Summary request, ee_DetailsURL := eq_DetailsURL request,
       ee_UpdatedBy := eq_UpdatedBy request\<rparr>"

definition updateEvidenceExecution ::
  "HttpEnv \<Rightarrow> Context \<Rightarrow> 'w Service \<Rightarrow> Request \<Rightarrow> string \<Rightarrow> string \<Rightarrow> 'w Handle" where
  "updateEvidenceExecution env ctx s r changePacketID evidenceName w =
     (case he_DecodeEvidence env maxEvidenceRequestBodySize (rq_Body r) of
        None \<Rightarrow> (http_Error ''invalid request body'' 400, w)
      | Some (request, single) \<Rightarrow>
          if \<not> single then (http_Error ''invalid request body'' 400, w)
          else respond env 202 ExecutionPayload (UpdateEvidenceExecution (he_Call env) ctx s
            (requestedExecution changePacketID evidenceName request)) w)"

definition packetsPrefix :: string where "packetsPrefix = ''/api/v1/change-packets/''"

definition pathParts :: "Request \<Rightarrow> string list" where
  "pathParts r = Split (Trim (TrimPrefix (rq_Path r) packetsPrefix) ''/'') (CHR ''/'')"

definition handleChangePacketByID :: "HttpEnv \<Rightarrow> Context \<Rightarrow> 'w Service \<Rightarrow> Request \<Rightarrow> 'w Handle" where
  "handleChangePacketByID env ctx s r w =
     (let parts = pathParts r
      in if length parts = 0 \<or> parts ! 0 = [] then (http_Error ''missing change packet id'' 400, w)
         else
           let changePacketID = parts ! 0
           in if length parts = 1 then
                (if rq_Method r \<noteq> ''GET'' then (methodNotAllowed ''GET'', w) else getChangePacket env s changePacketID w)
              else if length parts = 3 \<and> parts ! 1 = ''evidence'' then
                (if parts ! 2 = ''audit'' then
                   (if rq_Method r \<noteq> ''GET'' then (methodNotAllowed ''GET'', w)
                    else listEvidenceAudit env s r changePacketID w)
                 else if rq_Method r \<noteq> ''PUT'' then (methodNotAllowed ''PUT'', w)
                 else updateEvidenceExecution env ctx s r changePacketID (parts ! 2) w)
              else if length parts = 2 \<and> parts ! 1 = ''outcomes'' then
                (if rq_Method r \<noteq> ''POST'' then (methodNotAllowed ''POST'', w)
                 else recordDeploymentOutcome env s r changePacketID w)
              else (http_Error ''404 page not found'' 404, w))"

definition handleRiskCalibration :: "HttpEnv \<Rightarrow> 'w Service \<Rightarrow> Request \<Rightarrow> 'w Handle" where
  "handleRiskCalibration env s r w =
     (if rq_Method r \<noteq> ''GET'' then (methodNotAllowed ''GET'', w)
      else (case RiskCalibrationReport_of (he_Order env) (he_Call env) s w of
              (Inl _, w') \<Rightarrow> (http_Error ''internal server error'' 500, w')
            | (Inr report, w') \<Rightarrow> (writeJSON 200 (ReportPayload report), w')))"

definition handleHealthz :: "'w Handle" where
  "handleHealthz w = (\<lparr>hr_Status = 200, hr_Headers = [], hr_Body = PlainText ''ok''\<rparr>, w)"

definition mux :: "HttpEnv \<Rightarrow> 'w Service \<Rightarrow> Context \<Rightarrow> Request \<Rightarrow> 'w Handle" where
  \<comment> \<open>the registered patterns; one that ends in a slash matches every path that it begins\<close>
  "mux env s ctx r w =
     (if rq_Path r = ''/healthz'' then handleHealthz w
      else if rq_Path r = ''/api/v1/change-packets'' then handleChangePackets env s r w
      else if HasPrefix (rq_Path r) packetsPrefix then handleChangePacketByID env ctx s r w
      else if rq_Path r = ''/api/v1/risk-calibration'' then handleRiskCalibration env s r w
      else (http_Error ''404 page not found'' 404, w))"

section \<open>Access\<close>

definition bearerChallenge :: string where "bearerChallenge = ''Bearer''"

definition isEvidenceUpdate :: "Request \<Rightarrow> bool" where
  "isEvidenceUpdate r \<longleftrightarrow>
     (if rq_Method r \<noteq> ''PUT'' then False
      else let parts = pathParts r
           in length parts = 3 \<and> parts ! 0 \<noteq> [] \<and> parts ! 1 = ''evidence'' \<and> parts ! 2 \<noteq> [])"

definition unauthorized :: Response where
  "unauthorized =
     (let r = http_Error ''unauthorized'' 401
      in r\<lparr>hr_Headers := (''WWW-Authenticate'', bearerChallenge) # hr_Headers r\<rparr>)"

definition requiredRole :: "Request \<Rightarrow> Role" where
  "requiredRole r = (if isEvidenceUpdate r then RoleEvidenceWriter else RoleReader)"

definition AccessMiddleware ::
  "(string \<Rightarrow> AccessError + Principal) \<Rightarrow> (Context \<Rightarrow> Request \<Rightarrow> 'w Handle) \<Rightarrow> Context \<Rightarrow> Request \<Rightarrow> 'w Handle" where
  "AccessMiddleware authenticate serveNext ctx r w =
     (if rq_Path r = ''/healthz'' then serveNext ctx r w
      else case authenticate (rq_Authorization r) of
        Inl _ \<Rightarrow> (unauthorized, w)
      | Inr caller \<Rightarrow>
          (case Authorize caller (requiredRole r) of
             Inl err \<Rightarrow> (if err = ErrUnauthenticated then unauthorized else http_Error ''forbidden'' 403, w)
           | Inr _ \<Rightarrow> serveNext (WithPrincipal ctx caller) r w))"

definition controlPlaneHTTP ::
  "(string \<Rightarrow> AccessError + Principal) \<Rightarrow> HttpEnv \<Rightarrow> 'w Service \<Rightarrow> Request \<Rightarrow> 'w Handle" where
  "controlPlaneHTTP authenticate env s r = AccessMiddleware authenticate (mux env s) None r"

section \<open>What the handlers change\<close>

lemma requestedExecution_fields [simp]:
  "ee_ChangePacketID (requestedExecution i n q) = i" "ee_Name (requestedExecution i n q) = n"
  "ee_Status (requestedExecution i n q) = eq_Status q"
  by (simp_all add: requestedExecution_def)

lemma outcome_world:
  "RecordDeploymentOutcome env (memoryService ord now assigner publisher) d w = (r, w') \<Longrightarrow>
   \<exists>os. w' = w\<lparr>mr_outcomes := os\<rparr>"
proof -
  have same: "\<exists>os. w = w\<lparr>mr_outcomes := os\<rparr>" by (rule exI [of _ "mr_outcomes w"]) simp
  assume "RecordDeploymentOutcome env (memoryService ord now assigner publisher) d w = (r, w')"
  then show ?thesis
    using same
    by (auto simp: RecordDeploymentOutcome_def memoryService_def memoryRepository_def GetChangePacket_def
        SaveDeploymentOutcome_def bindM_def wrapM_def Let_def split: if_splits option.splits)
qed

lemma read_worlds:
  "Service_GetChangePacket (memoryService ord now assigner publisher) i w = (r1, w1) \<Longrightarrow> w1 = w"
  "Service_ListEvidenceAuditEntries (memoryService ord now assigner publisher) i limit w = (r2, w2) \<Longrightarrow> w2 = w"
  "Service_ListChangePackets (memoryService ord now assigner publisher) limit w = (r3, w3) \<Longrightarrow> w3 = w"
  "RiskCalibrationReport_of ord' env (memoryService ord now assigner publisher) w = (r4, w4) \<Longrightarrow> w4 = w"
  by (auto simp: Service_GetChangePacket_def Service_ListEvidenceAuditEntries_def Service_ListChangePackets_def
      RiskCalibrationReport_of_def memoryService_def memoryRepository_def GetChangePacket_def
      ListEvidenceExecutions_def ListEvidenceAuditEntries_def ListChangePackets_def ListDeploymentOutcomes_def
      bindM_def wrapM_def Let_def split: option.splits prod.splits)

lemma respond_world: "respond env status payload m w = (resp, w') \<Longrightarrow> \<exists>r. m w = (r, w')"
  by (auto simp: respond_def split: prod.splits sum.splits)

text \<open>Only the update of an evidence execution reaches beyond the log of outcomes.\<close>

definition routesToUpdate :: "Request \<Rightarrow> bool" where
  "routesToUpdate r \<longleftrightarrow> rq_Method r = ''PUT'' \<and> HasPrefix (rq_Path r) packetsPrefix \<and> length (pathParts r) = 3
     \<and> pathParts r ! 0 \<noteq> [] \<and> pathParts r ! 1 = ''evidence'' \<and> pathParts r ! 2 \<noteq> ''audit''"

lemma mux_other:
  assumes "mux env (memoryService ord now assigner publisher) ctx r w = (resp, w')" and "\<not> routesToUpdate r"
  shows "\<exists>os. w' = w\<lparr>mr_outcomes := os\<rparr>"
proof -
  let ?s = "memoryService ord now assigner publisher"
  have same: "\<exists>os. w = w\<lparr>mr_outcomes := os\<rparr>" by (rule exI [of _ "mr_outcomes w"]) simp
  have list: "\<exists>os. w' = w\<lparr>mr_outcomes := os\<rparr>" if "listChangePackets env ?s r w = (resp, w')"
    using that same by (auto simp: listChangePackets_def dest!: read_worlds(3) split: sum.splits prod.splits)
  have calibration: "\<exists>os. w' = w\<lparr>mr_outcomes := os\<rparr>" if "handleRiskCalibration env ?s r w = (resp, w')"
    using that same
    by (auto simp: handleRiskCalibration_def dest!: read_worlds(4) split: sum.splits prod.splits if_splits)
  have view: "\<exists>os. w' = w\<lparr>mr_outcomes := os\<rparr>" if "getChangePacket env ?s i w = (resp, w')" for i
    using that same by (auto simp: getChangePacket_def dest!: respond_world read_worlds(1))
  have audits: "\<exists>os. w' = w\<lparr>mr_outcomes := os\<rparr>" if "listEvidenceAudit env ?s r i w = (resp, w')" for i
    using that same by (auto simp: listEvidenceAudit_def dest!: respond_world read_worlds(2) split: sum.splits)
  have outcomes: "\<exists>os. w' = w\<lparr>mr_outcomes := os\<rparr>" if "recordDeploymentOutcome env ?s r i w = (resp, w')" for i
    using that same
    by (auto simp: recordDeploymentOutcome_def dest!: respond_world outcome_world split: option.splits prod.splits)
  have "\<exists>os. w' = w\<lparr>mr_outcomes := os\<rparr>" if "handleChangePacketByID env ctx ?s r w = (resp, w')"
      "HasPrefix (rq_Path r) packetsPrefix"
    using that assms(2) same view audits outcomes
    unfolding handleChangePacketByID_def routesToUpdate_def Let_def by (auto split: if_splits)
  then show ?thesis
    using assms(1) same list calibration
    by (auto simp: mux_def handleHealthz_def handleChangePackets_def split: if_splits)
qed

lemma outcomes_frame [simp]:
  "mem_evidence (w\<lparr>mr_outcomes := os\<rparr>) = mem_evidence w" "mem_packets (w\<lparr>mr_outcomes := os\<rparr>) = mem_packets w"
  by (simp_all add: mem_evidence_def mem_packets_def fun_eq_iff)

lemma mux_update:
  assumes "routesToUpdate r" and "mux env s ctx r w = (resp, w')"
  shows "updateEvidenceExecution env ctx s r (pathParts r ! 0) (pathParts r ! 2) w = (resp, w')"
proof -
  have "rq_Path r \<noteq> ''/healthz'' \<and> rq_Path r \<noteq> ''/api/v1/change-packets''"
    using assms(1) by (auto simp: routesToUpdate_def HasPrefix_def packetsPrefix_def)
  then show ?thesis
    using assms by (auto simp: mux_def handleChangePacketByID_def routesToUpdate_def Let_def split: if_splits)
qed

lemma middleware_passes:
  assumes "AccessMiddleware authenticate serveNext ctx r w = (resp, w')" and "rq_Path r \<noteq> ''/healthz''" and "w' \<noteq> w"
  shows "\<exists>caller. authenticate (rq_Authorization r) = Inr caller \<and> Authorize caller (requiredRole r) = Inr ()
    \<and> serveNext (WithPrincipal ctx caller) r w = (resp, w')"
  using assms by (auto simp: AccessMiddleware_def split: sum.splits if_splits)

context bearer_authenticator
begin

lemma anonymous_unauthorized:
  assumes "bearerToken (rq_Authorization r) = Inl e" and "rq_Path r \<noteq> ''/healthz''"
  shows "AccessMiddleware authenticate serveNext ctx r w = (unauthorized, w)"
proof -
  obtain e' where "authenticate (rq_Authorization r) = Inl e'" using bearer_only [OF assms(1)] by blast
  then show ?thesis using assms(2) by (simp add: AccessMiddleware_def)
qed

end

section \<open>Properties\<close>

text \<open>
  C3: evidence changes only for an authorized writer, over HTTP. If serving a request changes the
  recorded status of any evidence or any audit log, then the request is a PUT on an evidence, the
  credentials it carries authenticate a caller who has the evidence-writer or the administrator
  role, and the one audit entry that was added names that caller, whatever the body says.
\<close>

theorem http_evidence_authorized:
  assumes "map_order ord" and "mem_valid w"
    and "controlPlaneHTTP authenticate env (memoryService ord now assigner publisher) r w = (resp, w')"
    and "recordedStatus (mem_evidence w' i) n \<noteq> recordedStatus (mem_evidence w i) n
      \<or> mr_auditByCPID w' i \<noteq> mr_auditByCPID w i"
  shows "\<exists>caller a. authenticate (rq_Authorization r) = Inr caller
    \<and> (RoleEvidenceWriter \<in> set (pn_Roles caller) \<or> RoleAdmin \<in> set (pn_Roles caller))
    \<and> isEvidenceUpdate r \<and> i = pathParts r ! 0
    \<and> mr_auditByCPID w' i = mr_auditByCPID w i @ [a]
    \<and> ae_Actor a = pn_Subject caller \<and> ae_EvidenceName a = pathParts r ! 2"
proof -
  let ?s = "memoryService ord now assigner publisher"
  have frame: "\<not> (\<exists>os. w' = w\<lparr>mr_outcomes := os\<rparr>)" using assms(4) by auto
  have "w = w\<lparr>mr_outcomes := mr_outcomes w\<rparr>" by simp
  then have changed: "w' \<noteq> w" using frame by metis
  have path: "rq_Path r \<noteq> ''/healthz''"
    using assms(3) changed by (auto simp: controlPlaneHTTP_def AccessMiddleware_def mux_def handleHealthz_def)
  obtain caller where c: "authenticate (rq_Authorization r) = Inr caller"
    "Authorize caller (requiredRole r) = Inr ()" "mux env ?s (Some caller) r w = (resp, w')"
    using middleware_passes [OF assms(3) [unfolded controlPlaneHTTP_def] path changed] by (auto simp: WithPrincipal_def)
  have route: "routesToUpdate r" using mux_other [OF c(3)] frame by blast
  let ?u = "pathParts r ! 0" and ?n = "pathParts r ! 2"
  obtain q ru where q: "UpdateEvidenceExecution (he_Call env) (Some caller) ?s (requestedExecution ?u ?n q) w = (ru, w')"
    using mux_update [OF route c(3)] changed
    by (auto simp: updateEvidenceExecution_def dest!: respond_world split: option.splits if_splits)
  let ?x = "requestedExecution ?u ?n q"
  have rec: "evidenceRecorded (attributed (Some caller) ?x) (mem_evidence w) (mr_auditByCPID w)
      (mem_evidence w') (mr_auditByCPID w') \<and> TrimSpace ?n \<noteq> []"
  proof (rule world.update_cases [OF conjI [OF assms(1,2)] q [unfolded memoryService_def]])
    assume "updateError (Some caller) (mem_packets w) (mem_evidence w) ?x = None"
      "evidenceRecorded (attributed (Some caller) ?x) (mem_evidence w) (mr_auditByCPID w)
        (mem_evidence w') (mr_auditByCPID w')"
    then show ?thesis by (simp add: updateError_def Let_def split: if_splits)
  qed (use changed in simp)
  then have name: "?n \<noteq> []" by auto
  have upd: "isEvidenceUpdate r" using route name by (simp add: isEvidenceUpdate_def routesToUpdate_def)
  obtain a where a: "mr_auditByCPID w' = (mr_auditByCPID w)(?u := mr_auditByCPID w ?u @ [a])"
    "ae_EvidenceName a = ?n" "ae_Actor a = pn_Subject caller"
    "\<forall>j m. recordedStatus (mem_evidence w' j) m =
        (if j = ?u \<and> m = ?n then eq_Status q else recordedStatus (mem_evidence w j) m)"
    using conjunct1 [OF rec] by (auto simp: evidenceRecorded_def attributed_def PrincipalFromContext_def)
  have "i = ?u" using assms(4) a by (auto split: if_splits)
  moreover have "RoleEvidenceWriter \<in> set (pn_Roles caller) \<or> RoleAdmin \<in> set (pn_Roles caller)"
    using c(2) upd by (auto simp: requiredRole_def Authorize_Inr)
  ultimately show ?thesis using c(1) upd a by auto
qed

definition sampleEvidenceRequest :: EvidenceRequest where
  "sampleEvidenceRequest = \<lparr>eq_Status = EvidenceSatisfied, eq_Summary = [], eq_DetailsURL = [],
     eq_UpdatedBy = ''nobody'', eq_Type = [], eq_Required = False\<rparr>"

definition sampleHttpEnv :: HttpEnv where
  "sampleHttpEnv =
     \<lparr>he_Call = sampleEnv, he_Order = rev, he_Quote = (\<lambda>s. ''\"'' @ s @ ''\"''),
      he_DecodeEvidence = (\<lambda>_ _. Some (sampleEvidenceRequest, True)),
      he_DecodeOutcome = (\<lambda>_ _. Some (DeploymentOutcomeSuccess, ''ci''))\<rparr>"

definition sampleRequest_PUT :: Request where
  "sampleRequest_PUT = \<lparr>rq_Method = ''PUT'', rq_Path = ''/api/v1/change-packets/cp_1/evidence/tests'',
     rq_Query = Map.empty, rq_Authorization = ''Bearer t'', rq_Body = []\<rparr>"

definition sampleWriter :: Principal where
  "sampleWriter = \<lparr>pn_Subject = ''ci'', pn_Roles = [RoleEvidenceWriter]\<rparr>"

lemma sampleRequest_PUT_facts:
  "pathParts sampleRequest_PUT = [''cp_1'', ''evidence'', ''tests'']" "isEvidenceUpdate sampleRequest_PUT"
  "Authorize sampleWriter RoleEvidenceWriter = Inr ()" "HasPrefix (rq_Path sampleRequest_PUT) packetsPrefix"
  by code_simp+

theorem http_evidence_authorized_witness:
  "\<exists>resp w' caller. controlPlaneHTTP (\<lambda>_. Inr sampleWriter) sampleHttpEnv (memoryService rev 7 None None)
       sampleRequest_PUT sampleWorld = (resp, w')
     \<and> mr_auditByCPID w' ''cp_1'' \<noteq> mr_auditByCPID sampleWorld ''cp_1''
     \<and> Inr caller = (Inr sampleWriter :: AccessError + Principal)
     \<and> (RoleEvidenceWriter \<in> set (pn_Roles caller) \<or> RoleAdmin \<in> set (pn_Roles caller))"
proof -
  let ?s = "memoryService rev 7 None None :: unit World Service"
  let ?x = "requestedExecution ''cp_1'' ''tests'' sampleEvidenceRequest"
  have "updateError (Some sampleWriter) (mem_packets sampleWorld) (mem_evidence sampleWorld) ?x = None"
    using sample_names
    by (simp add: updateError_def Let_def sampleWorld_packets sampleWorld_status validEvidenceStatus_def
        canTransitionEvidence_def testsPacket_def testsRequirement_def sampleEvidenceRequest_def)
  from world.update_accepted_world [OF _ this, where ord = rev and now = 7 and a = None and env = sampleEnv
      and publisher = None] sampleWorld_valid
  obtain y w' where u: "UpdateEvidenceExecution sampleEnv (Some sampleWriter) ?s ?x sampleWorld = (y, w')"
    "evidenceRecorded (attributed (Some sampleWriter) ?x) (mem_evidence sampleWorld) (mr_auditByCPID sampleWorld)
       (mem_evidence w') (mr_auditByCPID w')"
    unfolding memoryService_def by auto
  obtain resp where resp: "controlPlaneHTTP (\<lambda>_. Inr sampleWriter) sampleHttpEnv ?s sampleRequest_PUT sampleWorld = (resp, w')"
    using u(1) sampleRequest_PUT_facts
    by (cases y) (auto simp: controlPlaneHTTP_def AccessMiddleware_def requiredRole_def mux_def handleChangePacketByID_def
        updateEvidenceExecution_def respond_def WithPrincipal_def sampleHttpEnv_def Let_def
        sampleRequest_PUT_def split: sum.splits)
  have changed: "mr_auditByCPID w' ''cp_1'' \<noteq> mr_auditByCPID sampleWorld ''cp_1''"
    using u(2) by (auto simp: evidenceRecorded_def)
  show ?thesis
    using http_evidence_authorized [OF map_order_rev sampleWorld_valid resp, of "''cp_1''"] resp changed by auto
qed

text \<open>
  What a client learns from an update over HTTP. A refused update leaves the store unchanged and is
  answered with 400 for an invalid request, 404 for an unknown packet or evidence and 409 for a
  transition that the life cycle does not have; an accepted one is answered with 202, or with 500 when
  the lane assigner or the publication of the check failed; a body that is not one JSON value is
  answered with 400.
\<close>

theorem http_update_codes:
  assumes "map_order ord" and "mem_valid w"
  shows "case he_DecodeEvidence env maxEvidenceRequestBodySize (rq_Body r) of
      None \<Rightarrow> updateEvidenceExecution env ctx (memoryService ord now assigner publisher) r i n w
          = (http_Error ''invalid request body'' 400, w)
    | Some (q, single) \<Rightarrow>
       (let (resp, w') = updateEvidenceExecution env ctx (memoryService ord now assigner publisher) r i n w
        in if \<not> single then hr_Status resp = 400 \<and> w' = w
           else case updateError ctx (mem_packets w) (mem_evidence w) (requestedExecution i n q) of
             Some e \<Rightarrow> w' = w \<and> hr_Status resp =
               (case e of EvidenceValidationError _ _ \<Rightarrow> 400 | EvidenceTransitionError _ _ _ \<Rightarrow> 409 | _ \<Rightarrow> 404)
           | None \<Rightarrow> hr_Status resp = 202
               \<or> hr_Status resp = 500 \<and> (\<exists>e. assignFails assigner e \<or> publishFails (worldPublisher publisher) e))"
proof (cases "he_DecodeEvidence env maxEvidenceRequestBodySize (rq_Body r)")
  case None
  then show ?thesis by (simp add: updateEvidenceExecution_def)
next
  case (Some qs)
  obtain q single where qs: "qs = (q, single)" by (cases qs)
  let ?x = "requestedExecution i n q" and ?s = "memoryService ord now assigner publisher"
  have codes: "hr_Status (http_Error m c) = c" for m c by (simp add: http_Error_def)
  show ?thesis
  proof (cases "single")
    case False
    then show ?thesis using Some qs by (simp add: updateEvidenceExecution_def codes)
  next
    case True
    show ?thesis
    proof (cases "updateError ctx (mem_packets w) (mem_evidence w) ?x")
      case refused: (Some e)
      have "UpdateEvidenceExecution (he_Call env) ctx ?s ?x w = (Inl e, w)"
        using world.update_refused [of ord w ctx ?x e] assms refused by (simp add: memoryService_def)
      moreover have "statusForError e =
          (case e of EvidenceValidationError _ _ \<Rightarrow> 400 | EvidenceTransitionError _ _ _ \<Rightarrow> 409 | _ \<Rightarrow> 404)"
        using refused by (auto simp: updateError_def statusForError_def storeError_def Let_def split: if_splits option.splits)
      ultimately show ?thesis
        using Some qs True refused by (simp add: updateEvidenceExecution_def respond_def codes)
    next
      case accepted: None
      obtain ru w' where u: "UpdateEvidenceExecution (he_Call env) ctx ?s ?x w = (ru, w')" by fastforce
      have "(\<exists>y. ru = Inr y) \<or> (\<exists>e. ru = Inl (LaneError e) \<and> assignFails assigner e)
          \<or> (\<exists>e. ru = Inl (PublishError e) \<and> publishFails (worldPublisher publisher) e)"
        by (rule world.update_effect [where ord = ord and now = now and env = "he_Call env" and a = assigner
              and publisher = publisher, OF conjI [OF assms] accepted, folded memoryService_def])
          (use u in auto)
      then show ?thesis
        using Some qs True accepted u
        by (auto simp: updateEvidenceExecution_def respond_def codes writeJSON_def statusForError_def storeError_def)
    qed
  qed
qed

theorem http_update_codes_witness:
  "hr_Status (fst (updateEvidenceExecution sampleHttpEnv (Some sampleWriter) (memoryService rev 7 None None)
      sampleRequest_PUT ''cp_9'' ''tests'' sampleWorld)) = 404"
proof -
  have "TrimSpace ''cp_9'' \<noteq> []" by code_simp
  then have "updateError (Some sampleWriter) (mem_packets sampleWorld) (mem_evidence sampleWorld)
      (requestedExecution ''cp_9'' ''tests'' sampleEvidenceRequest) = Some (RepositoryError ErrChangePacketNotFound)"
    using sample_names
    by (simp add: updateError_def Let_def sampleWorld_packets validEvidenceStatus_def sampleEvidenceRequest_def)
  moreover have "he_DecodeEvidence sampleHttpEnv maxEvidenceRequestBodySize (rq_Body sampleRequest_PUT)
      = Some (sampleEvidenceRequest, True)"
    by (simp add: sampleHttpEnv_def)
  ultimately show ?thesis
    using http_update_codes [OF map_order_rev sampleWorld_valid, where env = sampleHttpEnv and r = sampleRequest_PUT
        and ctx = "Some sampleWriter" and now = 7 and assigner = None and publisher = None and i = "''cp_9''"
        and n = "''tests''"]
    by (auto split: prod.splits)
qed

text \<open>
  Without a bearer token nothing but the health check is served. With static tokens and with JWTs,
  configured in any way, a request without a well-formed bearer token is answered with 401 and changes
  nothing; with the health check, the path alone decides and nothing is changed either.
\<close>

theorem http_anonymous_refused:
  assumes "bearerToken (rq_Authorization r) = Inl e"
  shows "(rq_Path r \<noteq> ''/healthz'' \<longrightarrow>
      controlPlaneHTTP (staticLogin sha256 lookup tokens) env s r w = (unauthorized, w)
      \<and> controlPlaneHTTP (jwtLogin jenv cfg t) env s r w = (unauthorized, w) \<and> hr_Status unauthorized = 401)
    \<and> (rq_Path r = ''/healthz'' \<longrightarrow>
      controlPlaneHTTP (staticLogin sha256 lookup tokens) env s r w = handleHealthz w \<and> snd (handleHealthz w) = w)"
proof (intro conjI impI)
  assume p: "rq_Path r \<noteq> ''/healthz''"
  show "controlPlaneHTTP (staticLogin sha256 lookup tokens) env s r w = (unauthorized, w)"
    unfolding controlPlaneHTTP_def by (rule static.anonymous_unauthorized [OF assms p])
  show "controlPlaneHTTP (jwtLogin jenv cfg t) env s r w = (unauthorized, w)"
    unfolding controlPlaneHTTP_def by (rule jwt.anonymous_unauthorized [OF assms p])
  show "hr_Status unauthorized = 401" by (simp add: unauthorized_def http_Error_def Let_def)
qed (simp_all add: controlPlaneHTTP_def AccessMiddleware_def mux_def handleHealthz_def)

theorem http_anonymous_refused_witness:
  "controlPlaneHTTP (staticLogin (\<lambda>t. t) Map.empty []) sampleHttpEnv (memoryService rev 7 None None)
     (sampleRequest_PUT\<lparr>rq_Authorization := []\<rparr>) sampleWorld = (unauthorized, sampleWorld)"
proof -
  have "bearerToken (rq_Authorization (sampleRequest_PUT\<lparr>rq_Authorization := []\<rparr>)) = Inl ErrUnauthenticated"
    by (simp add: bearerToken_def Cut_def)
  moreover have "rq_Path (sampleRequest_PUT\<lparr>rq_Authorization := []\<rparr>) \<noteq> ''/healthz''"
    by (simp add: sampleRequest_PUT_def)
  ultimately show ?thesis by (simp only: http_anonymous_refused not_False_eq_True simp_thms)
qed

text \<open>
  The limit of a listing over HTTP lies between 1 and 200: a decimal number in the 64-bit range that
  is positive is taken, capped at 200; a missing parameter means 50; anything else is an error.
\<close>

theorem parseListLimit_bounds:
  "(parseListLimit r = Inr l \<longrightarrow> 1 \<le> l \<and> l \<le> 200)
   \<and> (rq_Query r ''limit'' = None \<longrightarrow> parseListLimit r = Inr 50)
   \<and> (rq_Query r ''limit'' = Some [Itoa k] \<and> - (2 ^ 63) \<le> k \<and> k < 2 ^ 63 \<longrightarrow>
        parseListLimit r = (if 0 < k then Inr (min k 200) else Inl ''limit must be a positive integer''))"
proof (intro conjI impI)
  show "1 \<le> l" "l \<le> 200" if "parseListLimit r = Inr l"
    using that by (auto simp: parseListLimit_def DefaultListLimit_def MaxListLimit_def split: option.splits if_splits)
  show "parseListLimit r = Inr 50" if "rq_Query r ''limit'' = None"
    using that by (simp add: parseListLimit_def DefaultListLimit_def)
  assume a: "rq_Query r ''limit'' = Some [Itoa k] \<and> - (2 ^ 63) \<le> k \<and> k < 2 ^ 63"
  then have p: "ParseInt64 (Itoa k) = Some k" using ParseInt64_Itoa by blast
  then have "Itoa k \<noteq> []" by (auto simp: ParseInt64_def)
  then show "parseListLimit r = (if 0 < k then Inr (min k 200) else Inl ''limit must be a positive integer'')"
    using a p by (simp add: parseListLimit_def MaxListLimit_def min_def)
qed

theorem parseListLimit_bounds_witness:
  "parseListLimit (sampleRequest_PUT\<lparr>rq_Query := [''limit'' \<mapsto> [Itoa 1000]]\<rparr>) = Inr 200"
  using parseListLimit_bounds [of "sampleRequest_PUT\<lparr>rq_Query := [''limit'' \<mapsto> [Itoa 1000]]\<rparr>" 0 1000]
  by simp

text \<open>
  A caller who is only a reader can write deployment outcomes: a POST on the outcomes of a packet
  asks for the reader role only, and the outcome is stored. The documentation describes the reader role
  as one for queries.
\<close>

theorem reader_records_outcome:
  "let reader = \<lparr>pn_Subject = ''dashboard'', pn_Roles = [RoleReader]\<rparr>;
       r = \<lparr>rq_Method = ''POST'', rq_Path = ''/api/v1/change-packets/cp_1/outcomes'',
            rq_Query = Map.empty, rq_Authorization = ''Bearer t'', rq_Body = []\<rparr>
   in case controlPlaneHTTP (\<lambda>_. Inr reader) sampleHttpEnv (memoryService rev 7 None None) r sampleWorld of
        (resp, w') \<Rightarrow> hr_Status resp = 202 \<and> length (mr_outcomes w') = length (mr_outcomes sampleWorld) + 1"
proof -
  let ?reader = "\<lparr>pn_Subject = ''dashboard'', pn_Roles = [RoleReader]\<rparr>"
  let ?r = "\<lparr>rq_Method = ''POST'', rq_Path = ''/api/v1/change-packets/cp_1/outcomes'',
            rq_Query = Map.empty, rq_Authorization = ''Bearer t'', rq_Body = []\<rparr>"
  have c: "pathParts ?r = [''cp_1'', ''outcomes'']" "Authorize ?reader RoleReader = Inr ()"
    "\<not> isEvidenceUpdate ?r" "HasPrefix (rq_Path ?r) packetsPrefix"
    by code_simp+
  have "validOutcomeSource ''ci''" by code_simp
  moreover have "map_of (mr_changePackets sampleWorld) ''cp_1'' = Some testsPacket"
    using sampleWorld_packets by (simp add: mem_packets_def fun_eq_iff)
  ultimately show ?thesis
    using c sample_names(1)
    by (simp add: controlPlaneHTTP_def AccessMiddleware_def requiredRole_def mux_def handleChangePacketByID_def
        recordDeploymentOutcome_def respond_def sampleHttpEnv_def RecordDeploymentOutcome_def
        validDeploymentOutcome_def memoryService_def memoryRepository_def GetChangePacket_def
        SaveDeploymentOutcome_def writeJSON_def Let_def)
qed

end
