(* ===== verification/Grpc.thy ===== *)
theory Grpc
  imports Http
begin

text \<open>
  The gRPC transport of the control plane, \<open>internal/controlplanegrpc\<close>: the access interceptor, the
  four methods of the server, the mapping to messages, and status codes. A 32-bit field of a message is
  a \<open>32 word\<close> and conversions to it wrap around, as in Go. The formatting of times and the quoting of
  strings in error messages are arguments.
\<close>

section \<open>Messages\<close>

record GetChangePacketRequest = gp_RefId :: string
record ListChangePacketsRequest = lp_Limit :: "32 word"
record ListEvidenceAuditEntriesRequest =
  la_ChangePacketId :: string
  la_Limit :: "32 word"
record UpdateEvidenceExecutionRequest =
  ur_ChangePacketId :: string
  ur_Name :: string
  ur_Type :: string
  ur_Status :: string
  ur_Required :: bool
  ur_Summary :: string
  ur_DetailsUrl :: string
  ur_UpdatedBy :: string

record EvidenceMessage =
  em_ChangePacketId :: string
  em_Name :: string
  em_Type :: string
  em_Status :: string
  em_Required :: bool
  em_Summary :: string
  em_DetailsUrl :: string
  em_UpdatedBy :: string
  em_UpdatedAt :: string

record AuditMessage =
  am_Id :: string
  am_ChangePacketId :: string
  am_EvidenceName :: string
  am_FromStatus :: string
  am_ToStatus :: string
  am_Actor :: string
  am_Summary :: string
  am_DetailsUrl :: string
  am_Metadata :: metadata
  am_OccurredAt :: string

record ChangePacketSummary =
  su_Id :: string
  su_Repo :: string
  su_PrNumber :: "32 word"
  su_MergeLane :: string
  su_RiskScore :: "32 word"

record GetChangePacketResponse =
  ge_Id :: string
  ge_MergeLane :: string
  ge_RiskScore :: "32 word"
  ge_Evidence :: "EvidenceMessage list"

datatype GrpcRequest =
    GetRequest GetChangePacketRequest
  | ListRequest ListChangePacketsRequest
  | AuditRequest ListEvidenceAuditEntriesRequest
  | UpdateRequest UpdateEvidenceExecutionRequest

datatype GrpcResponse =
    GetResponse GetChangePacketResponse
  | ListResponse "ChangePacketSummary list"
  | AuditResponse "AuditMessage list"
  | UpdateResponse EvidenceMessage

datatype Code = InvalidArgument | NotFound | PermissionDenied | FailedPrecondition | Internal | Unauthenticated

type_synonym GrpcError = "Code \<times> string"

record GrpcEnv =
  ge_Call :: CallEnv
  ge_FormatRFC3339 :: "time \<Rightarrow> string"
  ge_Quote :: "string \<Rightarrow> string"

section \<open>Mapping\<close>

definition formatTime :: "GrpcEnv \<Rightarrow> time \<Rightarrow> string" where
  "formatTime env val = (if val = 0 then [] else ge_FormatRFC3339 env val)"

definition toEvidenceExecution :: "GrpcEnv \<Rightarrow> EvidenceExecution \<Rightarrow> EvidenceMessage" where
  "toEvidenceExecution env item =
     \<lparr>em_ChangePacketId = ee_ChangePacketID item, em_Name = ee_Name item, em_Type = ee_Type item,
      em_Status = ee_Status item, em_Required = ee_Required item, em_Summary = ee_Summary item,
      em_DetailsUrl = ee_DetailsURL item, em_UpdatedBy = ee_UpdatedBy item,
      em_UpdatedAt = formatTime env (ee_UpdatedAt item)\<rparr>"

definition toEvidenceExecutions :: "GrpcEnv \<Rightarrow> EvidenceExecution list \<Rightarrow> EvidenceMessage list" where
  "toEvidenceExecutions env items = map (toEvidenceExecution env) items"

definition toGetChangePacketResponse :: "GrpcEnv \<Rightarrow> ChangePacketView \<Rightarrow> GetChangePacketResponse" where
  "toGetChangePacketResponse env view =
     \<lparr>ge_Id = cp_ID (vw_Packet view), ge_MergeLane = cp_MergeLane (vw_Packet view),
      ge_RiskScore = word_of_int (rs_Score (cp_RiskSummary (vw_Packet view))),
      ge_Evidence = toEvidenceExecutions env (vw_Evidence view)\<rparr>"

definition toListChangePacketsResponse :: "ChangePacket list \<Rightarrow> ChangePacketSummary list" where
  "toListChangePacketsResponse items =
     map (\<lambda>item. \<lparr>su_Id = cp_ID item, su_Repo = rr_FullName (cp_Repo item),
        su_PrNumber = word_of_int (pr_Number (cp_PR item)), su_MergeLane = cp_MergeLane item,
        su_RiskScore = word_of_int (rs_Score (cp_RiskSummary item))\<rparr>) items"

definition toEvidenceAuditEntry :: "GrpcEnv \<Rightarrow> EvidenceAuditEntry \<Rightarrow> AuditMessage" where
  "toEvidenceAuditEntry env item =
     \<lparr>am_Id = ae_ID item, am_ChangePacketId = ae_ChangePacketID item, am_EvidenceName = ae_EvidenceName item,
      am_FromStatus = ae_FromStatus item, am_ToStatus = ae_ToStatus item, am_Actor = ae_Actor item,
      am_Summary = ae_Summary item, am_DetailsUrl = ae_DetailsURL item, am_Metadata = ae_Metadata item,
      am_OccurredAt = formatTime env (ae_OccurredAt item)\<rparr>"

definition toListEvidenceAuditEntriesResponse :: "GrpcEnv \<Rightarrow> EvidenceAuditEntry list \<Rightarrow> AuditMessage list" where
  "toListEvidenceAuditEntriesResponse env items = map (toEvidenceAuditEntry env) items"

definition fromUpdateEvidenceExecutionRequest :: "UpdateEvidenceExecutionRequest \<Rightarrow> EvidenceExecution" where
  "fromUpdateEvidenceExecutionRequest request =
     zeroEvidenceExecution\<lparr>ee_ChangePacketID := ur_ChangePacketId request, ee_Name := ur_Name request,
       ee_Type := ur_Type request, ee_Status := ur_Status request, ee_Required := ur_Required request,
       ee_Summary := ur_Summary request, ee_DetailsURL := ur_DetailsUrl request,
       ee_UpdatedBy := ur_UpdatedBy request\<rparr>"

section \<open>Errors\<close>

definition storeErrorText :: "StoreError \<Rightarrow> string" where
  "storeErrorText e = (case e of ErrChangePacketNotFound \<Rightarrow> ''change packet not found'' | StoreFailed text \<Rightarrow> text)"

definition errorText :: "(string \<Rightarrow> string) \<Rightarrow> ServiceError \<Rightarrow> string" where
  \<comment> \<open>\<^verbatim>\<open>err.Error()\<close>\<close>
  "errorText quote err =
     (case err of
        EvidenceValidationError field message \<Rightarrow> ''invalid evidence '' @ field @ '': '' @ message
      | EvidenceNotFoundError packet name \<Rightarrow>
          ''evidence '' @ quote name @ '' is not required by change packet '' @ quote packet
      | EvidenceTransitionError name source target \<Rightarrow>
          ''evidence '' @ quote name @ '' cannot transition from '' @ quote source @ '' to '' @ quote target
      | RepositoryError e \<Rightarrow> storeErrorText e
      | ReloadError e \<Rightarrow> ''reload evidence executions: '' @ storeErrorText e
      | LaneError text \<Rightarrow> ''recompute merge lane: '' @ text
      | PersistError e \<Rightarrow> ''persist reconciled change packet: '' @ storeErrorText e
      | PublishError text \<Rightarrow> ''publish refreshed check: '' @ text)"

definition grpc_statusForError :: "(string \<Rightarrow> string) \<Rightarrow> ServiceError \<Rightarrow> GrpcError" where
  "grpc_statusForError quote err =
     (if storeError err = Some ErrChangePacketNotFound then (NotFound, errorText quote err)
      else case err of
        EvidenceValidationError _ _ \<Rightarrow> (InvalidArgument, errorText quote err)
      | EvidenceNotFoundError _ _ \<Rightarrow> (NotFound, errorText quote err)
      | EvidenceTransitionError _ _ _ \<Rightarrow> (FailedPrecondition, errorText quote err)
      | _ \<Rightarrow> (Internal, errorText quote err))"

section \<open>The server\<close>

definition grpcLimit :: "32 word \<Rightarrow> int" where
  "grpcLimit requested =
     (let limit = sint requested;
          limit = (if limit \<le> 0 then DefaultListLimit else limit)
      in if limit > MaxListLimit then MaxListLimit else limit)"

definition Server_GetChangePacket ::
  "GrpcEnv \<Rightarrow> 'w Service \<Rightarrow> GetChangePacketRequest \<Rightarrow> ('w, GrpcError, GetChangePacketResponse) io" where
  "Server_GetChangePacket env s request =
     (if gp_RefId request = [] then failM (InvalidArgument, ''change packet id is required'')
      else bindM (wrapM (grpc_statusForError (ge_Quote env)) (Service_GetChangePacket s (gp_RefId request)))
             (\<lambda>view. retM (toGetChangePacketResponse env view)))"

definition Server_ListChangePackets ::
  "GrpcEnv \<Rightarrow> 'w Service \<Rightarrow> ListChangePacketsRequest \<Rightarrow> ('w, GrpcError, ChangePacketSummary list) io" where
  "Server_ListChangePackets env s request =
     bindM (wrapM (grpc_statusForError (ge_Quote env)) (Service_ListChangePackets s (grpcLimit (lp_Limit request))))
       (\<lambda>items. retM (toListChangePacketsResponse items))"

definition Server_UpdateEvidenceExecution ::
  "GrpcEnv \<Rightarrow> Context \<Rightarrow> 'w Service \<Rightarrow> UpdateEvidenceExecutionRequest \<Rightarrow> ('w, GrpcError, EvidenceMessage) io" where
  "Server_UpdateEvidenceExecution env ctx s request =
     (if ur_ChangePacketId request = [] \<or> ur_Name request = []
        then failM (InvalidArgument, ''change packet id and evidence name are required'')
      else bindM (wrapM (grpc_statusForError (ge_Quote env))
             (UpdateEvidenceExecution (ge_Call env) ctx s (fromUpdateEvidenceExecutionRequest request)))
             (\<lambda>execution. retM (toEvidenceExecution env execution)))"

definition Server_ListEvidenceAuditEntries ::
  "GrpcEnv \<Rightarrow> 'w Service \<Rightarrow> ListEvidenceAuditEntriesRequest \<Rightarrow> ('w, GrpcError, AuditMessage list) io" where
  "Server_ListEvidenceAuditEntries env s request =
     (if la_ChangePacketId request = [] then failM (InvalidArgument, ''change packet id is required'')
      else bindM (wrapM (grpc_statusForError (ge_Quote env))
             (Service_ListEvidenceAuditEntries s (la_ChangePacketId request) (grpcLimit (la_Limit request))))
             (\<lambda>entries. retM (toListEvidenceAuditEntriesResponse env entries)))"

section \<open>Access\<close>

definition GetChangePacket_FullMethodName :: string where
  "GetChangePacket_FullMethodName = ''/merger.v1.ChangeControlService/GetChangePacket''"
definition ListChangePackets_FullMethodName :: string where
  "ListChangePackets_FullMethodName = ''/merger.v1.ChangeControlService/ListChangePackets''"
definition UpdateEvidenceExecution_FullMethodName :: string where
  "UpdateEvidenceExecution_FullMethodName = ''/merger.v1.ChangeControlService/UpdateEvidenceExecution''"
definition ListEvidenceAuditEntries_FullMethodName :: string where
  "ListEvidenceAuditEntries_FullMethodName = ''/merger.v1.ChangeControlService/ListEvidenceAuditEntries''"

definition roleForMethod :: "string \<Rightarrow> Role option" where
  "roleForMethod fullMethod =
     (if fullMethod = GetChangePacket_FullMethodName \<or> fullMethod = ListChangePackets_FullMethodName
         \<or> fullMethod = ListEvidenceAuditEntries_FullMethodName then Some RoleReader
      else if fullMethod = UpdateEvidenceExecution_FullMethodName then Some RoleEvidenceWriter
      else None)"

definition authorizationFromMetadata :: "string list \<Rightarrow> string" where
  \<comment> \<open>the values of the metadata key \<open>authorization\<close>\<close>
  "authorizationFromMetadata values = (if length values \<noteq> 1 then [] else values ! 0)"

definition AccessUnaryServerInterceptor ::
  "(string \<Rightarrow> AccessError + Principal) \<Rightarrow> string list \<Rightarrow> string \<Rightarrow> (Context \<Rightarrow> ('w, GrpcError, 'r) io) \<Rightarrow> ('w, GrpcError, 'r) io" where
  "AccessUnaryServerInterceptor authenticate values fullMethod handler =
     (case roleForMethod fullMethod of
        None \<Rightarrow> failM (PermissionDenied, ''method has no access policy'')
      | Some role \<Rightarrow>
          (case authenticate (authorizationFromMetadata values) of
             Inl _ \<Rightarrow> failM (Unauthenticated, ''valid bearer credentials are required'')
           | Inr caller \<Rightarrow>
               (case Authorize caller role of
                  Inl err \<Rightarrow>
                    if err = ErrUnauthenticated then failM (Unauthenticated, ''valid bearer credentials are required'')
                    else failM (PermissionDenied, ''principal does not have the required role'')
                | Inr _ \<Rightarrow> handler (WithPrincipal None caller))))"

definition methodOf :: "GrpcRequest \<Rightarrow> string" where
  "methodOf request =
     (case request of
        GetRequest _ \<Rightarrow> GetChangePacket_FullMethodName
      | ListRequest _ \<Rightarrow> ListChangePackets_FullMethodName
      | AuditRequest _ \<Rightarrow> ListEvidenceAuditEntries_FullMethodName
      | UpdateRequest _ \<Rightarrow> UpdateEvidenceExecution_FullMethodName)"

definition Server_handle :: "GrpcEnv \<Rightarrow> 'w Service \<Rightarrow> GrpcRequest \<Rightarrow> Context \<Rightarrow> ('w, GrpcError, GrpcResponse) io" where
  \<comment> \<open>the registered method handlers\<close>
  "Server_handle env s request ctx =
     (case request of
        GetRequest r \<Rightarrow> bindM (Server_GetChangePacket env s r) (\<lambda>m. retM (GetResponse m))
      | ListRequest r \<Rightarrow> bindM (Server_ListChangePackets env s r) (\<lambda>m. retM (ListResponse m))
      | AuditRequest r \<Rightarrow> bindM (Server_ListEvidenceAuditEntries env s r) (\<lambda>m. retM (AuditResponse m))
      | UpdateRequest r \<Rightarrow> bindM (Server_UpdateEvidenceExecution env ctx s r) (\<lambda>m. retM (UpdateResponse m)))"

definition controlPlaneGRPC ::
  "(string \<Rightarrow> AccessError + Principal) \<Rightarrow> GrpcEnv \<Rightarrow> 'w Service \<Rightarrow> string list \<Rightarrow> GrpcRequest
     \<Rightarrow> ('w, GrpcError, GrpcResponse) io" where
  "controlPlaneGRPC authenticate env s values request =
     AccessUnaryServerInterceptor authenticate values (methodOf request) (Server_handle env s request)"

section \<open>Lemmas\<close>

lemma method_names_distinct [simp]:
  "UpdateEvidenceExecution_FullMethodName \<noteq> GetChangePacket_FullMethodName"
  "UpdateEvidenceExecution_FullMethodName \<noteq> ListChangePackets_FullMethodName"
  "UpdateEvidenceExecution_FullMethodName \<noteq> ListEvidenceAuditEntries_FullMethodName"
  by (simp_all add: UpdateEvidenceExecution_FullMethodName_def GetChangePacket_FullMethodName_def
      ListChangePackets_FullMethodName_def ListEvidenceAuditEntries_FullMethodName_def)

lemma roleForMethod_methodOf:
  "roleForMethod (methodOf request) =
     Some (case request of UpdateRequest _ \<Rightarrow> RoleEvidenceWriter | _ \<Rightarrow> RoleReader)"
  by (cases request) (simp_all add: methodOf_def roleForMethod_def)

lemma bindM_world: "bindM m f w = (r, w') \<Longrightarrow> (\<And>a v. snd (f a v) = v) \<Longrightarrow> \<exists>r1. m w = (r1, w')"
  by (auto simp: bindM_def split: prod.splits sum.splits) (metis snd_conv)+

lemma wrapM_world: "wrapM g m w = (r, w') \<Longrightarrow> \<exists>r1. m w = (r1, w')"
  by (auto simp: wrapM_def split: prod.splits)

lemma Server_reads:
  assumes "Server_handle env (memoryService ord now assigner publisher) request ctx w = (r, w')"
    and "\<forall>u. request \<noteq> UpdateRequest u"
  shows "w' = w"
  using assms
  by (cases request)
    (auto simp: Server_handle_def Server_GetChangePacket_def Server_ListChangePackets_def
      Server_ListEvidenceAuditEntries_def split: if_splits
      dest!: bindM_world wrapM_world read_worlds)

text \<open>What is left of an integer in a signed field of 32 bits.\<close>

definition wrap32 :: "int \<Rightarrow> int" where
  "wrap32 k = (k + 2 ^ 31) mod 2 ^ 32 - 2 ^ 31"

lemma sint_wrap: "sint (word_of_int k :: 32 word) = wrap32 k"
  unfolding signed_of_int wrap32_def
  by (simp add: signed_take_bit_eq_take_bit_shift take_bit_eq_mod)

lemma wrap32_range: "- (2 ^ 31) \<le> wrap32 k \<and> wrap32 k < 2 ^ 31"
  using pos_mod_bound [of "2 ^ 32" "k + 2 ^ 31"] pos_mod_sign [of "2 ^ 32" "k + 2 ^ 31"] by (simp add: wrap32_def)

lemma wrap32_small: "- (2 ^ 31) \<le> k \<Longrightarrow> k < 2 ^ 31 \<Longrightarrow> wrap32 k = k"
  by (simp add: wrap32_def)

text \<open>A listing of the store in memory: the newest packets, up to the limit.\<close>

definition newest :: "(string \<rightharpoonup> ChangePacket) \<Rightarrow> int \<Rightarrow> ChangePacket list \<Rightarrow> bool" where
  "newest stored limit items \<longleftrightarrow>
     distinct (map cp_ID items) \<and> (\<forall>p \<in> set items. stored (cp_ID p) = Some p)
     \<and> int (length items) = min limit (int (card (dom stored)))
     \<and> sorted_wrt (\<lambda>p q. cp_UpdatedAt q \<le> cp_UpdatedAt p) items
     \<and> (\<forall>q \<in> ran stored - set items. \<forall>p \<in> set items. cp_UpdatedAt q \<le> cp_UpdatedAt p)"

lemma ListChangePackets_newest:
  assumes ord: "map_order ord" and v: "mem_valid w" and l: "0 < limit"
  shows "\<exists>items. ListChangePackets ord limit w = (Inr items, w) \<and> newest (mem_packets w) limit items"
proof -
  let ?m = "mr_changePackets w"
  define xs where "xs = sort_key (\<lambda>p. - cp_UpdatedAt p) (map snd (range_map ord ?m))"
  define k where "k = nat limit"
  have d: "distinct (map fst ?m)" and ids: "\<And>i p. (i, p) \<in> set ?m \<Longrightarrow> cp_ID p = i"
    using v by (auto simp: mem_valid_def)
  have m: "mset xs = mset (map snd ?m)" using mset_range_map [OF ord d] by (simp add: xs_def mset_map [symmetric] del: mset_map) (simp add: mset_map)
  have keys: "map cp_ID (map snd ?m) = map fst ?m" using ids by auto
  have "mset (map cp_ID xs) = mset (map fst ?m)" unfolding keys [symmetric] mset_map m ..
  then have dx: "distinct (map cp_ID xs)" using d mset_eq_imp_distinct_iff by blast
  have sx: "set xs = ran (mem_packets w)"
    using mset_eq_setD [OF m] d by (auto simp: mem_packets_def ran_distinct)
  have stored: "mem_packets w (cp_ID p) = Some p" if "p \<in> set xs" for p
    using that mset_eq_setD [OF m] ids d by (fastforce simp: mem_packets_def)
  have len: "length xs = card (dom (mem_packets w))"
    using m d by (metis (no_types, lifting) distinct_card dom_map_of_conv_image_fst length_map mem_packets_def set_map size_mset)
  have sorted: "sorted_wrt (\<lambda>p q. cp_UpdatedAt q \<le> cp_UpdatedAt p) xs"
    unfolding xs_def using sorted_sort_key [of "\<lambda>p. - cp_UpdatedAt p" "map snd (range_map ord ?m)"] by (simp add: sorted_wrt_map)
  have items: "ListChangePackets ord limit w = (Inr (take k xs), w)"
    using l by (auto simp: ListChangePackets_def limited_def xs_def k_def)
  have "newest (mem_packets w) limit (take k xs)"
    unfolding newest_def
  proof (intro conjI ballI)
    show "distinct (map cp_ID (take k xs))" using dx by (simp add: take_map [symmetric])
    show "mem_packets w (cp_ID p) = Some p" if "p \<in> set (take k xs)" for p
      using that stored in_set_takeD by fast
    show "int (length (take k xs)) = min limit (int (card (dom (mem_packets w))))" using l len by (simp add: k_def)
    show "sorted_wrt (\<lambda>p q. cp_UpdatedAt q \<le> cp_UpdatedAt p) (take k xs)" using sorted by (rule sorted_wrt_take)
    fix q p assume q: "q \<in> ran (mem_packets w) - set (take k xs)" and p: "p \<in> set (take k xs)"
    then have "q \<in> set (drop k xs)" using sx by (metis DiffE UnE append_take_drop_id set_append)
    then show "cp_UpdatedAt q \<le> cp_UpdatedAt p"
      using sorted p by (metis append_take_drop_id sorted_wrt_append)
  qed
  then show ?thesis using items by blast
qed

definition carries :: "ChangePacket \<Rightarrow> ChangePacketSummary \<Rightarrow> bool" where
  "carries p m \<longleftrightarrow> su_Id m = cp_ID p \<and> su_Repo m = rr_FullName (cp_Repo p) \<and> su_MergeLane m = cp_MergeLane p
     \<and> sint (su_PrNumber m) = wrap32 (pr_Number (cp_PR p)) \<and> sint (su_RiskScore m) = wrap32 (rs_Score (cp_RiskSummary p))"

lemma toListChangePacketsResponse_carries: "list_all2 carries items (toListChangePacketsResponse items)"
  by (simp add: toListChangePacketsResponse_def list_all2_conv_all_nth carries_def sint_wrap)

lemma grpcLimit_cases: "grpcLimit l = (if sint l \<le> 0 then 50 else min (sint l) 200)"
  by (simp add: grpcLimit_def DefaultListLimit_def MaxListLimit_def Let_def)

section \<open>Properties\<close>

text \<open>
  C13: evidence changes only for an authorized writer, over gRPC. A call that changes the store is an
  update of evidence by an authenticated caller with the evidence-writer or administrator role, exactly
  one value of the authorization metadata was given, and the audit entry it adds names that caller; and
  a method that the access policy does not list is denied before anything else happens.
\<close>

theorem grpc_evidence_authorized:
  assumes "map_order ord" and "mem_valid w"
    and "controlPlaneGRPC authenticate env (memoryService ord now assigner publisher) values request w = (r, w')"
    and "w' \<noteq> w"
  shows "(\<exists>u caller a. request = UpdateRequest u \<and> authenticate (authorizationFromMetadata values) = Inr caller
      \<and> (RoleEvidenceWriter \<in> set (pn_Roles caller) \<or> RoleAdmin \<in> set (pn_Roles caller))
      \<and> mr_auditByCPID w' = (mr_auditByCPID w)(ur_ChangePacketId u := mr_auditByCPID w (ur_ChangePacketId u) @ [a])
      \<and> ae_Actor a = pn_Subject caller \<and> ae_EvidenceName a = ur_Name u \<and> ae_ToStatus a = ur_Status u)
    \<and> (roleForMethod other = None \<longrightarrow>
         AccessUnaryServerInterceptor authenticate values other handler w
           = (Inl (PermissionDenied, ''method has no access policy''), w))"
proof (rule conjI)
  let ?s = "memoryService ord now assigner publisher"
  obtain caller where c: "authenticate (authorizationFromMetadata values) = Inr caller"
    "Authorize caller (case request of UpdateRequest _ \<Rightarrow> RoleEvidenceWriter | _ \<Rightarrow> RoleReader) = Inr ()"
    "Server_handle env ?s request (Some caller) w = (r, w')"
    using assms(3,4)
    by (auto simp: controlPlaneGRPC_def AccessUnaryServerInterceptor_def roleForMethod_methodOf WithPrincipal_def
        split: sum.splits if_splits)
  obtain u where u: "request = UpdateRequest u" using Server_reads [OF c(3)] assms(4) by blast
  let ?x = "fromUpdateEvidenceExecutionRequest u"
  have x: "ee_ChangePacketID ?x = ur_ChangePacketId u" "ee_Name ?x = ur_Name u" "ee_Status ?x = ur_Status u"
    by (simp_all add: fromUpdateEvidenceExecutionRequest_def)
  obtain ru where run: "UpdateEvidenceExecution (ge_Call env) (Some caller) ?s ?x w = (ru, w')"
    using c(3) assms(4) unfolding u
    by (auto simp: Server_handle_def Server_UpdateEvidenceExecution_def split: if_splits
        dest!: bindM_world wrapM_world)
  have "evidenceRecorded (attributed (Some caller) ?x) (mem_evidence w) (mr_auditByCPID w)
      (mem_evidence w') (mr_auditByCPID w')"
    by (rule world.update_cases [OF conjI [OF assms(1,2)] run [unfolded memoryService_def]]) (use assms(4) in simp_all)
  then obtain a where "mr_auditByCPID w' = (mr_auditByCPID w)(ur_ChangePacketId u := mr_auditByCPID w (ur_ChangePacketId u) @ [a])"
    "ae_Actor a = pn_Subject caller" "ae_EvidenceName a = ur_Name u" "ae_ToStatus a = ur_Status u"
    by (auto simp: evidenceRecorded_def attributed_def PrincipalFromContext_def x)
  then show "\<exists>u caller a. request = UpdateRequest u \<and> authenticate (authorizationFromMetadata values) = Inr caller
      \<and> (RoleEvidenceWriter \<in> set (pn_Roles caller) \<or> RoleAdmin \<in> set (pn_Roles caller))
      \<and> mr_auditByCPID w' = (mr_auditByCPID w)(ur_ChangePacketId u := mr_auditByCPID w (ur_ChangePacketId u) @ [a])
      \<and> ae_Actor a = pn_Subject caller \<and> ae_EvidenceName a = ur_Name u \<and> ae_ToStatus a = ur_Status u"
    using u c(1,2) by (auto simp: Authorize_Inr)
qed (simp add: AccessUnaryServerInterceptor_def)

definition sampleUpdateRequest :: UpdateEvidenceExecutionRequest where
  "sampleUpdateRequest = \<lparr>ur_ChangePacketId = ''cp_1'', ur_Name = ''tests'', ur_Type = [], ur_Status = EvidenceSatisfied,
     ur_Required = False, ur_Summary = [], ur_DetailsUrl = [], ur_UpdatedBy = ''nobody''\<rparr>"

definition sampleGrpcEnv :: GrpcEnv where
  "sampleGrpcEnv = \<lparr>ge_Call = sampleEnv, ge_FormatRFC3339 = (\<lambda>t. Itoa t), ge_Quote = (\<lambda>s. s)\<rparr>"

theorem grpc_evidence_authorized_witness:
  "\<exists>r w' a. controlPlaneGRPC (\<lambda>_. Inr sampleWriter) sampleGrpcEnv (memoryService rev 7 None None) [''Bearer t'']
       (UpdateRequest sampleUpdateRequest) sampleWorld = (r, w')
     \<and> mr_auditByCPID w' ''cp_1'' = mr_auditByCPID sampleWorld ''cp_1'' @ [a] \<and> ae_Actor a = ''ci''"
proof -
  let ?s = "memoryService rev 7 None None :: unit World Service"
  let ?x = "fromUpdateEvidenceExecutionRequest sampleUpdateRequest"
  have "updateError (Some sampleWriter) (mem_packets sampleWorld) (mem_evidence sampleWorld) ?x = None"
    using sample_names
    by (simp add: updateError_def Let_def sampleWorld_packets sampleWorld_status validEvidenceStatus_def
        canTransitionEvidence_def testsPacket_def testsRequirement_def sampleUpdateRequest_def
        fromUpdateEvidenceExecutionRequest_def)
  from world.update_accepted_world [OF _ this, where ord = rev and now = 7 and a = None and env = sampleEnv
      and publisher = None] sampleWorld_valid
  obtain y w' where u: "UpdateEvidenceExecution sampleEnv (Some sampleWriter) ?s ?x sampleWorld = (y, w')"
    "evidenceRecorded (attributed (Some sampleWriter) ?x) (mem_evidence sampleWorld) (mr_auditByCPID sampleWorld)
       (mem_evidence w') (mr_auditByCPID w')"
    unfolding memoryService_def by auto
  have "mr_auditByCPID w' (ee_ChangePacketID ?x) \<noteq> mr_auditByCPID sampleWorld (ee_ChangePacketID ?x)"
    using u(2) by (auto simp: evidenceRecorded_def)
  then have changed: "w' \<noteq> sampleWorld" by auto
  obtain r where run: "controlPlaneGRPC (\<lambda>_. Inr sampleWriter) sampleGrpcEnv ?s [''Bearer t''] (UpdateRequest sampleUpdateRequest)
      sampleWorld = (r, w')"
    using u(1) sampleRequest_PUT_facts(3)
    by (cases y) (auto simp: controlPlaneGRPC_def AccessUnaryServerInterceptor_def roleForMethod_methodOf WithPrincipal_def
        Server_handle_def Server_UpdateEvidenceExecution_def bindM_def wrapM_def sampleGrpcEnv_def
        sampleUpdateRequest_def)
  show ?thesis
    using conjunct1 [OF grpc_evidence_authorized [OF map_order_rev sampleWorld_valid run changed]] run
    by (auto simp: sampleUpdateRequest_def sampleWriter_def)
qed

text \<open>
  C40: a listing over gRPC. For every 32-bit limit a client can send, the call succeeds and changes nothing; it
  answers with the newest packets of the store, at most the limit, where a limit that is not positive means 50
  and one above 200 means 200; each message carries the identifier, repository and lane of its packet, and its
  number and score wrapped to 32 bits, which leaves every number of that range as it is. The score of a single
  packet wraps in the same way.
\<close>

theorem grpc_numbers:
  assumes "map_order ord" and "mem_valid w"
  shows "\<exists>items messages.
      Server_ListChangePackets env (memoryService ord now assigner publisher) request w = (Inr messages, w)
      \<and> newest (mem_packets w) (if sint (lp_Limit request) \<le> 0 then 50 else min (sint (lp_Limit request)) 200) items
      \<and> list_all2 carries items messages
      \<and> (\<forall>view. sint (ge_RiskScore (toGetChangePacketResponse env view)) = wrap32 (rs_Score (cp_RiskSummary (vw_Packet view))))
      \<and> (\<forall>k. - (2 ^ 31) \<le> k \<and> k < 2 ^ 31 \<longrightarrow> wrap32 k = k)"
proof -
  have "0 < grpcLimit (lp_Limit request)" by (simp add: grpcLimit_cases)
  from ListChangePackets_newest [OF assms this] obtain items where
    i: "ListChangePackets ord (grpcLimit (lp_Limit request)) w = (Inr items, w)"
       "newest (mem_packets w) (grpcLimit (lp_Limit request)) items"
    by blast
  then have "Server_ListChangePackets env (memoryService ord now assigner publisher) request w
      = (Inr (toListChangePacketsResponse items), w)"
    by (simp add: Server_ListChangePackets_def Service_ListChangePackets_def memoryService_def memoryRepository_def)
  moreover have "sint (ge_RiskScore (toGetChangePacketResponse env view)) = wrap32 (rs_Score (cp_RiskSummary (vw_Packet view)))" for view
    by (simp add: toGetChangePacketResponse_def sint_wrap)
  ultimately show ?thesis
    using i(2) toListChangePacketsResponse_carries wrap32_small unfolding grpcLimit_cases by blast
qed

text \<open>The sample store has one packet; a limit of -1 lists it.\<close>

theorem grpc_numbers_witness:
  "\<exists>m. Server_ListChangePackets sampleGrpcEnv (memoryService rev 7 None None) \<lparr>lp_Limit = - 1\<rparr> sampleWorld = (Inr [m], sampleWorld)
     \<and> su_Id m = ''cp_1'' \<and> sint (su_RiskScore m) = 0"
proof -
  have stored: "dom (mem_packets sampleWorld) = {''cp_1''}" by (auto simp: sampleWorld_packets)
  obtain items messages where l: "Server_ListChangePackets sampleGrpcEnv (memoryService rev 7 None None) \<lparr>lp_Limit = - 1\<rparr> sampleWorld
      = (Inr messages, sampleWorld)" "newest (mem_packets sampleWorld) 50 items" "list_all2 carries items messages"
    using grpc_numbers [OF map_order_rev sampleWorld_valid, of sampleGrpcEnv 7 None None "\<lparr>lp_Limit = - 1\<rparr>"] by auto
  then have "length items = 1" "\<forall>p \<in> set items. mem_packets sampleWorld (cp_ID p) = Some p"
    using stored by (simp_all add: newest_def)
  then have "items = [testsPacket]" using sampleWorld_packets by (cases items) (auto split: if_splits)
  then show ?thesis using l by (auto simp: list_all2_Cons1 carries_def testsPacket_def zero_defs wrap32_def)
qed

end
