(* ===== verification/Diff.thy ===== *)
theory Diff
  imports Domain
begin

text \<open>
  The unified diff parser, \<open>pkg/diff/parser.go\<close>. The loop over the lines is a fold of
  \<open>parseLine\<close> over an explicit state (the finished files, the file being read and its lines so
  far); \<open>diffBlocks\<close> is the declarative reading it is proved equal to: a block starts at each
  header line and runs to the next one.
\<close>

section \<open>The parser\<close>

definition StatusAdded :: string where [domain_consts]: "StatusAdded = ''added''"
definition StatusModified :: string where [domain_consts]: "StatusModified = ''modified''"
definition StatusRemoved :: string where [domain_consts]: "StatusRemoved = ''removed''"
definition StatusRenamed :: string where [domain_consts]: "StatusRenamed = ''renamed''"

record File =
  df_Path :: string
  df_PreviousPath :: string
  df_Status :: string
  df_Additions :: int
  df_Deletions :: int
  df_Patch :: string

definition newline :: char where
  "newline = CHR 0x0A"

definition isHeader :: "string \<Rightarrow> bool" where
  "isHeader line \<longleftrightarrow> HasPrefix line ''diff --git ''"

definition isAddition :: "string \<Rightarrow> bool" where
  "isAddition line \<longleftrightarrow> HasPrefix line ''+'' \<and> \<not> HasPrefix line ''+++''"

definition isDeletion :: "string \<Rightarrow> bool" where
  "isDeletion line \<longleftrightarrow> HasPrefix line ''-'' \<and> \<not> HasPrefix line ''---''"

definition startFile :: "string \<Rightarrow> File" where
  "startFile line =
     (let f = \<lparr>df_Path = [], df_PreviousPath = [], df_Status = StatusModified,
               df_Additions = 0, df_Deletions = 0, df_Patch = []\<rparr>;
          parts = Split line CHR '' ''
      in if 4 \<le> length parts
         then f\<lparr>df_PreviousPath := TrimPrefix (parts ! 2) ''a/'',
                df_Path := TrimPrefix (parts ! 3) ''b/''\<rparr>
         else f)"

definition applyLine :: "File \<Rightarrow> string \<Rightarrow> File" where
  "applyLine f line =
     (if HasPrefix line ''new file mode'' then f\<lparr>df_Status := StatusAdded\<rparr>
      else if HasPrefix line ''deleted file mode'' then f\<lparr>df_Status := StatusRemoved\<rparr>
      else if HasPrefix line ''rename from '' then
        f\<lparr>df_PreviousPath := TrimPrefix line ''rename from '', df_Status := StatusRenamed\<rparr>
      else if HasPrefix line ''rename to '' then
        f\<lparr>df_Path := TrimPrefix line ''rename to '', df_Status := StatusRenamed\<rparr>
      else if isAddition line then f\<lparr>df_Additions := df_Additions f + 1\<rparr>
      else if isDeletion line then f\<lparr>df_Deletions := df_Deletions f + 1\<rparr>
      else f)"

record ParseState =
  ps_files :: "File list"
  ps_current :: "File option"
  ps_patch :: "string list"

definition flush :: "ParseState \<Rightarrow> ParseState" where
  "flush st =
     (case ps_current st of
        None \<Rightarrow> st
      | Some f \<Rightarrow>
          \<lparr>ps_files = ps_files st @ [f\<lparr>df_Patch := Join (ps_patch st) [newline]\<rparr>],
           ps_current = None, ps_patch = []\<rparr>)"

definition parseLine :: "ParseState \<Rightarrow> string \<Rightarrow> ParseState" where
  "parseLine st line =
     (if isHeader line
      then (let st' = flush st
            in st'\<lparr>ps_current := Some (startFile line), ps_patch := ps_patch st' @ [line]\<rparr>)
      else (case ps_current st of
              None \<Rightarrow> st
            | Some f \<Rightarrow>
                st\<lparr>ps_patch := ps_patch st @ [line], ps_current := Some (applyLine f line)\<rparr>))"

definition ParseUnified :: "string \<Rightarrow> string + File list" where
  "ParseUnified input =
     (if TrimSpace input = [] then Inr []
      else Inr (ps_files (flush (foldl parseLine
             \<lparr>ps_files = [], ps_current = None, ps_patch = []\<rparr> (Split input newline)))))"

section \<open>The declarative reading\<close>

fun diffBlocks :: "string list \<Rightarrow> string list list" where
  "diffBlocks [] = []"
| "diffBlocks (l # ls) =
     (if isHeader l then (l # takeWhile (\<lambda>x. \<not> isHeader x) ls) # diffBlocks ls
      else diffBlocks ls)"

definition blockFile :: "string list \<Rightarrow> File" where
  "blockFile b = (foldl applyLine (startFile (hd b)) (tl b))\<lparr>df_Patch := Join b [newline]\<rparr>"

lemma concat_diffBlocks: "concat (diffBlocks ls) = dropWhile (\<lambda>x. \<not> isHeader x) ls"
  by (induction ls) auto

lemma length_diffBlocks: "length (diffBlocks ls) = length (filter isHeader ls)"
  by (induction ls) auto

lemma diffBlocks_shape:
  "b \<in> set (diffBlocks ls) \<Longrightarrow>
   \<exists>h t. b = h # t \<and> isHeader h \<and> (\<forall>l\<in>set t. \<not> isHeader l) \<and> set b \<subseteq> set ls"
proof (induction ls)
  case (Cons l ls)
  show ?case
  proof (cases "isHeader l \<and> b = l # takeWhile (\<lambda>x. \<not> isHeader x) ls")
    case True
    then show ?thesis by (auto dest: set_takeWhileD)
  next
    case False
    with Cons.prems have "b \<in> set (diffBlocks ls)" by (auto split: if_splits)
    then show ?thesis using Cons.IH by fastforce
  qed
qed simp

text \<open>
  The fold from a state that is reading a file: it finishes that file with the lines up to the
  next header and then reads the remaining blocks.
\<close>

lemma parse_open_file:
  assumes "ps_current st = Some f"
  shows "ps_files (flush (foldl parseLine st ls)) =
    ps_files st
    @ [(foldl applyLine f (takeWhile (\<lambda>x. \<not> isHeader x) ls))
         \<lparr>df_Patch := Join (ps_patch st @ takeWhile (\<lambda>x. \<not> isHeader x) ls) [newline]\<rparr>]
    @ map blockFile (diffBlocks ls)"
  using assms
proof (induction ls arbitrary: st f)
  case Nil
  then show ?case by (simp add: flush_def)
next
  case (Cons l ls)
  show ?case
  proof (cases "isHeader l")
    case True
    let ?st = "(flush st)\<lparr>ps_current := Some (startFile l), ps_patch := ps_patch (flush st) @ [l]\<rparr>"
    have "parseLine st l = ?st" using True by (simp add: parseLine_def Let_def)
    then show ?thesis
      using Cons.IH [of ?st "startFile l"] Cons.prems True
      by (simp add: flush_def blockFile_def)
  next
    case False
    then have "parseLine st l =
        st\<lparr>ps_patch := ps_patch st @ [l], ps_current := Some (applyLine f l)\<rparr>"
      using Cons.prems by (simp add: parseLine_def)
    then show ?thesis
      using Cons.IH [of "st\<lparr>ps_patch := ps_patch st @ [l], ps_current := Some (applyLine f l)\<rparr>"]
        False by simp
  qed
qed

lemma parse_no_file:
  assumes "ps_current st = None" and "ps_patch st = []"
  shows "ps_files (flush (foldl parseLine st ls)) = ps_files st @ map blockFile (diffBlocks ls)"
  using assms
proof (induction ls arbitrary: st)
  case Nil
  then show ?case by (simp add: flush_def)
next
  case (Cons l ls)
  show ?case
  proof (cases "isHeader l")
    case True
    let ?st = "st\<lparr>ps_current := Some (startFile l), ps_patch := [l]\<rparr>"
    have "parseLine st l = ?st"
      using True Cons.prems by (simp add: parseLine_def flush_def Let_def)
    then show ?thesis
      using True parse_open_file [of ?st "startFile l" ls] by (simp add: blockFile_def)
  next
    case False
    then have "parseLine st l = st" using Cons.prems by (simp add: parseLine_def)
    then show ?thesis using Cons False by simp
  qed
qed

lemma ParseUnified_blocks:
  "ParseUnified input =
     Inr (if TrimSpace input = [] then [] else map blockFile (diffBlocks (Split input newline)))"
  by (simp add: ParseUnified_def parse_no_file)

lemma applyLine_counts:
  "df_Additions (applyLine f l) = df_Additions f + (if isAddition l then 1 else 0)"
  "df_Deletions (applyLine f l) = df_Deletions f + (if isDeletion l then 1 else 0)"
  by (cases l; auto simp: applyLine_def isAddition_def isDeletion_def HasPrefix_def)+

lemma foldl_applyLine_counts:
  "df_Additions (foldl applyLine f ls) = df_Additions f + int (length (filter isAddition ls))"
  "df_Deletions (foldl applyLine f ls) = df_Deletions f + int (length (filter isDeletion ls))"
  by (induction ls arbitrary: f) (simp_all add: applyLine_counts)

lemma startFile_counts [simp]: "df_Additions (startFile l) = 0" "df_Deletions (startFile l) = 0"
  by (simp_all add: startFile_def Let_def)

lemma header_not_change: "isHeader l \<Longrightarrow> \<not> isAddition l \<and> \<not> isDeletion l"
  by (cases l) (auto simp: isHeader_def isAddition_def isDeletion_def HasPrefix_def)

lemma blockFile_patch_lines:
  assumes "b \<in> set (diffBlocks (Split input newline))"
  shows "Split (df_Patch (blockFile b)) newline = b"
proof -
  obtain h t where b: "b = h # t" and sub: "set b \<subseteq> set (Split input newline)"
    using diffBlocks_shape [OF assms] by blast
  then have "\<forall>w\<in>set b. newline \<notin> set w" using Split_sep_free by blast
  then show ?thesis using b by (simp add: blockFile_def Split_Join)
qed

lemma blockFile_counts:
  assumes "b \<in> set (diffBlocks ls)"
  shows "df_Additions (blockFile b) = int (length (filter isAddition b))"
    and "df_Deletions (blockFile b) = int (length (filter isDeletion b))"
proof -
  obtain h t where b: "b = h # t" and h: "isHeader h"
    using diffBlocks_shape [OF assms] by blast
  then show "df_Additions (blockFile b) = int (length (filter isAddition b))"
    and "df_Deletions (blockFile b) = int (length (filter isDeletion b))"
    using header_not_change [OF h] by (simp_all add: blockFile_def foldl_applyLine_counts)
qed

section \<open>Properties\<close>

text \<open>
  C34: the parser is total and lossless. It never fails; it returns one file per
  \<open>diff --git\<close> line; and the patches of the files, split into lines and put one after the
  other, are exactly the lines of the input from the first such line on (nothing for a blank
  input).
\<close>

theorem ParseUnified_lossless:
  "\<exists>fs. ParseUnified input = Inr fs \<and>
     (TrimSpace input \<noteq> [] \<longrightarrow>
        length fs = length (filter isHeader (Split input newline)) \<and>
        concat (map (\<lambda>f. Split (df_Patch f) newline) fs)
          = dropWhile (\<lambda>l. \<not> isHeader l) (Split input newline))"
proof (cases "TrimSpace input = []")
  case True
  then show ?thesis by (simp add: ParseUnified_blocks)
next
  case False
  let ?bs = "diffBlocks (Split input newline)"
  have "map (\<lambda>f. Split (df_Patch f) newline) (map blockFile ?bs) = ?bs"
    by (simp add: comp_def blockFile_patch_lines map_idI)
  then show ?thesis
    using False
    by (intro exI [of _ "map blockFile ?bs"] conjI impI)
       (simp_all add: ParseUnified_blocks length_diffBlocks flip: concat_diffBlocks)
qed

definition sampleDiff :: string where
  "sampleDiff = Join [''diff --git a/x b/x'', ''--- a/x'', ''+++ b/x'', ''+one'', ''+two'', ''-old''] [newline]"

theorem ParseUnified_lossless_witness:
  "\<exists>fs. ParseUnified sampleDiff = Inr fs \<and>
     concat (map (\<lambda>f. Split (df_Patch f) newline) fs) =
       [''diff --git a/x b/x'', ''--- a/x'', ''+++ b/x'', ''+one'', ''+two'', ''-old'']"
proof -
  have "TrimSpace sampleDiff \<noteq> []" by code_simp
  moreover have "dropWhile (\<lambda>l. \<not> isHeader l) (Split sampleDiff newline) =
      [''diff --git a/x b/x'', ''--- a/x'', ''+++ b/x'', ''+one'', ''+two'', ''-old'']"
    by code_simp
  ultimately show ?thesis using ParseUnified_lossless [of sampleDiff] by auto
qed

text \<open>
  The change counters of a parsed file are the numbers of added and removed lines of its own
  patch: the lines that start with a single plus or minus and are no file marker.
\<close>

theorem ParseUnified_counts:
  assumes "ParseUnified input = Inr fs" and "f \<in> set fs"
  shows "df_Additions f = int (length (filter isAddition (Split (df_Patch f) newline)))
    \<and> df_Deletions f = int (length (filter isDeletion (Split (df_Patch f) newline)))"
proof -
  from assms obtain b where b: "b \<in> set (diffBlocks (Split input newline))" and f: "f = blockFile b"
    by (auto simp: ParseUnified_blocks split: if_splits)
  then show ?thesis using blockFile_counts [OF b] blockFile_patch_lines [OF b] by simp
qed

theorem ParseUnified_counts_witness:
  "df_Additions (hd (projr (ParseUnified sampleDiff))) = 2
   \<and> df_Deletions (hd (projr (ParseUnified sampleDiff))) = 1"
proof -
  let ?f = "blockFile [''diff --git a/x b/x'', ''--- a/x'', ''+++ b/x'', ''+one'', ''+two'', ''-old'']"
  have p: "ParseUnified sampleDiff = Inr [?f]"
    unfolding ParseUnified_blocks by code_simp
  have "Split (df_Patch ?f) newline =
      [''diff --git a/x b/x'', ''--- a/x'', ''+++ b/x'', ''+one'', ''+two'', ''-old'']"
    by code_simp
  with ParseUnified_counts [OF p, of ?f] show ?thesis
    unfolding p by (simp add: isAddition_def isDeletion_def HasPrefix_def)
qed

end
