(* ===== verification/Conflict.thy ===== *)
theory Conflict
  imports Domain
begin

text \<open>
  Detection of merge-conflict and base-drift risk, \<open>internal/conflictrisk/analyzer.go\<close>. The map
  \<open>seen\<close> from normalised paths to the original paths is ranged over, so the iteration order is
  an argument; \<open>uniqueSorted\<close> ranges over a set and sorts, which removes the order again.
\<close>

section \<open>The analyzer\<close>

definition currentBaseSHAMetadataKey :: string where
  "currentBaseSHAMetadataKey = ''current_base_sha''"

definition hasConflictMarkers :: "string \<Rightarrow> bool" where
  "hasConflictMarkers patch \<longleftrightarrow>
     Contains patch ''<<<<<<< '' \<and> Contains patch ''======='' \<and> Contains patch ''>>>>>>> ''"

definition normalizedPath :: "string \<Rightarrow> string" where
  \<comment> \<open>\<^verbatim>\<open>filepath.ToSlash\<close> is the identity where the separator is the slash\<close>
  "normalizedPath path = TrimPrefix (TrimSpace path) ''./''"

definition isPolicySensitive :: "string \<Rightarrow> bool" where
  "isPolicySensitive path \<longleftrightarrow>
     (let base = ToLower (Base path); lower = ToLower path
      in base = ''codeowners'' \<or> base = ''merger.yaml'' \<or> HasPrefix lower ''.github/workflows/''
         \<or> HasPrefix lower ''config/'' \<or> HasPrefix lower ''deployments/''
         \<or> Contains lower ''terraform'' \<or> Contains lower ''migration'' \<or> Contains lower ''schema'')"

definition uniqueSorted :: "key_order \<Rightarrow> string list \<Rightarrow> string list" where
  "uniqueSorted ord paths =
     sort (map fst (range_map ord (foldl (\<lambda>set path. AList.update path () set) [] paths)))"

type_synonym scan_state = "(string \<times> string list) list \<times> string list \<times> string list"

definition scanFile :: "scan_state \<Rightarrow> ChangedFile \<Rightarrow> scan_state" where
  "scanFile st file =
     (let (seen, sensitive, markerPaths) = st; path = normalizedPath (cf_Path file)
      in if path = [] then (seen, sensitive, markerPaths)
         else (AList.update path
                 ((case map_of seen path of None \<Rightarrow> [] | Some ps \<Rightarrow> ps) @ [cf_Path file]) seen,
               if isPolicySensitive path then sensitive @ [cf_Path file] else sensitive,
               if hasConflictMarkers (cf_Patch file) then markerPaths @ [cf_Path file]
               else markerPaths))"

definition driftStep :: "ConflictAssessment \<Rightarrow> ConflictAssessment" where
  "driftStep a =
     (if ca_BaseSHA a \<noteq> [] \<and> ca_CurrentBaseSHA a \<noteq> [] \<and> ca_BaseSHA a \<noteq> ca_CurrentBaseSHA a
      then a\<lparr>ca_Findings := ca_Findings a @
               [\<lparr>fi_Kind = ''base_drift'', fi_Severity = SeverityHigh,
                 fi_Summary = ''the target branch advanced after this change was based'',
                 fi_Paths = []\<rparr>],
             ca_Score := ca_Score a + 25,
             ca_Mitigations := ca_Mitigations a @
               [''rebase or update the change onto the current target branch and rerun required checks''],
             ca_Route := ConflictRouteRefreshAndVerify\<rparr>
      else a)"

definition routeIfNone :: "ConflictAssessment \<Rightarrow> ConflictAssessment" where
  "routeIfNone a =
     (if ca_Route a = ConflictRouteNone then a\<lparr>ca_Route := ConflictRouteRefreshAndVerify\<rparr> else a)"

definition overlapStep ::
  "key_order \<Rightarrow> ConflictAssessment \<Rightarrow> string \<times> string list \<Rightarrow> ConflictAssessment" where
  "overlapStep ord a entry =
     (let originalPaths = snd entry
      in if length originalPaths < 2 then a
         else routeIfNone
           (a\<lparr>ca_Findings := ca_Findings a @
                [\<lparr>fi_Kind = ''overlapping_diff_entries'', fi_Severity = SeverityMedium,
                  fi_Summary = ''multiple diff entries modify the same normalized path'',
                  fi_Paths = uniqueSorted ord originalPaths\<rparr>],
              ca_Score := ca_Score a + 20,
              ca_Mitigations := ca_Mitigations a @
                [''inspect overlapping diff entries before merge and verify the resulting file content'']\<rparr>))"

definition sensitiveStep :: "key_order \<Rightarrow> string list \<Rightarrow> ConflictAssessment \<Rightarrow> ConflictAssessment" where
  "sensitiveStep ord sensitive a =
     (if length sensitive > 0
      then routeIfNone
        (a\<lparr>ca_Findings := ca_Findings a @
             [\<lparr>fi_Kind = ''policy_sensitive_files'', fi_Severity = SeverityMedium,
               fi_Summary = ''the change touches files whose concurrent edits can alter policy, deployment, or ownership behavior'',
               fi_Paths = uniqueSorted ord sensitive\<rparr>],
           ca_Score := ca_Score a + 10,
           ca_Mitigations := ca_Mitigations a @
             [''confirm policy-sensitive changes against the current target branch and obtain the designated owner review'']\<rparr>)
      else a)"

definition markerStep :: "key_order \<Rightarrow> string list \<Rightarrow> ConflictAssessment \<Rightarrow> ConflictAssessment" where
  "markerStep ord markerPaths a =
     (if length markerPaths > 0
      then a\<lparr>ca_Findings := ca_Findings a @
               [\<lparr>fi_Kind = ''conflict_markers'', fi_Severity = SeverityCritical,
                 fi_Summary = ''unresolved merge-conflict markers are present in the proposed patch'',
                 fi_Paths = uniqueSorted ord markerPaths\<rparr>],
             ca_Score := ca_Score a + 45,
             ca_RequiresHumanResolution := True,
             ca_Route := ConflictRouteHumanResolution,
             ca_Mitigations := ca_Mitigations a @
               [''resolve conflict markers manually, inspect the resulting diff, and rerun all required verification'']\<rparr>
      else a)"

definition Analyze :: "key_order \<Rightarrow> ChangePacket \<Rightarrow> ConflictAssessment" where
  "Analyze ord packet =
     (let assessment = zeroConflictAssessment\<lparr>ca_BaseSHA := pr_BaseSHA (cp_PR packet),
            ca_CurrentBaseSHA := TrimSpace (mapGet (cp_Metadata packet) currentBaseSHAMetadataKey),
            ca_Route := ConflictRouteNone\<rparr>;
          (seen, sensitive, markerPaths) = foldl scanFile ([], [], []) (cp_Files packet);
          assessment = driftStep assessment;
          assessment = foldl (overlapStep ord) assessment (range_map ord seen);
          assessment = sensitiveStep ord sensitive assessment;
          assessment = markerStep ord markerPaths assessment
      in assessment\<lparr>ca_Score := min (ca_Score assessment) 100\<rparr>)"

section \<open>What the scan collects\<close>

definition pathOf :: "ChangedFile \<Rightarrow> string" where
  "pathOf file = normalizedPath (cf_Path file)"

definition pathed :: "ChangedFile list \<Rightarrow> ChangedFile list" where
  \<comment> \<open>the files whose normalised path is not empty\<close>
  "pathed files = filter (\<lambda>f. pathOf f \<noteq> []) files"

definition pathsAt :: "string \<Rightarrow> ChangedFile list \<Rightarrow> string list" where
  "pathsAt p files = map cf_Path (filter (\<lambda>f. pathOf f = p) files)"

definition sensitivePaths :: "ChangedFile list \<Rightarrow> string list" where
  "sensitivePaths files = map cf_Path (filter (\<lambda>f. isPolicySensitive (pathOf f)) (pathed files))"

definition markedPaths :: "ChangedFile list \<Rightarrow> string list" where
  "markedPaths files = map cf_Path (filter (\<lambda>f. hasConflictMarkers (cf_Patch f)) (pathed files))"

lemma pathsAt_snoc: "pathsAt p (fs @ [f]) = pathsAt p fs @ (if pathOf f = p then [cf_Path f] else [])"
  by (simp add: pathsAt_def)

lemma pathsAt_empty: "pathsAt p fs = [] \<longleftrightarrow> p \<notin> pathOf ` set fs"
  by (auto simp: pathsAt_def filter_empty_conv)

definition scanned :: "ChangedFile list \<Rightarrow> scan_state \<Rightarrow> bool" where
  "scanned files st \<longleftrightarrow>
     (case st of (seen, sensitive, markers) \<Rightarrow>
        distinct (map fst seen) \<and> fst ` set seen = pathOf ` set (pathed files)
        \<and> (\<forall>p ps. (p, ps) \<in> set seen \<longrightarrow> ps = pathsAt p files)
        \<and> sensitive = sensitivePaths files \<and> markers = markedPaths files)"

lemmas path_lists = pathOf_def pathed_def sensitivePaths_def markedPaths_def

lemma scanned_skip:
  assumes "scanned fs (seen, sensitive, markers)" and "pathOf f = []"
  shows "scanned (fs @ [f]) (scanFile (seen, sensitive, markers) f)"
proof -
  have "ps = pathsAt p (fs @ [f])" if i: "(p, ps) \<in> set seen" for p ps
  proof -
    have "p \<in> fst ` set seen" using i by force
    then have "p \<noteq> []" using assms(1) by (auto simp: scanned_def pathed_def)
    then show ?thesis using assms i by (simp add: scanned_def pathsAt_snoc)
  qed
  then show ?thesis using assms by (simp add: scanFile_def scanned_def path_lists)
qed

lemma scanned_current:
  assumes "scanned fs (seen, sensitive, markers)" and "p \<noteq> []"
  shows "(case map_of seen p of None \<Rightarrow> [] | Some ps \<Rightarrow> ps) = pathsAt p fs"
proof (cases "map_of seen p")
  case None
  then have "p \<notin> pathOf ` set (pathed fs)"
    using assms(1) by (simp add: scanned_def map_of_eq_None_iff)
  then have "pathsAt p fs = []" using assms(2) by (auto simp: pathsAt_empty pathed_def)
  then show ?thesis using None by simp
next
  case (Some ps)
  then have "(p, ps) \<in> set seen" by (rule map_of_SomeD)
  then show ?thesis using assms(1) Some by (simp add: scanned_def)
qed

lemma scanned_add:
  assumes "scanned fs (seen, sensitive, markers)" and "pathOf f \<noteq> []"
  shows "scanned (fs @ [f]) (scanFile (seen, sensitive, markers) f)"
proof -
  let ?new = "AList.update (pathOf f) (pathsAt (pathOf f) (fs @ [f])) seen"
  have d: "distinct (map fst seen)" using assms(1) by (simp add: scanned_def)
  have "scanFile (seen, sensitive, markers) f
      = (?new, sensitivePaths (fs @ [f]), markedPaths (fs @ [f]))"
    using assms scanned_current [OF assms]
    by (simp add: scanFile_def pathsAt_snoc scanned_def path_lists Let_def)
  moreover have "(p, ps) \<in> set ?new \<longrightarrow> ps = pathsAt p (fs @ [f])" for p ps
    using assms d by (auto simp: scanned_def in_set_update pathsAt_snoc)
  moreover have "fst ` set ?new = pathOf ` set (pathed (fs @ [f]))"
    using assms by (simp add: scanned_def fst_set_update pathed_def)
  ultimately show ?thesis using d by (simp add: scanned_def distinct_update)
qed

lemma scanned_all: "scanned files (foldl scanFile ([], [], []) files)"
proof (induction files rule: rev_induct)
  case (snoc f fs)
  then show ?case
    using scanned_skip scanned_add
    by (cases "foldl scanFile ([], [], []) fs"; cases "pathOf f = []") simp_all
qed (simp add: scanned_def path_lists)

lemma scan_result:
  assumes "foldl scanFile ([], [], []) files = (seen, sensitive, markers)"
  shows "distinct (map fst seen)" and "fst ` set seen = pathOf ` set (pathed files)"
    and "(p, ps) \<in> set seen \<Longrightarrow> ps = pathsAt p files"
    and "sensitive = sensitivePaths files" and "markers = markedPaths files"
  using scanned_all [of files] assms by (simp_all add: scanned_def)

section \<open>What the steps add\<close>

lemma keys_of_set: "foldl (\<lambda>m p. AList.update p () m) m0 ps = m \<Longrightarrow> distinct (map fst m0) \<Longrightarrow>
  distinct (map fst m) \<and> fst ` set m = fst ` set m0 \<union> set ps"
  by (induction ps arbitrary: m0) (auto simp: distinct_update fst_set_update)

lemma uniqueSorted_eq: "map_order ord \<Longrightarrow> uniqueSorted ord paths = sorted_list_of_set (set paths)"
proof -
  assume ord: "map_order ord"
  let ?m = "foldl (\<lambda>set path. AList.update path () set) [] paths"
  have d: "distinct (map fst ?m)" and k: "fst ` set ?m = set paths"
    using keys_of_set [of "[]" paths ?m] by auto
  have "distinct (map fst (range_map ord ?m))" "set (map fst (range_map ord ?m)) = set paths"
    using distinct_keys_range_map [OF ord d] set_range_map [OF ord d] k by auto
  then show ?thesis unfolding uniqueSorted_def by (metis sorted_list_of_set_sort_remdups
        distinct_remdups_id)
qed

definition overlaps :: "ChangedFile list \<Rightarrow> string set" where
  \<comment> \<open>the normalised paths that two or more files share\<close>
  "overlaps files = {p \<in> pathOf ` set (pathed files). length (pathsAt p files) \<ge> 2}"

definition overlapFinding :: "ChangedFile list \<Rightarrow> string \<Rightarrow> ConflictFinding" where
  "overlapFinding files p =
     \<lparr>fi_Kind = ''overlapping_diff_entries'', fi_Severity = SeverityMedium,
      fi_Summary = ''multiple diff entries modify the same normalized path'',
      fi_Paths = sorted_list_of_set (set (pathsAt p files))\<rparr>"

definition drifted :: "ChangePacket \<Rightarrow> bool" where
  "drifted packet \<longleftrightarrow>
     (let cur = TrimSpace (mapGet (cp_Metadata packet) currentBaseSHAMetadataKey)
      in pr_BaseSHA (cp_PR packet) \<noteq> [] \<and> cur \<noteq> [] \<and> pr_BaseSHA (cp_PR packet) \<noteq> cur)"

definition refreshed :: "bool \<Rightarrow> ConflictRoute \<Rightarrow> ConflictRoute" where
  "refreshed b r = (if b \<and> r = ConflictRouteNone then ConflictRouteRefreshAndVerify else r)"

lemmas step_defs = driftStep_def overlapStep_def sensitiveStep_def markerStep_def routeIfNone_def

lemma overlap_fold:
  fixes ord es
  defines "big \<equiv> filter (\<lambda>(_ :: string, ps). 2 \<le> length ps) es"
  shows "ca_Score (foldl (overlapStep ord) a es) = ca_Score a + 20 * int (length big)"
    and "ca_Route (foldl (overlapStep ord) a es) = refreshed (big \<noteq> []) (ca_Route a)"
    and "ca_RequiresHumanResolution (foldl (overlapStep ord) a es) = ca_RequiresHumanResolution a"
    and "ca_Findings (foldl (overlapStep ord) a es) = ca_Findings a @
           map (\<lambda>(_, ps). \<lparr>fi_Kind = ''overlapping_diff_entries'', fi_Severity = SeverityMedium,
             fi_Summary = ''multiple diff entries modify the same normalized path'',
             fi_Paths = uniqueSorted ord ps\<rparr>) big"
  unfolding big_def
  by (induction es arbitrary: a) (auto simp: step_defs refreshed_def Let_def)

lemma big_entries:
  assumes "foldl scanFile ([], [], []) files = (seen, sensitive, markers)" and "map_order ord"
  shows "mset (map fst (filter (\<lambda>(_, ps). 2 \<le> length ps) (range_map ord seen)))
      = mset_set (overlaps files)"
    and "\<And>p ps. (p, ps) \<in> set (filter (\<lambda>(_, ps). 2 \<le> length ps) (range_map ord seen))
           \<Longrightarrow> ps = pathsAt p files"
proof -
  let ?big = "filter (\<lambda>(_, ps). 2 \<le> length ps) (range_map ord seen)"
  note r = scan_result [OF assms(1)]
  have m: "set (range_map ord seen) = set seen" by (rule set_range_map [OF assms(2) r(1)])
  then show at: "ps = pathsAt p files" if "(p, ps) \<in> set ?big" for p ps using that r(3) by auto
  have "distinct (map fst (range_map ord seen))" by (rule distinct_keys_range_map [OF assms(2) r(1)])
  then have "distinct (map fst ?big)" by (rule distinct_map_filter)
  moreover have "set (map fst ?big) = overlaps files"
  proof -
    have "p \<in> set (map fst ?big) \<longleftrightarrow> (\<exists>ps. (p, ps) \<in> set seen \<and> 2 \<le> length ps)" for p
      using m by force
    also have "\<dots> p \<longleftrightarrow> p \<in> fst ` set seen \<and> 2 \<le> length (pathsAt p files)" for p
      using r(3) by force
    finally show ?thesis using r(2) by (auto simp: overlaps_def)
  qed
  ultimately show "mset (map fst ?big) = mset_set (overlaps files)" by (metis mset_set_set)
qed

text \<open>The assessment in closed form. The list \<open>qs\<close> is the order in which the overlapping paths
  were found.\<close>

definition expectedFindings :: "ChangePacket \<Rightarrow> string list \<Rightarrow> ConflictFinding list" where
  "expectedFindings packet qs =
     (let files = cp_Files packet
      in (if drifted packet then
            [\<lparr>fi_Kind = ''base_drift'', fi_Severity = SeverityHigh,
              fi_Summary = ''the target branch advanced after this change was based'',
              fi_Paths = []\<rparr>] else [])
         @ map (overlapFinding files) qs
         @ (if sensitivePaths files \<noteq> [] then
              [\<lparr>fi_Kind = ''policy_sensitive_files'', fi_Severity = SeverityMedium,
                fi_Summary = ''the change touches files whose concurrent edits can alter policy, deployment, or ownership behavior'',
                fi_Paths = sorted_list_of_set (set (sensitivePaths files))\<rparr>] else [])
         @ (if markedPaths files \<noteq> [] then
              [\<lparr>fi_Kind = ''conflict_markers'', fi_Severity = SeverityCritical,
                fi_Summary = ''unresolved merge-conflict markers are present in the proposed patch'',
                fi_Paths = sorted_list_of_set (set (markedPaths files))\<rparr>] else []))"

lemma driftStep_initial:
  fixes packet
  defines "a \<equiv> driftStep (zeroConflictAssessment\<lparr>ca_BaseSHA := pr_BaseSHA (cp_PR packet),
      ca_CurrentBaseSHA := TrimSpace (mapGet (cp_Metadata packet) currentBaseSHAMetadataKey),
      ca_Route := ConflictRouteNone\<rparr>)"
  shows "ca_Score a = (if drifted packet then 25 else 0)"
    and "ca_Route a = refreshed (drifted packet) ConflictRouteNone"
    and "\<not> ca_RequiresHumanResolution a"
    and "ca_Findings a = (if drifted packet then
              [\<lparr>fi_Kind = ''base_drift'', fi_Severity = SeverityHigh,
                fi_Summary = ''the target branch advanced after this change was based'',
                fi_Paths = []\<rparr>] else [])"
  unfolding a_def
  by (simp_all add: driftStep_def drifted_def refreshed_def zeroConflictAssessment_def Let_def)

lemma Analyze_closed:
  assumes ord: "map_order ord"
  shows "ca_Score (Analyze ord packet) = min 100 ((if drifted packet then 25 else 0)
           + 20 * int (card (overlaps (cp_Files packet)))
           + (if sensitivePaths (cp_Files packet) \<noteq> [] then 10 else 0)
           + (if markedPaths (cp_Files packet) \<noteq> [] then 45 else 0))" (is ?score)
    and "ca_Route (Analyze ord packet) =
           (if markedPaths (cp_Files packet) \<noteq> [] then ConflictRouteHumanResolution
            else if drifted packet \<or> overlaps (cp_Files packet) \<noteq> {}
                    \<or> sensitivePaths (cp_Files packet) \<noteq> []
              then ConflictRouteRefreshAndVerify
            else ConflictRouteNone)" (is ?route)
    and "ca_RequiresHumanResolution (Analyze ord packet) \<longleftrightarrow> markedPaths (cp_Files packet) \<noteq> []"
      (is ?human)
    and "\<exists>qs. mset qs = mset_set (overlaps (cp_Files packet))
           \<and> ca_Findings (Analyze ord packet) = expectedFindings packet qs" (is ?findings)
proof -
  let ?files = "cp_Files packet"
  obtain seen sens mark where sc: "foldl scanFile ([], [], []) ?files = (seen, sens, mark)"
    by (cases "foldl scanFile ([], [], []) ?files")
  note r = scan_result [OF sc]
  let ?big = "filter (\<lambda>(_, ps). 2 \<le> length ps) (range_map ord seen)"
  have b: "mset (map fst ?big) = mset_set (overlaps ?files)" by (rule big_entries(1) [OF sc ord])
  have len: "length ?big = card (overlaps ?files)" by (metis b length_map size_mset size_mset_set)
  have "finite (overlaps ?files)" by (simp add: overlaps_def)
  then have ne: "?big = [] \<longleftrightarrow> overlaps ?files = {}" using len by (metis card_eq_0_iff length_0_conv)
  have ov: "map (\<lambda>(_, ps). \<lparr>fi_Kind = ''overlapping_diff_entries'', fi_Severity = SeverityMedium,
      fi_Summary = ''multiple diff entries modify the same normalized path'',
      fi_Paths = uniqueSorted ord ps\<rparr>) ?big = map (overlapFinding ?files) (map fst ?big)"
    unfolding map_map using big_entries(2) [OF sc ord]
    by (intro map_cong refl) (auto simp: overlapFinding_def uniqueSorted_eq [OF ord])
  define a1 where "a1 = driftStep (zeroConflictAssessment\<lparr>ca_BaseSHA := pr_BaseSHA (cp_PR packet),
      ca_CurrentBaseSHA := TrimSpace (mapGet (cp_Metadata packet) currentBaseSHAMetadataKey),
      ca_Route := ConflictRouteNone\<rparr>)"
  note a1 = driftStep_initial [of packet, folded a1_def]
  define a2 where "a2 = foldl (overlapStep ord) a1 (range_map ord seen)"
  note a2 = overlap_fold [where a = a1 and es = "range_map ord seen" and ord = ord, folded a2_def]
  define a4 where "a4 = markerStep ord mark (sensitiveStep ord sens a2)"
  note late = a4_def sensitiveStep_def markerStep_def routeIfNone_def r(4,5)
  have A: "Analyze ord packet = a4\<lparr>ca_Score := min (ca_Score a4) 100\<rparr>"
    using sc by (simp add: Analyze_def a1_def a2_def a4_def Let_def)
  show ?score by (simp add: A late a2 a1 len min.commute)
  show ?route using ne by (simp add: A late a2 a1 refreshed_def)
  show ?human by (simp add: A late a2 a1)
  have "ca_Findings (Analyze ord packet) = expectedFindings packet (map fst ?big)"
    using ov by (simp add: A late a2 a1 expectedFindings_def uniqueSorted_eq [OF ord] Let_def)
  then show ?findings using b by blast
qed

section \<open>Properties\<close>

text \<open>
  The conflict score is exact and bounded: 25 for a base drift, 20 for each normalised path
  that several diff entries share, 10 for policy-sensitive files and 45 for conflict markers,
  capped at 100, whatever the iteration order; it is 0 exactly when there is no finding.
\<close>

theorem Analyze_score_exact:
  assumes "map_order ord"
  shows "ca_Score (Analyze ord packet) = min 100 ((if drifted packet then 25 else 0)
           + 20 * int (card (overlaps (cp_Files packet)))
           + (if sensitivePaths (cp_Files packet) \<noteq> [] then 10 else 0)
           + (if markedPaths (cp_Files packet) \<noteq> [] then 45 else 0))
    \<and> (ca_Score (Analyze ord packet) = 0 \<longleftrightarrow> ca_Findings (Analyze ord packet) = [])"
proof -
  obtain qs where q: "mset qs = mset_set (overlaps (cp_Files packet))"
    "ca_Findings (Analyze ord packet) = expectedFindings packet qs"
    using Analyze_closed(4) [OF assms] by blast
  have "card (overlaps (cp_Files packet)) = length qs" by (metis q(1) size_mset size_mset_set)
  then show ?thesis
    using q(2) Analyze_closed(1) [OF assms, of packet]
    by (auto simp: expectedFindings_def Let_def min_def)
qed

text \<open>
  The routing advice. Human resolution is required, and is the route, exactly when a file
  with a non-empty path carries all three conflict markers; otherwise the change is to be
  refreshed and verified exactly when the base drifted, diff entries overlap or a
  policy-sensitive file is touched; otherwise there is no route.
\<close>

theorem Analyze_route_exact:
  assumes "map_order ord"
  shows "(ca_RequiresHumanResolution (Analyze ord packet) \<longleftrightarrow>
      (\<exists>f \<in> set (cp_Files packet). normalizedPath (cf_Path f) \<noteq> [] \<and> hasConflictMarkers (cf_Patch f)))
    \<and> (ca_Route (Analyze ord packet) = ConflictRouteHumanResolution
      \<longleftrightarrow> ca_RequiresHumanResolution (Analyze ord packet))
    \<and> (ca_Route (Analyze ord packet) = ConflictRouteNone \<longleftrightarrow> ca_Findings (Analyze ord packet) = [])
    \<and> (ca_Route (Analyze ord packet) = ConflictRouteRefreshAndVerify
      \<longleftrightarrow> \<not> ca_RequiresHumanResolution (Analyze ord packet)
        \<and> (drifted packet \<or> overlaps (cp_Files packet) \<noteq> {} \<or> sensitivePaths (cp_Files packet) \<noteq> []))"
proof (intro conjI)
  let ?A = "Analyze ord packet"
  note c = Analyze_closed [OF assms, of packet]
  show "ca_RequiresHumanResolution ?A \<longleftrightarrow>
      (\<exists>f \<in> set (cp_Files packet). normalizedPath (cf_Path f) \<noteq> [] \<and> hasConflictMarkers (cf_Patch f))"
    unfolding c(3) by (auto simp: markedPaths_def pathed_def pathOf_def filter_empty_conv)
  show "ca_Route ?A = ConflictRouteHumanResolution \<longleftrightarrow> ca_RequiresHumanResolution ?A"
    using c(2,3) by simp
  show "ca_Route ?A = ConflictRouteRefreshAndVerify \<longleftrightarrow> \<not> ca_RequiresHumanResolution ?A
        \<and> (drifted packet \<or> overlaps (cp_Files packet) \<noteq> {} \<or> sensitivePaths (cp_Files packet) \<noteq> [])"
    using c(2,3) by simp
  obtain qs where q: "mset qs = mset_set (overlaps (cp_Files packet))"
    "ca_Findings ?A = expectedFindings packet qs"
    using c(4) by blast
  have "finite (overlaps (cp_Files packet))" by (simp add: overlaps_def)
  then have "overlaps (cp_Files packet) = {} \<longleftrightarrow> qs = []"
    by (metis q(1) mset_zero_iff mset_set.empty mset_set_empty_iff)
  then show "ca_Route ?A = ConflictRouteNone \<longleftrightarrow> ca_Findings ?A = []"
    using q(2) c(2) by (auto simp: expectedFindings_def Let_def)
qed

text \<open>
  The assessment is deterministic up to the order of its findings. Two iteration orders give
  the same score, route and verdict and the same findings as a multiset; the paths of a finding
  are sorted, without repetition, and are paths of the change.
\<close>

theorem Analyze_order_independent:
  assumes "map_order ord" and "map_order ord'"
  shows "ca_Score (Analyze ord packet) = ca_Score (Analyze ord' packet)
    \<and> ca_Route (Analyze ord packet) = ca_Route (Analyze ord' packet)
    \<and> mset (ca_Findings (Analyze ord packet)) = mset (ca_Findings (Analyze ord' packet))
    \<and> (\<forall>f \<in> set (ca_Findings (Analyze ord packet)).
         sorted (fi_Paths f) \<and> distinct (fi_Paths f)
         \<and> set (fi_Paths f) \<subseteq> cf_Path ` set (cp_Files packet))"
proof -
  obtain qs qs' where
    q: "mset qs = mset_set (overlaps (cp_Files packet))"
      "ca_Findings (Analyze ord packet) = expectedFindings packet qs" and
    q': "mset qs' = mset_set (overlaps (cp_Files packet))"
      "ca_Findings (Analyze ord' packet) = expectedFindings packet qs'"
    using Analyze_closed(4) assms by meson
  have "mset (map (overlapFinding (cp_Files packet)) qs) = mset (map (overlapFinding (cp_Files packet)) qs')"
    by (simp only: mset_map q(1) q'(1))
  then have "mset (expectedFindings packet qs) = mset (expectedFindings packet qs')"
    by (simp add: expectedFindings_def Let_def del: mset_map)
  moreover have "\<forall>f \<in> set (expectedFindings packet qs).
      sorted (fi_Paths f) \<and> distinct (fi_Paths f) \<and> set (fi_Paths f) \<subseteq> cf_Path ` set (cp_Files packet)"
    by (auto simp: expectedFindings_def Let_def overlapFinding_def sensitivePaths_def markedPaths_def
        pathed_def pathsAt_def)
  ultimately show ?thesis
    using q q' Analyze_closed(1,2) [OF assms(1), of packet] Analyze_closed(1,2) [OF assms(2), of packet]
    by (simp only:)
qed

definition conflictPacket :: ChangePacket where
  "conflictPacket = zeroChangePacket\<lparr>cp_Files :=
     [zeroChangedFile\<lparr>cf_Path := ''a.go'', cf_Patch := ''<<<<<<< ours ======= x >>>>>>> theirs''\<rparr>]\<rparr>"

lemma conflictPacket_marked:
  "\<exists>f \<in> set (cp_Files conflictPacket). normalizedPath (cf_Path f) \<noteq> [] \<and> hasConflictMarkers (cf_Patch f)"
  by (simp add: conflictPacket_def zero_defs) code_simp

theorem Analyze_score_exact_witness: "ca_Score (Analyze rev conflictPacket) \<ge> 45"
proof -
  have "markedPaths (cp_Files conflictPacket) \<noteq> []"
    using conflictPacket_marked
    by (auto simp: markedPaths_def pathed_def pathOf_def filter_empty_conv)
  then show ?thesis using Analyze_score_exact [OF map_order_rev, of conflictPacket] by auto
qed

theorem Analyze_route_exact_witness:
  "ca_Route (Analyze rev conflictPacket) = ConflictRouteHumanResolution"
  using Analyze_route_exact [OF map_order_rev, of conflictPacket] conflictPacket_marked by simp

theorem Analyze_order_independent_witness:
  "mset (ca_Findings (Analyze rev conflictPacket)) = mset (ca_Findings (Analyze (\<lambda>ks. ks) conflictPacket))"
  using Analyze_order_independent [OF map_order_rev map_order_id, of conflictPacket] by simp

end
