(* ===== verification/PolicyConfig.thy ===== *)
theory PolicyConfig
  imports Domain
begin

text \<open>
  The policy configuration and its validation, \<open>internal/policy/model.go\<close> and
  \<open>validation.go\<close>. Every error of the validation is a constructor of \<open>PolicyError\<close>, with the
  values its message quotes. The YAML decoder is not part of the program; \<open>LoadConfig\<close> takes
  what it returns.
\<close>

section \<open>Data\<close>

record WhenClause =
  wh_Mutations :: "MutationKind list"
  wh_Paths :: "string list"
  wh_Criticalities :: "Criticality list"
  wh_RiskScoreGTE :: int
  wh_OwnershipTeams :: "string list"

record PolicyCheckBinding =
  gc_Evidence :: string
  gc_Name :: string
  gc_AppID :: int

record DeploymentClause =
  dc_Strategy :: string
  dc_RequiresCanary :: bool
  dc_RequiresRollbackPlan :: bool
  dc_Environments :: "string list"

record RequirementClause =
  rq_Reviewers :: "string list"
  rq_Evidence :: "string list"
  rq_GitHubChecks :: "PolicyCheckBinding list"
  rq_Deployment :: DeploymentClause

record ActionClause =
  ac_Block :: bool
  ac_MinimumLane :: MergeLane

record RuleConfig =
  rc_Name :: string
  rc_Description :: string
  rc_When :: WhenClause
  rc_Require :: RequirementClause
  rc_Action :: ActionClause

record PolicyConfig =
  pc_Policies :: "RuleConfig list"

datatype PolicyError =
    NameEmpty string
  | DuplicateName string
  | ConflictingBindings string
  | CheckBoundTwice string int string string
  | NoCondition string
  | NoEffect string
  | UnsupportedMutation string MutationKind
  | UnsupportedCriticality string Criticality
  | RiskScoreRange string
  | EmptyEntry string string nat
  | BindingIncomplete string
  | BindingAppID string
  | BindingUndeclared string string
  | BindingDuplicate string string
  | UnsupportedStrategy string string
  | UnsupportedLane string MergeLane
  | LoadFailed string
  | ManyDocuments

section \<open>Supported values\<close>

definition supportedMutationKinds :: "MutationKind list" where
  "supportedMutationKinds =
     [MutationUnknown, MutationAuthBehaviorChange, MutationDatabaseSchema, MutationRuntimeConfig,
      MutationAPIContract, MutationDependency, MutationInfrastructure, MutationDataAccess,
      MutationDeploymentWorkflow, MutationObservabilityContract]"

definition supportedCriticalities :: "Criticality list" where
  "supportedCriticalities = [CriticalityLow, CriticalityNormal, CriticalityHigh, CriticalityTier0]"

definition supportedLanes :: "MergeLane list" where
  "supportedLanes = [MergeLaneGreen, MergeLaneYellow, MergeLaneRed, MergeLaneBlack]"

definition supportedDeploymentStrategies :: "string list" where
  "supportedDeploymentStrategies =
     [DeployDirect, DeployCanary, DeployPhased, DeployManualApproval]"

section \<open>Validation of one rule\<close>

fun requireNonEmptyFrom :: "nat \<Rightarrow> string \<Rightarrow> string \<Rightarrow> string list \<Rightarrow> PolicyError + unit" where
  "requireNonEmptyFrom index label field [] = Inr ()"
| "requireNonEmptyFrom index label field (v # values) =
     (if TrimSpace v = [] then Inl (EmptyEntry label field index)
      else requireNonEmptyFrom (Suc index) label field values)"

definition requireNonEmpty :: "string \<Rightarrow> string \<Rightarrow> string list \<Rightarrow> PolicyError + unit" where
  "requireNonEmpty label field values = requireNonEmptyFrom 0 label field values"

definition hasCondition :: "WhenClause \<Rightarrow> bool" where
  "hasCondition when \<longleftrightarrow>
     length (wh_Mutations when) > 0 \<or> length (wh_Paths when) > 0
     \<or> length (wh_Criticalities when) > 0 \<or> wh_RiskScoreGTE when \<noteq> 0
     \<or> length (wh_OwnershipTeams when) > 0"

definition hasEffect :: "RuleConfig \<Rightarrow> bool" where
  "hasEffect rule \<longleftrightarrow>
     (let require = rc_Require rule; deployment = rq_Deployment require
      in length (rq_Reviewers require) > 0 \<or> length (rq_Evidence require) > 0
         \<or> length (rq_GitHubChecks require) > 0 \<or> dc_Strategy deployment \<noteq> []
         \<or> dc_RequiresCanary deployment \<or> dc_RequiresRollbackPlan deployment
         \<or> length (dc_Environments deployment) > 0 \<or> ac_Block (rc_Action rule)
         \<or> ac_MinimumLane (rc_Action rule) \<noteq> [])"

definition validateWhenClause :: "string \<Rightarrow> WhenClause \<Rightarrow> PolicyError + unit" where
  "validateWhenClause label when =
     bindE (forE (\<lambda>kind. guardE (kind \<in> set supportedMutationKinds) (UnsupportedMutation label kind))
              (wh_Mutations when)) (\<lambda>_.
     bindE (forE (\<lambda>c. guardE (c \<in> set supportedCriticalities) (UnsupportedCriticality label c))
              (wh_Criticalities when)) (\<lambda>_.
     bindE (guardE (\<not> (wh_RiskScoreGTE when < 0 \<or> wh_RiskScoreGTE when > 100)) (RiskScoreRange label)) (\<lambda>_.
     bindE (requireNonEmpty label ''path'' (wh_Paths when)) (\<lambda>_.
     requireNonEmpty label ''ownership team'' (wh_OwnershipTeams when)))))"

fun validateBindings ::
  "string \<Rightarrow> string list \<Rightarrow> nat \<Rightarrow> string list \<Rightarrow> PolicyCheckBinding list \<Rightarrow> PolicyError + unit" where
  "validateBindings label declaredEvidence index boundEvidence [] = Inr ()"
| "validateBindings label declaredEvidence index boundEvidence (binding # bindings) =
     (let bindingLabel = label @ '' GitHub check binding at index '' @ Itoa (int index)
      in if TrimSpace (gc_Evidence binding) = [] \<or> TrimSpace (gc_Name binding) = []
           then Inl (BindingIncomplete bindingLabel)
         else if gc_AppID binding \<le> 0 then Inl (BindingAppID bindingLabel)
         else if gc_Evidence binding \<notin> set declaredEvidence
           then Inl (BindingUndeclared bindingLabel (gc_Evidence binding))
         else if gc_Evidence binding \<in> set boundEvidence
           then Inl (BindingDuplicate label (gc_Evidence binding))
         else validateBindings label declaredEvidence (Suc index)
                (boundEvidence @ [gc_Evidence binding]) bindings)"

definition validateRequirements :: "string \<Rightarrow> RequirementClause \<Rightarrow> PolicyError + unit" where
  "validateRequirements label require =
     bindE (requireNonEmpty label ''reviewer'' (rq_Reviewers require)) (\<lambda>_.
     bindE (requireNonEmpty label ''evidence name'' (rq_Evidence require)) (\<lambda>_.
     bindE (validateBindings label (rq_Evidence require) 0 [] (rq_GitHubChecks require)) (\<lambda>_.
     bindE (requireNonEmpty label ''deployment environment'' (dc_Environments (rq_Deployment require))) (\<lambda>_.
     let strategy = dc_Strategy (rq_Deployment require)
     in if strategy = [] then Inr ()
        else guardE (strategy \<in> set supportedDeploymentStrategies)
               (UnsupportedStrategy label strategy)))))"

definition validateAction :: "string \<Rightarrow> ActionClause \<Rightarrow> PolicyError + unit" where
  "validateAction label action =
     (let lane = ac_MinimumLane action
      in if lane = [] then Inr ()
         else guardE (lane \<in> set supportedLanes) (UnsupportedLane label lane))"

definition validateRule :: "string \<Rightarrow> RuleConfig \<Rightarrow> PolicyError + unit" where
  "validateRule label rule =
     bindE (guardE (hasCondition (rc_When rule)) (NoCondition label)) (\<lambda>_.
     bindE (guardE (hasEffect rule) (NoEffect label)) (\<lambda>_.
     bindE (validateWhenClause label (rc_When rule)) (\<lambda>_.
     bindE (validateRequirements label (rc_Require rule)) (\<lambda>_.
     validateAction label (rc_Action rule)))))"

section \<open>Validation of a configuration\<close>

type_synonym githubCheckIdentity = "string \<times> int"

type_synonym bindings = "(string \<rightharpoonup> PolicyCheckBinding) \<times> (githubCheckIdentity \<rightharpoonup> string)"

definition checkBinding :: "bindings \<Rightarrow> PolicyCheckBinding \<Rightarrow> PolicyError + bindings" where
  "checkBinding bs binding =
     (let (evidenceBindings, checkBindings) = bs;
          identity = (gc_Name binding, gc_AppID binding)
      in if (case evidenceBindings (gc_Evidence binding) of
               None \<Rightarrow> False | Some existing \<Rightarrow> existing \<noteq> binding)
           then Inl (ConflictingBindings (gc_Evidence binding))
         else (case checkBindings identity of
             Some evidence \<Rightarrow>
               if evidence \<noteq> gc_Evidence binding
               then Inl (CheckBoundTwice (gc_Name binding) (gc_AppID binding) evidence (gc_Evidence binding))
               else Inr (evidenceBindings(gc_Evidence binding \<mapsto> binding),
                         checkBindings(identity \<mapsto> gc_Evidence binding))
           | None \<Rightarrow> Inr (evidenceBindings(gc_Evidence binding \<mapsto> binding),
                         checkBindings(identity \<mapsto> gc_Evidence binding))))"

fun checkBindingsOf :: "bindings \<Rightarrow> PolicyCheckBinding list \<Rightarrow> PolicyError + bindings" where
  "checkBindingsOf bs [] = Inr bs"
| "checkBindingsOf bs (b # rest) = bindE (checkBinding bs b) (\<lambda>bs'. checkBindingsOf bs' rest)"

fun validateRules :: "nat \<Rightarrow> string set \<Rightarrow> bindings \<Rightarrow> RuleConfig list \<Rightarrow> PolicyError + unit" where
  "validateRules index names bs [] = Inr ()"
| "validateRules index names bs (rule # rules) =
     (let label = ''policy['' @ Itoa (int index) @ '']'';
          name = TrimSpace (rc_Name rule)
      in if name = [] then Inl (NameEmpty label)
         else (let normalizedName = ToLower name
               in if normalizedName \<in> names then Inl (DuplicateName name)
                  else bindE (validateRule (label @ '' ('' @ name @ '')'') rule) (\<lambda>_.
                       bindE (checkBindingsOf bs (rq_GitHubChecks (rc_Require rule))) (\<lambda>bs'.
                       validateRules (Suc index) (insert normalizedName names) bs' rules))))"

definition Validate :: "PolicyConfig \<Rightarrow> PolicyError + unit" where
  "Validate config =
     validateRules 0 {} (Map.empty, Map.empty) (pc_Policies config)"

text \<open>\<open>LoadConfig\<close>: \<open>raw\<close> is what reading the file gave; \<open>decode\<close> is the YAML decoder, which gives
  the first document and, for the second call, \<open>None\<close> for the end of the file or the result of
  decoding a further document.\<close>

definition LoadConfig ::
  "(string \<Rightarrow> (string + PolicyConfig) \<times> (string + unit) option) \<Rightarrow> string + string
     \<Rightarrow> PolicyError + PolicyConfig" where
  "LoadConfig decode raw =
     (case raw of
        Inl e \<Rightarrow> Inl (LoadFailed e)
      | Inr text \<Rightarrow>
          (case decode text of
             (Inl e, _) \<Rightarrow> Inl (LoadFailed e)
           | (Inr config, trailing) \<Rightarrow>
               (case trailing of
                  Some (Inr _) \<Rightarrow> Inl ManyDocuments
                | Some (Inl e) \<Rightarrow> Inl (LoadFailed e)
                | None \<Rightarrow> bindE (Validate config) (\<lambda>_. Inr config))))"

section \<open>What validation accepts\<close>

definition blank :: "string \<Rightarrow> bool" where
  "blank s \<longleftrightarrow> TrimSpace s = []"

definition validBindings :: "RequirementClause \<Rightarrow> bool" where
  "validBindings require \<longleftrightarrow>
     distinct (map gc_Evidence (rq_GitHubChecks require))
     \<and> (\<forall>b \<in> set (rq_GitHubChecks require). \<not> blank (gc_Evidence b) \<and> \<not> blank (gc_Name b)
          \<and> 0 < gc_AppID b \<and> gc_Evidence b \<in> set (rq_Evidence require))"

definition validRule :: "RuleConfig \<Rightarrow> bool" where
  "validRule rule \<longleftrightarrow>
     hasCondition (rc_When rule) \<and> hasEffect rule
     \<and> set (wh_Mutations (rc_When rule)) \<subseteq> set supportedMutationKinds
     \<and> set (wh_Criticalities (rc_When rule)) \<subseteq> set supportedCriticalities
     \<and> 0 \<le> wh_RiskScoreGTE (rc_When rule) \<and> wh_RiskScoreGTE (rc_When rule) \<le> 100
     \<and> (\<forall>s \<in> set (wh_Paths (rc_When rule)) \<union> set (wh_OwnershipTeams (rc_When rule))
          \<union> set (rq_Reviewers (rc_Require rule)) \<union> set (rq_Evidence (rc_Require rule))
          \<union> set (dc_Environments (rq_Deployment (rc_Require rule))). \<not> blank s)
     \<and> validBindings (rc_Require rule)
     \<and> dc_Strategy (rq_Deployment (rc_Require rule)) \<in> {[]} \<union> set supportedDeploymentStrategies
     \<and> ac_MinimumLane (rc_Action rule) \<in> {[]} \<union> set supportedLanes"

definition ruleKey :: "RuleConfig \<Rightarrow> string" where
  "ruleKey rule = ToLower (TrimSpace (rc_Name rule))"

definition ruleBindings :: "RuleConfig list \<Rightarrow> PolicyCheckBinding list" where
  "ruleBindings rules = concat (map (\<lambda>r. rq_GitHubChecks (rc_Require r)) rules)"

definition oneToOne :: "PolicyCheckBinding set \<Rightarrow> bool" where
  \<comment> \<open>an evidence name has one check, and a check serves one evidence name\<close>
  "oneToOne bs \<longleftrightarrow>
     (\<forall>a \<in> bs. \<forall>b \<in> bs.
        (gc_Evidence a = gc_Evidence b \<longrightarrow> a = b)
        \<and> (gc_Name a = gc_Name b \<and> gc_AppID a = gc_AppID b \<longrightarrow> gc_Evidence a = gc_Evidence b))"

lemma requireNonEmptyFrom_Inr:
  "requireNonEmptyFrom i label field vs = Inr u \<longleftrightarrow> (\<forall>v\<in>set vs. \<not> blank v)"
  by (induction i label field vs rule: requireNonEmptyFrom.induct) (auto simp: blank_def)

lemma requireNonEmpty_Inr [simp]:
  "requireNonEmpty label field vs = Inr u \<longleftrightarrow> (\<forall>v\<in>set vs. \<not> blank v)"
  by (simp add: requireNonEmpty_def requireNonEmptyFrom_Inr)

lemma validateBindings_Inr:
  "validateBindings label declared i bound bs = Inr u \<longleftrightarrow>
     distinct (map gc_Evidence bs) \<and> gc_Evidence ` set bs \<inter> set bound = {}
     \<and> (\<forall>b \<in> set bs. \<not> blank (gc_Evidence b) \<and> \<not> blank (gc_Name b) \<and> 0 < gc_AppID b
          \<and> gc_Evidence b \<in> set declared)"
  by (induction label declared i bound bs rule: validateBindings.induct)
     (auto simp: blank_def Let_def not_le)

lemma validateRule_Inr: "validateRule label rule = Inr u \<longleftrightarrow> validRule rule"
  by (auto simp: validateRule_def validateWhenClause_def validateRequirements_def validateAction_def
      validRule_def validBindings_def bindE_Inr forE_Inr validateBindings_Inr Let_def not_less)

definition recorded :: "PolicyCheckBinding set \<Rightarrow> bindings \<Rightarrow> bool" where
  \<comment> \<open>what the two maps hold after the bindings \<open>S\<close>\<close>
  "recorded S bs \<longleftrightarrow>
     (\<forall>e b. fst bs e = Some b \<longleftrightarrow> b \<in> S \<and> gc_Evidence b = e)
     \<and> (\<forall>n i e. snd bs (n, i) = Some e \<longleftrightarrow>
          (\<exists>b \<in> S. gc_Name b = n \<and> gc_AppID b = i \<and> gc_Evidence b = e))"

lemma oneToOne_mono: "oneToOne S \<Longrightarrow> T \<subseteq> S \<Longrightarrow> oneToOne T"
  unfolding oneToOne_def by blast

lemma checkBinding_accepts:
  assumes rec: "recorded S bs" and one: "oneToOne (insert b S)"
  shows "\<exists>bs'. checkBinding bs b = Inr bs' \<and> recorded (insert b S) bs'"
proof -
  obtain ev ck where bs: "bs = (ev, ck)" by fastforce
  let ?bs' = "(ev(gc_Evidence b \<mapsto> b), ck((gc_Name b, gc_AppID b) \<mapsto> gc_Evidence b))"
  have r1: "ev k = Some x \<longleftrightarrow> x \<in> S \<and> gc_Evidence x = k" for k x
    using rec unfolding recorded_def bs fst_conv by blast
  have r2: "ck (n, i) = Some k \<longleftrightarrow> (\<exists>x \<in> S. gc_Name x = n \<and> gc_AppID x = i \<and> gc_Evidence x = k)"
    for n i k
    using rec unfolding recorded_def bs snd_conv by blast
  have u1: "x \<in> S \<Longrightarrow> gc_Evidence x = gc_Evidence b \<Longrightarrow> x = b" for x
    using one unfolding oneToOne_def by blast
  have u2: "x \<in> S \<Longrightarrow> gc_Name x = gc_Name b \<Longrightarrow> gc_AppID x = gc_AppID b \<Longrightarrow>
      gc_Evidence x = gc_Evidence b" for x
    using one unfolding oneToOne_def by blast
  have "checkBinding bs b = Inr ?bs'"
    by (auto simp: checkBinding_def bs Let_def r1 r2 dest: u1 u2 split: option.splits)
  moreover have "recorded (insert b S) ?bs'"
    unfolding recorded_def by (auto simp: r1 r2 dest: u1 u2)
  ultimately show ?thesis by blast
qed

lemma checkBinding_rejects:
  assumes rec: "recorded S bs" and one: "oneToOne S" and bad: "\<not> oneToOne (insert b S)"
  shows "\<exists>e. checkBinding bs b = Inl e"
proof -
  obtain ev ck where bs: "bs = (ev, ck)" by fastforce
  obtain a where a: "a \<in> S" "(gc_Evidence a = gc_Evidence b \<and> a \<noteq> b)
      \<or> (gc_Name a = gc_Name b \<and> gc_AppID a = gc_AppID b \<and> gc_Evidence a \<noteq> gc_Evidence b)"
    using one bad unfolding oneToOne_def by (metis insert_iff)
  show ?thesis
  proof (cases "gc_Evidence a = gc_Evidence b")
    case True
    then have "ev (gc_Evidence b) = Some a" "a \<noteq> b" using rec a unfolding recorded_def bs by auto
    then show ?thesis by (simp add: checkBinding_def bs)
  next
    case False
    then have "ck (gc_Name b, gc_AppID b) = Some (gc_Evidence a)"
      using rec a unfolding recorded_def bs by auto
    then show ?thesis using False by (auto simp: checkBinding_def bs Let_def)
  qed
qed

lemma checkBindingsOf_iff:
  assumes "recorded S bs" and "oneToOne S"
  shows "(\<exists>bs'. checkBindingsOf bs xs = Inr bs') \<longleftrightarrow> oneToOne (S \<union> set xs)"
    and "checkBindingsOf bs xs = Inr bs' \<Longrightarrow> recorded (S \<union> set xs) bs'"
proof -
  have "((\<exists>bs'. checkBindingsOf bs xs = Inr bs') \<longleftrightarrow> oneToOne (S \<union> set xs))
    \<and> (\<forall>bs'. checkBindingsOf bs xs = Inr bs' \<longrightarrow> recorded (S \<union> set xs) bs')"
    using assms
  proof (induction xs arbitrary: bs S)
    case (Cons x xs)
    have un: "S \<union> set (x # xs) = insert x S \<union> set xs" by simp
    show ?case
    proof (cases "oneToOne (insert x S)")
      case True
      obtain b1 where b1: "checkBinding bs x = Inr b1" "recorded (insert x S) b1"
        using checkBinding_accepts [OF Cons.prems(1) True] by blast
      from Cons.IH [OF b1(2) True] show ?thesis unfolding un using b1(1) by simp
    next
      case False
      then have "\<not> oneToOne (S \<union> set (x # xs))" unfolding un using oneToOne_mono by blast
      moreover obtain e where "checkBinding bs x = Inl e"
        using checkBinding_rejects [OF Cons.prems False] by blast
      ultimately show ?thesis by simp
    qed
  qed simp
  then show "(\<exists>bs'. checkBindingsOf bs xs = Inr bs') \<longleftrightarrow> oneToOne (S \<union> set xs)"
    and "checkBindingsOf bs xs = Inr bs' \<Longrightarrow> recorded (S \<union> set xs) bs'"
    by blast+
qed

lemma ruleBindings_Cons [simp]:
  "ruleBindings [] = []"
  "ruleBindings (r # rs) = rq_GitHubChecks (rc_Require r) @ ruleBindings rs"
  by (simp_all add: ruleBindings_def)

lemma validateRules_Inr:
  assumes "recorded S bs" and "oneToOne S"
  shows "validateRules i names bs rules = Inr () \<longleftrightarrow>
     (\<forall>r \<in> set rules. \<not> blank (rc_Name r) \<and> validRule r)
     \<and> distinct (map ruleKey rules) \<and> ruleKey ` set rules \<inter> names = {}
     \<and> oneToOne (S \<union> set (ruleBindings rules))"
  using assms
proof (induction rules arbitrary: i names bs S)
  case (Cons r rules)
  let ?cs = "rq_GitHubChecks (rc_Require r)"
  have un: "S \<union> set (ruleBindings (r # rules)) = S \<union> set ?cs \<union> set (ruleBindings rules)" by auto
  show ?case
  proof (cases "oneToOne (S \<union> set ?cs)")
    case True
    then obtain b1 where b1: "checkBindingsOf bs ?cs = Inr b1"
      using checkBindingsOf_iff(1) [OF Cons.prems] by blast
    have rec: "recorded (S \<union> set ?cs) b1" by (rule checkBindingsOf_iff(2) [OF Cons.prems b1])
    show ?thesis unfolding un
      by (auto simp: Let_def b1 bindE_Inr validateRule_Inr blank_def ruleKey_def
          Cons.IH [OF rec True])
  next
    case False
    then have "\<not> oneToOne (S \<union> set (ruleBindings (r # rules)))"
      unfolding un using oneToOne_mono by blast
    moreover have "checkBindingsOf bs ?cs \<noteq> Inr b1" for b1
      using False checkBindingsOf_iff(1) [OF Cons.prems] by blast
    ultimately show ?thesis by (auto simp: Let_def bindE_Inr)
  qed
qed simp

lemma recorded_empty: "recorded {} (Map.empty, Map.empty)"
  by (simp add: recorded_def)

lemma oneToOne_empty: "oneToOne {}"
  by (simp add: oneToOne_def)

lemma Validate_Inr:
  "Validate config = Inr () \<longleftrightarrow>
     (\<forall>r \<in> set (pc_Policies config). \<not> blank (rc_Name r) \<and> validRule r)
     \<and> distinct (map ruleKey (pc_Policies config))
     \<and> oneToOne (set (ruleBindings (pc_Policies config)))"
  using validateRules_Inr [OF recorded_empty oneToOne_empty] by (simp add: Validate_def)

section \<open>Properties\<close>

text \<open>
  C31: validation accepts exactly the well-formed policy configurations: every rule has a name
  that is not blank, the names differ after trimming and lower-casing, every rule has a
  condition and an effect and uses supported values only, and over the whole configuration the
  GitHub check bindings are one-to-one: an evidence name has one check and a check (name and App
  ID) serves one evidence name.
\<close>

theorem Validate_accepts_iff:
  "Validate config = Inr () \<longleftrightarrow>
     (\<forall>r \<in> set (pc_Policies config). TrimSpace (rc_Name r) \<noteq> [] \<and> validRule r)
     \<and> distinct (map (\<lambda>r. ToLower (TrimSpace (rc_Name r))) (pc_Policies config))
     \<and> oneToOne (set (ruleBindings (pc_Policies config)))"
  using Validate_Inr [of config] by (simp add: blank_def ruleKey_def [abs_def])

definition sampleWhen :: WhenClause where
  "sampleWhen = \<lparr>wh_Mutations = [], wh_Paths = [''src''], wh_Criticalities = [],
     wh_RiskScoreGTE = 0, wh_OwnershipTeams = []\<rparr>"

definition sampleDeployment :: DeploymentClause where
  "sampleDeployment = \<lparr>dc_Strategy = [], dc_RequiresCanary = False,
     dc_RequiresRollbackPlan = False, dc_Environments = []\<rparr>"

definition sampleRule :: RuleConfig where
  "sampleRule = \<lparr>rc_Name = ''review'', rc_Description = ''needs review'', rc_When = sampleWhen,
     rc_Require = \<lparr>rq_Reviewers = [''core''], rq_Evidence = [''unit''],
       rq_GitHubChecks = [\<lparr>gc_Evidence = ''unit'', gc_Name = ''ci'', gc_AppID = 7\<rparr>],
       rq_Deployment = sampleDeployment\<rparr>,
     rc_Action = \<lparr>ac_Block = False, ac_MinimumLane = MergeLaneYellow\<rparr>\<rparr>"

lemma sampleRule_valid: "validRule sampleRule"
proof -
  have "\<not> blank ''src''" "\<not> blank ''core''" "\<not> blank ''unit''" "\<not> blank ''ci''"
    unfolding blank_def by code_simp+
  then show ?thesis
    by (simp add: sampleRule_def sampleWhen_def sampleDeployment_def validRule_def validBindings_def
        hasCondition_def hasEffect_def supportedLanes_def)
qed

theorem Validate_accepts_iff_witness:
  "Validate \<lparr>pc_Policies = [sampleRule]\<rparr> = Inr ()
   \<and> Validate \<lparr>pc_Policies = [sampleRule, sampleRule]\<rparr> \<noteq> Inr ()"
proof -
  have "TrimSpace (rc_Name sampleRule) \<noteq> []" unfolding sampleRule_def by code_simp
  then show ?thesis
    using sampleRule_valid Validate_accepts_iff [of "\<lparr>pc_Policies = [sampleRule]\<rparr>"]
      Validate_accepts_iff [of "\<lparr>pc_Policies = [sampleRule, sampleRule]\<rparr>"]
    by (simp add: ruleBindings_def oneToOne_def sampleRule_def)
qed

end
