(* ===== verification/Policy.thy ===== *)
theory Policy
  imports PolicyConfig Lanes
begin

text \<open>
  The rule engine, \<open>internal/policy\<close>: which rules match a packet (\<open>matchers.go\<close>), what a matched
  rule adds to the evaluation (\<open>evaluation.go\<close>, \<open>helpers.go\<close>), and the evaluation of a packet
  against all rules in order (\<open>engine.go\<close>). The current time is an argument.
\<close>

section \<open>Matching\<close>

definition packetHasAnyMutation :: "ChangePacket \<Rightarrow> MutationKind list \<Rightarrow> bool" where
  "packetHasAnyMutation packet kinds =
     list_ex (\<lambda>mutation. list_ex (\<lambda>kind. mu_Kind mutation = kind) kinds) (cp_Mutations packet)"

definition packetTouchesAnyPath :: "ChangePacket \<Rightarrow> string list \<Rightarrow> bool" where
  "packetTouchesAnyPath packet patterns =
     list_ex (\<lambda>file. list_ex (\<lambda>pattern. Contains (ToLower (cf_Path file)) (ToLower pattern)) patterns)
       (cp_Files packet)"

definition containsCriticality :: "Criticality list \<Rightarrow> Criticality \<Rightarrow> bool" where
  "containsCriticality values candidate = list_ex (\<lambda>value. value = candidate) values"

definition packetTouchesOwners :: "ChangePacket \<Rightarrow> string list \<Rightarrow> bool" where
  "packetTouchesOwners packet teams =
     list_ex (\<lambda>owner. list_ex (\<lambda>team. EqualFold (ob_Team owner) team) teams) (cp_Ownership packet)"

definition matchesRule :: "RuleConfig \<Rightarrow> ChangePacket \<Rightarrow> bool" where
  "matchesRule rule packet =
     (let when = rc_When rule
      in if length (wh_Mutations when) > 0 \<and> \<not> packetHasAnyMutation packet (wh_Mutations when)
           then False
         else if length (wh_Paths when) > 0 \<and> \<not> packetTouchesAnyPath packet (wh_Paths when)
           then False
         else if length (wh_Criticalities when) > 0
              \<and> \<not> containsCriticality (wh_Criticalities when) (im_Criticality (cp_Runtime packet))
           then False
         else if wh_RiskScoreGTE when > 0
              \<and> rs_Score (cp_RiskSummary packet) < wh_RiskScoreGTE when
           then False
         else if length (wh_OwnershipTeams when) > 0
              \<and> \<not> packetTouchesOwners packet (wh_OwnershipTeams when)
           then False
         else True)"

section \<open>Helpers\<close>

fun appendUniqueReviewer ::
  "ReviewerRequirement list \<Rightarrow> ReviewerRequirement \<Rightarrow> ReviewerRequirement list" where
  "appendUniqueReviewer [] candidate = [candidate]"
| "appendUniqueReviewer (value # values) candidate =
     (if EqualFold (rv_Team value) (rv_Team candidate) then value # values
      else value # appendUniqueReviewer values candidate)"

fun appendUniqueEvidence ::
  "EvidenceRequirement list \<Rightarrow> EvidenceRequirement \<Rightarrow> EvidenceRequirement list" where
  "appendUniqueEvidence [] candidate = [candidate]"
| "appendUniqueEvidence (value # values) candidate =
     (if er_Name value = er_Name candidate
      then (if er_GitHubCheck value = None \<and> er_GitHubCheck candidate \<noteq> None
            then value\<lparr>er_GitHubCheck := er_GitHubCheck candidate\<rparr> else value) # values
      else value # appendUniqueEvidence values candidate)"

definition policy_maxLane :: "MergeLane \<Rightarrow> MergeLane \<Rightarrow> MergeLane" where
  "policy_maxLane a b =
     (if a = [] then b else if laneOrder b > laneOrder a then b else a)"

section \<open>Evaluation\<close>

record Evaluation =
  ev_Decision :: PolicyDecision
  ev_Evidence :: "EvidenceRequirement list"
  ev_Reviewers :: "ReviewerRequirement list"
  ev_Deployment :: DeploymentRequirement

definition reviewerFor :: "RuleConfig \<Rightarrow> string \<Rightarrow> ReviewerRequirement" where
  "reviewerFor rule reviewer =
     zeroReviewerRequirement\<lparr>rv_Team := reviewer,
       rv_Reason := ''required by policy '' @ rc_Name rule, rv_Mandatory := True\<rparr>"

definition applyReviewerRequirements :: "Evaluation \<Rightarrow> RuleConfig \<Rightarrow> Evaluation" where
  "applyReviewerRequirements evaluation rule =
     evaluation\<lparr>ev_Reviewers :=
       foldl appendUniqueReviewer (ev_Reviewers evaluation)
         (map (reviewerFor rule) (rq_Reviewers (rc_Require rule)))\<rparr>"

definition bindingFor :: "RuleConfig \<Rightarrow> string \<Rightarrow> GitHubCheckBinding option" where
  \<comment> \<open>the first binding of the rule for the evidence\<close>
  "bindingFor rule evidence =
     map_option (\<lambda>b. \<lparr>gb_Name = gc_Name b, gb_AppID = gc_AppID b\<rparr>)
       (find (\<lambda>b. gc_Evidence b = evidence) (rq_GitHubChecks (rc_Require rule)))"

definition evidenceFor :: "RuleConfig \<Rightarrow> string \<Rightarrow> EvidenceRequirement" where
  "evidenceFor rule evidence =
     \<lparr>er_Type = evidence, er_Name = evidence, er_Required = True,
      er_Reason = ''required by policy '' @ rc_Name rule, er_Producer = ''policy-engine'',
      er_GitHubCheck = bindingFor rule evidence\<rparr>"

definition applyEvidenceRequirements :: "Evaluation \<Rightarrow> RuleConfig \<Rightarrow> Evaluation" where
  "applyEvidenceRequirements evaluation rule =
     evaluation\<lparr>ev_Evidence :=
       foldl appendUniqueEvidence (ev_Evidence evaluation)
         (map (evidenceFor rule) (rq_Evidence (rc_Require rule)))\<rparr>"

definition applyDeploymentRequirements :: "Evaluation \<Rightarrow> RuleConfig \<Rightarrow> Evaluation" where
  "applyDeploymentRequirements evaluation rule =
     (let clause = rq_Deployment (rc_Require rule);
          d = ev_Deployment evaluation;
          d = (if dc_Strategy clause \<noteq> [] then d\<lparr>dr_Strategy := dc_Strategy clause\<rparr> else d);
          d = (if length (dc_Environments clause) > 0
               then d\<lparr>dr_Environments := dr_Environments d @ dc_Environments clause\<rparr> else d);
          d = d\<lparr>dr_RequiresCanary := dr_RequiresCanary d \<or> dc_RequiresCanary clause\<rparr>;
          d = d\<lparr>dr_RequiresRollbackPlan := dr_RequiresRollbackPlan d \<or> dc_RequiresRollbackPlan clause\<rparr>
      in evaluation\<lparr>ev_Deployment := d\<rparr>)"

definition applyPolicyAction :: "Evaluation \<Rightarrow> RuleConfig \<Rightarrow> Evaluation" where
  "applyPolicyAction evaluation rule =
     (let action = rc_Action rule;
          d = ev_Decision evaluation;
          d = (if ac_MinimumLane action \<noteq> []
               then d\<lparr>pd_MinimumLane := policy_maxLane (pd_MinimumLane d) (ac_MinimumLane action)\<rparr>
               else d)
      in if ac_Block action
         then evaluation\<lparr>ev_Decision := d\<lparr>pd_Status := DecisionBlocked,
                pd_Violations := pd_Violations d @
                  [\<lparr>pv_Policy = rc_Name rule, pv_Reason = ''policy blocked change propagation'',
                    pv_Severity = SeverityCritical\<rparr>]\<rparr>\<rparr>
         else if length (ev_Reviewers evaluation) > 0 \<or> length (ev_Evidence evaluation) > 0
         then evaluation\<lparr>ev_Decision := d\<lparr>pd_Status := DecisionPending\<rparr>\<rparr>
         else evaluation\<lparr>ev_Decision := d\<rparr>)"

definition applyRule :: "Evaluation \<Rightarrow> RuleConfig \<Rightarrow> Evaluation" where
  "applyRule evaluation rule =
     (let d = ev_Decision evaluation;
          d = d\<lparr>pd_AppliedPolicies := pd_AppliedPolicies d @ [rc_Name rule]\<rparr>;
          d = (if rc_Description rule \<noteq> []
               then d\<lparr>pd_Reasons := pd_Reasons d @ [rc_Description rule]\<rparr> else d);
          evaluation = evaluation\<lparr>ev_Decision := d\<rparr>;
          evaluation = applyReviewerRequirements evaluation rule;
          evaluation = applyEvidenceRequirements evaluation rule;
          evaluation = applyDeploymentRequirements evaluation rule
      in applyPolicyAction evaluation rule)"

definition finalizeDecision :: "Evaluation \<Rightarrow> Evaluation" where
  "finalizeDecision evaluation =
     (let d = ev_Decision evaluation;
          summary = Join (pd_Reasons d) ''; ''
      in evaluation\<lparr>ev_Decision := d\<lparr>pd_Summary :=
           (if summary = [] then ''no blocking policy constraints'' else summary)\<rparr>\<rparr>)"

definition initialEvaluation :: "time \<Rightarrow> Evaluation" where
  "initialEvaluation now =
     \<lparr>ev_Decision = zeroPolicyDecision\<lparr>pd_Status := DecisionApproved, pd_DecidedAt := now\<rparr>,
      ev_Evidence = [], ev_Reviewers = [],
      ev_Deployment = zeroDeploymentRequirement\<lparr>dr_Strategy := DeployDirect\<rparr>\<rparr>"

definition policy_Evaluate ::
  "time \<Rightarrow> PolicyConfig \<Rightarrow> ChangePacket \<Rightarrow> PolicyError + Evaluation" where
  "policy_Evaluate now config packet =
     bindE (Validate config) (\<lambda>_.
       Inr (finalizeDecision
         (foldl (\<lambda>evaluation rule.
              if \<not> matchesRule rule packet then evaluation else applyRule evaluation rule)
            (initialEvaluation now) (pc_Policies config))))"

section \<open>The fold over the matched rules\<close>

definition matched :: "PolicyConfig \<Rightarrow> ChangePacket \<Rightarrow> RuleConfig list" where
  "matched config packet = filter (\<lambda>rule. matchesRule rule packet) (pc_Policies config)"

lemma fold_matched:
  "foldl (\<lambda>e r. if \<not> P r then e else f e r) s rs = foldl f s (filter P rs)"
  by (induction rs arbitrary: s) auto

lemma policy_Evaluate_Inr:
  "policy_Evaluate now config packet = Inr e \<longleftrightarrow>
     Validate config = Inr ()
     \<and> e = finalizeDecision (foldl applyRule (initialEvaluation now) (matched config packet))"
  by (auto simp: policy_Evaluate_def bindE_Inr fold_matched matched_def)

lemma finalize_fields [simp]:
  "ev_Evidence (finalizeDecision e) = ev_Evidence e"
  "ev_Reviewers (finalizeDecision e) = ev_Reviewers e"
  "ev_Deployment (finalizeDecision e) = ev_Deployment e"
  "pd_Status (ev_Decision (finalizeDecision e)) = pd_Status (ev_Decision e)"
  "pd_MinimumLane (ev_Decision (finalizeDecision e)) = pd_MinimumLane (ev_Decision e)"
  "pd_Violations (ev_Decision (finalizeDecision e)) = pd_Violations (ev_Decision e)"
  "pd_AppliedPolicies (ev_Decision (finalizeDecision e)) = pd_AppliedPolicies (ev_Decision e)"
  by (simp_all add: finalizeDecision_def Let_def)

lemma initial_fields [simp]:
  "ev_Evidence (initialEvaluation now) = []"
  "ev_Reviewers (initialEvaluation now) = []"
  "pd_Status (ev_Decision (initialEvaluation now)) = DecisionApproved"
  "pd_MinimumLane (ev_Decision (initialEvaluation now)) = []"
  "pd_Violations (ev_Decision (initialEvaluation now)) = []"
  "pd_AppliedPolicies (ev_Decision (initialEvaluation now)) = []"
  by (simp_all add: initialEvaluation_def zeroPolicyDecision_def)

lemma requirement_stages [simp]:
  "ev_Reviewers (applyReviewerRequirements e r) =
     foldl appendUniqueReviewer (ev_Reviewers e) (map (reviewerFor r) (rq_Reviewers (rc_Require r)))"
  "ev_Evidence (applyReviewerRequirements e r) = ev_Evidence e"
  "ev_Decision (applyReviewerRequirements e r) = ev_Decision e"
  "ev_Evidence (applyEvidenceRequirements e r) =
     foldl appendUniqueEvidence (ev_Evidence e) (map (evidenceFor r) (rq_Evidence (rc_Require r)))"
  "ev_Reviewers (applyEvidenceRequirements e r) = ev_Reviewers e"
  "ev_Decision (applyEvidenceRequirements e r) = ev_Decision e"
  "ev_Reviewers (applyDeploymentRequirements e r) = ev_Reviewers e"
  "ev_Evidence (applyDeploymentRequirements e r) = ev_Evidence e"
  "ev_Decision (applyDeploymentRequirements e r) = ev_Decision e"
  by (simp_all add: applyReviewerRequirements_def applyEvidenceRequirements_def applyDeploymentRequirements_def Let_def)

lemma action_stage [simp]:
  "ev_Reviewers (applyPolicyAction e r) = ev_Reviewers e"
  "ev_Evidence (applyPolicyAction e r) = ev_Evidence e"
  "pd_MinimumLane (ev_Decision (applyPolicyAction e r)) =
     (if ac_MinimumLane (rc_Action r) \<noteq> []
      then policy_maxLane (pd_MinimumLane (ev_Decision e)) (ac_MinimumLane (rc_Action r))
      else pd_MinimumLane (ev_Decision e))"
  "pd_AppliedPolicies (ev_Decision (applyPolicyAction e r)) = pd_AppliedPolicies (ev_Decision e)"
  "pd_Status (ev_Decision (applyPolicyAction e r)) =
     (if ac_Block (rc_Action r) then DecisionBlocked
      else if ev_Reviewers e \<noteq> [] \<or> ev_Evidence e \<noteq> [] then DecisionPending
      else pd_Status (ev_Decision e))"
  "map pv_Policy (pd_Violations (ev_Decision (applyPolicyAction e r))) =
     map pv_Policy (pd_Violations (ev_Decision e)) @ (if ac_Block (rc_Action r) then [rc_Name r] else [])"
  by (simp_all add: applyPolicyAction_def Let_def)

lemma applyRule_fields:
  "ev_Reviewers (applyRule e r) =
     foldl appendUniqueReviewer (ev_Reviewers e) (map (reviewerFor r) (rq_Reviewers (rc_Require r)))"
  "ev_Evidence (applyRule e r) =
     foldl appendUniqueEvidence (ev_Evidence e) (map (evidenceFor r) (rq_Evidence (rc_Require r)))"
  "pd_MinimumLane (ev_Decision (applyRule e r)) =
     (if ac_MinimumLane (rc_Action r) \<noteq> []
      then policy_maxLane (pd_MinimumLane (ev_Decision e)) (ac_MinimumLane (rc_Action r))
      else pd_MinimumLane (ev_Decision e))"
  "pd_AppliedPolicies (ev_Decision (applyRule e r)) = pd_AppliedPolicies (ev_Decision e) @ [rc_Name r]"
  "pd_Status (ev_Decision (applyRule e r)) =
     (if ac_Block (rc_Action r) then DecisionBlocked
      else if ev_Reviewers (applyRule e r) \<noteq> [] \<or> ev_Evidence (applyRule e r) \<noteq> [] then DecisionPending
      else pd_Status (ev_Decision e))"
  "map pv_Policy (pd_Violations (ev_Decision (applyRule e r))) =
     map pv_Policy (pd_Violations (ev_Decision e)) @ (if ac_Block (rc_Action r) then [rc_Name r] else [])"
  by (simp_all add: applyRule_def Let_def)

section \<open>Reviewers and evidence\<close>

interpretation reviewers: append_unique "\<lambda>r. ToLower (rv_Team r)" appendUniqueReviewer
proof
  fix xs :: "ReviewerRequirement list" and x
  show "map (\<lambda>r. ToLower (rv_Team r)) (appendUniqueReviewer xs x)
    = (if ToLower (rv_Team x) \<in> (\<lambda>r. ToLower (rv_Team r)) ` set xs
       then map (\<lambda>r. ToLower (rv_Team r)) xs
       else map (\<lambda>r. ToLower (rv_Team r)) xs @ [ToLower (rv_Team x)])"
    by (induction xs x rule: appendUniqueReviewer.induct) (auto simp: EqualFold_def)
qed

interpretation evidence: append_unique er_Name appendUniqueEvidence
proof
  fix xs :: "EvidenceRequirement list" and x
  show "map er_Name (appendUniqueEvidence xs x)
    = (if er_Name x \<in> er_Name ` set xs then map er_Name xs else map er_Name xs @ [er_Name x])"
    by (induction xs x rule: appendUniqueEvidence.induct) auto
qed

definition wantedReviewers :: "RuleConfig list \<Rightarrow> ReviewerRequirement list" where
  "wantedReviewers rules = concat (map (\<lambda>r. map (reviewerFor r) (rq_Reviewers (rc_Require r))) rules)"

definition wantedEvidence :: "RuleConfig list \<Rightarrow> EvidenceRequirement list" where
  "wantedEvidence rules = concat (map (\<lambda>r. map (evidenceFor r) (rq_Evidence (rc_Require r))) rules)"

definition requiredByName :: "EvidenceRequirement \<Rightarrow> bool" where
  "requiredByName q \<longleftrightarrow> er_Required q \<and> er_Type q = er_Name q \<and> er_Producer q = ''policy-engine''"

lemma fold_reviewers:
  "ev_Reviewers (foldl applyRule e rs) = foldl appendUniqueReviewer (ev_Reviewers e) (wantedReviewers rs)"
  by (induction rs arbitrary: e) (simp_all add: wantedReviewers_def applyRule_fields)

lemma fold_evidence:
  "ev_Evidence (foldl applyRule e rs) = foldl appendUniqueEvidence (ev_Evidence e) (wantedEvidence rs)"
  by (induction rs arbitrary: e) (simp_all add: wantedEvidence_def applyRule_fields)

lemma appendUniqueReviewer_mandatory:
  "list_all rv_Mandatory xs \<Longrightarrow> rv_Mandatory x \<Longrightarrow> list_all rv_Mandatory (appendUniqueReviewer xs x)"
  by (induction xs x rule: appendUniqueReviewer.induct) auto

lemma wantedReviewers_mandatory:
  "list_all rv_Mandatory xs \<Longrightarrow>
   list_all rv_Mandatory (foldl appendUniqueReviewer xs (wantedReviewers rs))"
  by (rule foldl_invariant)
     (auto simp: wantedReviewers_def reviewerFor_def appendUniqueReviewer_mandatory)

lemma reviewers_empty: "foldl appendUniqueReviewer [] rs = [] \<longleftrightarrow> rs = []"
  using reviewers.foldl_key_set [of "[]" rs] by auto

lemma appendUniqueEvidence_required:
  "list_all requiredByName xs \<Longrightarrow> requiredByName x \<Longrightarrow> list_all requiredByName (appendUniqueEvidence xs x)"
  by (induction xs x rule: appendUniqueEvidence.induct) (auto simp: requiredByName_def)

lemma evidenceFor_required: "requiredByName (evidenceFor r n)"
  by (simp add: evidenceFor_def requiredByName_def)

lemma wantedEvidence_required:
  "list_all requiredByName xs \<Longrightarrow> list_all requiredByName (foldl appendUniqueEvidence xs (wantedEvidence rs))"
  by (rule foldl_invariant) (auto simp: wantedEvidence_def evidenceFor_required appendUniqueEvidence_required)

lemma evidence_empty: "foldl appendUniqueEvidence [] rs = [] \<longleftrightarrow> rs = []"
  using evidence.foldl_key_set [of "[]" rs] by auto

text \<open>Where the binding of a requirement comes from, and that no binding is lost when all
  bindings of a name agree.\<close>

definition agree :: "EvidenceRequirement list \<Rightarrow> bool" where
  "agree xs \<longleftrightarrow> (\<forall>a \<in> set xs. \<forall>b \<in> set xs. er_Name a = er_Name b \<longrightarrow>
     er_GitHubCheck a \<noteq> None \<longrightarrow> er_GitHubCheck b \<noteq> None \<longrightarrow> er_GitHubCheck a = er_GitHubCheck b)"

definition boundIn :: "EvidenceRequirement list \<Rightarrow> string \<Rightarrow> GitHubCheckBinding \<Rightarrow> bool" where
  "boundIn xs n g \<longleftrightarrow> (\<exists>c \<in> set xs. er_Name c = n \<and> er_GitHubCheck c = Some g)"

lemma boundIn_simps [simp]:
  "\<not> boundIn [] n g"
  "boundIn (x # xs) n g \<longleftrightarrow> er_Name x = n \<and> er_GitHubCheck x = Some g \<or> boundIn xs n g"
  "boundIn (xs @ ys) n g \<longleftrightarrow> boundIn xs n g \<or> boundIn ys n g"
  by (auto simp: boundIn_def)

lemma agree_Cons: "agree (x # xs) \<Longrightarrow> agree xs"
  by (auto simp: agree_def)

lemma appendUniqueEvidence_bound:
  assumes "distinct (map er_Name xs)" and "agree (x # xs)"
  shows "boundIn (appendUniqueEvidence xs x) n g \<longleftrightarrow> boundIn (xs @ [x]) n g"
  using assms
proof (induction xs x rule: appendUniqueEvidence.induct)
  case (2 y ys x)
  show ?case
  proof (cases "er_Name y = er_Name x")
    case True
    have "er_GitHubCheck y = None \<or> er_GitHubCheck x = None \<or> er_GitHubCheck y = er_GitHubCheck x"
      using "2.prems"(2) True unfolding agree_def by (metis list.set_intros)
    then show ?thesis using True by (cases "er_GitHubCheck y"; cases "er_GitHubCheck x") auto
  next
    case False
    have "agree (x # ys)" using "2.prems"(2) by (auto simp: agree_def)
    then show ?thesis using "2.IH" [OF False] "2.prems"(1) False by simp
  qed
qed simp

lemma fold_bound:
  assumes "distinct (map er_Name xs)" and "\<And>n g h. boundIn (xs @ cs) n g \<Longrightarrow> boundIn (xs @ cs) n h \<Longrightarrow> g = h"
  shows "boundIn (foldl appendUniqueEvidence xs cs) n g \<longleftrightarrow> boundIn (xs @ cs) n g"
  using assms
proof (induction cs arbitrary: xs)
  case (Cons c cs)
  have "agree (c # xs)"
    unfolding agree_def
  proof (intro ballI impI)
    fix a b assume "a \<in> set (c # xs)" "b \<in> set (c # xs)" "er_Name a = er_Name b"
      "er_GitHubCheck a \<noteq> None" "er_GitHubCheck b \<noteq> None"
    then obtain g h where gh: "er_GitHubCheck a = Some g" "er_GitHubCheck b = Some h"
      "boundIn (xs @ c # cs) (er_Name a) g" "boundIn (xs @ c # cs) (er_Name a) h"
      by (fastforce simp: boundIn_def)
    then show "er_GitHubCheck a = er_GitHubCheck b" using Cons.prems(2) by simp
  qed
  then have step: "boundIn (appendUniqueEvidence xs c) m k \<longleftrightarrow> boundIn (xs @ [c]) m k" for m k
    by (rule appendUniqueEvidence_bound [OF Cons.prems(1)])
  have "boundIn (foldl appendUniqueEvidence (appendUniqueEvidence xs c) cs) n g
      \<longleftrightarrow> boundIn (appendUniqueEvidence xs c @ cs) n g"
  proof (rule Cons.IH [OF evidence.add_distinct [OF Cons.prems(1)]])
    fix m k l
    assume "boundIn (appendUniqueEvidence xs c @ cs) m k" "boundIn (appendUniqueEvidence xs c @ cs) m l"
    then have "boundIn (xs @ c # cs) m k" "boundIn (xs @ c # cs) m l" by (auto simp: step)
    then show "k = l" by (rule Cons.prems(2))
  qed
  then show ?case by (simp add: step disj_assoc)
qed simp

lemma boundIn_wanted:
  assumes "\<And>r. r \<in> set rs \<Longrightarrow> validRule r"
  shows "boundIn (wantedEvidence rs) n g \<longleftrightarrow>
    (\<exists>b \<in> set (ruleBindings rs). gc_Evidence b = n \<and> g = \<lparr>gb_Name = gc_Name b, gb_AppID = gc_AppID b\<rparr>)"
    (is "?l \<longleftrightarrow> ?r")
proof
  assume ?l
  then obtain r e where re: "r \<in> set rs" "e \<in> set (rq_Evidence (rc_Require r))" "e = n"
    "bindingFor r e = Some g"
    by (auto simp: boundIn_def wantedEvidence_def evidenceFor_def)
  from re(4) obtain b where "find (\<lambda>b. gc_Evidence b = e) (rq_GitHubChecks (rc_Require r)) = Some b"
    "g = \<lparr>gb_Name = gc_Name b, gb_AppID = gc_AppID b\<rparr>"
    by (auto simp: bindingFor_def)
  then show ?r using find_Some_in_set re(1,3) by (fastforce simp: ruleBindings_def)
next
  assume ?r
  then obtain r b where rb: "r \<in> set rs" "b \<in> set (rq_GitHubChecks (rc_Require r))" "gc_Evidence b = n"
    "g = \<lparr>gb_Name = gc_Name b, gb_AppID = gc_AppID b\<rparr>"
    by (auto simp: ruleBindings_def)
  have v: "validBindings (rc_Require r)" using assms [OF rb(1)] by (simp add: validRule_def)
  then have d: "distinct (map gc_Evidence (rq_GitHubChecks (rc_Require r)))"
    and i: "gc_Evidence b \<in> set (rq_Evidence (rc_Require r))"
    using rb(2) by (simp_all add: validBindings_def)
  have "find (\<lambda>b. gc_Evidence b = n) (rq_GitHubChecks (rc_Require r)) \<noteq> None"
    unfolding find_None_all using rb(2,3) by blast
  then obtain c where c: "find (\<lambda>b. gc_Evidence b = n) (rq_GitHubChecks (rc_Require r)) = Some c" by blast
  have "c = b" using find_Some_in_set [OF c] rb(2,3) d by (metis inj_on_eq_iff distinct_map)
  then have "er_GitHubCheck (evidenceFor r n) = Some g"
    using c rb(4) by (simp add: evidenceFor_def bindingFor_def)
  moreover have "er_Name (evidenceFor r n) = n" by (simp add: evidenceFor_def)
  moreover have "evidenceFor r n \<in> set (wantedEvidence rs)"
    using rb(1,3) i by (auto simp: wantedEvidence_def)
  ultimately show ?l unfolding boundIn_def by blast
qed

section \<open>Status and minimum lane\<close>

definition demands :: "RuleConfig \<Rightarrow> bool" where
  "demands rule \<longleftrightarrow> rq_Reviewers (rc_Require rule) \<noteq> [] \<or> rq_Evidence (rc_Require rule) \<noteq> []"

definition blocks :: "RuleConfig \<Rightarrow> bool" where
  "blocks rule \<longleftrightarrow> ac_Block (rc_Action rule)"

lemma requirements_empty:
  "ev_Reviewers (foldl applyRule (initialEvaluation now) rs) = []
   \<and> ev_Evidence (foldl applyRule (initialEvaluation now) rs) = [] \<longleftrightarrow> (\<forall>r \<in> set rs. \<not> demands r)"
  by (auto simp: fold_reviewers fold_evidence reviewers_empty evidence_empty wantedReviewers_def
      wantedEvidence_def demands_def)

definition finalStatus :: "RuleConfig list \<Rightarrow> DecisionStatus" where
  "finalStatus rs =
     (if \<exists>r \<in> set rs. demands r
      then (if blocks (last rs) then DecisionBlocked else DecisionPending)
      else (if \<exists>r \<in> set rs. blocks r then DecisionBlocked else DecisionApproved))"

lemma fold_status:
  "pd_Status (ev_Decision (foldl applyRule (initialEvaluation now) rs)) = finalStatus rs"
proof (induction rs rule: rev_induct)
  case (snoc r rs)
  let ?e = "foldl applyRule (initialEvaluation now) rs"
  have "ev_Reviewers (applyRule ?e r) = [] \<and> ev_Evidence (applyRule ?e r) = []
      \<longleftrightarrow> (\<forall>x \<in> set (rs @ [r]). \<not> demands x)"
    using requirements_empty [of now "rs @ [r]"] by simp
  then have "ev_Reviewers (applyRule ?e r) \<noteq> [] \<or> ev_Evidence (applyRule ?e r) \<noteq> []
      \<longleftrightarrow> (\<exists>x \<in> set (rs @ [r]). demands x)"
    by blast
  then have "pd_Status (ev_Decision (applyRule ?e r)) =
      (if blocks r then DecisionBlocked
       else if \<exists>x \<in> set (rs @ [r]). demands x then DecisionPending else finalStatus rs)"
    using snoc.IH by (simp add: applyRule_fields(5) blocks_def)
  then show ?case by (auto simp: finalStatus_def)
qed (simp add: finalStatus_def)

definition laneOf :: "RuleConfig \<Rightarrow> MergeLane" where
  "laneOf rule = ac_MinimumLane (rc_Action rule)"

lemma fold_lane:
  "pd_MinimumLane (ev_Decision (foldl applyRule e rs))
     = foldl (\<lambda>l r. if laneOf r \<noteq> [] then policy_maxLane l (laneOf r) else l)
         (pd_MinimumLane (ev_Decision e)) rs"
  by (induction rs arbitrary: e) (simp_all add: applyRule_fields laneOf_def)

lemma laneOrder_empty [simp]: "laneOrder [] = 0"
  by (simp add: laneOrder_def)

lemma laneOrder_nonneg: "0 \<le> laneOrder l"
  by (simp add: laneOrder_def)

lemma laneOrder_max: "laneOrder (policy_maxLane a b) = max (laneOrder a) (laneOrder b)"
  using laneOrder_nonneg [of b] by (auto simp: policy_maxLane_def)

lemma fold_lane_order:
  "laneOrder (foldl (\<lambda>l r. if laneOf r \<noteq> [] then policy_maxLane l (laneOf r) else l) l rs)
     = Max (insert (laneOrder l) (laneOrder ` laneOf ` set rs))"
proof (induction rs arbitrary: l)
  case (Cons r rs)
  have m: "(if laneOf r \<noteq> [] then policy_maxLane l (laneOf r) else l) = k \<Longrightarrow>
      laneOrder k = max (laneOrder l) (laneOrder (laneOf r))" for k
    using laneOrder_nonneg [of l] by (auto simp: laneOrder_max)
  then show ?case using Cons.IH m [OF refl] by (simp add: Max_insert_max)
qed simp

lemma fold_lane_source:
  "foldl (\<lambda>l r. if laneOf r \<noteq> [] then policy_maxLane l (laneOf r) else l) l rs
     \<in> insert l (laneOf ` set rs)"
  by (induction rs arbitrary: l) (auto simp: policy_maxLane_def)

section \<open>Properties\<close>

text \<open>
  C28: the status of a policy decision, exactly. When a matched rule demands a reviewer or
  evidence, the decision is blocked if the last matched rule blocks and pending otherwise; when
  none does, it is blocked if any matched rule blocks and approved otherwise. So an approved
  decision means that no matched rule blocks and nothing is demanded.
\<close>

theorem Evaluate_status_exact:
  assumes "policy_Evaluate now config packet = Inr e"
  shows "pd_Status (ev_Decision e) =
      (if \<exists>r \<in> set (matched config packet). demands r
       then (if blocks (last (matched config packet)) then DecisionBlocked else DecisionPending)
       else (if \<exists>r \<in> set (matched config packet). blocks r then DecisionBlocked else DecisionApproved))
    \<and> (pd_Status (ev_Decision e) = DecisionApproved \<longleftrightarrow>
         (\<forall>r \<in> set (matched config packet). \<not> demands r \<and> \<not> blocks r))"
  using assms
  by (auto simp: policy_Evaluate_Inr fold_status finalStatus_def)

text \<open>
  The minimum lane of a decision is the highest minimum lane of the matched rules, so it does
  not depend on the order of the rules; it is empty or the lane of a matched rule.
\<close>

theorem Evaluate_minimum_lane:
  assumes "policy_Evaluate now config packet = Inr e"
  shows "laneOrder (pd_MinimumLane (ev_Decision e))
      = Max (insert 0 (laneOrder ` laneOf ` set (matched config packet)))
    \<and> pd_MinimumLane (ev_Decision e) \<in> insert [] (laneOf ` set (matched config packet))"
  using assms fold_lane_order [of "[]" "matched config packet"]
    fold_lane_source [of "[]" "matched config packet"]
  by (auto simp: policy_Evaluate_Inr fold_lane)

text \<open>
  C30: the evidence of a decision. Each evidence name that a matched rule requires appears exactly
  once and nothing else does; each is required, of the type of its name, from the policy engine; and it carries a GitHub check exactly when a
  matched rule binds it to that check, whatever the order of the rules and even when a rule that
  requires the evidence without a binding comes first.
\<close>

theorem Evaluate_evidence_exact:
  assumes "policy_Evaluate now config packet = Inr e"
  shows "distinct (map er_Name (ev_Evidence e))
    \<and> er_Name ` set (ev_Evidence e)
        = (\<Union>r \<in> set (matched config packet). set (rq_Evidence (rc_Require r)))
    \<and> list_all requiredByName (ev_Evidence e)
    \<and> (\<forall>q \<in> set (ev_Evidence e). \<forall>g. er_GitHubCheck q = Some g \<longleftrightarrow>
         (\<exists>b \<in> set (ruleBindings (matched config packet)).
            gc_Evidence b = er_Name q \<and> g = \<lparr>gb_Name = gc_Name b, gb_AppID = gc_AppID b\<rparr>))"
proof -
  let ?rs = "matched config packet"
  have V: "Validate config = Inr ()" and e: "ev_Evidence e = foldl appendUniqueEvidence [] (wantedEvidence ?rs)"
    using assms by (auto simp: policy_Evaluate_Inr fold_evidence)
  have valid: "\<And>r. r \<in> set ?rs \<Longrightarrow> validRule r"
    using V by (auto simp: Validate_Inr matched_def)
  have "set (ruleBindings ?rs) \<subseteq> set (ruleBindings (pc_Policies config))"
    by (auto simp: ruleBindings_def matched_def)
  then have one: "oneToOne (set (ruleBindings ?rs))"
    using V oneToOne_mono by (auto simp: Validate_Inr)
  have bw: "boundIn (wantedEvidence ?rs) n g \<longleftrightarrow> (\<exists>b \<in> set (ruleBindings ?rs).
      gc_Evidence b = n \<and> g = \<lparr>gb_Name = gc_Name b, gb_AppID = gc_AppID b\<rparr>)" for n g
    using valid by (rule boundIn_wanted)
  have fn: "boundIn ([] @ wantedEvidence ?rs) n g \<Longrightarrow> boundIn ([] @ wantedEvidence ?rs) n h \<Longrightarrow> g = h"
    for n g h
  proof -
    assume "boundIn ([] @ wantedEvidence ?rs) n g" "boundIn ([] @ wantedEvidence ?rs) n h"
    then obtain a b where "a \<in> set (ruleBindings ?rs)" "b \<in> set (ruleBindings ?rs)"
      "gc_Evidence a = n" "gc_Evidence b = n" and g: "g = \<lparr>gb_Name = gc_Name a, gb_AppID = gc_AppID a\<rparr>"
      and h: "h = \<lparr>gb_Name = gc_Name b, gb_AppID = gc_AppID b\<rparr>"
      unfolding append_Nil bw by blast
    then have "a = b" using one unfolding oneToOne_def by blast
    then show "g = h" using g h by simp
  qed
  have b: "boundIn (ev_Evidence e) n g \<longleftrightarrow> boundIn (wantedEvidence ?rs) n g" for n g
    using fold_bound [of "[]" "wantedEvidence ?rs" n g] fn by (simp add: e)
  have d: "distinct (map er_Name (ev_Evidence e))" using evidence.foldl_distinct [of "[]"] by (simp add: e)
  moreover have "er_Name ` set (ev_Evidence e) = (\<Union>r \<in> set ?rs. set (rq_Evidence (rc_Require r)))"
    using evidence.foldl_key_set [of "[]" "wantedEvidence ?rs"]
    by (auto simp: e wantedEvidence_def evidenceFor_def image_UN image_image)
  moreover have "er_GitHubCheck q = Some g \<longleftrightarrow> boundIn (ev_Evidence e) (er_Name q) g"
    if "q \<in> set (ev_Evidence e)" for q g
  proof -
    have "inj_on er_Name (set (ev_Evidence e))" using d by (simp add: distinct_map)
    then have "c = q" if "c \<in> set (ev_Evidence e)" "er_Name c = er_Name q" for c
      using that \<open>q \<in> set (ev_Evidence e)\<close> by (auto dest: inj_onD)
    then show ?thesis using that unfolding boundIn_def by blast
  qed
  moreover have "list_all requiredByName (ev_Evidence e)" using wantedEvidence_required [of "[]"] by (simp add: e)
  ultimately show ?thesis by (auto simp: b bw)
qed

text \<open>
  The reviewers of a decision are the teams that matched rules require, each once when case
  is ignored, and all of them are mandatory.
\<close>

theorem Evaluate_reviewers_exact:
  assumes "policy_Evaluate now config packet = Inr e"
  shows "distinct (map (\<lambda>r. ToLower (rv_Team r)) (ev_Reviewers e))
    \<and> (\<lambda>r. ToLower (rv_Team r)) ` set (ev_Reviewers e)
        = (\<Union>r \<in> set (matched config packet). ToLower ` set (rq_Reviewers (rc_Require r)))
    \<and> (\<forall>r \<in> set (ev_Reviewers e). rv_Mandatory r)"
proof -
  have e: "ev_Reviewers e = foldl appendUniqueReviewer [] (wantedReviewers (matched config packet))"
    using assms by (auto simp: policy_Evaluate_Inr fold_reviewers)
  then show ?thesis
    using reviewers.foldl_distinct [of "[]"] wantedReviewers_mandatory [of "[]"]
      reviewers.foldl_key_set [of "[]" "wantedReviewers (matched config packet)"]
    by (auto simp: wantedReviewers_def reviewerFor_def list_all_iff image_UN image_image)
qed

definition samplePolicyPacket :: ChangePacket where
  "samplePolicyPacket = zeroChangePacket\<lparr>cp_Files := [zeroChangedFile\<lparr>cf_Path := ''src/a.go''\<rparr>]\<rparr>"

definition sampleConfig :: PolicyConfig where
  "sampleConfig = \<lparr>pc_Policies = [sampleRule]\<rparr>"

lemma sampleRule_matches: "matchesRule sampleRule samplePolicyPacket"
proof -
  have "Contains (ToLower ''src/a.go'') (ToLower ''src'')" by code_simp
  then show ?thesis
    by (simp add: matchesRule_def packetTouchesAnyPath_def samplePolicyPacket_def sampleRule_def
        sampleWhen_def zero_defs)
qed

lemma sample_matched: "matched sampleConfig samplePolicyPacket = [sampleRule]"
  using sampleRule_matches by (simp add: matched_def sampleConfig_def)

lemma sampleName: "\<not> blank (rc_Name sampleRule)"
  unfolding blank_def sampleRule_def by code_simp

lemma sample_evaluates: "\<exists>e. policy_Evaluate 5 sampleConfig samplePolicyPacket = Inr e"
proof -
  have "Validate sampleConfig = Inr ()"
    using sampleRule_valid sampleName
    by (simp add: Validate_Inr sampleConfig_def ruleBindings_def oneToOne_def sampleRule_def)
  then show ?thesis by (simp add: policy_Evaluate_def)
qed

theorem Evaluate_status_exact_witness:
  "\<exists>e. policy_Evaluate 5 sampleConfig samplePolicyPacket = Inr e
     \<and> pd_Status (ev_Decision e) = DecisionPending"
proof -
  obtain e where e: "policy_Evaluate 5 sampleConfig samplePolicyPacket = Inr e"
    using sample_evaluates by blast
  then show ?thesis
    using Evaluate_status_exact [OF e] sample_matched by (simp add: demands_def blocks_def sampleRule_def)
qed

theorem Evaluate_minimum_lane_witness:
  "\<exists>e. policy_Evaluate 5 sampleConfig samplePolicyPacket = Inr e
     \<and> laneOrder (pd_MinimumLane (ev_Decision e)) = 2"
proof -
  obtain e where e: "policy_Evaluate 5 sampleConfig samplePolicyPacket = Inr e"
    using sample_evaluates by blast
  then show ?thesis
    using Evaluate_minimum_lane [OF e] sample_matched by (simp add: laneOf_def sampleRule_def laneOrder_def)
qed

text \<open>The first rule requires the evidence without a binding, the second one binds it.\<close>

definition unboundRule :: RuleConfig where
  "unboundRule = sampleRule\<lparr>rc_Name := ''freeze'', rc_Require := (rc_Require sampleRule)\<lparr>rq_GitHubChecks := []\<rparr>\<rparr>"

definition laterBoundConfig :: PolicyConfig where
  "laterBoundConfig = \<lparr>pc_Policies = [unboundRule, sampleRule]\<rparr>"

lemma sampleNames: "\<not> blank ''freeze''" "ToLower (TrimSpace ''freeze'') \<noteq> ToLower (TrimSpace ''review'')" "\<not> blank ''src''"
  unfolding blank_def by code_simp+

lemma laterBound_valid: "Validate laterBoundConfig = Inr ()"
  using sampleRule_valid sampleName sampleNames
  by (simp add: Validate_Inr laterBoundConfig_def unboundRule_def ruleBindings_def oneToOne_def ruleKey_def
      validRule_def validBindings_def hasCondition_def hasEffect_def sampleRule_def sampleWhen_def sampleDeployment_def)

theorem Evaluate_evidence_exact_witness:
  "\<exists>e q. policy_Evaluate 5 laterBoundConfig samplePolicyPacket = Inr e \<and> q \<in> set (ev_Evidence e)
     \<and> er_Name q = ''unit'' \<and> er_Required q \<and> er_GitHubCheck q = Some \<lparr>gb_Name = ''ci'', gb_AppID = 7\<rparr>"
proof -
  obtain e where e: "policy_Evaluate 5 laterBoundConfig samplePolicyPacket = Inr e"
    using laterBound_valid by (simp add: policy_Evaluate_def)
  have "matchesRule unboundRule samplePolicyPacket"
    using sampleRule_matches by (simp add: matchesRule_def unboundRule_def)
  then have m: "matched laterBoundConfig samplePolicyPacket = [unboundRule, sampleRule]"
    using sampleRule_matches by (simp add: matched_def laterBoundConfig_def)
  note exact = Evaluate_evidence_exact [OF e, unfolded m]
  have "''unit'' \<in> er_Name ` set (ev_Evidence e)" using exact by (simp add: unboundRule_def sampleRule_def)
  then obtain q where q: "q \<in> set (ev_Evidence e)" "er_Name q = ''unit''" by auto
  moreover have "requiredByName q" using exact q(1) by (simp add: list_all_iff)
  moreover have "er_GitHubCheck q = Some \<lparr>gb_Name = ''ci'', gb_AppID = 7\<rparr>"
    using exact q by (simp add: ruleBindings_def unboundRule_def sampleRule_def)
  ultimately show ?thesis using e by (auto simp: requiredByName_def)
qed

theorem Evaluate_reviewers_exact_witness:
  "\<exists>e. policy_Evaluate 5 sampleConfig samplePolicyPacket = Inr e
     \<and> (\<forall>r \<in> set (ev_Reviewers e). rv_Mandatory r)"
proof -
  obtain e where e: "policy_Evaluate 5 sampleConfig samplePolicyPacket = Inr e"
    using sample_evaluates by blast
  then show ?thesis using Evaluate_reviewers_exact [OF e] by blast
qed

definition blockingRule :: RuleConfig where
  "blockingRule = sampleRule\<lparr>rc_Name := ''freeze'',
     rc_Require := (rc_Require sampleRule)\<lparr>rq_Reviewers := [], rq_Evidence := [], rq_GitHubChecks := []\<rparr>,
     rc_Action := \<lparr>ac_Block = True, ac_MinimumLane = []\<rparr>\<rparr>"

definition overriddenConfig :: PolicyConfig where
  "overriddenConfig = \<lparr>pc_Policies = [blockingRule, sampleRule]\<rparr>"

lemma overridden_valid: "Validate overriddenConfig = Inr ()"
  using sampleRule_valid sampleName sampleNames
  by (simp add: Validate_Inr overriddenConfig_def blockingRule_def ruleBindings_def oneToOne_def ruleKey_def
      validRule_def validBindings_def hasCondition_def hasEffect_def sampleRule_def
      sampleWhen_def sampleDeployment_def)

text \<open>
  A block can be overwritten. There is a valid configuration with a blocking rule that
  matches a packet, and the decision is nevertheless pending, because a later matched rule
  demands evidence: the violation is recorded, the status is not \<open>blocked\<close>, and the lane the
  packet is assigned is \<open>RED\<close> and not \<open>BLACK\<close>.
\<close>

theorem Evaluate_block_overwritten:
  "\<exists>e. policy_Evaluate 5 overriddenConfig samplePolicyPacket = Inr e
     \<and> blockingRule \<in> set (matched overriddenConfig samplePolicyPacket) \<and> blocks blockingRule
     \<and> pd_Status (ev_Decision e) = DecisionPending
     \<and> map pv_Policy (pd_Violations (ev_Decision e)) = [rc_Name blockingRule]
     \<and> Assign sampleLanes (samplePolicyPacket\<lparr>cp_Decision := ev_Decision e\<rparr>) = Inr MergeLaneRed"
proof -
  have "rc_When blockingRule = rc_When sampleRule" by (simp add: blockingRule_def)
  then have "matchesRule blockingRule samplePolicyPacket"
    using sampleRule_matches by (simp add: matchesRule_def)
  then have m: "matched overriddenConfig samplePolicyPacket = [blockingRule, sampleRule]"
    using sampleRule_matches by (simp add: matched_def overriddenConfig_def)
  obtain e where e: "policy_Evaluate 5 overriddenConfig samplePolicyPacket = Inr e"
    using overridden_valid by (simp add: policy_Evaluate_def)
  then have eq: "e = finalizeDecision (applyRule (applyRule (initialEvaluation 5) blockingRule) sampleRule)"
    using m by (simp add: policy_Evaluate_Inr)
  have "finalStatus [blockingRule, sampleRule] = DecisionPending"
    by (simp add: finalStatus_def demands_def blocks_def sampleRule_def)
  then have st: "pd_Status (ev_Decision e) = DecisionPending"
    using fold_status [of 5 "[blockingRule, sampleRule]"] eq by simp
  have "map pv_Policy (pd_Violations (ev_Decision e)) = [rc_Name blockingRule]"
    by (simp add: eq applyRule_fields(6)) (simp add: blockingRule_def sampleRule_def)
  moreover have "pd_MinimumLane (ev_Decision e) = MergeLaneYellow"
    by (simp add: eq applyRule_fields(3)) (simp add: blockingRule_def sampleRule_def policy_maxLane_def)
  then have "Assign sampleLanes (samplePolicyPacket\<lparr>cp_Decision := ev_Decision e\<rparr>) = Inr MergeLaneRed"
    using st by (simp add: Assign_def forcedLane_def Let_def lanes_maxLane_def samplePolicyPacket_def
        zero_defs laneOrder_def)
  ultimately show ?thesis using e m st by (simp add: blocks_def) (simp add: blockingRule_def)
qed

end
