(* ===== verification/Risk.thy ===== *)
theory Risk
  imports Domain
begin

text \<open>
  The weighted risk engine, \<open>internal/risk\<close>: the weight of every mutation is added to the risk
  of its type and to the total score, the conflict assessment adds a risk of its own, and the
  total is raised by the runtime criticality and the size of the change and clamped to 0..100.
  The map from risk types to risks is an association list; its iteration order in
  \<open>materializeRisks\<close> is a parameter.
\<close>

section \<open>Helpers\<close>

definition severityFromScore :: "int \<Rightarrow> Severity" where
  "severityFromScore score =
     (if score \<ge> 80 then SeverityCritical else if score \<ge> 55 then SeverityHigh
      else if score \<ge> 25 then SeverityMedium else SeverityLow)"

definition clampScore :: "int \<Rightarrow> int" where
  "clampScore score = (if score > 100 then 100 else if score < 0 then 0 else score)"

fun appendUnique :: "string list \<Rightarrow> string list \<Rightarrow> string list" where
  "appendUnique values [] = values"
| "appendUnique values (candidate # candidates) =
     (let found = list_ex (\<lambda>value. value = candidate) values
      in appendUnique (if \<not> found then values @ [candidate] else values) candidates)"

section \<open>Classification and weights\<close>

definition classifyRisk :: "MutationKind \<Rightarrow> RiskType \<times> string \<times> string list" where
  "classifyRisk kind =
     (if kind = MutationAuthBehaviorChange then
        (RiskSecurity, ''security control surface changed'',
         [''security review'', ''auth integration tests''])
      else if kind = MutationDatabaseSchema then
        (RiskSchema, ''schema compatibility may affect runtime behavior'',
         [''migration plan'', ''rollback validation''])
      else if kind = MutationRuntimeConfig \<or> kind = MutationDeploymentWorkflow then
        (RiskRollout, ''rollout behavior changed'', [''canary'', ''runtime smoke tests''])
      else if kind = MutationDependency then
        (RiskDependency, ''dependency graph changed'',
         [''dependency diff review'', ''build provenance''])
      else if kind = MutationDataAccess then
        (RiskRuntime, ''data access behavior changed'',
         [''integration tests'', ''data consistency validation''])
      else (RiskRuntime, ''runtime behavior may have shifted'', [''integration tests'']))"

type_synonym weights = "MutationKind \<rightharpoonup> int"

definition defaultWeights :: weights where
  "defaultWeights =
     [MutationAuthBehaviorChange \<mapsto> 35,
      MutationDatabaseSchema \<mapsto> 32,
      MutationRuntimeConfig \<mapsto> 20,
      MutationAPIContract \<mapsto> 26,
      MutationDependency \<mapsto> 15,
      MutationInfrastructure \<mapsto> 28,
      MutationDataAccess \<mapsto> 24,
      MutationDeploymentWorkflow \<mapsto> 24,
      MutationObservabilityContract \<mapsto> 12,
      MutationUnknown \<mapsto> 8]"

definition weightOf :: "weights \<Rightarrow> MutationKind \<Rightarrow> int" where
  \<comment> \<open>reading a Go map: 0 for a missing key\<close>
  "weightOf weights kind = (case weights kind of None \<Rightarrow> 0 | Some n \<Rightarrow> n)"

section \<open>Evaluation\<close>

type_synonym risk_map = "(RiskType \<times> Risk) list"

definition applyMutationRisk :: "weights \<Rightarrow> risk_map \<Rightarrow> Mutation \<Rightarrow> risk_map \<times> int" where
  "applyMutationRisk weights riskByType mutation =
     (let base = weightOf weights (mu_Kind mutation);
          (riskType, summary, mitigations) = classifyRisk (mu_Kind mutation);
          current = (case map_of riskByType riskType of
              Some r \<Rightarrow> r
            | None \<Rightarrow> zeroRisk\<lparr>ri_Type := riskType, ri_Summary := summary,
                ri_Mitigations := mitigations, ri_Severity := mu_Severity mutation\<rparr>);
          current = current\<lparr>ri_Score := ri_Score current + base,
            ri_Reason := TrimSpace (ri_Reason current @ ''; mutation='' @ mu_Kind mutation),
            ri_AffectedSystems := appendUnique (ri_AffectedSystems current) (mu_Files mutation)\<rparr>
      in (AList.update riskType current riskByType, base))"

definition applyRuntimeCriticality :: "int \<Rightarrow> Criticality \<Rightarrow> int" where
  "applyRuntimeCriticality score criticality =
     (if criticality = CriticalityHigh then score + 10
      else if criticality = CriticalityTier0 then score + 20 else score)"

definition applyChangeVolume :: "int \<Rightarrow> int \<Rightarrow> int" where
  "applyChangeVolume score fileCount = (if fileCount > 20 then score + 8 else score)"

definition materializeRisks :: "key_order \<Rightarrow> risk_map \<Rightarrow> Risk list \<times> RiskType list" where
  "materializeRisks ord riskByType =
     (let risks = map (\<lambda>(_, risk). risk\<lparr>ri_Severity := severityFromScore (ri_Score risk)\<rparr>)
            (range_map ord riskByType)
      in (risks, map ri_Type risks))"

definition mutationStep :: "weights \<Rightarrow> risk_map \<times> int \<Rightarrow> Mutation \<Rightarrow> risk_map \<times> int" where
  "mutationStep weights st mutation =
     (let (riskByType, score) = st; (riskByType, base) = applyMutationRisk weights riskByType mutation
      in (riskByType, score + base))"

definition findingStep :: "Risk \<Rightarrow> ConflictFinding \<Rightarrow> Risk" where
  "findingStep conflict finding =
     conflict\<lparr>ri_Reason := TrimSpace (ri_Reason conflict @ ''; '' @ fi_Kind finding),
       ri_AffectedSystems := appendUnique (ri_AffectedSystems conflict) (fi_Paths finding)\<rparr>"

definition conflictRisk :: "ConflictAssessment \<Rightarrow> Risk" where
  "conflictRisk c =
     foldl findingStep
       (zeroRisk\<lparr>ri_Type := RiskConflict, ri_Score := ca_Score c,
          ri_Severity := severityFromScore (ca_Score c),
          ri_Summary := ''merge conflict or target-branch drift risk detected'',
          ri_Mitigations := ca_Mitigations c\<rparr>)
       (ca_Findings c)"

definition collectRisks :: "weights \<Rightarrow> ChangePacket \<Rightarrow> risk_map \<times> int" where
  "collectRisks weights packet =
     (let (riskByType, score) = foldl (mutationStep weights) ([], 0) (cp_Mutations packet);
          conflict = conflictRisk (cp_Conflict packet)
      in if ca_Score (cp_Conflict packet) > 0
         then (AList.update RiskConflict conflict riskByType, score + ri_Score conflict)
         else (riskByType, score))"

definition risk_Evaluate ::
  "key_order \<Rightarrow> weights \<Rightarrow> ChangePacket \<Rightarrow> string + (RiskSummary \<times> Risk list)" where
  "risk_Evaluate ord weights packet =
     (let (riskByType, score) = collectRisks weights packet;
          score = applyRuntimeCriticality score (im_Criticality (cp_Runtime packet));
          score = applyChangeVolume score (int (length (cp_Files packet)));
          score = clampScore score;
          (risks, contributors) = materializeRisks ord riskByType
      in Inr (\<lparr>rs_Score = score, rs_Severity = severityFromScore score,
               rs_Contributors = contributors\<rparr>, risks))"

section \<open>Lemmas\<close>

lemma appendUnique_step:
  "appendUnique values (c # cs) = appendUnique (appendUnique values [c]) cs"
  by (simp add: Let_def)

lemma appendUnique_foldl: "appendUnique vs cs = foldl (\<lambda>vs c. appendUnique vs [c]) vs cs"
proof (induction cs arbitrary: vs)
  case (Cons c cs)
  have "appendUnique vs (c # cs) = appendUnique (appendUnique vs [c]) cs" by (rule appendUnique_step)
  also have "\<dots> = foldl (\<lambda>vs c. appendUnique vs [c]) (appendUnique vs [c]) cs" by (rule Cons.IH)
  finally show ?case by simp
qed simp

interpretation riskUnique: append_unique "\<lambda>s. s" "\<lambda>vs c. appendUnique vs [c]"
  by unfold_locales (auto simp: list_ex_iff)

lemma appendUnique_distinct: "distinct vs \<Longrightarrow> distinct (appendUnique vs cs)"
  using riskUnique.foldl_distinct [of vs cs] by (simp add: appendUnique_foldl [of vs cs])

lemma appendUnique_set [simp]: "set (appendUnique vs cs) = set vs \<union> set cs"
  using riskUnique.foldl_key_set [of vs cs] by (simp add: appendUnique_foldl [of vs cs])

lemma clampScore_bounds: "0 \<le> clampScore s \<and> clampScore s \<le> 100"
  by (simp add: clampScore_def)

lemma clampScore_mono: "s \<le> t \<Longrightarrow> clampScore s \<le> clampScore t"
  by (simp add: clampScore_def)

definition riskTypeOf :: "Mutation \<Rightarrow> RiskType" where
  "riskTypeOf m = fst (classifyRisk (mu_Kind m))"

lemma riskTypeOf_not_conflict [simp]: "riskTypeOf m \<noteq> RiskConflict" "RiskConflict \<noteq> riskTypeOf m"
  by (auto simp: riskTypeOf_def classifyRisk_def)

definition totalWeight :: "weights \<Rightarrow> Mutation list \<Rightarrow> int" where
  "totalWeight w ms = (\<Sum>m\<leftarrow>ms. weightOf w (mu_Kind m))"

lemma totalWeight_simps [simp]:
  "totalWeight w [] = 0"
  "totalWeight w (m # ms) = weightOf w (mu_Kind m) + totalWeight w ms"
  "totalWeight w (ms @ ms') = totalWeight w ms + totalWeight w ms'"
  by (simp_all add: totalWeight_def)

definition ofType :: "RiskType \<Rightarrow> Mutation list \<Rightarrow> Mutation list" where
  "ofType t ms = filter (\<lambda>m. riskTypeOf m = t) ms"

lemma ofType_simps [simp]:
  "ofType t [] = []"
  "ofType t (ms @ [m]) = (if riskTypeOf m = t then ofType t ms @ [m] else ofType t ms)"
  by (simp_all add: ofType_def)

lemma ofType_empty: "ofType t ms = [] \<longleftrightarrow> t \<notin> riskTypeOf ` set ms"
  by (auto simp: ofType_def filter_empty_conv)

text \<open>What the map holds after the mutations \<open>ms\<close>: one risk per type, with the weights and the
  files of the mutations of that type.\<close>

definition collected :: "weights \<Rightarrow> Mutation list \<Rightarrow> risk_map \<Rightarrow> bool" where
  "collected w ms m \<longleftrightarrow>
     distinct (map fst m) \<and> fst ` set m = riskTypeOf ` set ms \<and>
     (\<forall>t r. (t, r) \<in> set m \<longrightarrow> ri_Type r = t \<and> ri_Score r = totalWeight w (ofType t ms)
        \<and> distinct (ri_AffectedSystems r)
        \<and> set (ri_AffectedSystems r) = (\<Union>x \<in> set (ofType t ms). set (mu_Files x)))"

lemma collectedD:
  "collected w ms m \<Longrightarrow> (t, r) \<in> set m \<Longrightarrow>
     ri_Type r = t \<and> ri_Score r = totalWeight w (ofType t ms) \<and> distinct (ri_AffectedSystems r)
     \<and> set (ri_AffectedSystems r) = (\<Union>x \<in> set (ofType t ms). set (mu_Files x))"
  unfolding collected_def by blast

definition currentRisk :: "risk_map \<Rightarrow> Mutation \<Rightarrow> Risk" where
  "currentRisk m x =
     (case map_of m (riskTypeOf x) of
        Some r \<Rightarrow> r
      | None \<Rightarrow> zeroRisk\<lparr>ri_Type := riskTypeOf x, ri_Summary := fst (snd (classifyRisk (mu_Kind x))),
          ri_Mitigations := snd (snd (classifyRisk (mu_Kind x))), ri_Severity := mu_Severity x\<rparr>)"

definition raisedRisk :: "weights \<Rightarrow> Mutation \<Rightarrow> Risk \<Rightarrow> Risk" where
  "raisedRisk w x r =
     r\<lparr>ri_Score := ri_Score r + weightOf w (mu_Kind x),
       ri_Reason := TrimSpace (ri_Reason r @ ''; mutation='' @ mu_Kind x),
       ri_AffectedSystems := appendUnique (ri_AffectedSystems r) (mu_Files x)\<rparr>"

lemma applyMutationRisk_eq:
  "applyMutationRisk w m x =
     (AList.update (riskTypeOf x) (raisedRisk w x (currentRisk m x)) m, weightOf w (mu_Kind x))"
  by (cases "classifyRisk (mu_Kind x)")
     (simp add: applyMutationRisk_def riskTypeOf_def currentRisk_def raisedRisk_def
        Let_def split: option.split)

lemma collected_step:
  assumes "collected w ms m" and "applyMutationRisk w m x = (m', base)"
  shows "collected w (ms @ [x]) m'"
proof -
  let ?t = "riskTypeOf x" and ?r = "raisedRisk w x (currentRisk m x)"
  have m': "m' = AList.update ?t ?r m" using assms(2) by (simp add: applyMutationRisk_eq)
  have d: "distinct (map fst m)" using assms(1) by (simp add: collected_def)
  have new: "ri_Type ?r = ?t \<and> ri_Score ?r = totalWeight w (ofType ?t (ms @ [x]))
      \<and> distinct (ri_AffectedSystems ?r)
      \<and> set (ri_AffectedSystems ?r) = (\<Union>y \<in> set (ofType ?t (ms @ [x])). set (mu_Files y))"
  proof (cases "map_of m ?t")
    case None
    then have "?t \<notin> fst ` set m" by (simp add: map_of_eq_None_iff)
    then have "ofType ?t ms = []" using assms(1) by (simp add: collected_def ofType_empty)
    then show ?thesis using None by (simp add: currentRisk_def raisedRisk_def zeroRisk_def appendUnique_distinct)
  next
    case (Some cur)
    then have "(?t, cur) \<in> set m" by (rule map_of_SomeD)
    from collectedD [OF assms(1) this] show ?thesis
      using Some by (simp add: currentRisk_def raisedRisk_def appendUnique_distinct Un_commute)
  qed
  then show ?thesis
    using assms(1) d m'
    by (auto simp: collected_def distinct_update fst_set_update in_set_update)
qed

lemma mutations_collected:
  "case foldl (mutationStep w) ([], 0) ms of (m, s) \<Rightarrow> collected w ms m \<and> s = totalWeight w ms"
proof (induction ms rule: rev_induct)
  case (snoc x ms)
  obtain m s where ms: "foldl (mutationStep w) ([], 0) ms = (m, s)"
    by (cases "foldl (mutationStep w) ([], 0) ms")
  obtain m' b where a: "applyMutationRisk w m x = (m', b)" by (cases "applyMutationRisk w m x")
  then have "b = weightOf w (mu_Kind x)" by (simp add: applyMutationRisk_eq)
  then have "mutationStep w (m, s) x = (m', s + weightOf w (mu_Kind x))"
    using a by (simp add: mutationStep_def)
  then show ?case using snoc ms collected_step [OF _ a] by simp
qed (simp add: collected_def)

lemma conflictRisk_fields [simp]:
  "ri_Type (conflictRisk c) = RiskConflict"
  "ri_Score (conflictRisk c) = ca_Score c"
proof -
  have "ri_Type (foldl findingStep r fs) = ri_Type r \<and> ri_Score (foldl findingStep r fs) = ri_Score r"
    for r fs by (induction fs arbitrary: r) (simp_all add: findingStep_def)
  then show "ri_Type (conflictRisk c) = RiskConflict" "ri_Score (conflictRisk c) = ca_Score c"
    by (simp_all add: conflictRisk_def)
qed

lemma conflictRisk_systems:
  "distinct (ri_AffectedSystems (conflictRisk c))
   \<and> set (ri_AffectedSystems (conflictRisk c)) = (\<Union>f \<in> set (ca_Findings c). set (fi_Paths f))"
proof -
  have "distinct (ri_AffectedSystems r) \<Longrightarrow>
      distinct (ri_AffectedSystems (foldl findingStep r fs))
      \<and> set (ri_AffectedSystems (foldl findingStep r fs))
          = set (ri_AffectedSystems r) \<union> (\<Union>f \<in> set fs. set (fi_Paths f))" for r fs
    by (induction fs arbitrary: r) (auto simp: findingStep_def appendUnique_distinct)
  then show ?thesis by (simp add: conflictRisk_def zeroRisk_def)
qed

text \<open>The map and the score before the adjustments.\<close>

definition conflictScore :: "ChangePacket \<Rightarrow> int" where
  "conflictScore packet = max 0 (ca_Score (cp_Conflict packet))"

definition expectedTypes :: "ChangePacket \<Rightarrow> RiskType set" where
  "expectedTypes packet =
     riskTypeOf ` set (cp_Mutations packet)
     \<union> (if ca_Score (cp_Conflict packet) > 0 then {RiskConflict} else {})"

definition expectedScore :: "weights \<Rightarrow> ChangePacket \<Rightarrow> RiskType \<Rightarrow> int" where
  "expectedScore w packet t =
     (if t = RiskConflict then ca_Score (cp_Conflict packet)
      else totalWeight w (ofType t (cp_Mutations packet)))"

definition expectedSystems :: "ChangePacket \<Rightarrow> RiskType \<Rightarrow> string set" where
  "expectedSystems packet t =
     (if t = RiskConflict then (\<Union>f \<in> set (ca_Findings (cp_Conflict packet)). set (fi_Paths f))
      else (\<Union>m \<in> set (ofType t (cp_Mutations packet)). set (mu_Files m)))"

lemma collectRisks_facts:
  assumes "collectRisks w p = (m, s)"
  shows "distinct (map fst m)" and "fst ` set m = expectedTypes p"
    and "(t, r) \<in> set m \<Longrightarrow> ri_Type r = t \<and> ri_Score r = expectedScore w p t
           \<and> distinct (ri_AffectedSystems r) \<and> set (ri_AffectedSystems r) = expectedSystems p t"
    and "s = totalWeight w (cp_Mutations p) + conflictScore p"
proof -
  obtain m0 s0 where f: "foldl (mutationStep w) ([], 0) (cp_Mutations p) = (m0, s0)"
    by (cases "foldl (mutationStep w) ([], 0) (cp_Mutations p)")
  then have c: "collected w (cp_Mutations p) m0" and s0: "s0 = totalWeight w (cp_Mutations p)"
    using mutations_collected [of w "cp_Mutations p"] by auto
  then have d: "distinct (map fst m0)" by (simp add: collected_def)
  have m: "m = (if ca_Score (cp_Conflict p) > 0
      then AList.update RiskConflict (conflictRisk (cp_Conflict p)) m0 else m0)"
    using assms f by (auto simp: collectRisks_def Let_def split: if_splits)
  show "distinct (map fst m)" using d m by (simp add: distinct_update)
  show "fst ` set m = expectedTypes p"
    using c m by (auto simp: collected_def expectedTypes_def fst_set_update)
  show "s = totalWeight w (cp_Mutations p) + conflictScore p"
    using assms f s0 by (auto simp: collectRisks_def conflictScore_def Let_def split: if_splits)
  have old: "ri_Type r = t \<and> ri_Score r = expectedScore w p t
      \<and> distinct (ri_AffectedSystems r) \<and> set (ri_AffectedSystems r) = expectedSystems p t"
    if "(t, r) \<in> set m0"
  proof -
    have "t \<in> fst ` set m0" using that by force
    then have "t \<in> riskTypeOf ` set (cp_Mutations p)" using c by (simp add: collected_def)
    then have "t \<noteq> RiskConflict" by auto
    then show ?thesis
      using collectedD [OF c that] by (simp add: expectedScore_def expectedSystems_def)
  qed
  show "ri_Type r = t \<and> ri_Score r = expectedScore w p t
      \<and> distinct (ri_AffectedSystems r) \<and> set (ri_AffectedSystems r) = expectedSystems p t"
    if "(t, r) \<in> set m"
  proof (cases "(t, r) \<in> set m0")
    case False
    then have "t = RiskConflict" "r = conflictRisk (cp_Conflict p)"
      using that m d by (auto simp: in_set_update split: if_splits)
    then show ?thesis
      using conflictRisk_systems by (simp add: expectedScore_def expectedSystems_def)
  qed (rule old)
qed

definition adjustedScore :: "weights \<Rightarrow> ChangePacket \<Rightarrow> int" where
  "adjustedScore w packet =
     totalWeight w (cp_Mutations packet) + conflictScore packet
     + (if im_Criticality (cp_Runtime packet) = CriticalityHigh then 10
        else if im_Criticality (cp_Runtime packet) = CriticalityTier0 then 20 else 0)
     + (if length (cp_Files packet) > 20 then 8 else 0)"

lemma risk_Evaluate_total: "\<exists>summary risks. risk_Evaluate ord w p = Inr (summary, risks)"
  by (cases "collectRisks w p") (simp add: risk_Evaluate_def materializeRisks_def Let_def)

lemma Evaluate_summary:
  assumes "risk_Evaluate ord w p = Inr (summary, risks)"
  shows "rs_Score summary = clampScore (adjustedScore w p)"
    and "rs_Severity summary = severityFromScore (rs_Score summary)"
    and "rs_Contributors summary = map ri_Type risks"
proof -
  obtain m s where c: "collectRisks w p = (m, s)" by (cases "collectRisks w p")
  have "applyChangeVolume (applyRuntimeCriticality s (im_Criticality (cp_Runtime p)))
      (int (length (cp_Files p))) = adjustedScore w p"
    using collectRisks_facts(4) [OF c]
    by (simp add: adjustedScore_def applyChangeVolume_def applyRuntimeCriticality_def)
  then show "rs_Score summary = clampScore (adjustedScore w p)"
    and "rs_Severity summary = severityFromScore (rs_Score summary)"
    and "rs_Contributors summary = map ri_Type risks"
    using assms c by (auto simp: risk_Evaluate_def Let_def materializeRisks_def)
qed

lemma Evaluate_risks:
  assumes "risk_Evaluate ord w p = Inr (summary, risks)" and "map_order ord"
  shows "distinct (map ri_Type risks)" and "ri_Type ` set risks = expectedTypes p"
    and "r \<in> set risks \<Longrightarrow> ri_Score r = expectedScore w p (ri_Type r)
           \<and> ri_Severity r = severityFromScore (ri_Score r)
           \<and> distinct (ri_AffectedSystems r)
           \<and> set (ri_AffectedSystems r) = expectedSystems p (ri_Type r)"
proof -
  obtain m s where c: "collectRisks w p = (m, s)" by (cases "collectRisks w p")
  note facts = collectRisks_facts [OF c]
  let ?f = "\<lambda>(_ :: RiskType, risk). risk\<lparr>ri_Severity := severityFromScore (ri_Score risk)\<rparr>"
  have risks: "risks = map ?f (range_map ord m)"
    using assms(1) c by (auto simp: risk_Evaluate_def Let_def materializeRisks_def)
  have "map ri_Type risks = map fst (range_map ord m)"
    using facts(3) set_range_map [OF assms(2) facts(1)] by (auto simp: risks)
  then show "distinct (map ri_Type risks)" and "ri_Type ` set risks = expectedTypes p"
    using distinct_keys_range_map [OF assms(2) facts(1)] set_range_map [OF assms(2) facts(1)] facts(2)
    by (metis, metis set_map)
  show "ri_Score r = expectedScore w p (ri_Type r)
      \<and> ri_Severity r = severityFromScore (ri_Score r) \<and> distinct (ri_AffectedSystems r)
      \<and> set (ri_AffectedSystems r) = expectedSystems p (ri_Type r)" if "r \<in> set risks"
    using that facts(3) set_range_map [OF assms(2) facts(1)] by (auto simp: risks)
qed

lemma totalWeight_nonneg: "(\<forall>k. 0 \<le> weightOf w k) \<Longrightarrow> 0 \<le> totalWeight w ms"
  by (induction ms) simp_all

lemma defaultWeights_nonneg: "0 \<le> weightOf defaultWeights k"
  by (simp add: weightOf_def defaultWeights_def)

section \<open>Properties\<close>

text \<open>
  C33: the score of the risk summary is the exact sum of the weights of the mutations, the
  conflict score, the criticality bonus (10 or 20) and the volume bonus (8 for more than 20
  files), clamped to the range 0..100; the severity is the one of that score, and the
  evaluation never fails.
\<close>

theorem Evaluate_score_exact:
  "\<exists>summary risks. risk_Evaluate ord weights packet = Inr (summary, risks)
     \<and> rs_Score summary = min 100 (max 0
          ((\<Sum>m\<leftarrow>cp_Mutations packet. weightOf weights (mu_Kind m))
           + max 0 (ca_Score (cp_Conflict packet))
           + (if im_Criticality (cp_Runtime packet) = CriticalityHigh then 10
              else if im_Criticality (cp_Runtime packet) = CriticalityTier0 then 20 else 0)
           + (if length (cp_Files packet) > 20 then 8 else 0)))
     \<and> rs_Severity summary = severityFromScore (rs_Score summary)"
proof -
  obtain summary risks where e: "risk_Evaluate ord weights packet = Inr (summary, risks)"
    using risk_Evaluate_total by blast
  have "clampScore n = min 100 (max 0 n)" for n by (simp add: clampScore_def)
  with Evaluate_summary(1) [OF e] have "rs_Score summary = min 100 (max 0 (adjustedScore weights packet))"
    by (simp only:)
  with e Evaluate_summary(2) [OF e] show ?thesis
    unfolding adjustedScore_def totalWeight_def conflictScore_def by blast
qed

text \<open>
  The risks partition the mutations. Whatever the iteration order of the map, there is
  exactly one risk for each risk type that a mutation has, and one for a positive conflict
  score; its score is the sum of the weights of the mutations of that type, its severity the one
  of that score, and its affected systems are the files of those mutations, without repetition.
\<close>

theorem Evaluate_risks_partition:
  assumes "map_order ord" and "risk_Evaluate ord weights packet = Inr (summary, risks)"
  shows "distinct (map ri_Type risks) \<and> rs_Contributors summary = map ri_Type risks
    \<and> ri_Type ` set risks = expectedTypes packet
    \<and> (\<forall>r \<in> set risks. ri_Score r = expectedScore weights packet (ri_Type r)
          \<and> ri_Severity r = severityFromScore (ri_Score r)
          \<and> distinct (ri_AffectedSystems r)
          \<and> set (ri_AffectedSystems r) = expectedSystems packet (ri_Type r))"
  using Evaluate_summary(3) [OF assms(2)] Evaluate_risks [OF assms(2,1)] by blast

definition authMutation :: Mutation where
  "authMutation = zeroMutation\<lparr>mu_Kind := MutationAuthBehaviorChange, mu_Files := [''auth/a.go'']\<rparr>"

definition authPacket :: ChangePacket where
  "authPacket = zeroChangePacket\<lparr>cp_Mutations := [authMutation, authMutation]\<rparr>"

lemma authPacket_risks:
  "\<exists>s r. risk_Evaluate (\<lambda>ks. ks) defaultWeights authPacket = Inr (s, [r])
     \<and> rs_Score s = 70 \<and> ri_Score r = 70 \<and> ri_Type r = RiskSecurity"
  by (simp add: risk_Evaluate_def collectRisks_def applyMutationRisk_eq mutationStep_def
      currentRisk_def raisedRisk_def riskTypeOf_def classifyRisk_def weightOf_def defaultWeights_def
      authPacket_def authMutation_def zero_defs materializeRisks_def clampScore_def
      applyChangeVolume_def applyRuntimeCriticality_def range_map_def List.map_filter_def Let_def
      domain_consts)

theorem Evaluate_risks_partition_witness:
  "\<exists>s r. risk_Evaluate (\<lambda>ks. ks) defaultWeights authPacket = Inr (s, [r])
     \<and> ri_Score r = expectedScore defaultWeights authPacket RiskSecurity"
proof -
  obtain s r where e: "risk_Evaluate (\<lambda>ks. ks) defaultWeights authPacket = Inr (s, [r])"
    and "ri_Type r = RiskSecurity"
    using authPacket_risks by blast
  then show ?thesis using Evaluate_risks_partition [OF map_order_id e] by auto
qed

text \<open>
  The assessment does not depend on the iteration order of the map or on the order of the
  mutations: two evaluations of packets that list the same mutations in a different order have
  the same score and severity and the same score for every risk type.
\<close>

theorem Evaluate_order_independent:
  assumes "map_order ord" and "map_order ord'"
    and "mset (cp_Mutations packet') = mset (cp_Mutations packet)"
    and "risk_Evaluate ord weights packet = Inr (summary, risks)"
    and "risk_Evaluate ord' weights (packet\<lparr>cp_Mutations := cp_Mutations packet'\<rparr>)
           = Inr (summary', risks')"
  shows "rs_Score summary' = rs_Score summary \<and> rs_Severity summary' = rs_Severity summary
    \<and> set (map (\<lambda>r. (ri_Type r, ri_Score r, ri_Severity r)) risks')
      = set (map (\<lambda>r. (ri_Type r, ri_Score r, ri_Severity r)) risks)"
proof -
  let ?q = "packet\<lparr>cp_Mutations := cp_Mutations packet'\<rparr>"
  have s: "set (cp_Mutations ?q) = set (cp_Mutations packet)"
    using mset_eq_setD [OF assms(3)] by simp
  have t: "totalWeight weights (cp_Mutations ?q) = totalWeight weights (cp_Mutations packet)"
    unfolding totalWeight_def using assms(3) by (intro sum_list_map_mset) simp
  have o: "totalWeight weights (ofType k (cp_Mutations ?q))
      = totalWeight weights (ofType k (cp_Mutations packet))" for k
    unfolding totalWeight_def ofType_def using assms(3) by (intro sum_list_map_mset) simp
  have types: "expectedTypes ?q = expectedTypes packet" using s by (simp add: expectedTypes_def)
  have scores: "expectedScore weights ?q k = expectedScore weights packet k" for k
    using o by (simp add: expectedScore_def)
  have adj: "adjustedScore weights ?q = adjustedScore weights packet"
    using t by (simp add: adjustedScore_def conflictScore_def)
  have img: "(\<lambda>r. (ri_Type r, ri_Score r, ri_Severity r)) ` set rs
      = (\<lambda>k. (k, expectedScore weights p k, severityFromScore (expectedScore weights p k)))
          ` expectedTypes p"
    if "risk_Evaluate o' weights p = Inr (x, rs)" "map_order o'" for o' p x rs
  proof -
    have "(\<lambda>r. (ri_Type r, ri_Score r, ri_Severity r)) ` set rs
        = (\<lambda>k. (k, expectedScore weights p k, severityFromScore (expectedScore weights p k)))
            ` ri_Type ` set rs"
      unfolding image_image
    proof (rule image_cong)
      fix r assume "r \<in> set rs"
      from Evaluate_risks(3) [OF that this] show "(ri_Type r, ri_Score r, ri_Severity r)
          = (ri_Type r, expectedScore weights p (ri_Type r),
             severityFromScore (expectedScore weights p (ri_Type r)))"
        by simp
    qed simp
    then show ?thesis by (simp only: Evaluate_risks(2) [OF that])
  qed
  show ?thesis
    using Evaluate_summary [OF assms(4)] Evaluate_summary [OF assms(5)] adj types scores
      img [OF assms(4,1)] img [OF assms(5,2)]
    by simp
qed

theorem Evaluate_order_independent_witness:
  "\<exists>s r s' r'. risk_Evaluate (\<lambda>ks. ks) defaultWeights authPacket = Inr (s, r)
     \<and> risk_Evaluate rev defaultWeights (authPacket\<lparr>cp_Mutations := cp_Mutations authPacket\<rparr>)
         = Inr (s', r')
     \<and> rs_Score s' = rs_Score s"
proof -
  obtain s r s' r' where e: "risk_Evaluate (\<lambda>ks. ks) defaultWeights authPacket = Inr (s, r)"
    and e': "risk_Evaluate rev defaultWeights (authPacket\<lparr>cp_Mutations := cp_Mutations authPacket\<rparr>)
      = Inr (s', r')"
    using risk_Evaluate_total by meson
  from Evaluate_order_independent [OF map_order_id map_order_rev refl e e'] e e'
  show ?thesis by blast
qed

end
