(* ===== verification/MutationRules.thy ===== *)
theory MutationRules
  imports Domain
begin

text \<open>
  The detection rules of \<open>internal/mutations\<close>: the rule catalogue (\<open>rule_catalog.go\<close>), rule
  matching (\<open>rule_matchers.go\<close>), the signal extractors (\<open>extractors.go\<close>) and the index that
  merges the mutations of one kind (\<open>mutation_index.go\<close>). Confidences are exact fractions. The
  identifiers that \<open>identity.New\<close> draws at random come from a supply \<open>newID\<close>, indexed by a
  counter that the operations thread.
\<close>

section \<open>The rule catalogue\<close>

record Rule =
  ru_Name :: string
  ru_Title :: string
  ru_Description :: string
  ru_Kind :: MutationKind
  ru_Severity :: Severity
  ru_Confidence :: rat
  ru_PathPrefixes :: "string list"
  ru_PathContains :: "string list"
  ru_PathSuffixes :: "string list"
  ru_FileGlobs :: "string list"
  ru_RequiredSignals :: "string list"

definition DefaultRules :: "Rule list" where
  "DefaultRules =
     [\<lparr>ru_Name = ''auth-surface'',
       ru_Title = ''authentication or authorization behavior change'',
       ru_Description = ''Changes touch credential, token, policy, or auth control paths.'',
       ru_Kind = MutationAuthBehaviorChange, ru_Severity = SeverityHigh, ru_Confidence = 85 / 100,
       ru_PathPrefixes = [], ru_PathContains = [''auth/'', ''jwt'', ''oauth'', ''rbac'', ''acl''],
       ru_PathSuffixes = [], ru_FileGlobs = [], ru_RequiredSignals = [''go:auth_symbol'']\<rparr>,
      \<lparr>ru_Name = ''schema-ddl'', ru_Title = ''database schema mutation'',
       ru_Description = ''DDL or migration assets changed.'',
       ru_Kind = MutationDatabaseSchema, ru_Severity = SeverityHigh, ru_Confidence = 9 / 10,
       ru_PathPrefixes = [''migrations/'', ''db/migrations/''], ru_PathContains = [],
       ru_PathSuffixes = [''.sql''], ru_FileGlobs = [], ru_RequiredSignals = [''sql:ddl'']\<rparr>,
      \<lparr>ru_Name = ''runtime-config'', ru_Title = ''runtime or deploy-time configuration mutation'',
       ru_Description = ''Runtime or deploy-time configuration changed.'',
       ru_Kind = MutationRuntimeConfig, ru_Severity = SeverityMedium, ru_Confidence = 8 / 10,
       ru_PathPrefixes = [], ru_PathContains = [''helm/'', ''k8s/'', ''deploy/'', ''config/''],
       ru_PathSuffixes = [], ru_FileGlobs = [''**/values.yaml'', ''**/values.yml''],
       ru_RequiredSignals = [''yaml:runtime_key'']\<rparr>,
      \<lparr>ru_Name = ''api-contract'', ru_Title = ''API contract mutation'',
       ru_Description = ''Public or internal API definition changed.'',
       ru_Kind = MutationAPIContract, ru_Severity = SeverityHigh, ru_Confidence = 88 / 100,
       ru_PathPrefixes = [], ru_PathContains = [],
       ru_PathSuffixes = [''openapi.yaml'', ''openapi.yml'', ''.proto''],
       ru_FileGlobs = [''**/openapi.yaml'', ''**/openapi.yml'', ''**/*.proto''],
       ru_RequiredSignals = [''api:contract_surface'']\<rparr>,
      \<lparr>ru_Name = ''dependency'', ru_Title = ''dependency graph mutation'',
       ru_Description = ''Module or dependency manifest changed.'',
       ru_Kind = MutationDependency, ru_Severity = SeverityMedium, ru_Confidence = 92 / 100,
       ru_PathPrefixes = [], ru_PathContains = [],
       ru_PathSuffixes = [''go.mod'', ''go.sum'', ''package-lock.json'', ''package.json''],
       ru_FileGlobs = [], ru_RequiredSignals = []\<rparr>,
      \<lparr>ru_Name = ''deployment-workflow'', ru_Title = ''deployment workflow mutation'',
       ru_Description = ''CI/CD or rollout workflow changed.'',
       ru_Kind = MutationDeploymentWorkflow, ru_Severity = SeverityHigh, ru_Confidence = 82 / 100,
       ru_PathPrefixes = [], ru_PathContains = [''.github/workflows/'', ''deployments/''],
       ru_PathSuffixes = [], ru_FileGlobs = [], ru_RequiredSignals = []\<rparr>,
      \<lparr>ru_Name = ''observability-surface'', ru_Title = ''observability contract mutation'',
       ru_Description = ''Telemetry, alerting, or dashboard behavior changed.'',
       ru_Kind = MutationObservabilityContract, ru_Severity = SeverityMedium, ru_Confidence = 7 / 10,
       ru_PathPrefixes = [],
       ru_PathContains = [''telemetry/'', ''observability/'', ''alerts/'', ''dashboards/''],
       ru_PathSuffixes = [], ru_FileGlobs = [], ru_RequiredSignals = []\<rparr>]"

section \<open>Rule matching\<close>

definition containsAnyPrefix :: "string \<Rightarrow> string list \<Rightarrow> bool" where
  "containsAnyPrefix value starts = list_ex (\<lambda>p. HasPrefix value (ToLower p)) starts"

definition containsAnySubstring :: "string \<Rightarrow> string list \<Rightarrow> bool" where
  "containsAnySubstring value patterns = list_ex (\<lambda>p. Contains value (ToLower p)) patterns"

definition hasAnySuffix :: "string \<Rightarrow> string list \<Rightarrow> bool" where
  "hasAnySuffix value ends = list_ex (\<lambda>s. HasSuffix value (ToLower s)) ends"

definition matchesAnyGlob :: "string \<Rightarrow> string list \<Rightarrow> bool" where
  "matchesAnyGlob value globs =
     list_ex (\<lambda>glob.
        let normalized = TrimPrefix (ToLower glob) ''**/''
        in pathMatch normalized value \<or> HasSuffix value (TrimPrefix normalized ''*'')) globs"

definition Matches :: "Rule \<Rightarrow> string \<Rightarrow> MutationSignal list \<Rightarrow> bool" where
  "Matches r filePath signals =
     (let lowerPath = ToLower filePath
      in if containsAnyPrefix lowerPath (ru_PathPrefixes r)
            \<or> containsAnySubstring lowerPath (ru_PathContains r)
            \<or> hasAnySuffix lowerPath (ru_PathSuffixes r) \<or> matchesAnyGlob lowerPath (ru_FileGlobs r)
           then True
         else if length (ru_RequiredSignals r) = 0 then False
         else list_ex (\<lambda>signal.
                list_ex (\<lambda>required. EqualFold (ms_Value signal) required) (ru_RequiredSignals r)) signals)"

section \<open>Signal extractors\<close>

record SignalExtractor =
  sx_Name :: string
  sx_Supports :: "ChangedFile \<Rightarrow> bool"
  sx_Extract :: "ChangedFile \<Rightarrow> string + MutationSignal list"

definition signal :: "string \<Rightarrow> string \<Rightarrow> int \<Rightarrow> MutationSignal" where
  "signal source val weight = \<lparr>ms_Source = source, ms_Value = val, ms_Weight = weight\<rparr>"

definition goPatchSignalExtractor :: SignalExtractor where
  "goPatchSignalExtractor =
     \<lparr>sx_Name = ''go-patch-signals'',
      sx_Supports = (\<lambda>file. EqualFold (Ext (cf_Path file)) ''.go''),
      sx_Extract = (\<lambda>file.
        let patch = ToLower (cf_Patch file)
        in Inr ((if Contains patch ''func '' then [signal ''go_patch'' ''go:function_change'' 1] else [])
             @ (if Contains patch ''jwt'' \<or> Contains patch ''token'' \<or> Contains patch ''authorize''
                then [signal ''go_patch'' ''go:auth_symbol'' 2] else [])))\<rparr>"

definition sqlSignalExtractor :: SignalExtractor where
  "sqlSignalExtractor =
     \<lparr>sx_Name = ''sql-signals'',
      sx_Supports = (\<lambda>file. EqualFold (Ext (cf_Path file)) ''.sql''),
      sx_Extract = (\<lambda>file.
        let patch = ToLower (cf_Patch file)
        in Inr (if Contains patch ''alter table'' \<or> Contains patch ''create table''
                   \<or> Contains patch ''drop table''
                then [signal ''sql_patch'' ''sql:ddl'' 3] else []))\<rparr>"

definition yamlSignalExtractor :: SignalExtractor where
  "yamlSignalExtractor =
     \<lparr>sx_Name = ''yaml-signals'',
      sx_Supports = (\<lambda>file. let ext = ToLower (Ext (cf_Path file)) in ext = ''.yaml'' \<or> ext = ''.yml''),
      sx_Extract = (\<lambda>file.
        let patch = ToLower (cf_Patch file)
        in Inr ((if list_ex (\<lambda>key. Contains patch key)
                    [''replicas:'', ''resources:'', ''image:'', ''env:'', ''ingress:'', ''rollout:'']
                 then [signal ''yaml_patch'' ''yaml:runtime_key'' 2] else [])
             @ (if Contains (ToLower (cf_Path file)) ''openapi''
                then [signal ''yaml_path'' ''api:contract_surface'' 3] else [])))\<rparr>"

definition isManifest :: "ChangedFile \<Rightarrow> bool" where
  "isManifest file \<longleftrightarrow>
     ToLower (Base (cf_Path file)) \<in> set [''go.mod'', ''go.sum'', ''package.json'', ''package-lock.json'']"

definition manifestSignalExtractor :: SignalExtractor where
  "manifestSignalExtractor =
     \<lparr>sx_Name = ''manifest-signals'', sx_Supports = isManifest,
      sx_Extract = (\<lambda>file. Inr [signal ''manifest'' ''manifest:dependency'' 2])\<rparr>"

definition DefaultExtractors :: "SignalExtractor list" where
  "DefaultExtractors =
     [goPatchSignalExtractor, sqlSignalExtractor, yamlSignalExtractor, manifestSignalExtractor]"

section \<open>The mutation index\<close>

type_synonym mutation_index = "(MutationKind \<times> Mutation) list"

definition severityRank :: "Severity \<Rightarrow> int" where
  "severityRank value =
     (if value = SeverityCritical then 4 else if value = SeverityHigh then 3
      else if value = SeverityMedium then 2 else 1)"

fun appendUniqueStrings :: "string list \<Rightarrow> string list \<Rightarrow> string list" where
  "appendUniqueStrings values [] = values"
| "appendUniqueStrings values (candidate # candidates) =
     (let found = list_ex (\<lambda>value. value = candidate) values
      in appendUniqueStrings (if \<not> found then values @ [candidate] else values) candidates)"

fun appendUniqueSignals :: "MutationSignal list \<Rightarrow> MutationSignal list \<Rightarrow> MutationSignal list" where
  "appendUniqueSignals values [] = values"
| "appendUniqueSignals values (candidate # candidates) =
     (let found = list_ex (\<lambda>value. ms_Source value = ms_Source candidate
            \<and> ms_Value value = ms_Value candidate) values
      in appendUniqueSignals (if \<not> found then values @ [candidate] else values) candidates)"

definition mergeMutation :: "Mutation \<Rightarrow> Mutation \<Rightarrow> Mutation" where
  \<comment> \<open>the part of \<open>addMutation\<close> that changes the current mutation in place\<close>
  "mergeMutation current candidate =
     current\<lparr>mu_Files := appendUniqueStrings (mu_Files current) (mu_Files candidate),
       mu_Signals := appendUniqueSignals (mu_Signals current) (mu_Signals candidate),
       mu_Confidence := (if mu_Confidence candidate > mu_Confidence current
                         then mu_Confidence candidate else mu_Confidence current),
       mu_Severity := (if severityRank (mu_Severity candidate) > severityRank (mu_Severity current)
                       then mu_Severity candidate else mu_Severity current),
       mu_Title := (if mu_Title current = [] then mu_Title candidate else mu_Title current),
       mu_Description := (if mu_Description current = [] then mu_Description candidate
                          else mu_Description current),
       mu_Detector := (if mu_Detector current = [] then mu_Detector candidate
                       else mu_Detector current)\<rparr>"

definition addMutation ::
  "(nat \<Rightarrow> string) \<Rightarrow> mutation_index \<times> nat \<Rightarrow> Mutation \<Rightarrow> mutation_index \<times> nat" where
  "addMutation newID st candidate =
     (let (index, n) = st
      in case map_of index (mu_Kind candidate) of
           None \<Rightarrow>
             if mu_ID candidate = []
             then (AList.update (mu_Kind candidate) (candidate\<lparr>mu_ID := newID n\<rparr>) index, Suc n)
             else (AList.update (mu_Kind candidate) candidate index, n)
         | Some current \<Rightarrow>
             (AList.update (mu_Kind candidate) (mergeMutation current candidate) index, n))"

section \<open>Lemmas on the index\<close>

lemma appendUniqueStrings_foldl:
  "appendUniqueStrings vs cs = foldl (\<lambda>vs c. appendUniqueStrings vs [c]) vs cs"
  by (induction cs arbitrary: vs) simp_all

lemma appendUniqueSignals_foldl:
  "appendUniqueSignals vs cs = foldl (\<lambda>vs c. appendUniqueSignals vs [c]) vs cs"
  by (induction cs arbitrary: vs) simp_all

interpretation fileNames: append_unique "\<lambda>s. s" "\<lambda>vs c. appendUniqueStrings vs [c]"
  by unfold_locales (auto simp: list_ex_iff)

interpretation signals: append_unique "\<lambda>s. (ms_Source s, ms_Value s)" "\<lambda>vs c. appendUniqueSignals vs [c]"
  by unfold_locales (auto simp: list_ex_iff image_iff, metis)

lemma set_appendUniqueStrings [simp]: "set (appendUniqueStrings vs cs) = set vs \<union> set cs"
  using fileNames.foldl_key_set [of vs cs] by (simp add: appendUniqueStrings_foldl [of vs cs])

lemma distinct_appendUniqueStrings: "distinct vs \<Longrightarrow> distinct (appendUniqueStrings vs cs)"
  using fileNames.foldl_distinct [of vs cs] by (simp add: appendUniqueStrings_foldl [of vs cs])

lemma severityRank_bounds: "1 \<le> severityRank s \<and> severityRank s \<le> 4"
  by (simp add: severityRank_def)

lemma mergeMutation_fields [simp]:
  "mu_Kind (mergeMutation a b) = mu_Kind a"
  "set (mu_Files (mergeMutation a b)) = set (mu_Files a) \<union> set (mu_Files b)"
  "mu_Confidence (mergeMutation a b) = max (mu_Confidence a) (mu_Confidence b)"
  "severityRank (mu_Severity (mergeMutation a b)) = max (severityRank (mu_Severity a)) (severityRank (mu_Severity b))"
  by (auto simp: mergeMutation_def)

text \<open>The index holds one mutation for each kind of the candidates added so far, with their files
  and at least their confidence and severity.\<close>

definition entryOf :: "Mutation list \<Rightarrow> MutationKind \<Rightarrow> Mutation \<Rightarrow> bool" where
  "entryOf cs k m \<longleftrightarrow>
     (let ks = filter (\<lambda>c. mu_Kind c = k) cs
      in mu_Kind m = k \<and> ks \<noteq> []
         \<and> set (mu_Files m) = (\<Union>c \<in> set ks. set (mu_Files c))
         \<and> mu_Confidence m = Max (mu_Confidence ` set ks)
         \<and> severityRank (mu_Severity m) = Max ((\<lambda>c. severityRank (mu_Severity c)) ` set ks))"

definition indexed :: "Mutation list \<Rightarrow> mutation_index \<Rightarrow> bool" where
  "indexed cs index \<longleftrightarrow>
     distinct (map fst index) \<and> fst ` set index = mu_Kind ` set cs
     \<and> (\<forall>k m. (k, m) \<in> set index \<longrightarrow> entryOf cs k m)"

lemma indexed_empty: "indexed [] []"
  by (simp add: indexed_def)

lemma entryOf_other: "k \<noteq> mu_Kind c \<Longrightarrow> entryOf (cs @ [c]) k m = entryOf cs k m"
  by (auto simp: entryOf_def)

lemma entryOf_first: "mu_Kind c \<notin> mu_Kind ` set cs \<Longrightarrow> entryOf (cs @ [c]) (mu_Kind c) (c\<lparr>mu_ID := i\<rparr>)"
proof -
  assume "mu_Kind c \<notin> mu_Kind ` set cs"
  then have "filter (\<lambda>x. mu_Kind x = mu_Kind c) cs = []" by (metis (mono_tags) filter_False imageI)
  then show ?thesis by (simp add: entryOf_def)
qed

lemma entryOf_merge:
  assumes "entryOf cs (mu_Kind c) m"
  shows "entryOf (cs @ [c]) (mu_Kind c) (mergeMutation m c)"
proof -
  let ?S = "{x \<in> set cs. mu_Kind x = mu_Kind c}"
  have "finite ?S" "?S \<noteq> {}"
    using assms by (auto simp: entryOf_def filter_empty_conv)
  note ins = Max_insert_image [OF this]
  have "set (filter (\<lambda>x. mu_Kind x = mu_Kind c) (cs @ [c])) = insert c ?S" by auto
  then show ?thesis
    using assms unfolding entryOf_def Let_def
    by (simp add: ins [of "mu_Confidence c"] ins [of "severityRank (mu_Severity c)"] Un_commute)
qed

lemma indexed_add:
  assumes "indexed cs index" and "addMutation newID (index, n) c = (index', n')"
  shows "indexed (cs @ [c]) index'"
proof -
  have d: "distinct (map fst index)" and keys: "fst ` set index = mu_Kind ` set cs"
    and old: "\<And>k m. (k, m) \<in> set index \<Longrightarrow> entryOf cs k m"
    using assms(1) by (auto simp: indexed_def)
  obtain m where index': "index' = AList.update (mu_Kind c) m index"
    and new: "entryOf (cs @ [c]) (mu_Kind c) m"
  proof (cases "map_of index (mu_Kind c)")
    case None
    then have k: "mu_Kind c \<notin> mu_Kind ` set cs" using keys by (simp add: map_of_eq_None_iff)
    have "index' = AList.update (mu_Kind c) (c\<lparr>mu_ID := if mu_ID c = [] then newID n else mu_ID c\<rparr>) index"
      using assms(2) None by (auto simp: addMutation_def split: if_splits)
    then show thesis using that entryOf_first [OF k] by blast
  next
    case (Some cur)
    then have "entryOf cs (mu_Kind c) cur" by (metis map_of_SomeD old)
    moreover have "index' = AList.update (mu_Kind c) (mergeMutation cur c) index"
      using assms(2) Some by (simp add: addMutation_def)
    ultimately show thesis using that entryOf_merge by blast
  qed
  have "entryOf (cs @ [c]) k x" if "(k, x) \<in> set index'" for k x
  proof (cases "k = mu_Kind c")
    case True
    then show ?thesis using that d new by (auto simp: index' in_set_update)
  next
    case False
    then have "(k, x) \<in> set index" using that d by (auto simp: index' in_set_update)
    then show ?thesis using old False by (simp add: entryOf_other)
  qed
  then show ?thesis
    using d keys by (simp add: indexed_def index' distinct_update fst_set_update)
qed

lemma indexed_adds:
  "indexed cs index \<Longrightarrow> foldl (addMutation newID) (index, n) ds = (index', n') \<Longrightarrow>
   indexed (cs @ ds) index'"
proof (induction ds arbitrary: cs index n)
  case (Cons d ds)
  obtain i1 n1 where a: "addMutation newID (index, n) d = (i1, n1)"
    by (cases "addMutation newID (index, n) d")
  from Cons.IH [OF indexed_add [OF Cons.prems(1) a]] Cons.prems(2) a show ?case by simp
qed simp

end
