(* ===== verification/MutationEngine.thy ===== *)
theory MutationEngine
  imports MutationRules
begin

text \<open>
  The analyzers and the classification engine of \<open>internal/mutations\<close>. The interfaces
  \<open>SignalExtractor\<close> and \<open>Analyzer\<close> are records of functions; the Go parser, the YAML decoder,
  the JSON codec and the execution of a process are arguments. What the engine relies on is the
  locale \<open>classifier\<close>, interpreted on the default engine.
\<close>

section \<open>Inputs\<close>

datatype GoNode = FuncDecl string | SelectorExpr string | OtherNode

record GoFile =
  gf_Imports :: "string list" \<comment> \<open>the quoted import paths\<close>
  gf_Nodes :: "GoNode list" \<comment> \<open>the nodes in the order \<^verbatim>\<open>ast.Inspect\<close> visits them\<close>

record Parsers =
  ps_ParseFile :: "string \<Rightarrow> string \<Rightarrow> GoFile option"
  ps_Unmarshal :: "string \<Rightarrow> (string \<times> Yaml) list option"
  ps_Order :: key_order

datatype AnalyzerError =
    NotAbsolute
  | NotAllowlisted
  | MarshalFailed string
  | AnalyzerTimedOut string
  | AnalyzerFailed string string
  | InvalidJSON string
  | ExtractorFailed string

record AnalysisInput =
  ai_Repo :: RepoRef
  ai_Ref :: string
  ai_File :: ChangedFile
  ai_Content :: string

record AnalysisRequest =
  aq_Repo :: RepoRef
  aq_Ref :: string
  aq_Files :: "ChangedFile list"
  aq_Content :: "(string \<Rightarrow> string + string) option" \<comment> \<open>the content loader, if there is one\<close>

record Analyzer =
  az_Name :: string
  az_Supports :: "ChangedFile \<Rightarrow> bool"
  az_Analyze :: "AnalysisInput \<Rightarrow> nat \<Rightarrow> AnalyzerError + (Mutation list \<times> nat)"

section \<open>Analyzers\<close>

definition containsAny :: "string \<Rightarrow> string list \<Rightarrow> bool" where
  "containsAny val candidates = list_ex (\<lambda>candidate. Contains val candidate) candidates"

fun flattenKeys :: "key_order \<Rightarrow> (string \<times> Yaml) list \<Rightarrow> string \<Rightarrow> string list"
  and flattenValue :: "key_order \<Rightarrow> string \<Rightarrow> Yaml \<Rightarrow> string list"
  and flattenEntries :: "key_order \<Rightarrow> (string \<times> Yaml) list \<Rightarrow> string \<Rightarrow> (string \<times> string list) list" where
  "flattenKeys ord values pre = concat (map snd (range_map ord (flattenEntries ord values pre)))"
| "flattenEntries ord [] pre = []"
| "flattenEntries ord ((key, val) # values) pre =
     (let full = (if pre \<noteq> [] then pre @ ''.'' @ key else key)
      in (key, full # flattenValue ord full val) # flattenEntries ord values pre)"
| "flattenValue ord full (YMap m) = flattenKeys ord m full"
| "flattenValue ord full (YSeq []) = []"
| "flattenValue ord full (YSeq (item # items)) =
     (case item of YMap n \<Rightarrow> flattenKeys ord n full | _ \<Rightarrow> []) @ flattenValue ord full (YSeq items)"
| "flattenValue ord full (YString s) = []"
| "flattenValue ord full YOther = []"

definition importSignals :: "GoFile \<Rightarrow> MutationSignal list \<times> MutationSignal list" where
  "importSignals parsed =
     foldl (\<lambda>(authSignals, dataSignals) imp.
        let lower = ToLower (Trim imp [CHR 0x22])
        in if Contains lower ''auth'' \<or> Contains lower ''jwt'' \<or> Contains lower ''oauth''
             then (authSignals @ [signal ''go_ast_import'' ''go:auth_symbol'' 3], dataSignals)
           else if Contains lower ''database/sql'' \<or> Contains lower ''pgx'' \<or> Contains lower ''sqlx''
             then (authSignals, dataSignals @ [signal ''go_ast_import'' ''go:data_access'' 2])
           else (authSignals, dataSignals)) ([], []) (gf_Imports parsed)"

definition nodeSignals ::
  "MutationSignal list \<times> MutationSignal list \<Rightarrow> GoFile \<Rightarrow> MutationSignal list \<times> MutationSignal list" where
  "nodeSignals start parsed =
     foldl (\<lambda>(authSignals, dataSignals) node.
        case node of
          FuncDecl name \<Rightarrow>
            if containsAny (ToLower name) [''auth'', ''token'', ''jwt'', ''authorize'', ''permission'']
            then (authSignals @ [signal ''go_ast_function'' ''go:auth_symbol'' 3], dataSignals)
            else (authSignals, dataSignals)
        | SelectorExpr name \<Rightarrow>
            if containsAny (ToLower name) [''query'', ''exec'', ''scan'', ''transaction'', ''begin'']
            then (authSignals, dataSignals @ [signal ''go_ast_selector'' ''go:data_access'' 2])
            else (authSignals, dataSignals)
        | OtherNode \<Rightarrow> (authSignals, dataSignals)) start (gf_Nodes parsed)"

definition goASTAnalyzer :: "Parsers \<Rightarrow> (nat \<Rightarrow> string) \<Rightarrow> Analyzer" where
  "goASTAnalyzer parsers newID =
     \<lparr>az_Name = ''go-ast-analyzer'',
      az_Supports = (\<lambda>file. EqualFold (Ext (cf_Path file)) ''.go''),
      az_Analyze = (\<lambda>input n.
        if length (ai_Content input) = 0 then Inr ([], n)
        else case ps_ParseFile parsers (cf_Path (ai_File input)) (ai_Content input) of
          None \<Rightarrow> Inr ([], n)
        | Some parsed \<Rightarrow>
            (let (authSignals, dataSignals) = nodeSignals (importSignals parsed) parsed;
                 auth = (if length authSignals > 0
                   then [\<lparr>mu_ID = newID n, mu_Kind = MutationAuthBehaviorChange,
                     mu_Severity = SeverityHigh, mu_Confidence = 92 / 100,
                     mu_Title = ''authentication or authorization behavior change'',
                     mu_Description = ''Go AST analysis detected auth-sensitive code paths or imports.'',
                     mu_Files = [cf_Path (ai_File input)], mu_Signals = authSignals,
                     mu_Detector = ''go-ast-analyzer'', mu_Metadata = []\<rparr>] else []);
                 n = n + length auth;
                 data = (if length dataSignals > 0
                   then [\<lparr>mu_ID = newID n, mu_Kind = MutationDataAccess,
                     mu_Severity = SeverityMedium, mu_Confidence = 76 / 100,
                     mu_Title = ''data access behavior change'',
                     mu_Description = ''Go AST analysis detected database interaction surfaces.'',
                     mu_Files = [cf_Path (ai_File input)], mu_Signals = dataSignals,
                     mu_Detector = ''go-ast-analyzer'', mu_Metadata = []\<rparr>] else [])
             in Inr (auth @ data, n + length data)))\<rparr>"

definition sqlDDLAnalyzer :: "(nat \<Rightarrow> string) \<Rightarrow> Analyzer" where
  "sqlDDLAnalyzer newID =
     \<lparr>az_Name = ''sql-ddl-analyzer'',
      az_Supports = (\<lambda>file. EqualFold (Ext (cf_Path file)) ''.sql''),
      az_Analyze = (\<lambda>input n.
        let content = ToLower (TrimSpace (ai_Content input))
        in if \<not> containsAny content
                [''alter table'', ''create table'', ''drop table'', ''create index'', ''drop index'']
           then Inr ([], n)
           else Inr ([\<lparr>mu_ID = newID n, mu_Kind = MutationDatabaseSchema,
                  mu_Severity = SeverityHigh, mu_Confidence = 96 / 100,
                  mu_Title = ''database schema mutation'',
                  mu_Description = ''DDL statements were detected in SQL content.'',
                  mu_Files = [cf_Path (ai_File input)], mu_Signals = [signal ''sql_ast'' ''sql:ddl'' 4],
                  mu_Detector = ''sql-ddl-analyzer'', mu_Metadata = []\<rparr>], Suc n))\<rparr>"

definition openAPIAnalyzer :: "Parsers \<Rightarrow> (nat \<Rightarrow> string) \<Rightarrow> Analyzer" where
  "openAPIAnalyzer parsers newID =
     \<lparr>az_Name = ''openapi-analyzer'',
      az_Supports = (\<lambda>file. let lower = ToLower (cf_Path file)
        in HasSuffix lower ''.proto'' \<or> HasSuffix lower ''openapi.yaml'' \<or> HasSuffix lower ''openapi.yml''),
      az_Analyze = (\<lambda>input n.
        if HasSuffix (ToLower (cf_Path (ai_File input))) ''.proto''
        then Inr ([\<lparr>mu_ID = newID n, mu_Kind = MutationAPIContract,
                 mu_Severity = SeverityHigh, mu_Confidence = 91 / 100,
                 mu_Title = ''API contract mutation'',
                 mu_Description = ''Protocol buffer definition changed.'',
                 mu_Files = [cf_Path (ai_File input)],
                 mu_Signals = [signal ''proto'' ''api:contract_surface'' 3],
                 mu_Detector = ''openapi-analyzer'', mu_Metadata = []\<rparr>], Suc n)
        else case ps_Unmarshal parsers (ai_Content input) of
          None \<Rightarrow> Inr ([], n)
        | Some parsed \<Rightarrow>
            if map_of parsed ''openapi'' = None then Inr ([], n)
            else Inr ([\<lparr>mu_ID = newID n, mu_Kind = MutationAPIContract,
                   mu_Severity = SeverityHigh, mu_Confidence = 93 / 100,
                   mu_Title = ''API contract mutation'',
                   mu_Description = ''OpenAPI schema changed.'',
                   mu_Files = [cf_Path (ai_File input)],
                   mu_Signals = [signal ''openapi'' ''api:contract_surface'' 4],
                   mu_Detector = ''openapi-analyzer'', mu_Metadata = []\<rparr>], Suc n))\<rparr>"

definition manifestAnalyzer :: "(nat \<Rightarrow> string) \<Rightarrow> Analyzer" where
  "manifestAnalyzer newID =
     \<lparr>az_Name = ''manifest-analyzer'', az_Supports = isManifest,
      az_Analyze = (\<lambda>input n.
        Inr ([\<lparr>mu_ID = newID n, mu_Kind = MutationDependency,
            mu_Severity = SeverityMedium, mu_Confidence = 97 / 100,
            mu_Title = ''dependency graph mutation'', mu_Description = ''Dependency manifest changed.'',
            mu_Files = [cf_Path (ai_File input)],
            mu_Signals = [signal ''manifest'' ''manifest:dependency'' 3],
            mu_Detector = ''manifest-analyzer'', mu_Metadata = []\<rparr>], Suc n))\<rparr>"

definition runtimeConfigAnalyzer :: "Parsers \<Rightarrow> (nat \<Rightarrow> string) \<Rightarrow> Analyzer" where
  "runtimeConfigAnalyzer parsers newID =
     \<lparr>az_Name = ''runtime-config-analyzer'',
      az_Supports = (\<lambda>file. let ext = ToLower (Ext (cf_Path file))
        in if ext \<noteq> ''.yaml'' \<and> ext \<noteq> ''.yml'' then False
           else containsAny (ToLower (cf_Path file)) [''helm/'', ''k8s/'', ''deploy/'', ''config/'']),
      az_Analyze = (\<lambda>input n.
        case ps_Unmarshal parsers (ai_Content input) of
          None \<Rightarrow> Inr ([], n)
        | Some parsed \<Rightarrow>
            if list_ex (\<lambda>key. containsAny (ToLower key)
                  [''replicas'', ''resources'', ''image'', ''env'', ''ingress'', ''rollout''])
                (flattenKeys (ps_Order parsers) parsed [])
            then Inr ([\<lparr>mu_ID = newID n, mu_Kind = MutationRuntimeConfig,
                   mu_Severity = SeverityMedium, mu_Confidence = 86 / 100,
                   mu_Title = ''runtime configuration mutation'',
                   mu_Description = ''Structured config analysis detected deploy/runtime keys.'',
                   mu_Files = [cf_Path (ai_File input)],
                   mu_Signals = [signal ''yaml_structured'' ''yaml:runtime_key'' 3],
                   mu_Detector = ''runtime-config-analyzer'', mu_Metadata = []\<rparr>], Suc n)
            else Inr ([], n))\<rparr>"

definition DefaultAnalyzers :: "Parsers \<Rightarrow> (nat \<Rightarrow> string) \<Rightarrow> Analyzer list" where
  "DefaultAnalyzers parsers newID =
     [goASTAnalyzer parsers newID, sqlDDLAnalyzer newID, openAPIAnalyzer parsers newID,
      manifestAnalyzer newID, runtimeConfigAnalyzer parsers newID]"

subsection \<open>External analyzers\<close>

record ExternalAnalyzerConfig =
  xc_Name :: string
  xc_Executable :: string
  xc_Allowlist :: "string list"
  xc_Timeout :: int \<comment> \<open>nanoseconds\<close>
  xc_Paths :: "string list"

datatype ExecOutcome = DeadlineExceeded | ExecFailed string | Output string

record ExecEnv =
  xe_Marshal :: "AnalysisInput \<Rightarrow> string + string"
  xe_Run :: "string \<Rightarrow> int \<Rightarrow> string \<Rightarrow> ExecOutcome" \<comment> \<open>executable, timeout, standard input\<close>
  xe_Unmarshal :: "string \<Rightarrow> Mutation list option"

definition externalAnalyzer :: "ExecEnv \<Rightarrow> ExternalAnalyzerConfig \<Rightarrow> Analyzer" where
  "externalAnalyzer env config =
     \<lparr>az_Name = xc_Name config,
      az_Supports = (\<lambda>file. if length (xc_Paths config) = 0 then True
        else list_ex (\<lambda>pattern. pathMatch pattern (cf_Path file)) (xc_Paths config)),
      az_Analyze = (\<lambda>input n.
        case xe_Marshal env input of
          Inl e \<Rightarrow> Inl (MarshalFailed e)
        | Inr payload \<Rightarrow>
            (case xe_Run env (xc_Executable config) (xc_Timeout config) payload of
               DeadlineExceeded \<Rightarrow> Inl (AnalyzerTimedOut (xc_Name config))
             | ExecFailed e \<Rightarrow> Inl (AnalyzerFailed (xc_Name config) e)
             | Output out \<Rightarrow>
                 (case xe_Unmarshal env out of
                    None \<Rightarrow> Inl (InvalidJSON (xc_Name config))
                  | Some mutations \<Rightarrow>
                      Inr (map (\<lambda>m. m\<lparr>mu_Detector := xc_Name config\<rparr>) mutations, n))))\<rparr>"

definition NewExternalAnalyzer :: "ExecEnv \<Rightarrow> ExternalAnalyzerConfig \<Rightarrow> AnalyzerError + Analyzer" where
  "NewExternalAnalyzer env config =
     (if \<not> IsAbs (xc_Executable config) then Inl NotAbsolute
      else (let allowed = list_ex (\<lambda>path. path = xc_Executable config) (xc_Allowlist config)
            in if \<not> allowed then Inl NotAllowlisted
               else (let config = (if xc_Timeout config \<le> 0 then config\<lparr>xc_Timeout := 5 * 1000000000\<rparr> else config);
                         config = (if xc_Name config = [] then config\<lparr>xc_Name := Base (xc_Executable config)\<rparr> else config)
                     in Inr (externalAnalyzer env config))))"

section \<open>The engine\<close>

record RuleBasedEngine =
  en_rules :: "Rule list"
  en_extractors :: "SignalExtractor list"
  en_analyzers :: "Analyzer list"

definition NewRuleBasedEngine :: "Rule list \<Rightarrow> SignalExtractor list \<Rightarrow> Analyzer list \<Rightarrow> RuleBasedEngine" where
  "NewRuleBasedEngine rules extractors analyzers =
     \<lparr>en_rules = rules, en_extractors = extractors, en_analyzers = analyzers\<rparr>"

definition DefaultEngine :: "Parsers \<Rightarrow> (nat \<Rightarrow> string) \<Rightarrow> RuleBasedEngine" where
  "DefaultEngine parsers newID =
     NewRuleBasedEngine DefaultRules DefaultExtractors (DefaultAnalyzers parsers newID)"

definition DefaultEngineWithExternal ::
  "Parsers \<Rightarrow> (nat \<Rightarrow> string) \<Rightarrow> Analyzer list \<Rightarrow> RuleBasedEngine" where
  "DefaultEngineWithExternal parsers newID analyzers =
     NewRuleBasedEngine DefaultRules DefaultExtractors (DefaultAnalyzers parsers newID @ analyzers)"

fun runExtractors :: "ChangedFile \<Rightarrow> SignalExtractor list \<Rightarrow> MutationSignal list
    \<Rightarrow> AnalyzerError + MutationSignal list" where
  "runExtractors file [] signals = Inr signals"
| "runExtractors file (extractor # extractors) signals =
     (if \<not> sx_Supports extractor file then runExtractors file extractors signals
      else case sx_Extract extractor file of
             Inl e \<Rightarrow> Inl (ExtractorFailed e)
           | Inr extracted \<Rightarrow> runExtractors file extractors (signals @ extracted))"

definition extractSignals :: "RuleBasedEngine \<Rightarrow> ChangedFile \<Rightarrow> AnalyzerError + MutationSignal list" where
  "extractSignals e file =
     runExtractors file (en_extractors e) [signal ''path'' (ToLower (Base (cf_Path file))) 1]"

definition loadContent :: "(string \<Rightarrow> string + string) option \<Rightarrow> string \<Rightarrow> string" where
  \<comment> \<open>the caller drops the error; a failed load leaves no content\<close>
  "loadContent loader path =
     (case loader of
        None \<Rightarrow> []
      | Some load \<Rightarrow> (case load path of Inl _ \<Rightarrow> [] | Inr content \<Rightarrow> content))"

definition ruleMutation :: "(nat \<Rightarrow> string) \<Rightarrow> nat \<Rightarrow> ChangedFile \<Rightarrow> MutationSignal list \<Rightarrow> Rule \<Rightarrow> Mutation" where
  "ruleMutation newID n file signals rule =
     \<lparr>mu_ID = newID n, mu_Kind = ru_Kind rule, mu_Severity = ru_Severity rule,
      mu_Confidence = ru_Confidence rule, mu_Title = ru_Title rule,
      mu_Description = ru_Description rule, mu_Files = [cf_Path file], mu_Signals = signals,
      mu_Detector = ru_Name rule, mu_Metadata = []\<rparr>"

fun applyRules :: "(nat \<Rightarrow> string) \<Rightarrow> ChangedFile \<Rightarrow> MutationSignal list \<Rightarrow> Rule list
    \<Rightarrow> mutation_index \<times> nat \<Rightarrow> mutation_index \<times> nat" where
  "applyRules newID file signals [] st = st"
| "applyRules newID file signals (rule # rules) (index, n) =
     (if \<not> Matches rule (cf_Path file) signals then applyRules newID file signals rules (index, n)
      else applyRules newID file signals rules
             (addMutation newID (index, Suc n) (ruleMutation newID n file signals rule)))"

fun runAnalyzers :: "(nat \<Rightarrow> string) \<Rightarrow> AnalysisInput \<Rightarrow> Analyzer list
    \<Rightarrow> mutation_index \<times> nat \<Rightarrow> AnalyzerError + (mutation_index \<times> nat)" where
  "runAnalyzers newID input [] st = Inr st"
| "runAnalyzers newID input (analyzer # analyzers) (index, n) =
     (if \<not> az_Supports analyzer (ai_File input) then runAnalyzers newID input analyzers (index, n)
      else bindE (az_Analyze analyzer input n) (\<lambda>(mutations, n').
             runAnalyzers newID input analyzers (foldl (addMutation newID) (index, n') mutations)))"

definition classifyFile :: "(nat \<Rightarrow> string) \<Rightarrow> RuleBasedEngine \<Rightarrow> AnalysisRequest \<Rightarrow> ChangedFile
    \<Rightarrow> mutation_index \<times> nat \<Rightarrow> AnalyzerError + (mutation_index \<times> nat)" where
  "classifyFile newID e request file st =
     bindE (extractSignals e file) (\<lambda>signals.
       runAnalyzers newID
         \<lparr>ai_Repo = aq_Repo request, ai_Ref = aq_Ref request, ai_File = file,
          ai_Content = loadContent (aq_Content request) (cf_Path file)\<rparr>
         (en_analyzers e) (applyRules newID file signals (en_rules e) st))"

fun classifyFiles :: "(nat \<Rightarrow> string) \<Rightarrow> RuleBasedEngine \<Rightarrow> AnalysisRequest \<Rightarrow> ChangedFile list
    \<Rightarrow> mutation_index \<times> nat \<Rightarrow> AnalyzerError + (mutation_index \<times> nat)" where
  "classifyFiles newID e request [] st = Inr st"
| "classifyFiles newID e request (file # files) st =
     bindE (classifyFile newID e request file st) (classifyFiles newID e request files)"

definition fallbackMutation :: "(nat \<Rightarrow> string) \<Rightarrow> nat \<Rightarrow> ChangedFile list \<Rightarrow> Mutation" where
  "fallbackMutation newID n files =
     zeroMutation\<lparr>mu_ID := newID n, mu_Kind := MutationUnknown, mu_Severity := SeverityLow,
       mu_Confidence := 35 / 100, mu_Title := ''unclassified change surface'',
       mu_Detector := ''fallback'', mu_Files := map cf_Path files\<rparr>"

definition Classify :: "key_order \<Rightarrow> (nat \<Rightarrow> string) \<Rightarrow> RuleBasedEngine \<Rightarrow> AnalysisRequest \<Rightarrow> nat
    \<Rightarrow> AnalyzerError + (Mutation list \<times> nat)" where
  "Classify ord newID e request n0 =
     bindE (classifyFiles newID e request (aq_Files request) ([], n0)) (\<lambda>(index, n).
       let (index, n) =
             (if length index = 0 \<and> length (aq_Files request) > 0
              then addMutation newID (index, Suc n) (fallbackMutation newID n (aq_Files request))
              else (index, n))
       in Inr (map snd (range_map ord index), n))"

text \<open>\<open>traced engine files cs\<close>: the candidates that were added belong to the files, and every rule
  that matches one of them has contributed.\<close>

definition fromRule :: "Rule \<Rightarrow> ChangedFile \<Rightarrow> Mutation \<Rightarrow> bool" where
  "fromRule r f c \<longleftrightarrow> mu_Kind c = ru_Kind r \<and> mu_Files c = [cf_Path f]
     \<and> mu_Confidence c = ru_Confidence r \<and> mu_Severity c = ru_Severity r"

definition traced :: "RuleBasedEngine \<Rightarrow> ChangedFile list \<Rightarrow> Mutation list \<Rightarrow> bool" where
  "traced engine files cs \<longleftrightarrow>
     (\<forall>c \<in> set cs. \<exists>f \<in> set files. mu_Files c = [cf_Path f])
     \<and> (\<forall>f \<in> set files. \<forall>ss. extractSignals engine f = Inr ss \<longrightarrow>
          (\<forall>r \<in> set (en_rules engine). Matches r (cf_Path f) ss \<longrightarrow> (\<exists>c \<in> set cs. fromRule r f c)))"

lemma traced_append:
  "traced engine fs cs \<Longrightarrow> traced engine gs ds \<Longrightarrow> traced engine (fs @ gs) (cs @ ds)"
  unfolding traced_def set_append by blast

section \<open>Where mutations come from\<close>

definition inputFor :: "AnalysisRequest \<Rightarrow> ChangedFile \<Rightarrow> AnalysisInput" where
  "inputFor request file =
     \<lparr>ai_Repo = aq_Repo request, ai_Ref = aq_Ref request, ai_File = file,
      ai_Content = loadContent (aq_Content request) (cf_Path file)\<rparr>"

text \<open>A candidate of a file is the mutation of a matching rule or was reported by a supporting analyzer.\<close>

definition ruleHit :: "(nat \<Rightarrow> string) \<Rightarrow> RuleBasedEngine \<Rightarrow> ChangedFile \<Rightarrow> Mutation \<Rightarrow> bool" where
  "ruleHit newID engine f c \<longleftrightarrow>
     (\<exists>ss. extractSignals engine f = Inr ss
        \<and> (\<exists>r \<in> set (en_rules engine). Matches r (cf_Path f) ss \<and> (\<exists>k. c = ruleMutation newID k f ss r)))"

definition reported :: "RuleBasedEngine \<Rightarrow> AnalysisRequest \<Rightarrow> ChangedFile \<Rightarrow> Mutation \<Rightarrow> bool" where
  "reported engine request f c \<longleftrightarrow>
     (\<exists>a \<in> set (en_analyzers engine). az_Supports a f
        \<and> (\<exists>k out k'. az_Analyze a (inputFor request f) k = Inr (out, k') \<and> c \<in> set out))"

text \<open>\<open>contributions\<close>: nothing else is a candidate, and nothing that matches or is reported is missed.\<close>

definition covers :: "(nat \<Rightarrow> string) \<Rightarrow> RuleBasedEngine \<Rightarrow> AnalysisRequest \<Rightarrow> ChangedFile \<Rightarrow> Mutation list \<Rightarrow> bool" where
  "covers newID engine request f cs \<longleftrightarrow>
     (\<forall>ss. extractSignals engine f = Inr ss \<longrightarrow>
        (\<forall>r \<in> set (en_rules engine). Matches r (cf_Path f) ss \<longrightarrow> (\<exists>k. ruleMutation newID k f ss r \<in> set cs)))
     \<and> (\<forall>a \<in> set (en_analyzers engine). az_Supports a f \<longrightarrow>
          (\<exists>k out k'. az_Analyze a (inputFor request f) k = Inr (out, k') \<and> set out \<subseteq> set cs))"

definition contributions ::
  "(nat \<Rightarrow> string) \<Rightarrow> RuleBasedEngine \<Rightarrow> AnalysisRequest \<Rightarrow> ChangedFile list \<Rightarrow> Mutation list \<Rightarrow> bool" where
  "contributions newID engine request files cs \<longleftrightarrow>
     (\<forall>c \<in> set cs. \<exists>f \<in> set files. ruleHit newID engine f c \<or> reported engine request f c)
     \<and> (\<forall>f \<in> set files. covers newID engine request f cs)"

definition merged :: "Mutation list \<Rightarrow> Mutation list \<Rightarrow> bool" where
  "merged cs ms \<longleftrightarrow> mu_Kind ` set ms = mu_Kind ` set cs \<and> (\<forall>m \<in> set ms. entryOf cs (mu_Kind m) m)"

lemma covers_mono: "covers newID engine request f cs \<Longrightarrow> set cs \<subseteq> set ds \<Longrightarrow> covers newID engine request f ds"
  unfolding covers_def by (meson order_trans subsetD)

lemma contributions_append:
  assumes "contributions newID engine request fs cs" and "contributions newID engine request gs ds"
  shows "contributions newID engine request (fs @ gs) (cs @ ds)"
proof -
  have "covers newID engine request f (cs @ ds)"
    if "covers newID engine request f cs \<or> covers newID engine request f ds" for f
    using that by (auto intro: covers_mono)
  then show ?thesis using assms unfolding contributions_def set_append by blast
qed

lemma applyRules_origins:
  assumes "indexed cs index" and "applyRules newID file ss rules (index, n) = (index', n')"
  shows "\<exists>ds. indexed (cs @ ds) index'
    \<and> (\<forall>c \<in> set ds. \<exists>r \<in> set rules. Matches r (cf_Path file) ss \<and> (\<exists>k. c = ruleMutation newID k file ss r))
    \<and> (\<forall>r \<in> set rules. Matches r (cf_Path file) ss \<longrightarrow> (\<exists>k. ruleMutation newID k file ss r \<in> set ds))"
  using assms
proof (induction rules arbitrary: cs index n)
  case (Cons r rules)
  show ?case
  proof (cases "Matches r (cf_Path file) ss")
    case False
    then show ?thesis using Cons by auto
  next
    case True
    let ?c = "ruleMutation newID n file ss r"
    obtain i1 n1 where a: "addMutation newID (index, Suc n) ?c = (i1, n1)"
      by (cases "addMutation newID (index, Suc n) ?c")
    have i: "indexed (cs @ [?c]) i1" by (rule indexed_add [OF Cons.prems(1) a])
    have "applyRules newID file ss rules (i1, n1) = (index', n')" using Cons.prems(2) a True by simp
    from Cons.IH [OF i this] obtain ds where ds: "indexed (cs @ ?c # ds) index'"
        "\<forall>c \<in> set ds. \<exists>r \<in> set rules. Matches r (cf_Path file) ss \<and> (\<exists>k. c = ruleMutation newID k file ss r)"
        "\<forall>r \<in> set rules. Matches r (cf_Path file) ss \<longrightarrow> (\<exists>k. ruleMutation newID k file ss r \<in> set ds)"
      unfolding append_assoc append_Cons append_Nil by blast
    then show ?thesis using True by (intro exI [of _ "?c # ds"]) auto
  qed
qed (auto intro: exI [of _ "[]"])

lemma runAnalyzers_origins:
  assumes "indexed cs index" and "runAnalyzers newID input as (index, n) = Inr (index', n')"
  shows "\<exists>ds. indexed (cs @ ds) index'
    \<and> (\<forall>c \<in> set ds. \<exists>a \<in> set as. az_Supports a (ai_File input)
         \<and> (\<exists>k out k'. az_Analyze a input k = Inr (out, k') \<and> c \<in> set out))
    \<and> (\<forall>a \<in> set as. az_Supports a (ai_File input) \<longrightarrow>
         (\<exists>k out k'. az_Analyze a input k = Inr (out, k') \<and> set out \<subseteq> set ds))"
  using assms
proof (induction as arbitrary: cs index n)
  case (Cons a as)
  show ?case
  proof (cases "az_Supports a (ai_File input)")
    case False
    then show ?thesis using Cons by auto
  next
    case True
    then obtain out n1 where an: "az_Analyze a input n = Inr (out, n1)"
      and rest: "runAnalyzers newID input as (foldl (addMutation newID) (index, n1) out) = Inr (index', n')"
      using Cons.prems(2) by (auto simp: bindE_Inr)
    obtain i2 n2 where f: "foldl (addMutation newID) (index, n1) out = (i2, n2)"
      by (cases "foldl (addMutation newID) (index, n1) out")
    have i: "indexed (cs @ out) i2" by (rule indexed_adds [OF Cons.prems(1) f])
    from Cons.IH [OF i rest [unfolded f]] obtain ds where ds: "indexed (cs @ out @ ds) index'"
        "\<forall>c \<in> set ds. \<exists>a \<in> set as. az_Supports a (ai_File input)
           \<and> (\<exists>k out k'. az_Analyze a input k = Inr (out, k') \<and> c \<in> set out)"
        "\<forall>a \<in> set as. az_Supports a (ai_File input) \<longrightarrow>
           (\<exists>k out k'. az_Analyze a input k = Inr (out, k') \<and> set out \<subseteq> set ds)"
      unfolding append_assoc by blast
    show ?thesis
    proof (intro exI [of _ "out @ ds"] conjI ballI impI)
      fix c assume "c \<in> set (out @ ds)"
      then show "\<exists>a \<in> set (a # as). az_Supports a (ai_File input)
          \<and> (\<exists>k out k'. az_Analyze a input k = Inr (out, k') \<and> c \<in> set out)"
        using ds(2) an True by auto
    next
      fix b assume "b \<in> set (a # as)" "az_Supports b (ai_File input)"
      then show "\<exists>k out' k'. az_Analyze b input k = Inr (out', k') \<and> set out' \<subseteq> set (out @ ds)"
        using ds(3) an unfolding set_append by (cases "b = a") (auto, meson le_supI2)
    qed (use ds(1) in simp)
  qed
qed (auto intro: exI [of _ "[]"])

lemma classifyFile_origins:
  assumes "indexed cs index" and "classifyFile newID engine request file (index, n) = Inr (index', n')"
  shows "\<exists>ds. indexed (cs @ ds) index' \<and> contributions newID engine request [file] ds"
proof -
  obtain ss where ss: "extractSignals engine file = Inr ss"
    and run: "runAnalyzers newID (inputFor request file) (en_analyzers engine) (applyRules newID file ss (en_rules engine) (index, n))
      = Inr (index', n')"
    using assms(2) by (auto simp: classifyFile_def inputFor_def bindE_Inr)
  obtain i1 n1 where r: "applyRules newID file ss (en_rules engine) (index, n) = (i1, n1)"
    by (cases "applyRules newID file ss (en_rules engine) (index, n)")
  note an = run [unfolded r]
  from applyRules_origins [OF assms(1) r] obtain ds where ds: "indexed (cs @ ds) i1"
      "\<forall>c \<in> set ds. \<exists>r \<in> set (en_rules engine). Matches r (cf_Path file) ss \<and> (\<exists>k. c = ruleMutation newID k file ss r)"
      "\<forall>r \<in> set (en_rules engine). Matches r (cf_Path file) ss \<longrightarrow> (\<exists>k. ruleMutation newID k file ss r \<in> set ds)"
    by blast
  have f: "ai_File (inputFor request file) = file" by (simp add: inputFor_def)
  from runAnalyzers_origins [OF ds(1) an] obtain es where es: "indexed (cs @ ds @ es) index'"
      "\<forall>c \<in> set es. reported engine request file c"
      "\<forall>a \<in> set (en_analyzers engine). az_Supports a file \<longrightarrow>
         (\<exists>k out k'. az_Analyze a (inputFor request file) k = Inr (out, k') \<and> set out \<subseteq> set es)"
    unfolding f reported_def append_assoc by blast
  have "\<forall>c \<in> set ds. ruleHit newID engine file c" using ds(2) ss unfolding ruleHit_def by blast
  moreover have covered: "covers newID engine request file (ds @ es)"
    using ds(3) es(3) ss unfolding covers_def set_append by (simp, meson le_supI2)
  ultimately have "contributions newID engine request [file] (ds @ es)"
    using covered es(2) unfolding contributions_def set_append by auto
  then show ?thesis using es(1) by blast
qed

lemma classifyFiles_origins:
  assumes "indexed cs index" and "contributions newID engine request done cs"
    and "classifyFiles newID engine request files (index, n) = Inr (index', n')"
  shows "\<exists>ds. indexed ds index' \<and> contributions newID engine request (done @ files) ds"
  using assms
proof (induction files arbitrary: cs index n "done")
  case (Cons f files)
  then obtain i1 n1 where f: "classifyFile newID engine request f (index, n) = Inr (i1, n1)"
    and rest: "classifyFiles newID engine request files (i1, n1) = Inr (index', n')" by (auto simp: bindE_Inr)
  from classifyFile_origins [OF Cons.prems(1) f] obtain ds where
    ds: "indexed (cs @ ds) i1" "contributions newID engine request [f] ds" by blast
  from Cons.IH [OF ds(1) contributions_append [OF Cons.prems(2) ds(2)] rest] show ?case by simp
qed auto

text \<open>The result: one mutation per kind, merged from the candidates.\<close>

lemma index_entries:
  assumes ord: "map_order ord" and i: "indexed cs index"
  shows "distinct (map mu_Kind (map snd (range_map ord index))) \<and> merged cs (map snd (range_map ord index))"
proof -
  have d: "distinct (map fst index)" using i by (simp add: indexed_def)
  have s: "set (range_map ord index) = set index" by (rule set_range_map [OF ord d])
  have e: "\<And>a m. (a, m) \<in> set index \<Longrightarrow> entryOf cs a m \<and> mu_Kind m = a"
    using i by (auto simp: indexed_def entryOf_def Let_def)
  have keys: "map mu_Kind (map snd (range_map ord index)) = map fst (range_map ord index)"
    using e s by auto
  have "mu_Kind ` set (map snd (range_map ord index)) = set (map fst (range_map ord index))"
    unfolding keys [symmetric] by (simp only: set_map)
  also have "\<dots> = mu_Kind ` set cs" using s i by (simp add: indexed_def)
  finally show ?thesis
    using arg_cong [OF keys, of distinct] distinct_keys_range_map [OF ord d] e s
    by (auto simp: merged_def simp del: map_map)
qed

lemma Classify_origins:
  assumes ord: "map_order ord" and c: "Classify ord newID engine request n = Inr (ms, n')"
  shows "distinct (map mu_Kind ms) \<and> (\<exists>cs. merged cs ms
    \<and> (contributions newID engine request (aq_Files request) cs \<and> (cs = [] \<longrightarrow> aq_Files request = [])
       \<or> contributions newID engine request (aq_Files request) [] \<and> aq_Files request \<noteq> []
         \<and> (\<exists>k. cs = [fallbackMutation newID k (aq_Files request)])))"
proof -
  let ?fs = "aq_Files request"
  obtain index k where f: "classifyFiles newID engine request ?fs ([], n) = Inr (index, k)"
    using c by (auto simp: Classify_def bindE_Inr)
  have "contributions newID engine request [] []" by (simp add: contributions_def)
  from classifyFiles_origins [OF indexed_empty this f] obtain cs where
    cs: "indexed cs index" "contributions newID engine request ?fs cs" by auto
  show ?thesis
  proof (cases "index = [] \<and> ?fs \<noteq> []")
    case False
    then have "ms = map snd (range_map ord index)" using c f by (auto simp: Classify_def)
    moreover have "cs = [] \<longrightarrow> ?fs = []" using False cs(1) by (auto simp: indexed_def)
    ultimately show ?thesis using index_entries [OF ord cs(1)] cs(2) by blast
  next
    case True
    let ?f = "fallbackMutation newID k ?fs"
    obtain i2 n2 where a: "addMutation newID ([], Suc k) ?f = (i2, n2)"
      by (cases "addMutation newID ([], Suc k) ?f")
    have "indexed [?f] i2" using indexed_add [OF indexed_empty a] by simp
    moreover have "cs = []" using cs(1) True by (simp add: indexed_def)
    moreover have "ms = map snd (range_map ord i2)" using True c f a by (simp add: Classify_def)
    ultimately show ?thesis using index_entries [OF ord] True cs(2) by blast
  qed
qed

section \<open>The contract of the extractors and analyzers\<close>

text \<open>
  What \<open>Classify\<close> relies on to be total and confined to the change: extractors and analyzers
  never fail, and an analyzer reports mutations of the file it was given only.
\<close>

locale classifier =
  fixes engine :: RuleBasedEngine
  assumes extract_total: "x \<in> set (en_extractors engine) \<Longrightarrow> \<exists>ss. sx_Extract x file = Inr ss"
    and analyze_total: "a \<in> set (en_analyzers engine) \<Longrightarrow> \<exists>ms n'. az_Analyze a input n = Inr (ms, n')"
    and analyze_confined:
      "a \<in> set (en_analyzers engine) \<Longrightarrow> az_Analyze a input n = Inr (ms, n') \<Longrightarrow> m \<in> set ms \<Longrightarrow>
       mu_Files m = [cf_Path (ai_File input)]"
begin

lemma runExtractors_total:
  "set xs \<subseteq> set (en_extractors engine) \<Longrightarrow> \<exists>ss. runExtractors file xs acc = Inr ss"
proof (induction xs arbitrary: acc)
  case (Cons x xs)
  then obtain ss where "sx_Extract x file = Inr ss" using extract_total by fastforce
  then show ?case using Cons by simp
qed simp

lemma extractSignals_total: "\<exists>ss. extractSignals engine file = Inr ss"
  by (simp add: extractSignals_def runExtractors_total)

lemma runAnalyzers_total:
  "set as \<subseteq> set (en_analyzers engine) \<Longrightarrow> \<exists>st'. runAnalyzers newID input as st = Inr st'"
proof (induction as arbitrary: st)
  case (Cons a as)
  obtain ms n' where "az_Analyze a input (snd st) = Inr (ms, n')" using analyze_total Cons.prems by fastforce
  then show ?case using Cons by (cases st) auto
qed simp

lemma classifyFiles_total: "\<exists>st'. classifyFiles newID engine request files st = Inr st'"
proof (induction files arbitrary: st)
  case (Cons f files)
  obtain ss where "extractSignals engine f = Inr ss" using extractSignals_total by blast
  moreover obtain st1 where "runAnalyzers newID (inputFor request f) (en_analyzers engine) (applyRules newID f ss (en_rules engine) st)
      = Inr st1" using runAnalyzers_total [OF order.refl] by blast
  ultimately have "classifyFile newID engine request f st = Inr st1" by (simp add: classifyFile_def inputFor_def)
  then show ?case using Cons.IH by simp
qed simp

lemma contributions_traced: "contributions newID engine request files cs \<Longrightarrow> traced engine files cs"
proof -
  assume c: "contributions newID engine request files cs"
  have "mu_Files x = [cf_Path f]" if "ruleHit newID engine f x \<or> reported engine request f x" for f x
    using that analyze_confined unfolding ruleHit_def reported_def by (fastforce simp: ruleMutation_def inputFor_def)
  moreover have "fromRule r f (ruleMutation newID k f ss r)" for r f k ss by (simp add: fromRule_def ruleMutation_def)
  ultimately show ?thesis using c unfolding contributions_def covers_def traced_def by blast
qed

lemma classifyFiles_trace:
  "\<exists>index' n' ds. classifyFiles newID engine request files ([], n) = Inr (index', n')
    \<and> indexed ds index' \<and> traced engine files ds"
proof -
  obtain index' n' where c: "classifyFiles newID engine request files ([], n) = Inr (index', n')"
    using classifyFiles_total by fastforce
  have "contributions newID engine request [] []" by (simp add: contributions_def)
  from classifyFiles_origins [OF indexed_empty this c] c show ?thesis using contributions_traced by auto
qed

lemma Classify_trace:
  assumes ord: "map_order ord"
  shows "\<exists>ms n' cs. Classify ord newID engine request n = Inr (ms, n')
    \<and> distinct (map mu_Kind ms) \<and> mu_Kind ` set ms = mu_Kind ` set cs
    \<and> (\<forall>m \<in> set ms. entryOf cs (mu_Kind m) m)
    \<and> (traced engine (aq_Files request) cs \<and> (aq_Files request \<noteq> [] \<longrightarrow> cs \<noteq> [])
       \<or> aq_Files request \<noteq> [] \<and> traced engine (aq_Files request) []
         \<and> (\<exists>k. cs = [fallbackMutation newID k (aq_Files request)]))"
proof -
  obtain index k where "classifyFiles newID engine request (aq_Files request) ([], n) = Inr (index, k)"
    using classifyFiles_total by fastforce
  then obtain ms n' where c: "Classify ord newID engine request n = Inr (ms, n')"
    by (auto simp: Classify_def case_prod_beta Let_def)
  from Classify_origins [OF ord c] obtain cs where cs: "distinct (map mu_Kind ms)" "merged cs ms"
    "contributions newID engine request (aq_Files request) cs \<and> (cs = [] \<longrightarrow> aq_Files request = [])
     \<or> contributions newID engine request (aq_Files request) [] \<and> aq_Files request \<noteq> []
       \<and> (\<exists>k. cs = [fallbackMutation newID k (aq_Files request)])"
    by blast
  from cs(3) have "traced engine (aq_Files request) cs \<and> (aq_Files request \<noteq> [] \<longrightarrow> cs \<noteq> [])
     \<or> aq_Files request \<noteq> [] \<and> traced engine (aq_Files request) []
       \<and> (\<exists>k. cs = [fallbackMutation newID k (aq_Files request)])"
    using contributions_traced by metis
  then show ?thesis using c cs(1,2) unfolding merged_def by blast
qed

end

section \<open>The default engine meets the contract\<close>

lemma default_extractors_total: "x \<in> set DefaultExtractors \<Longrightarrow> \<exists>ss. sx_Extract x file = Inr ss"
  by (auto simp: DefaultExtractors_def goPatchSignalExtractor_def sqlSignalExtractor_def
      yamlSignalExtractor_def manifestSignalExtractor_def Let_def)

definition confined :: "Analyzer \<Rightarrow> bool" where
  "confined a \<longleftrightarrow> (\<forall>input n. \<exists>ms n'. az_Analyze a input n = Inr (ms, n')
     \<and> (\<forall>m \<in> set ms. mu_Files m = [cf_Path (ai_File input)]))"

lemma goAST_confined: "confined (goASTAnalyzer parsers newID)"
proof -
  have "\<exists>ms n'. az_Analyze (goASTAnalyzer parsers newID) input n = Inr (ms, n')
     \<and> (\<forall>m \<in> set ms. mu_Files m = [cf_Path (ai_File input)])" for input n
  proof (cases "ps_ParseFile parsers (cf_Path (ai_File input)) (ai_Content input)")
    case (Some parsed)
    then show ?thesis
      by (cases "nodeSignals (importSignals parsed) parsed") (auto simp: goASTAnalyzer_def Let_def)
  qed (simp add: goASTAnalyzer_def)
  then show ?thesis by (simp add: confined_def)
qed

lemma sqlDDL_confined: "confined (sqlDDLAnalyzer newID)"
  by (auto simp: confined_def sqlDDLAnalyzer_def Let_def)

lemma manifest_confined: "confined (manifestAnalyzer newID)"
  by (simp add: confined_def manifestAnalyzer_def)

lemma openAPI_confined: "confined (openAPIAnalyzer parsers newID)"
  by (auto simp: confined_def openAPIAnalyzer_def split: option.splits)

lemma runtimeConfig_confined: "confined (runtimeConfigAnalyzer parsers newID)"
  by (auto simp: confined_def runtimeConfigAnalyzer_def split: option.splits)

lemma default_analyzers_confined: "a \<in> set (DefaultAnalyzers parsers newID) \<Longrightarrow> confined a"
  using goAST_confined sqlDDL_confined manifest_confined openAPI_confined runtimeConfig_confined
  by (auto simp: DefaultAnalyzers_def)

interpretation default_engine: classifier "DefaultEngine parsers ids" for parsers ids
proof unfold_locales
  fix x f assume "x \<in> set (en_extractors (DefaultEngine parsers ids))"
  then show "\<exists>ss. sx_Extract x f = Inr ss"
    by (simp add: default_extractors_total DefaultEngine_def NewRuleBasedEngine_def)
next
  fix a and input :: AnalysisInput and n
  assume "a \<in> set (en_analyzers (DefaultEngine parsers ids))"
  then have c: "confined a"
    by (simp add: default_analyzers_confined DefaultEngine_def NewRuleBasedEngine_def)
  then show "\<exists>ms n'. az_Analyze a input n = Inr (ms, n')" unfolding confined_def by blast
  fix ms n' m
  assume "az_Analyze a input n = Inr (ms, n')" "m \<in> set ms"
  moreover obtain ms' k where "az_Analyze a input n = Inr (ms', k)"
    "\<forall>m \<in> set ms'. mu_Files m = [cf_Path (ai_File input)]"
    using c unfolding confined_def by blast
  ultimately show "mu_Files m = [cf_Path (ai_File input)]" by simp
qed

section \<open>Properties\<close>

lemma default_analyze_total:
  "a \<in> set (DefaultAnalyzers parsers newID) \<Longrightarrow> az_Analyze a input n \<noteq> Inl e"
  using default_analyzers_confined [of a parsers newID] unfolding confined_def by (metis Inr_not_Inl)

lemma runAnalyzers_fails:
  assumes "runAnalyzers newID input as st = Inl e"
  shows "\<exists>a \<in> set as. \<exists>k. az_Supports a (ai_File input) \<and> az_Analyze a input k = Inl e"
  using assms
proof (induction as arbitrary: st)
  case (Cons a as)
  obtain index n where st: "st = (index, n)" by (cases st)
  show ?case
  proof (cases "az_Supports a (ai_File input)")
    case True
    show ?thesis
    proof (cases "az_Analyze a input n")
      case (Inr r)
      then have "runAnalyzers newID input as (foldl (addMutation newID) (index, snd r) (fst r)) = Inl e"
        using Cons.prems st True by (simp add: case_prod_beta)
      then show ?thesis using Cons.IH by fastforce
    qed (use Cons.prems st True in auto)
  qed (use Cons st in auto)
qed simp

lemma classifyFiles_fails:
  assumes "classifyFiles newID (DefaultEngineWithExternal parsers newID external) request files st = Inl e"
  shows "\<exists>a \<in> set external. \<exists>f \<in> set files. \<exists>k. az_Supports a f \<and> az_Analyze a (inputFor request f) k = Inl e"
  using assms
proof (induction files arbitrary: st)
  case (Cons f files)
  let ?E = "DefaultEngineWithExternal parsers newID external"
  have as: "en_analyzers ?E = DefaultAnalyzers parsers newID @ external"
    and x: "extractSignals ?E f = extractSignals (DefaultEngine parsers newID) f"
    by (simp_all add: DefaultEngineWithExternal_def DefaultEngine_def NewRuleBasedEngine_def extractSignals_def)
  obtain ss where ss: "extractSignals ?E f = Inr ss" using default_engine.extractSignals_total x by metis
  have ff: "ai_File (inputFor request f) = f" by (simp add: inputFor_def)
  from Cons.prems consider (here) "classifyFile newID ?E request f st = Inl e"
    | (later) st' where "classifyFiles newID ?E request files st' = Inl e" by (auto simp: bindE_Inl)
  then show ?case
  proof cases
    case here
    then have "runAnalyzers newID (inputFor request f) (en_analyzers ?E) (applyRules newID f ss (en_rules ?E) st) = Inl e"
      using ss by (simp add: classifyFile_def inputFor_def)
    from runAnalyzers_fails [OF this] show ?thesis
      unfolding ff as using default_analyze_total by fastforce
  next
    case later
    then show ?thesis using Cons.IH by fastforce
  qed
qed simp

text \<open>
  C35: every mutation is accounted for. A classification with the built-in rules and analyzers and any
  external ones fails only if an external analyzer that supports one of the files fails on it, and with its
  error. Otherwise it has one mutation per kind, each merged from candidates of its kind (their files, the
  greatest confidence and severity); a candidate is the mutation of a catalogue rule that matches a changed
  file, with that rule as its detector, or was reported by an analyzer for a changed file; every matching rule
  and every report is among the candidates; and the fallback mutation stands alone, when there is no
  candidate for a change with files.
\<close>

theorem Classify_accounted:
  assumes "map_order ord"
  shows "case Classify ord newID (DefaultEngineWithExternal parsers newID external) request n of
      Inl e \<Rightarrow> \<exists>a \<in> set external. \<exists>f \<in> set (aq_Files request). \<exists>k. az_Supports a f \<and> az_Analyze a (inputFor request f) k = Inl e
    | Inr (ms, n') \<Rightarrow> distinct (map mu_Kind ms) \<and> (\<exists>cs. merged cs ms
        \<and> (contributions newID (DefaultEngineWithExternal parsers newID external) request (aq_Files request) cs
             \<and> (cs = [] \<longrightarrow> aq_Files request = [])
           \<or> contributions newID (DefaultEngineWithExternal parsers newID external) request (aq_Files request) []
             \<and> aq_Files request \<noteq> [] \<and> (\<exists>k. cs = [fallbackMutation newID k (aq_Files request)])))"
proof (cases "Classify ord newID (DefaultEngineWithExternal parsers newID external) request n")
  case (Inl e)
  then have "classifyFiles newID (DefaultEngineWithExternal parsers newID external) request (aq_Files request) ([], n) = Inl e"
    by (auto simp: Classify_def bindE_Inl case_prod_beta Let_def)
  from classifyFiles_fails [OF this] show ?thesis using Inl by simp
next
  case (Inr r)
  obtain ms n' where r: "r = (ms, n')" by (cases r)
  from Classify_origins [OF assms Inr [unfolded r]] show ?thesis by (simp only: Inr r sum.case prod.case)
qed

text \<open>
  Classification with the built-in rules and analyzers never fails and partitions the change
  by kind: whatever the parsers return, there is at most one mutation of a kind, there is at
  least one whenever a file changed and none otherwise, and a mutation names at least one file
  and only files of the request.
\<close>

theorem Classify_partitions:
  assumes "map_order ord"
  shows "\<exists>ms n'. Classify ord newID (DefaultEngine parsers newID) request n = Inr (ms, n')
    \<and> distinct (map mu_Kind ms) \<and> (ms = [] \<longleftrightarrow> aq_Files request = [])
    \<and> (\<forall>m \<in> set ms. mu_Files m \<noteq> [] \<and> set (mu_Files m) \<subseteq> cf_Path ` set (aq_Files request))"
proof -
  let ?E = "DefaultEngine parsers newID" and ?fs = "aq_Files request"
  obtain ms n' cs where r: "Classify ord newID ?E request n = Inr (ms, n')" "distinct (map mu_Kind ms)"
    "mu_Kind ` set ms = mu_Kind ` set cs" "\<forall>m \<in> set ms. entryOf cs (mu_Kind m) m"
    and cs: "traced ?E ?fs cs \<and> (?fs \<noteq> [] \<longrightarrow> cs \<noteq> []) \<or> ?fs \<noteq> [] \<and> traced ?E ?fs []
         \<and> (\<exists>k. cs = [fallbackMutation newID k ?fs])"
    using default_engine.Classify_trace [OF assms, where newID = newID and request = request and n = n
        and parsers = parsers and ids = newID] by blast
  have files: "mu_Files c \<noteq> [] \<and> set (mu_Files c) \<subseteq> cf_Path ` set ?fs" if "c \<in> set cs" for c
    using cs that unfolding traced_def by (auto simp: fallbackMutation_def zeroMutation_def)
  have "cs = [] \<longleftrightarrow> ?fs = []"
    using cs by (auto simp: traced_def)
  then have "ms = [] \<longleftrightarrow> ?fs = []" using r(3) by auto
  moreover have "mu_Files m \<noteq> [] \<and> set (mu_Files m) \<subseteq> cf_Path ` set ?fs" if "m \<in> set ms" for m
  proof -
    have m: "filter (\<lambda>c. mu_Kind c = mu_Kind m) cs \<noteq> []"
      "set (mu_Files m) = (\<Union>c \<in> set (filter (\<lambda>c. mu_Kind c = mu_Kind m) cs). set (mu_Files c))"
      using r(4) that by (simp_all add: entryOf_def Let_def)
    obtain c where "c \<in> set cs" "set (mu_Files c) \<subseteq> set (mu_Files m)"
      using m unfolding filter_empty_conv set_filter by blast
    moreover have "set (mu_Files m) \<subseteq> cf_Path ` set ?fs"
      unfolding m(2) using files by auto
    ultimately show ?thesis using files [of c] by auto
  qed
  ultimately show ?thesis using r(1,2) by (intro exI [of _ ms] exI [of _ n']) simp
qed

text \<open>
  No rule is missed. When a catalogue rule matches a changed file (by path, or by the signals
  extracted from its patch), the classification has a mutation of the rule's kind that names the
  file, with at least the rule's confidence and severity.
\<close>

theorem Classify_rule_complete:
  assumes "map_order ord" and "file \<in> set (aq_Files request)"
    and "extractSignals (DefaultEngine parsers newID) file = Inr signals"
    and "rule \<in> set DefaultRules" and "Matches rule (cf_Path file) signals"
  shows "\<exists>ms n' m. Classify ord newID (DefaultEngine parsers newID) request n = Inr (ms, n')
    \<and> m \<in> set ms \<and> mu_Kind m = ru_Kind rule \<and> cf_Path file \<in> set (mu_Files m)
    \<and> ru_Confidence rule \<le> mu_Confidence m
    \<and> severityRank (ru_Severity rule) \<le> severityRank (mu_Severity m)"
proof -
  let ?E = "DefaultEngine parsers newID" and ?fs = "aq_Files request"
  obtain ms n' cs where r: "Classify ord newID ?E request n = Inr (ms, n')"
    "mu_Kind ` set ms = mu_Kind ` set cs" "\<forall>m \<in> set ms. entryOf cs (mu_Kind m) m"
    and cs: "traced ?E ?fs cs \<or> traced ?E ?fs []"
    using default_engine.Classify_trace [OF assms(1), where newID = newID and request = request and n = n
        and parsers = parsers and ids = newID] by blast
  have rule: "rule \<in> set (en_rules ?E)"
    using assms(4) by (simp add: DefaultEngine_def NewRuleBasedEngine_def)
  have "\<exists>c \<in> set cs. fromRule rule file c"
    using cs assms(2,3,5) rule unfolding traced_def by auto
  then obtain c where c: "c \<in> set cs" "fromRule rule file c" by blast
  then have "mu_Kind c \<in> mu_Kind ` set ms" using r(2) by simp
  then obtain m where m: "m \<in> set ms" "mu_Kind m = mu_Kind c" by force
  let ?S = "set (filter (\<lambda>x. mu_Kind x = mu_Kind m) cs)"
  have e: "set (mu_Files m) = (\<Union>x \<in> ?S. set (mu_Files x))" "mu_Confidence m = Max (mu_Confidence ` ?S)"
    "severityRank (mu_Severity m) = Max ((\<lambda>x. severityRank (mu_Severity x)) ` ?S)"
    using r(3) m(1) by (simp_all add: entryOf_def Let_def)
  have cS: "c \<in> ?S" using c m by simp
  have "mu_Confidence c \<le> mu_Confidence m" unfolding e(2) using cS by (intro Max_ge) auto
  moreover have "severityRank (mu_Severity c) \<le> severityRank (mu_Severity m)"
    unfolding e(3) using cS by (intro Max_ge) auto
  moreover have "cf_Path file \<in> set (mu_Files m)"
    unfolding e(1) using cS c(2) by (auto simp: fromRule_def)
  ultimately show ?thesis using r(1) m c(2) by (auto simp: fromRule_def)
qed

text \<open>
  C36: an external analyzer is built exactly for an absolute executable that is literally in the allowlist. It
  runs that executable, with the configured timeout or five seconds if that is not positive, on the encoded
  input, and its mutations are what the executable prints, with the analyzer's name, or else the last part of
  the path, as their detector; a run that takes too long is an error. It runs nothing else: replacing the
  system's other programs, or this one under other timeouts, does not change the analyzer.
\<close>

theorem NewExternalAnalyzer_allowlisted:
  fixes config
  defines "exe \<equiv> xc_Executable config"
    and "timeout \<equiv> (if xc_Timeout config \<le> 0 then 5 * 1000000000 else xc_Timeout config)"
    and "name \<equiv> (if xc_Name config = [] then Base (xc_Executable config) else xc_Name config)"
  shows "((\<exists>a. NewExternalAnalyzer env config = Inr a) \<longleftrightarrow> IsAbs exe \<and> exe \<in> set (xc_Allowlist config))
   \<and> (\<forall>a. NewExternalAnalyzer env config = Inr a \<longrightarrow> az_Name a = name
       \<and> (\<forall>input n ms n'. az_Analyze a input n = Inr (ms, n') \<longleftrightarrow>
            n' = n \<and> (\<exists>payload out raw. xe_Marshal env input = Inr payload \<and> xe_Run env exe timeout payload = Output out
              \<and> xe_Unmarshal env out = Some raw \<and> ms = map (\<lambda>m. m\<lparr>mu_Detector := name\<rparr>) raw))
       \<and> (\<forall>input n payload. xe_Marshal env input = Inr payload \<longrightarrow> xe_Run env exe timeout payload = DeadlineExceeded
            \<longrightarrow> az_Analyze a input n = Inl (AnalyzerTimedOut name))
       \<and> (\<forall>run. run exe timeout = xe_Run env exe timeout \<longrightarrow> NewExternalAnalyzer (env\<lparr>xe_Run := run\<rparr>) config = Inr a))"
proof (intro conjI allI impI)
  show "(\<exists>a. NewExternalAnalyzer env config = Inr a) \<longleftrightarrow> IsAbs exe \<and> exe \<in> set (xc_Allowlist config)"
    by (auto simp: NewExternalAnalyzer_def exe_def Let_def list_ex_iff)
  fix a assume new: "NewExternalAnalyzer env config = Inr a"
  define cfg where "cfg = config\<lparr>xc_Timeout := timeout, xc_Name := name\<rparr>"
  have built: "NewExternalAnalyzer e config = Inr (externalAnalyzer e cfg)" for e
    using new by (auto simp: NewExternalAnalyzer_def cfg_def timeout_def name_def exe_def Let_def split: if_splits)
  then have a: "a = externalAnalyzer env cfg" using new by simp
  have cfg: "xc_Executable cfg = exe" "xc_Timeout cfg = timeout" "xc_Name cfg = name"
    by (simp_all add: cfg_def exe_def)
  show "az_Name a = name" by (simp add: a externalAnalyzer_def cfg)
  show "az_Analyze a input n = Inr (ms, n') \<longleftrightarrow>
      n' = n \<and> (\<exists>payload out raw. xe_Marshal env input = Inr payload \<and> xe_Run env exe timeout payload = Output out
        \<and> xe_Unmarshal env out = Some raw \<and> ms = map (\<lambda>m. m\<lparr>mu_Detector := name\<rparr>) raw)" for input n ms n'
    by (auto simp: a externalAnalyzer_def cfg split: sum.splits ExecOutcome.splits option.splits)
  show "az_Analyze a input n = Inl (AnalyzerTimedOut name)"
    if "xe_Marshal env input = Inr payload" "xe_Run env exe timeout payload = DeadlineExceeded" for input n payload
    using that by (simp add: a externalAnalyzer_def cfg)
  show "NewExternalAnalyzer (env\<lparr>xe_Run := run\<rparr>) config = Inr a" if "run exe timeout = xe_Run env exe timeout" for run
    unfolding built a externalAnalyzer_def cfg that [symmetric]
    by (simp add: that fun_eq_iff split: sum.split ExecOutcome.split option.split)
qed

section \<open>Witnesses\<close>

definition sampleParsers :: Parsers where
  "sampleParsers = \<lparr>ps_ParseFile = (\<lambda>path content. None), ps_Unmarshal = (\<lambda>content. None),
     ps_Order = (\<lambda>ks. ks)\<rparr>"

definition sampleIDs :: "nat \<Rightarrow> string" where
  "sampleIDs n = ''mut_'' @ Itoa (int n)"

definition sampleRequest :: AnalysisRequest where
  "sampleRequest = \<lparr>aq_Repo = zeroRepoRef, aq_Ref = ''main'',
     aq_Files = [zeroChangedFile\<lparr>cf_Path := ''Auth/Login.txt''\<rparr>], aq_Content = None\<rparr>"

definition sampleExec :: ExecEnv where
  "sampleExec = \<lparr>xe_Marshal = (\<lambda>input. Inr []), xe_Run = (\<lambda>exe timeout stdin. Output []),
     xe_Unmarshal = (\<lambda>out. Some [])\<rparr>"

definition sampleExternal :: ExternalAnalyzerConfig where
  "sampleExternal = \<lparr>xc_Name = [], xc_Executable = ''/opt/lint'', xc_Allowlist = [''/opt/lint''],
     xc_Timeout = 0, xc_Paths = []\<rparr>"

theorem Classify_partitions_witness:
  "\<exists>ms n'. Classify rev sampleIDs (DefaultEngine sampleParsers sampleIDs) sampleRequest 0 = Inr (ms, n')
     \<and> ms \<noteq> []"
  using Classify_partitions [OF map_order_rev, of sampleIDs sampleParsers sampleRequest 0]
  by (auto simp: sampleRequest_def)

theorem Classify_rule_complete_witness:
  "\<exists>ms n' m. Classify rev sampleIDs (DefaultEngine sampleParsers sampleIDs) sampleRequest 0 = Inr (ms, n')
     \<and> m \<in> set ms \<and> mu_Kind m = MutationAuthBehaviorChange"
proof -
  let ?f = "zeroChangedFile\<lparr>cf_Path := ''Auth/Login.txt''\<rparr>"
  obtain ss where ss: "extractSignals (DefaultEngine sampleParsers sampleIDs) ?f = Inr ss"
    using default_engine.extractSignals_total by blast
  have "Contains (ToLower ''Auth/Login.txt'') (ToLower ''auth/'')" by code_simp
  then have "Matches (DefaultRules ! 0) (cf_Path ?f) ss"
    by (simp add: Matches_def containsAnySubstring_def DefaultRules_def)
  moreover have "DefaultRules ! 0 \<in> set DefaultRules" "ru_Kind (DefaultRules ! 0) = MutationAuthBehaviorChange"
    by (simp_all add: DefaultRules_def)
  moreover have "?f \<in> set (aq_Files sampleRequest)" by (simp add: sampleRequest_def)
  ultimately show ?thesis
    using Classify_rule_complete [OF map_order_rev _ ss, of sampleRequest "DefaultRules ! 0" 0] by auto
qed

text \<open>A system whose only program reports one mutation, and takes too long under any timeout but five seconds.\<close>

definition lintExec :: ExecEnv where
  "lintExec = \<lparr>xe_Marshal = (\<lambda>input. Inr (cf_Path (ai_File input))),
     xe_Run = (\<lambda>exe timeout stdin. if exe = ''/opt/lint'' \<and> timeout = 5000000000 then Output stdin
        else if exe = ''/opt/lint'' then DeadlineExceeded else ExecFailed ''not found''),
     xe_Unmarshal = (\<lambda>out. Some [zeroMutation\<lparr>mu_Kind := MutationUnknown, mu_Files := [out]\<rparr>])\<rparr>"

definition lintInput :: AnalysisInput where
  "lintInput = inputFor sampleRequest (zeroChangedFile\<lparr>cf_Path := ''a.py''\<rparr>)"

theorem NewExternalAnalyzer_allowlisted_witness:
  "(\<exists>a ms. NewExternalAnalyzer lintExec sampleExternal = Inr a \<and> az_Analyze a lintInput 4 = Inr (ms, 4)
      \<and> map mu_Detector ms = [''lint''] \<and> map mu_Files ms = [[''a.py'']])
   \<and> (\<exists>a. NewExternalAnalyzer lintExec (sampleExternal\<lparr>xc_Timeout := 1, xc_Name := ''x''\<rparr>) = Inr a
      \<and> az_Analyze a lintInput 4 = Inl (AnalyzerTimedOut ''x''))
   \<and> \<not> (\<exists>a. NewExternalAnalyzer lintExec (sampleExternal\<lparr>xc_Allowlist := []\<rparr>) = Inr a)"
proof -
  have abs: "IsAbs ''/opt/lint''" "Base ''/opt/lint'' = ''lint''" by code_simp+
  note law = NewExternalAnalyzer_allowlisted [of lintExec]
  have "\<exists>a ms. NewExternalAnalyzer lintExec sampleExternal = Inr a \<and> az_Analyze a lintInput 4 = Inr (ms, 4)
      \<and> map mu_Detector ms = [''lint''] \<and> map mu_Files ms = [[''a.py'']]"
  proof -
    obtain a where "NewExternalAnalyzer lintExec sampleExternal = Inr a"
      using law [of sampleExternal] abs by (auto simp: sampleExternal_def)
    then show ?thesis
      using law [of sampleExternal] abs
      by (simp add: sampleExternal_def lintExec_def lintInput_def inputFor_def)
  qed
  moreover have "\<exists>a. NewExternalAnalyzer lintExec (sampleExternal\<lparr>xc_Timeout := 1, xc_Name := ''x''\<rparr>) = Inr a
      \<and> az_Analyze a lintInput 4 = Inl (AnalyzerTimedOut ''x'')"
  proof -
    let ?c = "sampleExternal\<lparr>xc_Timeout := 1, xc_Name := ''x''\<rparr>"
    obtain a where "NewExternalAnalyzer lintExec ?c = Inr a"
      using law [of ?c] abs by (auto simp: sampleExternal_def)
    then show ?thesis
      using law [of ?c] by (simp add: sampleExternal_def lintExec_def lintInput_def)
  qed
  moreover have "\<not> (\<exists>a. NewExternalAnalyzer lintExec (sampleExternal\<lparr>xc_Allowlist := []\<rparr>) = Inr a)"
    using law [of "sampleExternal\<lparr>xc_Allowlist := []\<rparr>"] by (simp add: sampleExternal_def)
  ultimately show ?thesis by blast
qed

text \<open>A classification with this analyzer.\<close>

definition lintAnalyzer :: Analyzer where
  "lintAnalyzer = externalAnalyzer lintExec (sampleExternal\<lparr>xc_Timeout := 5000000000, xc_Name := ''lint''\<rparr>)"

theorem Classify_accounted_witness:
  "\<exists>ms n' cs c. Classify rev sampleIDs (DefaultEngineWithExternal sampleParsers sampleIDs [lintAnalyzer]) sampleRequest 0 = Inr (ms, n')
     \<and> merged cs ms
     \<and> contributions sampleIDs (DefaultEngineWithExternal sampleParsers sampleIDs [lintAnalyzer]) sampleRequest (aq_Files sampleRequest) cs
     \<and> c \<in> set cs \<and> mu_Detector c = ''lint''"
proof -
  let ?E = "DefaultEngineWithExternal sampleParsers sampleIDs [lintAnalyzer]" and ?f = "zeroChangedFile\<lparr>cf_Path := ''Auth/Login.txt''\<rparr>"
  let ?c = "\<lambda>input. zeroMutation\<lparr>mu_Kind := MutationUnknown, mu_Files := [cf_Path (ai_File input)], mu_Detector := ''lint''\<rparr>"
  have lint: "az_Analyze lintAnalyzer input k = Inr ([?c input], k)" "az_Supports lintAnalyzer f" for input k f
    by (simp_all add: lintAnalyzer_def externalAnalyzer_def lintExec_def sampleExternal_def)
  have fs: "aq_Files sampleRequest = [?f]" by (simp add: sampleRequest_def)
  have mem: "lintAnalyzer \<in> set (en_analyzers ?E)" by (simp add: DefaultEngineWithExternal_def NewRuleBasedEngine_def)
  have found: "?c (inputFor sampleRequest ?f) \<in> set cs" if "contributions sampleIDs ?E sampleRequest (aq_Files sampleRequest) cs" for cs
    using that mem lint unfolding contributions_def covers_def fs by fastforce
  note law = Classify_accounted [OF map_order_rev, where newID = sampleIDs and parsers = sampleParsers and external = "[lintAnalyzer]"
      and request = sampleRequest and n = 0]
  show ?thesis
  proof (cases "Classify rev sampleIDs ?E sampleRequest 0")
    case (Inl e)
    then show ?thesis using law lint by simp
  next
    case (Inr r)
    obtain ms n' where r: "r = (ms, n')" by (cases r)
    from law Inr r obtain cs where "merged cs ms" "contributions sampleIDs ?E sampleRequest (aq_Files sampleRequest) cs"
      using found [of "[]"] by auto
    moreover have "mu_Detector (?c (inputFor sampleRequest ?f)) = ''lint''" by simp
    ultimately show ?thesis using Inr r found by blast
  qed
qed

end
