(* ===== verification/RuntimeGraph.thy ===== *)
theory RuntimeGraph
  imports Domain
begin

text \<open>
  Resolution of the runtime impact, \<open>internal/runtimegraph\<close>: the four sources, the breadth-first
  traversal of a graph manifest, and the resolver that merges the fragments. The content loader
  and the YAML decoders are arguments; a source is a function from the input to a fragment or an
  error. The traversal is verified against the set of nodes within a number of steps.
\<close>

section \<open>Data\<close>

type_synonym NodeKind = string
type_synonym EdgeType = string

definition NodeService :: NodeKind where [domain_consts]: "NodeService = ''service''"
definition NodeAPI :: NodeKind where [domain_consts]: "NodeAPI = ''api''"
definition NodeStore :: NodeKind where [domain_consts]: "NodeStore = ''datastore''"
definition NodeQueue :: NodeKind where [domain_consts]: "NodeQueue = ''queue''"
definition NodeInfra :: NodeKind where [domain_consts]: "NodeInfra = ''infra''"
definition NodeTeam :: NodeKind where [domain_consts]: "NodeTeam = ''team''"

definition EdgeCalls :: EdgeType where [domain_consts]: "EdgeCalls = ''calls''"
definition EdgeReads :: EdgeType where [domain_consts]: "EdgeReads = ''reads''"
definition EdgePublishes :: EdgeType where [domain_consts]: "EdgePublishes = ''publishes''"
definition EdgeOwns :: EdgeType where [domain_consts]: "EdgeOwns = ''owns''"
definition EdgeDeploys :: EdgeType where [domain_consts]: "EdgeDeploys = ''deploys''"

record Node =
  no_ID :: string
  no_Kind :: NodeKind
  no_Name :: string
  no_Namespace :: string
  no_Owner :: string
  no_Criticality :: Criticality
  no_Metadata :: metadata

record Edge =
  ed_From :: string
  ed_To :: string
  ed_Type :: EdgeType
  ed_Critical :: bool
  ed_Directional :: bool
  ed_Metadata :: metadata

record Options =
  op_EnableCodeOwners :: bool
  op_GraphManifestPath :: string
  op_MaxTraversalDepth :: int

record Fragment =
  fr_Nodes :: "Node list"
  fr_Edges :: "Edge list"
  fr_Systems :: "SystemRef list"
  fr_Ownership :: "OwnershipBoundary list"
  fr_Notes :: "string list"
  fr_Criticality :: Criticality
  fr_Affected :: "string list"

definition zeroFragment :: Fragment where
  "zeroFragment = \<lparr>fr_Nodes = [], fr_Edges = [], fr_Systems = [], fr_Ownership = [], fr_Notes = [],
     fr_Criticality = [], fr_Affected = []\<rparr>"

type_synonym ContentLoader = "string \<Rightarrow> string + string"

record ResolutionInput =
  in_Packet :: ChangePacket
  in_Ref :: string
  in_Loader :: "ContentLoader option"
  in_Options :: Options

record graphManifestNode =
  gn_ID :: string
  gn_Name :: string
  gn_Kind :: NodeKind
  gn_Owner :: string
  gn_Criticality :: Criticality
  gn_Paths :: "string list"

record graphManifest =
  gm_Nodes :: "graphManifestNode list"
  gm_Edges :: "Edge list"

record Decoders =
  dec_Any :: "string \<Rightarrow> (string \<times> Yaml) list option"
  dec_Graph :: "string \<Rightarrow> string + graphManifest"
  dec_Order :: key_order

type_synonym Source = "ResolutionInput \<Rightarrow> string + Fragment"

definition criticalityRank :: "Criticality \<Rightarrow> int" where
  "criticalityRank value =
     (if value = CriticalityTier0 then 4 else if value = CriticalityHigh then 3
      else if value = CriticalityNormal then 2 else 1)"

section \<open>Repository topology and manifests\<close>

definition topologyStep ::
  "(string \<times> SystemRef) list \<times> (string \<times> OwnershipBoundary) list \<Rightarrow> ChangedFile
     \<Rightarrow> (string \<times> SystemRef) list \<times> (string \<times> OwnershipBoundary) list" where
  "topologyStep st file =
     (let (services, owners) = st; parts = Split (Trim (cf_Path file) ''/'') CHR ''/''
      in if length parts < 2 then (services, owners)
         else if parts ! 0 \<in> set [''cmd'', ''internal'', ''pkg'', ''services''] then
           (let serviceName = parts ! 1
            in (AList.update serviceName
                  \<lparr>sr_Kind = SystemService, sr_Name = serviceName, sr_Namespace = [],
                   sr_Owner = serviceName, sr_Criticality = CriticalityNormal\<rparr> services,
                AList.update serviceName
                  \<lparr>ob_Domain = serviceName, ob_Team = serviceName, ob_Systems = [serviceName],
                   ob_Escalation = [], ob_Critical = False\<rparr> owners))
         else (services, owners))"

definition repositoryTopologySource :: "Decoders \<Rightarrow> Source" where
  "repositoryTopologySource dec input =
     (let (services, owners) = foldl topologyStep ([], []) (cp_Files (in_Packet input))
      in Inr (zeroFragment\<lparr>
           fr_Notes := [''repository topology source derived impacted services from changed paths''],
           fr_Systems := map snd (range_map (dec_Order dec) services),
           fr_Ownership := map snd (range_map (dec_Order dec) owners)\<rparr>))"

definition yamlString :: "Yaml option \<Rightarrow> string" where
  \<comment> \<open>the type assertion \<^verbatim>\<open>v, _ := x.(string)\<close>\<close>
  "yamlString y = (case y of Some (YString s) \<Rightarrow> s | _ \<Rightarrow> [])"

definition yamlMap :: "Yaml option \<Rightarrow> (string \<times> Yaml) list" where
  "yamlMap y = (case y of Some (YMap m) \<Rightarrow> m | _ \<Rightarrow> [])"

definition parseManifestSystem :: "Decoders \<Rightarrow> string \<Rightarrow> SystemRef option" where
  "parseManifestSystem dec content =
     (case dec_Any dec content of
        None \<Rightarrow> None
      | Some parsed \<Rightarrow>
          (let kind = yamlString (map_of parsed ''kind'');
               metadata = yamlMap (map_of parsed ''metadata'');
               name = yamlString (map_of metadata ''name'')
           in if kind = [] \<or> name = [] then None
              else (let lowerKind = ToLower kind
                    in if lowerKind \<noteq> ''service'' \<and> lowerKind \<noteq> ''deployment'' \<and> lowerKind \<noteq> ''statefulset''
                       then None
                       else Some \<lparr>sr_Kind = SystemService, sr_Name = name, sr_Namespace = [],
                              sr_Owner = name, sr_Criticality = CriticalityNormal\<rparr>)))"

definition manifestStep :: "Decoders \<Rightarrow> ResolutionInput \<Rightarrow> Fragment \<Rightarrow> ChangedFile \<Rightarrow> Fragment" where
  "manifestStep dec input fragment file =
     (let ext = ToLower (Ext (cf_Path file))
      in if ext \<noteq> ''.yaml'' \<and> ext \<noteq> ''.yml'' then fragment
         else case in_Loader input of
           None \<Rightarrow> fragment
         | Some load \<Rightarrow>
             (case load (cf_Path file) of
                Inl _ \<Rightarrow> fragment
              | Inr content \<Rightarrow>
                  if length content = 0 then fragment
                  else (case parseManifestSystem dec content of
                          None \<Rightarrow> fragment
                        | Some system \<Rightarrow>
                            fragment\<lparr>fr_Systems := fr_Systems fragment @ [system],
                              fr_Notes := fr_Notes fragment @
                                [''manifest source extracted runtime objects from deploy manifests'']\<rparr>)))"

definition manifestSource :: "Decoders \<Rightarrow> Source" where
  "manifestSource dec input =
     Inr (foldl (manifestStep dec input) zeroFragment (cp_Files (in_Packet input)))"

section \<open>Code owners\<close>

definition codeOwnerLine ::
  "ChangedFile \<Rightarrow> (string \<times> OwnershipBoundary) list \<Rightarrow> string \<Rightarrow> (string \<times> OwnershipBoundary) list" where
  "codeOwnerLine file matches rawLine =
     (let line = TrimSpace rawLine
      in if line = [] \<or> HasPrefix line ''#'' then matches
         else (let fields = Fields line
               in if length fields < 2 then matches
                  else (let pattern = Trim (fields ! 0) ''/''
                        in if \<not> Contains (cf_Path file) (Trim pattern ''*'') then matches
                           else (let team = TrimPrefix (fields ! 1) ''@''
                                 in AList.update team
                                      \<lparr>ob_Domain = pattern, ob_Team = team, ob_Systems = [cf_Path file],
                                       ob_Escalation = [], ob_Critical = False\<rparr> matches))))"

definition collectCodeOwners :: "key_order \<Rightarrow> string \<Rightarrow> ChangedFile list \<Rightarrow> OwnershipBoundary list" where
  "collectCodeOwners ord codeOwners files =
     (let lines = Split codeOwners (CHR 0x0A);
          matches = foldl (\<lambda>m file. foldl (codeOwnerLine file) m lines) [] files
      in map snd (range_map ord matches))"

definition codeOwnersSource :: "Decoders \<Rightarrow> Source" where
  "codeOwnersSource dec input =
     (case in_Loader input of
        None \<Rightarrow> Inr zeroFragment
      | Some load \<Rightarrow>
          (let first = (case load ''.github/CODEOWNERS'' of Inl _ \<Rightarrow> [] | Inr c \<Rightarrow> c);
               content = (if length first = 0
                          then (case load ''CODEOWNERS'' of Inl _ \<Rightarrow> [] | Inr c \<Rightarrow> c) else first)
           in if length content = 0 then Inr zeroFragment
              else (let owners = collectCodeOwners (dec_Order dec) content (cp_Files (in_Packet input))
                    in Inr (zeroFragment\<lparr>fr_Ownership := owners,
                         fr_Notes := (if length owners > 0
                           then [''codeowners source mapped changed files to owner teams''] else [])\<rparr>))))"

section \<open>The graph manifest\<close>

definition matchesGraphPath :: "string list \<Rightarrow> string \<Rightarrow> bool" where
  "matchesGraphPath patterns path =
     list_ex (\<lambda>pattern. pathMatch pattern path \<or> HasPrefix path (TrimSuffix pattern ''/**'')) patterns"

definition graphNodeStep :: "ChangedFile list \<Rightarrow> Fragment \<Rightarrow> graphManifestNode \<Rightarrow> Fragment" where
  "graphNodeStep files fragment node =
     (if gn_ID node = [] \<or> gn_Name node = [] then fragment
      else fragment\<lparr>
        fr_Nodes := fr_Nodes fragment @
          [\<lparr>no_ID = gn_ID node, no_Kind = gn_Kind node, no_Name = gn_Name node, no_Namespace = [],
            no_Owner = gn_Owner node, no_Criticality = gn_Criticality node, no_Metadata = []\<rparr>],
        fr_Systems := fr_Systems fragment @
          [\<lparr>sr_Kind = SystemService, sr_Name = gn_Name node, sr_Namespace = [],
            sr_Owner = gn_Owner node, sr_Criticality = gn_Criticality node\<rparr>],
        fr_Affected := fr_Affected fragment @
          (if list_ex (\<lambda>file. matchesGraphPath (gn_Paths node) (cf_Path file)) files
           then [gn_ID node] else [])\<rparr>)"

definition graphManifestSource :: "Decoders \<Rightarrow> Source" where
  "graphManifestSource dec input =
     (case in_Loader input of
        None \<Rightarrow> Inr zeroFragment
      | Some load \<Rightarrow>
          if op_GraphManifestPath (in_Options input) = [] then Inr zeroFragment
          else (case load (op_GraphManifestPath (in_Options input)) of
                  Inl _ \<Rightarrow> Inr zeroFragment
                | Inr content \<Rightarrow>
                    if length content = 0 then Inr zeroFragment
                    else bindE (dec_Graph dec content) (\<lambda>manifest.
                      let fragment = foldl (graphNodeStep (cp_Files (in_Packet input)))
                            (zeroFragment\<lparr>fr_Edges := gm_Edges manifest\<rparr>) (gm_Nodes manifest)
                      in Inr (if length (fr_Affected fragment) > 0
                              then fragment\<lparr>fr_Notes := fr_Notes fragment @
                                [''graph manifest resolved transitive runtime dependencies'']\<rparr>
                              else fragment))))"

subsection \<open>The traversal\<close>

definition nodeSystems :: "Node list \<Rightarrow> string \<rightharpoonup> SystemRef" where
  "nodeSystems nodes =
     foldl (\<lambda>m node. m(no_ID node \<mapsto>
         \<lparr>sr_Kind = SystemService, sr_Name = no_Name node, sr_Namespace = [],
          sr_Owner = no_Owner node, sr_Criticality = no_Criticality node\<rparr>)) Map.empty nodes"

definition addEdge :: "(string \<Rightarrow> string list) \<Rightarrow> Edge \<Rightarrow> (string \<Rightarrow> string list)" where
  "addEdge adjacency edge =
     (let a = adjacency(ed_From edge := adjacency (ed_From edge) @ [ed_To edge])
      in a(ed_To edge := a (ed_To edge) @ [ed_From edge]))"

definition adjacencyOf :: "Edge list \<Rightarrow> string \<Rightarrow> string list" where
  "adjacencyOf edges = foldl addEdge (\<lambda>_. []) edges"

fun visitNeighbours ::
  "int \<Rightarrow> string list \<Rightarrow> string set \<times> (string \<Rightarrow> int) \<times> string list
     \<Rightarrow> string set \<times> (string \<Rightarrow> int) \<times> string list" where
  "visitNeighbours d [] st = st"
| "visitNeighbours d (next # rest) (visited, depth, queue) =
     (if next \<notin> visited
      then visitNeighbours d rest (insert next visited, depth(next := d + 1), queue @ [next])
      else visitNeighbours d rest (visited, depth, queue))"

definition endpoints :: "Edge list \<Rightarrow> string set" where
  "endpoints edges = (\<Union>e \<in> set edges. {ed_From e, ed_To e})"

lemma finite_endpoints [simp]: "finite (endpoints edges)"
  by (simp add: endpoints_def)

lemma addEdge_set:
  "set (addEdge a e u) =
     set (a u) \<union> (if u = ed_From e then {ed_To e} else {}) \<union> (if u = ed_To e then {ed_From e} else {})"
  by (auto simp: addEdge_def Let_def)

lemma adjacency_set:
  "set (adjacencyOf edges u) = {v. \<exists>e \<in> set edges. (ed_From e = u \<and> ed_To e = v) \<or> (ed_To e = u \<and> ed_From e = v)}"
proof -
  have "set (foldl addEdge a es u) =
      set (a u) \<union> {v. \<exists>e \<in> set es. (ed_From e = u \<and> ed_To e = v) \<or> (ed_To e = u \<and> ed_From e = v)}" for a es
    by (induction es arbitrary: a) (auto simp: addEdge_set split: if_splits)
  then show ?thesis by (simp add: adjacencyOf_def)
qed

lemma adjacency_endpoints: "set (adjacencyOf edges u) \<subseteq> endpoints edges"
  by (auto simp: adjacency_set endpoints_def)

lemma visitNeighbours_measure:
  "visitNeighbours d ns (visited, depth, queue) = (visited', depth', queue') \<Longrightarrow>
   set ns \<subseteq> U \<Longrightarrow> finite U \<Longrightarrow>
   card (U - visited') + length queue' = card (U - visited) + length queue"
proof (induction d ns "(visited, depth, queue)" arbitrary: visited depth queue rule: visitNeighbours.induct)
  case (2 d v rest visited depth queue)
  show ?case
  proof (cases "v \<in> visited")
    case False
    then have "v \<in> U - visited" "U - insert v visited = U - visited - {v}" using "2.prems" by auto
    then have "Suc (card (U - insert v visited)) = card (U - visited)"
      using "2.prems"(3) by (metis card_Suc_Diff1 finite_Diff)
    then show ?thesis using 2 False by auto
  qed (use 2 in auto)
qed simp

definition visitNode :: "(string \<rightharpoonup> SystemRef) \<Rightarrow> Fragment \<Rightarrow> string \<Rightarrow> Fragment" where
  "visitNode nodes result cur =
     (case nodes cur of
        None \<Rightarrow> result
      | Some system \<Rightarrow>
          result\<lparr>fr_Systems := fr_Systems result @ [system],
            fr_Criticality :=
              (if criticalityRank (sr_Criticality system) > criticalityRank (fr_Criticality result)
               then sr_Criticality system else fr_Criticality result)\<rparr>)"

function traverse ::
  "Edge list \<Rightarrow> (string \<rightharpoonup> SystemRef) \<Rightarrow> int \<Rightarrow> string list \<Rightarrow> string set \<Rightarrow> (string \<Rightarrow> int)
     \<Rightarrow> Fragment \<Rightarrow> Fragment" where
  "traverse edges nodes maxDepth [] visited depth result = result"
| "traverse edges nodes maxDepth (cur # queue) visited depth result =
     (let result = visitNode nodes result cur
      in if depth cur \<ge> maxDepth then traverse edges nodes maxDepth queue visited depth result
         else (let (visited', depth', queue') =
                     visitNeighbours (depth cur) (adjacencyOf edges cur) (visited, depth, queue)
               in traverse edges nodes maxDepth queue' visited' depth' result))"
  by pat_completeness auto
termination
proof (relation "measure (\<lambda>(edges, _, _, queue, visited, _, _).
    card (endpoints edges - visited) + length queue)", goal_cases)
  case (3 edges nodes maxDepth i queue visited depth result x xa visited' y depth' queue')
  then have "visitNeighbours (depth i) (adjacencyOf edges i) (visited, depth, queue) = (visited', depth', queue')"
    by simp
  from visitNeighbours_measure [OF this adjacency_endpoints finite_endpoints] show ?case by simp
qed simp_all

definition traverseGraph :: "Fragment \<Rightarrow> int \<Rightarrow> Fragment" where
  "traverseGraph fragment maxDepth0 =
     (let maxDepth = (if maxDepth0 \<le> 0 then 3 else maxDepth0)
      in traverse (fr_Edges fragment) (nodeSystems (fr_Nodes fragment)) maxDepth
           (fr_Affected fragment) (set (fr_Affected fragment)) (\<lambda>_. 0)
           (zeroFragment\<lparr>fr_Notes := fr_Notes fragment\<rparr>))"

section \<open>The resolver\<close>

definition NewResolver :: "Decoders \<Rightarrow> Options \<Rightarrow> Source list" where
  "NewResolver dec options =
     [repositoryTopologySource dec, manifestSource dec]
     @ (if op_GraphManifestPath options \<noteq> [] then [graphManifestSource dec] else [])
     @ (if op_EnableCodeOwners options then [codeOwnersSource dec] else [])"

definition defaultImpact :: RuntimeImpact where
  "defaultImpact = zeroRuntimeImpact\<lparr>im_BlastRadius := BlastRadiusUnknown, im_Criticality := CriticalityNormal\<rparr>"

definition indexSystems :: "(string \<times> SystemRef) list \<Rightarrow> SystemRef list \<Rightarrow> (string \<times> SystemRef) list" where
  "indexSystems index systems = foldl (\<lambda>m system. AList.update (sr_Name system) system m) index systems"

definition indexOwners ::
  "(string \<times> OwnershipBoundary) list \<Rightarrow> OwnershipBoundary list \<Rightarrow> (string \<times> OwnershipBoundary) list" where
  "indexOwners index owners = foldl (\<lambda>m owner. AList.update (ob_Team owner) owner m) index owners"

definition promoteCriticality :: "RuntimeImpact \<Rightarrow> Criticality \<Rightarrow> RuntimeImpact" where
  "promoteCriticality impact candidate =
     (if criticalityRank candidate > criticalityRank (im_Criticality impact)
      then impact\<lparr>im_Criticality := candidate\<rparr> else impact)"

definition deriveBlastRadius :: "(string \<times> SystemRef) list \<Rightarrow> BlastRadius" where
  "deriveBlastRadius services =
     (if length services = 0 then BlastRadiusUnknown
      else if length services = 1 then BlastRadiusIsolated else BlastRadiusLocalized)"

definition materializeSystems :: "key_order \<Rightarrow> (string \<times> SystemRef) list \<Rightarrow> SystemRef list" where
  "materializeSystems ord index = map snd (range_map ord index)"

definition materializeOwners :: "key_order \<Rightarrow> (string \<times> OwnershipBoundary) list \<Rightarrow> OwnershipBoundary list" where
  "materializeOwners ord index = map snd (range_map ord index)"

type_synonym resolve_state =
  "(string \<times> SystemRef) list \<times> (string \<times> OwnershipBoundary) list \<times> RuntimeImpact"

definition mergeFragment :: "Options \<Rightarrow> resolve_state \<Rightarrow> Fragment \<Rightarrow> resolve_state" where
  "mergeFragment options st fragment =
     (let (serviceIndex, ownerIndex, impact) = st;
          (serviceIndex, impact) =
            (if length (fr_Edges fragment) > 0 \<and> length (fr_Affected fragment) > 0
             then (let resolved = traverseGraph fragment (op_MaxTraversalDepth options);
                       impact = promoteCriticality impact (fr_Criticality resolved)
                   in (indexSystems serviceIndex (fr_Systems resolved),
                       impact\<lparr>im_Notes := im_Notes impact @ fr_Notes resolved\<rparr>))
             else (indexSystems serviceIndex (fr_Systems fragment), impact));
          ownerIndex = indexOwners ownerIndex (fr_Ownership fragment);
          impact = promoteCriticality impact (fr_Criticality fragment)
      in (serviceIndex, ownerIndex, impact\<lparr>im_Notes := im_Notes impact @ fr_Notes fragment\<rparr>))"

fun mergeSources :: "ResolutionInput \<Rightarrow> Source list \<Rightarrow> resolve_state \<Rightarrow> string + resolve_state" where
  "mergeSources input [] st = Inr st"
| "mergeSources input (source # sources) st =
     bindE (source input) (\<lambda>fragment.
       mergeSources input sources (mergeFragment (in_Options input) st fragment))"

definition ResolveImpact ::
  "key_order \<Rightarrow> Source list \<Rightarrow> ResolutionInput \<Rightarrow> string + (RuntimeImpact \<times> OwnershipBoundary list)" where
  "ResolveImpact ord sources input =
     bindE (mergeSources input sources ([], [], defaultImpact)) (\<lambda>(serviceIndex, ownerIndex, impact).
       let impact = impact\<lparr>im_BlastRadius := deriveBlastRadius serviceIndex,
             im_Services := materializeSystems ord serviceIndex\<rparr>;
           impact = (if length (im_Notes impact) = 0
             then impact\<lparr>im_Notes := [''runtime graph sources did not find additional topology metadata'']\<rparr>
             else impact)
       in Inr (impact, materializeOwners ord ownerIndex))"

section \<open>The traversal is breadth first\<close>

text \<open>The nodes within \<open>n\<close> steps of \<open>S\<close>, edges read in both directions.\<close>

fun withinSteps :: "Edge list \<Rightarrow> string set \<Rightarrow> nat \<Rightarrow> string set" where
  "withinSteps edges S 0 = S"
| "withinSteps edges S (Suc n) = withinSteps edges S n \<union> (\<Union>u \<in> withinSteps edges S n. set (adjacencyOf edges u))"

text \<open>The order in which the loop takes nodes from the queue.\<close>

function visitOrder ::
  "Edge list \<Rightarrow> int \<Rightarrow> string list \<Rightarrow> string set \<Rightarrow> (string \<Rightarrow> int) \<Rightarrow> string list" where
  "visitOrder edges maxDepth [] visited depth = []"
| "visitOrder edges maxDepth (cur # queue) visited depth =
     cur # (if depth cur \<ge> maxDepth then visitOrder edges maxDepth queue visited depth
            else (case visitNeighbours (depth cur) (adjacencyOf edges cur) (visited, depth, queue) of
                    (visited', depth', queue') \<Rightarrow> visitOrder edges maxDepth queue' visited' depth'))"
  by pat_completeness auto
termination
proof (relation "measure (\<lambda>(edges, _, queue, visited, _).
    card (endpoints edges - visited) + length queue)", goal_cases)
  case (3 edges maxDepth cur queue visited depth visited' y depth' queue')
  then have "visitNeighbours (depth cur) (adjacencyOf edges cur) (visited, depth, queue) = (visited', depth', queue')"
    by simp
  from visitNeighbours_measure [OF this adjacency_endpoints finite_endpoints] show ?case by simp
qed simp_all

lemma traverse_visitOrder:
  "traverse edges nodes maxDepth queue visited depth result
     = foldl (visitNode nodes) result (visitOrder edges maxDepth queue visited depth)"
proof (induction edges maxDepth queue visited depth arbitrary: result rule: visitOrder.induct)
  case (2 edges maxDepth cur queue visited depth)
  then show ?case
    by (cases "visitNeighbours (depth cur) (adjacencyOf edges cur) (visited, depth, queue)")
       (simp add: Let_def)
qed simp

lemma withinSteps_mono: "m \<le> n \<Longrightarrow> withinSteps edges S m \<subseteq> withinSteps edges S n"
  by (induction n) (auto simp: le_Suc_eq)

lemma visitNeighbours_result:
  "\<exists>new. visitNeighbours d ns (visited, depth, queue) =
       (visited \<union> set ns, (\<lambda>v. if v \<in> set new then d + 1 else depth v), queue @ new)
     \<and> set new = set ns - visited"
proof (induction ns arbitrary: visited depth queue)
  case (Cons v ns)
  show ?case
  proof (cases "v \<in> visited")
    case True
    then show ?thesis using Cons.IH [of visited depth queue] by (auto simp: insert_absorb)
  next
    case False
    obtain new where "visitNeighbours d ns (insert v visited, depth(v := d + 1), queue @ [v]) =
        (insert v visited \<union> set ns, (\<lambda>x. if x \<in> set new then d + 1 else (depth(v := d + 1)) x), (queue @ [v]) @ new)"
      "set new = set ns - insert v visited"
      using Cons.IH [of "insert v visited" "depth(v := d + 1)" "queue @ [v]"] by blast
    then show ?thesis using False by (intro exI [of _ "v # new"]) (auto simp: fun_eq_iff)
  qed
qed simp

definition searching ::
  "Edge list \<Rightarrow> string set \<Rightarrow> int \<Rightarrow> string set \<Rightarrow> string list \<Rightarrow> string set \<Rightarrow> (string \<Rightarrow> int) \<Rightarrow> bool" where
  "searching edges S maxDepth finished queue visited depth \<longleftrightarrow>
     visited = finished \<union> set queue \<and> S \<subseteq> visited \<and> (\<forall>v \<in> S. depth v = 0)
     \<and> (\<forall>v \<in> visited. 0 \<le> depth v \<and> depth v \<le> maxDepth \<and> v \<in> withinSteps edges S (nat (depth v)))
     \<and> (\<forall>u \<in> finished. depth u < maxDepth \<longrightarrow>
          (\<forall>v \<in> set (adjacencyOf edges u). v \<in> visited \<and> depth v \<le> depth u + 1))
     \<and> sorted (map depth queue)
     \<and> (\<forall>q \<in> set queue. \<forall>v \<in> visited. depth v \<le> depth q + 1)"

lemma searching_start:
  "0 \<le> maxDepth \<Longrightarrow> searching edges (set affected) maxDepth {} affected (set affected) (\<lambda>_. 0)"
  by (simp add: searching_def map_replicate_const)

lemma searching_skip:
  assumes "searching edges S maxDepth finished (cur # queue) visited depth" and "depth cur \<ge> maxDepth"
  shows "searching edges S maxDepth (insert cur finished) queue visited depth"
  using assms by (auto simp: searching_def)

lemma searching_expand:
  assumes inv: "searching edges S maxDepth finished (cur # queue) visited depth" and "depth cur < maxDepth"
    and step: "visitNeighbours (depth cur) (adjacencyOf edges cur) (visited, depth, queue) = (visited', depth', queue')"
  shows "searching edges S maxDepth (insert cur finished) queue' visited' depth'"
proof -
  let ?ns = "set (adjacencyOf edges cur)"
  obtain new where new: "visited' = visited \<union> ?ns" "depth' = (\<lambda>v. if v \<in> set new then depth cur + 1 else depth v)"
    "queue' = queue @ new" "set new = ?ns - visited"
    using visitNeighbours_result [of "depth cur" "adjacencyOf edges cur" visited depth queue] step by auto
  have vis: "visited = finished \<union> insert cur (set queue)" and S: "S \<subseteq> visited" "\<forall>v \<in> S. depth v = 0"
    and dist: "\<And>v. v \<in> visited \<Longrightarrow> 0 \<le> depth v \<and> depth v \<le> maxDepth \<and> v \<in> withinSteps edges S (nat (depth v))"
    and closed: "\<And>u v. u \<in> finished \<Longrightarrow> depth u < maxDepth \<Longrightarrow> v \<in> set (adjacencyOf edges u) \<Longrightarrow>
        v \<in> visited \<and> depth v \<le> depth u + 1"
    and srt: "\<forall>q \<in> set queue. depth cur \<le> depth q" "sorted (map depth queue)"
    and near: "\<And>q v. q \<in> insert cur (set queue) \<Longrightarrow> v \<in> visited \<Longrightarrow> depth v \<le> depth q + 1"
    using inv by (auto simp: searching_def)
  have same: "v \<in> visited \<Longrightarrow> depth' v = depth v" and fresh: "v \<in> set new \<Longrightarrow> depth' v = depth cur + 1" for v
    using new by auto
  have cur: "cur \<in> visited" using vis by simp
  have in_new: "v \<in> visited' \<longleftrightarrow> v \<in> visited \<or> v \<in> set new" for v using new by auto
  have "0 \<le> depth' v \<and> depth' v \<le> maxDepth \<and> v \<in> withinSteps edges S (nat (depth' v))" if "v \<in> visited'" for v
  proof (cases "v \<in> visited")
    case False
    then have "v \<in> set new" "v \<in> ?ns" using that new by auto
    moreover have "nat (depth cur + 1) = Suc (nat (depth cur))" using dist [OF cur] by linarith
    ultimately show ?thesis using dist [OF cur] fresh assms(2) by auto
  qed (use dist same in auto)
  moreover have "v \<in> visited' \<and> depth' v \<le> depth' u + 1"
    if "u \<in> insert cur finished" "depth' u < maxDepth" "v \<in> set (adjacencyOf edges u)" for u v
  proof (cases "u = cur")
    case True
    then show ?thesis
      using that(3) new(1,4) same fresh cur near [of cur v] by (cases "v \<in> visited") auto
  next
    case False
    then have "u \<in> finished" "u \<in> visited" using that(1) vis by auto
    then show ?thesis using closed [of u v] that same in_new by auto
  qed
  moreover have "sorted (map depth' queue')"
  proof -
    have "map depth' queue = map depth queue" using same vis by auto
    then have "sorted (map depth' queue)" using srt(2) by (simp only:)
    moreover have "map depth' new = map (\<lambda>_. depth cur + 1) new" using fresh by auto
    then have "sorted (map depth' new)" by (simp only: map_replicate_const sorted_replicate)
    ultimately show ?thesis
      using fresh near [of cur] vis same by (auto simp: new(3) sorted_append)
  qed
  moreover have "depth' v \<le> depth' q + 1" if "q \<in> set queue'" "v \<in> visited'" for q v
  proof -
    have q: "q \<in> set queue \<and> depth' q = depth q \<and> depth cur \<le> depth q \<or> depth' q = depth cur + 1"
      using that(1) new(3) same fresh vis srt(1) by auto
    have "depth' v = depth cur + 1 \<or> v \<in> visited \<and> depth' v = depth v"
      using that(2) same fresh in_new by blast
    then show ?thesis using q near [of cur v] near [of q v] by auto
  qed
  moreover have "\<forall>v \<in> S. depth' v = 0" using S same by (auto dest: subsetD)
  ultimately show ?thesis using vis S new unfolding searching_def by auto
qed

lemma searching_complete:
  assumes "searching edges S maxDepth finished [] visited depth" and "0 \<le> maxDepth"
  shows "finished = withinSteps edges S (nat maxDepth)"
proof -
  have v: "visited = finished" and S: "S \<subseteq> finished" "\<forall>v \<in> S. depth v = 0"
    and dist: "\<And>v. v \<in> finished \<Longrightarrow> 0 \<le> depth v \<and> depth v \<le> maxDepth \<and> v \<in> withinSteps edges S (nat (depth v))"
    and closed: "\<And>u v. u \<in> finished \<Longrightarrow> depth u < maxDepth \<Longrightarrow> v \<in> set (adjacencyOf edges u) \<Longrightarrow>
        v \<in> finished \<and> depth v \<le> depth u + 1"
    using assms(1) by (auto simp: searching_def)
  have "int n \<le> maxDepth \<Longrightarrow> x \<in> withinSteps edges S n \<Longrightarrow> x \<in> finished \<and> depth x \<le> int n" for n x
  proof (induction n arbitrary: x)
    case 0
    then show ?case using S by auto
  next
    case (Suc n)
    show ?case
    proof (cases "x \<in> withinSteps edges S n")
      case True
      then show ?thesis using Suc.IH [OF _ True] Suc.prems(1) by simp
    next
      case False
      then obtain u where u: "u \<in> withinSteps edges S n" "x \<in> set (adjacencyOf edges u)" using Suc.prems by auto
      then have "u \<in> finished" "depth u \<le> int n" using Suc.IH Suc.prems(1) by auto
      then show ?thesis using closed [OF _ _ u(2)] Suc.prems(1) by force
    qed
  qed
  then have "withinSteps edges S (nat maxDepth) \<subseteq> finished" using assms(2) by force
  moreover have "finished \<subseteq> withinSteps edges S (nat maxDepth)"
  proof
    fix x assume "x \<in> finished"
    then have "x \<in> withinSteps edges S (nat (depth x))" "nat (depth x) \<le> nat maxDepth"
      using dist [of x] by (simp, simp add: nat_mono)
    then show "x \<in> withinSteps edges S (nat maxDepth)" using withinSteps_mono by blast
  qed
  ultimately show ?thesis by blast
qed

lemma visitOrder_set:
  assumes "searching edges S maxDepth finished queue visited depth" and "0 \<le> maxDepth"
  shows "finished \<union> set (visitOrder edges maxDepth queue visited depth) = withinSteps edges S (nat maxDepth)"
  using assms
proof (induction edges maxDepth queue visited depth arbitrary: finished rule: visitOrder.induct)
  case (1 edges maxDepth visited depth)
  then show ?case using searching_complete by simp
next
  case (2 edges maxDepth cur queue visited depth)
  show ?case
  proof (cases "depth cur \<ge> maxDepth")
    case True
    then show ?thesis using "2.IH"(1) [OF True searching_skip [OF "2.prems"(1) True] "2.prems"(2)] by auto
  next
    case False
    obtain v' d' q' where st: "visitNeighbours (depth cur) (adjacencyOf edges cur) (visited, depth, queue) = (v', d', q')"
      by (cases "visitNeighbours (depth cur) (adjacencyOf edges cur) (visited, depth, queue)")
    have "depth cur < maxDepth" using False by simp
    from "2.IH"(2) [OF False st [symmetric] refl searching_expand [OF "2.prems"(1) this st] "2.prems"(2)]
    show ?thesis using False st by auto
  qed
qed

lemma visitNode_fold:
  "fr_Systems (foldl (visitNode nodes) result ids) = fr_Systems result @ List.map_filter nodes ids"
  by (induction ids arbitrary: result)
     (auto simp: visitNode_def List.map_filter_simps split: option.splits)

lemma set_map_filter_dom: "set (List.map_filter m xs) = {y. \<exists>x \<in> set xs. m x = Some y}"
  by (force simp: List.map_filter_def)

lemma criticalityRank_bounds: "1 \<le> criticalityRank c \<and> criticalityRank c \<le> 4"
  by (simp add: criticalityRank_def)

lemma visitNode_criticality:
  "criticalityRank (fr_Criticality (foldl (visitNode nodes) result ids))
     = Max (insert (criticalityRank (fr_Criticality result))
         ((\<lambda>s. criticalityRank (sr_Criticality s)) ` set (List.map_filter nodes ids)))"
proof (induction ids arbitrary: result)
  case (Cons i ids)
  show ?case
  proof (cases "nodes i")
    case None
    then show ?thesis using Cons.IH [of result] by (simp add: visitNode_def List.map_filter_simps)
  next
    case (Some s)
    let ?r = "visitNode nodes result i"
    have "criticalityRank (fr_Criticality ?r) = max (criticalityRank (fr_Criticality result)) (criticalityRank (sr_Criticality s))"
      using Some by (simp add: visitNode_def)
    then show ?thesis using Cons.IH [of ?r] Some by (simp add: List.map_filter_simps Max_insert_max)
  qed
qed (simp add: List.map_filter_simps)

section \<open>Resolving the impact\<close>

lemma indexSystems_keys:
  "distinct (map fst m) \<Longrightarrow> (\<forall>(k, s) \<in> set m. sr_Name s = k) \<Longrightarrow>
   distinct (map fst (indexSystems m ss)) \<and> (\<forall>(k, s) \<in> set (indexSystems m ss). sr_Name s = k)
   \<and> fst ` set (indexSystems m ss) = fst ` set m \<union> sr_Name ` set ss"
  unfolding indexSystems_def
proof (induction ss arbitrary: m)
  case (Cons s ss)
  have "\<forall>(k, x) \<in> set (AList.update (sr_Name s) s m). sr_Name x = k"
    using Cons.prems set_update_subset [of "sr_Name s" s m] by auto
  then show ?case
    using Cons.IH [of "AList.update (sr_Name s) s m"] Cons.prems
    by (simp add: distinct_update fst_set_update)
qed simp

lemma indexOwners_distinct: "distinct (map fst m) \<Longrightarrow> distinct (map fst (indexOwners m os))"
  unfolding indexOwners_def by (induction os arbitrary: m) (simp_all add: distinct_update)

definition contribution :: "Options \<Rightarrow> Fragment \<Rightarrow> SystemRef list" where
  \<comment> \<open>the systems a fragment adds\<close>
  "contribution options f =
     (if fr_Edges f \<noteq> [] \<and> fr_Affected f \<noteq> []
      then fr_Systems (traverseGraph f (op_MaxTraversalDepth options)) else fr_Systems f)"

definition contributedRank :: "Options \<Rightarrow> Fragment \<Rightarrow> int" where
  "contributedRank options f =
     max (criticalityRank (fr_Criticality f))
       (if fr_Edges f \<noteq> [] \<and> fr_Affected f \<noteq> []
        then criticalityRank (fr_Criticality (traverseGraph f (op_MaxTraversalDepth options))) else 1)"

lemma promote_rank:
  "criticalityRank (im_Criticality (promoteCriticality impact c))
     = max (criticalityRank (im_Criticality impact)) (criticalityRank c)"
  by (simp add: promoteCriticality_def)

lemma mergeFragment_fields:
  assumes "mergeFragment options (si, oi, impact) f = (si', oi', impact')"
  shows "si' = indexSystems si (contribution options f)"
    and "criticalityRank (im_Criticality impact') = max (criticalityRank (im_Criticality impact)) (contributedRank options f)"
    and "oi' = indexOwners oi (fr_Ownership f)"
  using assms criticalityRank_bounds [of "im_Criticality impact"]
  by (auto simp: mergeFragment_def contribution_def contributedRank_def promote_rank Let_def split: if_splits)

lemma mergeSources_fields:
  assumes "mergeSources input sources (si, oi, impact) = Inr (si', oi', impact')"
    and "distinct (map fst si)" and "\<forall>(k, s) \<in> set si. sr_Name s = k"
  shows "\<exists>fs. map (\<lambda>src. src input) sources = map Inr fs
    \<and> distinct (map fst si') \<and> (\<forall>(k, s) \<in> set si'. sr_Name s = k)
    \<and> fst ` set si' = fst ` set si \<union> sr_Name ` (\<Union>f \<in> set fs. set (contribution (in_Options input) f))
    \<and> criticalityRank (im_Criticality impact')
        = Max (insert (criticalityRank (im_Criticality impact)) (contributedRank (in_Options input) ` set fs))"
  using assms
proof (induction sources arbitrary: si oi impact)
  case (Cons src sources)
  obtain f where f: "src input = Inr f" using Cons.prems(1) by (auto simp: bindE_Inr)
  obtain s1 o1 i1 where m: "mergeFragment (in_Options input) (si, oi, impact) f = (s1, o1, i1)"
    by (cases "mergeFragment (in_Options input) (si, oi, impact) f")
  note mf = mergeFragment_fields [OF m]
  note k = indexSystems_keys [OF Cons.prems(2,3), of "contribution (in_Options input) f", folded mf(1)]
  have rest: "mergeSources input sources (s1, o1, i1) = Inr (si', oi', impact')"
    using Cons.prems(1) f m by simp
  obtain fs where
    fs: "map (\<lambda>src. src input) sources = map Inr fs" "distinct (map fst si')" "\<forall>(k, s) \<in> set si'. sr_Name s = k"
      "fst ` set si' = fst ` set s1 \<union> sr_Name ` (\<Union>f \<in> set fs. set (contribution (in_Options input) f))"
      "criticalityRank (im_Criticality impact')
        = Max (insert (criticalityRank (im_Criticality i1)) (contributedRank (in_Options input) ` set fs))"
    using Cons.IH [OF rest conjunct1 [OF k] conjunct1 [OF conjunct2 [OF k]]]
    by (elim exE conjE) (rule that)
  have "criticalityRank (im_Criticality impact')
        = Max (insert (criticalityRank (im_Criticality impact)) (contributedRank (in_Options input) ` set (f # fs)))"
    using fs(5) mf(2) by (simp add: Max_insert_max)
  moreover have "fst ` set si' = fst ` set si \<union> sr_Name ` (\<Union>f \<in> set (f # fs). set (contribution (in_Options input) f))"
    using fs(4) k by auto
  ultimately show ?case using f fs(1,2,3) by (intro exI [of _ "f # fs"]) auto
qed simp

lemma mergeSources_total:
  "(\<forall>src \<in> set sources. \<exists>f. src input = Inr f) \<Longrightarrow> \<exists>st'. mergeSources input sources st = Inr st'"
proof (induction sources arbitrary: st)
  case (Cons src sources)
  then obtain f where "src input = Inr f" by auto
  then show ?case using Cons by simp
next
  case Nil
  show ?case by (rule exI, rule mergeSources.simps(1))
qed

lemma ResolveImpact_total:
  assumes "\<forall>src \<in> set sources. \<exists>f. src input = Inr f"
  shows "\<exists>impact owners. ResolveImpact ord sources input = Inr (impact, owners)"
proof -
  obtain st where "mergeSources input sources ([], [], defaultImpact) = Inr st"
    using mergeSources_total [OF assms] by blast
  then show ?thesis by (cases st) (simp add: ResolveImpact_def Let_def)
qed

lemma ResolveImpact_facts:
  assumes "ResolveImpact ord sources input = Inr (impact, owners)" and ord: "map_order ord"
  obtains fs where "map (\<lambda>src. src input) sources = map Inr fs"
    and "distinct (map sr_Name (im_Services impact))"
    and "sr_Name ` set (im_Services impact) = sr_Name ` (\<Union>f \<in> set fs. set (contribution (in_Options input) f))"
    and "criticalityRank (im_Criticality impact) = Max (insert 2 (contributedRank (in_Options input) ` set fs))"
    and "im_BlastRadius impact = (if im_Services impact = [] then BlastRadiusUnknown
           else if length (im_Services impact) = 1 then BlastRadiusIsolated else BlastRadiusLocalized)"
    and "im_Notes impact \<noteq> []"
proof -
  obtain si oi im where m: "mergeSources input sources ([], [], defaultImpact) = Inr (si, oi, im)"
    and im: "im_Services impact = map snd (range_map ord si)" "im_Criticality impact = im_Criticality im"
      "im_BlastRadius impact = deriveBlastRadius si" "im_Notes impact \<noteq> []"
  proof (cases "mergeSources input sources ([], [], defaultImpact)")
    case (Inr st)
    moreover obtain a b c where "st = (a, b, c)" by (cases st)
    ultimately show thesis
      using assms(1) that [of a b c]
      by (cases "im_Notes c = []") (auto simp: ResolveImpact_def materializeSystems_def Let_def)
  qed (use assms(1) in \<open>simp add: ResolveImpact_def\<close>)
  from mergeSources_fields [OF m] obtain fs where
    fs: "map (\<lambda>src. src input) sources = map Inr fs" "distinct (map fst si)" "\<forall>(k, s) \<in> set si. sr_Name s = k"
      "fst ` set si = sr_Name ` (\<Union>f \<in> set fs. set (contribution (in_Options input) f))"
      "criticalityRank (im_Criticality im) = Max (insert 2 (contributedRank (in_Options input) ` set fs))"
    by (auto simp: defaultImpact_def zeroRuntimeImpact_def criticalityRank_def)
  have s: "set (range_map ord si) = set si" and d: "distinct (map fst (range_map ord si))"
    and len: "length (range_map ord si) = length si"
    using set_range_map [OF ord fs(2)] distinct_keys_range_map [OF ord fs(2)] length_range_map [OF ord fs(2)]
    by auto
  have names: "map sr_Name (im_Services impact) = map fst (range_map ord si)"
    using fs(3) s by (auto simp: im(1))
  have "sr_Name ` set (im_Services impact) = set (map fst (range_map ord si))"
    by (simp only: names [symmetric] set_map)
  then have "sr_Name ` set (im_Services impact) = sr_Name ` (\<Union>f \<in> set fs. set (contribution (in_Options input) f))"
    using s fs(4) by simp
  moreover have l: "length (im_Services impact) = length si" using len by (simp add: im(1))
  then have "im_BlastRadius impact = (if im_Services impact = [] then BlastRadiusUnknown
      else if length (im_Services impact) = 1 then BlastRadiusIsolated else BlastRadiusLocalized)"
    unfolding im(3) deriveBlastRadius_def length_0_conv [symmetric] by (simp only: l)
  ultimately show thesis
    using that [OF fs(1)] fs(5) im(2,4) d by (simp add: names)
qed

section \<open>Properties\<close>

text \<open>
  C37: the traversal of a graph manifest terminates and is exact. The systems it reports are those
  of the nodes within the traversal depth of an affected node, edges read in both directions, and
  nothing else, where a depth of zero or less means 3; its criticality is the highest of theirs.
\<close>

theorem traverseGraph_exact:
  "set (fr_Systems (traverseGraph fragment maxDepth))
     = {s. \<exists>v \<in> withinSteps (fr_Edges fragment) (set (fr_Affected fragment))
                 (if maxDepth \<le> 0 then 3 else nat maxDepth).
           nodeSystems (fr_Nodes fragment) v = Some s}
   \<and> criticalityRank (fr_Criticality (traverseGraph fragment maxDepth))
     = Max (insert 1 ((\<lambda>s. criticalityRank (sr_Criticality s))
         ` set (fr_Systems (traverseGraph fragment maxDepth))))"
proof -
  let ?d = "if maxDepth \<le> 0 then 3 else maxDepth"
  let ?ids = "visitOrder (fr_Edges fragment) ?d (fr_Affected fragment) (set (fr_Affected fragment)) (\<lambda>_. 0)"
  have t: "traverseGraph fragment maxDepth = foldl (visitNode (nodeSystems (fr_Nodes fragment)))
      (zeroFragment\<lparr>fr_Notes := fr_Notes fragment\<rparr>) ?ids"
    by (simp only: traverseGraph_def Let_def traverse_visitOrder)
  have sys: "fr_Systems (traverseGraph fragment maxDepth) = List.map_filter (nodeSystems (fr_Nodes fragment)) ?ids"
    unfolding t visitNode_fold by (simp add: zeroFragment_def)
  have d: "0 \<le> ?d" by simp
  have "{} \<union> set ?ids = withinSteps (fr_Edges fragment) (set (fr_Affected fragment)) (nat ?d)"
    by (rule visitOrder_set [OF searching_start [OF d] d])
  then have ids: "set ?ids = withinSteps (fr_Edges fragment) (set (fr_Affected fragment))
      (if maxDepth \<le> 0 then 3 else nat maxDepth)"
    by simp
  have "criticalityRank (fr_Criticality (traverseGraph fragment maxDepth))
      = Max (insert 1 ((\<lambda>s. criticalityRank (sr_Criticality s)) ` set (fr_Systems (traverseGraph fragment maxDepth))))"
    unfolding sys by (simp add: t visitNode_criticality zeroFragment_def criticalityRank_def [of "[]"])
  then show ?thesis unfolding sys set_map_filter_dom ids by simp
qed

text \<open>
  The resolved impact. When all sources answer, the services are exactly the systems the
  fragments contribute, each name once; the blast radius is unknown, isolated or localized for
  no, one or more services; the criticality is the highest of the contributed ones and at least
  normal; and there is always a note.
\<close>

theorem ResolveImpact_exact:
  assumes "map_order ord" and "ResolveImpact ord sources input = Inr (impact, owners)"
  shows "\<exists>fs. map (\<lambda>source. source input) sources = map Inr fs
    \<and> distinct (map sr_Name (im_Services impact))
    \<and> sr_Name ` set (im_Services impact) = sr_Name ` (\<Union>f \<in> set fs. set (contribution (in_Options input) f))
    \<and> criticalityRank (im_Criticality impact) = Max (insert 2 (contributedRank (in_Options input) ` set fs))
    \<and> im_BlastRadius impact = (if im_Services impact = [] then BlastRadiusUnknown
         else if length (im_Services impact) = 1 then BlastRadiusIsolated else BlastRadiusLocalized)
    \<and> im_Notes impact \<noteq> []"
  by (rule ResolveImpact_facts [OF assms(2,1)], rule exI) (intro conjI)

definition sampleDecoders :: Decoders where
  "sampleDecoders = \<lparr>dec_Any = (\<lambda>content. None), dec_Graph = (\<lambda>content. Inl ''no graph''),
     dec_Order = (\<lambda>ks. ks)\<rparr>"

definition sampleOptions :: Options where
  "sampleOptions = \<lparr>op_EnableCodeOwners = False, op_GraphManifestPath = [], op_MaxTraversalDepth = 3\<rparr>"

definition sampleInput :: ResolutionInput where
  "sampleInput = \<lparr>in_Packet = zeroChangePacket\<lparr>cp_Files := [zeroChangedFile\<lparr>cf_Path := ''cmd/api/main.go''\<rparr>]\<rparr>,
     in_Ref = [], in_Loader = None, in_Options = sampleOptions\<rparr>"

theorem ResolveImpact_exact_witness:
  "\<exists>impact owners. ResolveImpact rev (NewResolver sampleDecoders sampleOptions) sampleInput = Inr (impact, owners)
     \<and> im_Notes impact \<noteq> []"
proof -
  have "\<forall>src \<in> set (NewResolver sampleDecoders sampleOptions). \<exists>f. src sampleInput = Inr f"
    by (simp add: NewResolver_def repositoryTopologySource_def manifestSource_def sampleOptions_def
        case_prod_unfold Let_def)
  from ResolveImpact_total [OF this] obtain impact owners where
    r: "ResolveImpact rev (NewResolver sampleDecoders sampleOptions) sampleInput = Inr (impact, owners)"
    by blast
  then show ?thesis using ResolveImpact_exact [OF map_order_rev r] by blast
qed

end
