(* ===== verification/Ingest.thy ===== *)
theory Ingest
  imports Http Diff Conflict Policy Risk MutationEngine RuntimeGraph
begin

text \<open>
  Ingestion of GitHub webhooks, \<open>internal/ingest\<close> and \<open>internal/github/webhook.go\<close>: the signature
  check and decoding of a delivery, the pipeline that turns a pull request into a stored change packet
  with a published check, and the reconciliation of completed check runs with evidence. The engines are
  fields of the processor, as in the code; the GitHub service and JSON decoding are arguments. Logging,
  tracing and request identifiers have no effect on the state and are left out.
\<close>

section \<open>Webhooks\<close>

record PullRequestWebhookPayload =
  pw_Action :: string
  pw_InstallationID :: int
  pw_RepoName :: string
  pw_RepoFullName :: string
  pw_RepoOwner :: string
  pw_Number :: int
  pw_Title :: string
  pw_Body :: string
  pw_HTMLURL :: string
  pw_HeadSHA :: string
  pw_BaseSHA :: string
  pw_UserLogin :: string
  pw_UserType :: string

record CheckRunWebhookPayload =
  cw_Action :: string
  cw_RepoFullName :: string
  cw_ID :: int
  cw_Name :: string
  cw_HeadSHA :: string
  cw_Status :: string
  cw_Conclusion :: string
  cw_DetailsURL :: string
  cw_OutputTitle :: string
  cw_OutputSummary :: string
  cw_AppID :: int
  cw_PullRequests :: "int list"

datatype WebhookPayload = PullRequestEvent PullRequestWebhookPayload | CheckRunEvent CheckRunWebhookPayload

record Webhook =
  wh_Event :: string
  wh_DeliveryID :: string
  wh_Signature256 :: string
  wh_Payload :: WebhookPayload

record Delivery = \<comment> \<open>what the decoder reads of the request; a body that cannot be read is \<open>None\<close>\<close>
  dl_Event :: string
  dl_DeliveryID :: string
  dl_Signature :: string
  dl_Body :: "string option"

record WebhookEnv =
  we_HMAC :: "string \<Rightarrow> string \<Rightarrow> string" \<comment> \<open>key and message\<close>
  we_CheckRun :: "string \<Rightarrow> string + CheckRunWebhookPayload"
  we_PullRequest :: "string \<Rightarrow> string + PullRequestWebhookPayload"

definition webhook_verify :: "WebhookEnv \<Rightarrow> string \<Rightarrow> string \<Rightarrow> string \<Rightarrow> string + unit" where
  "webhook_verify env secret payload signature =
     (if secret = [] then Inr ()
      else if signature = [] then Inl ''missing GitHub signature header''
      else if \<not> HasPrefix signature ''sha256='' then Inl ''unsupported GitHub signature format''
      else if ''sha256='' @ hexEncode (we_HMAC env secret payload) \<noteq> signature
        then Inl ''invalid GitHub webhook signature''
      else Inr ())"

definition webhook_Decode :: "WebhookEnv \<Rightarrow> string \<Rightarrow> Delivery \<Rightarrow> string + Webhook" where
  "webhook_Decode env secret r =
     (if dl_Event r = [] then Inl ''missing GitHub event header''
      else case dl_Body r of
        None \<Rightarrow> Inl ''unexpected EOF''
      | Some body \<Rightarrow>
          bindE (webhook_verify env secret body (dl_Signature r)) (\<lambda>_.
          bindE (if dl_Event r = ''check_run'' then bindE (we_CheckRun env body) (\<lambda>p. Inr (CheckRunEvent p))
                 else bindE (we_PullRequest env body) (\<lambda>p. Inr (PullRequestEvent p))) (\<lambda>payload.
            Inr \<lparr>wh_Event = dl_Event r, wh_DeliveryID = dl_DeliveryID r, wh_Signature256 = dl_Signature r,
                 wh_Payload = payload\<rparr>)))"

section \<open>The processor\<close>

record PullRequest =
  gq_Owner :: string
  gq_Repo :: string
  gq_Number :: int
  gq_Title :: string
  gq_Body :: string
  gq_Author :: string
  gq_URL :: string
  gq_HeadSHA :: string
  gq_BaseSHA :: string

record 'w GitHubService =
  gs_GetPullRequest :: "string \<Rightarrow> string \<Rightarrow> int \<Rightarrow> ('w, string, PullRequest) io"
  gs_GetPullRequestDiff :: "string \<Rightarrow> string \<Rightarrow> int \<Rightarrow> ('w, string, string) io"
  gs_GetFileContent :: "string \<Rightarrow> string \<Rightarrow> string \<Rightarrow> string \<Rightarrow> 'w \<Rightarrow> string + string"

record 'w BoundService =
  bs_Service :: "'w GitHubService"
  bs_ForInstallation :: "(int \<Rightarrow> 'w GitHubService) option"

record 'w Processor =
  po_bus :: "Envelope \<Rightarrow> ('w, string, unit) io"
  po_github :: "'w BoundService"
  po_mutations :: "AnalysisRequest \<Rightarrow> AnalyzerError + Mutation list"
  po_risk :: "ChangePacket \<Rightarrow> string + (RiskSummary \<times> Risk list)"
  po_policy :: "ChangePacket \<Rightarrow> PolicyError + Evaluation"
  po_assigner :: "ChangePacket \<Rightarrow> string + MergeLane"
  po_checks :: "ChangePacket \<Rightarrow> ('w, string, unit) io"
  po_runtime :: "ResolutionInput \<Rightarrow> string + (RuntimeImpact \<times> OwnershipBoundary list)"
  po_store :: "'w Repository option"
  po_evidence :: "(EvidenceExecution \<Rightarrow> ('w, ServiceError, EvidenceExecution) io) option"

record IngestEnv =
  ie_Now :: "nat \<Rightarrow> time"
  ie_PacketID :: string
  ie_EventID :: "EventType \<Rightarrow> string"
  ie_CorrelationID :: string
  ie_Order :: key_order

datatype IngestError =
    Failed string
  | ClassifyFailed AnalyzerError
  | PolicyFailed PolicyError
  | GetDiffFailed string string int string
  | StoreFailure StoreError
  | FindPacketFailed StoreError
  | ReconcileFailed string string ServiceError

definition bindInstallation :: "'w BoundService \<Rightarrow> int \<Rightarrow> 'w GitHubService" where
  "bindInstallation service installationID =
     (case bs_ForInstallation service of
        Some forInstallation \<Rightarrow> if installationID \<noteq> 0 then forInstallation installationID else bs_Service service
      | None \<Rightarrow> bs_Service service)"

definition publishEvent :: "IngestEnv \<Rightarrow> 'w Processor \<Rightarrow> EventType \<Rightarrow> string \<Rightarrow> EventPayload \<Rightarrow> ('w, IngestError, unit) io" where
  "publishEvent env p kind source payload =
     wrapM Failed (po_bus p (NewEnvelope (ie_EventID env kind) kind source payload))"

definition publishPROpened :: "IngestEnv \<Rightarrow> 'w Processor \<Rightarrow> string \<Rightarrow> int \<Rightarrow> string \<Rightarrow> ('w, IngestError, unit) io" where
  "publishPROpened env p fullName prNumber action =
     publishEvent env p EventPROpened ''ingest'' (PROpenedPayload fullName prNumber action)"

definition publishMutations :: "IngestEnv \<Rightarrow> 'w Processor \<Rightarrow> Mutation list \<Rightarrow> ('w, IngestError, unit) io" where
  "publishMutations env p mutations = publishEvent env p EventMutationDetected ''mutations'' (MutationsPayload mutations)"

definition publishRisk :: "IngestEnv \<Rightarrow> 'w Processor \<Rightarrow> Risk list \<Rightarrow> ('w, IngestError, unit) io" where
  "publishRisk env p risks = publishEvent env p EventRiskAssigned ''risk'' (RisksPayload risks)"

definition publishViolations :: "IngestEnv \<Rightarrow> 'w Processor \<Rightarrow> PolicyViolation list \<Rightarrow> ('w, IngestError, unit) io" where
  "publishViolations env p violations =
     publishEvent env p EventPolicyViolationDetected ''policy'' (ViolationsPayload violations)"

definition publishLane :: "IngestEnv \<Rightarrow> 'w Processor \<Rightarrow> string \<Rightarrow> MergeLane \<Rightarrow> ('w, IngestError, unit) io" where
  "publishLane env p packetID lane = publishEvent env p EventMergeLaneAssigned ''lanes'' (LanePayload packetID lane)"

definition languageFromPath :: "string \<Rightarrow> string" where
  "languageFromPath path =
     (let ext = ToLower (Ext path)
      in if ext = ''.go'' then ''go'' else if ext = ''.sql'' then ''sql''
         else if ext = ''.yaml'' \<or> ext = ''.yml'' then ''yaml''
         else if ext = ''.proto'' then ''proto'' else ''unknown'')"

definition mapChangedFiles :: "File list \<Rightarrow> ChangedFile list" where
  "mapChangedFiles files =
     map (\<lambda>f. \<lparr>cf_Path = df_Path f, cf_PreviousPath = df_PreviousPath f, cf_Language = languageFromPath (df_Path f),
        cf_Status = df_Status f, cf_Additions = df_Additions f, cf_Deletions = df_Deletions f,
        cf_Changes = df_Additions f + df_Deletions f, cf_Patch = df_Patch f\<rparr>) files"

definition fetchPullRequest ::
  "'w GitHubService \<Rightarrow> string \<Rightarrow> string \<Rightarrow> int \<Rightarrow> PullRequestWebhookPayload \<Rightarrow> ('w, IngestError, PullRequest) io" where
  \<comment> \<open>an error of the service is not an error here: the payload stands in\<close>
  "fetchPullRequest service repoOwner repoName prNumber payload w =
     (case gs_GetPullRequest service repoOwner repoName prNumber w of
        (Inr pr, w') \<Rightarrow> (Inr pr, w')
      | (Inl _, w') \<Rightarrow>
          (Inr \<lparr>gq_Owner = repoOwner, gq_Repo = repoName, gq_Number = prNumber, gq_Title = pw_Title payload,
                gq_Body = pw_Body payload, gq_Author = pw_UserLogin payload, gq_URL = pw_HTMLURL payload,
                gq_HeadSHA = pw_HeadSHA payload, gq_BaseSHA = pw_BaseSHA payload\<rparr>, w'))"

definition newPacket ::
  "IngestEnv \<Rightarrow> PullRequestWebhookPayload \<Rightarrow> PullRequest \<Rightarrow> string \<Rightarrow> string \<Rightarrow> File list \<Rightarrow> ChangePacket" where
  "newPacket env payload pr repoOwner repoName parsedFiles =
     zeroChangePacket\<lparr>cp_ID := ie_PacketID env,
       cp_Repo := zeroRepoRef\<lparr>rr_Owner := repoOwner, rr_Name := repoName, rr_FullName := pw_RepoFullName payload\<rparr>,
       cp_PR := \<lparr>pr_Number = gq_Number pr, pr_URL = gq_URL pr, pr_HeadSHA = gq_HeadSHA pr, pr_BaseSHA = gq_BaseSHA pr\<rparr>,
       cp_Author := zeroAuthor\<lparr>au_Login := gq_Author pr, au_Type := pw_UserType payload\<rparr>,
       cp_Title := gq_Title pr, cp_Summary := TrimSpace (gq_Body pr), cp_Source := ''github.pull_request'',
       cp_Files := mapChangedFiles parsedFiles, cp_MergeLane := MergeLaneYellow,
       cp_Decision := zeroPolicyDecision\<lparr>pd_Status := DecisionPending\<rparr>,
       cp_Deployment := zeroDeploymentRequirement\<lparr>dr_Strategy := DeployDirect\<rparr>,
       cp_CreatedAt := ie_Now env 0, cp_UpdatedAt := ie_Now env 1,
       cp_Metadata := [(''correlation_id'', ie_CorrelationID env), (''installation_id'', Itoa (pw_InstallationID payload))]\<rparr>"

definition buildChangePacket ::
  "IngestEnv \<Rightarrow> 'w Processor \<Rightarrow> PullRequestWebhookPayload \<Rightarrow> PullRequest \<Rightarrow> 'w GitHubService \<Rightarrow> string \<Rightarrow> string \<Rightarrow> int
     \<Rightarrow> ('w, IngestError, ChangePacket) io" where
  "buildChangePacket env p payload pr service repoOwner repoName prNumber =
     bindM (wrapM (GetDiffFailed repoOwner repoName prNumber)
              (gs_GetPullRequestDiff service repoOwner repoName prNumber)) (\<lambda>rawDiff.
     bindM (liftM (mapError Failed (ParseUnified rawDiff))) (\<lambda>parsedFiles.
       let packet = newPacket env payload pr repoOwner repoName parsedFiles
       in bindM (publishEvent env p EventChangePacketCreated ''ingest'' (PacketPayload packet)) (\<lambda>_. retM packet)))"

definition githubContentLoader :: "'w GitHubService \<Rightarrow> string \<Rightarrow> string \<Rightarrow> string \<Rightarrow> 'w \<Rightarrow> string \<Rightarrow> string + string" where
  "githubContentLoader service owner repo ref w path = gs_GetFileContent service owner repo path ref w"

definition enrichMutations ::
  "IngestEnv \<Rightarrow> 'w Processor \<Rightarrow> 'w GitHubService \<Rightarrow> string \<Rightarrow> string \<Rightarrow> ChangePacket \<Rightarrow> ('w, IngestError, ChangePacket) io" where
  "enrichMutations env p service repoOwner repoName packet w =
     (let loader = githubContentLoader service repoOwner repoName (pr_HeadSHA (cp_PR packet)) w
      in bindM (liftM (mapError ClassifyFailed (po_mutations p
             \<lparr>aq_Repo = cp_Repo packet, aq_Ref = pr_HeadSHA (cp_PR packet), aq_Files = cp_Files packet,
              aq_Content = Some loader\<rparr>))) (\<lambda>mutationList.
           let packet = packet\<lparr>cp_Mutations := mutationList\<rparr>
           in bindM (publishMutations env p (cp_Mutations packet)) (\<lambda>_. retM packet)) w)"

definition zeroOptions :: Options where
  "zeroOptions = \<lparr>op_EnableCodeOwners = False, op_GraphManifestPath = [], op_MaxTraversalDepth = 0\<rparr>"

definition enrichRuntimeImpact ::
  "'w Processor \<Rightarrow> 'w GitHubService \<Rightarrow> string \<Rightarrow> string \<Rightarrow> ChangePacket \<Rightarrow> ('w, IngestError, ChangePacket) io" where
  \<comment> \<open>the options of the resolution input are not set\<close>
  "enrichRuntimeImpact p service repoOwner repoName packet w =
     (let loader = githubContentLoader service repoOwner repoName (pr_HeadSHA (cp_PR packet)) w
      in bindM (liftM (mapError Failed (po_runtime p
             \<lparr>in_Packet = packet, in_Ref = pr_HeadSHA (cp_PR packet), in_Loader = Some loader, in_Options = zeroOptions\<rparr>)))
           (\<lambda>(runtimeImpact, ownership). retM (packet\<lparr>cp_Runtime := runtimeImpact, cp_Ownership := ownership\<rparr>)) w)"

definition enrichRisk :: "IngestEnv \<Rightarrow> 'w Processor \<Rightarrow> ChangePacket \<Rightarrow> ('w, IngestError, ChangePacket) io" where
  "enrichRisk env p packet =
     (let packet = packet\<lparr>cp_Conflict := Analyze (ie_Order env) packet\<rparr>
      in bindM (liftM (mapError Failed (po_risk p packet))) (\<lambda>(riskSummary, risks).
           let packet = packet\<lparr>cp_RiskSummary := riskSummary, cp_Risks := risks\<rparr>
           in bindM (publishRisk env p (cp_Risks packet)) (\<lambda>_. retM packet)))"

definition applyPolicy :: "'w Processor \<Rightarrow> ChangePacket \<Rightarrow> ('w, IngestError, ChangePacket) io" where
  "applyPolicy p packet =
     bindM (liftM (mapError PolicyFailed (po_policy p packet))) (\<lambda>policyEval.
       retM (packet\<lparr>cp_Decision := ev_Decision policyEval, cp_Evidence := ev_Evidence policyEval,
         cp_Reviewers := ev_Reviewers policyEval, cp_Deployment := ev_Deployment policyEval\<rparr>))"

definition assignMergeLane :: "IngestEnv \<Rightarrow> 'w Processor \<Rightarrow> ChangePacket \<Rightarrow> ('w, IngestError, ChangePacket) io" where
  "assignMergeLane env p packet =
     bindM (liftM (mapError Failed (po_assigner p packet))) (\<lambda>mergeLane.
       retM (packet\<lparr>cp_MergeLane := mergeLane, cp_UpdatedAt := ie_Now env 2\<rparr>))"

definition finalize :: "IngestEnv \<Rightarrow> 'w Processor \<Rightarrow> ChangePacket \<Rightarrow> ('w, IngestError, unit) io" where
  "finalize env p packet =
     bindM (if length (pd_Violations (cp_Decision packet)) > 0
            then publishViolations env p (pd_Violations (cp_Decision packet)) else retM ()) (\<lambda>_.
     bindM (publishLane env p (cp_ID packet) (cp_MergeLane packet)) (\<lambda>_.
     bindM (case po_store p of
              None \<Rightarrow> retM ()
            | Some store \<Rightarrow> wrapM StoreFailure (rp_SaveChangePacket store packet)) (\<lambda>_.
       wrapM Failed (po_checks p packet))))"

definition processPROpened ::
  "IngestEnv \<Rightarrow> 'w Processor \<Rightarrow> PullRequestWebhookPayload \<Rightarrow> ('w, IngestError, ChangePacket) io" where
  "processPROpened env p payload =
     (let githubService = bindInstallation (po_github p) (pw_InstallationID payload);
          repoOwner = pw_RepoOwner payload; repoName = pw_RepoName payload; prNumber = pw_Number payload
      in bindM (publishPROpened env p (pw_RepoFullName payload) prNumber (pw_Action payload)) (\<lambda>_.
         bindM (fetchPullRequest githubService repoOwner repoName prNumber payload) (\<lambda>pr.
         bindM (buildChangePacket env p payload pr githubService repoOwner repoName prNumber) (\<lambda>packet.
         bindM (enrichMutations env p githubService repoOwner repoName packet) (\<lambda>packet.
         bindM (enrichRuntimeImpact p githubService repoOwner repoName packet) (\<lambda>packet.
         bindM (enrichRisk env p packet) (\<lambda>packet.
         bindM (applyPolicy p packet) (\<lambda>packet.
         bindM (assignMergeLane env p packet) (\<lambda>packet.
         bindM (finalize env p packet) (\<lambda>_. retM packet))))))))))"

definition DescribeWebhook :: "PullRequestWebhookPayload \<Rightarrow> string" where
  "DescribeWebhook payload =
     pw_RepoFullName payload @ ''#'' @ Itoa (pw_Number payload) @ '' action='' @ pw_Action payload"

section \<open>Check runs\<close>

definition evidenceStatusForCheckRun :: "string \<Rightarrow> string \<Rightarrow> EvidenceStatus option" where
  "evidenceStatusForCheckRun status conclusion =
     (if status \<noteq> ''completed'' then None
      else if conclusion = ''success'' then Some EvidenceSatisfied
      else Some EvidenceFailed)"

definition matchingEvidenceRequirement :: "EvidenceRequirement list \<Rightarrow> string \<Rightarrow> int \<Rightarrow> EvidenceRequirement option" where
  "matchingEvidenceRequirement requirements checkName appID =
     find (\<lambda>requirement. case er_GitHubCheck requirement of
        None \<Rightarrow> False
      | Some binding \<Rightarrow> gb_Name binding = checkName \<and> gb_AppID binding = appID) requirements"

definition checkRunExecution ::
  "CheckRunWebhookPayload \<Rightarrow> EvidenceStatus \<Rightarrow> ChangePacket \<Rightarrow> EvidenceRequirement \<Rightarrow> EvidenceExecution" where
  "checkRunExecution payload status packet requirement =
     zeroEvidenceExecution\<lparr>ee_ChangePacketID := cp_ID packet, ee_Name := er_Name requirement, ee_Status := status,
       ee_Summary := (if cw_OutputSummary payload = [] then cw_OutputTitle payload else cw_OutputSummary payload),
       ee_DetailsURL := cw_DetailsURL payload, ee_UpdatedBy := ''github-app:'' @ Itoa (cw_AppID payload),
       ee_Metadata := [(''github_check_run_id'', Itoa (cw_ID payload)), (''github_check_name'', cw_Name payload),
         (''github_app_id'', Itoa (cw_AppID payload)), (''github_head_sha'', cw_HeadSHA payload)]\<rparr>"

definition reconcileCheckRunForPullRequest ::
  "'w Repository \<Rightarrow> (EvidenceExecution \<Rightarrow> ('w, ServiceError, EvidenceExecution) io) \<Rightarrow> CheckRunWebhookPayload
     \<Rightarrow> EvidenceStatus \<Rightarrow> int \<Rightarrow> ('w, IngestError, unit) io" where
  "reconcileCheckRunForPullRequest store update payload status prNumber w =
     (case rp_FindLatestChangePacket store (cw_RepoFullName payload) prNumber (cw_HeadSHA payload) w of
        (Inl ErrChangePacketNotFound, w') \<Rightarrow> (Inr (), w')
      | (Inl err, w') \<Rightarrow> (Inl (FindPacketFailed err), w')
      | (Inr packet, w') \<Rightarrow>
          (case matchingEvidenceRequirement (cp_Evidence packet) (cw_Name payload) (cw_AppID payload) of
             None \<Rightarrow> (Inr (), w')
           | Some requirement \<Rightarrow>
               bindM (wrapM (ReconcileFailed (cw_Name payload) (cp_ID packet))
                        (update (checkRunExecution payload status packet requirement))) (\<lambda>_. retM ()) w'))"

definition ProcessCheckRun :: "'w Processor \<Rightarrow> CheckRunWebhookPayload \<Rightarrow> ('w, IngestError, unit) io" where
  "ProcessCheckRun p payload =
     (case (po_evidence p, po_store p) of
        (Some update, Some store) \<Rightarrow>
          if cw_Action payload \<noteq> ''completed'' then retM ()
          else (case evidenceStatusForCheckRun (cw_Status payload) (cw_Conclusion payload) of
                  None \<Rightarrow> retM ()
                | Some status \<Rightarrow>
                    if cw_HeadSHA payload = [] \<or> cw_RepoFullName payload = [] then retM ()
                    else forM (reconcileCheckRunForPullRequest store update payload status) (cw_PullRequests payload))
      | _ \<Rightarrow> retM ())"

section \<open>The webhook handler\<close>

datatype WebhookReply =
    BadRequest string
  | Accepted
  | BadGateway string
  | PipelineFailed IngestError \<comment> \<open>a bad gateway whose text is the error\<close>
  | PacketReply string MergeLane int \<comment> \<open>the identifier, the lane and the risk score\<close>

definition WebhookHandler_ServeHTTP ::
  "WebhookEnv \<Rightarrow> string \<Rightarrow> IngestEnv \<Rightarrow> 'w Processor \<Rightarrow> Delivery \<Rightarrow> 'w \<Rightarrow> WebhookReply \<times> 'w" where
  \<comment> \<open>the delivery number is the correlation id\<close>
  "WebhookHandler_ServeHTTP wenv secret env p r w =
     (case webhook_Decode wenv secret r of
        Inl err \<Rightarrow> (BadRequest err, w)
      | Inr webhook \<Rightarrow>
          (let env = env\<lparr>ie_CorrelationID := wh_DeliveryID webhook\<rparr>
           in case wh_Payload webhook of
                CheckRunEvent payload \<Rightarrow>
                  (case ProcessCheckRun p payload w of
                     (Inl _, w') \<Rightarrow> (BadGateway ''unable to reconcile check run'', w')
                   | (Inr _, w') \<Rightarrow> (Accepted, w'))
              | PullRequestEvent payload \<Rightarrow>
                  if wh_Event webhook \<noteq> ''pull_request'' then (Accepted, w)
                  else if pw_Action payload \<notin> {''opened'', ''reopened'', ''synchronize''} then (Accepted, w)
                  else (case processPROpened env p payload w of
                          (Inl err, w') \<Rightarrow> (PipelineFailed err, w')
                        | (Inr packet, w') \<Rightarrow>
                            (PacketReply (cp_ID packet) (cp_MergeLane packet) (rs_Score (cp_RiskSummary packet)), w'))))"

section \<open>Signatures\<close>

definition signatureOf :: "WebhookEnv \<Rightarrow> string \<Rightarrow> string \<Rightarrow> string" where
  "signatureOf env secret body = ''sha256='' @ hexEncode (we_HMAC env secret body)"

definition payloadOf :: "WebhookEnv \<Rightarrow> string \<Rightarrow> string \<Rightarrow> WebhookPayload \<Rightarrow> bool" where
  "payloadOf env event body payload \<longleftrightarrow>
     (case payload of
        CheckRunEvent p \<Rightarrow> event = ''check_run'' \<and> we_CheckRun env body = Inr p
      | PullRequestEvent p \<Rightarrow> event \<noteq> ''check_run'' \<and> we_PullRequest env body = Inr p)"

lemma webhook_verify_iff:
  "secret \<noteq> [] \<Longrightarrow> webhook_verify env secret body signature = Inr () \<longleftrightarrow> signature = signatureOf env secret body"
  by (auto simp: webhook_verify_def signatureOf_def HasPrefix_def)

text \<open>
  C8: only signed deliveries count. With a webhook secret, a delivery is decoded exactly when it
  names its event, its body can be read and parsed for that event, and its signature is the
  authentication code of that body under the secret; the payload comes from those signed bytes. Any
  other delivery is answered as a bad request, and no state changes.
\<close>

theorem webhook_signature_required:
  assumes "secret \<noteq> []"
  shows "(webhook_Decode wenv secret r = Inr h \<longleftrightarrow>
      dl_Event r \<noteq> [] \<and> (\<exists>body. dl_Body r = Some body \<and> dl_Signature r = signatureOf wenv secret body
        \<and> payloadOf wenv (dl_Event r) body (wh_Payload h) \<and> wh_Event h = dl_Event r
        \<and> wh_DeliveryID h = dl_DeliveryID r \<and> wh_Signature256 h = dl_Signature r))
    \<and> ((\<forall>h. webhook_Decode wenv secret r \<noteq> Inr h) \<longrightarrow>
        (\<exists>err. WebhookHandler_ServeHTTP wenv secret env p r w = (BadRequest err, w)))"
proof
  show "webhook_Decode wenv secret r = Inr h \<longleftrightarrow>
      dl_Event r \<noteq> [] \<and> (\<exists>body. dl_Body r = Some body \<and> dl_Signature r = signatureOf wenv secret body
        \<and> payloadOf wenv (dl_Event r) body (wh_Payload h) \<and> wh_Event h = dl_Event r
        \<and> wh_DeliveryID h = dl_DeliveryID r \<and> wh_Signature256 h = dl_Signature r)"
    using webhook_verify_iff [OF assms, of wenv]
    by (cases h) (auto simp: webhook_Decode_def payloadOf_def bindE_Inr
        split: option.splits WebhookPayload.splits if_splits)
  show "(\<forall>h. webhook_Decode wenv secret r \<noteq> Inr h) \<longrightarrow>
      (\<exists>err. WebhookHandler_ServeHTTP wenv secret env p r w = (BadRequest err, w))"
    by (cases "webhook_Decode wenv secret r") (auto simp: WebhookHandler_ServeHTTP_def)
qed

definition sampleWebhookEnv :: WebhookEnv where
  "sampleWebhookEnv =
     \<lparr>we_HMAC = (\<lambda>key message. key), we_CheckRun = (\<lambda>_. Inl ''invalid character''),
      we_PullRequest = (\<lambda>_. Inr \<lparr>pw_Action = ''opened'', pw_InstallationID = 0, pw_RepoName = ''app'',
        pw_RepoFullName = ''acme/app'', pw_RepoOwner = ''acme'', pw_Number = 3, pw_Title = ''t'', pw_Body = [],
        pw_HTMLURL = [], pw_HeadSHA = ''abc'', pw_BaseSHA = ''def'', pw_UserLogin = ''dev'', pw_UserType = ''User''\<rparr>)\<rparr>"

definition sampleDelivery :: "string \<Rightarrow> Delivery" where
  "sampleDelivery signature =
     \<lparr>dl_Event = ''pull_request'', dl_DeliveryID = ''d1'', dl_Signature = signature, dl_Body = Some ''{}''\<rparr>"

theorem webhook_signature_required_witness:
  "(\<exists>h. webhook_Decode sampleWebhookEnv ''key'' (sampleDelivery ''sha256=6b6579'') = Inr h)
   \<and> (\<forall>h. webhook_Decode sampleWebhookEnv ''key'' (sampleDelivery ''sha256=000000'') \<noteq> Inr h)"
proof -
  have hex: "hexEncode ''key'' = ''6b6579''" by code_simp
  have key: "''key'' \<noteq> []" by simp
  obtain pr where pr: "we_PullRequest sampleWebhookEnv ''{}'' = Inr pr" by (simp add: sampleWebhookEnv_def)
  let ?h = "\<lparr>wh_Event = ''pull_request'', wh_DeliveryID = ''d1'', wh_Signature256 = ''sha256=6b6579'',
    wh_Payload = PullRequestEvent pr\<rparr>"
  have "webhook_Decode sampleWebhookEnv ''key'' (sampleDelivery ''sha256=6b6579'') = Inr ?h"
    unfolding conjunct1 [OF webhook_signature_required [OF key]]
    using hex pr by (simp add: sampleDelivery_def signatureOf_def payloadOf_def sampleWebhookEnv_def)
  moreover have "webhook_Decode sampleWebhookEnv ''key'' (sampleDelivery ''sha256=000000'') \<noteq> Inr h" for h
    unfolding conjunct1 [OF webhook_signature_required [OF key]]
    using hex by (simp add: sampleDelivery_def signatureOf_def sampleWebhookEnv_def)
  ultimately show ?thesis by blast
qed

end
