(* ===== verification/CheckRuns.thy ===== *)
theory CheckRuns
  imports Ingest
begin

text \<open>
  What a GitHub check run can do to evidence. A reconciler relies on the evidence service and on a
  lookup of packets by head commit (locale \<open>check_reconciler\<close>, met by the in-memory store); one
  pull request is treated once, and the loop over the pull requests of a payload follows.
\<close>

section \<open>The contract\<close>

definition reportedStatus :: "CheckRunWebhookPayload \<Rightarrow> EvidenceStatus" where
  "reportedStatus payload = (if cw_Conclusion payload = ''success'' then EvidenceSatisfied else EvidenceFailed)"

definition requiredBy :: "CheckRunWebhookPayload \<Rightarrow> ChangePacket \<Rightarrow> string \<Rightarrow> bool" where
  \<comment> \<open>the packet is for the repository, a pull request and the head commit of the check, and binds the
    evidence \<open>n\<close> to a check of that name by that app\<close>
  "requiredBy payload packet n \<longleftrightarrow>
     rr_FullName (cp_Repo packet) = cw_RepoFullName payload
     \<and> pr_Number (cp_PR packet) \<in> set (cw_PullRequests payload) \<and> pr_HeadSHA (cp_PR packet) = cw_HeadSHA payload
     \<and> (\<exists>q b. q \<in> set (cp_Evidence packet) \<and> er_Name q = n \<and> er_GitHubCheck q = Some b
          \<and> gb_Name b = cw_Name payload \<and> gb_AppID b = cw_AppID payload)"

definition appActor :: "CheckRunWebhookPayload \<Rightarrow> string" where
  "appActor payload = ''github-app:'' @ Itoa (cw_AppID payload)"

definition actionable :: "CheckRunWebhookPayload \<Rightarrow> bool" where
  "actionable payload \<longleftrightarrow>
     cw_Action payload = ''completed'' \<and> cw_Status payload = ''completed''
     \<and> cw_HeadSHA payload \<noteq> [] \<and> cw_RepoFullName payload \<noteq> []"

definition checkRunEffect where
  "checkRunEffect payload packets evidence audit evidence' audit' \<longleftrightarrow>
     (\<forall>i n. recordedStatus (evidence' i) n \<noteq> recordedStatus (evidence i) n \<longrightarrow>
        (\<exists>packet. packets i = Some packet \<and> requiredBy payload packet n)
        \<and> recordedStatus (evidence' i) n = reportedStatus payload
        \<and> canTransitionEvidence (recordedStatus (evidence i) n) (reportedStatus payload))
     \<and> (\<forall>i. \<exists>new. audit' i = audit i @ new
          \<and> (\<forall>a \<in> set new. ae_Actor a = appActor payload))"

definition boundParts :: "(string \<rightharpoonup> ChangePacket) \<Rightarrow> string \<Rightarrow> (RepoRef \<times> PullRequestRef \<times> EvidenceRequirement list) option" where
  "boundParts packets i = map_option (\<lambda>packet. (cp_Repo packet, cp_PR packet, cp_Evidence packet)) (packets i)"

lemma requiredBy_boundParts:
  assumes "boundParts packets' = boundParts packets" and "packets' i = Some packet'" and "requiredBy payload packet' n"
  shows "\<exists>packet. packets i = Some packet \<and> requiredBy payload packet n"
proof -
  have "boundParts packets' i = boundParts packets i" using assms(1) by simp
  then obtain packet where "packets i = Some packet" "cp_Repo packet = cp_Repo packet'" "cp_PR packet = cp_PR packet'"
    "cp_Evidence packet = cp_Evidence packet'"
    using assms(2) by (cases "packets i") (simp_all add: boundParts_def)
  then show ?thesis using assms(3) unfolding requiredBy_def by simp
qed

lemma matchingRequirementD:
  assumes "matchingEvidenceRequirement qs name app = Some q"
  shows "q \<in> set qs" and "\<exists>b. er_GitHubCheck q = Some b \<and> gb_Name b = name \<and> gb_AppID b = app"
  using assms by (auto simp: matchingEvidenceRequirement_def find_Some_iff split: option.splits)

lemma checkRunEffect_refl: "checkRunEffect payload packets evidence audit evidence audit"
  by (simp add: checkRunEffect_def)

lemma checkRunEffect_trans:
  assumes "checkRunEffect payload packets evidence audit evidence1 audit1"
    and "checkRunEffect payload packets1 evidence1 audit1 evidence2 audit2"
    and "boundParts packets1 = boundParts packets"
  shows "checkRunEffect payload packets evidence audit evidence2 audit2"
proof -
  have "(\<exists>packet. packets i = Some packet \<and> requiredBy payload packet n)
      \<and> recordedStatus (evidence2 i) n = reportedStatus payload
      \<and> canTransitionEvidence (recordedStatus (evidence i) n) (reportedStatus payload)"
    if "recordedStatus (evidence2 i) n \<noteq> recordedStatus (evidence i) n" for i n
  proof (cases "recordedStatus (evidence1 i) n = recordedStatus (evidence i) n")
    case True
    then show ?thesis
      using that assms(2) requiredBy_boundParts [OF assms(3)] unfolding checkRunEffect_def by metis
  next
    case False
    then show ?thesis using that assms(1,2) unfolding checkRunEffect_def by metis
  qed
  moreover have "\<exists>new. audit2 i = audit i @ new \<and> (\<forall>a \<in> set new. ae_Actor a = appActor payload)" for i
  proof -
    obtain new1 new2 where "audit1 i = audit i @ new1" "audit2 i = audit1 i @ new2"
      "\<forall>a \<in> set new1 \<union> set new2. ae_Actor a = appActor payload"
      using assms(1,2) unfolding checkRunEffect_def by (metis Un_iff)
    then show ?thesis by (intro exI [of _ "new1 @ new2"]) simp
  qed
  ultimately show ?thesis unfolding checkRunEffect_def by blast
qed

locale check_reconciler = evidence_service R valid packets evidence audit publisher
  for R :: "'w Repository" and valid packets evidence audit publisher +
  assumes find_latest: "valid w \<Longrightarrow> rp_FindLatestChangePacket R repo pr sha w = (r, w') \<Longrightarrow>
      w' = w \<and> (r = Inl ErrChangePacketNotFound
        \<or> (\<exists>packet. r = Inr packet \<and> matchesHead repo pr sha packet \<and> packets w (cp_ID packet) = Some packet))"
begin

lemma update_boundParts:
  assumes "valid w" and "UpdateEvidenceExecution env ctx (serviceWith R a publisher) x w = (r, w')"
  shows "boundParts (packets w') = boundParts (packets w)"
proof (cases "updateError ctx (packets w) (evidence w) x")
  case (Some e)
  then show ?thesis using update_refused [OF assms(1) Some, of env a] assms(2) by simp
next
  case None
  obtain r1 w1 p where u: "UpdateEvidenceExecution env ctx (serviceWith R a publisher) x w = (r1, w1)" "valid w1"
    "packets w (ee_ChangePacketID x) = Some p"
    "evidenceRecorded (attributed ctx x) (evidence w) (audit w) (evidence w1) (audit w1)"
    "(\<exists>e. r1 = Inl (LaneError e) \<and> assignFails a e) \<and> packets w1 = packets w
     \<or> ((\<exists>y. r1 = Inr y) \<or> (\<exists>e. r1 = Inl (PublishError e) \<and> publishFails publisher e))
        \<and> (\<exists>p'. reconciled a p (evidence w1 (cp_ID p)) p' \<and> packets w1 = (packets w)(ee_ChangePacketID x \<mapsto> p'))"
    using update_effect [OF assms(1) None, of env a] .
  then show ?thesis using assms(2) by (auto simp: boundParts_def reconciled_def fun_eq_iff)
qed

lemma update_checkRun:
  assumes "valid w" and "packets w (cp_ID packet) = Some packet"
    and "matchingEvidenceRequirement (cp_Evidence packet) (cw_Name payload) (cw_AppID payload) = Some q"
    and "matchesHead (cw_RepoFullName payload) number (cw_HeadSHA payload) packet" and "number \<in> set (cw_PullRequests payload)"
    and "UpdateEvidenceExecution env None (serviceWith R a publisher)
           (checkRunExecution payload (reportedStatus payload) packet q) w = (r, w')"
  shows "valid w' \<and> boundParts (packets w') = boundParts (packets w)
    \<and> checkRunEffect payload (packets w) (evidence w) (audit w) (evidence w') (audit w')"
proof (rule update_cases [OF assms(1,6)])
  assume "w' = w"
  then show ?thesis using assms(1) checkRunEffect_refl by simp
next
  let ?x = "checkRunExecution payload (reportedStatus payload) packet q"
  assume v: "valid w'" and rec: "evidenceRecorded (attributed None ?x) (evidence w) (audit w) (evidence w') (audit w')"
    and t: "canTransitionEvidence (recordedStatus (evidence w (ee_ChangePacketID ?x)) (ee_Name ?x)) (ee_Status ?x)"
  have x: "ee_ChangePacketID ?x = cp_ID packet" "ee_Name ?x = er_Name q" "ee_Status ?x = reportedStatus payload"
    "ee_UpdatedBy (attributed None ?x) = appActor payload"
    by (simp_all add: checkRunExecution_def attributed_def appActor_def PrincipalFromContext_def)
  have "requiredBy payload packet (er_Name q)"
    using assms(4,5) matchingRequirementD [OF assms(3)] unfolding requiredBy_def matchesHead_def by blast
  moreover obtain b where "audit w' = (audit w)(cp_ID packet := audit w (cp_ID packet) @ [b])"
    "ae_Actor b = appActor payload"
    and s: "\<forall>j m. recordedStatus (evidence w' j) m =
      (if j = cp_ID packet \<and> m = er_Name q then reportedStatus payload else recordedStatus (evidence w j) m)"
    using rec x unfolding evidenceRecorded_def by auto
  ultimately have "checkRunEffect payload (packets w) (evidence w) (audit w) (evidence w') (audit w')"
    using t x assms(2) by (auto simp: checkRunEffect_def)
  then show ?thesis using v update_boundParts [OF assms(1,6)] by blast
qed

lemma reconcile_checkRun:
  assumes "valid w" and "\<forall>x w. \<exists>env. update x w = UpdateEvidenceExecution env None (serviceWith R a publisher) x w"
    and "number \<in> set (cw_PullRequests payload)"
    and "reconcileCheckRunForPullRequest R update payload (reportedStatus payload) number w = (r, w')"
  shows "valid w' \<and> boundParts (packets w') = boundParts (packets w)
    \<and> checkRunEffect payload (packets w) (evidence w) (audit w) (evidence w') (audit w')"
proof -
  obtain f w1 where f: "rp_FindLatestChangePacket R (cw_RepoFullName payload) number (cw_HeadSHA payload) w = (f, w1)"
    by fastforce
  note found = find_latest [OF assms(1) f]
  show ?thesis
  proof (cases "w' = w")
    case True
    then show ?thesis using assms(1) checkRunEffect_refl by simp
  next
    case False
    then obtain packet q where p: "f = Inr packet" "matchesHead (cw_RepoFullName payload) number (cw_HeadSHA payload) packet"
      "packets w (cp_ID packet) = Some packet"
      and q: "matchingEvidenceRequirement (cp_Evidence packet) (cw_Name payload) (cw_AppID payload) = Some q"
      using assms(4) f found by (auto simp: reconcileCheckRunForPullRequest_def split: option.splits)
    obtain r1 where "update (checkRunExecution payload (reportedStatus payload) packet q) w = (r1, w')"
      using assms(4) f found p(1) q
      by (cases r) (auto simp: reconcileCheckRunForPullRequest_def io_results)
    then show ?thesis
      using update_checkRun [OF assms(1) p(3) q p(2) assms(3)] assms(2) by metis
  qed
qed

lemma reconcile_checkRuns:
  assumes "valid w" and "\<forall>x w. \<exists>env. update x w = UpdateEvidenceExecution env None (serviceWith R a publisher) x w"
    and "set numbers \<subseteq> set (cw_PullRequests payload)"
    and "forM (reconcileCheckRunForPullRequest R update payload (reportedStatus payload)) numbers w = (r, w')"
  shows "valid w' \<and> boundParts (packets w') = boundParts (packets w)
    \<and> checkRunEffect payload (packets w) (evidence w) (audit w) (evidence w') (audit w')"
  using assms(1,3,4)
proof (induction numbers arbitrary: w)
  case Nil
  then show ?case by (simp add: checkRunEffect_refl)
next
  case (Cons number numbers)
  obtain r1 w1 where w1: "reconcileCheckRunForPullRequest R update payload (reportedStatus payload) number w = (r1, w1)"
    by fastforce
  have step: "valid w1" "boundParts (packets w1) = boundParts (packets w)"
    "checkRunEffect payload (packets w) (evidence w) (audit w) (evidence w1) (audit w1)"
    using reconcile_checkRun [OF Cons.prems(1) assms(2) _ w1] Cons.prems(2) by auto
  show ?case
  proof (cases r1)
    case (Inl e)
    then show ?thesis using Cons.prems(3) w1 step by simp
  next
    case (Inr u)
    then have "forM (reconcileCheckRunForPullRequest R update payload (reportedStatus payload)) numbers w1 = (r, w')"
      using Cons.prems(3) w1 by simp
    then show ?thesis
      using Cons.IH [OF step(1)] Cons.prems(2) step checkRunEffect_trans by (metis set_subset_Cons subset_trans)
  qed
qed

lemma ProcessCheckRun_effect:
  assumes "valid w" and "\<forall>x w. \<exists>env. update x w = UpdateEvidenceExecution env None (serviceWith R a publisher) x w"
    and "po_store p = Some R" and "po_evidence p = Some update" and "ProcessCheckRun p payload w = (r, w')"
  shows "valid w' \<and> checkRunEffect payload (packets w) (evidence w) (audit w) (evidence w') (audit w')
    \<and> (\<not> actionable payload \<longrightarrow> r = Inr () \<and> w' = w)"
proof (cases "actionable payload")
  case True
  then have "forM (reconcileCheckRunForPullRequest R update payload (reportedStatus payload))
      (cw_PullRequests payload) w = (r, w')"
    using assms(3-5)
    by (simp add: ProcessCheckRun_def actionable_def evidenceStatusForCheckRun_def reportedStatus_def split: if_splits)
  then show ?thesis using reconcile_checkRuns [OF assms(1,2) order_refl] True by blast
next
  case False
  then have "r = Inr () \<and> w' = w"
    using assms(3-5)
    by (auto simp: ProcessCheckRun_def actionable_def evidenceStatusForCheckRun_def split: if_splits)
  then show ?thesis using assms(1) checkRunEffect_refl False by blast
qed

end

section \<open>The in-memory store\<close>

lemma FindLatest_stored:
  assumes "map_order ord" and "mem_valid w" and "FindLatestChangePacket ord repo pr sha w = (r, w')"
  shows "w' = w \<and> (r = Inl ErrChangePacketNotFound
    \<or> (\<exists>packet. r = Inr packet \<and> matchesHead repo pr sha packet \<and> mem_packets w (cp_ID packet) = Some packet))"
proof -
  have d: "distinct (map fst (mr_changePackets w))" and ids: "\<And>k q. (k, q) \<in> set (mr_changePackets w) \<Longrightarrow> cp_ID q = k"
    using assms(2) by (auto simp: mem_valid_def)
  have "set (range_map ord (mr_changePackets w)) = set (mr_changePackets w)"
    by (rule set_range_map [OF assms(1) d])
  then show ?thesis
    using assms(3) latest_fold [OF refl, of repo pr sha None "range_map ord (mr_changePackets w)"] ids d
    by (force simp: FindLatestChangePacket_def mem_packets_def split: option.splits)
qed

interpretation reconciler: check_reconciler "memoryRepository ord now" "\<lambda>w. map_order ord \<and> mem_valid w"
    mem_packets mem_evidence mr_auditByCPID "worldPublisher publisher"
  for ord now and publisher :: "'g GitHubCheckPublisher option"
  by unfold_locales (use FindLatest_stored in \<open>force simp: memoryRepository_def\<close>)

lemma checkRun_updateError:
  assumes "packets (cp_ID packet) = Some packet" and "q \<in> set (cp_Evidence packet)"
    and "TrimSpace (cp_ID packet) \<noteq> []" and "TrimSpace (er_Name q) \<noteq> []"
  shows "updateError None packets evidence (checkRunExecution payload (reportedStatus payload) packet q) =
    (let s = recordedStatus (evidence (cp_ID packet)) (er_Name q)
     in if canTransitionEvidence s (reportedStatus payload) then None
        else Some (EvidenceTransitionError (er_Name q) s (reportedStatus payload)))"
  using assms
  by (auto simp: updateError_def Let_def checkRunExecution_def validEvidenceStatus_def reportedStatus_def)

lemma ProcessCheckRun_single:
  assumes "po_store p = Some (memoryRepository ord now)" and "po_evidence p = Some update"
    and "actionable payload" and "cw_PullRequests payload = [number]"
    and "FindLatestChangePacket ord (cw_RepoFullName payload) number (cw_HeadSHA payload) w = (Inr packet, w)"
    and "matchingEvidenceRequirement (cp_Evidence packet) (cw_Name payload) (cw_AppID payload) = Some q"
  shows "ProcessCheckRun p payload w =
    (case update (checkRunExecution payload (reportedStatus payload) packet q) w of
       (Inl e, w') \<Rightarrow> (Inl (ReconcileFailed (cw_Name payload) (cp_ID packet) e), w')
     | (Inr _, w') \<Rightarrow> (Inr (), w'))"
  using assms
  by (simp add: ProcessCheckRun_def actionable_def evidenceStatusForCheckRun_def reportedStatus_def memoryRepository_def
      reconcileCheckRunForPullRequest_def bindM_def wrapM_def split: if_splits prod.splits sum.splits)

section \<open>Properties\<close>

text \<open>
  C6: a check run moves only the evidence bound to it. Whatever GitHub reports and however many pull
  requests the payload names, a status that changes belongs to evidence which a stored packet, for
  the same repository, one of those pull requests and the same head commit, binds to a check of that
  name by that app; it becomes satisfied only if the conclusion is success, and failed otherwise,
  along the life cycle. Every audit entry that is added names the app. A run that is not completed,
  or without head commit or repository, changes nothing.
\<close>

theorem ProcessCheckRun_bound:
  assumes "map_order ord" and "mem_valid w"
    and "\<forall>x w. \<exists>env. update x w = UpdateEvidenceExecution env None (memoryService ord now assigner publisher) x w"
    and "po_store p = Some (memoryRepository ord now)" and "po_evidence p = Some update"
    and "ProcessCheckRun p payload w = (r, w')"
  shows "mem_valid w'
    \<and> checkRunEffect payload (mem_packets w) (mem_evidence w) (mr_auditByCPID w) (mem_evidence w') (mr_auditByCPID w')
    \<and> (\<not> actionable payload \<longrightarrow> r = Inr () \<and> w' = w)"
  using reconciler.ProcessCheckRun_effect [OF conjI [OF assms(1,2)] assms(3) [unfolded memoryService_def] assms(4-6)]
  by blast

text \<open>
  C7: a completed check run is recorded. For a payload with one pull request whose latest packet binds
  evidence to the check, the reported status is recorded if it is a step of the life cycle, and then
  the call fails only if the assigner or the publication does. If it is not, the call fails with that
  transition and changes nothing; a successful run after a failed one is such a case, because failed
  evidence must be running again before it can be satisfied.
\<close>

theorem ProcessCheckRun_records:
  assumes "map_order ord" and "mem_valid w"
    and "\<forall>x w. \<exists>env. update x w = UpdateEvidenceExecution env None (memoryService ord now assigner publisher) x w"
    and "po_store p = Some (memoryRepository ord now)" and "po_evidence p = Some update"
    and "actionable payload" and "cw_PullRequests payload = [number]"
    and "FindLatestChangePacket ord (cw_RepoFullName payload) number (cw_HeadSHA payload) w = (Inr packet, w)"
    and "matchingEvidenceRequirement (cp_Evidence packet) (cw_Name payload) (cw_AppID payload) = Some q"
    and "TrimSpace (cp_ID packet) \<noteq> []" and "TrimSpace (er_Name q) \<noteq> []"
  defines "s \<equiv> recordedStatus (mem_evidence w (cp_ID packet)) (er_Name q)"
  shows "\<exists>r w'. ProcessCheckRun p payload w = (r, w')
    \<and> (if canTransitionEvidence s (reportedStatus payload)
       then recordedStatus (mem_evidence w' (cp_ID packet)) (er_Name q) = reportedStatus payload
         \<and> (r = Inr () \<or> (\<exists>e. r = Inl (ReconcileFailed (cw_Name payload) (cp_ID packet) e)
              \<and> (\<exists>t. e = LaneError t \<and> assignFails assigner t \<or> e = PublishError t \<and> publishFails (worldPublisher publisher) t)))
       else w' = w \<and> r = Inl (ReconcileFailed (cw_Name payload) (cp_ID packet)
              (EvidenceTransitionError (er_Name q) s (reportedStatus payload))))
    \<and> (s = EvidenceFailed \<longrightarrow> cw_Conclusion payload = ''success'' \<longrightarrow> \<not> canTransitionEvidence s (reportedStatus payload))"
proof -
  let ?x = "checkRunExecution payload (reportedStatus payload) packet q" and ?i = "cp_ID packet"
  have x: "ee_ChangePacketID ?x = ?i" "ee_Name ?x = er_Name q" "ee_Status ?x = reportedStatus payload"
    by (simp_all add: checkRunExecution_def)
  have stored: "mem_packets w ?i = Some packet" using FindLatest_stored [OF assms(1,2,8)] by simp
  note err = checkRun_updateError [where packets = "mem_packets w" and evidence = "mem_evidence w" and payload = payload,
      OF stored matchingRequirementD(1) [OF assms(9)] assms(10,11)]
  obtain env where env: "update ?x w = UpdateEvidenceExecution env None (memoryService ord now assigner publisher) ?x w"
    using assms(3) by blast
  note run = ProcessCheckRun_single [OF assms(4-9)]
  have rerun: "s = EvidenceFailed \<longrightarrow> cw_Conclusion payload = ''success'' \<longrightarrow> \<not> canTransitionEvidence s (reportedStatus payload)"
    by (simp add: canTransitionEvidence_def reportedStatus_def)
  show ?thesis
  proof (cases "canTransitionEvidence s (reportedStatus payload)")
    case True
    then have ok: "updateError None (mem_packets w) (mem_evidence w) ?x = None" using err by (simp add: s_def Let_def)
    obtain r1 w1 p1 where u:
      "UpdateEvidenceExecution env None (memoryService ord now assigner publisher) ?x w = (r1, w1)"
      "map_order ord \<and> mem_valid w1" "mem_packets w (ee_ChangePacketID ?x) = Some p1"
      "evidenceRecorded (attributed None ?x) (mem_evidence w) (mr_auditByCPID w) (mem_evidence w1) (mr_auditByCPID w1)"
      "(\<exists>e. r1 = Inl (LaneError e) \<and> assignFails assigner e) \<and> mem_packets w1 = mem_packets w
       \<or> ((\<exists>y. r1 = Inr y) \<or> (\<exists>e. r1 = Inl (PublishError e) \<and> publishFails (worldPublisher publisher) e))
          \<and> (\<exists>p'. reconciled assigner p1 (mem_evidence w1 (cp_ID p1)) p'
               \<and> mem_packets w1 = (mem_packets w)(ee_ChangePacketID ?x \<mapsto> p'))"
      using world.update_effect [where ord = ord and now = now and publisher = publisher and env = env
          and a = assigner, OF conjI [OF assms(1,2)] ok, folded memoryService_def] .
    have "recordedStatus (mem_evidence w1 ?i) (er_Name q) = reportedStatus payload"
      using u(4) x by (simp add: evidenceRecorded_def)
    then show ?thesis using run env u(1,5) True rerun by (cases r1) auto
  next
    case False
    then have "updateError None (mem_packets w) (mem_evidence w) ?x =
        Some (EvidenceTransitionError (er_Name q) s (reportedStatus payload))"
      using err by (simp add: s_def Let_def)
    from world.update_refused [where now = now and publisher = publisher and env = env and a = assigner,
        OF conjI [OF assms(1,2)] this]
    show ?thesis using run env False rerun by (simp add: memoryService_def)
  qed
qed

section \<open>A bound check\<close>

definition ciRequirement :: EvidenceRequirement where
  "ciRequirement = testsRequirement\<lparr>er_GitHubCheck := Some \<lparr>gb_Name = ''ci'', gb_AppID = 7\<rparr>\<rparr>"

definition ciPacket :: ChangePacket where
  "ciPacket = testsPacket\<lparr>cp_Repo := zeroRepoRef\<lparr>rr_FullName := ''acme/app''\<rparr>,
     cp_PR := zeroPullRequestRef\<lparr>pr_Number := 3, pr_HeadSHA := ''abc''\<rparr>, cp_Evidence := [ciRequirement]\<rparr>"

definition ciWorld :: "unit World" where
  "ciWorld = snd (SaveChangePacket 7 ciPacket (initialWorld ()))"

definition ciRun :: CheckRunWebhookPayload where
  "ciRun = \<lparr>cw_Action = ''completed'', cw_RepoFullName = ''acme/app'', cw_ID = 11, cw_Name = ''ci'',
     cw_HeadSHA = ''abc'', cw_Status = ''completed'', cw_Conclusion = ''success'', cw_DetailsURL = [],
     cw_OutputTitle = [], cw_OutputSummary = [], cw_AppID = 7, cw_PullRequests = [3]\<rparr>"

definition ciProcessor :: "unit World Processor" where
  "ciProcessor =
     \<lparr>po_bus = (\<lambda>_. retM ()),
      po_github = \<lparr>bs_Service = \<lparr>gs_GetPullRequest = (\<lambda>_ _ _. failM ''no''), gs_GetPullRequestDiff = (\<lambda>_ _ _. failM ''no''),
        gs_GetFileContent = (\<lambda>_ _ _ _ _. Inl ''no'')\<rparr>, bs_ForInstallation = None\<rparr>,
      po_mutations = (\<lambda>_. Inr []), po_risk = risk_Evaluate rev defaultWeights,
      po_policy = policy_Evaluate 5 \<lparr>pc_Policies = []\<rparr>, po_assigner = Assign sampleLanes, po_checks = (\<lambda>_. retM ()),
      po_runtime = ResolveImpact rev [], po_store = Some (memoryRepository rev 7),
      po_evidence = Some (UpdateEvidenceExecution sampleEnv None (memoryService rev 7 (Some (Assign sampleLanes)) None))\<rparr>"

lemma ciWorld_stored: "mr_changePackets ciWorld = [(''cp_1'', ciPacket)]" "mem_valid ciWorld"
  "recordedStatus (mem_evidence ciWorld ''cp_1'') ''tests'' = EvidencePending"
  by (simp_all add: ciWorld_def SaveChangePacket_def initialWorld_def ensureEvidenceLocked_def mem_valid_def mem_evidence_def
      ciPacket_def testsPacket_def ciRequirement_def testsRequirement_def ensureEvidenceStep_def recordedStatus_def zero_defs)

lemma ci_found: "FindLatestChangePacket rev ''acme/app'' 3 ''abc'' ciWorld = (Inr ciPacket, ciWorld)"
  by (simp add: FindLatestChangePacket_def ciWorld_stored range_map_def latestStep_def matchesHead_def ciPacket_def
      testsPacket_def zero_defs)

lemma ci_names: "cp_ID ciPacket = ''cp_1''" "er_Name ciRequirement = ''tests''" "cp_Evidence ciPacket = [ciRequirement]"
  by (simp_all add: ciPacket_def testsPacket_def ciRequirement_def testsRequirement_def zero_defs)

lemma ciProcessor_fields: "\<forall>x w. \<exists>env. UpdateEvidenceExecution sampleEnv None (memoryService rev 7 (Some (Assign sampleLanes)) None) x w =
    UpdateEvidenceExecution env None (memoryService rev 7 (Some (Assign sampleLanes)) None) x w"
  "po_store ciProcessor = Some (memoryRepository rev 7)"
  "po_evidence ciProcessor = Some (UpdateEvidenceExecution sampleEnv None (memoryService rev 7 (Some (Assign sampleLanes)) None))"
  by (auto simp: ciProcessor_def)

theorem ProcessCheckRun_records_witness:
  "\<exists>w'. ProcessCheckRun ciProcessor ciRun ciWorld = (Inr (), w')
     \<and> recordedStatus (mem_evidence w' ''cp_1'') ''tests'' = EvidenceSatisfied"
proof -
  have h: "actionable ciRun" "cw_PullRequests ciRun = [3]" "reportedStatus ciRun = EvidenceSatisfied"
    "FindLatestChangePacket rev (cw_RepoFullName ciRun) 3 (cw_HeadSHA ciRun) ciWorld = (Inr ciPacket, ciWorld)"
    "matchingEvidenceRequirement (cp_Evidence ciPacket) (cw_Name ciRun) (cw_AppID ciRun) = Some ciRequirement"
    "TrimSpace (cp_ID ciPacket) \<noteq> []" "TrimSpace (er_Name ciRequirement) \<noteq> []"
    using ci_found ci_names sample_names
    by (simp_all add: actionable_def ciRun_def reportedStatus_def matchingEvidenceRequirement_def ciRequirement_def)
  have "canTransitionEvidence EvidencePending EvidenceSatisfied" by (simp add: canTransitionEvidence_def)
  moreover have "\<not> assignFails (Some (Assign sampleLanes)) t" "\<not> publishFails (worldPublisher None) t" for t
    using threshold.assign_not_error by (auto simp: assignFails_def publishFails_def worldPublisher_def)
  ultimately show ?thesis
    using ProcessCheckRun_records [OF map_order_rev ciWorld_stored(2) ciProcessor_fields h(1,2,4-7)] h(3) ciWorld_stored(3) ci_names
    by auto
qed

theorem ProcessCheckRun_bound_witness:
  "\<exists>r w'. ProcessCheckRun ciProcessor (ciRun\<lparr>cw_AppID := 8\<rparr>) ciWorld = (r, w')
     \<and> recordedStatus (mem_evidence w' ''cp_1'') ''tests'' = EvidencePending"
proof -
  obtain r w' where u: "ProcessCheckRun ciProcessor (ciRun\<lparr>cw_AppID := 8\<rparr>) ciWorld = (r, w')" by fastforce
  have "\<not> requiredBy (ciRun\<lparr>cw_AppID := 8\<rparr>) ciPacket n" for n
    using ci_names by (simp add: requiredBy_def ciRun_def) (simp add: ciRequirement_def)
  then have "recordedStatus (mem_evidence w' ''cp_1'') ''tests'' = recordedStatus (mem_evidence ciWorld ''cp_1'') ''tests''"
    using ProcessCheckRun_bound [OF map_order_rev ciWorld_stored(2) ciProcessor_fields u] ciWorld_stored(1)
    unfolding checkRunEffect_def mem_packets_def by (metis map_of_Cons_code(2) option.inject)
  then show ?thesis using u ciWorld_stored(3) by simp
qed

end
