(* ===== verification/Pipeline.thy ===== *)
theory Pipeline
  imports CheckRuns
begin

text \<open>
  The pipeline for pull requests put together as in \<open>internal/app/ingest/app.go\<close>: the engines of the
  program, the in-memory store, a recording event bus, and GitHub behind an interface. What the
  pipeline does to the store is proved once in the locale \<open>pipeline\<close>, for any engines; the properties
  are about the program's own.
\<close>

section \<open>The stages before the packet is stored\<close>

definition assess ::
  "IngestEnv \<Rightarrow> 'w Processor \<Rightarrow> PullRequestWebhookPayload \<Rightarrow> ('w, IngestError, ChangePacket) io" where
  "assess env p payload =
     (let service = bindInstallation (po_github p) (pw_InstallationID payload);
          owner = pw_RepoOwner payload; name = pw_RepoName payload; number = pw_Number payload
      in bindM (publishPROpened env p (pw_RepoFullName payload) number (pw_Action payload)) (\<lambda>_.
         bindM (fetchPullRequest service owner name number payload) (\<lambda>pr.
         bindM (buildChangePacket env p payload pr service owner name number) (\<lambda>packet.
         bindM (enrichMutations env p service owner name packet) (\<lambda>packet.
         bindM (enrichRuntimeImpact p service owner name packet) (\<lambda>packet.
         bindM (enrichRisk env p packet) (\<lambda>packet.
         bindM (applyPolicy p packet) (assignMergeLane env p))))))))"

lemma processPROpened_assess:
  "processPROpened env p payload =
     bindM (assess env p payload) (\<lambda>packet. bindM (finalize env p packet) (\<lambda>_. retM packet))"
  by (simp add: processPROpened_def assess_def Let_def bindM_assoc)

text \<open>What the stages put into the packet.\<close>

definition assessed :: "IngestEnv \<Rightarrow> 'w Processor \<Rightarrow> PullRequestWebhookPayload \<Rightarrow> ChangePacket \<Rightarrow> bool" where
  "assessed env p payload packet \<longleftrightarrow>
     (\<exists>pr diff files w1 w2 mutations impact owners summary risks evaluation.
        let service = bindInstallation (po_github p) (pw_InstallationID payload);
            loader = githubContentLoader service (pw_RepoOwner payload) (pw_RepoName payload) (gq_HeadSHA pr);
            p0 = newPacket env payload pr (pw_RepoOwner payload) (pw_RepoName payload) files;
            p1 = p0\<lparr>cp_Mutations := mutations\<rparr>;
            p2 = p1\<lparr>cp_Runtime := impact, cp_Ownership := owners\<rparr>;
            p3 = p2\<lparr>cp_Conflict := Analyze (ie_Order env) p2\<rparr>;
            p4 = p3\<lparr>cp_RiskSummary := summary, cp_Risks := risks\<rparr>;
            p5 = p4\<lparr>cp_Decision := ev_Decision evaluation, cp_Evidence := ev_Evidence evaluation,
                   cp_Reviewers := ev_Reviewers evaluation, cp_Deployment := ev_Deployment evaluation\<rparr>
        in ParseUnified diff = Inr files
           \<and> po_mutations p \<lparr>aq_Repo = cp_Repo p0, aq_Ref = gq_HeadSHA pr, aq_Files = mapChangedFiles files,
                aq_Content = Some (loader w1)\<rparr> = Inr mutations
           \<and> po_runtime p \<lparr>in_Packet = p1, in_Ref = gq_HeadSHA pr, in_Loader = Some (loader w2),
                in_Options = zeroOptions\<rparr> = Inr (impact, owners)
           \<and> po_risk p p3 = Inr (summary, risks)
           \<and> po_policy p p4 = Inr evaluation
           \<and> po_assigner p p5 = Inr (cp_MergeLane packet)
           \<and> packet = p5\<lparr>cp_MergeLane := cp_MergeLane packet, cp_UpdatedAt := ie_Now env 2\<rparr>)"

lemma newPacket_fields [simp]:
  "cp_ID (newPacket env payload pr owner name files) = ie_PacketID env"
  "cp_PR (newPacket env payload pr owner name files) =
     \<lparr>pr_Number = gq_Number pr, pr_URL = gq_URL pr, pr_HeadSHA = gq_HeadSHA pr, pr_BaseSHA = gq_BaseSHA pr\<rparr>"
  "cp_Files (newPacket env payload pr owner name files) = mapChangedFiles files"
  by (simp_all add: newPacket_def)

lemma assess_assessed:
  assumes "assess env p payload w = (Inr packet, w')"
  shows "assessed env p payload packet"
proof -
  let ?service = "bindInstallation (po_github p) (pw_InstallationID payload)"
  let ?owner = "pw_RepoOwner payload" and ?name = "pw_RepoName payload"
  obtain pr p0 p1 p2 p3 p4 wa wb wc wd we wf wg where
    st: "buildChangePacket env p payload pr ?service ?owner ?name (pw_Number payload) wa = (Inr p0, wb)"
    "enrichMutations env p ?service ?owner ?name p0 wb = (Inr p1, wc)"
    "enrichRuntimeImpact p ?service ?owner ?name p1 wc = (Inr p2, wd)"
    "enrichRisk env p p2 wd = (Inr p3, we)" "applyPolicy p p3 we = (Inr p4, wf)"
    "assignMergeLane env p p4 wf = (Inr packet, wg)"
    using assms unfolding assess_def Let_def bindM_ok by blast
  obtain diff files where "ParseUnified diff = Inr files" "p0 = newPacket env payload pr ?owner ?name files"
    using st(1) by (auto simp: buildChangePacket_def Let_def bindM_ok mapError_Inr)
  moreover obtain mutations where "po_mutations p \<lparr>aq_Repo = cp_Repo p0, aq_Ref = pr_HeadSHA (cp_PR p0),
      aq_Files = cp_Files p0, aq_Content = Some (githubContentLoader ?service ?owner ?name (pr_HeadSHA (cp_PR p0)) wb)\<rparr>
      = Inr mutations" "p1 = p0\<lparr>cp_Mutations := mutations\<rparr>"
    using st(2) by (auto simp: enrichMutations_def Let_def bindM_ok mapError_Inr)
  moreover obtain impact owners where "po_runtime p \<lparr>in_Packet = p1, in_Ref = pr_HeadSHA (cp_PR p1),
      in_Loader = Some (githubContentLoader ?service ?owner ?name (pr_HeadSHA (cp_PR p1)) wc), in_Options = zeroOptions\<rparr>
      = Inr (impact, owners)" "p2 = p1\<lparr>cp_Runtime := impact, cp_Ownership := owners\<rparr>"
    using st(3) by (auto simp: enrichRuntimeImpact_def Let_def bindM_ok mapError_Inr)
  moreover obtain summary risks where "po_risk p (p2\<lparr>cp_Conflict := Analyze (ie_Order env) p2\<rparr>) = Inr (summary, risks)"
    "p3 = p2\<lparr>cp_Conflict := Analyze (ie_Order env) p2, cp_RiskSummary := summary, cp_Risks := risks\<rparr>"
    using st(4) by (auto simp: enrichRisk_def Let_def bindM_ok mapError_Inr)
  moreover obtain evaluation where "po_policy p p3 = Inr evaluation"
    "p4 = p3\<lparr>cp_Decision := ev_Decision evaluation, cp_Evidence := ev_Evidence evaluation,
       cp_Reviewers := ev_Reviewers evaluation, cp_Deployment := ev_Deployment evaluation\<rparr>"
    using st(5) by (auto simp: applyPolicy_def bindM_ok mapError_Inr)
  moreover obtain lane where "po_assigner p p4 = Inr lane" "packet = p4\<lparr>cp_MergeLane := lane, cp_UpdatedAt := ie_Now env 2\<rparr>"
    using st(6) by (auto simp: assignMergeLane_def bindM_ok mapError_Inr)
  ultimately show ?thesis
    unfolding assessed_def Let_def by (intro exI conjI) (assumption | simp)+
qed

section \<open>What the pipeline does to the store\<close>

text \<open>
  The pipeline relies on collaborators that leave the store alone: the bus (which may record events),
  the GitHub service and the publication of checks.
\<close>

locale pipeline = repository R valid packets evidence audit
  for R :: "'w Repository" and valid packets evidence audit +
  fixes p :: "'w Processor"
  assumes store: "po_store p = Some R"
    and bus_keeps: "keeps (\<lambda>w. valid w \<and> (packets w, evidence w, audit w) = v) (po_bus p event)"
    and pull_keeps: "keeps (\<lambda>w. valid w \<and> (packets w, evidence w, audit w) = v)
      (gs_GetPullRequest (bindInstallation (po_github p) n) owner name number)"
    and diff_keeps: "keeps (\<lambda>w. valid w \<and> (packets w, evidence w, audit w) = v)
      (gs_GetPullRequestDiff (bindInstallation (po_github p) n) owner name number)"
    and checks_keeps: "keeps (\<lambda>w. valid w \<and> (packets w, evidence w, audit w) = v) (po_checks p packet)"
begin

definition stable where
  "stable v w \<longleftrightarrow> valid w \<and> (packets w, evidence w, audit w) = v"

lemma stable_collaborators [intro]:
  "keeps (stable v) (po_bus p event)"
  "keeps (stable v) (gs_GetPullRequest (bindInstallation (po_github p) n) owner name number)"
  "keeps (stable v) (gs_GetPullRequestDiff (bindInstallation (po_github p) n) owner name number)"
  "keeps (stable v) (po_checks p packet)"
proof -
  have "stable v = (\<lambda>w. valid w \<and> (packets w, evidence w, audit w) = v)" by (simp add: stable_def fun_eq_iff)
  then show "keeps (stable v) (po_bus p event)"
    "keeps (stable v) (gs_GetPullRequest (bindInstallation (po_github p) n) owner name number)"
    "keeps (stable v) (gs_GetPullRequestDiff (bindInstallation (po_github p) n) owner name number)"
    "keeps (stable v) (po_checks p packet)"
    using bus_keeps pull_keeps diff_keeps checks_keeps by simp_all
qed

lemma publish_keeps [intro]: "keeps (stable v) (publishEvent env p kind source payload)"
  unfolding publishEvent_def by (intro keeps_wrap stable_collaborators)

lemma fetch_keeps [intro]:
  "keeps (stable v) (fetchPullRequest (bindInstallation (po_github p) n) owner name number payload)"
  unfolding keeps_def fetchPullRequest_def
  using keepsD [OF stable_collaborators(2)] by (auto split: prod.splits sum.splits)

lemma enrich_keeps [intro]:
  "keeps (stable v) (enrichMutations env p service owner name packet)"
  "keeps (stable v) (enrichRuntimeImpact p service owner name packet)"
  "keeps (stable v) (enrichRisk env p packet)"
proof -
  have "stable v w'" if "stable v w" "publishMutations env p ms w = (r, w')" for ms w r w'
    using that keepsD [OF publish_keeps] unfolding publishMutations_def by blast
  then show "keeps (stable v) (enrichMutations env p service owner name packet)"
    unfolding keeps_def enrichMutations_def Let_def bindM_def by (auto split: prod.splits sum.splits)
  show "keeps (stable v) (enrichRuntimeImpact p service owner name packet)"
    unfolding keeps_def enrichRuntimeImpact_def Let_def bindM_def by (auto split: prod.splits sum.splits)
  show "keeps (stable v) (enrichRisk env p packet)"
    unfolding enrichRisk_def publishRisk_def Let_def
    by (intro keeps_bind) (auto split: prod.splits intro!: keeps_bind)
qed

lemma assess_keeps: "keeps (stable v) (assess env p payload)"
  unfolding assess_def publishPROpened_def buildChangePacket_def applyPolicy_def assignMergeLane_def Let_def
  by (intro keeps_bind keeps_wrap publish_keeps fetch_keeps enrich_keeps stable_collaborators keeps_lift keeps_ret)

text \<open>Either the store is as before, or it has the new packet and the check was published after that.\<close>

definition ingested where
  "ingested env payload packet w w' \<longleftrightarrow>
     assessed env p payload packet \<and> packets w' = (packets w)(cp_ID packet \<mapsto> packet) \<and> audit w' = audit w
     \<and> ensured (evidence w (cp_ID packet)) (evidence w' (cp_ID packet)) (cp_Evidence packet)
     \<and> (\<forall>i. i \<noteq> cp_ID packet \<longrightarrow> evidence w' i = evidence w i)"

lemma processPROpened_outcome:
  assumes "valid w" and "processPROpened env p payload w = (r, w')"
  shows "valid w' \<and>
    ((\<exists>e. r = Inl e) \<and> packets w' = packets w \<and> evidence w' = evidence w \<and> audit w' = audit w
     \<or> (\<exists>packet w1 c. ingested env payload packet w w1 \<and> ingested env payload packet w w'
          \<and> po_checks p packet w1 = (c, w')
          \<and> r = (case c of Inl t \<Rightarrow> Inl (Failed t) | Inr _ \<Rightarrow> Inr packet)))"
proof -
  let ?v = "(packets w, evidence w, audit w)"
  have w: "stable ?v w" using assms(1) by (simp add: stable_def)
  obtain a wa where a: "assess env p payload w = (a, wa)" by fastforce
  have wa: "stable ?v wa" using keepsD [OF assess_keeps w a] .
  show ?thesis
  proof (cases a)
    case (Inl e)
    then show ?thesis using assms(2) a wa by (auto simp: processPROpened_assess stable_def)
  next
    case (Inr packet)
    let ?events = "bindM (if length (pd_Violations (cp_Decision packet)) > 0
        then publishViolations env p (pd_Violations (cp_Decision packet)) else retM ()) (\<lambda>_.
      publishLane env p (cp_ID packet) (cp_MergeLane packet))"
    obtain b wb where b: "?events wa = (b, wb)" by fastforce
    have keep: "keeps (stable ?v) ?events"
      unfolding publishViolations_def publishLane_def by (intro keeps_bind) auto
    have wb: "stable ?v wb" using keepsD [OF keep wa b] .
    obtain ws where ws: "rp_SaveChangePacket R packet wb = (Inr (), ws)" "valid ws"
      "packets ws = (packets wb)(cp_ID packet \<mapsto> packet)" "audit ws = audit wb"
      "\<forall>i. i \<noteq> cp_ID packet \<longrightarrow> evidence ws i = evidence wb i"
      "ensured (evidence wb (cp_ID packet)) (evidence ws (cp_ID packet)) (cp_Evidence packet)"
      using save [of wb packet] wb by (auto simp: stable_def)
    obtain c wc where c: "po_checks p packet ws = (c, wc)" by fastforce
    have "stable (packets ws, evidence ws, audit ws) wc"
      using keepsD [OF stable_collaborators(4) _ c] ws(2) by (simp add: stable_def)
    moreover have fin: "finalize env p packet wa =
        (case b of Inl e \<Rightarrow> (Inl e, wb) | Inr _ \<Rightarrow> (mapError Failed c, wc))"
    proof -
      have "finalize env p packet = bindM ?events (\<lambda>_. bindM (wrapM StoreFailure (rp_SaveChangePacket R packet)) (\<lambda>_.
          wrapM Failed (po_checks p packet)))"
        by (simp add: finalize_def store bindM_assoc)
      then show ?thesis using b ws(1) c by (cases b) (simp_all add: wrapM_def)
    qed
    moreover have "assessed env p payload packet" using assess_assessed [of env p payload w packet wa] a Inr by simp
    ultimately show ?thesis
    proof (cases b)
      case (Inl e)
      then show ?thesis using assms(2) a \<open>a = Inr packet\<close> fin wb by (auto simp: processPROpened_assess stable_def)
    next
      case (Inr u)
      have "ingested env payload packet w ws" "ingested env payload packet w wc" "valid wc"
        using ws wb \<open>stable (packets ws, evidence ws, audit ws) wc\<close> \<open>assessed env p payload packet\<close>
        by (auto simp: ingested_def stable_def)
      moreover have "w' = wc" "r = (case c of Inl t \<Rightarrow> Inl (Failed t) | Inr _ \<Rightarrow> Inr packet)"
        using assms(2) a \<open>a = Inr packet\<close> fin Inr
        by (cases c; simp add: processPROpened_assess)+
      ultimately show ?thesis using c by blast
    qed
  qed
qed

end

section \<open>The processor of the program\<close>

definition NoopService :: "'w GitHubService" where
  "NoopService =
     \<lparr>gs_GetPullRequest = (\<lambda>_ _ _. failM ''github pull request fetch not implemented''),
      gs_GetPullRequestDiff = (\<lambda>_ _ _. failM ''github diff fetch not implemented''),
      gs_GetFileContent = (\<lambda>_ _ _ _ _. Inl ''github file content fetch not implemented'')\<rparr>"

text \<open>GitHub and the bus have a state of their own beside the store.\<close>

definition onGitHubService :: "'g GitHubService \<Rightarrow> 'g World GitHubService" where
  "onGitHubService s =
     \<lparr>gs_GetPullRequest = (\<lambda>owner name number. onGitHub (gs_GetPullRequest s owner name number)),
      gs_GetPullRequestDiff = (\<lambda>owner name number. onGitHub (gs_GetPullRequestDiff s owner name number)),
      gs_GetFileContent = (\<lambda>owner name path ref w. gs_GetFileContent s owner name path ref (wo_GitHub w))\<rparr>"

definition worldService :: "'g BoundService \<Rightarrow> 'g World BoundService" where
  "worldService s =
     \<lparr>bs_Service = onGitHubService (bs_Service s),
      bs_ForInstallation = map_option (\<lambda>f n. onGitHubService (f n)) (bs_ForInstallation s)\<rparr>"

definition recordedBus :: "'g Publish \<Rightarrow> 'g World Publish" where
  "recordedBus base =
     RecordingBus_Publish (\<lambda>event. onGitHub (base event)) (Some (\<lambda>event. wrapM (\<lambda>_. ''store'') (SaveEvent event)))"

record 'g Wiring = \<comment> \<open>what the program gets from its configuration and its environment\<close>
  wi_Order :: key_order
  wi_Now :: time
  wi_Call :: CallEnv
  wi_NewID :: "nat \<Rightarrow> string"
  wi_Parsers :: Parsers
  wi_External :: "Analyzer list"
  wi_Decoders :: Decoders
  wi_Options :: Options
  wi_Policy :: PolicyConfig
  wi_Lanes :: LanesConfig
  wi_Bus :: "'g Publish"
  wi_GitHub :: "'g BoundService"
  wi_Checks :: "'g CheckRunPublisher"

definition NewIngestProcessor :: "'g Wiring \<Rightarrow> 'g World Processor" where
  "NewIngestProcessor c =
     \<lparr>po_bus = recordedBus (wi_Bus c),
      po_github = worldService (wi_GitHub c),
      po_mutations = (\<lambda>request.
        bindE (Classify (wi_Order c) (wi_NewID c) (DefaultEngineWithExternal (wi_Parsers c) (wi_NewID c) (wi_External c)) request 0)
          (\<lambda>(mutations, _). Inr mutations)),
      po_risk = risk_Evaluate (wi_Order c) defaultWeights,
      po_policy = policy_Evaluate (wi_Now c) (wi_Policy c),
      po_assigner = Assign (wi_Lanes c),
      po_checks = checks_Publish (Some (worldClient (wi_Checks c))),
      po_runtime = ResolveImpact (wi_Order c) (NewResolver (wi_Decoders c) (wi_Options c)),
      po_store = Some (memoryRepository (wi_Order c) (wi_Now c)),
      po_evidence = Some (UpdateEvidenceExecution (wi_Call c) None
        (memoryService (wi_Order c) (wi_Now c) (Some (Assign (wi_Lanes c))) (Some (Some (wi_Checks c)))))\<rparr>"

lemma onGitHub_keeps:
  "keeps (\<lambda>w. (map_order ord \<and> mem_valid w) \<and> (mem_packets w, mem_evidence w, mr_auditByCPID w) = v) (onGitHub m)"
  unfolding keeps_def onGitHub_def by (auto split: prod.splits)

lemma SaveEvent_keeps:
  "keeps (\<lambda>w. (map_order ord \<and> mem_valid w) \<and> (mem_packets w, mem_evidence w, mr_auditByCPID w) = v) (SaveEvent event)"
  by (auto simp: keeps_def SaveEvent_def mem_valid_def mem_packets_def mem_evidence_def fun_eq_iff)

interpretation program: pipeline "memoryRepository (wi_Order c) (wi_Now c)" "\<lambda>w. map_order (wi_Order c) \<and> mem_valid w"
    mem_packets mem_evidence mr_auditByCPID "NewIngestProcessor c"
  for c :: "'g Wiring"
proof unfold_locales
  show "po_store (NewIngestProcessor c) = Some (memoryRepository (wi_Order c) (wi_Now c))"
    by (simp add: NewIngestProcessor_def)
  fix v event n owner name number packet
  show "keeps (\<lambda>w. (map_order (wi_Order c) \<and> mem_valid w) \<and> (mem_packets w, mem_evidence w, mr_auditByCPID w) = v)
      (po_bus (NewIngestProcessor c) event)"
    by (auto simp: NewIngestProcessor_def recordedBus_def RecordingBus_Publish_def simp del: conj_assoc
        intro!: keeps_bind keeps_wrap onGitHub_keeps SaveEvent_keeps)
  show "keeps (\<lambda>w. (map_order (wi_Order c) \<and> mem_valid w) \<and> (mem_packets w, mem_evidence w, mr_auditByCPID w) = v)
      (gs_GetPullRequest (bindInstallation (po_github (NewIngestProcessor c)) n) owner name number)"
    "keeps (\<lambda>w. (map_order (wi_Order c) \<and> mem_valid w) \<and> (mem_packets w, mem_evidence w, mr_auditByCPID w) = v)
      (gs_GetPullRequestDiff (bindInstallation (po_github (NewIngestProcessor c)) n) owner name number)"
    by (auto simp: NewIngestProcessor_def bindInstallation_def worldService_def onGitHubService_def simp del: conj_assoc
        intro: onGitHub_keeps split: option.splits)
  show "keeps (\<lambda>w. (map_order (wi_Order c) \<and> mem_valid w) \<and> (mem_packets w, mem_evidence w, mr_auditByCPID w) = v)
      (po_checks (NewIngestProcessor c) packet)"
    by (auto simp: NewIngestProcessor_def checks_Publish_def PublishWithEvidence_def boundClient_def worldClient_def Let_def simp del: conj_assoc
        intro: onGitHub_keeps split: option.splits)
qed

lemma processed_assessed:
  assumes "processPROpened env p payload w = (Inr packet, w')"
  shows "assessed env p payload packet"
  using assms assess_assessed by (fastforce simp: processPROpened_assess bindM_ok)

lemma assessed_id:
  assumes "assessed env p payload packet"
  shows "cp_ID packet = ie_PacketID env"
proof -
  obtain q lane t where "packet = q\<lparr>cp_MergeLane := lane, cp_UpdatedAt := t\<rparr>" "cp_ID q = ie_PacketID env"
    using assms unfolding assessed_def Let_def by (elim exE conjE) (auto simp: newPacket_def)
  then show ?thesis by simp
qed

lemma matchesRule_parts:
  assumes "cp_Mutations q = cp_Mutations p" and "cp_Files q = cp_Files p" and "cp_Ownership q = cp_Ownership p"
    and "cp_Runtime q = cp_Runtime p" and "cp_RiskSummary q = cp_RiskSummary p" and "cp_Conflict q = cp_Conflict p"
  shows "matchesRule rule q = matchesRule rule p"
  using assms
  by (simp add: matchesRule_def packetHasAnyMutation_def packetTouchesAnyPath_def packetTouchesOwners_def)

lemma program_decision:
  assumes "assessed env (NewIngestProcessor c) payload packet"
  obtains evaluation q where "cp_Decision packet = ev_Decision evaluation" "cp_Evidence packet = ev_Evidence evaluation"
    "cp_Reviewers packet = ev_Reviewers evaluation" "policy_Evaluate (wi_Now c) (wi_Policy c) q = Inr evaluation"
    "matched (wi_Policy c) q = matched (wi_Policy c) packet"
    "Assign (wi_Lanes c) (packet\<lparr>cp_MergeLane := cp_MergeLane q, cp_UpdatedAt := cp_UpdatedAt q\<rparr>) = Inr (cp_MergeLane packet)"
    "cp_RiskSummary packet = cp_RiskSummary q"
    "\<exists>q' risks. risk_Evaluate (wi_Order c) defaultWeights q' = Inr (cp_RiskSummary packet, risks)"
proof -
  note finish = that
  from assms obtain pr files mutations impact owners summary risks evaluation where
    e: "let p0 = newPacket env payload pr (pw_RepoOwner payload) (pw_RepoName payload) files;
            p2 = p0\<lparr>cp_Mutations := mutations, cp_Runtime := impact, cp_Ownership := owners\<rparr>;
            p3 = p2\<lparr>cp_Conflict := Analyze (ie_Order env) p2\<rparr>;
            p4 = p3\<lparr>cp_RiskSummary := summary, cp_Risks := risks\<rparr>;
            p5 = p4\<lparr>cp_Decision := ev_Decision evaluation, cp_Evidence := ev_Evidence evaluation,
                   cp_Reviewers := ev_Reviewers evaluation, cp_Deployment := ev_Deployment evaluation\<rparr>
        in risk_Evaluate (wi_Order c) defaultWeights p3 = Inr (summary, risks)
           \<and> policy_Evaluate (wi_Now c) (wi_Policy c) p4 = Inr evaluation
           \<and> Assign (wi_Lanes c) p5 = Inr (cp_MergeLane packet)
           \<and> packet = p5\<lparr>cp_MergeLane := cp_MergeLane packet, cp_UpdatedAt := ie_Now env 2\<rparr>"
    unfolding assessed_def Let_def NewIngestProcessor_def Processor.simps by blast
  define p3 where "p3 = (let p2 = (newPacket env payload pr (pw_RepoOwner payload) (pw_RepoName payload) files)
      \<lparr>cp_Mutations := mutations, cp_Runtime := impact, cp_Ownership := owners\<rparr>
      in p2\<lparr>cp_Conflict := Analyze (ie_Order env) p2\<rparr>)"
  define p4 where "p4 = p3\<lparr>cp_RiskSummary := summary, cp_Risks := risks\<rparr>"
  define p5 where "p5 = p4\<lparr>cp_Decision := ev_Decision evaluation, cp_Evidence := ev_Evidence evaluation,
      cp_Reviewers := ev_Reviewers evaluation, cp_Deployment := ev_Deployment evaluation\<rparr>"
  have f: "risk_Evaluate (wi_Order c) defaultWeights p3 = Inr (summary, risks)"
    "policy_Evaluate (wi_Now c) (wi_Policy c) p4 = Inr evaluation" "Assign (wi_Lanes c) p5 = Inr (cp_MergeLane packet)"
    "packet = p5\<lparr>cp_MergeLane := cp_MergeLane packet, cp_UpdatedAt := ie_Now env 2\<rparr>"
    using e unfolding p3_def p4_def p5_def Let_def by blast+
  have same: "cp_Decision packet = ev_Decision evaluation" "cp_Evidence packet = ev_Evidence evaluation"
    "cp_Reviewers packet = ev_Reviewers evaluation" "cp_RiskSummary packet = summary"
    by (subst f(4), simp add: p5_def p4_def)+
  have "matchesRule rule packet = matchesRule rule p4" for rule
    by (rule matchesRule_parts; subst f(4), simp add: p5_def)
  moreover have "packet\<lparr>cp_MergeLane := cp_MergeLane p4, cp_UpdatedAt := cp_UpdatedAt p4\<rparr> = p5"
    by (subst f(4)) (simp add: p5_def)
  ultimately show thesis
    using finish [of evaluation p4] same f(1-3) by (auto simp: matched_def p4_def)
qed

section \<open>Properties\<close>

text \<open>
  C4: a pull request is stored before it is reported, or not at all. Whatever GitHub, the bus and the
  engines do, the pipeline either fails and leaves packets, evidence and audit log as they were, or
  it stores one packet under the new identifier, with every requirement present as evidence whose
  status was pending or is as recorded before, and publishes the check for that packet in a state in
  which it is already stored; only the failure of that publication can still make the call fail.
\<close>

theorem ingest_stored_before_check:
  assumes "map_order (wi_Order c)" and "mem_valid w"
    and "processPROpened env (NewIngestProcessor c) payload w = (r, w')"
  shows "mem_valid w' \<and>
    ((\<exists>e. r = Inl e) \<and> mem_packets w' = mem_packets w \<and> mem_evidence w' = mem_evidence w \<and> mr_auditByCPID w' = mr_auditByCPID w
     \<or> (\<exists>packet w1 published. assessed env (NewIngestProcessor c) payload packet \<and> cp_ID packet = ie_PacketID env
          \<and> mem_packets w1 = (mem_packets w)(cp_ID packet \<mapsto> packet) \<and> mem_packets w' = mem_packets w1
          \<and> checks_Publish (Some (worldClient (wi_Checks c))) packet w1 = (published, w')
          \<and> r = (case published of Inl t \<Rightarrow> Inl (Failed t) | Inr _ \<Rightarrow> Inr packet)
          \<and> mr_auditByCPID w' = mr_auditByCPID w
          \<and> (\<forall>i n. recordedStatus (mem_evidence w' i) n = recordedStatus (mem_evidence w i) n)
          \<and> er_Name ` set (cp_Evidence packet) \<subseteq> dom (mem_evidence w' (cp_ID packet))))"
proof -
  have checks: "po_checks (NewIngestProcessor c) = checks_Publish (Some (worldClient (wi_Checks c)))"
    by (simp add: NewIngestProcessor_def)
  note out = program.processPROpened_outcome [OF conjI [OF assms(1,2)] assms(3), unfolded checks]
  have valid: "mem_valid w'" using conjunct1 [OF out] by simp
  show ?thesis using conjunct2 [OF out]
  proof
    assume "(\<exists>e. r = Inl e) \<and> mem_packets w' = mem_packets w \<and> mem_evidence w' = mem_evidence w \<and> mr_auditByCPID w' = mr_auditByCPID w"
    then show ?thesis using valid by blast
  next
    assume "\<exists>packet w1 published. program.ingested c env payload packet w w1 \<and> program.ingested c env payload packet w w'
         \<and> checks_Publish (Some (worldClient (wi_Checks c))) packet w1 = (published, w')
         \<and> r = (case published of Inl t \<Rightarrow> Inl (Failed t) | Inr _ \<Rightarrow> Inr packet)"
    then obtain packet w1 published where i: "program.ingested c env payload packet w w1"
      "program.ingested c env payload packet w w'"
      and p: "checks_Publish (Some (worldClient (wi_Checks c))) packet w1 = (published, w')"
        "r = (case published of Inl t \<Rightarrow> Inl (Failed t) | Inr _ \<Rightarrow> Inr packet)"
      by (elim exE conjE)
    have a: "assessed env (NewIngestProcessor c) payload packet" using i(1) unfolding program.ingested_def by (rule conjunct1)
    have "recordedStatus (mem_evidence w' i) n = recordedStatus (mem_evidence w i) n" for i n
      using i(2) ensured_recordedStatus unfolding program.ingested_def by (cases "i = cp_ID packet") auto
    moreover have "er_Name ` set (cp_Evidence packet) \<subseteq> dom (mem_evidence w' (cp_ID packet))"
      using i(2) unfolding program.ingested_def ensured_def by auto
    moreover have "mem_packets w1 = (mem_packets w)(cp_ID packet \<mapsto> packet)" "mem_packets w' = mem_packets w1"
      "mr_auditByCPID w' = mr_auditByCPID w"
      using i unfolding program.ingested_def by auto
    ultimately show ?thesis
      using valid a assessed_id [OF a] p by (intro conjI disjI2 exI) (assumption | simp)+
  qed
qed

text \<open>
  C5: the lane of a new packet follows from the policy. A packet that the pipeline puts into the green
  lane matches no rule that demands evidence or a reviewer or that blocks, carries no requirement, and
  scores at most the green threshold; a matched rule with demands puts it at least into the red lane,
  and conflict markers or a block into the black one. Its score is between 0 and 100.
\<close>

theorem ingested_lane_earned:
  assumes "processPROpened env (NewIngestProcessor c) payload w = (Inr packet, w')"
  shows "(cp_MergeLane packet = MergeLaneGreen \<longrightarrow>
        (\<forall>rule \<in> set (matched (wi_Policy c) packet). \<not> demands rule \<and> \<not> blocks rule)
        \<and> cp_Evidence packet = [] \<and> cp_Reviewers packet = [] \<and> pd_Status (cp_Decision packet) = DecisionApproved
        \<and> rs_Score (cp_RiskSummary packet) \<le> lc_GreenMax (wi_Lanes c))
    \<and> ((\<exists>rule \<in> set (matched (wi_Policy c) packet). demands rule) \<longrightarrow> 3 \<le> laneOrder (cp_MergeLane packet))
    \<and> (pd_Status (cp_Decision packet) = DecisionBlocked \<or> ca_RequiresHumanResolution (cp_Conflict packet)
        \<longrightarrow> cp_MergeLane packet = MergeLaneBlack)
    \<and> 0 \<le> rs_Score (cp_RiskSummary packet) \<and> rs_Score (cp_RiskSummary packet) \<le> 100"
proof -
  from program_decision [OF processed_assessed [OF assms]]
  obtain e q where p: "cp_Decision packet = ev_Decision e" "cp_Evidence packet = ev_Evidence e"
    "cp_Reviewers packet = ev_Reviewers e" "policy_Evaluate (wi_Now c) (wi_Policy c) q = Inr e"
    "matched (wi_Policy c) q = matched (wi_Policy c) packet"
    "Assign (wi_Lanes c) (packet\<lparr>cp_MergeLane := cp_MergeLane q, cp_UpdatedAt := cp_UpdatedAt q\<rparr>) = Inr (cp_MergeLane packet)"
    "\<exists>q' risks. risk_Evaluate (wi_Order c) defaultWeights q' = Inr (cp_RiskSummary packet, risks)"
    by metis
  let ?rs = "matched (wi_Policy c) packet"
  let ?q = "packet\<lparr>cp_MergeLane := cp_MergeLane q, cp_UpdatedAt := cp_UpdatedAt q\<rparr>"
  have status: "pd_Status (cp_Decision packet) = finalStatus ?rs"
    and empty: "cp_Reviewers packet = [] \<and> cp_Evidence packet = [] \<longleftrightarrow> (\<forall>r \<in> set ?rs. \<not> demands r)"
    using p(1-5) requirements_empty [of "wi_Now c" ?rs] by (auto simp: policy_Evaluate_Inr fold_status)
  have "(\<forall>rule \<in> set ?rs. \<not> demands rule \<and> \<not> blocks rule) \<and> cp_Evidence packet = [] \<and> cp_Reviewers packet = []
      \<and> pd_Status (cp_Decision packet) = DecisionApproved \<and> rs_Score (cp_RiskSummary packet) \<le> lc_GreenMax (wi_Lanes c)"
    if "cp_MergeLane packet = MergeLaneGreen"
    using Assign_green [of "wi_Lanes c" ?q] p(6) that status empty by (auto simp: finalStatus_def split: if_splits)
  moreover have "3 \<le> laneOrder (cp_MergeLane packet)" if "\<exists>rule \<in> set ?rs. demands rule"
  proof -
    have "undecided ?q \<or> stopped ?q"
      using that status by (auto simp: finalStatus_def undecided_def stopped_def split: if_splits)
    moreover obtain a where a: "absLane (cp_MergeLane packet) = Some a"
      using threshold.assign_total [of "wi_Lanes c" ?q] p(6) by auto
    ultimately show ?thesis
      using threshold.assign_undecided [OF _ p(6) a] threshold.assign_stopped [of ?q "wi_Lanes c"] p(6)
      by (auto simp: laneOrder_absLane Lane_order)
  qed
  moreover have "cp_MergeLane packet = MergeLaneBlack"
    if "pd_Status (cp_Decision packet) = DecisionBlocked \<or> ca_RequiresHumanResolution (cp_Conflict packet)"
    using threshold.assign_stopped [of ?q "wi_Lanes c"] that p(6) by (simp add: stopped_def)
  moreover have "0 \<le> rs_Score (cp_RiskSummary packet) \<and> rs_Score (cp_RiskSummary packet) \<le> 100"
    using p(7) Evaluate_summary(1) clampScore_bounds by metis
  ultimately show ?thesis by blast
qed

section \<open>A sample pipeline\<close>

definition sampleWiring :: "unit Wiring" where
  "sampleWiring =
     \<lparr>wi_Order = rev, wi_Now = 7, wi_Call = sampleEnv, wi_NewID = sampleIDs, wi_Parsers = sampleParsers, wi_External = [],
      wi_Decoders = sampleDecoders, wi_Options = sampleOptions, wi_Policy = \<lparr>pc_Policies = []\<rparr>, wi_Lanes = sampleLanes,
      wi_Bus = (\<lambda>_. retM ()),
      wi_GitHub = \<lparr>bs_Service = NoopService\<lparr>gs_GetPullRequestDiff := (\<lambda>_ _ _. retM [])\<rparr>, bs_ForInstallation = None\<rparr>,
      wi_Checks = \<lparr>cc_PublishCheckRun = (\<lambda>_. retM ()), cc_ForInstallation = None\<rparr>\<rparr>"

definition sampleIngestEnv :: IngestEnv where
  "sampleIngestEnv = \<lparr>ie_Now = (\<lambda>k. 100 + int k), ie_PacketID = ''cp_1'', ie_EventID = (\<lambda>kind. kind),
     ie_CorrelationID = ''d1'', ie_Order = rev\<rparr>"

definition samplePayload :: PullRequestWebhookPayload where
  "samplePayload = \<lparr>pw_Action = ''opened'', pw_InstallationID = 0, pw_RepoName = ''app'', pw_RepoFullName = ''acme/app'',
     pw_RepoOwner = ''acme'', pw_Number = 3, pw_Title = ''t'', pw_Body = [], pw_HTMLURL = [], pw_HeadSHA = ''abc'',
     pw_BaseSHA = ''def'', pw_UserLogin = ''dev'', pw_UserType = ''User''\<rparr>"

lemma sample_engines:
  "ParseUnified [] = Inr []"
  "Classify rev sampleIDs (DefaultEngineWithExternal sampleParsers sampleIDs []) \<lparr>aq_Repo = repo, aq_Ref = ref, aq_Files = [],
     aq_Content = content\<rparr> 0 = Inr ([], 0)"
  "Validate \<lparr>pc_Policies = []\<rparr> = Inr ()"
  by (code_simp, simp add: Classify_def range_map_def, code_simp)

lemma sample_runtime:
  "cp_Files packet = [] \<Longrightarrow> \<exists>impact owners. ResolveImpact rev (NewResolver sampleDecoders sampleOptions)
     \<lparr>in_Packet = packet, in_Ref = ref, in_Loader = loader, in_Options = options\<rparr> = Inr (impact, owners)"
  by (simp add: NewResolver_def sampleOptions_def ResolveImpact_def repositoryTopologySource_def manifestSource_def Let_def
      split: prod.split)

lemma sample_total: "\<exists>lane. Assign sampleLanes packet = Inr lane"
  using threshold.assign_total [of sampleLanes packet] by blast

lemma sample_publishes: "\<exists>w'. publishEvent env (NewIngestProcessor sampleWiring) kind source payload w = (Inr (), w')"
  by (simp add: publishEvent_def NewIngestProcessor_def sampleWiring_def recordedBus_def RecordingBus_Publish_def
      onGitHub_def SaveEvent_def wrapM_def bindM_def)

lemma sample_built:
  "\<exists>packet w'. buildChangePacket env (NewIngestProcessor sampleWiring) payload pr
     (bindInstallation (po_github (NewIngestProcessor sampleWiring)) n) owner name number w = (Inr packet, w') \<and> cp_Files packet = []"
  unfolding buildChangePacket_def using sample_publishes
  by (fastforce simp: bindM_ok wrapM_ok NewIngestProcessor_def sampleWiring_def worldService_def onGitHubService_def
      bindInstallation_def onGitHub_def sample_engines mapChangedFiles_def mapError_Inr Let_def)

lemma sample_enriched:
  assumes "cp_Files packet = []"
  shows "\<exists>packet' w'. enrichMutations env (NewIngestProcessor sampleWiring) service owner name packet w = (Inr packet', w')
      \<and> cp_Files packet' = []"
    and "\<exists>packet' w'. enrichRuntimeImpact (NewIngestProcessor sampleWiring) service owner name packet w = (Inr packet', w')"
  unfolding enrichMutations_def enrichRuntimeImpact_def publishMutations_def Let_def
  using sample_publishes sample_runtime [OF assms] assms
  by (fastforce simp: bindM_ok mapError_Inr NewIngestProcessor_def sampleWiring_def sample_engines)+

lemma sample_risk:
  "\<exists>packet' w'. enrichRisk env (NewIngestProcessor sampleWiring) packet w = (Inr packet', w')"
proof -
  obtain summary risks where "po_risk (NewIngestProcessor sampleWiring)
      (packet\<lparr>cp_Conflict := Analyze (ie_Order env) packet\<rparr>) = Inr (summary, risks)"
    using risk_Evaluate_total by (fastforce simp: NewIngestProcessor_def)
  then show ?thesis
    using sample_publishes by (fastforce simp: enrichRisk_def publishRisk_def Let_def bindM_ok mapError_Inr)
qed

lemma sample_judged:
  "\<exists>packet' w'. applyPolicy (NewIngestProcessor sampleWiring) packet w = (Inr packet', w')"
  "\<exists>packet' w'. assignMergeLane env (NewIngestProcessor sampleWiring) packet w = (Inr packet', w')"
  using sample_total sample_engines(3)
  by (fastforce simp: applyPolicy_def assignMergeLane_def bindM_ok mapError_Inr NewIngestProcessor_def sampleWiring_def
      policy_Evaluate_Inr)+

lemma sample_finalized: "\<exists>w'. finalize env (NewIngestProcessor sampleWiring) packet w = (Inr (), w')"
proof -
  let ?p = "NewIngestProcessor sampleWiring"
  have "\<exists>w'. wrapM Failed (po_checks ?p packet) u = (Inr (), w')" for u
    by (simp add: NewIngestProcessor_def sampleWiring_def checks_Publish_def PublishWithEvidence_def boundClient_def
        worldClient_def onGitHub_def wrapM_def)
  moreover have "\<exists>w'. (case po_store ?p of None \<Rightarrow> retM () | Some store \<Rightarrow> wrapM StoreFailure (rp_SaveChangePacket store packet)) u
      = (Inr (), w')" for u
    by (simp add: NewIngestProcessor_def memoryRepository_def SaveChangePacket_def wrapM_def)
  moreover have "\<exists>w'. (if length (pd_Violations (cp_Decision packet)) > 0
      then publishViolations env ?p (pd_Violations (cp_Decision packet)) else retM ()) u = (Inr (), w')" for u
    using sample_publishes by (simp add: publishViolations_def)
  moreover have "\<exists>w'. publishLane env ?p (cp_ID packet) (cp_MergeLane packet) u = (Inr (), w')" for u
    using sample_publishes by (simp add: publishLane_def)
  ultimately show ?thesis unfolding finalize_def bindM_ok by metis
qed

lemma sample_processed: "\<exists>packet w'. processPROpened sampleIngestEnv (NewIngestProcessor sampleWiring) samplePayload
    (initialWorld ()) = (Inr packet, w')"
proof -
  have "\<exists>w'. publishPROpened env (NewIngestProcessor sampleWiring) name number action w = (Inr (), w')" for env name number action w
    using sample_publishes by (simp add: publishPROpened_def)
  moreover have "\<exists>pr w'. fetchPullRequest service owner name number payload w = (Inr pr, w')"
    for service :: "unit World GitHubService" and owner name number payload w
    by (auto simp: fetchPullRequest_def split: prod.split sum.split)
  ultimately show ?thesis
    unfolding processPROpened_def Let_def bindM_ok io_simps
    using sample_built sample_enriched sample_risk sample_judged sample_finalized by metis
qed

theorem ingest_stored_before_check_witness:
  "\<exists>packet w'. processPROpened sampleIngestEnv (NewIngestProcessor sampleWiring) samplePayload (initialWorld ()) = (Inr packet, w')
     \<and> mem_packets w' = [''cp_1'' \<mapsto> packet]"
proof -
  obtain packet w' where u: "processPROpened sampleIngestEnv (NewIngestProcessor sampleWiring) samplePayload
      (initialWorld ()) = (Inr packet, w')"
    using sample_processed by blast
  have "map_order (wi_Order sampleWiring)" by (simp add: sampleWiring_def map_order_rev)
  from ingest_stored_before_check [OF this initialWorld_facts(1) u]
  obtain q published where "mem_packets w' = (mem_packets (initialWorld ()))(ie_PacketID sampleIngestEnv \<mapsto> q)"
    and "(Inr packet :: IngestError + _) = (case published of Inl t \<Rightarrow> Inl (Failed t) | Inr (_ :: unit) \<Rightarrow> Inr q)"
    by (elim conjE disjE exE) auto
  then have "mem_packets w' = (mem_packets (initialWorld ()))(ie_PacketID sampleIngestEnv \<mapsto> packet)"
    by (cases published) auto
  then show ?thesis using u by (simp add: sampleIngestEnv_def initialWorld_def mem_packets_def)
qed

theorem ingested_lane_earned_witness:
  "\<exists>packet w'. processPROpened sampleIngestEnv (NewIngestProcessor sampleWiring) samplePayload (initialWorld ()) = (Inr packet, w')
     \<and> rs_Score (cp_RiskSummary packet) \<le> 100"
  using sample_processed ingested_lane_earned by blast

end
