(* ===== verification/Files.thy ===== *)
theory Files
  imports GoStrings
begin

text \<open>
  What the local commands use of the file system: reading a file and asking whether a path is a
  directory are arguments of the model; \<open>Clean\<close> and \<open>JoinPath\<close> are \<^verbatim>\<open>filepath.Clean\<close> and
  \<^verbatim>\<open>filepath.Join\<close> where the separator is the slash.
\<close>

record FileSystem =
  fs_ReadFile :: "string \<Rightarrow> string + string"
  fs_Stat :: "string \<Rightarrow> string + bool" \<comment> \<open>an error, or whether the path is a directory\<close>

definition fileExists :: "FileSystem \<Rightarrow> string \<Rightarrow> bool" where
  "fileExists fs path = (case fs_Stat fs path of Inl _ \<Rightarrow> False | Inr isDir \<Rightarrow> \<not> isDir)"

section \<open>Paths\<close>

definition cleanStep :: "bool \<Rightarrow> string list \<Rightarrow> string \<Rightarrow> string list" where
  \<comment> \<open>the elements so far, the last one first\<close>
  "cleanStep rooted out part =
     (if part = [] \<or> part = ''.'' then out
      else if part = ''..'' then
        (if out \<noteq> [] \<and> hd out \<noteq> ''..'' then tl out else if rooted then out else ''..'' # out)
      else part # out)"

definition Clean :: "string \<Rightarrow> string" where
  "Clean path =
     (let rooted = HasPrefix path ''/'';
          out = rev (foldl (cleanStep rooted) [] (Split path CHR ''/''))
      in if rooted then ''/'' @ Join out ''/'' else if out = [] then ''.'' else Join out ''/'')"

definition JoinPath :: "string list \<Rightarrow> string" where
  "JoinPath elems = (case dropWhile (\<lambda>e. e = []) elems of [] \<Rightarrow> [] | es \<Rightarrow> Clean (Join es ''/''))"

text \<open>A path that only descends stays below its directory: no element is taken away again.\<close>

definition descends :: "string \<Rightarrow> bool" where
  "descends path \<longleftrightarrow> ''..'' \<notin> set (Split path CHR ''/'')"

lemma cleanStep_descends:
  "''..'' \<notin> set parts \<Longrightarrow>
     foldl (cleanStep rooted) out parts = rev (filter (\<lambda>p. p \<noteq> [] \<and> p \<noteq> ''.'') parts) @ out"
  by (induction parts arbitrary: out) (auto simp: cleanStep_def)

end
