(* ===== verification/Scan.thy ===== *)
theory Scan
  imports Pipeline Files
begin

text \<open>
  The offline scan, \<open>internal/scan/scan.go\<close> and \<open>pkg/merger/scan.go\<close>: the same engines as the service,
  run on a diff and a working copy, with the conflict analysis before the runtime resolution instead of
  after it. The clock, the generated identifiers, the decoders and the iteration order of Go maps are
  fields of \<open>ScanEnv\<close>.
\<close>

section \<open>The scan\<close>

record ScanOptions =
  so_Diff :: string
  so_RepoRoot :: string
  so_Repo :: RepoRef
  so_Ref :: string
  so_BaseSHA :: string
  so_CurrentBaseSHA :: string
  so_Title :: string
  so_Author :: Author
  so_Policy :: PolicyConfig
  so_Lanes :: LanesConfig
  so_EnableCodeOwners :: bool

record ScanEnv =
  sc_Order :: key_order
  sc_Now :: "nat \<Rightarrow> time"
  sc_PolicyNow :: time
  sc_PacketID :: string
  sc_NewID :: "nat \<Rightarrow> string"
  sc_Parsers :: Parsers
  sc_Decoders :: Decoders
  sc_Files :: FileSystem

datatype ScanError =
    ScanParse string
  | ScanClassify AnalyzerError
  | ScanRuntime string
  | ScanRisk string
  | ScanPolicy PolicyError
  | ScanLane string

definition fsContentLoader :: "FileSystem \<Rightarrow> string \<Rightarrow> string \<Rightarrow> string + string" where
  \<comment> \<open>an unreadable file counts as empty\<close>
  "fsContentLoader fs rootDir path =
     (if rootDir = [] then Inr []
      else case fs_ReadFile fs (JoinPath [rootDir, path]) of Inl _ \<Rightarrow> Inr [] | Inr data \<Rightarrow> Inr data)"

definition scanPacket :: "ScanEnv \<Rightarrow> ScanOptions \<Rightarrow> File list \<Rightarrow> ChangePacket" where
  "scanPacket env opts parsed =
     (let packet = zeroChangePacket\<lparr>cp_ID := sc_PacketID env, cp_Repo := so_Repo opts,
            cp_PR := zeroPullRequestRef\<lparr>pr_HeadSHA := so_Ref opts, pr_BaseSHA := so_BaseSHA opts\<rparr>,
            cp_Author := so_Author opts, cp_Title := so_Title opts, cp_Source := ''cli.scan'',
            cp_Files := mapChangedFiles parsed, cp_MergeLane := MergeLaneYellow,
            cp_Decision := zeroPolicyDecision\<lparr>pd_Status := DecisionPending\<rparr>,
            cp_Deployment := zeroDeploymentRequirement\<lparr>dr_Strategy := DeployDirect\<rparr>,
            cp_CreatedAt := sc_Now env 0, cp_UpdatedAt := sc_Now env 0\<rparr>
      in if so_CurrentBaseSHA opts \<noteq> []
         then packet\<lparr>cp_Metadata := [(''current_base_sha'', so_CurrentBaseSHA opts)]\<rparr> else packet)"

definition scan_Run :: "ScanEnv \<Rightarrow> ScanOptions \<Rightarrow> ScanError + ChangePacket" where
  "scan_Run env opts =
     bindE (mapError ScanParse (ParseUnified (so_Diff opts))) (\<lambda>parsed.
     let packet = scanPacket env opts parsed;
         loader = fsContentLoader (sc_Files env) (so_RepoRoot opts)
     in bindE (mapError ScanClassify (Classify (sc_Order env) (sc_NewID env)
            (DefaultEngine (sc_Parsers env) (sc_NewID env))
            \<lparr>aq_Repo = cp_Repo packet, aq_Ref = so_Ref opts, aq_Files = cp_Files packet, aq_Content = Some loader\<rparr> 0))
          (\<lambda>(mutationList, _).
        let packet = packet\<lparr>cp_Mutations := mutationList\<rparr>;
            packet = packet\<lparr>cp_Conflict := Analyze (sc_Order env) packet\<rparr>
        in bindE (mapError ScanRuntime (ResolveImpact (sc_Order env)
               (NewResolver (sc_Decoders env) (zeroOptions\<lparr>op_EnableCodeOwners := so_EnableCodeOwners opts\<rparr>))
               \<lparr>in_Packet = packet, in_Ref = so_Ref opts, in_Loader = Some loader, in_Options = zeroOptions\<rparr>))
             (\<lambda>(runtimeImpact, ownership).
           let packet = packet\<lparr>cp_Runtime := runtimeImpact, cp_Ownership := ownership\<rparr>
           in bindE (mapError ScanRisk (risk_Evaluate (sc_Order env) defaultWeights packet)) (\<lambda>(riskSummary, risks).
              let packet = packet\<lparr>cp_RiskSummary := riskSummary, cp_Risks := risks\<rparr>
              in bindE (mapError ScanPolicy (policy_Evaluate (sc_PolicyNow env) (so_Policy opts) packet)) (\<lambda>evaluation.
                 let packet = packet\<lparr>cp_Decision := ev_Decision evaluation, cp_Evidence := ev_Evidence evaluation,
                       cp_Reviewers := ev_Reviewers evaluation, cp_Deployment := ev_Deployment evaluation\<rparr>
                 in bindE (mapError ScanLane (Assign (so_Lanes opts) packet)) (\<lambda>mergeLane.
                    Inr (packet\<lparr>cp_MergeLane := mergeLane, cp_UpdatedAt := sc_Now env 1\<rparr>)))))))"

section \<open>What each engine reads of a packet\<close>

lemma Analyze_parts:
  assumes "cp_Files q = cp_Files p" and "pr_BaseSHA (cp_PR q) = pr_BaseSHA (cp_PR p)"
    and "mapGet (cp_Metadata q) currentBaseSHAMetadataKey = mapGet (cp_Metadata p) currentBaseSHAMetadataKey"
  shows "Analyze ord q = Analyze ord p"
  using assms by (simp add: Analyze_def)

lemma risk_parts:
  assumes "cp_Mutations q = cp_Mutations p" and "cp_Conflict q = cp_Conflict p" and "cp_Runtime q = cp_Runtime p"
    and "cp_Files q = cp_Files p"
  shows "risk_Evaluate ord w q = risk_Evaluate ord w p"
  using assms by (simp add: risk_Evaluate_def collectRisks_def Let_def)

lemma policy_parts:
  assumes "cp_Mutations q = cp_Mutations p" and "cp_Files q = cp_Files p" and "cp_Ownership q = cp_Ownership p"
    and "cp_Runtime q = cp_Runtime p" and "cp_RiskSummary q = cp_RiskSummary p" and "cp_Conflict q = cp_Conflict p"
  shows "policy_Evaluate now config q = policy_Evaluate now config p"
  by (simp add: policy_Evaluate_def matchesRule_parts [OF assms])

lemma Assign_parts:
  assumes "cp_Decision q = cp_Decision p" and "cp_Conflict q = cp_Conflict p" and "cp_RiskSummary q = cp_RiskSummary p"
    and "cp_Reviewers q = cp_Reviewers p" and "cp_Deployment q = cp_Deployment p"
  shows "Assign cfg q = Assign cfg p"
  using assms by (simp add: Assign_def forcedLane_def requiresEscalatedReview_def Let_def)

section \<open>What the engines read of the repository\<close>

lemma classifyFiles_content:
  assumes "aq_Repo r = aq_Repo s" and "aq_Ref r = aq_Ref s"
    and "\<And>path. loadContent (aq_Content r) path = loadContent (aq_Content s) path"
  shows "classifyFiles newID e r files st = classifyFiles newID e s files st"
proof (induction files arbitrary: st)
  case (Cons f fs)
  have "classifyFile newID e r f st = classifyFile newID e s f st"
    by (simp add: classifyFile_def assms)
  moreover have "classifyFiles newID e r fs = classifyFiles newID e s fs" using Cons.IH by blast
  ultimately show ?case by simp
qed simp

lemma Classify_content:
  assumes "aq_Repo r = aq_Repo s" and "aq_Ref r = aq_Ref s" and "aq_Files r = aq_Files s"
    and "\<And>path. loadContent (aq_Content r) path = loadContent (aq_Content s) path"
  shows "Classify ord newID e r n = Classify ord newID e s n"
  unfolding Classify_def assms(3) classifyFiles_content [OF assms(1,2,4)] ..

lemma DefaultEngineWithExternal_Nil: "DefaultEngineWithExternal parsers newID [] = DefaultEngine parsers newID"
  by (simp add: DefaultEngineWithExternal_def DefaultEngine_def)

definition sameRepository :: "ResolutionInput \<Rightarrow> ResolutionInput \<Rightarrow> bool" where
  "sameRepository i j \<longleftrightarrow>
     cp_Files (in_Packet i) = cp_Files (in_Packet j) \<and> in_Options i = zeroOptions \<and> in_Options j = zeroOptions
     \<and> (in_Loader i = None \<longleftrightarrow> in_Loader j = None)
     \<and> (\<forall>path. loadContent (in_Loader i) path = loadContent (in_Loader j) path)"

lemma manifestStep_content:
  assumes "sameRepository i j"
  shows "manifestStep dec i fragment file = manifestStep dec j fragment file"
proof (cases "in_Loader i")
  case (Some load)
  moreover obtain load' where "in_Loader j = Some load'" using assms Some by (auto simp: sameRepository_def)
  moreover have "loadContent (in_Loader i) (cf_Path file) = loadContent (in_Loader j) (cf_Path file)"
    using assms by (simp add: sameRepository_def)
  ultimately show ?thesis
    by (auto simp: manifestStep_def loadContent_def Let_def split: sum.splits)
next
  case None
  moreover have "in_Loader j = None" using assms None by (simp add: sameRepository_def)
  ultimately show ?thesis by (simp add: manifestStep_def Let_def)
qed

lemma codeOwners_content:
  assumes "sameRepository i j"
  shows "codeOwnersSource dec i = codeOwnersSource dec j"
proof (cases "in_Loader i")
  case (Some load)
  moreover obtain load' where "in_Loader j = Some load'" using assms Some by (auto simp: sameRepository_def)
  moreover have "loadContent (in_Loader i) path = loadContent (in_Loader j) path" for path
    using assms by (simp add: sameRepository_def)
  ultimately have "(case load path of Inl _ \<Rightarrow> [] | Inr c \<Rightarrow> c) = (case load' path of Inl _ \<Rightarrow> [] | Inr c \<Rightarrow> c)" for path
    by (simp add: loadContent_def)
  then show ?thesis
    using assms Some \<open>in_Loader j = Some load'\<close> by (simp add: codeOwnersSource_def sameRepository_def Let_def)
next
  case None
  moreover have "in_Loader j = None" using assms None by (simp add: sameRepository_def)
  ultimately show ?thesis by (simp add: codeOwnersSource_def)
qed

lemma sources_content:
  assumes "sameRepository i j"
  shows "repositoryTopologySource dec i = repositoryTopologySource dec j"
    and "manifestSource dec i = manifestSource dec j"
    and "graphManifestSource dec i = Inr zeroFragment"
proof -
  have "manifestStep dec i = manifestStep dec j" using manifestStep_content [OF assms] by blast
  then show "repositoryTopologySource dec i = repositoryTopologySource dec j"
    and "manifestSource dec i = manifestSource dec j"
    and "graphManifestSource dec i = Inr zeroFragment"
    using assms
    by (simp_all add: repositoryTopologySource_def manifestSource_def graphManifestSource_def sameRepository_def
        zeroOptions_def split: option.splits)
qed

lemma mergeFragment_zero [simp]: "mergeFragment options st zeroFragment = st"
proof -
  have "\<not> criticalityRank [] > criticalityRank c" for c
    using criticalityRank_bounds [of c] by (simp add: criticalityRank_def domain_consts)
  then show ?thesis
    by (cases st) (simp add: mergeFragment_def zeroFragment_def indexSystems_def indexOwners_def promoteCriticality_def)
qed

lemma mergeSources_resolver:
  assumes "sameRepository i j" and "op_EnableCodeOwners o1 = op_EnableCodeOwners o2"
  shows "mergeSources i (NewResolver dec o1) st = mergeSources j (NewResolver dec o2) st"
proof -
  have o: "in_Options i = in_Options j" using assms(1) by (simp add: sameRepository_def)
  have j: "sameRepository j j" using assms(1) by (simp add: sameRepository_def)
  show ?thesis
    using assms(2) o codeOwners_content [OF assms(1), of dec]
    by (simp add: NewResolver_def sources_content(1,2) [OF assms(1)] sources_content(3) [OF assms(1)] sources_content(3) [OF j])
qed

lemma ResolveImpact_repository:
  assumes "sameRepository i j" and "op_EnableCodeOwners o1 = op_EnableCodeOwners o2"
  shows "ResolveImpact ord (NewResolver dec o1) i = ResolveImpact ord (NewResolver dec o2) j"
  by (simp add: ResolveImpact_def mergeSources_resolver [OF assms])

section \<open>The scan and the service\<close>

definition sameAssessment :: "ChangePacket \<Rightarrow> ChangePacket \<Rightarrow> bool" where
  "sameAssessment p q \<longleftrightarrow>
     cp_Files p = cp_Files q \<and> cp_Mutations p = cp_Mutations q \<and> cp_Conflict p = cp_Conflict q
     \<and> cp_Runtime p = cp_Runtime q \<and> cp_Ownership p = cp_Ownership q
     \<and> cp_RiskSummary p = cp_RiskSummary q \<and> cp_Risks p = cp_Risks q
     \<and> cp_Decision p = cp_Decision q \<and> cp_Evidence p = cp_Evidence q \<and> cp_Reviewers p = cp_Reviewers q
     \<and> cp_Deployment p = cp_Deployment q \<and> cp_MergeLane p = cp_MergeLane q"

text \<open>The scan is configured like the service and makes the same choices where Go makes one.\<close>

definition sameSettings :: "'g Wiring \<Rightarrow> IngestEnv \<Rightarrow> ScanEnv \<Rightarrow> ScanOptions \<Rightarrow> bool" where
  "sameSettings c ienv env opts \<longleftrightarrow>
     wi_External c = [] \<and> so_Policy opts = wi_Policy c \<and> so_Lanes opts = wi_Lanes c
     \<and> so_EnableCodeOwners opts = op_EnableCodeOwners (wi_Options c)
     \<and> sc_Order env = wi_Order c \<and> ie_Order ienv = wi_Order c \<and> sc_PolicyNow env = wi_Now c
     \<and> sc_NewID env = wi_NewID c \<and> sc_Parsers env = wi_Parsers c \<and> sc_Decoders env = wi_Decoders c"

text \<open>It looks at the same change: repository, revisions, diff and file contents.\<close>

definition sameChange ::
  "'g Wiring \<Rightarrow> PullRequestWebhookPayload \<Rightarrow> ChangePacket \<Rightarrow> ScanEnv \<Rightarrow> ScanOptions \<Rightarrow> bool" where
  "sameChange c payload packet env opts \<longleftrightarrow>
     so_Repo opts = cp_Repo packet \<and> so_Ref opts = pr_HeadSHA (cp_PR packet)
     \<and> so_BaseSHA opts = pr_BaseSHA (cp_PR packet) \<and> so_CurrentBaseSHA opts = []
     \<and> (\<exists>files. ParseUnified (so_Diff opts) = Inr files \<and> mapChangedFiles files = cp_Files packet)
     \<and> (\<forall>w path. loadContent (Some (githubContentLoader
            (bindInstallation (po_github (NewIngestProcessor c)) (pw_InstallationID payload))
            (pw_RepoOwner payload) (pw_RepoName payload) (so_Ref opts) w)) path
          = loadContent (Some (fsContentLoader (sc_Files env) (so_RepoRoot opts))) path)"

lemma assessed_fields:
  assumes "assessed env p payload packet"
  shows "\<exists>diff files pr. ParseUnified diff = Inr files \<and> cp_Files packet = mapChangedFiles files
    \<and> cp_Repo packet = cp_Repo (newPacket env payload pr (pw_RepoOwner payload) (pw_RepoName payload) files)
    \<and> cp_PR packet = cp_PR (newPacket env payload pr (pw_RepoOwner payload) (pw_RepoName payload) files)"
proof -
  obtain pr diff files q lane t where "ParseUnified diff = Inr files"
    "packet = q\<lparr>cp_MergeLane := lane, cp_UpdatedAt := t\<rparr>"
    "cp_Files q = mapChangedFiles files"
    "cp_Repo q = cp_Repo (newPacket env payload pr (pw_RepoOwner payload) (pw_RepoName payload) files)"
    "cp_PR q = cp_PR (newPacket env payload pr (pw_RepoOwner payload) (pw_RepoName payload) files)"
    using assms unfolding assessed_def Let_def by (elim exE conjE) auto
  then show ?thesis by (intro exI [of _ diff] exI [of _ files] exI [of _ pr]) simp
qed

text \<open>The stages of a packet from its first form and the results of the engines.\<close>

definition stages ::
  "ChangePacket \<Rightarrow> Mutation list \<Rightarrow> RuntimeImpact \<times> OwnershipBoundary list \<Rightarrow> ConflictAssessment
     \<Rightarrow> RiskSummary \<times> Risk list \<Rightarrow> Evaluation \<Rightarrow> ChangePacket \<times> ChangePacket \<times> ChangePacket" where
  "stages p mutations impact conflict risk evaluation =
     (let p3 = p\<lparr>cp_Mutations := mutations, cp_Runtime := fst impact, cp_Ownership := snd impact, cp_Conflict := conflict\<rparr>;
          p4 = p3\<lparr>cp_RiskSummary := fst risk, cp_Risks := snd risk\<rparr>
      in (p3, p4, p4\<lparr>cp_Decision := ev_Decision evaluation, cp_Evidence := ev_Evidence evaluation,
                  cp_Reviewers := ev_Reviewers evaluation, cp_Deployment := ev_Deployment evaluation\<rparr>))"

lemma stages_agree:
  assumes "stages p ms impact conflict risk e = (p3, p4, p5)" and "stages q ms impact conflict risk e = (q3, q4, q5)"
    and "cp_Files q = cp_Files p"
  shows "risk_Evaluate ord w q3 = risk_Evaluate ord w p3"
    and "policy_Evaluate now config q4 = policy_Evaluate now config p4"
    and "Assign cfg q5 = Assign cfg p5"
    and "sameAssessment (q5\<lparr>cp_MergeLane := lane, cp_UpdatedAt := t\<rparr>) (p5\<lparr>cp_MergeLane := lane, cp_UpdatedAt := t'\<rparr>)"
proof -
  have e: "p3 = fst (stages p ms impact conflict risk e)" "p4 = fst (snd (stages p ms impact conflict risk e))"
    "p5 = snd (snd (stages p ms impact conflict risk e))" "q3 = fst (stages q ms impact conflict risk e)"
    "q4 = fst (snd (stages q ms impact conflict risk e))" "q5 = snd (snd (stages q ms impact conflict risk e))"
    using assms(1,2) by simp_all
  show "risk_Evaluate ord w q3 = risk_Evaluate ord w p3"
    by (rule risk_parts) (simp_all add: e stages_def Let_def assms(3))
  show "policy_Evaluate now config q4 = policy_Evaluate now config p4"
    by (rule policy_parts) (simp_all add: e stages_def Let_def assms(3))
  show "Assign cfg q5 = Assign cfg p5"
    by (rule Assign_parts) (simp_all add: e stages_def Let_def)
  show "sameAssessment (q5\<lparr>cp_MergeLane := lane, cp_UpdatedAt := t\<rparr>) (p5\<lparr>cp_MergeLane := lane, cp_UpdatedAt := t'\<rparr>)"
    by (simp add: sameAssessment_def e stages_def Let_def assms(3))
qed

lemma scan_Run_stages:
  assumes "ParseUnified (so_Diff opts) = Inr files"
    and "Classify (sc_Order env) (sc_NewID env) (DefaultEngine (sc_Parsers env) (sc_NewID env))
      \<lparr>aq_Repo = so_Repo opts, aq_Ref = so_Ref opts, aq_Files = mapChangedFiles files,
       aq_Content = Some (fsContentLoader (sc_Files env) (so_RepoRoot opts))\<rparr> 0 = Inr (ms, n)"
    and "conflict = Analyze (sc_Order env) ((scanPacket env opts files)\<lparr>cp_Mutations := ms\<rparr>)"
    and "ResolveImpact (sc_Order env)
      (NewResolver (sc_Decoders env) (zeroOptions\<lparr>op_EnableCodeOwners := so_EnableCodeOwners opts\<rparr>))
      \<lparr>in_Packet = (scanPacket env opts files)\<lparr>cp_Mutations := ms, cp_Conflict := conflict\<rparr>, in_Ref = so_Ref opts,
       in_Loader = Some (fsContentLoader (sc_Files env) (so_RepoRoot opts)), in_Options = zeroOptions\<rparr> = Inr impact"
    and "stages (scanPacket env opts files) ms impact conflict risk e = (q3, q4, q5)"
    and "risk_Evaluate (sc_Order env) defaultWeights q3 = Inr risk"
    and "policy_Evaluate (sc_PolicyNow env) (so_Policy opts) q4 = Inr e"
    and "Assign (so_Lanes opts) q5 = Inr lane"
  shows "scan_Run env opts = Inr (q5\<lparr>cp_MergeLane := lane, cp_UpdatedAt := sc_Now env 1\<rparr>)"
proof -
  let ?p = "scanPacket env opts files"
  have f: "cp_Repo ?p = so_Repo opts" "cp_Files ?p = mapChangedFiles files" by (simp_all add: scanPacket_def Let_def)
  have q: "q3 = ?p\<lparr>cp_Mutations := ms, cp_Conflict := conflict, cp_Runtime := fst impact, cp_Ownership := snd impact\<rparr>"
    "q4 = q3\<lparr>cp_RiskSummary := fst risk, cp_Risks := snd risk\<rparr>"
    "q5 = q4\<lparr>cp_Decision := ev_Decision e, cp_Evidence := ev_Evidence e, cp_Reviewers := ev_Reviewers e,
       cp_Deployment := ev_Deployment e\<rparr>"
    using assms(5) by (auto simp: stages_def Let_def)
  have r: "risk_Evaluate (sc_Order env) defaultWeights (?p\<lparr>cp_Mutations := ms, cp_Conflict := conflict,
      cp_Runtime := fst impact, cp_Ownership := snd impact\<rparr>) = Inr risk"
    using assms(6) q(1) by simp
  show ?thesis
    unfolding scan_Run_def Let_def f assms(1,2) bindE_simps mapError_simps prod.case assms(3) [symmetric] assms(4)
    using r assms(7,8) by (simp add: q case_prod_beta)
qed

lemma program_stages:
  assumes "assessed ienv (NewIngestProcessor c) payload packet"
  obtains pr files w1 w2 ms n impact conflict risk e p3 p4 p5 where
    "cp_Files packet = mapChangedFiles files"
    "Classify (wi_Order c) (wi_NewID c) (DefaultEngineWithExternal (wi_Parsers c) (wi_NewID c) (wi_External c))
       \<lparr>aq_Repo = cp_Repo packet, aq_Ref = pr_HeadSHA (cp_PR packet), aq_Files = mapChangedFiles files,
        aq_Content = Some (githubContentLoader (bindInstallation (po_github (NewIngestProcessor c)) (pw_InstallationID payload))
          (pw_RepoOwner payload) (pw_RepoName payload) (pr_HeadSHA (cp_PR packet)) w1)\<rparr> 0 = Inr (ms, n)"
    "conflict = Analyze (ie_Order ienv) (newPacket ienv payload pr (pw_RepoOwner payload) (pw_RepoName payload) files)"
    "pr_BaseSHA (cp_PR packet) = gq_BaseSHA pr"
    "ResolveImpact (wi_Order c) (NewResolver (wi_Decoders c) (wi_Options c))
       \<lparr>in_Packet = (newPacket ienv payload pr (pw_RepoOwner payload) (pw_RepoName payload) files)\<lparr>cp_Mutations := ms\<rparr>,
        in_Ref = pr_HeadSHA (cp_PR packet),
        in_Loader = Some (githubContentLoader (bindInstallation (po_github (NewIngestProcessor c)) (pw_InstallationID payload))
          (pw_RepoOwner payload) (pw_RepoName payload) (pr_HeadSHA (cp_PR packet)) w2), in_Options = zeroOptions\<rparr> = Inr impact"
    "stages (newPacket ienv payload pr (pw_RepoOwner payload) (pw_RepoName payload) files) ms impact conflict risk e = (p3, p4, p5)"
    "risk_Evaluate (wi_Order c) defaultWeights p3 = Inr risk"
    "policy_Evaluate (wi_Now c) (wi_Policy c) p4 = Inr e"
    "Assign (wi_Lanes c) p5 = Inr (cp_MergeLane packet)"
    "packet = p5\<lparr>cp_MergeLane := cp_MergeLane packet, cp_UpdatedAt := ie_Now ienv 2\<rparr>"
proof -
  note finish = that
  let ?service = "bindInstallation (po_github (NewIngestProcessor c)) (pw_InstallationID payload)"
  from assms obtain pr diff files w1 w2 ms impact owners summary risks e where
    a: "let loader = githubContentLoader ?service (pw_RepoOwner payload) (pw_RepoName payload) (gq_HeadSHA pr);
            p0 = newPacket ienv payload pr (pw_RepoOwner payload) (pw_RepoName payload) files;
            p2 = p0\<lparr>cp_Mutations := ms, cp_Runtime := impact, cp_Ownership := owners\<rparr>;
            p3 = p2\<lparr>cp_Conflict := Analyze (ie_Order ienv) p2\<rparr>;
            p4 = p3\<lparr>cp_RiskSummary := summary, cp_Risks := risks\<rparr>;
            p5 = p4\<lparr>cp_Decision := ev_Decision e, cp_Evidence := ev_Evidence e,
                   cp_Reviewers := ev_Reviewers e, cp_Deployment := ev_Deployment e\<rparr>
        in po_mutations (NewIngestProcessor c) \<lparr>aq_Repo = cp_Repo p0, aq_Ref = gq_HeadSHA pr,
              aq_Files = mapChangedFiles files, aq_Content = Some (loader w1)\<rparr> = Inr ms
           \<and> ResolveImpact (wi_Order c) (NewResolver (wi_Decoders c) (wi_Options c)) \<lparr>in_Packet = p0\<lparr>cp_Mutations := ms\<rparr>,
               in_Ref = gq_HeadSHA pr, in_Loader = Some (loader w2), in_Options = zeroOptions\<rparr> = Inr (impact, owners)
           \<and> risk_Evaluate (wi_Order c) defaultWeights p3 = Inr (summary, risks)
           \<and> policy_Evaluate (wi_Now c) (wi_Policy c) p4 = Inr e
           \<and> Assign (wi_Lanes c) p5 = Inr (cp_MergeLane packet)
           \<and> packet = p5\<lparr>cp_MergeLane := cp_MergeLane packet, cp_UpdatedAt := ie_Now ienv 2\<rparr>"
    unfolding assessed_def Let_def by (elim exE conjE) (simp add: NewIngestProcessor_def)
  let ?loader = "githubContentLoader ?service (pw_RepoOwner payload) (pw_RepoName payload) (gq_HeadSHA pr)"
  let ?p0 = "newPacket ienv payload pr (pw_RepoOwner payload) (pw_RepoName payload) files"
  let ?p2 = "?p0\<lparr>cp_Mutations := ms, cp_Runtime := impact, cp_Ownership := owners\<rparr>"
  define p3 where "p3 = ?p2\<lparr>cp_Conflict := Analyze (ie_Order ienv) ?p2\<rparr>"
  define p4 where "p4 = p3\<lparr>cp_RiskSummary := summary, cp_Risks := risks\<rparr>"
  define p5 where "p5 = p4\<lparr>cp_Decision := ev_Decision e, cp_Evidence := ev_Evidence e,
      cp_Reviewers := ev_Reviewers e, cp_Deployment := ev_Deployment e\<rparr>"
  have f: "po_mutations (NewIngestProcessor c) \<lparr>aq_Repo = cp_Repo ?p0, aq_Ref = gq_HeadSHA pr,
      aq_Files = mapChangedFiles files, aq_Content = Some (?loader w1)\<rparr> = Inr ms"
    "ResolveImpact (wi_Order c) (NewResolver (wi_Decoders c) (wi_Options c)) \<lparr>in_Packet = ?p0\<lparr>cp_Mutations := ms\<rparr>,
      in_Ref = gq_HeadSHA pr, in_Loader = Some (?loader w2), in_Options = zeroOptions\<rparr> = Inr (impact, owners)"
    "risk_Evaluate (wi_Order c) defaultWeights p3 = Inr (summary, risks)"
    "policy_Evaluate (wi_Now c) (wi_Policy c) p4 = Inr e" "Assign (wi_Lanes c) p5 = Inr (cp_MergeLane packet)"
    "packet = p5\<lparr>cp_MergeLane := cp_MergeLane packet, cp_UpdatedAt := ie_Now ienv 2\<rparr>"
    using a unfolding p3_def p4_def p5_def Let_def by blast+
  have k: "cp_Files packet = mapChangedFiles files" "cp_Repo packet = cp_Repo ?p0" "pr_HeadSHA (cp_PR packet) = gq_HeadSHA pr"
    "pr_BaseSHA (cp_PR packet) = gq_BaseSHA pr"
    by (subst f(6), simp add: p5_def p4_def p3_def)+
  obtain n where "Classify (wi_Order c) (wi_NewID c)
      (DefaultEngineWithExternal (wi_Parsers c) (wi_NewID c) (wi_External c)) \<lparr>aq_Repo = cp_Repo ?p0, aq_Ref = gq_HeadSHA pr,
      aq_Files = mapChangedFiles files, aq_Content = Some (?loader w1)\<rparr> 0 = Inr (ms, n)"
    using f(1) by (auto simp: NewIngestProcessor_def bindE_Inr)
  moreover have "Analyze (ie_Order ienv) ?p2 = Analyze (ie_Order ienv) ?p0" by (rule Analyze_parts) simp_all
  moreover from this have "stages ?p0 ms (impact, owners) (Analyze (ie_Order ienv) ?p0) (summary, risks) e = (p3, p4, p5)"
    by (simp add: stages_def Let_def p3_def p4_def p5_def)
  ultimately show thesis
    using f(2-6) k by (intro finish [of files w1 ms n "Analyze (ie_Order ienv) ?p0" pr w2 "(impact, owners)" "(summary, risks)" e p3 p4 p5]) simp_all
qed

text \<open>The engines give the scan what they gave the service.\<close>

abbreviation serviceLoader where
  "serviceLoader c payload ref \<equiv>
     githubContentLoader (bindInstallation (po_github (NewIngestProcessor c)) (pw_InstallationID payload))
       (pw_RepoOwner payload) (pw_RepoName payload) ref"

abbreviation localLoader where
  "localLoader env opts \<equiv> fsContentLoader (sc_Files env) (so_RepoRoot opts)"

lemma sameChange_content:
  assumes "sameChange c payload packet env opts"
  shows "loadContent (Some (serviceLoader c payload (pr_HeadSHA (cp_PR packet)) w)) path
    = loadContent (Some (localLoader env opts)) path"
  using assms unfolding sameChange_def by metis

lemma scan_classify:
  assumes "sameSettings c ienv env opts" and "sameChange c payload packet env opts"
    and "Classify (wi_Order c) (wi_NewID c) (DefaultEngineWithExternal (wi_Parsers c) (wi_NewID c) (wi_External c))
       \<lparr>aq_Repo = cp_Repo packet, aq_Ref = pr_HeadSHA (cp_PR packet), aq_Files = files,
        aq_Content = Some (serviceLoader c payload (pr_HeadSHA (cp_PR packet)) w)\<rparr> 0 = Inr (ms, n)"
  shows "Classify (sc_Order env) (sc_NewID env) (DefaultEngine (sc_Parsers env) (sc_NewID env))
      \<lparr>aq_Repo = so_Repo opts, aq_Ref = so_Ref opts, aq_Files = files, aq_Content = Some (localLoader env opts)\<rparr> 0 = Inr (ms, n)"
proof -
  have same: "so_Repo opts = cp_Repo packet" "so_Ref opts = pr_HeadSHA (cp_PR packet)"
    using assms(2) by (simp_all add: sameChange_def)
  have "Classify (wi_Order c) (wi_NewID c) (DefaultEngine (wi_Parsers c) (wi_NewID c))
      \<lparr>aq_Repo = so_Repo opts, aq_Ref = so_Ref opts, aq_Files = files, aq_Content = Some (localLoader env opts)\<rparr> 0
    = Classify (wi_Order c) (wi_NewID c) (DefaultEngine (wi_Parsers c) (wi_NewID c))
      \<lparr>aq_Repo = cp_Repo packet, aq_Ref = pr_HeadSHA (cp_PR packet), aq_Files = files,
       aq_Content = Some (serviceLoader c payload (pr_HeadSHA (cp_PR packet)) w)\<rparr> 0"
    by (rule Classify_content) (simp_all add: same sameChange_content [OF assms(2)])
  then show ?thesis using assms(1,3) by (simp add: sameSettings_def DefaultEngineWithExternal_Nil)
qed

lemma scan_conflict:
  assumes "sameSettings c ienv env opts" and "sameChange c payload packet env opts"
    and "pr_BaseSHA (cp_PR packet) = gq_BaseSHA pr" and "mapChangedFiles files = mapChangedFiles files'"
  shows "Analyze (ie_Order ienv) (newPacket ienv payload pr owner name files)
    = Analyze (sc_Order env) ((scanPacket env opts files')\<lparr>cp_Mutations := ms\<rparr>)"
proof -
  have "so_BaseSHA opts = pr_BaseSHA (cp_PR packet)" "so_CurrentBaseSHA opts = []"
    using assms(2) by (simp_all add: sameChange_def)
  then have "Analyze (wi_Order c) ((scanPacket env opts files')\<lparr>cp_Mutations := ms\<rparr>)
      = Analyze (wi_Order c) (newPacket ienv payload pr owner name files)"
    by (intro Analyze_parts)
      (simp_all add: assms(3,4) scanPacket_def newPacket_def mapGet_def currentBaseSHAMetadataKey_def zero_defs)
  then show ?thesis using assms(1) by (simp add: sameSettings_def)
qed

lemma scan_resolve:
  assumes "sameSettings c ienv env opts" and "sameChange c payload packet env opts"
    and "cp_Files p = cp_Files q"
    and "ResolveImpact (wi_Order c) (NewResolver (wi_Decoders c) (wi_Options c))
       \<lparr>in_Packet = p, in_Ref = ref, in_Loader = Some (serviceLoader c payload (pr_HeadSHA (cp_PR packet)) w),
        in_Options = zeroOptions\<rparr> = Inr impact"
  shows "ResolveImpact (sc_Order env)
      (NewResolver (sc_Decoders env) (zeroOptions\<lparr>op_EnableCodeOwners := so_EnableCodeOwners opts\<rparr>))
      \<lparr>in_Packet = q, in_Ref = ref', in_Loader = Some (localLoader env opts), in_Options = zeroOptions\<rparr> = Inr impact"
proof -
  have "sameRepository \<lparr>in_Packet = q, in_Ref = ref', in_Loader = Some (localLoader env opts), in_Options = zeroOptions\<rparr>
      \<lparr>in_Packet = p, in_Ref = ref, in_Loader = Some (serviceLoader c payload (pr_HeadSHA (cp_PR packet)) w),
       in_Options = zeroOptions\<rparr>"
    by (simp add: sameRepository_def assms(3) sameChange_content [OF assms(2)])
  from ResolveImpact_repository [OF this] show ?thesis using assms(1,4) by (simp add: sameSettings_def)
qed

section \<open>The shape of an assessed packet\<close>

definition typedPacket :: "ChangePacket \<Rightarrow> bool" where
  "typedPacket p \<longleftrightarrow>
     cp_MergeLane p \<in> {MergeLaneGreen, MergeLaneYellow, MergeLaneRed, MergeLaneBlack}
     \<and> pd_Status (cp_Decision p) \<in> {DecisionApproved, DecisionPending, DecisionBlocked}
     \<and> (pd_Status (cp_Decision p) = DecisionApproved \<longrightarrow> cp_Evidence p = [] \<and> cp_Reviewers p = [])
     \<and> 0 \<le> rs_Score (cp_RiskSummary p) \<and> rs_Score (cp_RiskSummary p) \<le> 100
     \<and> rs_Severity (cp_RiskSummary p) = severityFromScore (rs_Score (cp_RiskSummary p))
     \<and> rs_Contributors (cp_RiskSummary p) = map ri_Type (cp_Risks p)
     \<and> 0 \<le> ca_Score (cp_Conflict p) \<and> ca_Score (cp_Conflict p) \<le> 100
     \<and> ca_Route (cp_Conflict p) \<in> {ConflictRouteNone, ConflictRouteRefreshAndVerify, ConflictRouteHumanResolution}"

lemma absLane_lanes: "absLane l = Some a \<Longrightarrow> l \<in> {MergeLaneGreen, MergeLaneYellow, MergeLaneRed, MergeLaneBlack}"
  by (auto simp: absLane_def split: if_splits)

lemma approved_nothing_required:
  assumes "policy_Evaluate now config p = Inr e" and "pd_Status (ev_Decision e) = DecisionApproved"
  shows "ev_Evidence e = [] \<and> ev_Reviewers e = []"
proof -
  have "finalStatus (matched config p) = DecisionApproved" using assms by (auto simp: policy_Evaluate_Inr fold_status)
  then have "\<forall>r \<in> set (matched config p). \<not> demands r" by (auto simp: finalStatus_def split: if_splits)
  then show ?thesis using assms(1) requirements_empty [of now "matched config p"] by (auto simp: policy_Evaluate_Inr)
qed

lemma stages_typed:
  assumes "map_order ord" and "conflict = Analyze ord q" and "stages p ms impact conflict risk e = (p3, p4, p5)"
    and "risk_Evaluate ord' w p3 = Inr risk" and "policy_Evaluate now config p4 = Inr e" and "Assign cfg p5 = Inr lane"
  shows "typedPacket (p5\<lparr>cp_MergeLane := lane, cp_UpdatedAt := t\<rparr>)"
proof -
  have f: "cp_Decision p5 = ev_Decision e" "cp_Evidence p5 = ev_Evidence e" "cp_Reviewers p5 = ev_Reviewers e"
    "cp_RiskSummary p5 = fst risk" "cp_Risks p5 = snd risk" "cp_Conflict p5 = Analyze ord q"
    using assms(2,3) by (auto simp: stages_def Let_def)
  have r: "0 \<le> rs_Score (fst risk) \<and> rs_Score (fst risk) \<le> 100"
    "rs_Severity (fst risk) = severityFromScore (rs_Score (fst risk))" "rs_Contributors (fst risk) = map ri_Type (snd risk)"
    using Evaluate_summary [of ord' w p3 "fst risk" "snd risk"] assms(4) clampScore_bounds by simp_all
  have "lane \<in> {MergeLaneGreen, MergeLaneYellow, MergeLaneRed, MergeLaneBlack}"
    using Assign_absLane [of cfg p5] assms(6) absLane_lanes by auto
  moreover have "pd_Status (ev_Decision e) \<in> {DecisionApproved, DecisionPending, DecisionBlocked}"
    using assms(5) by (auto simp: policy_Evaluate_Inr fold_status finalStatus_def)
  ultimately show ?thesis
    using r approved_nothing_required [OF assms(5)] Analyze_closed(1,2) [OF assms(1), of q]
    by (simp add: typedPacket_def f)
qed

lemma scan_Run_Inr:
  assumes "scan_Run env opts = Inr packet"
  obtains files ms impact conflict risk e q3 q4 q5 where
    "ParseUnified (so_Diff opts) = Inr files"
    "conflict = Analyze (sc_Order env) ((scanPacket env opts files)\<lparr>cp_Mutations := ms\<rparr>)"
    "stages (scanPacket env opts files) ms impact conflict risk e = (q3, q4, q5)"
    "risk_Evaluate (sc_Order env) defaultWeights q3 = Inr risk"
    "policy_Evaluate (sc_PolicyNow env) (so_Policy opts) q4 = Inr e"
    "Assign (so_Lanes opts) q5 = Inr (cp_MergeLane packet)"
    "packet = q5\<lparr>cp_MergeLane := cp_MergeLane packet, cp_UpdatedAt := sc_Now env 1\<rparr>"
proof -
  note finish = that
  obtain files ms impact owners summary risks e lane where
    p: "ParseUnified (so_Diff opts) = Inr files"
    and s: "let p2 = (scanPacket env opts files)\<lparr>cp_Mutations := ms\<rparr>;
          p3 = p2\<lparr>cp_Conflict := Analyze (sc_Order env) p2, cp_Runtime := impact, cp_Ownership := owners\<rparr>;
          p4 = p3\<lparr>cp_RiskSummary := summary, cp_Risks := risks\<rparr>;
          p5 = p4\<lparr>cp_Decision := ev_Decision e, cp_Evidence := ev_Evidence e,
                 cp_Reviewers := ev_Reviewers e, cp_Deployment := ev_Deployment e\<rparr>
      in risk_Evaluate (sc_Order env) defaultWeights p3 = Inr (summary, risks)
         \<and> policy_Evaluate (sc_PolicyNow env) (so_Policy opts) p4 = Inr e
         \<and> Assign (so_Lanes opts) p5 = Inr lane
         \<and> packet = p5\<lparr>cp_MergeLane := lane, cp_UpdatedAt := sc_Now env 1\<rparr>"
    using assms unfolding scan_Run_def Let_def bindE_Inr mapError_Inr case_prod_beta
    by (elim exE conjE) (auto simp: case_prod_beta)
  have order: "p\<lparr>cp_Mutations := ms, cp_Conflict := a, cp_Runtime := impact, cp_Ownership := owners\<rparr>
      = p\<lparr>cp_Mutations := ms, cp_Runtime := impact, cp_Ownership := owners, cp_Conflict := a\<rparr>" for p a
    by simp
  show thesis
    using p s [unfolded Let_def order] finish [of files "Analyze (sc_Order env) ((scanPacket env opts files)\<lparr>cp_Mutations := ms\<rparr>)" ms
        "(impact, owners)" "(summary, risks)" e]
    by (simp add: stages_def Let_def)
qed

lemma scan_decision:
  assumes "scan_Run env opts = Inr packet"
  obtains q e where "policy_Evaluate (sc_PolicyNow env) (so_Policy opts) q = Inr e" "cp_Decision packet = ev_Decision e"
    "cp_Evidence packet = ev_Evidence e" "cp_Reviewers packet = ev_Reviewers e"
proof -
  note finish = that
  obtain q4 q5 e p ms impact conflict risk q3 where e: "policy_Evaluate (sc_PolicyNow env) (so_Policy opts) q4 = Inr e"
    and st: "stages p ms impact conflict risk e = (q3, q4, q5)"
    and q: "packet = q5\<lparr>cp_MergeLane := cp_MergeLane packet, cp_UpdatedAt := sc_Now env 1\<rparr>"
    by (rule scan_Run_Inr [OF assms])
  have "cp_Decision packet = ev_Decision e" "cp_Evidence packet = ev_Evidence e" "cp_Reviewers packet = ev_Reviewers e"
    using st by (subst q, auto simp: stages_def Let_def)+
  then show thesis using finish e by blast
qed

lemma scan_approved:
  assumes "scan_Run env opts = Inr packet" and "pd_Status (cp_Decision packet) = DecisionApproved"
  shows "cp_Evidence packet = []" "cp_Reviewers packet = []"
  using scan_decision [OF assms(1)] approved_nothing_required assms(2) by metis+

section \<open>The scan always answers\<close>

lemma Classify_default_total:
  "\<exists>ms n'. Classify ord newID (DefaultEngine parsers newID) request n = Inr (ms, n')"
proof -
  obtain index m where "classifyFiles newID (DefaultEngine parsers newID) request (aq_Files request) ([], n) = Inr (index, m)"
    using default_engine.classifyFiles_total by fastforce
  then show ?thesis by (simp add: Classify_def split: prod.splits)
qed

lemma scan_resolver_total:
  "\<exists>impact. ResolveImpact ord (NewResolver dec (zeroOptions\<lparr>op_EnableCodeOwners := owners\<rparr>)) input = Inr impact"
proof -
  have "\<exists>f. src input = Inr f" if "src \<in> set (NewResolver dec (zeroOptions\<lparr>op_EnableCodeOwners := owners\<rparr>))" for src
    using that by (auto simp: NewResolver_def zeroOptions_def repositoryTopologySource_def manifestSource_def
        codeOwnersSource_def Let_def split: if_splits option.splits prod.splits)
  then show ?thesis using ResolveImpact_total by blast
qed

lemma scan_Run_valid:
  assumes "Validate (so_Policy opts) = Inr ()"
  shows "\<exists>packet. scan_Run env opts = Inr packet"
proof -
  obtain files where p: "ParseUnified (so_Diff opts) = Inr files"
    by (cases "TrimSpace (so_Diff opts) = []") (simp_all add: ParseUnified_def)
  let ?q = "scanPacket env opts files" and ?load = "fsContentLoader (sc_Files env) (so_RepoRoot opts)"
  obtain ms n where c: "Classify (sc_Order env) (sc_NewID env) (DefaultEngine (sc_Parsers env) (sc_NewID env))
      \<lparr>aq_Repo = so_Repo opts, aq_Ref = so_Ref opts, aq_Files = mapChangedFiles files, aq_Content = Some ?load\<rparr> 0 = Inr (ms, n)"
    using Classify_default_total by blast
  define conflict where "conflict = Analyze (sc_Order env) (?q\<lparr>cp_Mutations := ms\<rparr>)"
  obtain impact where r: "ResolveImpact (sc_Order env)
      (NewResolver (sc_Decoders env) (zeroOptions\<lparr>op_EnableCodeOwners := so_EnableCodeOwners opts\<rparr>))
      \<lparr>in_Packet = ?q\<lparr>cp_Mutations := ms, cp_Conflict := conflict\<rparr>, in_Ref = so_Ref opts,
       in_Loader = Some ?load, in_Options = zeroOptions\<rparr> = Inr impact"
    using scan_resolver_total by blast
  define q3 where "q3 = ?q\<lparr>cp_Mutations := ms, cp_Runtime := fst impact, cp_Ownership := snd impact, cp_Conflict := conflict\<rparr>"
  obtain risk where k: "risk_Evaluate (sc_Order env) defaultWeights q3 = Inr risk" using risk_Evaluate_total by blast
  define q4 where "q4 = q3\<lparr>cp_RiskSummary := fst risk, cp_Risks := snd risk\<rparr>"
  obtain e where e: "policy_Evaluate (sc_PolicyNow env) (so_Policy opts) q4 = Inr e"
    using assms by (simp add: policy_Evaluate_def)
  define q5 where "q5 = q4\<lparr>cp_Decision := ev_Decision e, cp_Evidence := ev_Evidence e,
      cp_Reviewers := ev_Reviewers e, cp_Deployment := ev_Deployment e\<rparr>"
  obtain lane where l: "Assign (so_Lanes opts) q5 = Inr lane" using Assign_absLane by blast
  have "stages ?q ms impact conflict risk e = (q3, q4, q5)"
    by (simp add: stages_def q3_def q4_def q5_def Let_def)
  from scan_Run_stages [OF p c conflict_def r this k e l] show ?thesis by blast
qed

section \<open>Properties\<close>

text \<open>
  C14: the offline scan decides as the service does. For a pull request that the pipeline has assessed, a
  scan of the same diff with the same policy, lanes and ownership setting, in a working copy that holds
  what the service reads at the head commit, succeeds and finds the same files, mutations, conflict,
  runtime impact and owners, the same risk, and ends with the same decision, evidence, reviewers,
  deployment and lane. The order of the conflict analysis and the runtime resolution, which the two
  programs swap, makes no difference, and neither does the graph manifest.
\<close>

theorem scan_agrees_with_service:
  assumes "processPROpened ienv (NewIngestProcessor c) payload w = (Inr packet, w')"
    and "sameSettings c ienv env opts" and "sameChange c payload packet env opts"
  shows "\<exists>p. scan_Run env opts = Inr p \<and> sameAssessment p packet"
proof -
  from assms(3) obtain files' where
    files': "ParseUnified (so_Diff opts) = Inr files'" "mapChangedFiles files' = cp_Files packet"
    unfolding sameChange_def by blast
  obtain pr files w1 w2 ms n impact conflict risk e p3 p4 p5 where
    f: "cp_Files packet = mapChangedFiles files"
    and classify: "Classify (wi_Order c) (wi_NewID c) (DefaultEngineWithExternal (wi_Parsers c) (wi_NewID c) (wi_External c))
       \<lparr>aq_Repo = cp_Repo packet, aq_Ref = pr_HeadSHA (cp_PR packet), aq_Files = mapChangedFiles files,
        aq_Content = Some (serviceLoader c payload (pr_HeadSHA (cp_PR packet)) w1)\<rparr> 0 = Inr (ms, n)"
    and conflict: "conflict = Analyze (ie_Order ienv) (newPacket ienv payload pr (pw_RepoOwner payload) (pw_RepoName payload) files)"
      "pr_BaseSHA (cp_PR packet) = gq_BaseSHA pr"
    and resolve: "ResolveImpact (wi_Order c) (NewResolver (wi_Decoders c) (wi_Options c))
       \<lparr>in_Packet = (newPacket ienv payload pr (pw_RepoOwner payload) (pw_RepoName payload) files)\<lparr>cp_Mutations := ms\<rparr>,
        in_Ref = pr_HeadSHA (cp_PR packet), in_Loader = Some (serviceLoader c payload (pr_HeadSHA (cp_PR packet)) w2),
        in_Options = zeroOptions\<rparr> = Inr impact"
    and st: "stages (newPacket ienv payload pr (pw_RepoOwner payload) (pw_RepoName payload) files) ms impact conflict risk e
       = (p3, p4, p5)"
    and judged: "risk_Evaluate (wi_Order c) defaultWeights p3 = Inr risk" "policy_Evaluate (wi_Now c) (wi_Policy c) p4 = Inr e"
       "Assign (wi_Lanes c) p5 = Inr (cp_MergeLane packet)"
    and packet: "packet = p5\<lparr>cp_MergeLane := cp_MergeLane packet, cp_UpdatedAt := ie_Now ienv 2\<rparr>"
    by (rule program_stages [OF processed_assessed [OF assms(1)]])
  let ?q = "scanPacket env opts files'"
  have same: "mapChangedFiles files = mapChangedFiles files'" and q: "cp_Files ?q = mapChangedFiles files"
    using files'(2) f by (simp_all add: scanPacket_def Let_def)
  obtain q3 q4 q5 where sq: "stages ?q ms impact conflict risk e = (q3, q4, q5)" by (metis prod_cases3)
  note agree = stages_agree [OF st sq, simplified q newPacket_fields, OF refl]
  note inputs = scan_classify [OF assms(2,3) classify] scan_conflict [OF assms(2,3) conflict(2) same]
    scan_resolve [OF assms(2,3) _ resolve]
  have "scan_Run env opts = Inr (q5\<lparr>cp_MergeLane := cp_MergeLane packet, cp_UpdatedAt := sc_Now env 1\<rparr>)"
  proof (rule scan_Run_stages [OF files'(1) _ _ _ sq])
    show "conflict = Analyze (sc_Order env) (?q\<lparr>cp_Mutations := ms\<rparr>)" unfolding conflict(1) by (rule inputs(2))
  qed (use inputs(1,3) judged assms(2) in \<open>simp_all add: agree sameSettings_def same q\<close>)
  moreover have "sameAssessment (q5\<lparr>cp_MergeLane := cp_MergeLane packet, cp_UpdatedAt := sc_Now env 1\<rparr>) packet"
    using agree(4) packet by metis
  ultimately show ?thesis by blast
qed

text \<open>
  C19: every assessed packet is well formed, whether the service or the scan built it: its lane is one of
  the four, its decision is approved, pending or blocked and an approved one leaves nothing to be
  proved or reviewed, the risk score and the conflict score lie between 0 and 100 and the severity is
  the one of the score, the contributors are the kinds of the listed risks, and the conflict route is
  one of the three.
\<close>

theorem assessed_packets_typed:
  assumes "map_order ord" and "sc_Order env = ord" and "ie_Order ienv = ord"
    and "scan_Run env opts = Inr packet \<or> processPROpened ienv (NewIngestProcessor c) payload w = (Inr packet, w')"
  shows "typedPacket packet"
  using assms(4)
proof
  assume "scan_Run env opts = Inr packet"
  then show ?thesis
  proof (rule scan_Run_Inr)
    fix files ms impact conflict risk e q3 q4 q5
    assume "packet = q5\<lparr>cp_MergeLane := cp_MergeLane packet, cp_UpdatedAt := sc_Now env 1\<rparr>"
      and "conflict = Analyze (sc_Order env) ((scanPacket env opts files)\<lparr>cp_Mutations := ms\<rparr>)"
      and "stages (scanPacket env opts files) ms impact conflict risk e = (q3, q4, q5)"
      and "risk_Evaluate (sc_Order env) defaultWeights q3 = Inr risk"
      and "policy_Evaluate (sc_PolicyNow env) (so_Policy opts) q4 = Inr e"
      and "Assign (so_Lanes opts) q5 = Inr (cp_MergeLane packet)"
    with assms(1,2) show ?thesis using stages_typed by metis
  qed
next
  assume "processPROpened ienv (NewIngestProcessor c) payload w = (Inr packet, w')"
  from processed_assessed [OF this] show ?thesis
    by (rule program_stages) (metis stages_typed assms(1,3))
qed

text \<open>
  The scan answers for every diff: whatever the diff, the repository and the settings, it returns a
  packet exactly when the policy it was given is valid. No content of a file makes an analyzer or the
  runtime resolution fail.
\<close>

theorem scan_answers_iff_policy_valid:
  "(\<exists>packet. scan_Run env opts = Inr packet) \<longleftrightarrow> Validate (so_Policy opts) = Inr ()"
proof
  assume "\<exists>packet. scan_Run env opts = Inr packet"
  then obtain packet where "scan_Run env opts = Inr packet" ..
  then show "Validate (so_Policy opts) = Inr ()" by (rule scan_Run_Inr) (simp add: policy_Evaluate_Inr)
qed (rule scan_Run_valid)

section \<open>A sample scan\<close>

definition sampleScanEnv :: ScanEnv where
  "sampleScanEnv = \<lparr>sc_Order = rev, sc_Now = (\<lambda>k. 50 + int k), sc_PolicyNow = 7, sc_PacketID = ''cp_2'',
     sc_NewID = sampleIDs, sc_Parsers = sampleParsers, sc_Decoders = sampleDecoders,
     sc_Files = \<lparr>fs_ReadFile = (\<lambda>_. Inl ''no such file''), fs_Stat = (\<lambda>_. Inl ''no such file'')\<rparr>\<rparr>"

definition sampleScanOptions :: "ChangePacket \<Rightarrow> string \<Rightarrow> ScanOptions" where
  "sampleScanOptions packet diff = \<lparr>so_Diff = diff, so_RepoRoot = ''.'', so_Repo = cp_Repo packet,
     so_Ref = pr_HeadSHA (cp_PR packet), so_BaseSHA = pr_BaseSHA (cp_PR packet), so_CurrentBaseSHA = [], so_Title = [],
     so_Author = zeroAuthor, so_Policy = wi_Policy sampleWiring, so_Lanes = wi_Lanes sampleWiring,
     so_EnableCodeOwners = op_EnableCodeOwners (wi_Options sampleWiring)\<rparr>"

theorem scan_agrees_with_service_witness:
  "\<exists>packet w' diff p. processPROpened sampleIngestEnv (NewIngestProcessor sampleWiring) samplePayload (initialWorld ()) = (Inr packet, w')
     \<and> scan_Run sampleScanEnv (sampleScanOptions packet diff) = Inr p \<and> sameAssessment p packet"
proof -
  obtain packet w' where u: "processPROpened sampleIngestEnv (NewIngestProcessor sampleWiring) samplePayload
      (initialWorld ()) = (Inr packet, w')"
    using sample_processed by blast
  obtain diff files where d: "ParseUnified diff = Inr files" "cp_Files packet = mapChangedFiles files"
    using assessed_fields [OF processed_assessed [OF u]] by blast
  let ?opts = "sampleScanOptions packet diff"
  have "sameSettings sampleWiring sampleIngestEnv sampleScanEnv ?opts"
    by (simp add: sameSettings_def sampleWiring_def sampleIngestEnv_def sampleScanEnv_def sampleScanOptions_def)
  moreover have "sameChange sampleWiring samplePayload packet sampleScanEnv ?opts"
    using d by (auto simp: sameChange_def sampleScanOptions_def sampleScanEnv_def loadContent_def githubContentLoader_def
        fsContentLoader_def NewIngestProcessor_def sampleWiring_def worldService_def onGitHubService_def bindInstallation_def
        NoopService_def)
  ultimately show ?thesis using scan_agrees_with_service [OF u] u by blast
qed

theorem assessed_packets_typed_witness:
  "\<exists>packet w'. processPROpened sampleIngestEnv (NewIngestProcessor sampleWiring) samplePayload (initialWorld ()) = (Inr packet, w')
     \<and> typedPacket packet"
proof -
  obtain packet w' where u: "processPROpened sampleIngestEnv (NewIngestProcessor sampleWiring) samplePayload
      (initialWorld ()) = (Inr packet, w')"
    using sample_processed by blast
  have "sc_Order sampleScanEnv = rev" "ie_Order sampleIngestEnv = rev" by (simp_all add: sampleScanEnv_def sampleIngestEnv_def)
  from assessed_packets_typed [OF map_order_rev this disjI2 [OF u]] show ?thesis using u by blast
qed

end
