(* ===== verification/Resolve.thy ===== *)
theory Resolve
  imports Scan Configuration
begin

text \<open>
  How the local commands find their configuration and policy, \<open>internal/resolve/resolve.go\<close>. The file
  system and the YAML decoders are fields of \<open>ResolveEnv\<close>; an error keeps the path that its message
  names.
\<close>

section \<open>Discovery\<close>

record ResolveEnv =
  re_Files :: FileSystem
  re_DecodeConfig :: "string \<Rightarrow> Config \<Rightarrow> string + Config"
  re_TrailingConfig :: "string \<Rightarrow> (string + unit) option"
  re_DecodePolicy :: "string \<Rightarrow> (string + PolicyConfig) \<times> (string + unit) option"

datatype ResolveError =
    StatFailed string
  | NoConfigIn string
  | LoadConfigFailed string ConfigError
  | InvalidDefaults ConfigError
  | LoadPolicyFailed string PolicyError

definition configCandidates :: "string list" where
  "configCandidates =
     [''merger.yaml'', ''merger.yml'', ''merger.json'',
      ''.merger/merger.yaml'', ''.merger/merger.yml'', ''.merger/merger.json'',
      ''.merger/config.yaml'', ''.merger/config.yml'', ''.merger/config.json'']"

definition configDirCandidates :: "string list" where
  "configDirCandidates =
     [''merger.yaml'', ''merger.yml'', ''merger.json'', ''config.yaml'', ''config.yml'', ''config.json'']"

fun firstExisting :: "FileSystem \<Rightarrow> string \<Rightarrow> string list \<Rightarrow> string option" where
  \<comment> \<open>the loop over the candidates below a directory\<close>
  "firstExisting fs dir [] = None"
| "firstExisting fs dir (name # names) =
     (let candidate = JoinPath [dir, name]
      in if fileExists fs candidate then Some candidate else firstExisting fs dir names)"

definition discoverConfigPath :: "FileSystem \<Rightarrow> string \<Rightarrow> string \<Rightarrow> ResolveError + string" where
  "discoverConfigPath fs rootDir explicit =
     (if explicit \<noteq> [] then
        (case fs_Stat fs explicit of
           Inl err \<Rightarrow> Inl (StatFailed err)
         | Inr isDir \<Rightarrow>
             if \<not> isDir then Inr explicit
             else (case firstExisting fs explicit configDirCandidates of
                     Some candidate \<Rightarrow> Inr candidate
                   | None \<Rightarrow> Inl (NoConfigIn explicit)))
      else (case firstExisting fs rootDir configCandidates of Some path \<Rightarrow> Inr path | None \<Rightarrow> Inr []))"

definition resolve_Config :: "ResolveEnv \<Rightarrow> string \<Rightarrow> string \<Rightarrow> ResolveError + (Config \<times> string)" where
  "resolve_Config env rootDir explicit =
     bindE (discoverConfigPath (re_Files env) rootDir explicit) (\<lambda>path.
       if path = [] then
         bindE (mapError InvalidDefaults (config_Validate Defaults)) (\<lambda>_. Inr (Defaults, []))
       else
         bindE (mapError (LoadConfigFailed path)
             (Load \<lparr>fi_ReadFile = fs_ReadFile (re_Files env), fi_Decode = re_DecodeConfig env,
                    fi_Trailing = re_TrailingConfig env\<rparr> path))
           (\<lambda>cfg. Inr (cfg, path)))"

definition PolicyPath :: "FileSystem \<Rightarrow> string \<Rightarrow> string \<Rightarrow> Config \<Rightarrow> string" where
  "PolicyPath fs rootDir explicit cfg =
     (if explicit \<noteq> [] then explicit
      else if cg_PolicyPath cfg = [] then []
      else (let path = cg_PolicyPath cfg;
                path = (if \<not> IsAbs path then JoinPath [rootDir, path] else path)
            in if fileExists fs path then path else []))"

definition resolve_Policy ::
  "ResolveEnv \<Rightarrow> string \<Rightarrow> string \<Rightarrow> Config \<Rightarrow> ResolveError + (PolicyConfig \<times> string \<times> bool)" where
  "resolve_Policy env rootDir explicit cfg =
     (let path = PolicyPath (re_Files env) rootDir explicit cfg
      in if path = [] then Inr (\<lparr>pc_Policies = []\<rparr>, [], False)
         else bindE (mapError (LoadPolicyFailed path) (LoadConfig (re_DecodePolicy env) (fs_ReadFile (re_Files env) path)))
           (\<lambda>policyConfig. Inr (policyConfig, path, True)))"

definition resolve_RepoRef :: "string \<Rightarrow> RepoRef" where
  "resolve_RepoRef raw =
     (if raw = [] then zeroRepoRef
      else (let (owner, name, found) = Cut raw CHR ''/''
            in if \<not> found then zeroRepoRef\<lparr>rr_Name := raw, rr_FullName := raw\<rparr>
               else zeroRepoRef\<lparr>rr_Owner := owner, rr_Name := name, rr_FullName := raw\<rparr>))"

definition resolve_ScanOptions ::
  "ResolveEnv \<Rightarrow> string \<Rightarrow> string \<Rightarrow> string \<Rightarrow> string \<Rightarrow> string \<Rightarrow> string \<Rightarrow> ResolveError + (ScanOptions \<times> bool)" where
  "resolve_ScanOptions env rootDir configPath policyPath repo ref diff =
     bindE (resolve_Config env rootDir configPath) (\<lambda>(cfg, _).
     bindE (resolve_Policy env rootDir policyPath cfg) (\<lambda>(policyConfig, _, policyFound).
       Inr (\<lparr>so_Diff = diff, so_RepoRoot = rootDir, so_Repo = resolve_RepoRef repo, so_Ref = ref, so_BaseSHA = [],
             so_CurrentBaseSHA = [], so_Title = [], so_Author = zeroAuthor, so_Policy = policyConfig,
             so_Lanes = \<lparr>lc_GreenMax = lt_GreenMax (cg_Lanes cfg), lc_YellowMax = lt_YellowMax (cg_Lanes cfg),
                         lc_RedMax = lt_RedMax (cg_Lanes cfg)\<rparr>,
             so_EnableCodeOwners = rg_EnableCodeOwners (cg_RuntimeGraph cfg)\<rparr>, policyFound)))"

section \<open>Paths are never empty\<close>

lemma cleanStep_nonempty: "[] \<notin> set out \<Longrightarrow> [] \<notin> set (foldl (cleanStep rooted) out parts)"
proof (induction parts arbitrary: out)
  case (Cons p ps)
  have "[] \<notin> set (cleanStep rooted out p)" using Cons.prems by (cases out) (auto simp: cleanStep_def)
  then show ?case using Cons.IH by simp
qed simp

lemma Join_nonempty: "ws \<noteq> [] \<Longrightarrow> [] \<notin> set ws \<Longrightarrow> Join ws sep \<noteq> []"
  by (cases ws rule: list.exhaust; cases "tl ws") auto

lemma Clean_nonempty [simp]: "Clean path \<noteq> []"
  using cleanStep_nonempty [of "[]" "HasPrefix path ''/''" "Split path CHR ''/''"]
  by (auto simp: Clean_def Let_def Join_nonempty)

lemma JoinPath_nonempty: "\<exists>e \<in> set elems. e \<noteq> [] \<Longrightarrow> JoinPath elems \<noteq> []"
  by (auto simp: JoinPath_def dropWhile_eq_Nil_conv split: list.splits)

lemma firstExisting_find:
  "firstExisting fs dir names = find (fileExists fs) (map (\<lambda>name. JoinPath [dir, name]) names)"
  by (induction names) (simp_all add: Let_def)

section \<open>What resolution hands to the scan\<close>

lemma resolve_Config_valid:
  assumes "resolve_Config env rootDir explicit = Inr (cfg, path)"
  shows "validConfig cfg"
proof (cases "path = []")
  case True
  have "config_Validate Defaults = Inr ()" by code_simp
  moreover have "cfg = Defaults"
    using assms True by (auto simp: resolve_Config_def bindE_Inr split: if_splits)
  ultimately show ?thesis by (simp add: config_Validate_Inr)
next
  case False
  then show ?thesis
    using assms by (auto simp: resolve_Config_def Load_def bindE_Inr mapError_Inr config_Validate_Inr split: if_splits)
qed

lemma no_rules_valid: "Validate \<lparr>pc_Policies = []\<rparr> = Inr ()"
  by code_simp

lemma resolve_Policy_valid:
  assumes "resolve_Policy env rootDir explicit cfg = Inr (policy, path, found)"
  shows "Validate policy = Inr ()" and "\<not> found \<longrightarrow> pc_Policies policy = []"
  using assms no_rules_valid
  by (auto simp: resolve_Policy_def LoadConfig_def Let_def bindE_Inr mapError_Inr split: if_splits sum.splits prod.splits option.splits)

lemma no_rules_approve:
  assumes "scan_Run env opts = Inr packet" and "pc_Policies (so_Policy opts) = []"
  shows "pd_Status (cp_Decision packet) = DecisionApproved" "cp_Evidence packet = []" "cp_Reviewers packet = []"
proof -
  obtain q e where e: "policy_Evaluate (sc_PolicyNow env) (so_Policy opts) q = Inr e" "cp_Decision packet = ev_Decision e"
    by (rule scan_decision [OF assms(1)])
  show "pd_Status (cp_Decision packet) = DecisionApproved"
    using e assms(2) by (auto simp: policy_Evaluate_Inr fold_status finalStatus_def matched_def)
  then show "cp_Evidence packet = []" "cp_Reviewers packet = []" using scan_approved [OF assms(1)] by simp_all
qed

section \<open>Properties\<close>

text \<open>
  Configuration is discovered by priority. Without an explicit path discovery never fails; it returns
  the first of the nine candidates below the repository root that is a file, and the empty path, which
  stands for the defaults, exactly when none of them is. A candidate that exists is never taken for
  the defaults, since no joined path is empty.
\<close>

theorem discovery_by_priority:
  "\<exists>path. discoverConfigPath fs rootDir [] = Inr path
     \<and> (path = [] \<longleftrightarrow> (\<forall>name \<in> set configCandidates. \<not> fileExists fs (JoinPath [rootDir, name])))
     \<and> (path \<noteq> [] \<longrightarrow> (\<exists>i < length configCandidates. path = JoinPath [rootDir, configCandidates ! i] \<and> fileExists fs path
          \<and> (\<forall>j < i. \<not> fileExists fs (JoinPath [rootDir, configCandidates ! j]))))"
proof (cases "firstExisting fs rootDir configCandidates")
  case None
  then have "discoverConfigPath fs rootDir [] = Inr []" by (simp add: discoverConfigPath_def)
  moreover have "\<forall>name \<in> set configCandidates. \<not> fileExists fs (JoinPath [rootDir, name])"
    using None by (auto simp: firstExisting_find find_None_iff)
  ultimately show ?thesis by auto
next
  case (Some path)
  then obtain i where i: "i < length configCandidates" "path = JoinPath [rootDir, configCandidates ! i]" "fileExists fs path"
    "\<forall>j < i. \<not> fileExists fs (JoinPath [rootDir, configCandidates ! j])"
    unfolding firstExisting_find find_Some_iff by auto
  moreover have "path \<noteq> []"
    using i(1,2) JoinPath_nonempty [of "[rootDir, configCandidates ! i]"]
    by (auto simp: configCandidates_def less_Suc_eq nth_Cons')
  ultimately show ?thesis using Some by (auto simp: discoverConfigPath_def)
qed

text \<open>
  A scan whose options could be resolved always produces a packet. Whatever configuration and policy
  were found, the thresholds increase strictly within 0 and 100, the policy is valid and the scan
  returns; when no policy file was found it approves the change and asks for nothing.
\<close>

theorem resolved_scan_answers:
  assumes "resolve_ScanOptions env rootDir configPath policyPath repo ref diff = Inr (opts, found)"
  shows "0 \<le> lc_GreenMax (so_Lanes opts) \<and> lc_GreenMax (so_Lanes opts) < lc_YellowMax (so_Lanes opts)
    \<and> lc_YellowMax (so_Lanes opts) < lc_RedMax (so_Lanes opts) \<and> lc_RedMax (so_Lanes opts) \<le> 100
    \<and> (\<exists>packet. scan_Run senv opts = Inr packet
        \<and> (\<not> found \<longrightarrow> pd_Status (cp_Decision packet) = DecisionApproved \<and> cp_Evidence packet = [] \<and> cp_Reviewers packet = []))"
proof -
  obtain cfg path policy ppath where c: "resolve_Config env rootDir configPath = Inr (cfg, path)"
    and p: "resolve_Policy env rootDir policyPath cfg = Inr (policy, ppath, found)"
    and o: "so_Policy opts = policy" "so_Lanes opts = \<lparr>lc_GreenMax = lt_GreenMax (cg_Lanes cfg),
        lc_YellowMax = lt_YellowMax (cg_Lanes cfg), lc_RedMax = lt_RedMax (cg_Lanes cfg)\<rparr>"
    using assms by (auto simp: resolve_ScanOptions_def bindE_Inr)
  obtain packet where r: "scan_Run senv opts = Inr packet"
    using scan_Run_valid resolve_Policy_valid(1) [OF p] o(1) by blast
  show ?thesis
    using resolve_Config_valid [OF c] o(2) r no_rules_approve [OF r] resolve_Policy_valid(2) [OF p] o(1)
    by (auto simp: validConfig_def)
qed

section \<open>A sample repository\<close>

definition sampleFiles :: FileSystem where
  "sampleFiles = \<lparr>fs_ReadFile = (\<lambda>path. if path = ''repo/.merger/merger.yml'' then Inr ''lanes: {}'' else Inl ''no such file''),
     fs_Stat = (\<lambda>path. if path = ''repo/.merger/merger.yml'' then Inr False else Inl ''no such file'')\<rparr>"

definition sampleResolveEnv :: ResolveEnv where
  "sampleResolveEnv = \<lparr>re_Files = sampleFiles, re_DecodeConfig = (\<lambda>_ cfg. Inr cfg), re_TrailingConfig = (\<lambda>_. None),
     re_DecodePolicy = (\<lambda>_. (Inr \<lparr>pc_Policies = []\<rparr>, None))\<rparr>"

theorem discovery_by_priority_witness:
  "\<exists>i < length configCandidates. discoverConfigPath sampleFiles ''repo'' [] = Inr (JoinPath [''repo'', configCandidates ! i])
     \<and> (\<forall>j < i. \<not> fileExists sampleFiles (JoinPath [''repo'', configCandidates ! j]))"
proof -
  have "fileExists sampleFiles (JoinPath [''repo'', ''.merger/merger.yml''])" by code_simp
  then have "\<exists>name \<in> set configCandidates. fileExists sampleFiles (JoinPath [''repo'', name])"
    by (intro bexI [of _ "''.merger/merger.yml''"]) (simp_all add: configCandidates_def)
  then show ?thesis using discovery_by_priority [of sampleFiles "''repo''"] by auto
qed

theorem resolved_scan_answers_witness:
  "\<exists>opts packet. resolve_ScanOptions sampleResolveEnv ''repo'' [] [] ''acme/app'' [] [] = Inr (opts, False)
     \<and> scan_Run sampleScanEnv opts = Inr packet \<and> pd_Status (cp_Decision packet) = DecisionApproved"
proof -
  have "isl (resolve_ScanOptions sampleResolveEnv ''repo'' [] [] ''acme/app'' [] []) = False
      \<and> snd (projr (resolve_ScanOptions sampleResolveEnv ''repo'' [] [] ''acme/app'' [] [])) = False" by code_simp
  then obtain opts where o: "resolve_ScanOptions sampleResolveEnv ''repo'' [] [] ''acme/app'' [] [] = Inr (opts, False)"
    by (cases "resolve_ScanOptions sampleResolveEnv ''repo'' [] [] ''acme/app'' [] []") auto
  show ?thesis using resolved_scan_answers [OF o, of sampleScanEnv] o by blast
qed

end
