(* ===== verification/McpTools.thy ===== *)
theory McpTools
  imports Resolve
begin

text \<open>
  The tools of the MCP server, \<open>internal/mcpserver/tools.go\<close>. Arguments are decoded JSON objects. A tool
  returns the value it would print; encoding a value as JSON, decoding a packet from JSON, the scan and
  the file system are arguments. An error that becomes the text of a result is kept as a value.
\<close>

section \<open>Data\<close>

type_synonym ToolArgs = "(string \<times> Json) list"

record Definition =
  dn_Name :: string
  dn_Description :: string
  dn_InputSchema :: Json

record ExplainedMutation =
  xm_kind :: MutationKind
  xm_severity :: Severity
  xm_title :: string
  xm_files :: "string list"

record ExplainedRisk =
  xr_type :: RiskType
  xr_severity :: Severity
  xr_summary :: string
  xr_reason :: string
  xr_mitigations :: "string list"

record Explanation =
  ex_changePacketId :: string
  ex_mergeLane :: MergeLane
  ex_decision :: DecisionStatus
  ex_decisionSummary :: string
  ex_decisionReasons :: "string list"
  ex_risk :: RiskSummary
  ex_mutations :: "ExplainedMutation list"
  ex_risks :: "ExplainedRisk list"
  ex_runtimeImpact :: RuntimeImpact
  ex_nextAction :: string
  ex_evidenceRequired :: int

record EvidenceStep =
  es_name :: string
  es_type :: EvidenceType
  es_reason :: string
  es_producer :: string
  es_action :: string
  es_trustedGitHubCheck :: "GitHubCheckBinding option"

record EvidencePlan =
  pl_changePacketId :: string
  pl_mergeLane :: MergeLane
  pl_decision :: DecisionStatus
  pl_steps :: "EvidenceStep list"
  pl_deployment :: DeploymentRequirement
  pl_requiredReviews :: "ReviewerRequirement list"
  pl_note :: string

datatype Blocker =
    PolicyDecisionIs DecisionStatus
  | EvidenceNotVerified string
  | ReviewNotVerified string
  | BlackLaneEscalation

record Readiness =
  rd_changePacketId :: string
  rd_ready :: bool
  rd_mergeLane :: MergeLane
  rd_decision :: DecisionStatus
  rd_blockers :: "Blocker list"
  rd_nextAction :: string
  rd_safetyNote :: string

datatype ToolValue =
    ExplanationValue Explanation
  | PlanValue EvidencePlan
  | ReadinessValue Readiness
  | PacketValue ChangePacket

datatype ToolError =
    UnknownTool string
  | ToolPanicked string string
  | PacketRequired
  | PacketEncode string
  | PacketDecode string
  | ToolResolve ResolveError
  | ToolScan ScanError
  | EncodeResult string

datatype Content = TextContent string | ErrorContent ToolError

record Result =
  rt_Content :: "Content list"
  rt_IsError :: bool

record McpEnv =
  me_Scan :: ScanEnv
  me_Resolve :: ResolveEnv
  me_Marshal :: "Json \<Rightarrow> string + string"
  me_UnmarshalPacket :: "string \<Rightarrow> string + ChangePacket"
  me_MarshalIndent :: "ToolValue \<Rightarrow> string + string"

section \<open>What the server offers\<close>

definition stringProperty :: "string \<Rightarrow> Json" where
  "stringProperty description = JObject [(''type'', JString ''string''), (''description'', JString description)]"

definition packetProperty :: "string \<times> Json" where
  "packetProperty = (''change_packet'', JObject [(''type'', JString ''object''),
     (''description'', JString ''Change Packet JSON returned by merger_scan.'')])"

definition namesProperty :: "string \<Rightarrow> Json" where
  "namesProperty description = JObject [(''type'', JString ''array''),
     (''items'', JObject [(''type'', JString ''string'')]), (''description'', JString description)]"

definition packetInputSchema :: Json where
  "packetInputSchema = JObject [(''type'', JString ''object''), (''properties'', JObject [packetProperty]),
     (''required'', JArray [JString ''change_packet''])]"

definition readinessInputSchema :: Json where
  "readinessInputSchema = JObject [(''type'', JString ''object''),
     (''properties'', JObject [packetProperty,
        (''completed_evidence'', namesProperty ''Names of evidence requirements completed for this exact Change Packet. Only use verified results.''),
        (''completed_reviews'', namesProperty ''Teams that have supplied the required review. Only use completed approvals.'')]),
     (''required'', JArray [JString ''change_packet''])]"

definition configProperties :: "(string \<times> Json) list" where
  "configProperties =
     [(''config'', stringProperty ''Path to a merger config file or directory (optional; auto-discovered otherwise).''),
      (''policy'', stringProperty ''Path to a policy file (optional; defaults to the config's policy path).'')]"

definition Definitions :: "Definition list" where
  "Definitions =
     [\<lparr>dn_Name = ''merger_scan'',
       dn_Description = ''Analyze a unified diff and return the resulting Change Packet as JSON: detected mutations, runtime impact, risk score, policy decision, and assigned merge lane.'',
       dn_InputSchema = JObject [(''type'', JString ''object''),
         (''properties'', JObject (
            [(''diff'', stringProperty ''Raw unified diff to analyze (as produced by `git diff`).''),
             (''repo_root'', stringProperty ''Repository root for file-content lookups and relative config paths. Defaults to the current directory.''),
             (''repo'', stringProperty ''Repository identifier as owner/name (optional).''),
             (''ref'', stringProperty ''Revision the diff targets (optional).'')] @ configProperties)),
         (''required'', JArray [JString ''diff''])]\<rparr>,
      \<lparr>dn_Name = ''merger_validate'',
       dn_Description = ''Validate a merger configuration and its policy file, reporting the resolved config path, policy rule count, and lane thresholds.'',
       dn_InputSchema = JObject [(''type'', JString ''object''),
         (''properties'', JObject (
            (''repo_root'', stringProperty ''Repository root to resolve config and policy against. Defaults to the current directory.'')
            # configProperties))]\<rparr>,
      \<lparr>dn_Name = ''merger_explain'',
       dn_Description = ''Explain a Change Packet in agent-oriented terms: why its lane and decision were assigned, what changed, and the concrete risks and mitigations to address. Pass the Change Packet returned by merger_scan.'',
       dn_InputSchema = packetInputSchema\<rparr>,
      \<lparr>dn_Name = ''merger_plan_evidence'',
       dn_Description = ''Turn a Change Packet's required evidence into a concrete, ordered checklist for an agent. Includes trusted GitHub check bindings when configured. Pass the Change Packet returned by merger_scan.'',
       dn_InputSchema = packetInputSchema\<rparr>,
      \<lparr>dn_Name = ''merger_check_readiness'',
       dn_Description = ''Assess whether a Change Packet is ready to merge using the evidence and reviews an agent reports as complete. Reports exact blockers without claiming unreported checks or reviews passed. Pass the Change Packet returned by merger_scan.'',
       dn_InputSchema = readinessInputSchema\<rparr>]"

section \<open>Arguments and results\<close>

definition stringArg :: "ToolArgs \<Rightarrow> string \<Rightarrow> string" where
  "stringArg args key = (case map_of args key of Some (JString s) \<Rightarrow> s | _ \<Rightarrow> [])"

definition stringSet :: "ToolArgs \<Rightarrow> string \<Rightarrow> string list" where
  "stringSet args key =
     (case map_of args key of
        Some (JArray raw) \<Rightarrow>
          List.map_filter (\<lambda>item. case item of JString s \<Rightarrow> if s \<noteq> [] then Some s else None | _ \<Rightarrow> None) raw
      | _ \<Rightarrow> [])"

definition changePacketArg :: "McpEnv \<Rightarrow> ToolArgs \<Rightarrow> ToolError + ChangePacket" where
  "changePacketArg env args =
     (case map_of args ''change_packet'' of
        None \<Rightarrow> Inl PacketRequired
      | Some raw \<Rightarrow>
          if raw = JNull then Inl PacketRequired
          else bindE (mapError PacketEncode (me_Marshal env raw)) (\<lambda>data.
            mapError PacketDecode (me_UnmarshalPacket env data)))"

definition jsonResult :: "McpEnv \<Rightarrow> ToolValue \<Rightarrow> ToolError + Result" where
  "jsonResult env v =
     bindE (mapError EncodeResult (me_MarshalIndent env v)) (\<lambda>data.
       Inr \<lparr>rt_Content = [TextContent data], rt_IsError = False\<rparr>)"

definition requiredEvidenceCount :: "ChangePacket \<Rightarrow> int" where
  "requiredEvidenceCount packet = foldl (\<lambda>count evidence. if er_Required evidence then count + 1 else count) 0 (cp_Evidence packet)"

definition requiredReviews :: "ChangePacket \<Rightarrow> ReviewerRequirement list" where
  "requiredReviews packet = filter rv_Mandatory (cp_Reviewers packet)"

definition nextAction :: "ChangePacket \<Rightarrow> string" where
  "nextAction packet =
     (if pd_Status (cp_Decision packet) \<noteq> DecisionApproved then ''resolve the policy decision and its reasons before merge''
      else if requiredEvidenceCount packet > 0 then ''complete the required evidence plan and verify its results''
      else if length (requiredReviews packet) > 0 then ''obtain the mandatory reviews''
      else if cp_MergeLane packet = MergeLaneBlack then ''escalate the BLACK-lane change for explicit approval''
      else ''the packet has no unreported policy, evidence, or review requirements'')"

section \<open>The tools\<close>

definition toolExplain :: "McpEnv \<Rightarrow> ToolArgs \<Rightarrow> ToolError + Result" where
  "toolExplain env args =
     bindE (changePacketArg env args) (\<lambda>packet.
       jsonResult env (ExplanationValue
         \<lparr>ex_changePacketId = cp_ID packet, ex_mergeLane = cp_MergeLane packet,
          ex_decision = pd_Status (cp_Decision packet), ex_decisionSummary = pd_Summary (cp_Decision packet),
          ex_decisionReasons = pd_Reasons (cp_Decision packet), ex_risk = cp_RiskSummary packet,
          ex_mutations = map (\<lambda>m. \<lparr>xm_kind = mu_Kind m, xm_severity = mu_Severity m, xm_title = mu_Title m,
            xm_files = mu_Files m\<rparr>) (cp_Mutations packet),
          ex_risks = map (\<lambda>r. \<lparr>xr_type = ri_Type r, xr_severity = ri_Severity r, xr_summary = ri_Summary r,
            xr_reason = ri_Reason r, xr_mitigations = ri_Mitigations r\<rparr>) (cp_Risks packet),
          ex_runtimeImpact = cp_Runtime packet, ex_nextAction = nextAction packet,
          ex_evidenceRequired = requiredEvidenceCount packet\<rparr>))"

definition evidenceStep :: "EvidenceRequirement \<Rightarrow> EvidenceStep" where
  "evidenceStep evidence =
     (let step = \<lparr>es_name = er_Name evidence, es_type = er_Type evidence, es_reason = er_Reason evidence,
            es_producer = er_Producer evidence,
            es_action = ''run, attach, or explicitly waive this evidence for the exact Change Packet'',
            es_trustedGitHubCheck = None\<rparr>
      in case er_GitHubCheck evidence of
           None \<Rightarrow> step
         | Some check \<Rightarrow> step\<lparr>es_trustedGitHubCheck := Some check,
             es_action := ''wait for the named trusted GitHub check on this Change Packet's head SHA''\<rparr>)"

definition planSteps :: "ChangePacket \<Rightarrow> EvidenceStep list" where
  "planSteps packet =
     foldl (\<lambda>steps evidence. if \<not> er_Required evidence then steps else steps @ [evidenceStep evidence]) [] (cp_Evidence packet)"

definition toolPlanEvidence :: "McpEnv \<Rightarrow> ToolArgs \<Rightarrow> ToolError + Result" where
  "toolPlanEvidence env args =
     bindE (changePacketArg env args) (\<lambda>packet.
       jsonResult env (PlanValue
         \<lparr>pl_changePacketId = cp_ID packet, pl_mergeLane = cp_MergeLane packet,
          pl_decision = pd_Status (cp_Decision packet), pl_steps = planSteps packet,
          pl_deployment = cp_Deployment packet, pl_requiredReviews = requiredReviews packet,
          pl_note = ''This plan describes requirements; use merger_check_readiness only with verified evidence and completed reviews.''\<rparr>))"

definition readinessBlockers :: "string list \<Rightarrow> string list \<Rightarrow> ChangePacket \<Rightarrow> Blocker list" where
  "readinessBlockers completedEvidence completedReviews packet =
     (let blockers = (if pd_Status (cp_Decision packet) \<noteq> DecisionApproved
            then [PolicyDecisionIs (pd_Status (cp_Decision packet))] else []);
          blockers = foldl (\<lambda>bs evidence. if er_Required evidence \<and> er_Name evidence \<notin> set completedEvidence
            then bs @ [EvidenceNotVerified (er_Name evidence)] else bs) blockers (cp_Evidence packet);
          blockers = foldl (\<lambda>bs review. if rv_Mandatory review \<and> rv_Team review \<notin> set completedReviews
            then bs @ [ReviewNotVerified (rv_Team review)] else bs) blockers (cp_Reviewers packet)
      in if cp_MergeLane packet = MergeLaneBlack then blockers @ [BlackLaneEscalation] else blockers)"

definition readiness :: "string list \<Rightarrow> string list \<Rightarrow> ChangePacket \<Rightarrow> Readiness" where
  "readiness completedEvidence completedReviews packet =
     (let blockers = readinessBlockers completedEvidence completedReviews packet
      in \<lparr>rd_changePacketId = cp_ID packet, rd_ready = (length blockers = 0), rd_mergeLane = cp_MergeLane packet,
          rd_decision = pd_Status (cp_Decision packet), rd_blockers = blockers,
          rd_nextAction = (if length blockers = 0
            then ''the reported policy decision, required evidence, and mandatory reviews are ready for merge''
            else nextAction packet),
          rd_safetyNote = ''Merger treats only explicitly reported completed evidence and reviews as verified in this offline MCP workflow.''\<rparr>)"

definition toolCheckReadiness :: "McpEnv \<Rightarrow> ToolArgs \<Rightarrow> ToolError + Result" where
  "toolCheckReadiness env args =
     bindE (changePacketArg env args) (\<lambda>packet.
       jsonResult env (ReadinessValue
         (readiness (stringSet args ''completed_evidence'') (stringSet args ''completed_reviews'') packet)))"

definition toolScan :: "McpEnv \<Rightarrow> ToolArgs \<Rightarrow> ToolError + Result" where
  "toolScan env args =
     (let rootDir = stringArg args ''repo_root''; rootDir = (if rootDir = [] then ''.'' else rootDir)
      in bindE (mapError ToolResolve (resolve_ScanOptions (me_Resolve env) rootDir (stringArg args ''config'')
             (stringArg args ''policy'') (stringArg args ''repo'') (stringArg args ''ref'') (stringArg args ''diff'')))
           (\<lambda>(options, _).
         bindE (mapError ToolScan (scan_Run (me_Scan env) options)) (\<lambda>packet. jsonResult env (PacketValue packet))))"

definition emDash :: string where
  "emDash = [CHR 0xE2, CHR 0x80, CHR 0x94]"

definition lanesLine :: "Config \<Rightarrow> string" where
  "lanesLine cfg = ''green<='' @ Itoa (lt_GreenMax (cg_Lanes cfg)) @ '' yellow<='' @ Itoa (lt_YellowMax (cg_Lanes cfg))
     @ '' red<='' @ Itoa (lt_RedMax (cg_Lanes cfg)) @ [CHR 0x0A]"

definition toolValidate :: "McpEnv \<Rightarrow> ToolArgs \<Rightarrow> ToolError + Result" where
  "toolValidate env args =
     (let rootDir = stringArg args ''repo_root''; rootDir = (if rootDir = [] then ''.'' else rootDir)
      in bindE (mapError ToolResolve (resolve_Config (me_Resolve env) rootDir (stringArg args ''config''))) (\<lambda>(cfg, cfgPath).
         bindE (mapError ToolResolve (resolve_Policy (me_Resolve env) rootDir (stringArg args ''policy'') cfg))
           (\<lambda>(policyConfig, policyPath, found).
         if \<not> found then
           Inr \<lparr>rt_Content = [TextContent ''no policy file found; set policy.path in the config or pass a policy path''],
                rt_IsError = True\<rparr>
         else
           Inr \<lparr>rt_Content = [TextContent (
                   (if cfgPath = [] then ''config: (none found '' @ emDash @ '' using defaults)'' @ [CHR 0x0A]
                    else ''config: '' @ cfgPath @ [CHR 0x0A])
                   @ ''policy: '' @ policyPath @ '' ('' @ Itoa (int (length (pc_Policies policyConfig))) @ '' rule(s))'' @ [CHR 0x0A]
                   @ ''lanes:  '' @ lanesLine cfg @ ''ok'')],
                rt_IsError = False\<rparr>)))"

definition Call :: "McpEnv \<Rightarrow> string \<Rightarrow> ToolArgs \<Rightarrow> ToolError + Result" where
  "Call env name args =
     (if name = ''merger_scan'' then toolScan env args
      else if name = ''merger_validate'' then toolValidate env args
      else if name = ''merger_explain'' then toolExplain env args
      else if name = ''merger_plan_evidence'' then toolPlanEvidence env args
      else if name = ''merger_check_readiness'' then toolCheckReadiness env args
      else Inl (UnknownTool name))"

section \<open>Loops in closed form\<close>

lemma foldl_select: "foldl (\<lambda>acc x. if P x then acc @ [f x] else acc) acc xs = acc @ map f (filter P xs)"
  by (induction xs arbitrary: acc) simp_all

lemma foldl_reject: "foldl (\<lambda>acc x. if P x then acc else acc @ [f x]) acc xs = acc @ map f (filter (\<lambda>x. \<not> P x) xs)"
  by (induction xs arbitrary: acc) simp_all

lemma planSteps_map: "planSteps packet = map evidenceStep (filter er_Required (cp_Evidence packet))"
  by (simp add: planSteps_def foldl_reject)

lemma evidenceStep_fields [simp]: "es_name (evidenceStep e) = er_Name e" "es_trustedGitHubCheck (evidenceStep e) = er_GitHubCheck e"
  by (simp_all add: evidenceStep_def Let_def split: option.splits)

lemma readinessBlockers_closed:
  "readinessBlockers evidence reviews packet =
     (if pd_Status (cp_Decision packet) \<noteq> DecisionApproved then [PolicyDecisionIs (pd_Status (cp_Decision packet))] else [])
     @ map (\<lambda>e. EvidenceNotVerified (er_Name e)) (filter (\<lambda>e. er_Required e \<and> er_Name e \<notin> set evidence) (cp_Evidence packet))
     @ map (\<lambda>r. ReviewNotVerified (rv_Team r)) (filter (\<lambda>r. rv_Mandatory r \<and> rv_Team r \<notin> set reviews) (cp_Reviewers packet))
     @ (if cp_MergeLane packet = MergeLaneBlack then [BlackLaneEscalation] else [])"
  by (simp add: readinessBlockers_def foldl_select Let_def)

lemma readiness_ready:
  "rd_ready (readiness evidence reviews packet) \<longleftrightarrow>
     pd_Status (cp_Decision packet) = DecisionApproved \<and> cp_MergeLane packet \<noteq> MergeLaneBlack
     \<and> (\<forall>e \<in> set (cp_Evidence packet). er_Required e \<longrightarrow> er_Name e \<in> set evidence)
     \<and> (\<forall>r \<in> set (cp_Reviewers packet). rv_Mandatory r \<longrightarrow> rv_Team r \<in> set reviews)"
  by (auto simp: readiness_def readinessBlockers_closed Let_def filter_empty_conv)

section \<open>Properties\<close>

text \<open>
  C18: readiness is judged exactly, and the evidence plan is enough. The tool reports a packet as ready
  exactly when its decision is approved, its lane is not black, and every required evidence and every
  mandatory review is among the reported ones. An agent that reports every step of the evidence plan
  and every review the plan names is left only with what it cannot supply: the decision and the black
  lane.
\<close>

theorem readiness_exact:
  assumes "changePacketArg env args = Inr packet"
  shows "(\<exists>r. Call env ''merger_check_readiness'' args = jsonResult env (ReadinessValue r)
      \<and> (rd_ready r \<longleftrightarrow> pd_Status (cp_Decision packet) = DecisionApproved \<and> cp_MergeLane packet \<noteq> MergeLaneBlack
          \<and> (\<forall>e \<in> set (cp_Evidence packet). er_Required e \<longrightarrow> er_Name e \<in> set (stringSet args ''completed_evidence''))
          \<and> (\<forall>t \<in> set (cp_Reviewers packet). rv_Mandatory t \<longrightarrow> rv_Team t \<in> set (stringSet args ''completed_reviews'')))
      \<and> (rd_ready r \<longleftrightarrow> rd_blockers r = []))
    \<and> set (rd_blockers (readiness (map es_name (planSteps packet)) (map rv_Team (requiredReviews packet)) packet))
      \<subseteq> {PolicyDecisionIs (pd_Status (cp_Decision packet)), BlackLaneEscalation}"
proof
  let ?r = "readiness (stringSet args ''completed_evidence'') (stringSet args ''completed_reviews'') packet"
  have "Call env ''merger_check_readiness'' args = jsonResult env (ReadinessValue ?r)"
    by (simp add: Call_def toolCheckReadiness_def assms)
  moreover have "rd_ready ?r \<longleftrightarrow> rd_blockers ?r = []" by (simp add: readiness_def Let_def)
  ultimately show "\<exists>r. Call env ''merger_check_readiness'' args = jsonResult env (ReadinessValue r)
      \<and> (rd_ready r \<longleftrightarrow> pd_Status (cp_Decision packet) = DecisionApproved \<and> cp_MergeLane packet \<noteq> MergeLaneBlack
          \<and> (\<forall>e \<in> set (cp_Evidence packet). er_Required e \<longrightarrow> er_Name e \<in> set (stringSet args ''completed_evidence''))
          \<and> (\<forall>t \<in> set (cp_Reviewers packet). rv_Mandatory t \<longrightarrow> rv_Team t \<in> set (stringSet args ''completed_reviews'')))
      \<and> (rd_ready r \<longleftrightarrow> rd_blockers r = [])"
    using readiness_ready by blast
  show "set (rd_blockers (readiness (map es_name (planSteps packet)) (map rv_Team (requiredReviews packet)) packet))
      \<subseteq> {PolicyDecisionIs (pd_Status (cp_Decision packet)), BlackLaneEscalation}"
    by (auto simp: readiness_def Let_def readinessBlockers_closed planSteps_map requiredReviews_def)
qed

text \<open>
  C21: what an agent reports never changes the verdict on a scanned packet: it is ready exactly when the
  decision is approved and the lane is not black. A scanned packet that requires evidence or a review
  has a decision that is not approved, so it stays not ready whatever is reported as complete.
\<close>

theorem scanned_readiness_ignores_reports:
  assumes "scan_Run env opts = Inr packet"
  shows "(rd_ready (readiness evidence reviews packet) \<longleftrightarrow>
        pd_Status (cp_Decision packet) = DecisionApproved \<and> cp_MergeLane packet \<noteq> MergeLaneBlack)
    \<and> (cp_Evidence packet \<noteq> [] \<or> cp_Reviewers packet \<noteq> [] \<longrightarrow> \<not> rd_ready (readiness evidence reviews packet))"
  using scan_approved [OF assms] by (auto simp: readiness_ready)

text \<open>
  The tools that are offered are the tools that exist: a call is refused as unknown exactly when its
  name is not one of the offered names, which are distinct.
\<close>

theorem offered_tools_exist:
  "distinct (map dn_Name Definitions)
   \<and> (Call env name args = Inl (UnknownTool n) \<longleftrightarrow> name \<notin> set (map dn_Name Definitions) \<and> n = name)"
proof -
  have "jsonResult env v \<noteq> Inl (UnknownTool n)" for v
    by (auto simp: jsonResult_def bindE_Inl mapError_Inl)
  moreover have "changePacketArg env args \<noteq> Inl (UnknownTool n)"
    by (auto simp: changePacketArg_def bindE_Inl mapError_Inl split: option.splits if_splits)
  ultimately have "toolScan env args \<noteq> Inl (UnknownTool n)" "toolValidate env args \<noteq> Inl (UnknownTool n)"
    "toolExplain env args \<noteq> Inl (UnknownTool n)" "toolPlanEvidence env args \<noteq> Inl (UnknownTool n)"
    "toolCheckReadiness env args \<noteq> Inl (UnknownTool n)"
    by (auto simp: toolScan_def toolValidate_def toolExplain_def toolPlanEvidence_def toolCheckReadiness_def Let_def
        bindE_Inl mapError_Inl split: if_splits)
  then show ?thesis by (auto simp: Call_def Definitions_def)
qed

section \<open>A sample call\<close>

definition demandingPacket :: ChangePacket where
  "demandingPacket = zeroChangePacket\<lparr>cp_ID := ''cp_7'', cp_MergeLane := MergeLaneYellow,
     cp_Decision := zeroPolicyDecision\<lparr>pd_Status := DecisionApproved\<rparr>,
     cp_Evidence := [zeroEvidenceRequirement\<lparr>er_Name := ''load'', er_Required := True\<rparr>]\<rparr>"

definition sampleMcpEnv :: McpEnv where
  "sampleMcpEnv = \<lparr>me_Scan = sampleScanEnv, me_Resolve = sampleResolveEnv, me_Marshal = (\<lambda>_. Inr ''packet''),
     me_UnmarshalPacket = (\<lambda>_. Inr demandingPacket), me_MarshalIndent = (\<lambda>_. Inr ''{}'')\<rparr>"

theorem readiness_exact_witness:
  "\<exists>r. Call sampleMcpEnv ''merger_check_readiness''
      [(''change_packet'', JObject []), (''completed_evidence'', JArray [JString ''load''])] = jsonResult sampleMcpEnv (ReadinessValue r)
     \<and> rd_ready r"
proof -
  let ?args = "[(''change_packet'', JObject []), (''completed_evidence'', JArray [JString ''load''])]"
  have "changePacketArg sampleMcpEnv ?args = Inr demandingPacket"
    by (simp add: changePacketArg_def sampleMcpEnv_def)
  from readiness_exact [OF this] show ?thesis
    by (auto simp: demandingPacket_def zero_defs stringSet_def map_filter_simps)
qed

theorem scanned_readiness_ignores_reports_witness:
  "\<exists>opts packet. scan_Run sampleScanEnv opts = Inr packet
     \<and> (\<forall>evidence reviews. rd_ready (readiness evidence reviews packet) \<longleftrightarrow>
          pd_Status (cp_Decision packet) = DecisionApproved \<and> cp_MergeLane packet \<noteq> MergeLaneBlack)"
proof -
  have "Validate (so_Policy (sampleScanOptions zeroChangePacket [])) = Inr ()" by code_simp
  then obtain packet where "scan_Run sampleScanEnv (sampleScanOptions zeroChangePacket []) = Inr packet"
    using scan_Run_valid by blast
  then show ?thesis using scanned_readiness_ignores_reports by blast
qed

end
