(* ===== verification/Mcp.thy ===== *)
theory Mcp
  imports McpTools
begin

text \<open>
  The MCP server, \<open>internal/mcpserver/server.go\<close> and \<open>protocol.go\<close>: newline-delimited JSON-RPC over a
  byte stream. The server keeps one flag. Decoding a line and its parameters, encoding a response and
  the writer are arguments; the input is what the reader delivers before the end of the file or an
  error. A request identifier is raw JSON, empty when the request has none.
\<close>

section \<open>The protocol\<close>

definition protocolVersion :: string where "protocolVersion = ''2025-06-18''"
definition jsonRPCParseError :: int where "jsonRPCParseError = -32700"
definition jsonRPCInvalidRequest :: int where "jsonRPCInvalidRequest = -32600"
definition jsonRPCMethodNotFound :: int where "jsonRPCMethodNotFound = -32601"
definition jsonRPCInvalidParams :: int where "jsonRPCInvalidParams = -32602"
definition jsonRPCInternalError :: int where "jsonRPCInternalError = -32603"
definition jsonRPCServerError :: int where "jsonRPCServerError = -32000"

lemmas rpc_codes = jsonRPCParseError_def jsonRPCInvalidRequest_def jsonRPCMethodNotFound_def jsonRPCInvalidParams_def
  jsonRPCInternalError_def jsonRPCServerError_def

record requestEnvelope =
  rq_JSONRPC :: string
  rq_ID :: string
  rq_Method :: string
  rq_Params :: string

datatype RpcMessage = Text string | MethodNotFound string | ToolMessage ToolError

datatype RpcResult =
    InitializeResult Json
  | EmptyResult
  | ToolsResult "Definition list"
  | CallResult Result

datatype RpcBody = Success RpcResult | Failure int RpcMessage

record responseEnvelope =
  rp_JSONRPC :: string
  rp_ID :: string
  rp_Body :: RpcBody

record toolCallParams =
  tp_Name :: string
  tp_Arguments :: "ToolArgs option"

record RpcEnv =
  rc_Request :: "string \<Rightarrow> requestEnvelope option"
  rc_Initialize :: "string \<Rightarrow> string option" \<comment> \<open>the protocol version of the parameters\<close>
  rc_Call :: "string \<Rightarrow> toolCallParams option"
  rc_Encode :: "responseEnvelope \<Rightarrow> string + string"
  rc_Tool :: "string \<Rightarrow> ToolArgs \<Rightarrow> string option" \<comment> \<open>the value a tool panics with, if it does\<close>
  rc_Mcp :: McpEnv

definition successResponse :: "string \<Rightarrow> RpcResult \<Rightarrow> responseEnvelope" where
  "successResponse i result = \<lparr>rp_JSONRPC = ''2.0'', rp_ID = i, rp_Body = Success result\<rparr>"

definition errorResponse :: "string \<Rightarrow> int \<Rightarrow> RpcMessage \<Rightarrow> responseEnvelope" where
  "errorResponse i code message = \<lparr>rp_JSONRPC = ''2.0'', rp_ID = i, rp_Body = Failure code message\<rparr>"

section \<open>The server\<close>

record Server =
  sv_initialized :: bool
  sv_tools :: "Definition list"

definition mcp_New :: Server where
  "mcp_New = \<lparr>sv_initialized = False, sv_tools = Definitions\<rparr>"

definition requireInitialized :: "Server \<Rightarrow> string \<Rightarrow> responseEnvelope option" where
  "requireInitialized s i =
     (if sv_initialized s then None else Some (errorResponse i jsonRPCServerError (Text ''server not initialized'')))"

definition version_Number :: string where
  "version_Number = ''1.2.0''"

definition initializeResult :: "string \<Rightarrow> Json" where
  "initializeResult negotiated = JObject
     [(''protocolVersion'', JString negotiated),
      (''capabilities'', JObject [(''tools'', JObject [(''listChanged'', JBool False)])]),
      (''serverInfo'', JObject [(''name'', JString ''merger''), (''title'', JString ''merger MCP Server''),
         (''version'', JString version_Number)]),
      (''instructions'', JString ''Use merger_scan to analyze a unified diff and get its Change Packet and merge lane. Pass that packet to merger_explain, merger_plan_evidence, or merger_check_readiness to plan and verify an agent's next actions. Use merger_validate to check a repository's merger config and policy.'')]"

definition handleInitialize :: "RpcEnv \<Rightarrow> requestEnvelope \<Rightarrow> responseEnvelope" where
  "handleInitialize env req =
     (let params = (if length (rq_Params req) > 0 then rc_Initialize env (rq_Params req) else Some [])
      in case params of
           None \<Rightarrow> errorResponse (rq_ID req) jsonRPCInvalidParams (Text ''invalid initialize params'')
         | Some requested \<Rightarrow>
             (let negotiated = (if TrimSpace requested = protocolVersion then requested else protocolVersion)
              in successResponse (rq_ID req) (InitializeResult (initializeResult negotiated))))"

definition safeToolCall :: "RpcEnv \<Rightarrow> string \<Rightarrow> ToolArgs \<Rightarrow> ToolError + Result" where
  "safeToolCall env name args =
     (case rc_Tool env name args of
        Some v \<Rightarrow> Inl (ToolPanicked name v)
      | None \<Rightarrow> Call (rc_Mcp env) name args)"

definition handleToolCall :: "RpcEnv \<Rightarrow> requestEnvelope \<Rightarrow> responseEnvelope" where
  "handleToolCall env req =
     (case rc_Call env (rq_Params req) of
        None \<Rightarrow> errorResponse (rq_ID req) jsonRPCInvalidParams (Text ''invalid tool call params'')
      | Some params \<Rightarrow>
          if TrimSpace (tp_Name params) = [] then
            errorResponse (rq_ID req) jsonRPCInvalidParams (Text ''tool name is required'')
          else
            (let args = (case tp_Arguments params of None \<Rightarrow> [] | Some a \<Rightarrow> a)
             in case safeToolCall env (tp_Name params) args of
                  Inr result \<Rightarrow> successResponse (rq_ID req) (CallResult result)
                | Inl err \<Rightarrow>
                    (case err of
                       UnknownTool _ \<Rightarrow> errorResponse (rq_ID req) jsonRPCInvalidParams (ToolMessage err)
                     | ToolPanicked _ _ \<Rightarrow> errorResponse (rq_ID req) jsonRPCInternalError (ToolMessage err)
                     | _ \<Rightarrow> successResponse (rq_ID req)
                         (CallResult \<lparr>rt_Content = [ErrorContent err], rt_IsError = True\<rparr>))))"

definition HandleRequest :: "RpcEnv \<Rightarrow> Server \<Rightarrow> requestEnvelope \<Rightarrow> Server \<times> responseEnvelope option" where
  "HandleRequest env s req =
     (if rq_JSONRPC req \<noteq> ''2.0'' then
        (s, Some (errorResponse (rq_ID req) jsonRPCInvalidRequest (Text ''invalid JSON-RPC version'')))
      else if rq_Method req = ''initialize'' then (s, Some (handleInitialize env req))
      else if rq_Method req = ''notifications/initialized'' then (s\<lparr>sv_initialized := True\<rparr>, None)
      else if rq_Method req = ''ping'' then (s, Some (successResponse (rq_ID req) EmptyResult))
      else if rq_Method req = ''tools/list'' then
        (case requireInitialized s (rq_ID req) of
           Some errResp \<Rightarrow> (s, Some errResp)
         | None \<Rightarrow> (s, Some (successResponse (rq_ID req) (ToolsResult (sv_tools s)))))
      else if rq_Method req = ''tools/call'' then
        (case requireInitialized s (rq_ID req) of
           Some errResp \<Rightarrow> (s, Some errResp)
         | None \<Rightarrow> (s, Some (handleToolCall env req)))
      else if HasPrefix (rq_Method req) ''notifications/'' then (s, None)
      else (s, Some (errorResponse (rq_ID req) jsonRPCMethodNotFound (MethodNotFound (rq_Method req)))))"

definition HandleLine :: "RpcEnv \<Rightarrow> Server \<Rightarrow> string \<Rightarrow> Server \<times> responseEnvelope option" where
  "HandleLine env s line =
     (case rc_Request env line of
        None \<Rightarrow> (s, Some (errorResponse [] jsonRPCParseError (Text ''Parse error'')))
      | Some req \<Rightarrow> HandleRequest env s req)"

definition writeMessage :: "RpcEnv \<Rightarrow> (string \<Rightarrow> ('w, string, unit) io) \<Rightarrow> responseEnvelope \<Rightarrow> ('w, string, unit) io" where
  "writeMessage env write msg = bindM (liftM (rc_Encode env msg)) (\<lambda>data. write (data @ [CHR 0x0A]))"

definition readBytes :: "string \<Rightarrow> string \<times> string option" where
  \<comment> \<open>\<^verbatim>\<open>reader.ReadBytes\<close>: a line and what follows it, or the rest when no newline is left\<close>
  "readBytes input =
     (if CHR 0x0A \<in> set input
      then (takeWhile (\<lambda>c. c \<noteq> CHR 0x0A) input @ [CHR 0x0A], Some (tl (dropWhile (\<lambda>c. c \<noteq> CHR 0x0A) input)))
      else (input, None))"

definition serveLine ::
  "RpcEnv \<Rightarrow> (string \<Rightarrow> ('w, string, unit) io) \<Rightarrow> Server \<Rightarrow> string \<Rightarrow> ('w, string, Server) io" where
  "serveLine env write s raw =
     (let line = TrimSpace raw
      in if length line > 0 then
           (let (s', resp) = HandleLine env s line
            in case resp of
                 None \<Rightarrow> retM s'
               | Some msg \<Rightarrow> bindM (writeMessage env write msg) (\<lambda>_. retM s'))
         else retM s)"

function Serve ::
  "RpcEnv \<Rightarrow> (string \<Rightarrow> ('w, string, unit) io) \<Rightarrow> string option \<Rightarrow> Server \<Rightarrow> string \<Rightarrow> ('w, string, unit) io" where
  \<comment> \<open>the reader ends with an error, or with the end of the file when there is none\<close>
  "Serve env write readErr s input =
     bindM (serveLine env write s (fst (readBytes input))) (\<lambda>s'.
       case snd (readBytes input) of
         Some rest \<Rightarrow> Serve env write readErr s' rest
       | None \<Rightarrow> (case readErr of None \<Rightarrow> retM () | Some err \<Rightarrow> failM err))"
  by pat_completeness auto

lemma readBytes_shorter: "snd (readBytes input) = Some rest \<Longrightarrow> length rest < length input"
proof -
  assume r: "snd (readBytes input) = Some rest"
  then have n: "CHR 0x0A \<in> set input" by (simp add: readBytes_def split: if_splits)
  then have "dropWhile (\<lambda>c. c \<noteq> CHR 0x0A) input \<noteq> []" by (auto simp: dropWhile_eq_Nil_conv)
  then have "length rest < length (dropWhile (\<lambda>c. c \<noteq> CHR 0x0A) input)"
    using r n by (cases "dropWhile (\<lambda>c. c \<noteq> CHR 0x0A) input") (auto simp: readBytes_def)
  also have "\<dots> \<le> length input" by (rule length_dropWhile_le)
  finally show ?thesis .
qed

termination Serve
  by (relation "measure (\<lambda>(_, _, _, _, input). length input)") (auto simp: readBytes_shorter)

declare Serve.simps [simp del]

section \<open>A session, line by line\<close>

text \<open>
  The reference: the lines of the input in order, each with the flag that the lines before it have
  set, and the responses they get.
\<close>

definition opens :: "RpcEnv \<Rightarrow> string \<Rightarrow> bool" where
  \<comment> \<open>the line is the notification that the client is initialized\<close>
  "opens env line \<longleftrightarrow>
     TrimSpace line \<noteq> [] \<and> (case rc_Request env (TrimSpace line) of
        None \<Rightarrow> False
      | Some req \<Rightarrow> rq_JSONRPC req = ''2.0'' \<and> rq_Method req = ''notifications/initialized'')"

definition responseTo :: "RpcEnv \<Rightarrow> bool \<Rightarrow> string \<Rightarrow> responseEnvelope option" where
  "responseTo env ready line =
     (if TrimSpace line = [] then None
      else snd (HandleLine env \<lparr>sv_initialized = ready, sv_tools = Definitions\<rparr> (TrimSpace line)))"

fun session :: "RpcEnv \<Rightarrow> bool \<Rightarrow> string list \<Rightarrow> responseEnvelope list" where
  "session env ready [] = []"
| "session env ready (line # lines) =
     (case responseTo env ready line of None \<Rightarrow> [] | Some r \<Rightarrow> [r]) @ session env (ready \<or> opens env line) lines"

lemma HandleRequest_state:
  "fst (HandleRequest env s req) =
     (if rq_JSONRPC req = ''2.0'' \<and> rq_Method req = ''notifications/initialized'' then s\<lparr>sv_initialized := True\<rparr> else s)"
  by (simp add: HandleRequest_def split: option.splits)

lemma HandleLine_state:
  assumes "TrimSpace line \<noteq> []"
  shows "fst (HandleLine env \<lparr>sv_initialized = ready, sv_tools = Definitions\<rparr> (TrimSpace line))
    = \<lparr>sv_initialized = ready \<or> opens env line, sv_tools = Definitions\<rparr>"
  using assms by (auto simp: HandleLine_def opens_def HandleRequest_state split: option.splits)

lemma trimBy_snoc: "P c \<Longrightarrow> trimBy P (s @ [c]) = trimBy P s"
  by (cases "\<forall>x \<in> set s. P x") (auto simp: trimBy_def dropWhile_append dest: set_dropWhileD)

lemma readBytes_trim: "TrimSpace (fst (readBytes input)) = TrimSpace (takeWhile (\<lambda>c. c \<noteq> CHR 0x0A) input)"
proof (cases "CHR 0x0A \<in> set input")
  case False
  then have whole: "takeWhile (\<lambda>c. c \<noteq> CHR 0x0A) input = input" by (auto simp: takeWhile_eq_all_conv)
  have "fst (readBytes input) = input" using False by (simp add: readBytes_def)
  then show ?thesis unfolding whole by simp
qed (simp add: readBytes_def TrimSpace_def trimBy_snoc isSpace_def)

lemma Split_readBytes:
  "Split input (CHR 0x0A) = takeWhile (\<lambda>c. c \<noteq> CHR 0x0A) input #
     (case snd (readBytes input) of None \<Rightarrow> [] | Some rest \<Rightarrow> Split rest (CHR 0x0A))"
proof (cases "CHR 0x0A \<in> set input")
  case True
  then have "dropWhile (\<lambda>c. c \<noteq> CHR 0x0A) input = CHR 0x0A # tl (dropWhile (\<lambda>c. c \<noteq> CHR 0x0A) input)"
    by (induction input) auto
  then have i: "input = takeWhile (\<lambda>c. c \<noteq> CHR 0x0A) input @ CHR 0x0A # tl (dropWhile (\<lambda>c. c \<noteq> CHR 0x0A) input)"
    by (metis takeWhile_dropWhile_id)
  have free: "\<forall>c \<in> set (takeWhile (\<lambda>c. c \<noteq> CHR 0x0A) input). \<not> c = CHR 0x0A" by (auto dest: set_takeWhileD)
  have "Split input (CHR 0x0A) = takeWhile (\<lambda>c. c \<noteq> CHR 0x0A) input
      # Split (tl (dropWhile (\<lambda>c. c \<noteq> CHR 0x0A) input)) (CHR 0x0A)"
    unfolding Split_def by (rule trans [OF arg_cong [OF i, of "splitBy (\<lambda>c. c = CHR 0x0A)"] splitBy_append_sep [OF free refl]])
  then show ?thesis using True by (simp add: readBytes_def)
next
  case False
  then have "splitBy (\<lambda>c. c = CHR 0x0A) input = [input]" by (intro splitBy_no_sep) auto
  moreover have whole: "takeWhile (\<lambda>c. c \<noteq> CHR 0x0A) input = input" using False by (auto simp: takeWhile_eq_all_conv)
  ultimately show ?thesis unfolding whole using False by (simp add: Split_def readBytes_def)
qed

definition recordLine :: "string \<Rightarrow> (string list, string, unit) io" where
  \<comment> \<open>a writer that keeps what it is given\<close>
  "recordLine data w = (Inr (), w @ [data])"

lemma serveLine_records:
  assumes "\<And>r. rc_Encode env r = Inr (enc r)"
  shows "serveLine env recordLine \<lparr>sv_initialized = ready, sv_tools = Definitions\<rparr> line w =
    (Inr \<lparr>sv_initialized = ready \<or> opens env line, sv_tools = Definitions\<rparr>,
     w @ map (\<lambda>r. enc r @ [CHR 0x0A]) (case responseTo env ready line of None \<Rightarrow> [] | Some r \<Rightarrow> [r]))"
proof (cases "TrimSpace line = []")
  case True
  then show ?thesis by (simp add: serveLine_def responseTo_def opens_def)
next
  case False
  obtain s' resp where h: "HandleLine env \<lparr>sv_initialized = ready, sv_tools = Definitions\<rparr> (TrimSpace line) = (s', resp)"
    by fastforce
  then have "s' = \<lparr>sv_initialized = ready \<or> opens env line, sv_tools = Definitions\<rparr>"
    using HandleLine_state [OF False, of env ready] by simp
  then show ?thesis
    using False h by (cases resp)
      (simp_all add: serveLine_def responseTo_def writeMessage_def assms recordLine_def bindM_def liftM_def retM_def Let_def)
qed

lemma Serve_session:
  assumes "\<And>r. rc_Encode env r = Inr (enc r)"
  shows "Serve env recordLine readErr \<lparr>sv_initialized = ready, sv_tools = Definitions\<rparr> input w =
    (case readErr of None \<Rightarrow> Inr () | Some e \<Rightarrow> Inl e,
     w @ map (\<lambda>r. enc r @ [CHR 0x0A]) (session env ready (Split input (CHR 0x0A))))"
proof (induction input arbitrary: ready w rule: length_induct)
  case (1 input)
  have same: "opens env (fst (readBytes input)) = opens env (takeWhile (\<lambda>c. c \<noteq> CHR 0x0A) input)"
    "responseTo env ready (fst (readBytes input)) = responseTo env ready (takeWhile (\<lambda>c. c \<noteq> CHR 0x0A) input)"
    by (simp_all add: opens_def responseTo_def readBytes_trim)
  show ?case
  proof (cases "snd (readBytes input)")
    case None
    then show ?thesis
      by (subst Serve.simps, subst Split_readBytes)
        (auto simp: bindM_def serveLine_records [OF assms] same retM_def failM_def split: option.splits)
  next
    case (Some rest)
    then have "length rest < length input" by (rule readBytes_shorter)
    from 1 [rule_format, OF this] show ?thesis
      by (subst Serve.simps, subst Split_readBytes)
        (simp add: Some bindM_def serveLine_records [OF assms] same)
  qed
qed

section \<open>Properties\<close>

text \<open>
  C16: a session ends and is answered in order. Whatever the client sends, the server reads the input to its
  end and returns, with the error of the reader if there was one; it has written one line per answered
  request, in the order of the requests, each answered with the flag that the lines before it have set,
  and a last line without a newline is answered too. Encoding a response is assumed to succeed.
\<close>

theorem serve_answers_in_order:
  assumes "\<And>r. rc_Encode env r = Inr (enc r)"
  shows "Serve env recordLine readErr mcp_New input [] =
    (case readErr of None \<Rightarrow> Inr () | Some e \<Rightarrow> Inl e,
     map (\<lambda>r. enc r @ [CHR 0x0A]) (session env False (Split input (CHR 0x0A))))"
  using Serve_session [OF assms, where ready = False and w = "[]"] by (simp add: mcp_New_def)

text \<open>
  C17: what a request gets. A well-formed notification is never answered and every other request is, with its
  own identifier; the flag is set exactly by the notification that the client is initialized and is
  never cleared; and until it is set no response lists tools or carries the result of one.
\<close>

theorem request_discipline:
  assumes "HandleRequest env s req = (s', resp)"
  shows "(resp = None \<longleftrightarrow> rq_JSONRPC req = ''2.0'' \<and> HasPrefix (rq_Method req) ''notifications/'')
    \<and> (\<forall>r. resp = Some r \<longrightarrow> rp_ID r = rq_ID req \<and> rp_JSONRPC r = ''2.0'')
    \<and> (sv_initialized s' \<longleftrightarrow> sv_initialized s \<or> rq_JSONRPC req = ''2.0'' \<and> rq_Method req = ''notifications/initialized'')
    \<and> sv_tools s' = sv_tools s
    \<and> (\<not> sv_initialized s \<longrightarrow> (\<forall>r tools result. resp = Some r \<longrightarrow>
         rp_Body r \<noteq> Success (ToolsResult tools) \<and> rp_Body r \<noteq> Success (CallResult result)))"
proof -
  have ids: "rp_ID (handleInitialize env req) = rq_ID req" "rp_ID (handleToolCall env req) = rq_ID req"
    "rp_JSONRPC (handleInitialize env req) = ''2.0''" "rp_JSONRPC (handleToolCall env req) = ''2.0''"
    by (simp_all add: handleInitialize_def handleToolCall_def successResponse_def errorResponse_def Let_def
        split: option.splits sum.splits ToolError.splits)
  have body: "rp_Body (handleInitialize env req) \<noteq> Success (ToolsResult tools)"
    "rp_Body (handleInitialize env req) \<noteq> Success (CallResult result)" for tools result
    by (simp_all add: handleInitialize_def successResponse_def errorResponse_def Let_def split: option.splits)
  have names: "\<not> HasPrefix ''initialize'' ''notifications/''" "HasPrefix ''notifications/initialized'' ''notifications/''"
    "\<not> HasPrefix ''ping'' ''notifications/''" "\<not> HasPrefix ''tools/list'' ''notifications/''"
    "\<not> HasPrefix ''tools/call'' ''notifications/''"
    by code_simp+
  show ?thesis
    using assms ids body names
    by (auto simp: HandleRequest_def requireInitialized_def successResponse_def errorResponse_def split: if_splits)
qed

section \<open>A sample session\<close>

definition sampleRpcEnv :: RpcEnv where
  "sampleRpcEnv = \<lparr>rc_Request = (\<lambda>line. Some \<lparr>rq_JSONRPC = ''2.0'', rq_ID = ''7'', rq_Method = line, rq_Params = []\<rparr>),
     rc_Initialize = (\<lambda>_. None), rc_Call = (\<lambda>_. None), rc_Encode = (\<lambda>r. Inr (rp_ID r)), rc_Tool = (\<lambda>_ _. None),
     rc_Mcp = sampleMcpEnv\<rparr>"

theorem serve_answers_in_order_witness:
  "\<exists>enc. (\<forall>r. rc_Encode sampleRpcEnv r = Inr (enc r))
     \<and> Serve sampleRpcEnv recordLine None mcp_New (''ping'' @ [CHR 0x0A] @ ''notifications/initialized'' @ [CHR 0x0A] @ ''tools/list'') []
       = (Inr (), [''7'' @ [CHR 0x0A], ''7'' @ [CHR 0x0A]])"
proof -
  let ?input = "''ping'' @ [CHR 0x0A] @ ''notifications/initialized'' @ [CHR 0x0A] @ ''tools/list''"
  have e: "rc_Encode sampleRpcEnv r = Inr (rp_ID r)" for r by (simp add: sampleRpcEnv_def)
  have "map rp_ID (session sampleRpcEnv False (Split ?input (CHR 0x0A))) = [''7'', ''7'']" by code_simp
  from arg_cong [OF this, of "map (\<lambda>i. i @ [CHR 0x0A])"]
  have "map (\<lambda>r. rp_ID r @ [CHR 0x0A]) (session sampleRpcEnv False (Split ?input (CHR 0x0A)))
      = [''7'' @ [CHR 0x0A], ''7'' @ [CHR 0x0A]]"
    unfolding map_map comp_def list.map .
  then have "Serve sampleRpcEnv recordLine None mcp_New ?input [] = (Inr (), [''7'' @ [CHR 0x0A], ''7'' @ [CHR 0x0A]])"
    using serve_answers_in_order [where enc = rp_ID and readErr = None and input = ?input, OF e] by (simp only: option.case)
  then show ?thesis using e by blast
qed

theorem request_discipline_witness:
  "\<exists>s'. HandleRequest sampleRpcEnv mcp_New \<lparr>rq_JSONRPC = ''2.0'', rq_ID = ''3'', rq_Method = ''notifications/initialized'', rq_Params = []\<rparr>
      = (s', None) \<and> sv_initialized s'"
proof -
  let ?req = "\<lparr>rq_JSONRPC = ''2.0'', rq_ID = ''3'', rq_Method = ''notifications/initialized'', rq_Params = []\<rparr>"
  obtain s' where h: "HandleRequest sampleRpcEnv mcp_New ?req = (s', None)" by (simp add: HandleRequest_def)
  show ?thesis using request_discipline [OF h] h by auto
qed

end
