(* ===== verification/Flags.thy ===== *)
theory Flags
  imports GoStrings Prelude
begin

text \<open>
  Command-line flags as the Go package \<^verbatim>\<open>flag\<close> parses them for the local commands: a flag has a name
  and is boolean or takes a string. Parsing gives the values in the order in which they were set; the
  last one counts.
\<close>

datatype FlagKind = BoolFlag | StringFlag

datatype FlagError =
    BadSyntax string
  | NotDefined string
  | HelpRequested
  | InvalidBoolean string string
  | NeedsArgument string

type_synonym FlagSet = "(string \<times> FlagKind) list"
type_synonym FlagValues = "(string \<times> string) list"

definition ParseBool :: "string \<Rightarrow> bool option" where
  "ParseBool s =
     (if s \<in> set [''1'', ''t'', ''T'', ''true'', ''TRUE'', ''True''] then Some True
      else if s \<in> set [''0'', ''f'', ''F'', ''false'', ''FALSE'', ''False''] then Some False
      else None)"

definition flagName :: "string \<Rightarrow> string option" where
  \<comment> \<open>what follows the dashes, if the argument is a flag\<close>
  "flagName s =
     (if length s < 2 \<or> hd s \<noteq> CHR ''-'' then None
      else if s = ''--'' then None
      else if s ! 1 = CHR ''-'' then Some (drop 2 s) else Some (drop 1 s))"

definition flagValue :: "string \<Rightarrow> string \<times> string option" where
  \<comment> \<open>the name up to an equals sign after its first character, and the value behind it\<close>
  "flagValue name =
     (let (first, value, found) = Cut (tl name) CHR ''=''
      in if found then (hd name # first, Some value) else (name, None))"

fun parseFlags :: "FlagSet \<Rightarrow> string list \<Rightarrow> FlagValues \<Rightarrow> FlagError + FlagValues" where
  "parseFlags defs [] vals = Inr vals"
| "parseFlags defs (s # args) vals =
     (case flagName s of
        None \<Rightarrow> Inr vals
      | Some body \<Rightarrow>
          if body = [] \<or> hd body = CHR ''-'' \<or> hd body = CHR ''='' then Inl (BadSyntax s)
          else
            (let (name, given) = flagValue body
             in case map_of defs name of
                  None \<Rightarrow> if name = ''help'' \<or> name = ''h'' then Inl HelpRequested else Inl (NotDefined name)
                | Some BoolFlag \<Rightarrow>
                    (case given of
                       None \<Rightarrow> parseFlags defs args (vals @ [(name, ''true'')])
                     | Some v \<Rightarrow>
                         if ParseBool v = None then Inl (InvalidBoolean name v)
                         else parseFlags defs args (vals @ [(name, v)]))
                | Some StringFlag \<Rightarrow>
                    (case given of
                       Some v \<Rightarrow> parseFlags defs args (vals @ [(name, v)])
                     | None \<Rightarrow>
                         (case args of
                            [] \<Rightarrow> Inl (NeedsArgument name)
                          | v # args' \<Rightarrow> parseFlags defs args' (vals @ [(name, v)])))))"

definition stringFlag :: "FlagValues \<Rightarrow> string \<Rightarrow> string \<Rightarrow> string" where
  "stringFlag vals name def = (case map_of (rev vals) name of None \<Rightarrow> def | Some v \<Rightarrow> v)"

definition boolFlag :: "FlagValues \<Rightarrow> string \<Rightarrow> bool" where
  "boolFlag vals name = (case map_of (rev vals) name of None \<Rightarrow> False | Some v \<Rightarrow> ParseBool v = Some True)"

text \<open>The last setting of a flag counts, and the two ways to give a value mean the same.\<close>

lemma stringFlag_last: "stringFlag (vals @ [(name, v)]) name def = v"
  by (simp add: stringFlag_def)

lemma flagName_dash: "n \<noteq> [] \<Longrightarrow> hd n \<noteq> CHR ''-'' \<Longrightarrow> flagName (CHR ''-'' # n) = Some n"
  by (cases n) (auto simp: flagName_def)

lemma flagValue_plain: "n \<noteq> [] \<Longrightarrow> CHR ''='' \<notin> set n \<Longrightarrow> flagValue n = (n, None)"
  by (cases n) (auto simp: flagValue_def Cut_def)

lemma flagValue_equals: "n \<noteq> [] \<Longrightarrow> CHR ''='' \<notin> set n \<Longrightarrow> flagValue (n @ CHR ''='' # v) = (n, Some v)"
  by (cases n) (auto simp: flagValue_def Cut_def takeWhile_append dropWhile_append)

lemma parseFlags_equals:
  assumes "map_of defs n = Some StringFlag" and "n \<noteq> []" and "hd n \<noteq> CHR ''-''" and "CHR ''='' \<notin> set n"
  shows "parseFlags defs ((CHR ''-'' # n @ CHR ''='' # v) # args) vals = parseFlags defs ((CHR ''-'' # n) # v # args) vals"
proof -
  have "hd n \<noteq> CHR ''=''" using assms(2,4) hd_in_set by metis
  then show ?thesis
    using assms flagName_dash [of n] flagName_dash [of "n @ CHR ''='' # v"] flagValue_plain [of n] flagValue_equals [of n v]
    by simp
qed

end
