(* ===== verification/Cli.thy ===== *)
theory Cli
  imports Mcp Flags
begin

text \<open>
  The local command, \<open>internal/cli\<close> and \<open>cmd/merger/main.go\<close>: scanning with a lane gate, validation,
  initialization of a repository, and the dispatch with its exit codes. Standard streams, git and writing
  files are operations on the state of the machine, given by \<open>CliEnv\<close>; reading configuration, policy
  and source files is as in the theory of the resolution.
\<close>

section \<open>The environment\<close>

datatype ExitMessage =
    NoMessage
  | UnknownFormat string
  | InvalidFailLane string
  | DiffRequired
  | GateReached MergeLane MergeLane
  | PolicyNotFound string
  | InvalidConfig ConfigError
  | AlreadyExists string
  | UnknownCommand string

datatype CliError =
    ExitError int ExitMessage
  | FlagFailed FlagError
  | Wrapped string string \<comment> \<open>what was done, and the error\<close>
  | ResolveFailed ResolveError
  | ScanFailed ScanError
  | StreamFailed string

record 'w CliEnv =
  ce_Scan :: ScanEnv
  ce_Resolve :: ResolveEnv
  ce_Rpc :: RpcEnv
  ce_Stdin :: "('w, string, string) io"
  ce_Stream :: "'w \<Rightarrow> string \<times> string option" \<comment> \<open>what the input delivers, and the error after it if there is one\<close>
  ce_Git :: "string \<Rightarrow> string \<Rightarrow> ('w, string, string) io" \<comment> \<open>the diff of a range in a directory\<close>
  ce_ReadFile :: "string \<Rightarrow> ('w, string, string) io"
  ce_Stdout :: "string \<Rightarrow> 'w \<Rightarrow> 'w"
  ce_Stderr :: "string \<Rightarrow> 'w \<Rightarrow> 'w"
  ce_WriteStdout :: "string \<Rightarrow> ('w, string, unit) io" \<comment> \<open>where the error of the write is returned\<close>
  ce_WriteJSON :: "ChangePacket \<Rightarrow> ('w, string, unit) io"
  ce_OpenAppend :: "string \<Rightarrow> ('w, string, unit) io"
  ce_Append :: "string \<Rightarrow> string \<Rightarrow> ('w, string, unit) io"
  ce_MkdirAll :: "string \<Rightarrow> ('w, string, unit) io"
  ce_Stat :: "string \<Rightarrow> 'w \<Rightarrow> string + bool"
  ce_WriteFile :: "string \<Rightarrow> string \<Rightarrow> ('w, string, unit) io"

definition emit :: "(string \<Rightarrow> 'w \<Rightarrow> 'w) \<Rightarrow> string \<Rightarrow> ('w, CliError, unit) io" where
  "emit stream text w = (Inr (), stream text w)"

definition endl :: "string \<Rightarrow> string" where
  "endl s = s @ [CHR 0x0A]"

section \<open>Scanning\<close>

definition cli_laneRank :: "(MergeLane \<times> int) list" where
  "cli_laneRank = [(MergeLaneGreen, 1), (MergeLaneYellow, 2), (MergeLaneRed, 3), (MergeLaneBlack, 4)]"

definition rankOf :: "MergeLane \<Rightarrow> int" where
  "rankOf lane = (case map_of cli_laneRank lane of None \<Rightarrow> 0 | Some r \<Rightarrow> r)"

definition validateScanFormat :: "string \<Rightarrow> CliError + unit" where
  "validateScanFormat format = guardE (format = ''text'' \<or> format = ''json'') (ExitError 2 (UnknownFormat format))"

definition parseFailLane :: "string \<Rightarrow> ExitMessage + MergeLane" where
  "parseFailLane raw =
     (if raw = [] then Inr []
      else (let lane = ToUpper raw
            in case map_of cli_laneRank lane of None \<Rightarrow> Inl (InvalidFailLane raw) | Some _ \<Rightarrow> Inr lane))"

definition readDiff :: "'w CliEnv \<Rightarrow> string \<Rightarrow> string \<Rightarrow> string \<Rightarrow> ('w, CliError, string) io" where
  "readDiff env rootDir diffPath baseRef =
     (if diffPath = ''-'' then wrapM (Wrapped ''read diff from stdin'') (ce_Stdin env)
      else if diffPath \<noteq> [] then wrapM (Wrapped ''read diff file'') (ce_ReadFile env diffPath)
      else if baseRef \<noteq> [] then
        wrapM (Wrapped (''git diff '' @ baseRef @ ''...HEAD'')) (ce_Git env rootDir (baseRef @ ''...HEAD''))
      else failM (ExitError 2 DiffRequired))"

definition explanationText :: "ChangePacket \<Rightarrow> string" where
  "explanationText packet =
     endl [] @ endl ''explanation:''
     @ (if pd_Summary (cp_Decision packet) \<noteq> [] then endl (''  policy: '' @ pd_Summary (cp_Decision packet)) else [])
     @ concat (map (\<lambda>reason. endl (''  - policy reason: '' @ reason)) (pd_Reasons (cp_Decision packet)))
     @ concat (map (\<lambda>v. endl (''  - violation ['' @ pv_Severity v @ ''] '' @ pv_Policy v @ '': '' @ pv_Reason v))
         (pd_Violations (cp_Decision packet)))
     @ (if length (cp_Risks packet) = 0 then endl ''  risks: no scored risk contributors''
        else endl ''  risks:'' @ concat (map (\<lambda>r.
               endl (''    - ['' @ ri_Severity r @ ''] '' @ ri_Type r @ '' +'' @ Itoa (ri_Score r) @ '': '' @ ri_Summary r)
               @ (if ri_Reason r \<noteq> [] then endl (''      reason: '' @ ri_Reason r) else [])
               @ concat (map (\<lambda>m. endl (''      mitigate: '' @ m)) (ri_Mitigations r))) (cp_Risks packet)))
     @ (if length (im_Services (cp_Runtime packet)) > 0 then
          endl ''  affected services:'' @ concat (map (\<lambda>s.
            endl (''    - '' @ sr_Name s @ '' ('' @ sr_Kind s @ '', criticality='' @ sr_Criticality s @ '')''))
            (im_Services (cp_Runtime packet)))
        else [])
     @ concat (map (\<lambda>n. endl (''  - runtime note: '' @ n)) (im_Notes (cp_Runtime packet)))
     @ (if ca_Route (cp_Conflict packet) \<noteq> [] \<and> ca_Route (cp_Conflict packet) \<noteq> ConflictRouteNone then
          endl (''  conflict route: '' @ ca_Route (cp_Conflict packet))
          @ concat (map (\<lambda>f. endl (''  - conflict ['' @ fi_Severity f @ ''] '' @ fi_Kind f @ '': '' @ fi_Summary f))
              (ca_Findings (cp_Conflict packet)))
          @ concat (map (\<lambda>m. endl (''      mitigate: '' @ m)) (ca_Mitigations (cp_Conflict packet)))
        else [])"

definition reviewerLabel :: "ReviewerRequirement \<Rightarrow> string" where
  "reviewerLabel r = rv_Team r @ (if rv_Mandatory r then '' (mandatory)'' else [])"

definition evidenceLabel :: "EvidenceRequirement \<Rightarrow> string" where
  "evidenceLabel e = er_Type e @ (if er_Required e then '' (required)'' else [])
     @ (case er_GitHubCheck e of None \<Rightarrow> []
        | Some c \<Rightarrow> '' [GitHub check: '' @ gb_Name c @ '' / app '' @ Itoa (gb_AppID c) @ '']'')"

definition reportText :: "ChangePacket \<Rightarrow> bool \<Rightarrow> string" where
  "reportText packet explain =
     endl ''merger scan''
     @ endl (''repo:       '' @ (if rr_FullName (cp_Repo packet) = [] then ''-'' else rr_FullName (cp_Repo packet)))
     @ endl (''files:      '' @ Itoa (int (length (cp_Files packet))) @ '' changed'')
     @ endl (''mutations:  '' @ Itoa (int (length (cp_Mutations packet))))
     @ concat (map (\<lambda>m. endl (''  - ['' @ mu_Severity m @ ''] '' @ mu_Kind m @ '': '' @ mu_Title m @ '' ('' @ mu_Detector m @ '')''))
         (cp_Mutations packet))
     @ endl (''risk:       score '' @ Itoa (rs_Score (cp_RiskSummary packet)) @ '' ('' @ rs_Severity (cp_RiskSummary packet) @ '')'')
     @ (if ca_Route (cp_Conflict packet) \<noteq> [] \<and> ca_Route (cp_Conflict packet) \<noteq> ConflictRouteNone
        then endl (''conflict:   route '' @ ca_Route (cp_Conflict packet) @ '' (score '' @ Itoa (ca_Score (cp_Conflict packet)) @ '')'')
        else [])
     @ endl (''runtime:    blast radius '' @ im_BlastRadius (cp_Runtime packet) @ '', criticality '' @ im_Criticality (cp_Runtime packet))
     @ endl (''decision:   '' @ pd_Status (cp_Decision packet))
     @ (if length (cp_Reviewers packet) > 0
        then endl (''reviewers:  '' @ Join (map reviewerLabel (cp_Reviewers packet)) '', '') else [])
     @ (if length (cp_Evidence packet) > 0
        then endl (''evidence:   '' @ Join (map evidenceLabel (cp_Evidence packet)) '', '') else [])
     @ endl (''deployment: '' @ dr_Strategy (cp_Deployment packet)
         @ (if dr_RequiresCanary (cp_Deployment packet) then '' (canary required)'' else []))
     @ endl (''merge lane: '' @ cp_MergeLane packet)
     @ (if explain then explanationText packet else [])"

definition writeGitHubOutput :: "'w CliEnv \<Rightarrow> string \<Rightarrow> ChangePacket \<Rightarrow> ('w, CliError, unit) io" where
  "writeGitHubOutput env path packet =
     bindM (wrapM (Wrapped ''open GitHub output file'') (ce_OpenAppend env path)) (\<lambda>_.
       wrapM (Wrapped ''write GitHub outputs'') (ce_Append env path
         (endl (''lane='' @ cp_MergeLane packet) @ endl (''risk-score='' @ Itoa (rs_Score (cp_RiskSummary packet)))
          @ endl (''change-packet-id='' @ cp_ID packet))))"

definition writeScanOutput :: "'w CliEnv \<Rightarrow> string \<Rightarrow> bool \<Rightarrow> string \<Rightarrow> ChangePacket \<Rightarrow> ('w, CliError, unit) io" where
  "writeScanOutput env format explain githubOutput packet =
     bindM (if format = ''json'' then wrapM (Wrapped ''encode json'') (ce_WriteJSON env packet)
            else emit (ce_Stdout env) (reportText packet explain)) (\<lambda>_.
       if githubOutput \<noteq> [] then writeGitHubOutput env githubOutput packet else retM ())"

definition enforceFailLane :: "MergeLane \<Rightarrow> ChangePacket \<Rightarrow> CliError + unit" where
  "enforceFailLane failLane packet =
     guardE (\<not> (failLane \<noteq> [] \<and> rankOf (cp_MergeLane packet) \<ge> rankOf failLane))
       (ExitError 2 (GateReached (cp_MergeLane packet) failLane))"

definition scanFlagSet :: FlagSet where
  "scanFlagSet =
     [(''repo-root'', StringFlag), (''config'', StringFlag), (''policy'', StringFlag), (''diff'', StringFlag),
      (''base-ref'', StringFlag), (''format'', StringFlag), (''explain'', BoolFlag), (''github-output'', StringFlag),
      (''fail-on-lane'', StringFlag), (''repo'', StringFlag), (''ref'', StringFlag)]"

definition runScan :: "'w CliEnv \<Rightarrow> string list \<Rightarrow> ('w, CliError, unit) io" where
  "runScan env args =
     bindM (liftM (mapError FlagFailed (parseFlags scanFlagSet args []))) (\<lambda>flags.
     let rootDir = stringFlag flags ''repo-root'' ''.''; format = stringFlag flags ''format'' ''text''
     in bindM (liftM (validateScanFormat format)) (\<lambda>_.
        bindM (liftM (mapError (ExitError 2) (parseFailLane (stringFlag flags ''fail-on-lane'' [])))) (\<lambda>failLane.
        bindM (readDiff env rootDir (stringFlag flags ''diff'' []) (stringFlag flags ''base-ref'' [])) (\<lambda>rawDiff.
        bindM (liftM (mapError ResolveFailed (resolve_ScanOptions (ce_Resolve env) rootDir (stringFlag flags ''config'' [])
                 (stringFlag flags ''policy'' []) (stringFlag flags ''repo'' []) (stringFlag flags ''ref'' []) rawDiff)))
          (\<lambda>(options, policyFound).
        bindM (if \<not> policyFound \<and> format = ''text''
               then emit (ce_Stderr env) (endl (''merger: no policy file found '' @ emDash @ '' scanning with an empty rule set''))
               else retM ()) (\<lambda>_.
        bindM (liftM (mapError ScanFailed (scan_Run (ce_Scan env) options))) (\<lambda>packet.
        bindM (writeScanOutput env format (boolFlag flags ''explain'') (stringFlag flags ''github-output'' []) packet) (\<lambda>_.
          liftM (enforceFailLane failLane packet)))))))))"

section \<open>Validation\<close>

definition validateFlagSet :: FlagSet where
  "validateFlagSet = [(''repo-root'', StringFlag), (''config'', StringFlag), (''policy'', StringFlag)]"

definition runValidate :: "'w CliEnv \<Rightarrow> string list \<Rightarrow> ('w, CliError, unit) io" where
  "runValidate env args =
     bindM (liftM (mapError FlagFailed (parseFlags validateFlagSet args []))) (\<lambda>flags.
     let rootDir = stringFlag flags ''repo-root'' ''.''; policyPath = stringFlag flags ''policy'' []
     in bindM (liftM (mapError ResolveFailed (resolve_Config (ce_Resolve env) rootDir (stringFlag flags ''config'' []))))
          (\<lambda>(cfg, resolvedConfig).
        bindM (emit (ce_Stdout env) (endl (if resolvedConfig = []
                 then ''config:   (none found '' @ emDash @ '' validated defaults)''
                 else ''config:   '' @ resolvedConfig))) (\<lambda>_.
        bindM (liftM (mapError ResolveFailed (resolve_Policy (ce_Resolve env) rootDir policyPath cfg)))
          (\<lambda>(policyConfig, resolvedPolicy, found).
        if \<not> found then
          failM (ExitError 1 (PolicyNotFound (if policyPath = [] then cg_PolicyPath cfg else policyPath)))
        else
          bindM (liftM (mapError (\<lambda>e. ExitError 1 (InvalidConfig e)) (config_Validate cfg))) (\<lambda>_.
            emit (ce_Stdout env)
              (endl (''policy:   '' @ resolvedPolicy @ '' ('' @ Itoa (int (length (pc_Policies policyConfig))) @ '' rule(s))'')
               @ ''lanes:    '' @ lanesLine cfg @ endl ''ok''))))))"

section \<open>Initialization\<close>

definition lines_text :: "string list \<Rightarrow> string" where
  "lines_text ls = concat (map endl ls)"

definition defaultConfigTemplate :: string where
  "defaultConfigTemplate = lines_text
     [''# merger configuration'', ''# Docs: https://github.com/devr-tools/merger'', [],
      ''service:'', ''  ingest_address: \":8080\"'', ''  controlplane_address: \":8081\"'', ''  controlplane_grpc_address: \":9091\"'', [],
      ''access:'', ''  mode: disabled'', ''  # Static token example:'', ''  # tokens:'', ''  #   - subject: ci'',
      ''  #     token_env: MERGER_CI_TOKEN'', ''  #     roles: [evidence_writer]'', ''  # JWT example:'', ''  # jwt:'',
      ''  #   algorithm: HS256'', ''  #   issuer: https://auth.example.test'', ''  #   audience: merger-controlplane'',
      ''  #   secret_env: MERGER_CONTROLPLANE_JWT_SECRET'', ''  #   role_bindings:'', ''  #     - claim_value: merger.read'',
      ''  #       roles: [reader]'', [],
      ''logging:'', ''  level: info'', [],
      ''policy:'', ''  path: .merger/policies/default.yaml'', [],
      ''lanes:'', ''  green_max: 20'', ''  yellow_max: 55'', ''  red_max: 85'', [],
      ''runtime_graph:'', ''  enable_codeowners: true'']"

definition defaultPolicyTemplate :: string where
  "defaultPolicyTemplate = lines_text
     [''# merger policy rules'', ''# Policies are evaluated against detected mutations, risk, and ownership.'',
      ''policies:'', ''  - name: auth_requires_security_review'', ''    when:'', ''      mutations:'', ''        - auth_behavior_change'',
      ''    require:'', ''      reviewers:'', ''        - security'', ''      evidence:'', ''        - auth_integration_tests'',
      ''      deployment:'', ''        strategy: canary'', ''        requires_canary: true'', ''    action:'', ''      minimum_lane: RED'']"

definition initFlagSet :: FlagSet where
  "initFlagSet = [(''dir'', StringFlag), (''force'', BoolFlag)]"

definition cli_fileExists :: "'w CliEnv \<Rightarrow> string \<Rightarrow> 'w \<Rightarrow> bool" where
  "cli_fileExists env path w = (case ce_Stat env path w of Inl _ \<Rightarrow> False | Inr isDir \<Rightarrow> \<not> isDir)"

definition initFiles :: "string \<Rightarrow> (string \<times> string) list" where
  "initFiles dir =
     (let mergerDir = JoinPath [dir, ''.merger'']; policiesDir = JoinPath [mergerDir, ''policies'']
      in [(JoinPath [mergerDir, ''merger.yaml''], defaultConfigTemplate),
          (JoinPath [policiesDir, ''default.yaml''], defaultPolicyTemplate)])"

definition refuseExisting :: "'w CliEnv \<Rightarrow> bool \<Rightarrow> string \<times> string \<Rightarrow> ('w, CliError, unit) io" where
  "refuseExisting env force f w =
     (if cli_fileExists env (fst f) w \<and> \<not> force then (Inl (ExitError 1 (AlreadyExists (fst f))), w) else (Inr (), w))"

definition writeInitFile :: "'w CliEnv \<Rightarrow> string \<times> string \<Rightarrow> ('w, CliError, unit) io" where
  "writeInitFile env f =
     bindM (wrapM (Wrapped (''write '' @ fst f)) (ce_WriteFile env (fst f) (snd f))) (\<lambda>_.
       emit (ce_Stdout env) (endl (''wrote '' @ fst f)))"

definition runInit :: "'w CliEnv \<Rightarrow> string list \<Rightarrow> ('w, CliError, unit) io" where
  "runInit env args =
     bindM (liftM (mapError FlagFailed (parseFlags initFlagSet args []))) (\<lambda>flags.
     let dir = stringFlag flags ''dir'' ''.''; force = boolFlag flags ''force'';
         policiesDir = JoinPath [JoinPath [dir, ''.merger''], ''policies'']
     in bindM (wrapM (Wrapped (''create '' @ policiesDir)) (ce_MkdirAll env policiesDir)) (\<lambda>_.
        bindM (forM (refuseExisting env force) (initFiles dir)) (\<lambda>_.
        bindM (forM (writeInitFile env) (initFiles dir)) (\<lambda>_.
          emit (ce_Stdout env) (endl (''initialized .merger/ '' @ emDash @ '' run `merger validate` to check it''))))))"

section \<open>Dispatch\<close>

definition runVersion :: "'w CliEnv \<Rightarrow> string list \<Rightarrow> ('w, CliError, unit) io" where
  "runVersion env args =
     bindM (liftM (mapError FlagFailed (parseFlags [] args []))) (\<lambda>_.
       emit (ce_Stdout env) (endl (''merger v'' @ version_Number)))"

definition runMCP :: "'w CliEnv \<Rightarrow> string list \<Rightarrow> ('w, CliError, unit) io" where
  "runMCP env args =
     bindM (liftM (mapError FlagFailed (parseFlags [] args []))) (\<lambda>_.
     \<lambda>w. let (input, readErr) = ce_Stream env w
         in wrapM StreamFailed (Serve (ce_Rpc env) (ce_WriteStdout env) readErr mcp_New input) w)"

definition usageText :: string where
  "usageText = lines_text
     [''merger '' @ version_Number @ '' '' @ emDash @ '' mutation control plane CLI'', [],
      ''Usage:'', ''  merger <command> [flags]'', [], ''Commands:'',
      ''  scan        Analyze a diff and assign a merge lane (offline pipeline)'',
      ''  validate    Validate a merger configuration and its policy file'',
      ''  init        Scaffold a .merger/ configuration in the current repository'',
      ''  mcp         Serve the analysis tools over MCP (stdio)'',
      ''  version     Print the merger version'', ''  help        Show this help'', [],
      ''Run \"merger <command> -h\" for command-specific flags.'']"

definition cli_Run :: "'w CliEnv \<Rightarrow> string list \<Rightarrow> ('w, CliError, unit) io" where
  "cli_Run env args =
     (case args of
        [] \<Rightarrow> bindM (emit (ce_Stderr env) usageText) (\<lambda>_. failM (ExitError 2 NoMessage))
      | command # rest \<Rightarrow>
          if command \<in> set [''version'', ''--version'', ''-v''] then runVersion env rest
          else if command = ''init'' then runInit env rest
          else if command = ''validate'' then runValidate env rest
          else if command = ''scan'' then runScan env rest
          else if command = ''mcp'' then runMCP env rest
          else if command \<in> set [''help'', ''--help'', ''-h''] then emit (ce_Stdout env) usageText
          else bindM (emit (ce_Stderr env) usageText) (\<lambda>_. failM (ExitError 2 (UnknownCommand command))))"

definition exitCode :: "CliError + unit \<Rightarrow> int" where
  "exitCode r = (case r of Inr _ \<Rightarrow> 0 | Inl (ExitError code _) \<Rightarrow> code | Inl _ \<Rightarrow> 1)"

section \<open>Exit codes\<close>

text \<open>Every error that a command can end with satisfies \<open>P\<close>.\<close>

definition fails :: "('e \<Rightarrow> bool) \<Rightarrow> ('w, 'e, 'a) io \<Rightarrow> bool" where
  "fails P m \<longleftrightarrow> (\<forall>w e w'. m w = (Inl e, w') \<longrightarrow> P e)"

lemma failsD: "fails P m \<Longrightarrow> m w = (Inl e, w') \<Longrightarrow> P e"
  unfolding fails_def by blast

lemma fails_bind: "fails P m \<Longrightarrow> (\<And>a. fails P (f a)) \<Longrightarrow> fails P (bindM m f)"
  unfolding fails_def bindM_def by (auto split: prod.splits sum.splits)

lemma fails_ret: "fails P (retM a)"
  by (simp add: fails_def)

lemma fails_fail: "P e \<Longrightarrow> fails P (failM e)"
  by (simp add: fails_def)

lemma fails_emit: "fails P (emit stream text)"
  by (simp add: fails_def emit_def)

lemma fails_wrap: "(\<And>d. P (g d)) \<Longrightarrow> fails P (wrapM g m)"
  by (auto simp: fails_def wrapM_err)

lemma fails_lift: "(\<And>d. P (g d)) \<Longrightarrow> fails P (liftM (mapError g r))"
  by (auto simp: fails_def mapError_Inl)

lemma fails_if: "fails P m \<Longrightarrow> fails P n \<Longrightarrow> fails P (if b then m else n)"
  by simp

lemma fails_guard: "P e \<Longrightarrow> fails P (liftM (guardE b e))"
  by (auto simp: fails_def guardE_def)

lemma fails_forM: "(\<And>x. fails P (f x)) \<Longrightarrow> fails P (forM f xs)"
  by (induction xs) (simp_all add: fails_ret fails_bind)

definition nonzero :: "CliError \<Rightarrow> bool" where
  "nonzero e \<longleftrightarrow> (case e of ExitError code _ \<Rightarrow> code \<in> {1, 2} | _ \<Rightarrow> True)"

lemma nonzero_simps [simp]:
  "nonzero (ExitError code m) \<longleftrightarrow> code \<in> {1, 2}" "nonzero (FlagFailed f)" "nonzero (Wrapped what e)"
  "nonzero (ResolveFailed r)" "nonzero (ScanFailed s)" "nonzero (StreamFailed t)"
  by (simp_all add: nonzero_def)

lemmas fails_intros = fails_bind fails_ret fails_fail fails_emit fails_wrap fails_lift fails_if fails_forM fails_guard

lemma runScan_nonzero: "fails nonzero (runScan env args)"
  unfolding runScan_def Let_def case_prod_beta readDiff_def writeScanOutput_def writeGitHubOutput_def validateScanFormat_def
    enforceFailLane_def
  by (intro fails_intros) simp_all

lemma runValidate_nonzero: "fails nonzero (runValidate env args)"
  unfolding runValidate_def Let_def case_prod_beta by (intro fails_intros) simp_all

lemma refuseExisting_nonzero: "fails nonzero (refuseExisting env force f)"
  by (simp add: fails_def refuseExisting_def)

lemma runInit_nonzero: "fails nonzero (runInit env args)"
  unfolding runInit_def Let_def writeInitFile_def by (intro fails_intros refuseExisting_nonzero) simp_all

lemma runMCP_nonzero: "fails nonzero (runMCP env args)"
  unfolding runMCP_def by (intro fails_bind fails_lift) (auto simp: fails_def wrapM_err case_prod_beta Let_def)

lemma cli_Run_nonzero: "fails nonzero (cli_Run env args)"
proof (cases args)
  case (Cons command rest)
  then show ?thesis
    unfolding cli_Run_def Cons list.case runVersion_def
    by (intro fails_intros runScan_nonzero runValidate_nonzero runInit_nonzero runMCP_nonzero) simp_all
qed (auto simp: cli_Run_def intro!: fails_intros)

lemma exitCode_zero:
  assumes "cli_Run env args w = (r, w')"
  shows "exitCode r = 0 \<longleftrightarrow> r = Inr ()"
proof (cases r)
  case (Inl e)
  then have "nonzero e" using assms failsD [OF cli_Run_nonzero] by simp
  then show ?thesis using Inl by (cases e) (auto simp: exitCode_def)
qed (simp add: exitCode_def)

section \<open>The gate\<close>

lemma parseFailLane_rank:
  assumes "parseFailLane raw = Inr lane"
  shows "raw = [] \<and> lane = [] \<or> raw \<noteq> [] \<and> lane = ToUpper raw \<and> 1 \<le> rankOf lane"
  using assms by (auto simp: parseFailLane_def rankOf_def cli_laneRank_def Let_def split: if_splits option.splits)

text \<open>The diff that the flags name: standard input, a file, or what git reports for a range.\<close>

definition givenDiff :: "'w CliEnv \<Rightarrow> (string \<times> string) list \<Rightarrow> 'w \<Rightarrow> string \<Rightarrow> bool" where
  "givenDiff env flags w diff \<longleftrightarrow>
     (let path = stringFlag flags ''diff'' []; base = stringFlag flags ''base-ref'' []
      in fst ((if path = ''-'' then ce_Stdin env
               else if path \<noteq> [] then ce_ReadFile env path
               else ce_Git env (stringFlag flags ''repo-root'' ''.'') (base @ ''...HEAD'')) w) = Inr diff
         \<and> (path \<noteq> [] \<or> base \<noteq> []))"

lemma readDiff_given:
  assumes "readDiff env (stringFlag flags ''repo-root'' ''.'') (stringFlag flags ''diff'' []) (stringFlag flags ''base-ref'' []) w
      = (Inr diff, w')"
  shows "givenDiff env flags w diff"
  using assms by (auto simp: readDiff_def givenDiff_def wrapM_ok Let_def split: if_splits)

lemma resolve_ScanOptions_diff:
  "resolve_ScanOptions renv rootDir configPath policyPath repo ref diff = Inr (opts, found) \<Longrightarrow> so_Diff opts = diff"
  by (auto simp: resolve_ScanOptions_def bindE_Inr)

text \<open>The steps of a scan up to the gate, and the decision there: the packet is the scan of the given diff.\<close>

definition scanGate :: "'w CliEnv \<Rightarrow> string list \<Rightarrow> 'w \<Rightarrow> MergeLane \<Rightarrow> ChangePacket \<Rightarrow> bool" where
  "scanGate env args w failLane packet \<longleftrightarrow>
     (\<exists>flags diff opts found. parseFlags scanFlagSet args [] = Inr flags
        \<and> parseFailLane (stringFlag flags ''fail-on-lane'' []) = Inr failLane
        \<and> givenDiff env flags w diff \<and> so_Diff opts = diff
        \<and> resolve_ScanOptions (ce_Resolve env) (stringFlag flags ''repo-root'' ''.'') (stringFlag flags ''config'' [])
            (stringFlag flags ''policy'' []) (stringFlag flags ''repo'' []) (stringFlag flags ''ref'' []) diff = Inr (opts, found)
        \<and> scan_Run (ce_Scan env) opts = Inr packet)"

lemma scanGateI:
  assumes "parseFlags scanFlagSet args [] = Inr flags" and "parseFailLane (stringFlag flags ''fail-on-lane'' []) = Inr failLane"
    and "readDiff env (stringFlag flags ''repo-root'' ''.'') (stringFlag flags ''diff'' []) (stringFlag flags ''base-ref'' []) w
      = (Inr diff, w')"
    and "resolve_ScanOptions (ce_Resolve env) (stringFlag flags ''repo-root'' ''.'') (stringFlag flags ''config'' [])
      (stringFlag flags ''policy'' []) (stringFlag flags ''repo'' []) (stringFlag flags ''ref'' []) diff = Inr (opts, found)"
    and "scan_Run (ce_Scan env) opts = Inr packet"
  shows "scanGate env args w failLane packet"
  using assms readDiff_given [OF assms(3)] resolve_ScanOptions_diff [OF assms(4)] unfolding scanGate_def by blast

lemma runScan_passed:
  assumes "runScan env args w = (Inr (), w')"
  shows "\<exists>failLane packet. scanGate env args w failLane packet \<and> enforceFailLane failLane packet = Inr ()"
  using assms unfolding runScan_def Let_def bindM_ok
  by (auto simp: mapError_Inr case_prod_beta bindM_ok) (blast intro: scanGateI)

lemma noGate:
  "fails (\<lambda>e. \<forall>l f. e \<noteq> ExitError 2 (GateReached l f)) (readDiff env rootDir d b)"
  "fails (\<lambda>e. \<forall>l f. e \<noteq> ExitError 2 (GateReached l f)) (writeScanOutput env format explain out packet)"
  unfolding readDiff_def writeScanOutput_def writeGitHubOutput_def by (intro fails_intros; simp)+

lemma noGateD:
  "readDiff env rootDir d b w \<noteq> (Inl (ExitError 2 (GateReached l f)), w')"
  "writeScanOutput env format explain out packet w \<noteq> (Inl (ExitError 2 (GateReached l f)), w')"
  "emit stream text w \<noteq> (Inl e, w')"
  "parseFailLane raw \<noteq> Inl (GateReached l f)"
  "validateScanFormat format \<noteq> Inl (ExitError 2 (GateReached l f))"
proof -
  show "readDiff env rootDir d b w \<noteq> (Inl (ExitError 2 (GateReached l f)), w')"
    by (auto dest: failsD [OF noGate(1)])
  show "writeScanOutput env format explain out packet w \<noteq> (Inl (ExitError 2 (GateReached l f)), w')"
    by (auto dest: failsD [OF noGate(2)])
  show "emit stream text w \<noteq> (Inl e, w')" by (simp add: emit_def)
  show "parseFailLane raw \<noteq> Inl (GateReached l f)"
    by (cases "map_of cli_laneRank (ToUpper raw)") (simp_all add: parseFailLane_def Let_def)
  show "validateScanFormat format \<noteq> Inl (ExitError 2 (GateReached l f))"
    by (simp add: validateScanFormat_def guardE_def)
qed

lemma runScan_gated:
  assumes "runScan env args w = (Inl (ExitError 2 (GateReached l f)), w')"
  shows "\<exists>failLane packet. scanGate env args w failLane packet \<and> enforceFailLane failLane packet = Inl (ExitError 2 (GateReached l f))"
  using assms unfolding runScan_def Let_def bindM_err
  by (auto simp: mapError_Inr mapError_Inl case_prod_beta bindM_err noGateD split: if_splits) (blast intro: scanGateI)+

section \<open>Properties\<close>

text \<open>
  C15: the lane gate holds. When \<open>merger scan\<close> exits with status 0, the diff that the flags name, from standard
  input, a file or git, was read and scanned to a packet and, if a gate was requested with \<open>-fail-on-lane\<close>, in any case of letters, the lane of that packet is
  strictly below it; a value that is not a lane never passes for a gate. When it reports that the gate
  was reached, the scanned lane is at or above the requested one and the status is 2.
\<close>

theorem scan_gate_holds:
  assumes "cli_Run env (''scan'' # args) w = (r, w')"
  shows "(exitCode r = 0 \<longrightarrow> (\<exists>failLane packet. scanGate env args w failLane packet
        \<and> (failLane = [] \<or> 1 \<le> rankOf failLane \<and> rankOf (cp_MergeLane packet) < rankOf failLane)))
    \<and> (\<forall>l f. r = Inl (ExitError 2 (GateReached l f)) \<longrightarrow> (\<exists>packet. scanGate env args w f packet
        \<and> cp_MergeLane packet = l \<and> 1 \<le> rankOf f \<and> rankOf f \<le> rankOf l \<and> exitCode r = 2))"
proof -
  have scan: "runScan env args w = (r, w')" using assms by (simp add: cli_Run_def)
  have lane: "failLane = [] \<or> 1 \<le> rankOf failLane" if "scanGate env args w failLane packet" for failLane packet
    using that parseFailLane_rank unfolding scanGate_def by blast
  have "\<exists>failLane packet. scanGate env args w failLane packet
      \<and> (failLane = [] \<or> 1 \<le> rankOf failLane \<and> rankOf (cp_MergeLane packet) < rankOf failLane)" if "exitCode r = 0"
  proof -
    have "runScan env args w = (Inr (), w')" using scan that exitCode_zero [OF assms] by simp
    from runScan_passed [OF this] show ?thesis using lane by (auto simp: enforceFailLane_def not_le)
  qed
  moreover have "\<exists>packet. scanGate env args w f packet \<and> cp_MergeLane packet = l \<and> 1 \<le> rankOf f \<and> rankOf f \<le> rankOf l
      \<and> exitCode r = 2" if r: "r = Inl (ExitError 2 (GateReached l f))" for l f
  proof -
    have "runScan env args w = (Inl (ExitError 2 (GateReached l f)), w')" using scan r by simp
    from runScan_gated [OF this] show ?thesis
      using lane r by (auto simp: enforceFailLane_def guardE_def exitCode_def split: if_splits)
  qed
  ultimately show ?thesis by blast
qed

text \<open>
  A validated repository can be scanned. When \<open>merger validate\<close> exits with status 0, the options of a
  scan with the same flags resolve for every diff, with a policy that was found, and the scan returns a
  packet.
\<close>

theorem validated_repository_scans:
  assumes "cli_Run env (''validate'' # args) w = (r, w')" and "exitCode r = 0"
  shows "\<exists>flags. parseFlags validateFlagSet args [] = Inr flags
    \<and> (\<forall>repo ref diff senv. \<exists>opts packet. resolve_ScanOptions (ce_Resolve env) (stringFlag flags ''repo-root'' ''.'')
          (stringFlag flags ''config'' []) (stringFlag flags ''policy'' []) repo ref diff = Inr (opts, True)
        \<and> scan_Run senv opts = Inr packet)"
proof -
  have "runValidate env args w = (Inr (), w')"
    using assms exitCode_zero [OF assms(1)] by (simp add: cli_Run_def)
  then obtain flags cfg path policy ppath where f: "parseFlags validateFlagSet args [] = Inr flags"
    and c: "resolve_Config (ce_Resolve env) (stringFlag flags ''repo-root'' ''.'') (stringFlag flags ''config'' []) = Inr (cfg, path)"
    and p: "resolve_Policy (ce_Resolve env) (stringFlag flags ''repo-root'' ''.'') (stringFlag flags ''policy'' []) cfg
      = Inr (policy, ppath, True)"
    unfolding runValidate_def Let_def bindM_ok
    by (auto simp: mapError_Inr case_prod_beta bindM_ok split: if_splits)
  have "\<exists>opts packet. resolve_ScanOptions (ce_Resolve env) (stringFlag flags ''repo-root'' ''.'')
      (stringFlag flags ''config'' []) (stringFlag flags ''policy'' []) repo ref diff = Inr (opts, True)
    \<and> scan_Run senv opts = Inr packet" for repo ref diff senv
  proof -
    obtain opts where o: "resolve_ScanOptions (ce_Resolve env) (stringFlag flags ''repo-root'' ''.'')
        (stringFlag flags ''config'' []) (stringFlag flags ''policy'' []) repo ref diff = Inr (opts, True)" "so_Policy opts = policy"
      by (simp add: resolve_ScanOptions_def c p)
    then show ?thesis using scan_Run_valid resolve_Policy_valid(1) [OF p] by metis
  qed
  then show ?thesis using f by blast
qed

text \<open>
  Initialization never overwrites unasked. Without \<open>-force\<close>, when one of the two files is already
  there, \<open>merger init\<close> creates the directory, names an existing file, exits with status 1 and writes
  nothing: the state of the machine is the one after the directory was made.
\<close>

theorem init_refuses_existing:
  assumes "parseFlags initFlagSet args [] = Inr flags" and "\<not> boolFlag flags ''force''"
    and "ce_MkdirAll env (JoinPath [JoinPath [stringFlag flags ''dir'' ''.'', ''.merger''], ''policies'']) w = (Inr (), w1)"
    and "\<exists>f \<in> set (initFiles (stringFlag flags ''dir'' ''.'')). cli_fileExists env (fst f) w1"
  shows "\<exists>f \<in> set (initFiles (stringFlag flags ''dir'' ''.'')). cli_fileExists env (fst f) w1
    \<and> cli_Run env (''init'' # args) w = (Inl (ExitError 1 (AlreadyExists (fst f))), w1)"
proof -
  have check: "\<exists>f \<in> set fs. cli_fileExists env (fst f) w1 \<and>
      forM (refuseExisting env False) fs w1 = (Inl (ExitError 1 (AlreadyExists (fst f))), w1)"
    if "\<exists>f \<in> set fs. cli_fileExists env (fst f) w1" for fs
    using that by (induction fs) (auto simp: refuseExisting_def bindM_def)
  from check [OF assms(4)] obtain f where f: "f \<in> set (initFiles (stringFlag flags ''dir'' ''.''))" "cli_fileExists env (fst f) w1"
    "forM (refuseExisting env False) (initFiles (stringFlag flags ''dir'' ''.'')) w1 = (Inl (ExitError 1 (AlreadyExists (fst f))), w1)"
    by blast
  then have "cli_Run env (''init'' # args) w = (Inl (ExitError 1 (AlreadyExists (fst f))), w1)"
    using assms(1-3) by (simp add: cli_Run_def runInit_def bindM_def wrapM_def Let_def)
  then show ?thesis using f by blast
qed

section \<open>A sample machine\<close>

text \<open>Its state is what was printed; every file exists and standard input is empty.\<close>

definition sampleCliEnv :: "string list CliEnv" where
  "sampleCliEnv = \<lparr>ce_Scan = sampleScanEnv, ce_Resolve = sampleResolveEnv, ce_Rpc = sampleRpcEnv, ce_Stdin = retM [],
     ce_Stream = (\<lambda>_. ([], None)), ce_Git = (\<lambda>_ _. retM []), ce_ReadFile = (\<lambda>_. retM []),
     ce_Stdout = (\<lambda>t w. w @ [t]), ce_Stderr = (\<lambda>t w. w @ [t]), ce_WriteStdout = recordLine,
     ce_WriteJSON = (\<lambda>p. recordLine (cp_ID p)), ce_OpenAppend = (\<lambda>_. retM ()), ce_Append = (\<lambda>_ t. recordLine t),
     ce_MkdirAll = (\<lambda>_. retM ()), ce_Stat = (\<lambda>_ _. Inr False), ce_WriteFile = (\<lambda>p _. recordLine p)\<rparr>"

definition smallDiff :: string where
  "smallDiff = endl ''diff --git a/x b/x'' @ endl ''+y''"

theorem scan_gate_holds_witness:
  "(\<exists>w' failLane packet. cli_Run sampleCliEnv [''scan'', ''-diff=-'', ''-format'', ''json'', ''-fail-on-lane'', ''yellow''] [] = (Inr (), w')
     \<and> scanGate sampleCliEnv [''-diff=-'', ''-format'', ''json'', ''-fail-on-lane'', ''yellow''] [] failLane packet
     \<and> rankOf (cp_MergeLane packet) < rankOf MergeLaneYellow)
   \<and> (\<exists>packet. scanGate (sampleCliEnv\<lparr>ce_Stdin := retM smallDiff\<rparr>) [''-diff=-'', ''-format'', ''json'', ''-fail-on-lane'', ''green''] []
        MergeLaneGreen packet \<and> cp_MergeLane packet = MergeLaneGreen)"
proof -
  let ?args = "[''-diff=-'', ''-format'', ''json'', ''-fail-on-lane'', ''yellow'']"
  have "isl (fst (cli_Run sampleCliEnv (''scan'' # ?args) [])) = False" by code_simp
  then obtain w' where r: "cli_Run sampleCliEnv (''scan'' # ?args) [] = (Inr (), w')"
    by (cases "cli_Run sampleCliEnv (''scan'' # ?args) []"; cases "fst (cli_Run sampleCliEnv (''scan'' # ?args) [])") auto
  have f: "parseFlags scanFlagSet ?args [] = Inr [(''diff'', ''-''), (''format'', ''json''), (''fail-on-lane'', ''yellow'')]"
    by code_simp
  have l: "parseFailLane (stringFlag [(''diff'', ''-''), (''format'', ''json''), (''fail-on-lane'', ''yellow'')] ''fail-on-lane'' [])
      = Inr MergeLaneYellow" by code_simp
  have y: "MergeLaneYellow \<noteq> []" by code_simp
  have "exitCode (Inr () :: CliError + unit) = 0" by (simp add: exitCode_def)
  then obtain failLane packet where g: "scanGate sampleCliEnv ?args [] failLane packet"
    "failLane = [] \<or> 1 \<le> rankOf failLane \<and> rankOf (cp_MergeLane packet) < rankOf failLane"
    using scan_gate_holds [OF r] by blast
  have "failLane = MergeLaneYellow" using g(1) f l by (simp add: scanGate_def)
  then have "rankOf (cp_MergeLane packet) < rankOf MergeLaneYellow" using g(2) y by auto
  then have passed: "\<exists>w' failLane packet. cli_Run sampleCliEnv (''scan'' # ?args) [] = (Inr (), w')
      \<and> scanGate sampleCliEnv ?args [] failLane packet \<and> rankOf (cp_MergeLane packet) < rankOf MergeLaneYellow"
    using r g(1) by blast
  have "fst (cli_Run (sampleCliEnv\<lparr>ce_Stdin := retM smallDiff\<rparr>) (''scan'' # [''-diff=-'', ''-format'', ''json'', ''-fail-on-lane'', ''green'']) [])
      = Inl (ExitError 2 (GateReached MergeLaneGreen MergeLaneGreen))" by code_simp
  then obtain w2 where "cli_Run (sampleCliEnv\<lparr>ce_Stdin := retM smallDiff\<rparr>) (''scan'' # [''-diff=-'', ''-format'', ''json'', ''-fail-on-lane'', ''green'']) []
      = (Inl (ExitError 2 (GateReached MergeLaneGreen MergeLaneGreen)), w2)" by (metis prod.collapse)
  from scan_gate_holds [OF this] passed show ?thesis by blast
qed

theorem validated_repository_scans_witness:
  "\<exists>w' opts packet. cli_Run sampleCliEnv [''validate'', ''-repo-root'', ''repo'', ''-policy'', ''repo/.merger/merger.yml''] [] = (Inr (), w')
     \<and> resolve_ScanOptions sampleResolveEnv ''repo'' [] ''repo/.merger/merger.yml'' [] [] [] = Inr (opts, True)
     \<and> scan_Run sampleScanEnv opts = Inr packet"
proof -
  let ?args = "[''-repo-root'', ''repo'', ''-policy'', ''repo/.merger/merger.yml'']"
  have "isl (fst (cli_Run sampleCliEnv (''validate'' # ?args) [])) = False" by code_simp
  then obtain w' where r: "cli_Run sampleCliEnv (''validate'' # ?args) [] = (Inr (), w')"
    by (cases "cli_Run sampleCliEnv (''validate'' # ?args) []"; cases "fst (cli_Run sampleCliEnv (''validate'' # ?args) [])") auto
  have z: "exitCode (Inr () :: CliError + unit) = 0" by (simp add: exitCode_def)
  have f: "parseFlags validateFlagSet ?args [] = Inr [(''repo-root'', ''repo''), (''policy'', ''repo/.merger/merger.yml'')]"
    by code_simp
  have v: "stringFlag [(''repo-root'', ''repo''), (''policy'', ''repo/.merger/merger.yml'')] ''repo-root'' ''.'' = ''repo''"
    "stringFlag [(''repo-root'', ''repo''), (''policy'', ''repo/.merger/merger.yml'')] ''config'' [] = []"
    "stringFlag [(''repo-root'', ''repo''), (''policy'', ''repo/.merger/merger.yml'')] ''policy'' [] = ''repo/.merger/merger.yml''"
    by code_simp+
  have e: "ce_Resolve sampleCliEnv = sampleResolveEnv" by (simp add: sampleCliEnv_def)
  have "\<exists>opts packet. resolve_ScanOptions sampleResolveEnv ''repo'' [] ''repo/.merger/merger.yml'' [] [] [] = Inr (opts, True)
      \<and> scan_Run sampleScanEnv opts = Inr packet"
    using validated_repository_scans [OF r z] unfolding f e by (auto simp: v)
  then show ?thesis using r by blast
qed

theorem init_refuses_existing_witness:
  "\<exists>f \<in> set (initFiles ''.''). cli_Run sampleCliEnv [''init''] [] = (Inl (ExitError 1 (AlreadyExists (fst f))), [])"
proof -
  have "\<exists>f \<in> set (initFiles (stringFlag [] ''dir'' ''.'')). cli_fileExists sampleCliEnv (fst f) []"
    by (simp add: initFiles_def cli_fileExists_def sampleCliEnv_def Let_def) blast
  moreover have "parseFlags initFlagSet [] [] = Inr []" "\<not> boolFlag [] ''force''" "stringFlag [] ''dir'' ''.'' = ''.''"
    by (simp_all add: boolFlag_def stringFlag_def)
  moreover have "ce_MkdirAll sampleCliEnv p [] = (Inr (), [])" for p by (simp add: sampleCliEnv_def)
  ultimately show ?thesis using init_refuses_existing [of "[]" "[]" sampleCliEnv "[]" "[]"] by auto
qed

end
