(* ===== verification/Web.thy ===== *)
theory Web
  imports Jwt Effects
begin

text \<open>
  What the HTTP clients of the program use of the Go libraries: requests, escaping for URLs, base64 and
  the way decoded JSON objects fill the fields of a struct. Sending a request is an argument of the
  clients.
\<close>

section \<open>Requests\<close>

record HttpRequest =
  hr_Method :: string
  hr_URL :: string
  hr_Headers :: "(string \<times> string) list"
  hr_Body :: "string option"

type_synonym 'w Network = "HttpRequest \<Rightarrow> ('w, string, int \<times> string) io"
  \<comment> \<open>the status and the body, or the error of the connection or of reading the body\<close>

text \<open>A network that keeps every exchange, with a server that may answer as it likes.\<close>

type_synonym Exchange = "HttpRequest \<times> (string + int \<times> string)"

definition loggedNetwork :: "(Exchange list \<Rightarrow> HttpRequest \<Rightarrow> string + int \<times> string) \<Rightarrow> Exchange list Network" where
  "loggedNetwork server r past = (server past r, past @ [(r, server past r)])"

section \<open>Escaping\<close>

definition unreserved :: "char \<Rightarrow> bool" where
  "unreserved c \<longleftrightarrow>
     (let n = (of_char c :: nat)
      in 65 \<le> n \<and> n \<le> 90 \<or> 97 \<le> n \<and> n \<le> 122 \<or> 48 \<le> n \<and> n \<le> 57 \<or> c \<in> set ''-_.~'')"

definition upperHex :: "nat \<Rightarrow> char" where
  "upperHex n = (if n < 10 then char_of (48 + n) else char_of (55 + n))"

definition percent :: "char \<Rightarrow> string" where
  "percent c = [CHR ''%'', upperHex (of_char c div 16), upperHex (of_char c mod 16)]"

definition QueryEscape :: "string \<Rightarrow> string" where
  "QueryEscape s = concat (map (\<lambda>c. if unreserved c then [c] else if c = CHR '' '' then ''+'' else percent c) s)"

definition PathEscape :: "string \<Rightarrow> string" where
  "PathEscape s = concat (map (\<lambda>c. if unreserved c \<or> c \<in> set ''$&+:=@'' then [c] else percent c) s)"

definition unhex :: "char \<Rightarrow> nat option" where
  "unhex c =
     (let n = (of_char c :: nat)
      in if 48 \<le> n \<and> n \<le> 57 then Some (n - 48) else if 65 \<le> n \<and> n \<le> 70 then Some (n - 55)
         else if 97 \<le> n \<and> n \<le> 102 then Some (n - 87) else None)"

fun QueryUnescape :: "string \<Rightarrow> string option" where
  "QueryUnescape [] = Some []"
| "QueryUnescape (c # cs) =
     (if c = CHR ''%'' then
        (case cs of
           a # b # rest \<Rightarrow>
             (case (unhex a, unhex b) of
                (Some x, Some y) \<Rightarrow> map_option (\<lambda>s. char_of (16 * x + y) # s) (QueryUnescape rest)
              | _ \<Rightarrow> None)
         | _ \<Rightarrow> None)
      else map_option (\<lambda>s. (if c = CHR ''+'' then CHR '' '' else c) # s) (QueryUnescape cs))"

lemma unhex_upperHex: "n < 16 \<Longrightarrow> unhex (upperHex n) = Some n"
  by (simp add: unhex_def upperHex_def)

lemma of_char_bound: "(of_char c :: nat) < 256"
  by (metis of_char_mod_256 mod_less_divisor zero_less_numeral)

lemma unescape_percent: "QueryUnescape (percent c @ s) = map_option (\<lambda>t. c # t) (QueryUnescape s)"
proof -
  have "(of_char c :: nat) div 16 < 16" using of_char_bound [of c] by (simp add: less_mult_imp_div_less)
  moreover have "char_of (16 * (of_char c div 16) + of_char c mod 16 :: nat) = c"
    by (simp add: mult_div_mod_eq)
  ultimately show ?thesis by (simp add: percent_def unhex_upperHex)
qed

lemma unreserved_plain: "unreserved c \<Longrightarrow> c \<noteq> CHR ''%'' \<and> c \<noteq> CHR ''+''"
  by (auto simp: unreserved_def)

lemma QueryUnescape_QueryEscape: "QueryUnescape (QueryEscape s) = Some s"
proof (induction s)
  case (Cons c s)
  then show ?case
    using unescape_percent [of c "QueryEscape s"] unreserved_plain [of c]
    by (auto simp: QueryEscape_def)
qed (simp add: QueryEscape_def)

lemma QueryEscape_chars: "d \<in> set (QueryEscape s) \<Longrightarrow> unreserved d \<or> d = CHR ''+'' \<or> d = CHR ''%''"
proof -
  have hex: "unreserved (upperHex n)" if "n < 16" for n using that by (auto simp: unreserved_def upperHex_def)
  have p: "(of_char c :: nat) div 16 < 16" for c :: char using of_char_bound [of c] by (simp add: less_mult_imp_div_less)
  have "set (if unreserved c then [c] else if c = CHR '' '' then ''+'' else percent c)
      \<subseteq> {d. unreserved d \<or> d = CHR ''+'' \<or> d = CHR ''%''}" for c
    using hex p by (auto simp: percent_def)
  then show "d \<in> set (QueryEscape s) \<Longrightarrow> unreserved d \<or> d = CHR ''+'' \<or> d = CHR ''%''"
    unfolding QueryEscape_def set_concat set_map by blast
qed

section \<open>Base64\<close>

definition b64Digit :: "char \<Rightarrow> char \<Rightarrow> nat \<Rightarrow> char" where
  \<comment> \<open>the digits 62 and 63 depend on the alphabet\<close>
  "b64Digit c62 c63 n =
     (if n < 26 then char_of (65 + n) else if n < 52 then char_of (71 + n) else if n < 62 then char_of (n - 4)
      else if n = 62 then c62 else c63)"

fun b64Groups :: "nat list \<Rightarrow> nat list" where
  "b64Groups [] = []"
| "b64Groups [a] = [a div 4, 16 * (a mod 4)]"
| "b64Groups [a, b] = [a div 4, 16 * (a mod 4) + b div 16, 4 * (b mod 16)]"
| "b64Groups (a # b # c # rest) =
     [a div 4, 16 * (a mod 4) + b div 16, 4 * (b mod 16) + c div 64, c mod 64] @ b64Groups rest"

definition b64Padding :: "string \<Rightarrow> string" where
  "b64Padding raw = replicate ((3 - length raw mod 3) mod 3) CHR ''=''"

definition URLEncode :: "string \<Rightarrow> string" where
  "URLEncode raw = map (b64Digit CHR ''-'' CHR ''_'') (b64Groups (map of_char raw)) @ b64Padding raw"

definition StdEncode :: "string \<Rightarrow> string" where
  "StdEncode raw = map (b64Digit CHR ''+'' CHR ''/'') (b64Groups (map of_char raw)) @ b64Padding raw"

definition stdValue :: "char \<Rightarrow> nat option" where
  "stdValue c =
     (let n = (of_char c :: nat)
      in if 65 \<le> n \<and> n \<le> 90 then Some (n - 65)
         else if 97 \<le> n \<and> n \<le> 122 then Some (n - 71)
         else if 48 \<le> n \<and> n \<le> 57 then Some (n + 4)
         else if c = CHR ''+'' then Some 62
         else if c = CHR ''/'' then Some 63 else None)"

definition stripPadding :: "string \<Rightarrow> string" where
  \<comment> \<open>at most two padding characters at the end\<close>
  "stripPadding s = (if HasSuffix s ''=='' then take (length s - 2) s else if HasSuffix s ''='' then take (length s - 1) s else s)"

definition StdDecode :: "string \<Rightarrow> string option" where
  \<comment> \<open>\<^verbatim>\<open>base64.StdEncoding.DecodeString\<close>; line breaks are skipped\<close>
  "StdDecode raw =
     (let s = filter (\<lambda>c. c \<noteq> CHR 0x0A \<and> c \<noteq> CHR 0x0D) raw; vs = map stdValue (stripPadding s)
      in if length s mod 4 \<noteq> 0 \<or> None \<in> set vs then None else b64Bytes (map the vs))"

lemma b64_bounds:
  fixes a b c :: nat
  shows "a < 256 \<Longrightarrow> a div 4 < 64" and "16 * (a mod 4) < 64" and "b < 256 \<Longrightarrow> 16 * (a mod 4) + b div 16 < 64"
    and "4 * (b mod 16) < 64" and "c < 256 \<Longrightarrow> 4 * (b mod 16) + c div 64 < 64"
proof -
  show "a div 4 < 64" if "a < 256" using that by (simp add: less_mult_imp_div_less)
  have m: "a mod 4 < 4" "b mod 16 < 16" by simp_all
  show "16 * (a mod 4) < 64" "4 * (b mod 16) < 64" using m by simp_all
  show "16 * (a mod 4) + b div 16 < 64" if "b < 256"
    using m less_mult_imp_div_less [of b 16 16] that by simp
  show "4 * (b mod 16) + c div 64 < 64" if "c < 256"
    using m less_mult_imp_div_less [of c 4 64] that by simp
qed

lemma b64Groups_bound:
  "\<forall>n \<in> set ns. n < 256 \<Longrightarrow> \<forall>d \<in> set (b64Groups ns). d < 64"
  by (induction ns rule: b64Groups.induct) (simp_all add: b64_bounds)

lemma b64_bytes:
  fixes b c :: nat
  shows "b < 256 \<Longrightarrow> b div 16 div 16 = 0" and "b < 256 \<Longrightarrow> b div 16 mod 16 = b div 16"
    and "c < 256 \<Longrightarrow> c div 64 div 4 = 0" and "c < 256 \<Longrightarrow> c div 64 mod 4 = c div 64"
  using less_mult_imp_div_less [of b 16 16] less_mult_imp_div_less [of c 4 64] by simp_all

lemma b64Bytes_Groups:
  "\<forall>n \<in> set ns. n < 256 \<Longrightarrow> b64Bytes (b64Groups ns) = Some (map char_of ns)"
  by (induction ns rule: b64Groups.induct) (simp_all add: b64_bytes mult_div_mod_eq)

lemma bytes_bound: "\<forall>n \<in> set (map of_char raw). (n :: nat) < 256"
  using of_char_bound by auto

lemma decode_groups: "b64Bytes (b64Groups (map of_char raw)) = Some raw"
  using b64Bytes_Groups [OF bytes_bound, of raw] by (simp add: comp_def)

lemma b64Value_digit: "n < 64 \<Longrightarrow> b64Value (b64Digit CHR ''-'' CHR ''_'' n) = Some n"
  by (auto simp: b64Value_def b64Digit_def Let_def)

lemma stdValue_digit: "n < 64 \<Longrightarrow> stdValue (b64Digit CHR ''+'' CHR ''/'' n) = Some n"
  by (auto simp: stdValue_def b64Digit_def Let_def)

text \<open>No digit is a padding character or a line break.\<close>

lemma digits_plain:
  assumes "d \<in> set (map (b64Digit CHR ''+'' CHR ''/'') (b64Groups (map of_char raw)))
      \<or> d \<in> set (map (b64Digit CHR ''-'' CHR ''_'') (b64Groups (map of_char raw)))"
  shows "d \<noteq> CHR ''='' \<and> d \<noteq> CHR 0x0A \<and> d \<noteq> CHR 0x0D"
proof -
  have "stdValue d \<noteq> None \<or> b64Value d \<noteq> None"
    using assms b64Groups_bound [OF bytes_bound, of raw] by (auto simp: stdValue_digit b64Value_digit)
  then show ?thesis by (auto simp: stdValue_def b64Value_def)
qed

lemma b64Groups_length: "length (b64Groups ns) + (3 - length ns mod 3) mod 3 = 4 * ((length ns + 2) div 3)"
proof (induction ns rule: b64Groups.induct)
  case (4 a b c rest)
  have "(5 + n) div 3 = Suc (Suc (Suc n) div 3)" for n :: nat by (simp add: le_div_geq)
  then show ?case using 4 by simp
qed simp_all

lemma values_Some:
  assumes "map v (map d ns) = map Some ns"
  shows "None \<notin> set (map v (map d ns))" and "map the (map v (map d ns)) = ns"
  by (simp_all only: assms) (simp_all add: comp_def)

lemma TrimRight_padding: "CHR ''='' \<notin> set s \<Longrightarrow> TrimRight (s @ replicate k CHR ''='') ''='' = s"
proof (induction k)
  case 0
  then show ?case by (cases s rule: rev_cases) (auto simp: TrimRight_def)
next
  case (Suc k)
  then show ?case by (simp add: TrimRight_def replicate_app_Cons_same)
qed

lemma stripPadding_padding:
  assumes "CHR ''='' \<notin> set s" and "k \<le> 2"
  shows "stripPadding (s @ replicate k CHR ''='') = s"
proof -
  have no: "\<not> HasSuffix s (x @ ''='')" for x using assms(1) by (auto simp: HasSuffix_def suffix_def)
  consider "k = 0" | "k = 1" | "k = 2" using assms(2) by linarith
  then show ?thesis
  proof cases
    case 1
    then show ?thesis using no [of "''=''"] no [of "[]"] by (simp add: stripPadding_def)
  next
    case 2
    have "\<not> HasSuffix (s @ ''='') ''==''"
      using no [of "[]"] by (auto simp: HasSuffix_def suffix_def)
    then show ?thesis using 2 by (simp add: stripPadding_def HasSuffix_def suffix_def)
  next
    case 3
    then show ?thesis by (simp add: stripPadding_def HasSuffix_def suffix_def numeral_2_eq_2)
  qed
qed

text \<open>Encoding and decoding, in both alphabets; the second one skips line breaks anywhere.\<close>

lemma URL_roundtrip: "DecodeString (TrimRight (URLEncode raw) ''='') = Some raw"
proof -
  let ?ns = "b64Groups (map of_char raw)" and ?d = "b64Digit CHR ''-'' CHR ''_''"
  have v: "map b64Value (map ?d ?ns) = map Some ?ns"
    using b64Groups_bound [OF bytes_bound, of raw] by (simp add: b64Value_digit)
  have plain: "CHR ''='' \<notin> set (map ?d ?ns)" using digits_plain [of "CHR ''=''" raw] by blast
  have "TrimRight (URLEncode raw) ''='' = map ?d ?ns"
    unfolding URLEncode_def b64Padding_def by (rule TrimRight_padding [OF plain])
  moreover have "filter (\<lambda>c. c \<noteq> CHR 0x0A \<and> c \<noteq> CHR 0x0D) (map ?d ?ns) = map ?d ?ns"
    using digits_plain [of _ raw] by (intro filter_True) blast
  ultimately show ?thesis
    using values_Some [OF v] decode_groups [of raw] unfolding DecodeString_def Let_def by simp
qed

lemma Std_roundtrip:
  assumes "filter (\<lambda>c. c \<noteq> CHR 0x0A \<and> c \<noteq> CHR 0x0D) text = StdEncode raw"
  shows "StdDecode text = Some raw"
proof -
  let ?ns = "b64Groups (map of_char raw)" and ?d = "b64Digit CHR ''+'' CHR ''/''"
  have v: "map stdValue (map ?d ?ns) = map Some ?ns"
    using b64Groups_bound [OF bytes_bound, of raw] by (simp add: stdValue_digit)
  have plain: "CHR ''='' \<notin> set (map ?d ?ns)" using digits_plain [of "CHR ''=''" raw] by blast
  have "(3 - length raw mod 3) mod 3 \<le> 2" using mod_less_divisor [of 3 "3 - length raw mod 3"] by linarith
  then have s: "stripPadding (StdEncode raw) = map ?d ?ns"
    unfolding StdEncode_def b64Padding_def by (rule stripPadding_padding [OF plain])
  have "length (StdEncode raw) mod 4 = 0"
    using b64Groups_length [of "map of_char raw"] by (simp add: StdEncode_def b64Padding_def)
  then show ?thesis
    using values_Some [OF v] decode_groups [of raw] s assms unfolding StdDecode_def Let_def by simp
qed

end
