(* ===== verification/GitHubClient.thy ===== *)
theory GitHubClient
  imports Ingest Files Web
begin

text \<open>
  The GitHub client, \<open>internal/github\<close>: transport, the token of each installation with its cache, and the
  four calls of the service interface. Sending a request, the clock, JSON, keys and signatures are
  arguments. The state is the cache, which all clients made from one share, beside the state of the
  network. A time is in nanoseconds here.
\<close>

section \<open>Data\<close>

record installationToken =
  it_value :: string
  it_expiresAt :: time

record 'n ClientState =
  cs_tokens :: "(int \<times> installationToken) list"
  cs_net :: 'n

record PullResponse =
  pq_HTMLURL :: string
  pq_Title :: string
  pq_Body :: string
  pq_HeadSHA :: string
  pq_BaseSHA :: string
  pq_Login :: string

record 'n ClientEnv =
  ge_Send :: "'n Network"
  ge_URLError :: "string \<Rightarrow> string option" \<comment> \<open>what is wrong with the text of a URL\<close>
  ge_Now :: "'n \<Rightarrow> time"
  ge_Marshal :: "Json \<Rightarrow> string + string"
  ge_Sign :: "string \<Rightarrow> string \<Rightarrow> string + string" \<comment> \<open>key and text\<close>
  ge_DecodeToken :: "string \<Rightarrow> string + (string \<times> time)"
  ge_DecodePull :: "string \<Rightarrow> string + PullResponse"
  ge_DecodeContent :: "string \<Rightarrow> string + (string \<times> string)" \<comment> \<open>content and encoding\<close>

record Client =
  cl_baseURL :: string
  cl_appID :: string
  cl_privateKey :: string
  cl_installationID :: int
  cl_webhookSecret :: string

record ClientConfig =
  ck_AppID :: string
  ck_InstallationID :: int
  ck_PrivateKeyPath :: string
  ck_WebhookSecret :: string
  ck_APIBaseURL :: string
  ck_Timeout :: string

record KeyEnv =
  ke_ReadFile :: "string \<Rightarrow> string + string"
  ke_PEM :: "string \<Rightarrow> string option"
  ke_PKCS1 :: "string \<Rightarrow> string + string"
  ke_PKCS8 :: "string \<Rightarrow> string + string option" \<comment> \<open>no key when it is not RSA\<close>
  ke_ParseDuration :: "string \<Rightarrow> string + int"

section \<open>Construction\<close>

definition NewAppAuthenticator :: "KeyEnv \<Rightarrow> string \<Rightarrow> string + string" where
  \<comment> \<open>the private key; the rest of the authenticator is the client and an empty cache\<close>
  "NewAppAuthenticator env privateKeyPath =
     bindE (ke_ReadFile env privateKeyPath) (\<lambda>raw.
       case ke_PEM env raw of
         None \<Rightarrow> Inl ''failed to decode GitHub app private key PEM''
       | Some block \<Rightarrow>
           (case ke_PKCS1 env block of
              Inr key \<Rightarrow> Inr key
            | Inl err \<Rightarrow>
                (case ke_PKCS8 env block of
                   Inl _ \<Rightarrow> Inl err
                 | Inr None \<Rightarrow> Inl ''github app private key is not RSA''
                 | Inr (Some key) \<Rightarrow> Inr key)))"

definition NewClient :: "KeyEnv \<Rightarrow> ClientConfig \<Rightarrow> string + Client" where
  "NewClient env cfg =
     bindE (if ck_Timeout cfg \<noteq> [] then ke_ParseDuration env (ck_Timeout cfg) else Inr (10 * 1000000000)) (\<lambda>timeout.
     bindE (NewAppAuthenticator env (ck_PrivateKeyPath cfg)) (\<lambda>key.
       Inr \<lparr>cl_baseURL = TrimRight (ck_APIBaseURL cfg) ''/'', cl_appID = ck_AppID cfg, cl_privateKey = key,
            cl_installationID = ck_InstallationID cfg, cl_webhookSecret = ck_WebhookSecret cfg\<rparr>))"

definition ForInstallation :: "Client \<Rightarrow> int \<Rightarrow> Client" where
  "ForInstallation c n = c\<lparr>cl_installationID := n\<rparr>"

section \<open>Transport\<close>

definition onNet :: "('n, string, 'a) io \<Rightarrow> ('n ClientState, string, 'a) io" where
  "onNet m s = (case m (cs_net s) of (r, net) \<Rightarrow> (r, s\<lparr>cs_net := net\<rparr>))"

definition client_do :: "'n ClientEnv \<Rightarrow> HttpRequest \<Rightarrow> ('n ClientState, string, string) io" where
  "client_do env req =
     bindM (onNet (ge_Send env req)) (\<lambda>(status, body).
       if status \<ge> 400 then failM (''github api '' @ hr_Method req @ '' '' @ hr_URL req @ '' failed with '' @ Itoa status @ '': '' @ body)
       else retM body)"

definition newRequest :: "'n ClientEnv \<Rightarrow> HttpRequest \<Rightarrow> string + HttpRequest" where
  \<comment> \<open>\<^verbatim>\<open>http.NewRequestWithContext\<close> refuses a URL it cannot parse\<close>
  "newRequest env req = (case ge_URLError env (hr_URL req) of Some err \<Rightarrow> Inl err | None \<Rightarrow> Inr req)"

definition getWithBearer :: "'n ClientEnv \<Rightarrow> Client \<Rightarrow> string \<Rightarrow> string \<Rightarrow> string \<Rightarrow> ('n ClientState, string, string) io" where
  "getWithBearer env c endpoint bearer accept =
     bindM (liftM (newRequest env \<lparr>hr_Method = ''GET'', hr_URL = cl_baseURL c @ endpoint,
         hr_Headers = [(''Accept'', accept), (''Authorization'', ''Bearer '' @ bearer),
           (''X-GitHub-Api-Version'', ''2022-11-28'')], hr_Body = None\<rparr>)) (client_do env)"

definition postWithBearer ::
  "'n ClientEnv \<Rightarrow> Client \<Rightarrow> string \<Rightarrow> string \<Rightarrow> Json option \<Rightarrow> ('n ClientState, string, string) io" where
  "postWithBearer env c endpoint bearer payload =
     bindM (liftM (case payload of None \<Rightarrow> Inr None | Some v \<Rightarrow> bindE (ge_Marshal env v) (\<lambda>raw. Inr (Some raw)))) (\<lambda>body.
     bindM (liftM (newRequest env \<lparr>hr_Method = ''POST'', hr_URL = cl_baseURL c @ endpoint,
         hr_Headers = [(''Accept'', ''application/vnd.github+json''), (''Authorization'', ''Bearer '' @ bearer),
           (''X-GitHub-Api-Version'', ''2022-11-28'')]
           @ (if payload \<noteq> None then [(''Content-Type'', ''application/json'')] else []), hr_Body = body\<rparr>)) (client_do env))"

section \<open>Tokens\<close>

definition encodeSegment :: "string \<Rightarrow> string" where
  "encodeSegment raw = TrimRight (URLEncode raw) ''=''"

definition unixSeconds :: "time \<Rightarrow> int" where
  "unixSeconds t = t div 1000000000"

definition appHeader :: "(string \<times> Json) list" where
  "appHeader = [(''alg'', JString ''RS256''), (''typ'', JString ''JWT'')]"

definition appClaims :: "Client \<Rightarrow> time \<Rightarrow> (string \<times> Json) list" where
  "appClaims c now =
     [(''iat'', JNumber (Itoa (unixSeconds (now - 30 * 1000000000)))),
      (''exp'', JNumber (Itoa (unixSeconds (now + 9 * 60 * 1000000000)))), (''iss'', JString (cl_appID c))]"

definition appJWT :: "'n ClientEnv \<Rightarrow> Client \<Rightarrow> time \<Rightarrow> string + string" where
  "appJWT env c now =
     bindE (ge_Marshal env (JObject appHeader)) (\<lambda>headerBytes.
     bindE (ge_Marshal env (JObject (appClaims c now))) (\<lambda>payloadBytes.
     let unsigned = encodeSegment headerBytes @ ''.'' @ encodeSegment payloadBytes
     in bindE (ge_Sign env (cl_privateKey c) unsigned) (\<lambda>signature.
          Inr (unsigned @ ''.'' @ encodeSegment signature))))"

definition tokenEndpoint :: "int \<Rightarrow> string" where
  "tokenEndpoint installationID = ''/app/installations/'' @ Itoa installationID @ ''/access_tokens''"

definition Token :: "'n ClientEnv \<Rightarrow> Client \<Rightarrow> int \<Rightarrow> ('n ClientState, string, string) io" where
  "Token env c installationID s =
     (let now = ge_Now env (cs_net s);
          cached = (case map_of (cs_tokens s) installationID of None \<Rightarrow> \<lparr>it_value = [], it_expiresAt = 0\<rparr> | Some k \<Rightarrow> k)
      in if it_value cached \<noteq> [] \<and> now < it_expiresAt cached - 60 * 1000000000 then (Inr (it_value cached), s)
         else bindM (liftM (appJWT env c now)) (\<lambda>jwtToken.
              bindM (postWithBearer env c (tokenEndpoint installationID) jwtToken None) (\<lambda>body.
              bindM (liftM (ge_DecodeToken env body)) (\<lambda>(tok, expiresAt) s.
                (Inr tok, s\<lparr>cs_tokens := AList.update installationID \<lparr>it_value = tok, it_expiresAt = expiresAt\<rparr> (cs_tokens s)\<rparr>)))) s)"

section \<open>The service\<close>

definition repoEndpoint :: "string \<Rightarrow> string \<Rightarrow> string" where
  "repoEndpoint owner repo = ''/repos/'' @ owner @ ''/'' @ repo"

definition pullEndpoint :: "string \<Rightarrow> string \<Rightarrow> int \<Rightarrow> string" where
  "pullEndpoint owner repo number = repoEndpoint owner repo @ ''/pulls/'' @ Itoa number"

definition client_GetPullRequest ::
  "'n ClientEnv \<Rightarrow> Client \<Rightarrow> string \<Rightarrow> string \<Rightarrow> int \<Rightarrow> ('n ClientState, string, PullRequest) io" where
  "client_GetPullRequest env c owner repo number =
     bindM (Token env c (cl_installationID c)) (\<lambda>tok.
     bindM (getWithBearer env c (pullEndpoint owner repo number) tok ''application/vnd.github+json'') (\<lambda>body.
     bindM (liftM (ge_DecodePull env body)) (\<lambda>response.
       retM \<lparr>gq_Owner = owner, gq_Repo = repo, gq_Number = number, gq_Title = pq_Title response, gq_Body = pq_Body response,
             gq_Author = pq_Login response, gq_URL = pq_HTMLURL response, gq_HeadSHA = pq_HeadSHA response,
             gq_BaseSHA = pq_BaseSHA response\<rparr>)))"

definition client_GetPullRequestDiff ::
  "'n ClientEnv \<Rightarrow> Client \<Rightarrow> string \<Rightarrow> string \<Rightarrow> int \<Rightarrow> ('n ClientState, string, string) io" where
  "client_GetPullRequestDiff env c owner repo number =
     bindM (Token env c (cl_installationID c)) (\<lambda>tok.
       getWithBearer env c (pullEndpoint owner repo number) tok ''application/vnd.github.diff'')"

definition contentsEndpoint :: "string \<Rightarrow> string \<Rightarrow> string \<Rightarrow> string \<Rightarrow> string" where
  "contentsEndpoint owner repo filePath ref =
     repoEndpoint owner repo @ ''/contents/'' @ Clean filePath @ ''?ref='' @ QueryEscape ref"

definition decodeContent :: "string \<times> string \<Rightarrow> string + string" where
  "decodeContent response =
     (if \<not> EqualFold (snd response) ''base64'' then Inl (''unsupported GitHub content encoding: '' @ snd response)
      else (case StdDecode (filter (\<lambda>ch. ch \<noteq> CHR 0x0A) (fst response)) of
              None \<Rightarrow> Inl ''illegal base64 data''
            | Some data \<Rightarrow> Inr data))"

definition client_GetFileContent ::
  "'n ClientEnv \<Rightarrow> Client \<Rightarrow> string \<Rightarrow> string \<Rightarrow> string \<Rightarrow> string \<Rightarrow> ('n ClientState, string, string) io" where
  "client_GetFileContent env c owner repo filePath ref =
     bindM (Token env c (cl_installationID c)) (\<lambda>tok.
     bindM (getWithBearer env c (contentsEndpoint owner repo filePath ref) tok ''application/vnd.github+json'') (\<lambda>body.
     bindM (liftM (ge_DecodeContent env body)) (\<lambda>response. liftM (decodeContent response))))"

definition checkRunPayload :: "CheckRunInput \<Rightarrow> Json" where
  "checkRunPayload i = JObject
     ([(''name'', JString (ci_Name i)), (''head_sha'', JString (ci_HeadSHA i)), (''status'', JString (ci_Status i)),
       (''conclusion'', JString (ci_Conclusion i)),
       (''output'', JObject [(''title'', JString (ci_Name i)), (''summary'', JString (ci_Summary i))])]
      @ (if ci_DetailsURL i \<noteq> [] then [(''details_url'', JString (ci_DetailsURL i))] else []))"

definition client_PublishCheckRun :: "'n ClientEnv \<Rightarrow> Client \<Rightarrow> CheckRunInput \<Rightarrow> ('n ClientState, string, unit) io" where
  "client_PublishCheckRun env c i =
     bindM (Token env c (cl_installationID c)) (\<lambda>tok.
     bindM (postWithBearer env c (repoEndpoint (ci_RepoOwner i) (ci_RepoName i) @ ''/check-runs'') tok (Some (checkRunPayload i)))
       (\<lambda>_. retM ()))"

text \<open>The client as the publisher of checks.\<close>

definition clientPublisher :: "'n ClientEnv \<Rightarrow> Client \<Rightarrow> 'n ClientState CheckRunPublisher" where
  "clientPublisher env c =
     \<lparr>cc_PublishCheckRun = client_PublishCheckRun env c,
      cc_ForInstallation = Some (\<lambda>n. client_PublishCheckRun env (ForInstallation c n))\<rparr>"

section \<open>Histories of a client\<close>

text \<open>Any sequence of calls, for any installations, on one shared cache.\<close>

datatype ClientOp =
    OpPull string string int
  | OpDiff string string int
  | OpContent string string string string
  | OpCheck CheckRunInput

fun runOp :: "'n ClientEnv \<Rightarrow> Client \<Rightarrow> ClientOp \<Rightarrow> ('n ClientState, string, unit) io" where
  "runOp env c (OpPull owner repo number) = bindM (client_GetPullRequest env c owner repo number) (\<lambda>_. retM ())"
| "runOp env c (OpDiff owner repo number) = bindM (client_GetPullRequestDiff env c owner repo number) (\<lambda>_. retM ())"
| "runOp env c (OpContent owner repo path ref) = bindM (client_GetFileContent env c owner repo path ref) (\<lambda>_. retM ())"
| "runOp env c (OpCheck i) = client_PublishCheckRun env c i"

inductive client_reach :: "Exchange list ClientEnv \<Rightarrow> Client \<Rightarrow> Exchange list ClientState \<Rightarrow> bool" for env c where
  fresh: "client_reach env c \<lparr>cs_tokens = [], cs_net = []\<rparr>"
| call: "client_reach env c s \<Longrightarrow> client_reach env c (snd (runOp env (ForInstallation c n) op s))"

definition tokenRequest :: "Client \<Rightarrow> int \<Rightarrow> string \<Rightarrow> HttpRequest" where
  "tokenRequest c n jwt =
     \<lparr>hr_Method = ''POST'', hr_URL = cl_baseURL c @ tokenEndpoint n,
      hr_Headers = [(''Accept'', ''application/vnd.github+json''), (''Authorization'', ''Bearer '' @ jwt),
        (''X-GitHub-Api-Version'', ''2022-11-28'')], hr_Body = None\<rparr>"

definition issued :: "Exchange list ClientEnv \<Rightarrow> Client \<Rightarrow> Exchange list \<Rightarrow> int \<Rightarrow> installationToken \<Rightarrow> bool" where
  \<comment> \<open>the server has answered a request for a token of this installation with this one\<close>
  "issued env c past n k \<longleftrightarrow>
     (\<exists>jwt status body. (tokenRequest c n jwt, Inr (status, body)) \<in> set past \<and> status < 400
        \<and> ge_DecodeToken env body = Inr (it_value k, it_expiresAt k))"

lemma issued_mono: "issued env c past n k \<Longrightarrow> issued env c (past @ later) n k"
  by (auto simp: issued_def)

section \<open>What a call sends\<close>

text \<open>An action that sends at most one request, with this token, and leaves the cache alone.\<close>

definition sendsOnce :: "string \<Rightarrow> (Exchange list ClientState, string, 'a) io \<Rightarrow> bool" where
  "sendsOnce t m \<longleftrightarrow>
     (\<forall>s. cs_tokens (snd (m s)) = cs_tokens s
        \<and> (cs_net (snd (m s)) = cs_net s
           \<or> (\<exists>req resp. cs_net (snd (m s)) = cs_net s @ [(req, resp)]
                \<and> map_of (hr_Headers req) ''Authorization'' = Some (''Bearer '' @ t))))"

definition silent :: "('w, 'e, 'a) io \<Rightarrow> bool" where
  "silent m \<longleftrightarrow> (\<forall>s. snd (m s) = s)"

lemma silent_simps [simp]: "silent (retM a)" "silent (failM e)" "silent (liftM r)"
  by (simp_all add: silent_def)

lemma silent_bind [intro]: "silent m \<Longrightarrow> (\<And>a. silent (f a)) \<Longrightarrow> silent (bindM m f)"
  unfolding silent_def bindM_def by (auto split: prod.splits sum.splits) (metis snd_conv)+

lemma snd_bindM: "snd (bindM m f s) = (case fst (m s) of Inl e \<Rightarrow> snd (m s) | Inr a \<Rightarrow> snd (f a (snd (m s))))"
  by (simp add: bindM_def split: prod.splits sum.splits)

lemma sendsOnce_then_silent: "sendsOnce t m \<Longrightarrow> (\<And>a. silent (f a)) \<Longrightarrow> sendsOnce t (bindM m f)"
  unfolding sendsOnce_def silent_def snd_bindM by (simp split: sum.splits)

lemma silent_then_sendsOnce: "silent m \<Longrightarrow> (\<And>a. sendsOnce t (f a)) \<Longrightarrow> sendsOnce t (bindM m f)"
  unfolding sendsOnce_def silent_def snd_bindM by (simp split: sum.splits)

definition mayCarry :: "(Exchange list \<Rightarrow> int \<Rightarrow> installationToken \<Rightarrow> bool) \<Rightarrow> (Exchange list \<Rightarrow> installationToken \<Rightarrow> bool)
    \<Rightarrow> Exchange list \<Rightarrow> Exchange list \<Rightarrow> int \<Rightarrow> HttpRequest \<Rightarrow> bool" where
  \<comment> \<open>a request of a call for an installation that began after the first exchanges and has made the
    second ones\<close>
  "mayCarry granted valid before during n req \<longleftrightarrow>
     (\<exists>k. map_of (hr_Headers req) ''Authorization'' = Some (''Bearer '' @ it_value k) \<and> granted (before @ during) n k
        \<and> (granted during n k \<or> valid before k \<and> during = []))"

text \<open>The contract of \<^verbatim>\<open>InstallationTokenSource\<close>, for requests that are kept: a token was granted for its
  installation, in this call or earlier, and then it is still valid for a minute.\<close>

locale token_source =
  fixes token :: "int \<Rightarrow> (Exchange list ClientState, string, string) io"
    and asks :: "int \<Rightarrow> HttpRequest \<Rightarrow> bool"
    and granted :: "Exchange list \<Rightarrow> int \<Rightarrow> installationToken \<Rightarrow> bool"
    and valid :: "Exchange list \<Rightarrow> installationToken \<Rightarrow> bool"
    and honest :: "Exchange list ClientState \<Rightarrow> bool"
  assumes honest_mono: "honest s \<Longrightarrow> cs_tokens s' = cs_tokens s \<Longrightarrow> cs_net s' = cs_net s @ later \<Longrightarrow> honest s'"
    and token_law: "honest s \<Longrightarrow> token n s = (r, s1) \<Longrightarrow>
      honest s1 \<and> (\<exists>new. cs_net s1 = cs_net s @ new \<and> (\<forall>e \<in> set new. asks n (fst e))
        \<and> (\<forall>t. r = Inr t \<longrightarrow> (\<exists>k. it_value k = t \<and> granted (cs_net s1) n k
             \<and> (granted new n k \<or> valid (cs_net s) k \<and> new = []))))"
begin

lemma authorized_call:
  fixes n
  assumes h: "honest s" and f: "\<And>t. sendsOnce t (f t)"
  defines "s' \<equiv> snd (bindM (token n) f s)"
  shows "honest s' \<and> (\<exists>new. cs_net s' = cs_net s @ new
    \<and> (\<forall>i < length new. asks n (fst (new ! i)) \<or> mayCarry granted valid (cs_net s) (take i new) n (fst (new ! i))))"
proof -
  obtain r s1 where t: "token n s = (r, s1)" by fastforce
  obtain new where l: "honest s1" "cs_net s1 = cs_net s @ new" "\<forall>e \<in> set new. asks n (fst e)"
    and g: "\<And>t. r = Inr t \<Longrightarrow> \<exists>k. it_value k = t \<and> granted (cs_net s1) n k
      \<and> (granted new n k \<or> valid (cs_net s) k \<and> new = [])"
    using token_law [OF h t] by blast
  have own: "\<forall>i < length new. asks n (fst (new ! i)) \<or> mayCarry granted valid (cs_net s) (take i new) n (fst (new ! i))"
    using l(3) by simp
  show ?thesis
  proof (cases r)
    case (Inl e)
    then show ?thesis using l own t by (auto simp: s'_def)
  next
    case (Inr tok)
    then have s': "s' = snd (f tok s1)" using t by (simp add: s'_def)
    have tokens: "cs_tokens s' = cs_tokens s1" using f [of tok] by (simp add: s' sendsOnce_def)
    consider "cs_net s' = cs_net s1" | (one) req resp where "cs_net s' = cs_net s1 @ [(req, resp)]"
      "map_of (hr_Headers req) ''Authorization'' = Some (''Bearer '' @ tok)"
      using f [of tok] unfolding s' sendsOnce_def by blast
    then show ?thesis
    proof cases
      case 1
      then show ?thesis using honest_mono [OF l(1) tokens, of "[]"] l(2) own by auto
    next
      case one
      obtain k where k: "it_value k = tok" "granted (cs_net s1) n k" "granted new n k \<or> valid (cs_net s) k \<and> new = []"
        using g [OF Inr] by blast
      have "mayCarry granted valid (cs_net s) new n req" using one(2) k l(2) by (auto simp: mayCarry_def)
      then have "\<forall>i < length (new @ [(req, resp)]). asks n (fst ((new @ [(req, resp)]) ! i))
          \<or> mayCarry granted valid (cs_net s) (take i (new @ [(req, resp)])) n (fst ((new @ [(req, resp)]) ! i))"
        using own by (auto simp: nth_append less_Suc_eq)
      moreover have "cs_net s' = cs_net s @ (new @ [(req, resp)])" using one(1) l(2) by simp
      ultimately show ?thesis using honest_mono [OF l(1) tokens one(1)] by blast
    qed
  qed
qed

end

definition loggedEnv :: "(Exchange list \<Rightarrow> HttpRequest \<Rightarrow> string + int \<times> string) \<Rightarrow> Exchange list ClientEnv \<Rightarrow> Exchange list ClientEnv" where
  "loggedEnv server env = env\<lparr>ge_Send := loggedNetwork server\<rparr>"

lemma client_do_logged:
  "snd (client_do (loggedEnv server env) req s) = s\<lparr>cs_net := cs_net s @ [(req, server (cs_net s) req)]\<rparr>"
  by (simp add: client_do_def snd_bindM onNet_def loggedEnv_def loggedNetwork_def split: sum.splits prod.splits)

lemma postToken:
  "postWithBearer env c (tokenEndpoint n) jwt None =
     bindM (liftM (newRequest env (tokenRequest c n jwt))) (client_do env)"
  by (simp add: postWithBearer_def tokenRequest_def bindM_def fun_eq_iff)

definition honestCache :: "Exchange list ClientEnv \<Rightarrow> Client \<Rightarrow> Exchange list ClientState \<Rightarrow> bool" where
  "honestCache env c s \<longleftrightarrow> (\<forall>n k. map_of (cs_tokens s) n = Some k \<longrightarrow> issued env c (cs_net s) n k)"

definition asksToken :: "Exchange list ClientEnv \<Rightarrow> Client \<Rightarrow> int \<Rightarrow> HttpRequest \<Rightarrow> bool" where
  "asksToken env c n req \<longleftrightarrow> (\<exists>now jwt. appJWT env c now = Inr jwt \<and> req = tokenRequest c n jwt)"

definition unexpired :: "Exchange list ClientEnv \<Rightarrow> Exchange list \<Rightarrow> installationToken \<Rightarrow> bool" where
  "unexpired env past k \<longleftrightarrow> ge_Now env past < it_expiresAt k - 60 * 1000000000"

lemma newRequest_Inr: "newRequest env req = Inr req' \<Longrightarrow> req' = req"
  by (auto simp: newRequest_def split: option.splits)

lemma client_do_ok:
  "client_do (loggedEnv server env) req s = (Inr body, s') \<Longrightarrow>
     \<exists>status. status < 400 \<and> s' = s\<lparr>cs_net := cs_net s @ [(req, Inr (status, body))]\<rparr>"
  by (auto simp: client_do_def onNet_def loggedEnv_def loggedNetwork_def bindM_ok not_le split: prod.splits if_splits)

lemma honestCache_keep:
  "honestCache env c s \<Longrightarrow> cs_tokens s' = cs_tokens s \<Longrightarrow> cs_net s' = cs_net s @ later \<Longrightarrow> honestCache env c s'"
  by (auto simp: honestCache_def intro: issued_mono)

text \<open>What a call for a new token does: nothing, or one request, after which the cache holds the answer or
  is as before.\<close>

definition fetchToken :: "'n ClientEnv \<Rightarrow> Client \<Rightarrow> int \<Rightarrow> ('n ClientState, string, string) io" where
  "fetchToken env c n s =
     bindM (liftM (appJWT env c (ge_Now env (cs_net s)))) (\<lambda>jwtToken.
     bindM (postWithBearer env c (tokenEndpoint n) jwtToken None) (\<lambda>body.
     bindM (liftM (ge_DecodeToken env body)) (\<lambda>(tok, expiresAt) s.
       (Inr tok, s\<lparr>cs_tokens := AList.update n \<lparr>it_value = tok, it_expiresAt = expiresAt\<rparr> (cs_tokens s)\<rparr>)))) s"

lemma Token_cases:
  assumes "Token env c n s = (r, s1)"
  obtains k where "map_of (cs_tokens s) n = Some k" "ge_Now env (cs_net s) < it_expiresAt k - 60 * 1000000000"
      "r = Inr (it_value k)" "s1 = s"
  | "fetchToken env c n s = (r, s1)"
  using assms unfolding Token_def fetchToken_def [symmetric] Let_def
  by (cases "map_of (cs_tokens s) n") (auto split: if_splits)

lemma fetchToken_cases:
  assumes "fetchToken (loggedEnv server env) c n s = (r, s1)"
  obtains err where "r = Inl err" "s1 = s"
  | err jwt resp now where "r = Inl err" "s1 = s\<lparr>cs_net := cs_net s @ [(tokenRequest c n jwt, resp)]\<rparr>"
      "appJWT (loggedEnv server env) c now = Inr jwt"
  | jwt status body k now where "r = Inr (it_value k)" "appJWT (loggedEnv server env) c now = Inr jwt"
      "status < 400" "ge_DecodeToken (loggedEnv server env) body = Inr (it_value k, it_expiresAt k)"
      "s1 = s\<lparr>cs_net := cs_net s @ [(tokenRequest c n jwt, Inr (status, body))],
         cs_tokens := AList.update n k (cs_tokens s)\<rparr>"
proof -
  let ?E = "loggedEnv server env" let ?now = "ge_Now ?E (cs_net s)"
  note defs = fetchToken_def postToken
  show thesis
  proof (cases "appJWT ?E c ?now")
    case (Inl err)
    then have "r = Inl err" "s1 = s" using assms by (simp_all add: defs bindM_def)
    then show thesis by (rule that(1))
  next
    case jwt: (Inr jwt)
    show thesis
    proof (cases "newRequest ?E (tokenRequest c n jwt)")
      case (Inl err)
      then show thesis using assms jwt that(1) by (auto simp: defs bindM_def)
    next
      case (Inr req)
      note req = Inr [unfolded newRequest_Inr [OF Inr]]
      obtain d s2 where d: "client_do ?E (tokenRequest c n jwt) s = (d, s2)" by fastforce
      have s2: "s2 = s\<lparr>cs_net := cs_net s @ [(tokenRequest c n jwt, server (cs_net s) (tokenRequest c n jwt))]\<rparr>"
        using client_do_logged [of server env "tokenRequest c n jwt" s] d by simp
      show thesis
      proof (cases d)
        case (Inl err)
        then show thesis using assms jwt req d s2 that(2) by (auto simp: defs bindM_def)
      next
        case body: (Inr body)
        obtain status where st: "status < 400" "s2 = s\<lparr>cs_net := cs_net s @ [(tokenRequest c n jwt, Inr (status, body))]\<rparr>"
          using client_do_ok d body by blast
        show thesis
        proof (cases "ge_DecodeToken ?E body")
          case (Inl err)
          then show thesis using assms jwt req d body s2 that(2) by (auto simp: defs bindM_def)
        next
          case (Inr te)
          then show thesis
            using assms jwt req d body st that(3) [of "\<lparr>it_value = fst te, it_expiresAt = snd te\<rparr>" ?now jwt status body]
            by (cases te) (auto simp: defs bindM_def)
        qed
      qed
    qed
  qed
qed

lemma Token_law:
  fixes env server
  defines "E \<equiv> loggedEnv server env"
  assumes h: "honestCache E c s" and t: "Token E c n s = (r, s1)"
  shows "honestCache E c s1 \<and> (\<exists>new. cs_net s1 = cs_net s @ new \<and> (\<forall>e \<in> set new. asksToken E c n (fst e))
    \<and> (\<forall>t. r = Inr t \<longrightarrow> (\<exists>k. it_value k = t \<and> issued E c (cs_net s1) n k
         \<and> (issued E c new n k \<or> unexpired E (cs_net s) k \<and> new = []))))"
  using t
proof (cases rule: Token_cases)
  case (1 k)
  then show ?thesis using h by (auto simp: honestCache_def unexpired_def)
next
  case 2
  from this [unfolded E_def] show ?thesis
  proof (cases rule: fetchToken_cases)
    case 1
    then show ?thesis using h by simp
  next
    case (2 err jwt resp now)
    then show ?thesis using h honestCache_keep [OF h, of s1] by (auto simp: asksToken_def E_def)
  next
    case (3 jwt status body k now)
    let ?new = "[(tokenRequest c n jwt, Inr (status, body))]"
    have new: "issued E c ?new n k" using 3 by (auto simp: issued_def E_def)
    have now: "issued E c (cs_net s @ ?new) n k" using new by (auto simp: issued_def)
    have "honestCache E c s1"
      using h now issued_mono [of E c "cs_net s"] 3(5) by (auto simp: honestCache_def update_conv)
    moreover have "asksToken E c n (tokenRequest c n jwt)" using 3(2) by (auto simp: asksToken_def E_def)
    ultimately show ?thesis using new now 3 by auto
  qed
qed

interpretation github_tokens:
  token_source "Token (loggedEnv server env) c" "asksToken (loggedEnv server env) c" "issued (loggedEnv server env) c"
    "unexpired (loggedEnv server env)" "honestCache (loggedEnv server env) c" for server env c
  by unfold_locales (fact honestCache_keep, fact Token_law)

lemma sendsOnce_do:
  assumes "map_of (hr_Headers req) ''Authorization'' = Some (''Bearer '' @ t)"
  shows "sendsOnce t (bindM (liftM (newRequest (loggedEnv server env) req)) (client_do (loggedEnv server env)))"
  unfolding sendsOnce_def snd_bindM using assms
  by (auto simp: client_do_logged dest: newRequest_Inr split: sum.splits)

lemma sendsOnce_get: "sendsOnce t (getWithBearer (loggedEnv server env) c endpoint t accept)"
  unfolding getWithBearer_def by (rule sendsOnce_do) simp

lemma sendsOnce_post: "sendsOnce t (postWithBearer (loggedEnv server env) c endpoint t payload)"
  unfolding postWithBearer_def by (intro silent_then_sendsOnce silent_simps sendsOnce_do) simp

lemma ForInstallation_id [simp]: "cl_installationID (ForInstallation c n) = n"
  by (simp add: ForInstallation_def)

lemma ForInstallation_other [simp]:
  "appJWT env (ForInstallation c m) = appJWT env c"
  "postWithBearer env (ForInstallation c m) = postWithBearer env c"
  by (simp_all add: fun_eq_iff appJWT_def appClaims_def postWithBearer_def ForInstallation_def)

lemma Token_ForInstallation [simp]: "Token env (ForInstallation c m) = Token env c"
  unfolding fun_eq_iff Token_def ForInstallation_other by simp

lemmas client_calls = client_GetPullRequest_def client_GetPullRequestDiff_def client_GetFileContent_def
  client_PublishCheckRun_def

lemma runOp_token:
  "\<exists>f. runOp (loggedEnv server env) (ForInstallation c n) op = bindM (Token (loggedEnv server env) c n) f
     \<and> (\<forall>t. sendsOnce t (f t))"
  by (cases op; simp only: runOp.simps client_calls bindM_assoc ForInstallation_id Token_ForInstallation)
     (rule exI, rule conjI, rule refl,
      intro allI sendsOnce_then_silent sendsOnce_get sendsOnce_post silent_bind silent_simps)+

lemma reached_honest: "client_reach (loggedEnv server env) c s \<Longrightarrow> honestCache (loggedEnv server env) c s"
proof (induction rule: client_reach.induct)
  case fresh
  then show ?case by (simp add: honestCache_def)
next
  case (call s n op)
  obtain f where f: "runOp (loggedEnv server env) (ForInstallation c n) op = bindM (Token (loggedEnv server env) c n) f"
    "\<And>t. sendsOnce t (f t)" using runOp_token [of server env c n op] by blast
  show ?case unfolding f(1) using github_tokens.authorized_call [OF call.IH f(2)] by blast
qed

text \<open>
  C24: Whatever calls have been made before, for whatever installations, a call of the client for an
  installation sends first at most a signed request for a token of this installation, and every other
  request carries a token that the server has granted for this installation: in this call, or earlier and
  then at least a minute remains before it expires. The shared cache never lets one installation act with the
  token of another.
\<close>

theorem requests_carry_own_token:
  fixes server env
  defines "E \<equiv> loggedEnv server env"
  assumes "client_reach E c s"
  shows "\<exists>new. cs_net (snd (runOp E (ForInstallation c n) op s)) = cs_net s @ new
    \<and> (\<forall>i < length new. asksToken E c n (fst (new ! i))
         \<or> mayCarry (issued E c) (unexpired E) (cs_net s) (take i new) n (fst (new ! i)))"
proof -
  obtain f where f: "runOp E (ForInstallation c n) op = bindM (Token E c n) f" "\<And>t. sendsOnce t (f t)"
    unfolding E_def using runOp_token [of server env c n op] by blast
  show ?thesis unfolding f(1)
    using github_tokens.authorized_call [OF reached_honest [OF assms(2) [unfolded E_def]] f(2)]
    unfolding E_def by blast
qed

section \<open>The signed token of the application\<close>

lemma encodeSegment_digits: "encodeSegment raw = map (b64Digit CHR ''-'' CHR ''_'') (b64Groups (map of_char raw))"
proof -
  have "CHR ''='' \<notin> set (map (b64Digit CHR ''-'' CHR ''_'') (b64Groups (map of_char raw)))"
    using digits_plain [of "CHR ''=''" raw] by blast
  then show ?thesis unfolding encodeSegment_def URLEncode_def b64Padding_def by (rule TrimRight_padding)
qed

lemma decodeSegment: "decodeJWTComponent (encodeSegment raw) = Inr raw"
  by (simp add: decodeJWTComponent_def encodeSegment_def URL_roundtrip)

lemma encodeSegment_chars: "d \<in> set (encodeSegment raw) \<Longrightarrow> b64Value d \<noteq> None"
  using b64Groups_bound [OF bytes_bound, of raw] by (auto simp: encodeSegment_digits b64Value_digit)

lemma encodeSegment_no_dot: "CHR ''.'' \<notin> set (encodeSegment raw)"
  using encodeSegment_chars [of "CHR ''.''" raw] by (auto simp: b64Value_def)

lemma b64Groups_not_Nil: "ns \<noteq> [] \<Longrightarrow> b64Groups ns \<noteq> []"
  by (cases ns rule: b64Groups.cases) simp_all

lemma encodeSegment_not_blank: "raw \<noteq> [] \<Longrightarrow> TrimSpace (encodeSegment raw) \<noteq> []"
proof -
  assume "raw \<noteq> []"
  then have "encodeSegment raw \<noteq> []" by (simp add: encodeSegment_digits b64Groups_not_Nil)
  then obtain d where d: "d \<in> set (encodeSegment raw)" by (meson last_in_set)
  have "\<not> isSpace d" using encodeSegment_chars [OF d] by (auto simp: isSpace_def b64Value_def)
  then show ?thesis using d by (auto simp: TrimSpace_empty)
qed

lemma splitJWT_segments:
  assumes "h \<noteq> []" "p \<noteq> []" "g \<noteq> []"
  shows "splitJWT (encodeSegment h @ ''.'' @ encodeSegment p @ ''.'' @ encodeSegment g)
    = Inr (encodeSegment h, encodeSegment p, encodeSegment g)"
proof -
  have "Split (Join [encodeSegment h, encodeSegment p, encodeSegment g] [CHR ''.'']) (CHR ''.'')
    = [encodeSegment h, encodeSegment p, encodeSegment g]"
    by (rule Split_Join) (simp_all add: encodeSegment_no_dot)
  then show ?thesis using assms by (simp add: splitJWT_def encodeSegment_not_blank)
qed

text \<open>
  The token the client signs for the application is one that the authenticator of this very program
  accepts: it splits into its three segments, its signature verifies and its claims are read back as they
  were issued. This needs that decoding inverts marshalling on these two objects, that no object or
  signature is empty text, and that the verifier accepts what the key has signed.
\<close>

theorem app_jwt_verifies:
  assumes j: "appJWT env c now = Inr tok"
    and alg: "\<And>raw. ge_Marshal env (JObject appHeader) = Inr raw \<Longrightarrow> je_HeaderAlg jenv raw = Some ''RS256''"
    and claims: "\<And>raw. ge_Marshal env (JObject (appClaims c now)) = Inr raw \<Longrightarrow> je_Claims jenv raw = Some (appClaims c now)"
    and some: "je_HeaderAlg jenv [] = None" "je_Claims jenv [] = None" "\<And>text. \<not> ja_verifier a text []"
    and key: "\<And>text sig. ge_Sign env (cl_privateKey c) text = Inr sig \<Longrightarrow> ja_verifier a text sig"
    and rs: "ja_algorithm a = JWTAlgorithmRS256"
  shows "\<exists>header payload signature. splitJWT tok = Inr (header, payload, signature)
    \<and> verifiedClaims jenv a header payload signature = Inr (appClaims c now)"
proof -
  obtain h p sig where m: "ge_Marshal env (JObject appHeader) = Inr h" "ge_Marshal env (JObject (appClaims c now)) = Inr p"
    and sig: "ge_Sign env (cl_privateKey c) (encodeSegment h @ ''.'' @ encodeSegment p) = Inr sig"
    and tok: "tok = encodeSegment h @ ''.'' @ encodeSegment p @ ''.'' @ encodeSegment sig"
    using j by (auto simp: appJWT_def bindE_Inr Let_def)
  note d = alg [OF m(1)] claims [OF m(2)] key [OF sig]
  have "h \<noteq> []" "p \<noteq> []" "sig \<noteq> []" using d some by auto
  then have "splitJWT tok = Inr (encodeSegment h, encodeSegment p, encodeSegment sig)"
    unfolding tok by (rule splitJWT_segments)
  moreover have "EqualFold (TrimSpace ''RS256'') JWTAlgorithmRS256" by code_simp
  then have "verifiedClaims jenv a (encodeSegment h) (encodeSegment p) (encodeSegment sig) = Inr (appClaims c now)"
    using d rs by (simp add: verifiedClaims_def validateJWTHeader_def decodeJWTClaimsSegment_def decodeSegment guardE_def)
  ultimately show ?thesis by blast
qed

text \<open>A file comes back as it was encoded, however its base64 text is broken into lines.\<close>

lemma file_content_decodes:
  assumes "filter (\<lambda>ch. ch \<noteq> CHR 0x0A \<and> ch \<noteq> CHR 0x0D) text = StdEncode raw"
  shows "decodeContent (text, ''base64'') = Inr raw"
proof -
  have "StdDecode (filter (\<lambda>ch. ch \<noteq> CHR 0x0A) text) = Some raw"
    by (rule Std_roundtrip) (use assms in \<open>simp add: conj_commute conj_left_commute\<close>)
  moreover have "EqualFold ''base64'' ''base64''" by code_simp
  ultimately show ?thesis by (simp add: decodeContent_def)
qed

section \<open>A sample client\<close>

definition sampleClient :: Client where
  "sampleClient = \<lparr>cl_baseURL = ''https://api'', cl_appID = ''app'', cl_privateKey = ''key'', cl_installationID = 1,
     cl_webhookSecret = []\<rparr>"

definition sampleClientEnv :: "Exchange list ClientEnv" where
  "sampleClientEnv = \<lparr>ge_Send = (\<lambda>r past. (Inl ''no network'', past)), ge_URLError = (\<lambda>_. None), ge_Now = (\<lambda>_. 0),
     ge_Marshal = (\<lambda>v. if v = JObject appHeader then Inr ''h'' else Inr ''p''), ge_Sign = (\<lambda>key text. Inr ''s''),
     ge_DecodeToken = (\<lambda>body. Inr (body, 3600 * 1000000000)), ge_DecodePull = (\<lambda>_. Inl ''no JSON''),
     ge_DecodeContent = (\<lambda>_. Inl ''no JSON'')\<rparr>"

definition sampleGitHub :: "Exchange list \<Rightarrow> HttpRequest \<Rightarrow> string + int \<times> string" where
  \<comment> \<open>answers with the URL, so that each installation has a token of its own\<close>
  "sampleGitHub past req = Inr (200, hr_URL req)"

theorem requests_carry_own_token_witness:
  "\<exists>s new. client_reach (loggedEnv sampleGitHub sampleClientEnv) sampleClient s \<and> map_of (cs_tokens s) 7 \<noteq> None
     \<and> cs_net (snd (runOp (loggedEnv sampleGitHub sampleClientEnv) (ForInstallation sampleClient 8) (OpDiff ''o'' ''r'' 1) s))
         = cs_net s @ new
     \<and> (\<forall>i < length new. asksToken (loggedEnv sampleGitHub sampleClientEnv) sampleClient 8 (fst (new ! i))
         \<or> mayCarry (issued (loggedEnv sampleGitHub sampleClientEnv) sampleClient) (unexpired (loggedEnv sampleGitHub sampleClientEnv))
             (cs_net s) (take i new) 8 (fst (new ! i)))"
proof -
  let ?E = "loggedEnv sampleGitHub sampleClientEnv" and ?c = sampleClient
  define s where "s = snd (runOp ?E (ForInstallation ?c 7) (OpDiff ''o'' ''r'' 1) \<lparr>cs_tokens = [], cs_net = []\<rparr>)"
  have r: "client_reach ?E ?c s" unfolding s_def by (intro client_reach.intros)
  have "map_of (cs_tokens s) 7 \<noteq> None"
    unfolding s_def runOp.simps client_calls Token_ForInstallation ForInstallation_id
    by (simp add: snd_bindM Token_def appJWT_def postToken newRequest_def client_do_def onNet_def loggedNetwork_def
        loggedEnv_def sampleClientEnv_def sampleGitHub_def bindM_def getWithBearer_def Let_def)
  then show ?thesis using r requests_carry_own_token [OF r, of 8 "OpDiff ''o'' ''r'' 1"] by blast
qed

theorem app_jwt_verifies_witness:
  "\<exists>tok header payload signature. appJWT sampleClientEnv sampleClient 0 = Inr tok
     \<and> splitJWT tok = Inr (header, payload, signature)"
proof -
  let ?jenv = "sampleJWTEnv\<lparr>je_HeaderAlg := (\<lambda>t. if t = ''h'' then Some ''RS256'' else None),
    je_Claims := (\<lambda>t. if t = ''p'' then Some (appClaims sampleClient 0) else None)\<rparr>"
  let ?a = "\<lparr>ja_algorithm = JWTAlgorithmRS256, ja_issuer = [], ja_audience = [], ja_subjectClaim = [], ja_rolesClaim = [],
    ja_bindings = Map.empty, ja_verifier = (\<lambda>text sig. sig = ''s'')\<rparr>"
  have other: "appClaims sampleClient 0 \<noteq> appHeader" by (simp add: appClaims_def appHeader_def)
  have "\<exists>tok. appJWT sampleClientEnv sampleClient 0 = Inr tok"
    using other by (simp add: appJWT_def sampleClientEnv_def Let_def)
  then obtain tok where j: "appJWT sampleClientEnv sampleClient 0 = Inr tok" ..
  have "\<exists>header payload signature. splitJWT tok = Inr (header, payload, signature)
    \<and> verifiedClaims ?jenv ?a header payload signature = Inr (appClaims sampleClient 0)"
    by (rule app_jwt_verifies [OF j]) (use other in \<open>simp_all add: sampleClientEnv_def split: if_splits\<close>)
  then show ?thesis using j by blast
qed

end
