(* ===== verification/ScmClients.thy ===== *)
theory ScmClients
  imports Ingest Web
begin

text \<open>
  The clients of other providers, \<open>pkg/extensions/scm_clients.go\<close>: a request that is tried twice, and
  the calls of the provider interface for GitLab and Bitbucket. Sending a request, JSON text and the
  syntax of URLs are arguments; how decoded objects fill the fields of a struct is modelled.
\<close>

section \<open>Transport\<close>

text \<open>An attempt gives the status with what could be read of the answer, or the error of the connection;
  and it leaves a part of the body unread, which is all that a second attempt has.\<close>

record Attempt =
  at_Answer :: "string + int \<times> string"
  at_Unread :: string

record 'w ScmEnv =
  se_Send :: "HttpRequest \<Rightarrow> 'w \<Rightarrow> Attempt \<times> 'w"
  se_URLError :: "string \<Rightarrow> string option"
  se_Marshal :: "Json \<Rightarrow> string + string"
  se_Parse :: "string \<Rightarrow> string + Json"

type_synonym 'a Out = "'a \<times> (string \<Rightarrow> string + 'a)" \<comment> \<open>the value before, and what an answer makes of it\<close>

definition outNone :: "unit Out" where
  "outNone = ((), (\<lambda>raw. Inr ()))"

definition outBytes :: "string Out" where
  "outBytes = ([], Inr)"

definition outStruct :: "'w ScmEnv \<Rightarrow> 'a \<Rightarrow> (Json \<Rightarrow> string + 'a) \<Rightarrow> 'a Out" where
  "outStruct env zero fill = (zero, (\<lambda>raw. if raw = [] then Inr zero else bindE (se_Parse env raw) fill))"

fun attempts ::
  "'w ScmEnv \<Rightarrow> HttpRequest \<Rightarrow> 'a Out \<Rightarrow> nat \<Rightarrow> string option \<Rightarrow> string option \<Rightarrow> ('w, string, 'a) io" where
  \<comment> \<open>the number of attempts left, what is left of the body, and the last error\<close>
  "attempts env req out 0 body lastErr s = (case lastErr of Some e \<Rightarrow> (Inl e, s) | None \<Rightarrow> (Inr (fst out), s))"
| "attempts env req out (Suc n) body lastErr s =
     (case se_URLError env (hr_URL req) of
        Some e \<Rightarrow> (Inl e, s)
      | None \<Rightarrow>
          (case se_Send env (req\<lparr>hr_Body := body\<rparr>) s of
             (a, s') \<Rightarrow>
               (let rest = map_option (\<lambda>_. at_Unread a) body
                in case at_Answer a of
                     Inl e \<Rightarrow> attempts env req out n rest (Some e) s'
                   | Inr (status, raw) \<Rightarrow>
                       if status \<ge> 500 then attempts env req out n rest (Some (''provider status '' @ Itoa status)) s'
                       else if status \<ge> 300 then (Inl (''provider status '' @ Itoa status), s')
                       else (snd out raw, s'))))"

definition scm_request ::
  "'w ScmEnv \<Rightarrow> (string \<times> string) list \<Rightarrow> string \<Rightarrow> string \<Rightarrow> Json option \<Rightarrow> 'a Out \<Rightarrow> ('w, string, 'a) io" where
  "scm_request env auth method url payload out =
     bindM (liftM (case payload of None \<Rightarrow> Inr None | Some v \<Rightarrow> bindE (se_Marshal env v) (\<lambda>raw. Inr (Some raw)))) (\<lambda>body.
       attempts env \<lparr>hr_Method = method, hr_URL = url,
           hr_Headers = auth @ (if payload \<noteq> None then [(''Content-Type'', ''application/json'')] else []), hr_Body = body\<rparr>
         out 2 body None)"

section \<open>How an object fills a struct\<close>

text \<open>\<^verbatim>\<open>json.Unmarshal\<close> gives a field the value under its name or its tag, whatever the case; null leaves it as it is.\<close>

definition keyed :: "string \<Rightarrow> (string \<times> Json) list \<Rightarrow> Json list" where
  "keyed name obj = map snd (filter (\<lambda>kv. EqualFold (fst kv) name \<and> snd kv \<noteq> JNull) obj)"

fun lastString :: "string \<Rightarrow> Json list \<Rightarrow> string + string" where
  "lastString v [] = Inr v"
| "lastString v (JString t # vs) = lastString t vs"
| "lastString v (_ # vs) = Inl ''json: cannot unmarshal into Go value of type string''"

definition stringField :: "string \<Rightarrow> (string \<times> Json) list \<Rightarrow> string + string" where
  "stringField name obj = lastString [] (keyed name obj)"

fun asObject :: "Json \<Rightarrow> string + (string \<times> Json) list" where
  "asObject (JObject obj) = Inr obj"
| "asObject JNull = Inr []"
| "asObject _ = Inl ''json: cannot unmarshal into Go value of type struct''"

fun mergedObjects :: "Json list \<Rightarrow> string + (string \<times> Json) list" where
  "mergedObjects [] = Inr []"
| "mergedObjects (v # vs) = bindE (asObject v) (\<lambda>obj. bindE (mergedObjects vs) (\<lambda>others. Inr (obj @ others)))"

definition objectField :: "string \<Rightarrow> (string \<times> Json) list \<Rightarrow> string + (string \<times> Json) list" where
  "objectField name obj = mergedObjects (keyed name obj)"

section \<open>GitLab\<close>

record GitLabClient =
  gl_baseURL :: string
  gl_token :: string

definition NewGitLabClient :: "string \<Rightarrow> string \<Rightarrow> string + GitLabClient" where
  "NewGitLabClient baseURL tok =
     (if tok = [] then Inl ''GitLab token is required'' else Inr \<lparr>gl_baseURL = TrimRight baseURL ''/'', gl_token = tok\<rparr>)"

definition gitlab_request ::
  "'w ScmEnv \<Rightarrow> GitLabClient \<Rightarrow> string \<Rightarrow> string \<Rightarrow> Json option \<Rightarrow> 'a Out \<Rightarrow> ('w, string, 'a) io" where
  "gitlab_request env c method path payload out =
     scm_request env [(''PRIVATE-TOKEN'', gl_token c)] method (gl_baseURL c @ path) payload out"

definition gitlab_fill :: "string \<Rightarrow> string \<Rightarrow> int \<Rightarrow> Json \<Rightarrow> string + PullRequest" where
  "gitlab_fill owner repo number v =
     bindE (asObject v) (\<lambda>obj.
     bindE (stringField ''Title'' obj) (\<lambda>title.
     bindE (stringField ''Description'' obj) (\<lambda>description.
     bindE (stringField ''WebURL'' obj) (\<lambda>webURL.
     bindE (objectField ''Author'' obj) (\<lambda>author.
     bindE (stringField ''Username'' author) (\<lambda>username.
     bindE (stringField ''sha'' obj) (\<lambda>sha.
     bindE (objectField ''DiffRefs'' obj) (\<lambda>diffRefs.
     bindE (stringField ''base_sha'' diffRefs) (\<lambda>baseSHA.
       Inr \<lparr>gq_Owner = owner, gq_Repo = repo, gq_Number = number, gq_Title = title, gq_Body = description,
            gq_Author = username, gq_URL = webURL, gq_HeadSHA = sha, gq_BaseSHA = baseSHA\<rparr>)))))))))"

definition emptyPull :: "string \<Rightarrow> string \<Rightarrow> int \<Rightarrow> PullRequest" where
  "emptyPull owner repo number =
     \<lparr>gq_Owner = owner, gq_Repo = repo, gq_Number = number, gq_Title = [], gq_Body = [], gq_Author = [], gq_URL = [],
      gq_HeadSHA = [], gq_BaseSHA = []\<rparr>"

definition gitlab_GetPullRequest ::
  "'w ScmEnv \<Rightarrow> GitLabClient \<Rightarrow> string \<Rightarrow> string \<Rightarrow> int \<Rightarrow> ('w, string, PullRequest) io" where
  "gitlab_GetPullRequest env c owner repo n =
     gitlab_request env c ''GET'' (''/projects/'' @ PathEscape (owner @ ''/'' @ repo) @ ''/merge_requests/'' @ Itoa n) None
       (outStruct env (emptyPull owner repo n) (gitlab_fill owner repo n))"

fun diffsOf :: "Json list \<Rightarrow> string + string" where
  "diffsOf [] = Inr []"
| "diffsOf (v # vs) =
     bindE (asObject v) (\<lambda>obj. bindE (stringField ''Diff'' obj) (\<lambda>d. bindE (diffsOf vs) (\<lambda>ds. Inr (d @ ds))))"

fun asArray :: "Json \<Rightarrow> string + Json list" where
  "asArray (JArray vs) = Inr vs"
| "asArray _ = Inl ''json: cannot unmarshal into Go value of type slice''"

definition gitlab_changes :: "Json \<Rightarrow> string + string" where
  \<comment> \<open>for an object with at most one list of changes\<close>
  "gitlab_changes v =
     bindE (asObject v) (\<lambda>obj.
       case keyed ''Changes'' obj of
         [] \<Rightarrow> Inr []
       | changes # _ \<Rightarrow> bindE (asArray changes) diffsOf)"

definition gitlab_GetPullRequestDiff ::
  "'w ScmEnv \<Rightarrow> GitLabClient \<Rightarrow> string \<Rightarrow> string \<Rightarrow> int \<Rightarrow> ('w, string, string) io" where
  "gitlab_GetPullRequestDiff env c owner repo n =
     gitlab_request env c ''GET''
       (''/projects/'' @ PathEscape (owner @ ''/'' @ repo) @ ''/merge_requests/'' @ Itoa n @ ''/changes'') None
       (outStruct env [] gitlab_changes)"

definition gitlab_GetFileContent ::
  "'w ScmEnv \<Rightarrow> GitLabClient \<Rightarrow> string \<Rightarrow> string \<Rightarrow> string \<Rightarrow> string \<Rightarrow> ('w, string, string) io" where
  "gitlab_GetFileContent env c owner repo path ref =
     gitlab_request env c ''GET''
       (''/projects/'' @ PathEscape (owner @ ''/'' @ repo) @ ''/repository/files/'' @ PathEscape path @ ''/raw?ref=''
          @ QueryEscape ref) None outBytes"

definition gitlab_status :: "CheckRunInput \<Rightarrow> Json" where
  "gitlab_status i = JObject
     [(''state'', JString (if ci_Conclusion i = ''success'' then ''success'' else ''failed'')), (''name'', JString (ci_Name i)),
      (''target_url'', JString (ci_DetailsURL i)), (''description'', JString (ci_Summary i))]"

definition gitlab_PublishCheckRun :: "'w ScmEnv \<Rightarrow> GitLabClient \<Rightarrow> CheckRunInput \<Rightarrow> ('w, string, unit) io" where
  "gitlab_PublishCheckRun env c i =
     gitlab_request env c ''POST''
       (''/projects/'' @ PathEscape (ci_RepoOwner i @ ''/'' @ ci_RepoName i) @ ''/statuses/'' @ ci_HeadSHA i)
       (Some (gitlab_status i)) outNone"

section \<open>Bitbucket\<close>

record BitbucketClient =
  bb_baseURL :: string
  bb_username :: string
  bb_token :: string

definition NewBitbucketClient :: "string \<Rightarrow> string \<Rightarrow> string \<Rightarrow> string + BitbucketClient" where
  "NewBitbucketClient baseURL username tok =
     (if username = [] \<or> tok = [] then Inl ''Bitbucket username and token are required''
      else Inr \<lparr>bb_baseURL = TrimRight baseURL ''/'', bb_username = username, bb_token = tok\<rparr>)"

definition basicAuth :: "string \<Rightarrow> string \<Rightarrow> string" where
  "basicAuth username password = ''Basic '' @ StdEncode (username @ '':'' @ password)"

definition bitbucket_request ::
  "'w ScmEnv \<Rightarrow> BitbucketClient \<Rightarrow> string \<Rightarrow> string \<Rightarrow> Json option \<Rightarrow> 'a Out \<Rightarrow> ('w, string, 'a) io" where
  "bitbucket_request env c method path payload out =
     scm_request env [(''Authorization'', basicAuth (bb_username c) (bb_token c))] method (bb_baseURL c @ path) payload out"

definition hashOf :: "string \<Rightarrow> (string \<times> Json) list \<Rightarrow> string + string" where
  "hashOf side obj =
     bindE (objectField side obj) (\<lambda>s. bindE (objectField ''Commit'' s) (\<lambda>commit. stringField ''Hash'' commit))"

definition bitbucket_fill :: "string \<Rightarrow> string \<Rightarrow> int \<Rightarrow> Json \<Rightarrow> string + PullRequest" where
  "bitbucket_fill owner repo number v =
     bindE (asObject v) (\<lambda>obj.
     bindE (stringField ''Title'' obj) (\<lambda>title.
     bindE (stringField ''Description'' obj) (\<lambda>description.
     bindE (objectField ''Links'' obj) (\<lambda>links.
     bindE (objectField ''HTML'' links) (\<lambda>html.
     bindE (stringField ''Href'' html) (\<lambda>href.
     bindE (objectField ''Author'' obj) (\<lambda>author.
     bindE (stringField ''Nickname'' author) (\<lambda>nickname.
     bindE (hashOf ''Source'' obj) (\<lambda>head.
     bindE (hashOf ''Destination'' obj) (\<lambda>base.
       Inr \<lparr>gq_Owner = owner, gq_Repo = repo, gq_Number = number, gq_Title = title, gq_Body = description,
            gq_Author = nickname, gq_URL = href, gq_HeadSHA = head, gq_BaseSHA = base\<rparr>))))))))))"

definition bitbucket_repo :: "string \<Rightarrow> string \<Rightarrow> string" where
  "bitbucket_repo owner repo = ''/repositories/'' @ owner @ ''/'' @ repo"

definition bitbucket_GetPullRequest ::
  "'w ScmEnv \<Rightarrow> BitbucketClient \<Rightarrow> string \<Rightarrow> string \<Rightarrow> int \<Rightarrow> ('w, string, PullRequest) io" where
  "bitbucket_GetPullRequest env c owner repo n =
     bitbucket_request env c ''GET'' (bitbucket_repo owner repo @ ''/pullrequests/'' @ Itoa n) None
       (outStruct env (emptyPull owner repo n) (bitbucket_fill owner repo n))"

definition bitbucket_GetPullRequestDiff ::
  "'w ScmEnv \<Rightarrow> BitbucketClient \<Rightarrow> string \<Rightarrow> string \<Rightarrow> int \<Rightarrow> ('w, string, string) io" where
  "bitbucket_GetPullRequestDiff env c owner repo n =
     bitbucket_request env c ''GET'' (bitbucket_repo owner repo @ ''/pullrequests/'' @ Itoa n @ ''/diff'') None outBytes"

definition bitbucket_GetFileContent ::
  "'w ScmEnv \<Rightarrow> BitbucketClient \<Rightarrow> string \<Rightarrow> string \<Rightarrow> string \<Rightarrow> string \<Rightarrow> ('w, string, string) io" where
  "bitbucket_GetFileContent env c owner repo path ref =
     bitbucket_request env c ''GET'' (bitbucket_repo owner repo @ ''/src/'' @ PathEscape ref @ ''/'' @ path) None outBytes"

definition bitbucket_status :: "CheckRunInput \<Rightarrow> Json" where
  "bitbucket_status i = JObject
     [(''state'', JString (if ci_Conclusion i = ''success'' then ''SUCCESSFUL'' else ''FAILED'')), (''key'', JString (ci_Name i)),
      (''url'', JString (ci_DetailsURL i)), (''description'', JString (ci_Summary i))]"

definition bitbucket_PublishCheckRun :: "'w ScmEnv \<Rightarrow> BitbucketClient \<Rightarrow> CheckRunInput \<Rightarrow> ('w, string, unit) io" where
  "bitbucket_PublishCheckRun env c i =
     bitbucket_request env c ''POST''
       (bitbucket_repo (ci_RepoOwner i) (ci_RepoName i) @ ''/commit/'' @ ci_HeadSHA i @ ''/statuses/build'')
       (Some (bitbucket_status i)) outNone"

section \<open>What a request sends\<close>

text \<open>Attempts that are kept, with a server that answers and reads as it likes.\<close>

definition loggedScm :: "((HttpRequest \<times> Attempt) list \<Rightarrow> HttpRequest \<Rightarrow> Attempt)
    \<Rightarrow> (HttpRequest \<times> Attempt) list ScmEnv \<Rightarrow> (HttpRequest \<times> Attempt) list ScmEnv" where
  "loggedScm server env = env\<lparr>se_Send := (\<lambda>req past. (server past req, past @ [(req, server past req)]))\<rparr>"

definition retriable :: "Attempt \<Rightarrow> bool" where
  "retriable a = (case at_Answer a of Inl _ \<Rightarrow> True | Inr (status, _) \<Rightarrow> status \<ge> 500)"

definition settles :: "'a Out \<Rightarrow> Attempt \<Rightarrow> string + 'a \<Rightarrow> bool" where
  \<comment> \<open>the answer of the call, from its last attempt\<close>
  "settles out a r \<longleftrightarrow>
     (case at_Answer a of
        Inl e \<Rightarrow> r = Inl e
      | Inr (status, raw) \<Rightarrow> if status \<ge> 300 then r = Inl (''provider status '' @ Itoa status) else r = snd out raw)"

lemma attempts_step:
  fixes req body past server
  assumes "se_URLError env (hr_URL req) = None"
  defines "q \<equiv> req\<lparr>hr_Body := body\<rparr>"
  defines "a \<equiv> server past q"
  shows "\<not> retriable a \<Longrightarrow> attempts (loggedScm server env) req out (Suc n) body err past = (r, past')
      \<Longrightarrow> past' = past @ [(q, a)] \<and> settles out a r"
    and "retriable a \<Longrightarrow> \<exists>err'. settles out a (Inl err')
      \<and> attempts (loggedScm server env) req out (Suc n) body err past
        = attempts (loggedScm server env) req out n (map_option (\<lambda>_. at_Unread a) body) (Some err') (past @ [(q, a)])"
  using assms(1)
  by (auto simp: loggedScm_def retriable_def settles_def a_def q_def Let_def split: sum.splits if_splits)

text \<open>
  C26: A request to a provider is sent at most twice. A second attempt is made exactly when the first one
  failed to connect or was answered with a server error. The first attempt carries method, address,
  credentials and the encoded payload, if there is one, with its content type; the second repeats all of it but
  the body, which is what the first attempt left unread; the answer of the call is decided by the last attempt.
\<close>

theorem request_retries_once:
  assumes r: "scm_request (loggedScm server env) auth method url payload out past = (r, past')"
    and u: "se_URLError env url = None"
    and m: "\<And>v. payload = Some v \<Longrightarrow> \<exists>raw. se_Marshal env v = Inr raw"
  shows "\<exists>q1 a1. (\<not> retriable a1 \<and> past' = past @ [(q1, a1)] \<and> settles out a1 r
        \<or> retriable a1 \<and> (\<exists>q2 a2. past' = past @ [(q1, a1), (q2, a2)] \<and> settles out a2 r
             \<and> q2 = q1\<lparr>hr_Body := map_option (\<lambda>_. at_Unread a1) (hr_Body q1)\<rparr>))
    \<and> hr_Method q1 = method \<and> hr_URL q1 = url
    \<and> (case payload of
         None \<Rightarrow> hr_Body q1 = None \<and> hr_Headers q1 = auth
       | Some v \<Rightarrow> (\<exists>raw. se_Marshal env v = Inr raw \<and> hr_Body q1 = Some raw)
           \<and> hr_Headers q1 = auth @ [(''Content-Type'', ''application/json'')])"
proof -
  obtain body where b: "(case payload of None \<Rightarrow> Inr None
      | Some v \<Rightarrow> bindE (se_Marshal (loggedScm server env) v) (\<lambda>raw. Inr (Some raw))) = Inr body"
    using m by (cases payload) (auto simp: loggedScm_def bindE_Inr)
  define req where "req = \<lparr>hr_Method = method, hr_URL = url,
    hr_Headers = auth @ (if payload \<noteq> None then [(''Content-Type'', ''application/json'')] else []), hr_Body = body\<rparr>"
  have q: "req\<lparr>hr_Body := body\<rparr> = req" "hr_Method req = method" "hr_URL req = url"
    "case payload of None \<Rightarrow> hr_Body req = None \<and> hr_Headers req = auth
     | Some v \<Rightarrow> (\<exists>raw. se_Marshal env v = Inr raw \<and> hr_Body req = Some raw)
         \<and> hr_Headers req = auth @ [(''Content-Type'', ''application/json'')]"
    "hr_Body req = body" using b by (auto simp: req_def loggedScm_def bindE_Inr split: option.splits)
  note u' = u [folded q(3)]
  have run: "attempts (loggedScm server env) req out (Suc (Suc 0)) body None past = (r, past')"
    using r b by (simp add: scm_request_def req_def numeral_2_eq_2 del: attempts.simps)
  define a1 where "a1 = server past req"
  define b2 where "b2 = map_option (\<lambda>_. at_Unread a1) body"
  show ?thesis
  proof (cases "retriable a1")
    case False
    then show ?thesis
      using attempts_step(1) [OF u' _ run, unfolded q(1), folded a1_def] q by blast
  next
    case True
    then obtain e1 where s1: "attempts (loggedScm server env) req out (Suc 0) b2 (Some e1) (past @ [(req, a1)]) = (r, past')"
      using attempts_step(2) [OF u', where server = server and past = past and body = body and out = out and n = "Suc 0" and err = None]
        run unfolding q(1) a1_def b2_def by auto
    define q2 where "q2 = req\<lparr>hr_Body := b2\<rparr>"
    define a2 where "a2 = server (past @ [(req, a1)]) q2"
    have "past' = past @ [(req, a1), (q2, a2)] \<and> settles out a2 r"
    proof (cases "retriable a2")
      case False
      then show ?thesis using attempts_step(1) [OF u' _ s1, folded q2_def] by (simp add: a2_def)
    next
      case True
      then show ?thesis
        using attempts_step(2) [OF u', where server = server and past = "past @ [(req, a1)]" and body = b2 and out = out and n = 0 and err = "Some e1"]
          s1 unfolding q2_def a2_def by auto
    qed
    then show ?thesis using True q b2_def q2_def by blast
  qed
qed

text \<open>When the provider has read the status and fails, the second attempt carries no body: if it is accepted,
  the call reports success and the status was never published.\<close>

lemma retried_status_is_empty:
  fixes env c i raw
  defines "q \<equiv> \<lparr>hr_Method = ''POST'',
    hr_URL = gl_baseURL c @ ''/projects/'' @ PathEscape (ci_RepoOwner i @ ''/'' @ ci_RepoName i) @ ''/statuses/'' @ ci_HeadSHA i,
    hr_Headers = [(''PRIVATE-TOKEN'', gl_token c), (''Content-Type'', ''application/json'')], hr_Body = Some raw\<rparr>"
  assumes "se_URLError env (hr_URL q) = None" and "se_Marshal env (gitlab_status i) = Inr raw"
    and "se_Send env q s = (\<lparr>at_Answer = Inr (502, x), at_Unread = []\<rparr>, s1)"
    and "se_Send env (q\<lparr>hr_Body := Some []\<rparr>) s1 = (\<lparr>at_Answer = Inr (201, y), at_Unread = []\<rparr>, s2)"
  shows "gitlab_PublishCheckRun env c i s = (Inr (), s2)"
  using assms
  by (simp add: gitlab_PublishCheckRun_def gitlab_request_def scm_request_def outNone_def numeral_2_eq_2)

text \<open>The fields \<^verbatim>\<open>WebURL\<close> and \<^verbatim>\<open>DiffRefs\<close> have no tag, so the answer's \<^verbatim>\<open>web_url\<close> and \<^verbatim>\<open>diff_refs\<close> are not read: the
  base of a merge request is lost, here in the answer that the tests of the client use.\<close>

lemma gitlab_base_is_lost:
  "gitlab_fill owner repo n (JObject [(''title'', JString title), (''sha'', JString head),
      (''diff_refs'', JObject [(''base_sha'', JString base)]), (''web_url'', JString url)])
   = Inr ((emptyPull owner repo n)\<lparr>gq_Title := title, gq_HeadSHA := head\<rparr>)"
  by code_simp

section \<open>A sample provider\<close>

definition sampleScm :: "(HttpRequest \<times> Attempt) list ScmEnv" where
  "sampleScm = \<lparr>se_Send = (\<lambda>req past. (\<lparr>at_Answer = Inl ''no network'', at_Unread = []\<rparr>, past)), se_URLError = (\<lambda>_. None),
     se_Marshal = (\<lambda>_. Inr ''{}''), se_Parse = (\<lambda>_. Inl ''no JSON'')\<rparr>"

definition flakyServer :: "(HttpRequest \<times> Attempt) list \<Rightarrow> HttpRequest \<Rightarrow> Attempt" where
  "flakyServer past req = (if past = [] then \<lparr>at_Answer = Inr (502, []), at_Unread = []\<rparr>
     else \<lparr>at_Answer = Inr (201, []), at_Unread = []\<rparr>)"

theorem request_retries_once_witness:
  "\<exists>past' q1 a1 q2 a2.
     scm_request (loggedScm flakyServer sampleScm) [(''PRIVATE-TOKEN'', ''t'')] ''POST'' ''u'' (Some JNull) outNone []
       = (Inr (), past')
     \<and> past' = [(q1, a1), (q2, a2)] \<and> retriable a1 \<and> settles outNone a2 (Inr ())
     \<and> hr_Body q1 = Some ''{}'' \<and> hr_Body q2 = Some []
     \<and> q2 = q1\<lparr>hr_Body := map_option (\<lambda>_. at_Unread a1) (hr_Body q1)\<rparr>"
proof -
  let ?run = "scm_request (loggedScm flakyServer sampleScm) [(''PRIVATE-TOKEN'', ''t'')] ''POST'' ''u'' (Some JNull) outNone []"
  have r: "fst ?run = Inr ()" "map (\<lambda>x. at_Unread (snd x)) (snd ?run) = [[], []]"
    by (simp_all add: scm_request_def loggedScm_def sampleScm_def flakyServer_def outNone_def numeral_2_eq_2)
  obtain past' where run: "?run = (Inr (), past')" using r(1) by (metis prod.collapse)
  have "map (\<lambda>x. at_Unread (snd x)) past' = [[], []]" using r(2) run by simp
  then show ?thesis
    using request_retries_once [OF run] run by (auto simp: sampleScm_def)
qed

end
