(* ===== verification/Postgres.thy ===== *)
theory Postgres
  imports EvidenceMachine
begin

text \<open>
  The PostgreSQL repository, \<open>internal/store/postgres.go\<close>: the tables as lists of rows in the order of
  insertion, and every operation as the SQL statements it sends, each with the meaning that PostgreSQL
  gives to it. The encoding of JSON values is an argument, and so is the order in which rows are
  scanned. Every statement can fail, and a failed statement or commit may have taken effect before the
  answer was lost. The repository meets the contract \<open>durable_repository\<close>.
\<close>

section \<open>Tables\<close>

record 'j PacketRow =
  kw_id :: string
  kw_repo_full_name :: string
  kw_pr_number :: int
  kw_head_sha :: string
  kw_author_login :: string
  kw_merge_lane :: MergeLane
  kw_risk_score :: int
  kw_decision_status :: DecisionStatus
  kw_payload :: 'j
  kw_created_at :: time
  kw_updated_at :: time

record 'j EventRow =
  vw_id :: string
  vw_event_type :: EventType
  vw_source :: string
  vw_correlation_id :: string
  vw_causation_id :: string
  vw_change_packet_id :: string
  vw_payload :: 'j
  vw_created_at :: time

record 'j EvidenceRow =
  ew_change_packet_id :: string
  ew_evidence_name :: string
  ew_evidence_type :: EvidenceType
  ew_status :: EvidenceStatus
  ew_required :: bool
  ew_summary :: "string option"
  ew_details_url :: "string option"
  ew_updated_by :: "string option"
  ew_metadata :: 'j
  ew_updated_at :: time

record 'j AuditRow =
  aw_id :: string
  aw_change_packet_id :: string
  aw_evidence_name :: string
  aw_from_status :: EvidenceStatus
  aw_to_status :: EvidenceStatus
  aw_actor :: string
  aw_summary :: string
  aw_details_url :: string
  aw_metadata :: 'j
  aw_occurred_at :: time

record 'j OutcomeRow =
  ow_id :: string
  ow_change_packet_id :: string
  ow_outcome :: DeploymentOutcomeKind
  ow_source :: string
  ow_lane :: MergeLane
  ow_risk_types :: 'j
  ow_observed_at :: time

record 'j PgTables =
  pt_packets :: "'j PacketRow list"
  pt_events :: "'j EventRow list"
  pt_evidence :: "'j EvidenceRow list"
  pt_audit :: "'j AuditRow list"
  pt_outcomes :: "'j OutcomeRow list"

text \<open>The schema: the objects that the migrations create.\<close>

datatype SchemaObject = Table string | Column string string | Index string string
  \<comment> \<open>a column and an index belong to the table that is named first\<close>

record 'j PgWorld =
  pg_schema :: "SchemaObject list"
  pg_tables :: "'j PgTables"
  pg_clock :: nat \<comment> \<open>how many times the server has been called\<close>

text \<open>The codec of each column of type \<^verbatim>\<open>jsonb\<close>, and what the server decides: failures, with whether the
  statement took effect, the precision of times, the collation of texts and the order of a scan.\<close>

record 'j PgEnv =
  pe_Packet :: "ChangePacket \<Rightarrow> string + 'j"
  pe_UnPacket :: "'j \<Rightarrow> string + ChangePacket"
  pe_Event :: "Envelope \<Rightarrow> string + 'j"
  pe_Metadata :: "metadata \<Rightarrow> string + 'j"
  pe_UnMetadata :: "'j \<Rightarrow> string + metadata"
  pe_RiskTypes :: "RiskType list \<Rightarrow> string + 'j"
  pe_UnRiskTypes :: "'j \<Rightarrow> string + RiskType list"
  pe_Null :: 'j
  pe_Fault :: "nat \<Rightarrow> (bool \<times> string) option"
  pe_Stamp :: "time \<Rightarrow> time"
  pe_Collate :: "string \<Rightarrow> string"
  pe_Scan :: "nat \<Rightarrow> nat list"

section \<open>Statements\<close>

type_synonym 'j Statement = "'j PgTables \<Rightarrow> string + 'j PgTables"

definition integer4 :: "int \<Rightarrow> string + unit" where
  "integer4 n = guardE (- (2 ^ 31) \<le> n \<and> n < 2 ^ 31) ''value out of range for type integer''"

definition pg_exec :: "'j PgEnv \<Rightarrow> string \<Rightarrow> 'j Statement \<Rightarrow> (('j, 'z) PgWorld_scheme, StoreError, unit) io" where
  \<comment> \<open>one statement on one table; outside of a transaction it is one of its own\<close>
  "pg_exec env table statement w =
     (let failed = w\<lparr>pg_clock := Suc (pg_clock w)\<rparr>;
          outcome = (if Table table \<in> set (pg_schema w) then statement (pg_tables w) else Inl ''relation does not exist'')
      in case (pe_Fault env (pg_clock w), outcome) of
           (None, Inr ts) \<Rightarrow> (Inr (), failed\<lparr>pg_tables := ts\<rparr>)
         | (None, Inl e) \<Rightarrow> (Inl (StoreFailed e), failed)
         | (Some (applied, e), Inr ts) \<Rightarrow> (Inl (StoreFailed e), if applied then failed\<lparr>pg_tables := ts\<rparr> else failed)
         | (Some (_, e), Inl _) \<Rightarrow> (Inl (StoreFailed e), failed))"

definition pg_query :: "'j PgEnv \<Rightarrow> string \<Rightarrow> ('j PgTables \<Rightarrow> 'a) \<Rightarrow> (('j, 'z) PgWorld_scheme, StoreError, 'a) io" where
  "pg_query env table select w =
     (let w' = w\<lparr>pg_clock := Suc (pg_clock w)\<rparr>
      in case pe_Fault env (pg_clock w) of
           Some (_, e) \<Rightarrow> (Inl (StoreFailed e), w')
         | None \<Rightarrow> if Table table \<in> set (pg_schema w) then (Inr (select (pg_tables w)), w')
                   else (Inl (StoreFailed ''relation does not exist''), w'))"

definition pg_call :: "'j PgEnv \<Rightarrow> (('j, 'z) PgWorld_scheme, StoreError, bool) io" where
  \<comment> \<open>a call without a table: whether it took effect comes with the error\<close>
  "pg_call env w =
     (let w' = w\<lparr>pg_clock := Suc (pg_clock w)\<rparr>
      in case pe_Fault env (pg_clock w) of Some (_, e) \<Rightarrow> (Inl (StoreFailed e), w') | None \<Rightarrow> (Inr True, w'))"

definition pg_transaction ::
  "'j PgEnv \<Rightarrow> (('j, 'z) PgWorld_scheme, StoreError, unit) io \<Rightarrow> (('j, 'z) PgWorld_scheme, StoreError, unit) io" where
  \<comment> \<open>begin, the statements, commit; an error on the way rolls back, a failed commit may have been one\<close>
  "pg_transaction env body w =
     (case pg_call env w of
        (Inl e, w1) \<Rightarrow> (Inl e, w1)
      | (Inr _, w1) \<Rightarrow>
          (case body w1 of
             (Inl e, w2) \<Rightarrow> (Inl e, w2\<lparr>pg_tables := pg_tables w\<rparr>)
           | (Inr _, w2) \<Rightarrow>
               (let w3 = w2\<lparr>pg_clock := Suc (pg_clock w2)\<rparr>
                in case pe_Fault env (pg_clock w2) of
                     None \<Rightarrow> (Inr (), w3)
                   | Some (applied, e) \<Rightarrow>
                       (Inl (StoreFailed e), if applied then w3 else w3\<lparr>pg_tables := pg_tables w\<rparr>))))"

definition encoded :: "string + 'a \<Rightarrow> ('w, StoreError, 'a) io" where
  "encoded r = liftM (mapError StoreFailed r)"

text \<open>Rows in the order of a scan, and in the order of a key; \<^verbatim>\<open>desc\<close> is the reverse order of the key.\<close>

definition scanned :: "'j PgEnv \<Rightarrow> 'r list \<Rightarrow> 'r list" where
  "scanned env rows = map (\<lambda>i. rows ! i) (pe_Scan env (length rows))"

definition limitRows :: "int \<Rightarrow> 'r list \<Rightarrow> 'r list" where
  "limitRows limit rows = take (nat limit) rows"

definition insertOrUpdate :: "('r \<Rightarrow> bool) \<Rightarrow> ('r \<Rightarrow> 'r) \<Rightarrow> 'r \<Rightarrow> 'r list \<Rightarrow> 'r list" where
  \<comment> \<open>\<^verbatim>\<open>insert ... on conflict (...) do update set ...\<close>\<close>
  "insertOrUpdate conflict update row rows =
     (if list_ex conflict rows then map (\<lambda>r. if conflict r then update r else r) rows else rows @ [row])"

definition insertNew :: "('r \<Rightarrow> bool) \<Rightarrow> 'r \<Rightarrow> 'r list \<Rightarrow> string + 'r list" where
  "insertNew conflict row rows =
     (if list_ex conflict rows then Inl ''duplicate key value violates unique constraint'' else Inr (rows @ [row]))"

section \<open>Packets\<close>

definition packetRow :: "'j PgEnv \<Rightarrow> ChangePacket \<Rightarrow> 'j \<Rightarrow> 'j PacketRow" where
  "packetRow env packet payload =
     \<lparr>kw_id = cp_ID packet, kw_repo_full_name = rr_FullName (cp_Repo packet), kw_pr_number = pr_Number (cp_PR packet),
      kw_head_sha = pr_HeadSHA (cp_PR packet), kw_author_login = au_Login (cp_Author packet),
      kw_merge_lane = cp_MergeLane packet, kw_risk_score = rs_Score (cp_RiskSummary packet),
      kw_decision_status = pd_Status (cp_Decision packet), kw_payload = payload,
      kw_created_at = pe_Stamp env (cp_CreatedAt packet), kw_updated_at = pe_Stamp env (cp_UpdatedAt packet)\<rparr>"

definition upsertPacket :: "'j PacketRow \<Rightarrow> 'j Statement" where
  "upsertPacket row ts =
     bindE (integer4 (kw_pr_number row)) (\<lambda>_. bindE (integer4 (kw_risk_score row)) (\<lambda>_.
       Inr (ts\<lparr>pt_packets := insertOrUpdate (\<lambda>r. kw_id r = kw_id row)
         (\<lambda>r. r\<lparr>kw_head_sha := kw_head_sha row, kw_merge_lane := kw_merge_lane row, kw_risk_score := kw_risk_score row,
            kw_decision_status := kw_decision_status row, kw_payload := kw_payload row, kw_updated_at := kw_updated_at row\<rparr>)
         row (pt_packets ts)\<rparr>)))"

definition requirementRow :: "'j PgEnv \<Rightarrow> ChangePacket \<Rightarrow> EvidenceRequirement \<Rightarrow> 'j EvidenceRow" where
  "requirementRow env packet requirement =
     \<lparr>ew_change_packet_id = cp_ID packet, ew_evidence_name = er_Name requirement, ew_evidence_type = er_Type requirement,
      ew_status = EvidencePending, ew_required = er_Required requirement, ew_summary = None, ew_details_url = None,
      ew_updated_by = Some ''merger'', ew_metadata = pe_Null env, ew_updated_at = pe_Stamp env (cp_UpdatedAt packet)\<rparr>"

definition sameEvidence :: "'j EvidenceRow \<Rightarrow> 'j EvidenceRow \<Rightarrow> bool" where
  "sameEvidence row r \<longleftrightarrow>
     ew_change_packet_id r = ew_change_packet_id row \<and> ew_evidence_name r = ew_evidence_name row"

definition upsertRequirement :: "'j EvidenceRow \<Rightarrow> 'j Statement" where
  "upsertRequirement row ts =
     Inr (ts\<lparr>pt_evidence := insertOrUpdate (sameEvidence row)
       (\<lambda>r. r\<lparr>ew_evidence_type := ew_evidence_type row, ew_required := ew_required row\<rparr>) row (pt_evidence ts)\<rparr>)"

definition syncEvidenceRequirements ::
  "'j PgEnv \<Rightarrow> ChangePacket \<Rightarrow> (('j, 'z) PgWorld_scheme, StoreError, unit) io" where
  "syncEvidenceRequirements env packet =
     forM (\<lambda>requirement. pg_exec env ''merger_evidence_executions'' (upsertRequirement (requirementRow env packet requirement)))
       (cp_Evidence packet)"

definition pg_SaveChangePacket :: "'j PgEnv \<Rightarrow> ChangePacket \<Rightarrow> (('j, 'z) PgWorld_scheme, StoreError, unit) io" where
  "pg_SaveChangePacket env packet =
     bindM (encoded (pe_Packet env packet)) (\<lambda>payload.
       pg_transaction env
         (bindM (pg_exec env ''merger_change_packets'' (upsertPacket (packetRow env packet payload))) (\<lambda>_.
            syncEvidenceRequirements env packet)))"

definition firstPacket :: "'j PgEnv \<Rightarrow> 'j PacketRow list \<Rightarrow> ('w, StoreError, ChangePacket) io" where
  "firstPacket env rows =
     (case rows of [] \<Rightarrow> failM ErrChangePacketNotFound | row # _ \<Rightarrow> encoded (pe_UnPacket env (kw_payload row)))"

definition byUpdatedDesc :: "'j PacketRow list \<Rightarrow> 'j PacketRow list" where
  "byUpdatedDesc = sort_key (\<lambda>r. - kw_updated_at r)"

definition pg_FindLatestChangePacket ::
  "'j PgEnv \<Rightarrow> string \<Rightarrow> int \<Rightarrow> string \<Rightarrow> (('j, 'z) PgWorld_scheme, StoreError, ChangePacket) io" where
  "pg_FindLatestChangePacket env repoFullName prNumber headSHA =
     bindM (pg_query env ''merger_change_packets'' (\<lambda>ts. limitRows 1 (byUpdatedDesc
         (filter (\<lambda>r. kw_repo_full_name r = repoFullName \<and> kw_pr_number r = prNumber \<and> kw_head_sha r = headSHA)
           (scanned env (pt_packets ts)))))) (firstPacket env)"

definition pg_GetChangePacket :: "'j PgEnv \<Rightarrow> string \<Rightarrow> (('j, 'z) PgWorld_scheme, StoreError, ChangePacket) io" where
  "pg_GetChangePacket env i =
     bindM (pg_query env ''merger_change_packets'' (\<lambda>ts. filter (\<lambda>r. kw_id r = i) (scanned env (pt_packets ts))))
       (firstPacket env)"

fun collect :: "('r \<Rightarrow> ('w, 'e, 'a) io) \<Rightarrow> 'r list \<Rightarrow> ('w, 'e, 'a list) io" where
  "collect f [] = retM []"
| "collect f (r # rs) = bindM (f r) (\<lambda>a. bindM (collect f rs) (\<lambda>as. retM (a # as)))"

definition pg_ListChangePackets :: "'j PgEnv \<Rightarrow> int \<Rightarrow> (('j, 'z) PgWorld_scheme, StoreError, ChangePacket list) io" where
  "pg_ListChangePackets env limit =
     (let limit = (if limit \<le> 0 then 50 else limit)
      in bindM (pg_query env ''merger_change_packets'' (\<lambda>ts. limitRows limit (byUpdatedDesc (scanned env (pt_packets ts)))))
           (collect (\<lambda>row. encoded (pe_UnPacket env (kw_payload row)))))"

section \<open>Events\<close>

definition insertEvent :: "'j EventRow \<Rightarrow> 'j Statement" where
  "insertEvent row ts =
     Inr (ts\<lparr>pt_events := insertOrUpdate (\<lambda>r. vw_id r = vw_id row) (\<lambda>r. r) row (pt_events ts)\<rparr>)"

definition pg_SaveEvent :: "'j PgEnv \<Rightarrow> time \<Rightarrow> Envelope \<Rightarrow> (('j, 'z) PgWorld_scheme, StoreError, unit) io" where
  "pg_SaveEvent env now event =
     bindM (encoded (pe_Event env event)) (\<lambda>payload.
       pg_exec env ''merger_event_log'' (insertEvent
         \<lparr>vw_id = en_ID event, vw_event_type = en_Type event, vw_source = en_Source event,
          vw_correlation_id = en_CorrelationID event, vw_causation_id = en_CausationID event,
          vw_change_packet_id = en_ChangePacketID event, vw_payload = payload, vw_created_at = pe_Stamp env now\<rparr>))"

section \<open>Evidence\<close>

definition executionRow :: "'j PgEnv \<Rightarrow> time \<Rightarrow> EvidenceExecution \<Rightarrow> 'j \<Rightarrow> 'j EvidenceRow" where
  "executionRow env now execution metadata =
     \<lparr>ew_change_packet_id = ee_ChangePacketID execution, ew_evidence_name = ee_Name execution,
      ew_evidence_type = ee_Type execution, ew_status = ee_Status execution, ew_required = ee_Required execution,
      ew_summary = Some (ee_Summary execution), ew_details_url = Some (ee_DetailsURL execution),
      ew_updated_by = Some (ee_UpdatedBy execution), ew_metadata = metadata,
      ew_updated_at = pe_Stamp env (if ee_UpdatedAt execution = 0 then now else ee_UpdatedAt execution)\<rparr>"

definition upsertExecution :: "'j EvidenceRow \<Rightarrow> 'j Statement" where
  "upsertExecution row ts =
     Inr (ts\<lparr>pt_evidence := insertOrUpdate (sameEvidence row)
       (\<lambda>r. r\<lparr>ew_evidence_type := ew_evidence_type row, ew_status := ew_status row, ew_required := ew_required row,
          ew_summary := ew_summary row, ew_details_url := ew_details_url row, ew_updated_by := ew_updated_by row,
          ew_metadata := ew_metadata row, ew_updated_at := ew_updated_at row\<rparr>) row (pt_evidence ts)\<rparr>)"

definition pg_UpsertEvidenceExecution ::
  "'j PgEnv \<Rightarrow> time \<Rightarrow> EvidenceExecution \<Rightarrow> (('j, 'z) PgWorld_scheme, StoreError, unit) io" where
  "pg_UpsertEvidenceExecution env now execution =
     bindM (encoded (pe_Metadata env (ee_Metadata execution))) (\<lambda>metadata.
       pg_exec env ''merger_evidence_executions'' (upsertExecution (executionRow env now execution metadata)))"

definition auditRow :: "'j PgEnv \<Rightarrow> EvidenceAuditEntry \<Rightarrow> 'j \<Rightarrow> 'j AuditRow" where
  "auditRow env audit metadata =
     \<lparr>aw_id = ae_ID audit, aw_change_packet_id = ae_ChangePacketID audit, aw_evidence_name = ae_EvidenceName audit,
      aw_from_status = ae_FromStatus audit, aw_to_status = ae_ToStatus audit, aw_actor = ae_Actor audit,
      aw_summary = ae_Summary audit, aw_details_url = ae_DetailsURL audit, aw_metadata = metadata,
      aw_occurred_at = pe_Stamp env (ae_OccurredAt audit)\<rparr>"

definition insertAudit :: "'j AuditRow \<Rightarrow> 'j Statement" where
  "insertAudit row ts =
     bindE (insertNew (\<lambda>r. aw_id r = aw_id row) row (pt_audit ts)) (\<lambda>rows. Inr (ts\<lparr>pt_audit := rows\<rparr>))"

definition pg_RecordEvidenceUpdate ::
  "'j PgEnv \<Rightarrow> time \<Rightarrow> EvidenceExecution \<Rightarrow> EvidenceAuditEntry \<Rightarrow> (('j, 'z) PgWorld_scheme, StoreError, unit) io" where
  "pg_RecordEvidenceUpdate env now execution audit =
     pg_transaction env
       (bindM (pg_UpsertEvidenceExecution env now execution) (\<lambda>_.
        bindM (encoded (pe_Metadata env (ae_Metadata audit))) (\<lambda>metadata.
          pg_exec env ''merger_evidence_audit_entries'' (insertAudit (auditRow env audit metadata)))))"

definition coalesce :: "string option \<Rightarrow> string" where
  "coalesce v = (case v of None \<Rightarrow> [] | Some s \<Rightarrow> s)"

definition readMetadata :: "'j PgEnv \<Rightarrow> 'j \<Rightarrow> metadata" where
  \<comment> \<open>an error of decoding is ignored\<close>
  "readMetadata env raw = (case pe_UnMetadata env raw of Inl _ \<Rightarrow> [] | Inr m \<Rightarrow> m)"

definition executionOf :: "'j PgEnv \<Rightarrow> 'j EvidenceRow \<Rightarrow> EvidenceExecution" where
  "executionOf env row =
     \<lparr>ee_ChangePacketID = ew_change_packet_id row, ee_Name = ew_evidence_name row, ee_Type = ew_evidence_type row,
      ee_Status = ew_status row, ee_Required = ew_required row, ee_Summary = coalesce (ew_summary row),
      ee_DetailsURL = coalesce (ew_details_url row), ee_UpdatedBy = coalesce (ew_updated_by row),
      ee_Metadata = readMetadata env (ew_metadata row), ee_UpdatedAt = ew_updated_at row\<rparr>"

definition pg_ListEvidenceExecutions ::
  "'j PgEnv \<Rightarrow> string \<Rightarrow> (('j, 'z) PgWorld_scheme, StoreError, EvidenceExecution list) io" where
  "pg_ListEvidenceExecutions env changePacketID =
     bindM (pg_query env ''merger_evidence_executions'' (\<lambda>ts. sort_key (\<lambda>r. pe_Collate env (ew_evidence_name r))
         (filter (\<lambda>r. ew_change_packet_id r = changePacketID) (scanned env (pt_evidence ts)))))
       (\<lambda>rows. retM (map (executionOf env) rows))"

definition auditOf :: "'j PgEnv \<Rightarrow> 'j AuditRow \<Rightarrow> EvidenceAuditEntry" where
  "auditOf env row =
     \<lparr>ae_ID = aw_id row, ae_ChangePacketID = aw_change_packet_id row, ae_EvidenceName = aw_evidence_name row,
      ae_FromStatus = aw_from_status row, ae_ToStatus = aw_to_status row, ae_Actor = aw_actor row,
      ae_Summary = aw_summary row, ae_DetailsURL = aw_details_url row, ae_Metadata = readMetadata env (aw_metadata row),
      ae_OccurredAt = aw_occurred_at row\<rparr>"

definition pg_ListEvidenceAuditEntries ::
  "'j PgEnv \<Rightarrow> string \<Rightarrow> int \<Rightarrow> (('j, 'z) PgWorld_scheme, StoreError, EvidenceAuditEntry list) io" where
  "pg_ListEvidenceAuditEntries env changePacketID limit =
     (let limit = (if limit \<le> 0 then 50 else limit)
      in bindM (pg_query env ''merger_evidence_audit_entries'' (\<lambda>ts. limitRows limit
             (sort_key (\<lambda>r. - aw_occurred_at r) (rev (sort_key (\<lambda>r. pe_Collate env (aw_id r))
               (filter (\<lambda>r. aw_change_packet_id r = changePacketID) (scanned env (pt_audit ts))))))))
           (\<lambda>rows. retM (map (auditOf env) rows)))"

section \<open>Outcomes\<close>

definition insertOutcome :: "'j OutcomeRow \<Rightarrow> 'j Statement" where
  "insertOutcome row ts =
     bindE (insertNew (\<lambda>r. ow_id r = ow_id row) row (pt_outcomes ts)) (\<lambda>rows. Inr (ts\<lparr>pt_outcomes := rows\<rparr>))"

definition pg_SaveDeploymentOutcome ::
  "'j PgEnv \<Rightarrow> DeploymentOutcome \<Rightarrow> (('j, 'z) PgWorld_scheme, StoreError, unit) io" where
  "pg_SaveDeploymentOutcome env outcome =
     bindM (encoded (pe_RiskTypes env (do_RiskTypes outcome))) (\<lambda>riskTypes.
       pg_exec env ''merger_deployment_outcomes'' (insertOutcome
         \<lparr>ow_id = do_ID outcome, ow_change_packet_id = do_ChangePacketID outcome, ow_outcome = do_Outcome outcome,
          ow_source = do_Source outcome, ow_lane = do_Lane outcome, ow_risk_types = riskTypes,
          ow_observed_at = pe_Stamp env (do_ObservedAt outcome)\<rparr>))"

definition outcomeOf :: "'j PgEnv \<Rightarrow> 'j OutcomeRow \<Rightarrow> DeploymentOutcome" where
  "outcomeOf env row =
     \<lparr>do_ID = ow_id row, do_ChangePacketID = ow_change_packet_id row, do_Outcome = ow_outcome row,
      do_Source = ow_source row, do_Lane = ow_lane row,
      do_RiskTypes = (case pe_UnRiskTypes env (ow_risk_types row) of Inl _ \<Rightarrow> [] | Inr rs \<Rightarrow> rs),
      do_ObservedAt = ow_observed_at row\<rparr>"

definition pg_ListDeploymentOutcomes ::
  "'j PgEnv \<Rightarrow> int \<Rightarrow> (('j, 'z) PgWorld_scheme, StoreError, DeploymentOutcome list) io" where
  "pg_ListDeploymentOutcomes env limit =
     (let limit = (if limit \<le> 0 then 1000 else limit)
      in bindM (pg_query env ''merger_deployment_outcomes'' (\<lambda>ts. limitRows limit
             (sort_key (\<lambda>r. - ow_observed_at r) (scanned env (pt_outcomes ts)))))
           (\<lambda>rows. retM (map (outcomeOf env) rows)))"

section \<open>Migrations\<close>

definition postgresMigrations :: "SchemaObject list" where
  \<comment> \<open>each created if it does not exist; the columns of a table are the fields of its rows\<close>
  "postgresMigrations =
     [Table ''merger_change_packets'', Column ''merger_change_packets'' ''head_sha'',
      Index ''merger_change_packets'' ''idx_merger_change_packets_repo_pr'',
      Index ''merger_change_packets'' ''idx_merger_change_packets_exact_head'',
      Table ''merger_event_log'',
      Index ''merger_event_log'' ''idx_merger_event_log_change_packet_id'',
      Index ''merger_event_log'' ''idx_merger_event_log_event_type'',
      Table ''merger_evidence_executions'',
      Index ''merger_evidence_executions'' ''idx_merger_evidence_executions_change_packet_id'',
      Table ''merger_evidence_audit_entries'',
      Index ''merger_evidence_audit_entries'' ''idx_merger_evidence_audit_entries_packet_time'',
      Table ''merger_deployment_outcomes'',
      Index ''merger_deployment_outcomes'' ''idx_merger_deployment_outcomes_observed_at'']"

definition owned :: "SchemaObject list \<Rightarrow> SchemaObject \<Rightarrow> bool" where
  "owned schema ob = (case ob of Table t \<Rightarrow> True | Column t _ \<Rightarrow> Table t \<in> set schema | Index t _ \<Rightarrow> Table t \<in> set schema)"

definition pg_ddl :: "'j PgEnv \<Rightarrow> SchemaObject \<Rightarrow> (('j, 'z) PgWorld_scheme, StoreError, unit) io" where
  "pg_ddl env ob w =
     (let failed = w\<lparr>pg_clock := Suc (pg_clock w)\<rparr>;
          done = failed\<lparr>pg_schema := List.insert ob (pg_schema w)\<rparr>
      in case pe_Fault env (pg_clock w) of
           None \<Rightarrow> if owned (pg_schema w) ob then (Inr (), done) else (Inl (StoreFailed ''relation does not exist''), failed)
         | Some (applied, e) \<Rightarrow> (Inl (StoreFailed e), if applied \<and> owned (pg_schema w) ob then done else failed))"

definition pg_Migrate :: "'j PgEnv \<Rightarrow> (('j, 'z) PgWorld_scheme, StoreError, unit) io" where
  "pg_Migrate env = forM (pg_ddl env) postgresMigrations"

definition postgresRepository :: "'j PgEnv \<Rightarrow> time \<Rightarrow> ('j, 'z) PgWorld_scheme Repository" where
  "postgresRepository env now =
     \<lparr>rp_SaveChangePacket = pg_SaveChangePacket env,
      rp_GetChangePacket = pg_GetChangePacket env,
      rp_FindLatestChangePacket = pg_FindLatestChangePacket env,
      rp_ListChangePackets = pg_ListChangePackets env,
      rp_SaveEvent = pg_SaveEvent env now,
      rp_UpsertEvidenceExecution = pg_UpsertEvidenceExecution env now,
      rp_ListEvidenceExecutions = pg_ListEvidenceExecutions env,
      rp_RecordEvidenceUpdate = pg_RecordEvidenceUpdate env now,
      rp_ListEvidenceAuditEntries = pg_ListEvidenceAuditEntries env,
      rp_SaveDeploymentOutcome = pg_SaveDeploymentOutcome env,
      rp_ListDeploymentOutcomes = pg_ListDeploymentOutcomes env\<rparr>"

section \<open>What the tables say\<close>

definition rowAt :: "('r \<Rightarrow> 'k) \<Rightarrow> 'r list \<Rightarrow> 'k \<rightharpoonup> 'r" where
  "rowAt key rows = map_of (map (\<lambda>r. (key r, r)) rows)"

definition evidenceKey :: "'j EvidenceRow \<Rightarrow> string \<times> string" where
  "evidenceKey r = (ew_change_packet_id r, ew_evidence_name r)"

definition tb_packets :: "'j PgEnv \<Rightarrow> 'j PgTables \<Rightarrow> string \<rightharpoonup> ChangePacket" where
  "tb_packets env ts i =
     Option.bind (rowAt kw_id (pt_packets ts) i)
       (\<lambda>r. case pe_UnPacket env (kw_payload r) of Inl _ \<Rightarrow> None | Inr p \<Rightarrow> Some p)"

definition tb_evidence :: "'j PgEnv \<Rightarrow> 'j PgTables \<Rightarrow> string \<Rightarrow> string \<rightharpoonup> EvidenceExecution" where
  "tb_evidence env ts i n = map_option (executionOf env) (rowAt evidenceKey (pt_evidence ts) (i, n))"

definition tb_audit :: "'j PgEnv \<Rightarrow> 'j PgTables \<Rightarrow> string \<Rightarrow> EvidenceAuditEntry list" where
  "tb_audit env ts i = map (auditOf env) (filter (\<lambda>r. aw_change_packet_id r = i) (pt_audit ts))"

definition tb_valid :: "'j PgEnv \<Rightarrow> 'j PgTables \<Rightarrow> bool" where
  "tb_valid env ts \<longleftrightarrow>
     distinct (map kw_id (pt_packets ts)) \<and> distinct (map evidenceKey (pt_evidence ts)) \<and> distinct (map aw_id (pt_audit ts))
     \<and> (\<forall>r \<in> set (pt_packets ts). \<exists>p. pe_UnPacket env (kw_payload r) = Inr p \<and> cp_ID p = kw_id r)"

text \<open>What is asked of the codecs and of a scan: values survive the encoding, and a scan visits every row once. The
  first law is what \<^verbatim>\<open>encoding/json\<close> gives for strings of valid UTF-8, in whose place it would otherwise write
  replacement characters; \<open>pg_codec\<close> asks it of every value.\<close>

definition pg_codec :: "'j PgEnv \<Rightarrow> bool" where
  "pg_codec env \<longleftrightarrow>
     (\<forall>p j. pe_Packet env p = Inr j \<longrightarrow> pe_UnPacket env j = Inr p)
     \<and> (\<forall>m j. pe_Metadata env m = Inr j \<longrightarrow> pe_UnMetadata env j = Inr m)
     \<and> (\<forall>n. mset (pe_Scan env n) = mset [0..<n])"

lemma rowAt_insertOrUpdate:
  assumes "\<And>r. conflict r \<longleftrightarrow> key r = key row" and "\<And>r. key (update r) = key r"
  shows "rowAt key (insertOrUpdate conflict update row rows) =
    (rowAt key rows)(key row \<mapsto> (case rowAt key rows (key row) of None \<Rightarrow> row | Some r \<Rightarrow> update r))"
proof (cases "list_ex conflict rows")
  case True
  have hit: "rowAt key (map (\<lambda>r. if conflict r then update r else r) rs) x =
      (if x = key row then map_option update (rowAt key rs x) else rowAt key rs x)" for x rs
    by (induction rs) (auto simp: rowAt_def assms)
  have "rowAt key rows (key row) \<noteq> None"
    using True by (auto simp: rowAt_def map_of_eq_None_iff list_ex_iff assms intro: rev_image_eqI)
  then show ?thesis using True by (auto simp: insertOrUpdate_def hit fun_eq_iff)
next
  case False
  then have "rowAt key rows (key row) = None"
    by (auto simp: rowAt_def map_of_eq_None_iff list_ex_iff assms)
  then show ?thesis using False
    by (auto simp: insertOrUpdate_def rowAt_def map_add_def fun_eq_iff split: option.splits)
qed

lemma keys_insertOrUpdate:
  assumes "\<And>r. conflict r \<longleftrightarrow> key r = key row" and "\<And>r. key (update r) = key r" and "distinct (map key rows)"
  shows "distinct (map key (insertOrUpdate conflict update row rows))"
proof -
  have "map key (map (\<lambda>r. if conflict r then update r else r) rows) = map key rows" by (simp add: assms)
  then show ?thesis using assms(3) by (auto simp: insertOrUpdate_def list_ex_iff assms(1) simp del: map_map)
qed

lemma rowAt_in_set: "distinct (map key rows) \<Longrightarrow> r \<in> set rows \<longleftrightarrow> rowAt key rows (key r) = Some r"
  by (auto simp: rowAt_def comp_def dest: map_of_SomeD)

lemma rowAt_key: "rowAt key rows x = Some r \<Longrightarrow> key r = x \<and> r \<in> set rows"
  by (auto simp: rowAt_def dest: map_of_SomeD)

lemma mset_scanned: "pg_codec env \<Longrightarrow> mset (scanned env rows) = mset rows"
proof -
  assume "pg_codec env"
  then have "mset (scanned env rows) = mset (map ((!) rows) [0..<length rows])"
    unfolding scanned_def mset_map pg_codec_def by simp
  then show ?thesis by (simp add: map_nth)
qed

section \<open>Effects on the tables\<close>

lemma pg_exec_cases:
  assumes "pg_exec env table statement w = (r, w')"
  shows "r \<noteq> Inr () \<and> pg_tables w' = pg_tables w \<or> (\<exists>ts. statement (pg_tables w) = Inr ts \<and> pg_tables w' = ts)"
  using assms by (auto simp: pg_exec_def Let_def split: option.splits sum.splits prod.splits if_splits)

lemma pg_exec_ok:
  assumes "pg_exec env table statement w = (Inr (), w')"
  shows "statement (pg_tables w) = Inr (pg_tables w')" "Table table \<in> set (pg_schema w)" "pg_schema w' = pg_schema w"
  using assms by (auto simp: pg_exec_def Let_def split: option.splits sum.splits prod.splits if_splits)

lemma pg_query_cases:
  assumes "pg_query env table select w = (r, w')"
  shows "pg_tables w' = pg_tables w \<and> (\<forall>a. r = Inr a \<longrightarrow> a = select (pg_tables w))"
  using assms by (auto simp: pg_query_def Let_def split: option.splits if_splits)

lemma pg_transaction_cases:
  assumes "pg_transaction env body w = (r, w')"
  shows "r \<noteq> Inr () \<and> pg_tables w' = pg_tables w
    \<or> (\<exists>w2. body (w\<lparr>pg_clock := Suc (pg_clock w)\<rparr>) = (Inr (), w2) \<and> pg_tables w' = pg_tables w2 \<and> pg_schema w' = pg_schema w2)"
  using assms
  by (auto simp: pg_transaction_def pg_call_def Let_def split: option.splits sum.splits prod.splits if_splits)

lemma encoded_ok: "encoded x w = (Inr a, w') \<longleftrightarrow> x = Inr a \<and> w' = w"
  by (cases x) (auto simp: encoded_def mapError_def)

text \<open>Several statements that cannot be refused.\<close>

lemma pg_forM_ok:
  assumes "forM (\<lambda>q. pg_exec env table (\<lambda>ts. Inr (f q ts))) qs w = (Inr (), w')"
  shows "pg_tables w' = fold f qs (pg_tables w) \<and> pg_schema w' = pg_schema w"
  using assms
proof (induction qs arbitrary: w)
  case (Cons q qs)
  then obtain w1 where e: "pg_exec env table (\<lambda>ts. Inr (f q ts)) w = (Inr (), w1)"
    and rest: "forM (\<lambda>q. pg_exec env table (\<lambda>ts. Inr (f q ts))) qs w1 = (Inr (), w')" by (auto simp: bindM_ok)
  show ?case using Cons.IH [OF rest] pg_exec_ok [OF e] by simp
qed simp

text \<open>Recording an update.\<close>

lemma executionOf_row:
  assumes "pg_codec env" and "pe_Metadata env (ee_Metadata e) = Inr j"
  shows "executionOf env (executionRow env now e j) = e\<lparr>ee_UpdatedAt := ew_updated_at (executionRow env now e j)\<rparr>"
  using assms by (simp add: executionOf_def executionRow_def coalesce_def readMetadata_def pg_codec_def)

lemma upsertExecution_effect:
  assumes "upsertExecution row ts = Inr ts'"
  shows "rowAt evidenceKey (pt_evidence ts') = (rowAt evidenceKey (pt_evidence ts))(evidenceKey row \<mapsto> row)"
    and "tb_valid env ts \<Longrightarrow> tb_valid env ts'" and "pt_packets ts' = pt_packets ts" and "pt_audit ts' = pt_audit ts"
proof -
  let ?u = "\<lambda>r. r\<lparr>ew_evidence_type := ew_evidence_type row, ew_status := ew_status row, ew_required := ew_required row,
          ew_summary := ew_summary row, ew_details_url := ew_details_url row, ew_updated_by := ew_updated_by row,
          ew_metadata := ew_metadata row, ew_updated_at := ew_updated_at row\<rparr>"
  have ts': "ts' = ts\<lparr>pt_evidence := insertOrUpdate (sameEvidence row) ?u row (pt_evidence ts)\<rparr>"
    using assms by (simp add: upsertExecution_def)
  then show "pt_packets ts' = pt_packets ts" "pt_audit ts' = pt_audit ts" by simp_all
  have c: "sameEvidence row r \<longleftrightarrow> evidenceKey r = evidenceKey row" for r by (simp add: sameEvidence_def evidenceKey_def)
  have k: "evidenceKey (?u r) = evidenceKey r" for r by (simp add: evidenceKey_def)
  have u: "?u r = row" if "evidenceKey r = evidenceKey row" for r
    using that by (cases r; cases row) (simp add: evidenceKey_def)
  have "(case rowAt evidenceKey (pt_evidence ts) (evidenceKey row) of None \<Rightarrow> row | Some r \<Rightarrow> ?u r) = row"
    using u rowAt_key by (fastforce split: option.splits)
  then show "rowAt evidenceKey (pt_evidence ts') = (rowAt evidenceKey (pt_evidence ts))(evidenceKey row \<mapsto> row)"
    unfolding ts' using rowAt_insertOrUpdate [of "sameEvidence row" evidenceKey row ?u, OF c k] by simp
  show "tb_valid env ts'" if "tb_valid env ts"
    using that keys_insertOrUpdate [of "sameEvidence row" evidenceKey row ?u, OF c k]
    by (simp add: tb_valid_def ts')
qed

lemma tb_evidence_put:
  assumes "rowAt evidenceKey (pt_evidence ts') = (rowAt evidenceKey (pt_evidence ts))(evidenceKey row \<mapsto> row')"
  shows "tb_evidence env ts' = (tb_evidence env ts)(ew_change_packet_id row :=
    (tb_evidence env ts (ew_change_packet_id row))(ew_evidence_name row \<mapsto> executionOf env row'))"
  by (auto simp: tb_evidence_def assms evidenceKey_def fun_eq_iff)

lemma insertAudit_effect:
  assumes "insertAudit row ts = Inr ts'"
  shows "ts' = ts\<lparr>pt_audit := pt_audit ts @ [row]\<rparr>" and "tb_valid env ts \<Longrightarrow> tb_valid env ts'"
  using assms by (auto simp: insertAudit_def insertNew_def bindE_Inr list_ex_iff tb_valid_def split: if_splits) metis

lemma pg_record_effect:
  assumes codec: "pg_codec env" and v: "tb_valid env (pg_tables w)"
    and run: "pg_RecordEvidenceUpdate env now e a w = (r, w')"
  shows "r \<noteq> Inr () \<and> pg_tables w' = pg_tables w
    \<or> (\<exists>e' a'. tb_valid env (pg_tables w') \<and> tb_packets env (pg_tables w') = tb_packets env (pg_tables w)
         \<and> tb_evidence env (pg_tables w') = (tb_evidence env (pg_tables w))(ee_ChangePacketID e :=
              (tb_evidence env (pg_tables w) (ee_ChangePacketID e))(ee_Name e \<mapsto> e'))
         \<and> e' = e\<lparr>ee_UpdatedAt := ee_UpdatedAt e'\<rparr>
         \<and> tb_audit env (pg_tables w') = (tb_audit env (pg_tables w))(ae_ChangePacketID a :=
              tb_audit env (pg_tables w) (ae_ChangePacketID a) @ [a'])
         \<and> a' = a\<lparr>ae_Metadata := ae_Metadata a', ae_OccurredAt := ae_OccurredAt a'\<rparr>)"
  using pg_transaction_cases [OF run [unfolded pg_RecordEvidenceUpdate_def]]
proof (elim disjE exE conjE)
  fix w2
  assume body: "bindM (pg_UpsertEvidenceExecution env now e) (\<lambda>_. bindM (encoded (pe_Metadata env (ae_Metadata a))) (\<lambda>metadata.
      pg_exec env ''merger_evidence_audit_entries'' (insertAudit (auditRow env a metadata))))
      (w\<lparr>pg_clock := Suc (pg_clock w)\<rparr>) = (Inr (), w2)" and w': "pg_tables w' = pg_tables w2"
  obtain j m w1 where j: "pe_Metadata env (ee_Metadata e) = Inr j"
    and up: "pg_exec env ''merger_evidence_executions'' (upsertExecution (executionRow env now e j))
      (w\<lparr>pg_clock := Suc (pg_clock w)\<rparr>) = (Inr (), w1)"
    and au: "pg_exec env ''merger_evidence_audit_entries'' (insertAudit (auditRow env a m)) w1 = (Inr (), w2)"
    using body by (auto simp: pg_UpsertEvidenceExecution_def bindM_ok encoded_ok)
  let ?row = "executionRow env now e j" and ?ts = "pg_tables w"
  note w1 = upsertExecution_effect [OF pg_exec_ok(1) [OF up, simplified]]
  note i = insertAudit_effect [OF pg_exec_ok(1) [OF au]]
  have "tb_evidence env (pg_tables w2) = (tb_evidence env ?ts)(ee_ChangePacketID e :=
      (tb_evidence env ?ts (ee_ChangePacketID e))(ee_Name e \<mapsto> executionOf env ?row))"
    using tb_evidence_put [of "pg_tables w2" ?ts ?row ?row] w1(1) i(1) by (simp add: executionRow_def)
  moreover have "tb_audit env (pg_tables w2) = (tb_audit env ?ts)(ae_ChangePacketID a :=
      tb_audit env ?ts (ae_ChangePacketID a) @ [auditOf env (auditRow env a m)])"
    using i(1) w1(4) by (auto simp: tb_audit_def auditRow_def fun_eq_iff)
  moreover have "auditOf env (auditRow env a m) = a\<lparr>ae_Metadata := ae_Metadata (auditOf env (auditRow env a m)),
      ae_OccurredAt := ae_OccurredAt (auditOf env (auditRow env a m))\<rparr>"
    by (simp add: auditOf_def auditRow_def)
  moreover have "executionOf env ?row = e\<lparr>ee_UpdatedAt := ee_UpdatedAt (executionOf env ?row)\<rparr>"
    by (simp add: executionOf_row [OF codec j])
  moreover have "tb_packets env (pg_tables w2) = tb_packets env ?ts"
    using i(1) w1(3) by (simp add: tb_packets_def fun_eq_iff)
  ultimately show ?thesis using i(2) [OF w1(2) [OF v]] w' by metis
qed blast

text \<open>Saving a packet.\<close>

lemma upsertRequirement_effect:
  fixes env packet q ts
  defines "row \<equiv> requirementRow env packet q"
  defines "ts' \<equiv> ts\<lparr>pt_evidence := insertOrUpdate (sameEvidence row)
       (\<lambda>r. r\<lparr>ew_evidence_type := ew_evidence_type row, ew_required := ew_required row\<rparr>) row (pt_evidence ts)\<rparr>"
  shows "tb_valid env ts \<Longrightarrow> tb_valid env ts'"
    and "ensured (tb_evidence env ts (cp_ID packet)) (tb_evidence env ts' (cp_ID packet)) [q]"
    and "i \<noteq> cp_ID packet \<Longrightarrow> tb_evidence env ts' i = tb_evidence env ts i"
proof -
  let ?u = "\<lambda>r. r\<lparr>ew_evidence_type := ew_evidence_type row, ew_required := ew_required row\<rparr>"
  have c: "sameEvidence row r \<longleftrightarrow> evidenceKey r = evidenceKey row" for r by (simp add: sameEvidence_def evidenceKey_def)
  have k: "evidenceKey (?u r) = evidenceKey r" for r by (simp add: evidenceKey_def)
  define row' where "row' = (case rowAt evidenceKey (pt_evidence ts) (evidenceKey row) of None \<Rightarrow> row | Some r \<Rightarrow> ?u r)"
  have "rowAt evidenceKey (pt_evidence ts') = (rowAt evidenceKey (pt_evidence ts))(evidenceKey row \<mapsto> row')"
    unfolding ts'_def row'_def using rowAt_insertOrUpdate [of "sameEvidence row" evidenceKey row ?u, OF c k] by simp
  from tb_evidence_put [OF this, of env]
  have put: "tb_evidence env ts' = (tb_evidence env ts)(cp_ID packet :=
      (tb_evidence env ts (cp_ID packet))(er_Name q \<mapsto> executionOf env row'))"
    by (simp add: row_def requirementRow_def)
  have key: "evidenceKey row = (cp_ID packet, er_Name q)" by (simp add: row_def requirementRow_def evidenceKey_def)
  have "ee_Status (executionOf env row') = ee_Status e \<and> ee_Name (executionOf env row') = ee_Name e"
    if "tb_evidence env ts (cp_ID packet) (er_Name q) = Some e" for e
    using that by (auto simp: tb_evidence_def row'_def key executionOf_def)
  moreover have "ee_Status (executionOf env row') = EvidencePending"
    if "tb_evidence env ts (cp_ID packet) (er_Name q) = None"
    using that by (auto simp: tb_evidence_def row'_def key executionOf_def) (simp add: row_def requirementRow_def)
  ultimately show "ensured (tb_evidence env ts (cp_ID packet)) (tb_evidence env ts' (cp_ID packet)) [q]"
    unfolding put by (auto simp: ensured_def)
  show "tb_evidence env ts' i = tb_evidence env ts i" if "i \<noteq> cp_ID packet" using that by (simp add: put)
  show "tb_valid env ts'" if "tb_valid env ts"
    using that keys_insertOrUpdate [of "sameEvidence row" evidenceKey row ?u, OF c k]
    by (simp add: tb_valid_def ts'_def)
qed

lemma requirements_effect:
  fixes env packet
  defines "put \<equiv> \<lambda>q ts. ts\<lparr>pt_evidence := insertOrUpdate (sameEvidence (requirementRow env packet q))
      (\<lambda>r. r\<lparr>ew_evidence_type := ew_evidence_type (requirementRow env packet q),
         ew_required := ew_required (requirementRow env packet q)\<rparr>) (requirementRow env packet q) (pt_evidence ts)\<rparr>"
  assumes "tb_valid env ts"
  shows "tb_valid env (fold put qs ts)
    \<and> ensured (tb_evidence env ts (cp_ID packet)) (tb_evidence env (fold put qs ts) (cp_ID packet)) qs
    \<and> (\<forall>i. i \<noteq> cp_ID packet \<longrightarrow> tb_evidence env (fold put qs ts) i = tb_evidence env ts i)
    \<and> pt_packets (fold put qs ts) = pt_packets ts \<and> pt_audit (fold put qs ts) = pt_audit ts"
  using assms(2)
proof (induction qs arbitrary: ts)
  case Nil
  then show ?case by (simp add: ensured_refl)
next
  case (Cons q qs)
  have one: "tb_valid env (put q ts)" "ensured (tb_evidence env ts (cp_ID packet)) (tb_evidence env (put q ts) (cp_ID packet)) [q]"
    "\<And>i. i \<noteq> cp_ID packet \<Longrightarrow> tb_evidence env (put q ts) i = tb_evidence env ts i"
    "pt_packets (put q ts) = pt_packets ts" "pt_audit (put q ts) = pt_audit ts"
    using upsertRequirement_effect [where env = env and ts = ts and packet = packet and q = q] Cons.prems
    by (simp_all add: put_def)
  note IH = Cons.IH [OF one(1)]
  have "ensured (tb_evidence env ts (cp_ID packet)) (tb_evidence env (fold put qs (put q ts)) (cp_ID packet)) ([q] @ qs)"
    using ensured_trans [OF one(2)] IH by blast
  then show ?case using IH one by simp
qed

lemma upsertPacket_effect:
  assumes codec: "pg_codec env" and v: "tb_valid env ts" and j: "pe_Packet env packet = Inr j"
    and up: "upsertPacket (packetRow env packet j) ts = Inr ts'"
  shows "tb_valid env ts'" "tb_packets env ts' = (tb_packets env ts)(cp_ID packet \<mapsto> packet)"
    "pt_evidence ts' = pt_evidence ts" "pt_audit ts' = pt_audit ts"
proof -
  let ?row = "packetRow env packet j"
  let ?u = "\<lambda>r. r\<lparr>kw_head_sha := kw_head_sha ?row, kw_merge_lane := kw_merge_lane ?row, kw_risk_score := kw_risk_score ?row,
    kw_decision_status := kw_decision_status ?row, kw_payload := kw_payload ?row, kw_updated_at := kw_updated_at ?row\<rparr>"
  let ?c = "\<lambda>r. kw_id r = kw_id ?row"
  have ts': "ts' = ts\<lparr>pt_packets := insertOrUpdate ?c ?u ?row (pt_packets ts)\<rparr>"
    using up by (auto simp: upsertPacket_def bindE_Inr)
  then show "pt_evidence ts' = pt_evidence ts" "pt_audit ts' = pt_audit ts" by simp_all
  have id: "kw_id ?row = cp_ID packet" "kw_payload ?row = j" by (simp_all add: packetRow_def)
  have dec: "pe_UnPacket env j = Inr packet" using codec j by (simp add: pg_codec_def)
  have at: "rowAt kw_id (pt_packets ts') = (rowAt kw_id (pt_packets ts))(cp_ID packet \<mapsto>
      (case rowAt kw_id (pt_packets ts) (cp_ID packet) of None \<Rightarrow> ?row | Some r \<Rightarrow> ?u r))"
    unfolding ts' using rowAt_insertOrUpdate [of ?c kw_id ?row ?u "pt_packets ts"] id by simp
  show "tb_packets env ts' = (tb_packets env ts)(cp_ID packet \<mapsto> packet)"
    by (auto simp: tb_packets_def at fun_eq_iff id dec split: option.splits)
  have "\<exists>p. pe_UnPacket env (kw_payload r) = Inr p \<and> cp_ID p = kw_id r" if "r \<in> set (pt_packets ts')" for r
    using that v dec unfolding ts' by (auto simp: insertOrUpdate_def tb_valid_def id split: if_splits)
  moreover have "distinct (map kw_id (pt_packets ts'))"
    unfolding ts' using keys_insertOrUpdate [of ?c kw_id ?row ?u "pt_packets ts"] v by (simp add: tb_valid_def)
  ultimately show "tb_valid env ts'" using v by (simp add: tb_valid_def ts')
qed

lemma pg_save_effect:
  assumes codec: "pg_codec env" and v: "tb_valid env (pg_tables w)" and run: "pg_SaveChangePacket env p w = (r, w')"
  shows "r \<noteq> Inr () \<and> pg_tables w' = pg_tables w
    \<or> Table ''merger_change_packets'' \<in> set (pg_schema w') \<and> tb_valid env (pg_tables w')
      \<and> tb_packets env (pg_tables w') = (tb_packets env (pg_tables w))(cp_ID p \<mapsto> p)
      \<and> tb_audit env (pg_tables w') = tb_audit env (pg_tables w)
      \<and> (\<forall>i. i \<noteq> cp_ID p \<longrightarrow> tb_evidence env (pg_tables w') i = tb_evidence env (pg_tables w) i)
      \<and> ensured (tb_evidence env (pg_tables w) (cp_ID p)) (tb_evidence env (pg_tables w') (cp_ID p)) (cp_Evidence p)"
proof (cases "pe_Packet env p")
  case (Inl e)
  then show ?thesis using run by (auto simp: pg_SaveChangePacket_def bindM_def encoded_def mapError_def)
next
  case (Inr j)
  then have "pg_transaction env (bindM (pg_exec env ''merger_change_packets'' (upsertPacket (packetRow env p j))) (\<lambda>_.
      syncEvidenceRequirements env p)) w = (r, w')"
    using run by (simp add: pg_SaveChangePacket_def bindM_def encoded_def mapError_def)
  from pg_transaction_cases [OF this] show ?thesis
  proof (elim disjE exE conjE)
    fix w2
    assume body: "bindM (pg_exec env ''merger_change_packets'' (upsertPacket (packetRow env p j))) (\<lambda>_.
        syncEvidenceRequirements env p) (w\<lparr>pg_clock := Suc (pg_clock w)\<rparr>) = (Inr (), w2)"
      and w': "pg_tables w' = pg_tables w2" "pg_schema w' = pg_schema w2"
    obtain w1 where up: "pg_exec env ''merger_change_packets'' (upsertPacket (packetRow env p j))
        (w\<lparr>pg_clock := Suc (pg_clock w)\<rparr>) = (Inr (), w1)" and sync: "syncEvidenceRequirements env p w1 = (Inr (), w2)"
      using body by (auto simp: bindM_ok)
    note u = upsertPacket_effect [OF codec v Inr pg_exec_ok(1) [OF up, simplified]]
    note s = pg_forM_ok [OF sync [unfolded syncEvidenceRequirements_def upsertRequirement_def [abs_def]]]
    note q = requirements_effect [OF u(1), of p "cp_Evidence p"]
    have ev: "tb_evidence env (pg_tables w1) = tb_evidence env (pg_tables w)"
      using u(3) by (simp add: tb_evidence_def fun_eq_iff)
    have "tb_packets env (pg_tables w2) = tb_packets env (pg_tables w1)" "tb_audit env (pg_tables w2) = tb_audit env (pg_tables w)"
      using s q u(4) by (simp_all add: tb_packets_def tb_audit_def fun_eq_iff)
    moreover have "Table ''merger_change_packets'' \<in> set (pg_schema w')"
      using pg_exec_ok(2,3) [OF up] s w'(2) by simp
    ultimately show ?thesis using s q u(2) w'(1) ev by simp
  qed blast
qed

text \<open>Reading.\<close>

lemma firstPacket_reads: "snd (firstPacket env rows w) = w"
  by (simp add: firstPacket_def encoded_def split: list.splits)

lemma pg_get_effect:
  assumes codec: "pg_codec env" and v: "tb_valid env (pg_tables w)" and run: "pg_GetChangePacket env i w = (r, w')"
  shows "pg_tables w' = pg_tables w \<and> (\<forall>p. r = Inr p \<longrightarrow> tb_packets env (pg_tables w) i = Some p)"
proof -
  let ?rows = "filter (\<lambda>r. kw_id r = i) (scanned env (pt_packets (pg_tables w)))"
  obtain rq w1 where q: "pg_query env ''merger_change_packets'' (\<lambda>ts. filter (\<lambda>r. kw_id r = i) (scanned env (pt_packets ts))) w
      = (rq, w1)" by fastforce
  note c = pg_query_cases [OF q]
  have "pg_tables w' = pg_tables w1"
    using run q firstPacket_reads [of env _ w1] by (cases rq) (auto simp: pg_GetChangePacket_def, metis snd_conv)
  moreover have "tb_packets env (pg_tables w) i = Some p" if "r = Inr p" for p
  proof -
    have "firstPacket env ?rows w1 = (Inr p, w')" using run q c that by (cases rq) (auto simp: pg_GetChangePacket_def)
    then obtain row rest where rows: "?rows = row # rest" and dec: "pe_UnPacket env (kw_payload row) = Inr p"
      by (auto simp: firstPacket_def encoded_ok split: list.splits)
    have "row \<in> set ?rows" using rows by simp
    then have "row \<in> set (pt_packets (pg_tables w))" "kw_id row = i"
      using mset_scanned [OF codec, of "pt_packets (pg_tables w)"] by (auto dest: mset_eq_setD)
    then have "rowAt kw_id (pt_packets (pg_tables w)) i = Some row"
      using rowAt_in_set [of kw_id "pt_packets (pg_tables w)" row] v by (simp add: tb_valid_def)
    then show ?thesis using dec by (simp add: tb_packets_def)
  qed
  ultimately show ?thesis using c by simp
qed

lemma pg_list_effect:
  assumes codec: "pg_codec env" and v: "tb_valid env (pg_tables w)" and run: "pg_ListEvidenceExecutions env i w = (r, w')"
  shows "pg_tables w' = pg_tables w \<and> (\<forall>es. r = Inr es \<longrightarrow> distinct (map ee_Name es)
    \<and> (\<forall>e. e \<in> set es \<longleftrightarrow> tb_evidence env (pg_tables w) i (ee_Name e) = Some e))"
proof -
  let ?all = "pt_evidence (pg_tables w)"
  let ?rows = "sort_key (\<lambda>r. pe_Collate env (ew_evidence_name r)) (filter (\<lambda>r. ew_change_packet_id r = i) (scanned env ?all))"
  obtain rq w1 where q: "pg_query env ''merger_evidence_executions'' (\<lambda>ts. sort_key (\<lambda>r. pe_Collate env (ew_evidence_name r))
      (filter (\<lambda>r. ew_change_packet_id r = i) (scanned env (pt_evidence ts)))) w = (rq, w1)" by fastforce
  note c = pg_query_cases [OF q]
  have w': "w' = w1" using run q by (cases rq) (auto simp: pg_ListEvidenceExecutions_def)
  have ms: "mset ?rows = mset (filter (\<lambda>r. ew_change_packet_id r = i) ?all)"
    using mset_scanned [OF codec, of ?all] by (simp add: mset_filter)
  have d: "distinct (map evidenceKey ?all)" using v by (simp add: tb_valid_def)
  have "distinct (map evidenceKey ?rows)"
    using distinct_map_filter [OF d, of "\<lambda>r. ew_change_packet_id r = i"] ms
    by (metis mset_eq_imp_distinct_iff mset_map)
  moreover have mem: "row \<in> set ?rows \<longleftrightarrow> row \<in> set ?all \<and> ew_change_packet_id row = i" for row
    using mset_eq_setD [OF ms] by auto
  ultimately have "distinct (map ew_evidence_name ?rows)"
    by (auto simp: distinct_map inj_on_def evidenceKey_def)
  then have names: "distinct (map ee_Name (map (executionOf env) ?rows))" by (simp add: executionOf_def comp_def)
  have "e \<in> set (map (executionOf env) ?rows) \<longleftrightarrow> tb_evidence env (pg_tables w) i (ee_Name e) = Some e" for e
  proof
    assume "e \<in> set (map (executionOf env) ?rows)"
    then obtain row where row: "e = executionOf env row" "row \<in> set ?all" "ew_change_packet_id row = i" using mem by auto
    then have "rowAt evidenceKey ?all (i, ew_evidence_name row) = Some row"
      using rowAt_in_set [OF d, of row] by (simp add: evidenceKey_def)
    then show "tb_evidence env (pg_tables w) i (ee_Name e) = Some e" using row by (simp add: tb_evidence_def executionOf_def)
  next
    assume "tb_evidence env (pg_tables w) i (ee_Name e) = Some e"
    then obtain row where row: "rowAt evidenceKey ?all (i, ee_Name e) = Some row" "executionOf env row = e"
      by (auto simp: tb_evidence_def)
    then have "row \<in> set ?rows" using rowAt_key [OF row(1)] mem by (auto simp: evidenceKey_def)
    then show "e \<in> set (map (executionOf env) ?rows)" using row(2) by (metis image_eqI list.set_map)
  qed
  moreover have "es = map (executionOf env) ?rows" if "r = Inr es" for es
    using run q c that by (cases rq) (auto simp: pg_ListEvidenceExecutions_def)
  ultimately show ?thesis using c w' names by blast
qed

lemma insertOutcome_effect:
  "insertOutcome row ts = Inr ts' \<Longrightarrow> pt_packets ts' = pt_packets ts \<and> pt_evidence ts' = pt_evidence ts \<and> pt_audit ts' = pt_audit ts"
  by (auto simp: insertOutcome_def bindE_Inr)

lemma pg_quiet_effects:
  "pg_ListEvidenceAuditEntries env i limit w = (ra, w') \<Longrightarrow> pg_tables w' = pg_tables w"
  "pg_SaveDeploymentOutcome env d w = (r, w') \<Longrightarrow>
     pt_packets (pg_tables w') = pt_packets (pg_tables w) \<and> pt_evidence (pg_tables w') = pt_evidence (pg_tables w)
     \<and> pt_audit (pg_tables w') = pt_audit (pg_tables w)"
proof -
  show "pg_tables w' = pg_tables w" if "pg_ListEvidenceAuditEntries env i limit w = (ra, w')"
    using that by (auto simp: pg_ListEvidenceAuditEntries_def Let_def bindM_def split: prod.splits sum.splits
        dest!: pg_query_cases)
  show "pt_packets (pg_tables w') = pt_packets (pg_tables w) \<and> pt_evidence (pg_tables w') = pt_evidence (pg_tables w)
     \<and> pt_audit (pg_tables w') = pt_audit (pg_tables w)" if "pg_SaveDeploymentOutcome env d w = (r, w')"
    using that by (auto simp: pg_SaveDeploymentOutcome_def bindM_def encoded_def
        split: prod.splits sum.splits dest!: pg_exec_cases insertOutcome_effect)
qed

section \<open>The repository meets the contract\<close>

lemma tb_packets_Some:
  "tb_packets env ts i = Some p \<longleftrightarrow> (\<exists>row. rowAt kw_id (pt_packets ts) i = Some row \<and> pe_UnPacket env (kw_payload row) = Inr p)"
  by (cases "rowAt kw_id (pt_packets ts) i") (auto simp: tb_packets_def split: sum.splits)

lemma tb_same:
  assumes "pt_packets ts' = pt_packets ts" and "pt_evidence ts' = pt_evidence ts" and "pt_audit ts' = pt_audit ts"
  shows "tb_packets env ts' = tb_packets env ts" "tb_evidence env ts' = tb_evidence env ts" "tb_audit env ts' = tb_audit env ts"
    "tb_valid env ts' = tb_valid env ts"
  using assms by (simp_all add: tb_packets_def tb_evidence_def tb_audit_def tb_valid_def fun_eq_iff)

interpretation postgres: durable_repository "postgresRepository env now" "\<lambda>w. pg_codec env \<and> tb_valid env (pg_tables w)"
    "\<lambda>w. tb_packets env (pg_tables w)" "\<lambda>w. tb_evidence env (pg_tables w)" "\<lambda>w. tb_audit env (pg_tables w)" for env now
proof (unfold_locales, goal_cases)
  case (1 w i n e)
  then show ?case by (auto simp: tb_evidence_def executionOf_def evidenceKey_def dest!: rowAt_key)
next
  case (2 w i p)
  then obtain row where row: "rowAt kw_id (pt_packets (pg_tables w)) i = Some row" "pe_UnPacket env (kw_payload row) = Inr p"
    by (auto simp: tb_packets_Some)
  then show ?case using 2(1) rowAt_key [OF row(1)] by (auto simp: tb_valid_def)
next
  case (3 w i rg w')
  then show ?case using pg_get_effect [of env w i rg w'] by (auto simp: unchanged_def postgresRepository_def)
next
  case (4 w i rl w')
  then show ?case using pg_list_effect [of env w i rl w'] by (auto simp: unchanged_def postgresRepository_def)
next
  case (5 w e a r w')
  then show ?case using pg_record_effect [of env w now e a r w'] by (auto simp: unchanged_def postgresRepository_def)
next
  case (6 w p r w')
  then show ?case using pg_save_effect [of env w p r w'] by (auto simp: unchanged_def postgresRepository_def)
next
  case (7 w i limit ra w')
  then show ?case
    using pg_quiet_effects(1) [of env i limit w ra w'] by (auto simp: unchanged_def postgresRepository_def)
next
  case (8 w d r w')
  then show ?case
    using pg_quiet_effects(2) [of env d w r w'] tb_same [of "pg_tables w'" "pg_tables w" env]
    by (auto simp: unchanged_def postgresRepository_def)
qed

section \<open>The service on PostgreSQL\<close>

record ('j, 'g) PgServiceWorld = "'j PgWorld" +
  pw_GitHub :: 'g

definition pgOnGitHub :: "('g, 'e, 'a) io \<Rightarrow> (('j, 'g) PgServiceWorld, 'e, 'a) io" where
  "pgOnGitHub m w = (case m (pw_GitHub w) of (r, g) \<Rightarrow> (r, w\<lparr>pw_GitHub := g\<rparr>))"

definition pgClient :: "'g CheckRunPublisher \<Rightarrow> ('j, 'g) PgServiceWorld CheckRunPublisher" where
  "pgClient c =
     \<lparr>cc_PublishCheckRun = (\<lambda>input. pgOnGitHub (cc_PublishCheckRun c input)),
      cc_ForInstallation = map_option (\<lambda>f n input. pgOnGitHub (f n input)) (cc_ForInstallation c)\<rparr>"

definition pgPublisher :: "'g GitHubCheckPublisher option \<Rightarrow> ('j, 'g) PgServiceWorld CheckPublisher option" where
  "pgPublisher publisher = map_option (\<lambda>p. PublishWithEvidence (map_option pgClient p)) publisher"

definition postgresService ::
  "'j PgEnv \<Rightarrow> time \<Rightarrow> (ChangePacket \<Rightarrow> string + MergeLane) option \<Rightarrow> 'g GitHubCheckPublisher option
     \<Rightarrow> ('j, 'g) PgServiceWorld Service" where
  "postgresService env now assigner publisher =
     serviceWith (postgresRepository env now) assigner (pgPublisher publisher)"

definition emptyDatabase :: "SchemaObject list \<Rightarrow> 'g \<Rightarrow> ('j, 'g) PgServiceWorld" where
  "emptyDatabase schema g =
     \<lparr>pg_schema = schema,
      pg_tables = \<lparr>pt_packets = [], pt_events = [], pt_evidence = [], pt_audit = [], pt_outcomes = []\<rparr>,
      pg_clock = 0, pw_GitHub = g\<rparr>"

lemma pgPublisher_frame:
  assumes "pgPublisher publisher = Some publish" and "publish p es w = (r, w')"
  shows "pg_tables w' = pg_tables w"
proof -
  have "pg_tables w' = pg_tables w" if "pgOnGitHub m w = (r, w')" for m :: "(_, string, unit) io"
    using that by (auto simp: pgOnGitHub_def split: prod.splits)
  then show ?thesis
    using assms by (auto simp: pgPublisher_def PublishWithEvidence_def boundClient_def pgClient_def Let_def
        split: option.splits if_splits)
qed

interpretation pg_service: durable_service "postgresRepository env now" "\<lambda>w. pg_codec env \<and> tb_valid env (pg_tables w)"
    "\<lambda>w. tb_packets env (pg_tables w)" "\<lambda>w. tb_evidence env (pg_tables w)" "\<lambda>w. tb_audit env (pg_tables w)"
    "pgPublisher publisher" for env now and publisher :: "'g GitHubCheckPublisher option"
  by unfold_locales (auto dest: pgPublisher_frame)

lemma emptyDatabase_facts:
  "tb_valid env (pg_tables (emptyDatabase schema g))"
  "trail (tb_evidence env (pg_tables (emptyDatabase schema g))) (tb_audit env (pg_tables (emptyDatabase schema g)))"
  by (simp_all add: emptyDatabase_def tb_valid_def tb_evidence_def tb_audit_def rowAt_def trail_def entriesFor_def
      recordedStatus_def)

section \<open>Properties\<close>

text \<open>
  C22: evidence on PostgreSQL is as durable as in memory, whatever fails. In every database that a service can
  reach from an empty one, where any statement or commit may fail, before or after it took effect, the
  audit entries of each packet and evidence name replay step by step along the life cycle to the recorded
  status. From then on, audit entries are never removed, changed or reordered, and satisfied or waived evidence
  keeps its status.
\<close>

theorem pg_evidence_durable:
  fixes env now assigner publisher
  defines "step \<equiv> service_step (postgresService env now assigner publisher)"
  assumes "pg_codec env" and "step\<^sup>*\<^sup>* (emptyDatabase schema g) w" and "step\<^sup>*\<^sup>* w w'"
  shows "replay EvidencePending (entriesFor n (tb_audit env (pg_tables w) i)) = Some (recordedStatus (tb_evidence env (pg_tables w) i) n)
    \<and> prefix (tb_audit env (pg_tables w) i) (tb_audit env (pg_tables w') i)
    \<and> (settled (recordedStatus (tb_evidence env (pg_tables w) i) n) \<longrightarrow>
         recordedStatus (tb_evidence env (pg_tables w') i) n = recordedStatus (tb_evidence env (pg_tables w) i) n)"
proof -
  note steps = assms(3,4) [unfolded step_def postgresService_def]
  have w: "pg_codec env \<and> tb_valid env (pg_tables w)" "trail (tb_evidence env (pg_tables w)) (tb_audit env (pg_tables w))"
    using pg_service.steps_safe [OF steps(1)] assms(2) emptyDatabase_facts [of env schema g] by simp_all
  then show ?thesis using pg_service.steps_safe [OF steps(2) w(1)] by (simp add: trail_def)
qed


section \<open>Migrations are complete and can be repeated\<close>

lemma pg_ddl_ok:
  assumes "pg_ddl env ob w = (Inr (), w')"
  shows "pg_schema w' = List.insert ob (pg_schema w)" "pg_tables w' = pg_tables w"
  using assms by (auto simp: pg_ddl_def Let_def split: option.splits if_splits)

lemma pg_migrations_ok:
  assumes "forM (pg_ddl env) obs w = (Inr (), w')"
  shows "pg_schema w' = fold List.insert obs (pg_schema w) \<and> pg_tables w' = pg_tables w"
  using assms
proof (induction obs arbitrary: w)
  case (Cons ob obs)
  then obtain w1 where d: "pg_ddl env ob w = (Inr (), w1)" and rest: "forM (pg_ddl env) obs w1 = (Inr (), w')"
    by (auto simp: bindM_ok)
  show ?case using Cons.IH [OF rest] pg_ddl_ok [OF d] by simp
qed simp

lemma set_fold_insert: "set (fold List.insert obs xs) = set xs \<union> set obs"
  by (induction obs arbitrary: xs) auto

lemma fold_insert_same: "set obs \<subseteq> set xs \<Longrightarrow> fold List.insert obs xs = xs"
  by (induction obs) auto

lemma migrated_twice:
  assumes "pg_Migrate env w = (Inr (), w1)" and "pg_Migrate env w1 = (Inr (), w2)"
  shows "set postgresMigrations \<subseteq> set (pg_schema w1) \<and> pg_schema w2 = pg_schema w1 \<and> pg_tables w2 = pg_tables w"
  using pg_migrations_ok [OF assms(1) [unfolded pg_Migrate_def]] pg_migrations_ok [OF assms(2) [unfolded pg_Migrate_def]]
    fold_insert_same [of postgresMigrations "pg_schema w1"] set_fold_insert [of postgresMigrations "pg_schema w"] by auto

section \<open>A sample database\<close>

datatype SampleJson = PacketJson ChangePacket | MetadataJson metadata | RisksJson "RiskType list" | EventJson Envelope | NullJson

definition sampleDb :: "SampleJson PgEnv" where
  \<comment> \<open>the answer to the fourth call, the first commit, is lost\<close>
  "sampleDb =
     \<lparr>pe_Packet = (\<lambda>p. Inr (PacketJson p)), pe_UnPacket = (\<lambda>j. case j of PacketJson p \<Rightarrow> Inr p | _ \<Rightarrow> Inl ''no packet''),
      pe_Event = (\<lambda>e. Inr (EventJson e)), pe_Metadata = (\<lambda>m. Inr (MetadataJson m)),
      pe_UnMetadata = (\<lambda>j. case j of MetadataJson m \<Rightarrow> Inr m | _ \<Rightarrow> Inr []),
      pe_RiskTypes = (\<lambda>rs. Inr (RisksJson rs)), pe_UnRiskTypes = (\<lambda>j. case j of RisksJson rs \<Rightarrow> Inr rs | _ \<Rightarrow> Inr []),
      pe_Null = NullJson, pe_Fault = (\<lambda>k. if k = 3 then Some (True, ''connection reset'') else None),
      pe_Stamp = (\<lambda>t. t), pe_Collate = (\<lambda>s. s), pe_Scan = (\<lambda>n. rev [0..<n])\<rparr>"

lemma sampleDb_codec: "pg_codec (sampleDb\<lparr>pe_Fault := faults\<rparr>)"
  by (simp add: pg_codec_def sampleDb_def)



text \<open>A database that loses two answers: that of the commit of a packet, and that of the commit of its evidence.\<close>

definition lossyDb :: "SampleJson PgEnv" where
  "lossyDb = sampleDb\<lparr>pe_Fault := (\<lambda>k. if k = 3 \<or> k = 9 then Some (True, ''connection reset'') else None)\<rparr>"

abbreviation lossyService :: "(SampleJson, unit) PgServiceWorld Service" where
  "lossyService \<equiv> postgresService lossyDb 7 None None"

definition savedTables :: "(SampleJson, unit) PgServiceWorld" where
  "savedTables = snd (rp_SaveChangePacket (sv_repository lossyService) testsPacket (emptyDatabase postgresMigrations ()))"

definition settledTables :: "(SampleJson, unit) PgServiceWorld" where
  "settledTables = snd (UpdateEvidenceExecution sampleEnv None lossyService (satisfying ''cp_1'' ''tests'') savedTables)"

lemma lossy_facts:
  "isl (fst (UpdateEvidenceExecution sampleEnv None lossyService (satisfying ''cp_1'' ''tests'') savedTables))"
  "map aw_to_status (pt_audit (pg_tables settledTables)) = [EvidenceSatisfied]"
  "map ae_ToStatus (tb_audit lossyDb (pg_tables settledTables) ''cp_1'') = [EvidenceSatisfied]"
  "recordedStatus (tb_evidence lossyDb (pg_tables settledTables) ''cp_1'') ''tests'' = EvidenceSatisfied"
  by code_simp+

lemma lossyDb_codec: "pg_codec lossyDb"
  unfolding lossyDb_def by (rule sampleDb_codec)

lemma settledTables_steps: "(service_step lossyService)\<^sup>*\<^sup>* (emptyDatabase postgresMigrations ()) settledTables"
proof -
  have "(service_step lossyService)\<^sup>*\<^sup>* (emptyDatabase postgresMigrations ()) savedTables"
    unfolding savedTables_def by (rule r_into_rtranclp) (auto intro: service_step.saved surjective_pairing)
  moreover have "service_step lossyService savedTables settledTables"
    unfolding settledTables_def by (auto intro: service_step.updated surjective_pairing)
  ultimately show ?thesis by simp
qed

lemma settledTables_sound:
  "tb_valid lossyDb (pg_tables settledTables)"
  "trail (tb_evidence lossyDb (pg_tables settledTables)) (tb_audit lossyDb (pg_tables settledTables))"
  using pg_service.steps_safe [OF settledTables_steps [unfolded postgresService_def]] lossyDb_codec
    emptyDatabase_facts [of lossyDb postgresMigrations "()"] by simp_all

text \<open>The update reports an error although it took effect; the log and the status agree nevertheless.\<close>

theorem pg_evidence_durable_witness:
  "isl (fst (UpdateEvidenceExecution sampleEnv None lossyService (satisfying ''cp_1'' ''tests'') savedTables))
   \<and> tb_audit lossyDb (pg_tables settledTables) ''cp_1'' \<noteq> []
   \<and> replay EvidencePending (entriesFor ''tests'' (tb_audit lossyDb (pg_tables settledTables) ''cp_1'')) = Some EvidenceSatisfied"
proof -
  from pg_evidence_durable [OF lossyDb_codec settledTables_steps rtranclp.rtrancl_refl, of "''tests''" "''cp_1''"] lossy_facts
  show ?thesis by auto
qed


end
