(* ===== verification/Nats.thy ===== *)
theory Nats
  imports Events Configuration
begin

text \<open>
  The NATS bus, \<open>internal/events/nats.go\<close>, and the choice of the bus, \<open>internal/events/factory.go\<close>. The client
  library of NATS and the encoding of envelopes are arguments; the names of subjects are in \<open>Events\<close>.
\<close>

section \<open>The bus\<close>

record NATSConfig =
  nf_URL :: string
  nf_StreamName :: string
  nf_SubjectPrefix :: string
  nf_DurablePrefix :: string

record NatsMsg =
  nm_Subject :: string
  nm_Data :: string
  nm_Header :: "(string \<times> string) list"

type_synonym 'w MsgHandler = "NatsMsg \<Rightarrow> 'w \<Rightarrow> 'w"

record ('w, 's) NatsLib =
  nl_Connect :: "string \<Rightarrow> ('w, string, unit) io"
  nl_JetStream :: "('w, string, unit) io"
  nl_StreamInfo :: "string \<Rightarrow> ('w, string, unit) io"
  nl_AddStream :: "string \<Rightarrow> string list \<Rightarrow> ('w, string, unit) io"
  nl_PublishMsg :: "NatsMsg \<Rightarrow> ('w, string, unit) io"
  nl_Subscribe :: "string \<Rightarrow> string \<Rightarrow> 'w MsgHandler \<Rightarrow> ('w, string, 's) io"
    \<comment> \<open>subject and durable name, with manual and explicit acknowledgement, from now on\<close>
  nl_Ack :: "'w MsgHandler" \<comment> \<open>the errors of these calls are ignored\<close>
  nl_Nak :: "'w MsgHandler"
  nl_DrainSub :: "'s \<Rightarrow> 'w \<Rightarrow> 'w"
  nl_DrainConn :: "'w \<Rightarrow> 'w"
  nl_CloseConn :: "'w \<Rightarrow> 'w"
  nl_Marshal :: "Envelope \<Rightarrow> string + string"
  nl_Unmarshal :: "string \<Rightarrow> string + Envelope"

record 's NATSBus =
  nb_cfg :: NATSConfig
  nb_subs :: "'s list"

definition closing :: "('w, 's) NatsLib \<Rightarrow> ('w, string, 'a) io \<Rightarrow> ('w, string, 'a) io" where
  \<comment> \<open>a failed step of the construction closes the connection\<close>
  "closing lib m w = (case m w of (Inl e, w') \<Rightarrow> (Inl e, nl_CloseConn lib w') | (Inr a, w') \<Rightarrow> (Inr a, w'))"

definition streamSubjects :: "NATSConfig \<Rightarrow> string list" where
  "streamSubjects cfg = [nf_SubjectPrefix cfg @ ''.events.*'']"

definition ensureStream :: "('w, 's) NatsLib \<Rightarrow> NATSConfig \<Rightarrow> ('w, string, unit) io" where
  "ensureStream lib cfg w =
     (case nl_StreamInfo lib (nf_StreamName cfg) w of
        (Inr _, w') \<Rightarrow> (Inr (), w')
      | (Inl _, w') \<Rightarrow> nl_AddStream lib (nf_StreamName cfg) (streamSubjects cfg) w')"

definition NewNATSBus :: "('w, 's) NatsLib \<Rightarrow> NATSConfig \<Rightarrow> ('w, string, 's NATSBus) io" where
  "NewNATSBus lib cfg =
     bindM (nl_Connect lib (nf_URL cfg)) (\<lambda>_.
     bindM (closing lib (nl_JetStream lib)) (\<lambda>_.
     bindM (closing lib (ensureStream lib cfg)) (\<lambda>_.
       retM \<lparr>nb_cfg = cfg, nb_subs = []\<rparr>)))"

definition natsMessage :: "NATSConfig \<Rightarrow> Envelope \<Rightarrow> string \<Rightarrow> NatsMsg" where
  "natsMessage cfg event payload =
     \<lparr>nm_Subject = subjectFor (nf_SubjectPrefix cfg) (en_Type event), nm_Data = payload,
      nm_Header = [(''X-MergeR-Event-ID'', en_ID event), (''X-MergeR-Event-Type'', en_Type event)]
        @ (if en_CorrelationID event \<noteq> [] then [(''X-MergeR-Correlation-ID'', en_CorrelationID event)] else [])\<rparr>"

definition NATSBus_Publish :: "('w, 's) NatsLib \<Rightarrow> 's NATSBus \<Rightarrow> Envelope \<Rightarrow> ('w, string, unit) io" where
  "NATSBus_Publish lib b event =
     bindM (liftM (nl_Marshal lib event)) (\<lambda>payload. nl_PublishMsg lib (natsMessage (nb_cfg b) event payload))"

definition onMessage :: "('w, 's) NatsLib \<Rightarrow> 'w Handler \<Rightarrow> 'w MsgHandler" where
  "onMessage lib handler msg w =
     (case nl_Unmarshal lib (nm_Data msg) of
        Inl _ \<Rightarrow> nl_Nak lib msg w
      | Inr envelope \<Rightarrow>
          (case handler envelope w of (Inl _, w') \<Rightarrow> nl_Nak lib msg w' | (Inr _, w') \<Rightarrow> nl_Ack lib msg w'))"

definition durableFor :: "NATSConfig \<Rightarrow> EventType \<Rightarrow> string" where
  "durableFor cfg kind = nf_DurablePrefix cfg @ ''-'' @ sanitizeToken kind"

definition NATSBus_Subscribe :: "('w, 's) NatsLib \<Rightarrow> 's NATSBus \<Rightarrow> EventType \<Rightarrow> 'w Handler \<Rightarrow> ('w, string, 's NATSBus) io" where
  "NATSBus_Subscribe lib b kind handler =
     bindM (nl_Subscribe lib (subjectFor (nf_SubjectPrefix (nb_cfg b)) kind) (durableFor (nb_cfg b) kind) (onMessage lib handler))
       (\<lambda>sub. retM (b\<lparr>nb_subs := nb_subs b @ [sub]\<rparr>))"

definition NATSBus_Close :: "('w, 's) NatsLib \<Rightarrow> 's NATSBus \<Rightarrow> 'w \<Rightarrow> 'w" where
  "NATSBus_Close lib b w = nl_CloseConn lib (nl_DrainConn lib (fold (nl_DrainSub lib) (nb_subs b) w))"

section \<open>The choice of the bus\<close>

datatype ('w, 's) AnyBus = InMemory "'w MemoryBus" | OverNATS "'s NATSBus"

definition NewBusFromConfig :: "('w, 's) NatsLib \<Rightarrow> EventsConfig \<Rightarrow> ('w, string, ('w, 's) AnyBus) io" where
  "NewBusFromConfig lib cfg =
     (if ec_Backend cfg = [] \<or> ec_Backend cfg = ''memory'' then retM (InMemory NewMemoryBus)
      else if ec_Backend cfg = ''nats'' then
        bindM (NewNATSBus lib \<lparr>nf_URL = ec_NATSURL cfg, nf_StreamName = ec_StreamName cfg,
            nf_SubjectPrefix = ec_SubjectPrefix cfg, nf_DurablePrefix = ec_DurablePrefix cfg\<rparr>) (\<lambda>b. retM (OverNATS b))
      else failM (''unsupported events backend: '' @ ec_Backend cfg))"

section \<open>Routing\<close>

text \<open>How a NATS server matches subjects, as far as the program uses it: subjects are sequences of tokens between
  dots, and a star stands for one token. This is vocabulary of the specification; the program subscribes to no
  subject with the wildcard for several tokens.\<close>

definition subjectMatches :: "string \<Rightarrow> string \<Rightarrow> bool" where
  "subjectMatches pattern subject \<longleftrightarrow>
     list_all2 (\<lambda>p t. p = t \<or> p = ''*'' \<and> t \<noteq> []) (Split pattern (CHR ''.'')) (Split subject (CHR ''.''))"

definition programEvents :: "EventType list" where
  "programEvents = [EventPROpened, EventChangePacketCreated, EventMutationDetected, EventRiskAssigned, EventMergeLaneAssigned,
     EventPolicyViolationDetected]"

lemma Split_append_sep: "Split (s @ sep # t) sep = Split s sep @ Split t sep"
proof (induction s)
  case (Cons c s)
  then show ?case by (cases "splitBy (\<lambda>c. c = sep) s") (auto simp: Split_def)
qed (simp add: Split_def)

lemma Split_token: "sep \<notin> set t \<Longrightarrow> Split t sep = [t]"
  by (auto simp: Split_def intro!: splitBy_no_sep)

lemma subject_tokens:
  "CHR ''.'' \<notin> set t \<Longrightarrow> Split (pre @ ''.events.'' @ t) (CHR ''.'') = Split pre (CHR ''.'') @ [''events'', t]"
  using Split_append_sep [of pre "CHR ''.''" "''events'' @ CHR ''.'' # t"]
    Split_append_sep [of "''events''" "CHR ''.''" t] Split_token [of "CHR ''.''" "''events''"] Split_token [of "CHR ''.''" t]
  by simp

lemma subject_match:
  assumes "CHR ''.'' \<notin> set p" and "CHR ''.'' \<notin> set t"
  shows "subjectMatches (pre @ ''.events.'' @ p) (pre @ ''.events.'' @ t) \<longleftrightarrow> p = t \<or> p = ''*'' \<and> t \<noteq> []"
proof -
  have "list_all2 (\<lambda>p t. p = t \<or> p = ''*'' \<and> t \<noteq> []) xs xs" for xs by (induction xs) auto
  then show ?thesis
    unfolding subjectMatches_def subject_tokens [OF assms(1)] subject_tokens [OF assms(2)]
    by (simp add: list_all2_append)
qed

text \<open>
  C27: On NATS, every event with a type lies in the stream that the program creates, whatever the configured
  prefix, and a subscription for one of the program's event types gets the events of this type and of no
  other one; the durable consumers of two types never share a name.
\<close>

theorem nats_routing:
  "(kind \<noteq> [] \<longrightarrow> subjectMatches (hd (streamSubjects cfg)) (subjectFor (nf_SubjectPrefix cfg) kind))
   \<and> (\<forall>a \<in> set programEvents. \<forall>b \<in> set programEvents.
        (subjectMatches (subjectFor (nf_SubjectPrefix cfg) a) (subjectFor (nf_SubjectPrefix cfg) b) \<longleftrightarrow> a = b)
        \<and> (durableFor cfg a = durableFor cfg b \<longleftrightarrow> a = b))"
proof -
  have star: "CHR ''.'' \<notin> set ''*''" by simp
  have free: "CHR ''.'' \<notin> set (sanitizeToken k)" for k using sanitizeToken_single by blast
  have names: "\<forall>a \<in> set programEvents. \<forall>b \<in> set programEvents. (sanitizeToken a = sanitizeToken b \<longleftrightarrow> a = b) \<and> sanitizeToken a \<noteq> ''*''"
    by code_simp
  have "sanitizeToken kind \<noteq> []" if "kind \<noteq> []" using that by (simp add: sanitizeToken_def ToLower_def)
  then show ?thesis
    using names subject_match [OF star free] subject_match [OF free free]
    by (simp add: streamSubjects_def subjectFor_def durableFor_def)
qed

theorem nats_routing_witness:
  "subjectMatches (hd (streamSubjects \<lparr>nf_URL = [], nf_StreamName = ''s'', nf_SubjectPrefix = ''merger'', nf_DurablePrefix = ''d''\<rparr>))
     (subjectFor ''merger'' EventRiskAssigned)
   \<and> \<not> subjectMatches (subjectFor ''merger'' EventRiskAssigned) (subjectFor ''merger'' EventPROpened)"
  using nats_routing [of EventRiskAssigned "\<lparr>nf_URL = [], nf_StreamName = ''s'', nf_SubjectPrefix = ''merger'', nf_DurablePrefix = ''d''\<rparr>"]
  by (simp add: programEvents_def domain_consts)

text \<open>A message is acknowledged exactly when it decodes and the handler accepts it; otherwise it is returned
  for another delivery, after whatever the handler has done.\<close>

lemma onMessage_outcome:
  "(\<exists>e w'. nl_Unmarshal lib (nm_Data msg) = Inr e \<and> handler e w = (Inr (), w') \<and> onMessage lib handler msg w = nl_Ack lib msg w')
   \<or> (\<exists>w'. onMessage lib handler msg w = nl_Nak lib msg w'
        \<and> (\<forall>e. nl_Unmarshal lib (nm_Data msg) = Inr e \<longrightarrow> (\<exists>err. handler e w = (Inl err, w'))))"
  by (auto simp: onMessage_def split: sum.splits prod.splits)

text \<open>A bus that cannot be set up leaves no connection open: the last step is closing it.\<close>

lemma NewNATSBus_closes:
  assumes "NewNATSBus lib cfg w = (Inl e, w')" and "nl_Connect lib (nf_URL cfg) w = (Inr (), w1)"
  shows "\<exists>w2. w' = nl_CloseConn lib w2"
  using assms by (auto simp: NewNATSBus_def closing_def bindM_err split: sum.splits prod.splits)

end
