(* ===== verification/Startup.thy ===== *)
theory Startup
  imports Postgres Nats GitHubClient Pipeline Grpc
begin

text \<open>
  The two servers as processes: what \<open>internal/bootstrap\<close> builds from the configuration, the applications of
  \<open>internal/app\<close>, and the \<^verbatim>\<open>main\<close> functions of \<open>cmd/merger-controlplane\<close> and \<open>cmd/merger-ingest\<close> up to and
  including \<^verbatim>\<open>Run\<close>. The files, the environment, the database server, the NATS library, GitHub and the
  listening sockets are arguments.
\<close>

section \<open>The state of a process\<close>

record ('j, 'n) Process =
  pc_memory :: MemoryRepository
  pc_database :: "'j PgWorld"
  pc_github :: "'n ClientState"
  pc_pools :: nat \<comment> \<open>how many database handles are open\<close>
  pc_observed :: "Envelope list" \<comment> \<open>the lane decisions that were logged, the newest first\<close>

definition onPart :: "('w \<Rightarrow> 's) \<Rightarrow> ('s \<Rightarrow> 'w \<Rightarrow> 'w) \<Rightarrow> ('s, 'e, 'a) io \<Rightarrow> ('w, 'e, 'a) io" where
  "onPart get put m w = (case m (get w) of (r, s) \<Rightarrow> (r, put s w))"

definition partRepository :: "('w \<Rightarrow> 's) \<Rightarrow> ('s \<Rightarrow> 'w \<Rightarrow> 'w) \<Rightarrow> 's Repository \<Rightarrow> 'w Repository" where
  "partRepository get put R =
     \<lparr>rp_SaveChangePacket = (\<lambda>p. onPart get put (rp_SaveChangePacket R p)),
      rp_GetChangePacket = (\<lambda>i. onPart get put (rp_GetChangePacket R i)),
      rp_FindLatestChangePacket = (\<lambda>repo number sha. onPart get put (rp_FindLatestChangePacket R repo number sha)),
      rp_ListChangePackets = (\<lambda>limit. onPart get put (rp_ListChangePackets R limit)),
      rp_SaveEvent = (\<lambda>e. onPart get put (rp_SaveEvent R e)),
      rp_UpsertEvidenceExecution = (\<lambda>e. onPart get put (rp_UpsertEvidenceExecution R e)),
      rp_ListEvidenceExecutions = (\<lambda>i. onPart get put (rp_ListEvidenceExecutions R i)),
      rp_RecordEvidenceUpdate = (\<lambda>e a. onPart get put (rp_RecordEvidenceUpdate R e a)),
      rp_ListEvidenceAuditEntries = (\<lambda>i limit. onPart get put (rp_ListEvidenceAuditEntries R i limit)),
      rp_SaveDeploymentOutcome = (\<lambda>d. onPart get put (rp_SaveDeploymentOutcome R d)),
      rp_ListDeploymentOutcomes = (\<lambda>limit. onPart get put (rp_ListDeploymentOutcomes R limit))\<rparr>"

abbreviation onMemory :: "(MemoryRepository, 'e, 'a) io \<Rightarrow> (('j, 'n) Process, 'e, 'a) io" where
  "onMemory \<equiv> onPart pc_memory (\<lambda>s. pc_memory_update (\<lambda>_. s))"

abbreviation onDatabase :: "('j PgWorld, 'e, 'a) io \<Rightarrow> (('j, 'n) Process, 'e, 'a) io" where
  "onDatabase \<equiv> onPart pc_database (\<lambda>s. pc_database_update (\<lambda>_. s))"

abbreviation onClient :: "('n ClientState, 'e, 'a) io \<Rightarrow> (('j, 'n) Process, 'e, 'a) io" where
  "onClient \<equiv> onPart pc_github (\<lambda>s. pc_github_update (\<lambda>_. s))"

record ('j, 'n, 's) StartEnv =
  se_Getenv :: "string \<rightharpoonup> string"
  se_Files :: ConfigFiles
  se_DecodePolicy :: "string \<Rightarrow> (string + PolicyConfig) \<times> (string + unit) option"
  se_SHA256 :: "string \<Rightarrow> string"
  se_JWT :: JWTEnv
  se_Now :: time
  se_Order :: key_order
  se_SqlOpen :: "string \<Rightarrow> string option" \<comment> \<open>what is wrong with the text of a data source\<close>
  se_Pg :: "'j PgEnv"
  se_Nats :: "(('j, 'n) Process, 's) NatsLib"
  se_Keys :: KeyEnv
  se_Client :: "'n ClientEnv"
  se_Exec :: ExecEnv
  se_Parsers :: Parsers
  se_Decoders :: Decoders
  se_NewID :: "nat \<Rightarrow> string"
  se_Call :: CallEnv

datatype StartError =
    ConfigRejected ConfigError
  | PolicyRejected PolicyError
  | NoAuthenticator AuthenticatorError
  | DatabaseUnopened string
  | MigrationFailed StoreError
  | UnsupportedPersistence string
  | BusFailed string
  | GitHubFailed string
  | Panicked AnalyzerError
  | PanickedUnauthenticated
  | SubscribeFailed string
  | ListenFailed string
  | ServeFailed string

section \<open>Building the parts\<close>

definition NewPostgresRepository :: "('j, 'n, 's) StartEnv \<Rightarrow> string \<Rightarrow> (('j, 'n) Process, StartError, ('j, 'n) Process Repository) io" where
  "NewPostgresRepository env dsn w =
     (case se_SqlOpen env dsn of
        Some e \<Rightarrow> (Inl (DatabaseUnopened e), w)
      | None \<Rightarrow> (Inr (partRepository pc_database (\<lambda>s. pc_database_update (\<lambda>_. s)) (postgresRepository (se_Pg env) (se_Now env))),
                 w\<lparr>pc_pools := Suc (pc_pools w)\<rparr>))"

definition PostgresRepository_Close :: "('j, 'n) Process \<Rightarrow> ('j, 'n) Process" where
  "PostgresRepository_Close w = w\<lparr>pc_pools := pc_pools w - 1\<rparr>"

definition BuildRepository :: "('j, 'n, 's) StartEnv \<Rightarrow> Config \<Rightarrow> (('j, 'n) Process, StartError, ('j, 'n) Process Repository) io" where
  "BuildRepository env cfg =
     (let backend = px_Backend (cg_Persistence cfg) in
      if backend = [] \<or> backend = ''memory'' then
        (\<lambda>w. (Inr (partRepository pc_memory (\<lambda>s. pc_memory_update (\<lambda>_. s)) (memoryRepository (se_Order env) (se_Now env))),
              w\<lparr>pc_memory := NewMemoryRepository\<rparr>))
      else if backend = ''postgres'' then
        bindM (NewPostgresRepository env (px_DatabaseURL (cg_Persistence cfg))) (\<lambda>repo w.
          if px_AutoMigrate (cg_Persistence cfg) then
            (case onDatabase (pg_Migrate (se_Pg env)) w of
               (Inl err, w') \<Rightarrow> (Inl (MigrationFailed err), PostgresRepository_Close w')
             | (Inr _, w') \<Rightarrow> (Inr repo, w'))
          else (Inr repo, w))
      else failM (UnsupportedPersistence backend))"

record ('w, 's) RecordingBus =
  rb_base :: "('w, 's) AnyBus"
  rb_store :: "'w Publish option"

definition NewRecordingBus :: "('w, 's) AnyBus \<Rightarrow> 'w Publish option \<Rightarrow> ('w, 's) RecordingBus" where
  "NewRecordingBus base eventStore = \<lparr>rb_base = base, rb_store = eventStore\<rparr>"

definition AnyBus_Publish :: "('w, 's) NatsLib \<Rightarrow> ('w, 's) AnyBus \<Rightarrow> 'w Publish" where
  "AnyBus_Publish lib b = (case b of InMemory m \<Rightarrow> MemoryBus_Publish m | OverNATS n \<Rightarrow> NATSBus_Publish lib n)"

definition AnyBus_Subscribe :: "('w, 's) NatsLib \<Rightarrow> ('w, 's) AnyBus \<Rightarrow> EventType \<Rightarrow> 'w Handler \<Rightarrow> ('w, string, ('w, 's) AnyBus) io" where
  "AnyBus_Subscribe lib b kind handler =
     (case b of
        InMemory m \<Rightarrow> bindM (liftM (MemoryBus_Subscribe m kind handler)) (\<lambda>m'. retM (InMemory m'))
      | OverNATS n \<Rightarrow> bindM (NATSBus_Subscribe lib n kind handler) (\<lambda>n'. retM (OverNATS n')))"

definition RecordingBus_Subscribe :: "('w, 's) NatsLib \<Rightarrow> ('w, 's) RecordingBus \<Rightarrow> EventType \<Rightarrow> 'w Handler \<Rightarrow> ('w, string, ('w, 's) RecordingBus) io" where
  "RecordingBus_Subscribe lib b kind handler =
     bindM (AnyBus_Subscribe lib (rb_base b) kind handler) (\<lambda>base. retM (b\<lparr>rb_base := base\<rparr>))"

definition RecordingBus_Close :: "('w, 's) NatsLib \<Rightarrow> ('w, 's) RecordingBus \<Rightarrow> 'w \<Rightarrow> ('w, 's) RecordingBus \<times> 'w" where
  "RecordingBus_Close lib b w =
     (case rb_base b of
        InMemory m \<Rightarrow> (b\<lparr>rb_base := InMemory (MemoryBus_Close m)\<rparr>, w)
      | OverNATS n \<Rightarrow> (b, NATSBus_Close lib n w))"

definition busPublish :: "('w, 's) NatsLib \<Rightarrow> ('w, 's) RecordingBus \<Rightarrow> 'w Publish" where
  "busPublish lib b = RecordingBus_Publish (AnyBus_Publish lib (rb_base b)) (rb_store b)"

definition BuildEventBus ::
  "('j, 'n, 's) StartEnv \<Rightarrow> Config \<Rightarrow> ('j, 'n) Process Repository
     \<Rightarrow> (('j, 'n) Process, StartError, (('j, 'n) Process, 's) RecordingBus) io" where
  "BuildEventBus env cfg repo =
     bindM (wrapM BusFailed (NewBusFromConfig (se_Nats env) (cg_Events cfg))) (\<lambda>base.
       retM (NewRecordingBus base (Some (\<lambda>event. wrapM (\<lambda>_. ''store'') (rp_SaveEvent repo event)))))"

datatype AnyGitHub = Noop | Real Client

definition BuildGitHubService :: "('j, 'n, 's) StartEnv \<Rightarrow> Config \<Rightarrow> StartError + AnyGitHub" where
  "BuildGitHubService env cfg =
     (let g = cg_GitHub cfg in
      if \<not> gh_Enabled g then Inr Noop
      else bindE (mapError GitHubFailed (NewClient (se_Keys env)
             \<lparr>ck_AppID = gh_AppID g, ck_InstallationID = gh_InstallationID g, ck_PrivateKeyPath = gh_PrivateKeyPath g,
              ck_WebhookSecret = gh_WebhookSecret g, ck_APIBaseURL = gh_APIBaseURL g, ck_Timeout = gh_Timeout g\<rparr>))
           (\<lambda>c. Inr (Real c)))"

text \<open>The two views that the program has of the service: a source of pull requests, whose reads of files are not
  threaded through the state of the client, and a publisher of checks.\<close>

definition clientService :: "'n ClientEnv \<Rightarrow> Client \<Rightarrow> ('j, 'n) Process GitHubService" where
  "clientService env c =
     \<lparr>gs_GetPullRequest = (\<lambda>owner repo number. onClient (client_GetPullRequest env c owner repo number)),
      gs_GetPullRequestDiff = (\<lambda>owner repo number. onClient (client_GetPullRequestDiff env c owner repo number)),
      gs_GetFileContent = (\<lambda>owner repo path ref w. fst (client_GetFileContent env c owner repo path ref (pc_github w)))\<rparr>"

definition githubSource :: "'n ClientEnv \<Rightarrow> AnyGitHub \<Rightarrow> ('j, 'n) Process BoundService" where
  "githubSource env g =
     (case g of
        Noop \<Rightarrow> \<lparr>bs_Service = NoopService, bs_ForInstallation = None\<rparr>
      | Real c \<Rightarrow> \<lparr>bs_Service = clientService env c, bs_ForInstallation = Some (\<lambda>n. clientService env (ForInstallation c n))\<rparr>)"

definition githubChecks :: "'n ClientEnv \<Rightarrow> AnyGitHub \<Rightarrow> ('j, 'n) Process CheckRunPublisher" where
  "githubChecks env g =
     (case g of
        Noop \<Rightarrow> \<lparr>cc_PublishCheckRun = (\<lambda>_. retM ()), cc_ForInstallation = None\<rparr>
      | Real c \<Rightarrow>
          \<lparr>cc_PublishCheckRun = (\<lambda>i. onClient (client_PublishCheckRun env c i)),
           cc_ForInstallation = Some (\<lambda>n i. onClient (client_PublishCheckRun env (ForInstallation c n) i))\<rparr>)"

definition lanesConfig :: "Config \<Rightarrow> LanesConfig" where
  "lanesConfig cfg =
     \<lparr>lc_GreenMax = lt_GreenMax (cg_Lanes cfg), lc_YellowMax = lt_YellowMax (cg_Lanes cfg), lc_RedMax = lt_RedMax (cg_Lanes cfg)\<rparr>"

definition processOptions :: "('j, 'n, 's) StartEnv \<Rightarrow> Config \<Rightarrow> AnyGitHub \<Rightarrow> ('j, 'n) Process Option option list" where
  "processOptions env cfg githubService =
     [Some (WithLaneAssigner (Assign (lanesConfig cfg))),
      Some (WithCheckPublisher (PublishWithEvidence (Some (githubChecks (se_Client env) githubService))))]"

definition configPath :: "('j, 'n, 's) StartEnv \<Rightarrow> string" where
  "configPath env =
     (let path = (case se_Getenv env ''MERGER_CONFIG_PATH'' of None \<Rightarrow> [] | Some v \<Rightarrow> v)
      in if path = [] then ''config/merger.yaml'' else path)"

section \<open>The control plane\<close>

record ('w, 's) ControlPlaneApp = \<comment> \<open>the servers read the clock at every request\<close>
  ca_bus :: "('w, 's) RecordingBus"
  ca_grpcServer :: "time \<Rightarrow> GrpcEnv \<Rightarrow> string list \<Rightarrow> GrpcRequest \<Rightarrow> ('w, GrpcError, GrpcResponse) io"
  ca_grpcAddress :: string
  ca_httpServer :: "time \<Rightarrow> HttpEnv \<Rightarrow> Request \<Rightarrow> 'w Handle"
  ca_httpAddress :: string

definition NewWithAccess ::
  "Config \<Rightarrow> ('w, 's) RecordingBus \<Rightarrow> 'w Repository \<Rightarrow> (time \<Rightarrow> string \<Rightarrow> AccessError + Principal) option \<Rightarrow> 'w Option option list
     \<Rightarrow> StartError + ('w, 's) ControlPlaneApp" where
  "NewWithAccess cfg bus repo auth serviceOptions =
     (case auth of
        None \<Rightarrow> Inl PanickedUnauthenticated
      | Some authenticate \<Rightarrow>
          (let service = NewServiceWithOptions repo serviceOptions in
           Inr \<lparr>ca_bus = bus,
                ca_grpcServer = (\<lambda>now env. controlPlaneGRPC (authenticate now) env service),
                ca_grpcAddress = sv_ControlPlaneGRPC (cg_Service cfg),
                ca_httpServer = (\<lambda>now env. controlPlaneHTTP (authenticate now) env service),
                ca_httpAddress = sv_ControlPlaneAddress (cg_Service cfg)\<rparr>))"

definition controlplaneapp_New :: "Config \<Rightarrow> ('w, 's) RecordingBus \<Rightarrow> 'w Repository \<Rightarrow> StartError + ('w, 's) ControlPlaneApp" where
  "controlplaneapp_New cfg bus repo = NewWithAccess cfg bus repo (Some (\<lambda>now. DisabledAuthenticator_Authenticate)) []"

definition controlplane_main ::
  "('j, 'n, 's) StartEnv \<Rightarrow> (('j, 'n) Process, StartError, (('j, 'n) Process, 's) ControlPlaneApp) io" where
  \<comment> \<open>up to the call of \<^verbatim>\<open>Run\<close>; an error ends the process in \<^verbatim>\<open>log.Fatal\<close>, which runs no deferred call\<close>
  "controlplane_main env =
     bindM (liftM (mapError ConfigRejected (Load (se_Files env) (configPath env)))) (\<lambda>cfg.
     bindM (liftM (mapError ConfigRejected (ValidateForControlPlane cfg))) (\<lambda>_.
     bindM (liftM (mapError NoAuthenticator
       (buildAuthenticator (se_SHA256 env) (se_Getenv env) (se_JWT env) (cg_Access cfg)))) (\<lambda>auth.
     bindM (BuildRepository env cfg) (\<lambda>repo.
     bindM (BuildEventBus env cfg repo) (\<lambda>bus.
     bindM (liftM (BuildGitHubService env cfg)) (\<lambda>githubService.
       liftM (NewWithAccess cfg bus repo (Some auth) (processOptions env cfg githubService))))))))"

text \<open>\<^verbatim>\<open>Run\<close>: the results of the two servers arrive over a channel, in the order in which they end. \<open>None\<close> is a
  loop that still waits.\<close>

datatype ServeResult = ServeNil | ServeStopped | ServeError string

definition channelValue :: "ServeResult \<Rightarrow> string option" where
  "channelValue r = (case r of ServeError e \<Rightarrow> Some e | ServeNil \<Rightarrow> None | ServeStopped \<Rightarrow> None)"

fun awaitServers :: "nat \<Rightarrow> ServeResult list \<Rightarrow> (string + unit) option" where
  "awaitServers 0 arrivals = Some (Inr ())"
| "awaitServers (Suc n) [] = None"
| "awaitServers (Suc n) (r # rs) = (case channelValue r of Some e \<Rightarrow> Some (Inl e) | None \<Rightarrow> awaitServers n rs)"

record 'w Sockets =
  so_Listen :: "string \<Rightarrow> ('w, string, unit) io"
  so_CloseListener :: "'w \<Rightarrow> 'w"

definition observeLane :: "('j, 'n) Process Handler" where
  "observeLane event w = (Inr (), w\<lparr>pc_observed := event # pc_observed w\<rparr>)"

datatype 'b RunState = Serving 'b | Returned "StartError option"

definition App_Run ::
  "(('j, 'n) Process, 's) NatsLib \<Rightarrow> ('j, 'n) Process Sockets \<Rightarrow> ServeResult list \<Rightarrow> (('j, 'n) Process, 's) ControlPlaneApp
     \<Rightarrow> ('j, 'n) Process \<Rightarrow> (('j, 'n) Process, 's) RecordingBus RunState \<times> ('j, 'n) Process" where
  \<comment> \<open>what the servers do to the process while they serve is left out\<close>
  "App_Run lib sockets arrivals app w =
     (case RecordingBus_Subscribe lib (ca_bus app) EventMergeLaneAssigned observeLane w of
        (Inl err, w1) \<Rightarrow> (Returned (Some (SubscribeFailed err)), w1)
      | (Inr bus, w1) \<Rightarrow>
          (case so_Listen sockets (ca_grpcAddress app) w1 of
             (Inl err, w2) \<Rightarrow> (Returned (Some (ListenFailed err)), w2)
           | (Inr _, w2) \<Rightarrow>
               (case awaitServers 2 arrivals of
                  None \<Rightarrow> (Serving bus, w2)
                | Some (Inl err) \<Rightarrow> (Returned (Some (ServeFailed err)), so_CloseListener sockets w2)
                | Some (Inr _) \<Rightarrow> (Returned None, so_CloseListener sockets w2))))"

section \<open>Ingestion\<close>

definition analyzerTimeout :: "('j, 'n, 's) StartEnv \<Rightarrow> AnalyzerDeclaration \<Rightarrow> int" where
  "analyzerTimeout env d =
     (let timeout = 5 * 1000000000 in
      if ad_Timeout d \<noteq> [] then (case ke_ParseDuration (se_Keys env) (ad_Timeout d) of Inr parsed \<Rightarrow> parsed | Inl _ \<Rightarrow> timeout)
      else timeout)"

fun buildAnalyzers :: "('j, 'n, 's) StartEnv \<Rightarrow> AnalyzerDeclaration list \<Rightarrow> AnalyzerError + Analyzer list" where
  "buildAnalyzers env [] = Inr []"
| "buildAnalyzers env (d # ds) =
     bindE (NewExternalAnalyzer (se_Exec env)
       \<lparr>xc_Name = ad_Name d, xc_Executable = ad_Executable d, xc_Allowlist = ad_Allowlist d,
        xc_Timeout = analyzerTimeout env d, xc_Paths = ad_Paths d\<rparr>) (\<lambda>analyzer.
     bindE (buildAnalyzers env ds) (\<lambda>analyzers. Inr (analyzer # analyzers)))"

definition ingestProcessor ::
  "('j, 'n, 's) StartEnv \<Rightarrow> Config \<Rightarrow> (('j, 'n) Process, 's) RecordingBus \<Rightarrow> AnyGitHub \<Rightarrow> PolicyConfig
     \<Rightarrow> ('j, 'n) Process Repository \<Rightarrow> Analyzer list \<Rightarrow> ('j, 'n) Process Processor" where
  "ingestProcessor env cfg bus githubService policyConfig repo externalAnalyzers =
     (let checkPublisher = Some (githubChecks (se_Client env) githubService) in
      \<lparr>po_bus = busPublish (se_Nats env) bus,
       po_github = githubSource (se_Client env) githubService,
       po_mutations = (\<lambda>request.
         bindE (Classify (se_Order env) (se_NewID env)
             (DefaultEngineWithExternal (se_Parsers env) (se_NewID env) externalAnalyzers) request 0)
           (\<lambda>(mutations, _). Inr mutations)),
       po_risk = risk_Evaluate (se_Order env) defaultWeights,
       po_policy = policy_Evaluate (se_Now env) policyConfig,
       po_assigner = Assign (lanesConfig cfg),
       po_checks = checks_Publish checkPublisher,
       po_runtime = ResolveImpact (se_Order env) (NewResolver (se_Decoders env)
         \<lparr>op_EnableCodeOwners = rg_EnableCodeOwners (cg_RuntimeGraph cfg),
          op_GraphManifestPath = rg_GraphManifestPath (cg_RuntimeGraph cfg),
          op_MaxTraversalDepth = rg_MaxTraversalDepth (cg_RuntimeGraph cfg)\<rparr>),
       po_store = Some repo,
       po_evidence = Some (UpdateEvidenceExecution (se_Call env) None
         (NewServiceWithOptions repo (processOptions env cfg githubService)))\<rparr>)"

datatype IngestReply = WebhookAnswer WebhookReply | Healthy | PageNotFound

definition ingestMux ::
  "string \<Rightarrow> 'w Processor \<Rightarrow> WebhookEnv \<Rightarrow> IngestEnv \<Rightarrow> string \<Rightarrow> Delivery \<Rightarrow> 'w \<Rightarrow> IngestReply \<times> 'w" where
  "ingestMux secret processor wenv env path r w =
     (if path = ''/webhooks/github'' then
        (case WebhookHandler_ServeHTTP wenv secret env processor r w of (reply, w') \<Rightarrow> (WebhookAnswer reply, w'))
      else if path = ''/healthz'' then (Healthy, w)
      else (PageNotFound, w))"

record 'w IngestApp =
  ia_Addr :: string
  ia_Handler :: "WebhookEnv \<Rightarrow> IngestEnv \<Rightarrow> string \<Rightarrow> Delivery \<Rightarrow> 'w \<Rightarrow> IngestReply \<times> 'w"

definition ingestapp_New ::
  "('j, 'n, 's) StartEnv \<Rightarrow> Config \<Rightarrow> (('j, 'n) Process, 's) RecordingBus \<Rightarrow> AnyGitHub \<Rightarrow> PolicyConfig
     \<Rightarrow> ('j, 'n) Process Repository \<Rightarrow> StartError + ('j, 'n) Process IngestApp" where
  "ingestapp_New env cfg bus githubService policyConfig repo =
     bindE (mapError Panicked (buildAnalyzers env (cg_MutationAnalyzers cfg))) (\<lambda>externalAnalyzers.
       Inr \<lparr>ia_Addr = sv_IngestAddress (cg_Service cfg),
            ia_Handler = ingestMux (gh_WebhookSecret (cg_GitHub cfg))
              (ingestProcessor env cfg bus githubService policyConfig repo externalAnalyzers)\<rparr>)"

definition ingest_main :: "('j, 'n, 's) StartEnv \<Rightarrow> (('j, 'n) Process, StartError, ('j, 'n) Process IngestApp) io" where
  "ingest_main env =
     bindM (liftM (mapError ConfigRejected (Load (se_Files env) (configPath env)))) (\<lambda>cfg.
     bindM (liftM (mapError ConfigRejected (ValidateForIngest cfg))) (\<lambda>_.
     bindM (liftM (mapError PolicyRejected (LoadConfig (se_DecodePolicy env) (fi_ReadFile (se_Files env) (cg_PolicyPath cfg))))) (\<lambda>policyConfig.
     bindM (BuildRepository env cfg) (\<lambda>repo.
     bindM (BuildEventBus env cfg repo) (\<lambda>bus.
     bindM (liftM (BuildGitHubService env cfg)) (\<lambda>githubService.
       liftM (ingestapp_New env cfg bus githubService policyConfig repo)))))))"

section \<open>What can stop a start\<close>

definition usable :: "AnalyzerDeclaration \<Rightarrow> bool" where
  "usable d \<longleftrightarrow> IsAbs (ad_Executable d) \<and> ad_Executable d \<in> set (ad_Allowlist d)"

text \<open>For each error, the part of an accepted configuration that asks for what has failed.\<close>

definition blamed :: "Config \<Rightarrow> StartError \<Rightarrow> bool" where
  "blamed cfg e \<longleftrightarrow>
     (case e of
        PolicyRejected _ \<Rightarrow> True
      | NoAuthenticator a \<Rightarrow> environmentFault a
      | DatabaseUnopened _ \<Rightarrow> px_Backend (cg_Persistence cfg) = ''postgres''
      | MigrationFailed _ \<Rightarrow> px_Backend (cg_Persistence cfg) = ''postgres'' \<and> px_AutoMigrate (cg_Persistence cfg)
      | BusFailed _ \<Rightarrow> ec_Backend (cg_Events cfg) = ''nats''
      | GitHubFailed _ \<Rightarrow> gh_Enabled (cg_GitHub cfg)
      | Panicked _ \<Rightarrow> \<not> list_all usable (cg_MutationAnalyzers cfg)
      | _ \<Rightarrow> False)"

lemma BuildRepository_failed:
  assumes "validConfig cfg" and "BuildRepository env cfg w = (Inl e, w')"
  shows "blamed cfg e \<and> pc_pools w' = pc_pools w"
  using assms
  by (auto simp: validConfig_def BuildRepository_def NewPostgresRepository_def PostgresRepository_Close_def onPart_def blamed_def
      bindM_err Let_def split: option.splits if_splits prod.splits sum.splits)

lemma BuildEventBus_failed:
  assumes "validConfig cfg" and "BuildEventBus env cfg repo w = (Inl e, w')"
  shows "blamed cfg e"
  using assms by (auto simp: validConfig_def BuildEventBus_def NewBusFromConfig_def blamed_def io_results split: if_splits)

lemma BuildGitHubService_failed: "BuildGitHubService env cfg = Inl e \<Longrightarrow> blamed cfg e"
  by (auto simp: BuildGitHubService_def blamed_def bindE_Inl mapError_Inl Let_def split: if_splits)

lemma buildAnalyzers_ok: "(\<exists>as. buildAnalyzers env ds = Inr as) \<longleftrightarrow> list_all usable ds"
proof (induction ds)
  case (Cons d ds)
  then show ?case by (auto simp: bindE_Inr NewExternalAnalyzer_def usable_def list_ex_iff Let_def)
qed simp

lemma buildAnalyzers_panics: "buildAnalyzers env ds = Inl e \<Longrightarrow> \<not> list_all usable ds"
  using buildAnalyzers_ok [of env ds] by auto

lemma ValidateForIngest_valid: "ValidateForIngest cfg = Inr () \<Longrightarrow> validConfig cfg"
  by (auto simp: ValidateForIngest_def ValidateForGitHubIntegration_def ValidateForService_def bindE_Inr config_Validate_Inr)

lemma ValidateForControlPlane_valid: "ValidateForControlPlane cfg = Inr () \<Longrightarrow> validConfig cfg"
  by (auto simp: ValidateForControlPlane_def bindE_Inr ValidateForIngest_def [symmetric] ValidateForIngest_valid)

lemma ValidateForIngest_secret:
  assumes "ValidateForIngest cfg = Inr ()" and "gh_Enabled (cg_GitHub cfg)"
  shows "gh_WebhookSecret (cg_GitHub cfg) \<noteq> []"
proof
  assume "gh_WebhookSecret (cg_GitHub cfg) = []"
  moreover have "missingOrPlaceholder []" by code_simp
  ultimately show False
    using assms by (auto simp: ValidateForIngest_def ValidateForGitHubIntegration_def bindE_Inr Let_def split: if_splits)
qed

text \<open>Nothing that is validated depends on the analyzers that are declared.\<close>

lemma ValidateForIngest_analyzers: "ValidateForIngest (cfg\<lparr>cg_MutationAnalyzers := ds\<rparr>) = ValidateForIngest cfg"
  by (simp add: ValidateForIngest_def ValidateForGitHubIntegration_def ValidateForService_def config_Validate_def Let_def)

section \<open>The stores of a process\<close>

text \<open>A store that lives in a part of a larger state keeps its contract.\<close>

locale durable_part = durable_repository R valid packets evidence audit
  for R :: "'s Repository" and valid packets evidence audit +
  fixes get :: "'w \<Rightarrow> 's" and put :: "'s \<Rightarrow> 'w \<Rightarrow> 'w"
  assumes get_put: "get (put s w) = s"
begin

lemma onPart_result: "onPart get put m w = (r, w') \<Longrightarrow> m (get w) = (r, get w')"
  by (auto simp: onPart_def get_put split: prod.splits)

lemma unchanged_part:
  "unchanged (\<lambda>w. valid (get w)) (\<lambda>w. packets (get w)) (\<lambda>w. evidence (get w)) (\<lambda>w. audit (get w)) w w' \<longleftrightarrow>
     unchanged valid packets evidence audit (get w) (get w')"
  by (simp add: unchanged_def)

lemma part_durable:
  "durable_repository (partRepository get put R) (\<lambda>w. valid (get w)) (\<lambda>w. packets (get w)) (\<lambda>w. evidence (get w)) (\<lambda>w. audit (get w))"
proof (unfold_locales, unfold unchanged_part, goal_cases)
  case (1 w i n e)
  then show ?case by (rule durable_name)
next
  case (2 w i p)
  then show ?case by (rule durable_id)
next
  case (3 w i rg w')
  then show ?case using durable_get [of "get w" i rg "get w'"] by (auto simp: partRepository_def dest: onPart_result)
next
  case (4 w i rl w')
  then show ?case using durable_list [of "get w" i rl "get w'"] by (auto simp: partRepository_def dest: onPart_result)
next
  case (5 w e a r w')
  then show ?case using durable_record [of "get w" e a r "get w'"] by (auto simp: partRepository_def dest: onPart_result)
next
  case (6 w p r w')
  then show ?case using durable_save [of "get w" p r "get w'"] by (auto simp: partRepository_def dest: onPart_result)
next
  case (7 w i limit ra w')
  then show ?case using durable_list_audit [of "get w" i limit ra "get w'"] by (auto simp: partRepository_def dest: onPart_result)
next
  case (8 w d r w')
  then show ?case using durable_outcome [of "get w" d r "get w'"] by (auto simp: partRepository_def dest: onPart_result)
qed

end

sublocale durable_part \<subseteq> part: durable_repository "partRepository get put R" "\<lambda>w. valid (get w)" "\<lambda>w. packets (get w)"
    "\<lambda>w. evidence (get w)" "\<lambda>w. audit (get w)"
  by (rule part_durable)

text \<open>The publisher of checks touches neither store.\<close>

lemma githubChecks_frame:
  assumes "PublishWithEvidence (Some (githubChecks env g)) p es w = (r, w')"
  shows "pc_memory w' = pc_memory w \<and> pc_database w' = pc_database w"
proof -
  have "pc_memory w' = pc_memory w \<and> pc_database w' = pc_database w" if "onClient m w = (r, w')" for m :: "(_, string, unit) io"
    using that by (auto simp: onPart_def split: prod.splits)
  then show ?thesis
    using assms by (auto simp: githubChecks_def PublishWithEvidence_def boundClient_def Let_def
        split: option.splits if_splits AnyGitHub.splits)
qed

interpretation process_memory: durable_part "memoryRepository ord now" "\<lambda>r. map_order ord \<and> mem_valid r" mem_packets mem_evidence
    mr_auditByCPID pc_memory "\<lambda>s. pc_memory_update (\<lambda>_. s)" for ord now
  by unfold_locales simp

interpretation process_database: durable_part "postgresRepository env now" "\<lambda>w. pg_codec env \<and> tb_valid env (pg_tables w)"
    "\<lambda>w. tb_packets env (pg_tables w)" "\<lambda>w. tb_evidence env (pg_tables w)" "\<lambda>w. tb_audit env (pg_tables w)"
    pc_database "\<lambda>s. pc_database_update (\<lambda>_. s)" for env now
  by unfold_locales simp

interpretation memory_process: durable_service
    "partRepository pc_memory (\<lambda>s. pc_memory_update (\<lambda>_. s)) (memoryRepository ord now)"
    "\<lambda>w. map_order ord \<and> mem_valid (pc_memory w)" "\<lambda>w. mem_packets (pc_memory w)" "\<lambda>w. mem_evidence (pc_memory w)"
    "\<lambda>w. mr_auditByCPID (pc_memory w)" "Some (PublishWithEvidence (Some (githubChecks client g)))" for ord now client g
  by unfold_locales (auto dest: githubChecks_frame)

interpretation database_process: durable_service
    "partRepository pc_database (\<lambda>s. pc_database_update (\<lambda>_. s)) (postgresRepository env now)"
    "\<lambda>w. pg_codec env \<and> tb_valid env (pg_tables (pc_database w))" "\<lambda>w. tb_packets env (pg_tables (pc_database w))"
    "\<lambda>w. tb_evidence env (pg_tables (pc_database w))" "\<lambda>w. tb_audit env (pg_tables (pc_database w))"
    "Some (PublishWithEvidence (Some (githubChecks client g)))" for env now client g
  by unfold_locales (auto dest: githubChecks_frame)

text \<open>What the configured store of a process holds.\<close>

definition storeEvidence :: "('j, 'n, 's) StartEnv \<Rightarrow> Config \<Rightarrow> ('j, 'n) Process \<Rightarrow> string \<Rightarrow> string \<rightharpoonup> EvidenceExecution" where
  "storeEvidence env cfg p =
     (if px_Backend (cg_Persistence cfg) = ''postgres'' then tb_evidence (se_Pg env) (pg_tables (pc_database p))
      else mem_evidence (pc_memory p))"

definition storeAudit :: "('j, 'n, 's) StartEnv \<Rightarrow> Config \<Rightarrow> ('j, 'n) Process \<Rightarrow> string \<Rightarrow> EvidenceAuditEntry list" where
  "storeAudit env cfg p =
     (if px_Backend (cg_Persistence cfg) = ''postgres'' then tb_audit (se_Pg env) (pg_tables (pc_database p))
      else mr_auditByCPID (pc_memory p))"

definition soundStore :: "('j, 'n, 's) StartEnv \<Rightarrow> Config \<Rightarrow> ('j, 'n) Process \<Rightarrow> bool" where
  "soundStore env cfg p \<longleftrightarrow>
     (if px_Backend (cg_Persistence cfg) = ''postgres'' then tb_valid (se_Pg env) (pg_tables (pc_database p))
      else mem_valid (pc_memory p))
     \<and> trail (storeEvidence env cfg p) (storeAudit env cfg p)"

definition processService ::
  "('j, 'n, 's) StartEnv \<Rightarrow> Config \<Rightarrow> AnyGitHub \<Rightarrow> ('j, 'n) Process Repository \<Rightarrow> ('j, 'n) Process Service" where
  "processService env cfg githubService repo = NewServiceWithOptions repo (processOptions env cfg githubService)"

lemma processService_with:
  "processService env cfg g repo =
     serviceWith repo (Some (Assign (lanesConfig cfg))) (Some (PublishWithEvidence (Some (githubChecks (se_Client env) g))))"
  by (simp add: processService_def processOptions_def serviceWith_def)

lemma BuildRepository_memory:
  assumes "px_Backend (cg_Persistence cfg) = ''memory''" and "BuildRepository env cfg w0 = (Inr repo, w)"
  shows "repo = partRepository pc_memory (\<lambda>s. pc_memory_update (\<lambda>_. s)) (memoryRepository (se_Order env) (se_Now env))
    \<and> pc_memory w = NewMemoryRepository"
  using assms by (auto simp: BuildRepository_def)

lemma BuildRepository_postgres:
  assumes "px_Backend (cg_Persistence cfg) = ''postgres''" and "BuildRepository env cfg w0 = (Inr repo, w)"
  shows "repo = partRepository pc_database (\<lambda>s. pc_database_update (\<lambda>_. s)) (postgresRepository (se_Pg env) (se_Now env))
    \<and> pg_tables (pc_database w) = pg_tables (pc_database w0)
    \<and> (px_AutoMigrate (cg_Persistence cfg) \<longrightarrow> set postgresMigrations \<subseteq> set (pg_schema (pc_database w)))"
  using assms pg_migrations_ok [of "se_Pg env" postgresMigrations "pc_database w0"]
  by (auto simp: BuildRepository_def NewPostgresRepository_def onPart_def pg_Migrate_def bindM_ok set_fold_insert
      split: option.splits if_splits prod.splits sum.splits)

lemma database_steps:
  assumes "px_Backend (cg_Persistence cfg) = ''postgres''" and "pg_codec (se_Pg env)" and "BuildRepository env cfg w0 = (Inr repo, w)"
    and steps: "(service_step (processService env cfg g repo))\<^sup>*\<^sup>* p p'" and sound: "soundStore env cfg p"
  shows "soundStore env cfg p' \<and> prefix (storeAudit env cfg p i) (storeAudit env cfg p' i)
    \<and> (settled (recordedStatus (storeEvidence env cfg p i) n) \<longrightarrow>
         recordedStatus (storeEvidence env cfg p' i) n = recordedStatus (storeEvidence env cfg p i) n)"
proof -
  have repo: "repo = partRepository pc_database (\<lambda>s. pc_database_update (\<lambda>_. s)) (postgresRepository (se_Pg env) (se_Now env))"
    using BuildRepository_postgres [OF assms(1,3)] by simp
  show ?thesis
    using database_process.steps_safe [OF steps [unfolded processService_with repo]] assms(1,2) sound
    by (auto simp: soundStore_def storeEvidence_def storeAudit_def)
qed

lemma memory_steps:
  assumes "px_Backend (cg_Persistence cfg) = ''memory''" and "map_order (se_Order env)" and "BuildRepository env cfg w0 = (Inr repo, w)"
    and steps: "(service_step (processService env cfg g repo))\<^sup>*\<^sup>* w p"
  shows "soundStore env cfg p"
proof -
  have repo: "repo = partRepository pc_memory (\<lambda>s. pc_memory_update (\<lambda>_. s)) (memoryRepository (se_Order env) (se_Now env))"
    and fresh: "pc_memory w = NewMemoryRepository"
    using BuildRepository_memory [OF assms(1,3)] by simp_all
  have "mem_valid NewMemoryRepository" "trail (mem_evidence NewMemoryRepository) (mr_auditByCPID NewMemoryRepository)"
    by (simp_all add: NewMemoryRepository_def mem_valid_def mem_evidence_def trail_def entriesFor_def recordedStatus_def)
  then show ?thesis
    using memory_process.steps_safe [OF steps [unfolded processService_with repo]] assms(1,2) fresh
    by (auto simp: soundStore_def storeEvidence_def storeAudit_def)
qed

section \<open>Restarts\<close>

text \<open>The lives of the processes that use one database, each with its own configuration, clock and surroundings: a
  start, which may fail, a call of the service that a start has built, or the end of a process, which keeps nothing
  but the database.\<close>

definition sharesDatabase :: "('j, 'n, 's) StartEnv \<Rightarrow> ('j, 'n, 's) StartEnv \<Rightarrow> Config \<Rightarrow> bool" where
  "sharesDatabase shared env cfg \<longleftrightarrow> se_Pg env = se_Pg shared \<and> px_Backend (cg_Persistence cfg) = ''postgres''"

inductive lives :: "('j, 'n, 's) StartEnv \<Rightarrow> ('j, 'n) Process \<Rightarrow> ('j, 'n) Process \<Rightarrow> bool" for shared p where
  begun: "lives shared p p"
| started: "lives shared p q \<Longrightarrow> sharesDatabase shared env cfg \<Longrightarrow> BuildRepository env cfg q = (r, q') \<Longrightarrow> lives shared p q'"
| served: "lives shared p q \<Longrightarrow> sharesDatabase shared env cfg \<Longrightarrow> BuildRepository env cfg q0 = (Inr repo, q1) \<Longrightarrow>
    service_step (processService env cfg g repo) q q' \<Longrightarrow> lives shared p q'"
| ended: "lives shared p q \<Longrightarrow> pc_database q' = pc_database q \<Longrightarrow> lives shared p q'"

text \<open>A start leaves the rows of the database alone, whatever becomes of it.\<close>

lemma pg_Migrate_tables: "pg_tables (snd (pg_Migrate env w)) = pg_tables w"
proof -
  have "keeps (\<lambda>v. pg_tables v = pg_tables w) (pg_Migrate env)"
    unfolding pg_Migrate_def by (intro keeps_forM) (auto simp: keeps_def pg_ddl_def Let_def split: option.splits)
  then show ?thesis unfolding keeps_def by blast
qed

lemma BuildRepository_tables:
  assumes "BuildRepository env cfg w = (r, w')"
  shows "pg_tables (pc_database w') = pg_tables (pc_database w)"
  using assms pg_Migrate_tables [of "se_Pg env" "pc_database w"]
  by (auto simp: BuildRepository_def NewPostgresRepository_def PostgresRepository_Close_def onPart_def bindM_def Let_def
      split: option.splits if_splits prod.splits sum.splits)

lemma sameStore:
  assumes "sharesDatabase shared env cfg" and "sharesDatabase shared shared c"
    and "pg_tables (pc_database q') = pg_tables (pc_database q)"
  shows "soundStore env cfg q' = soundStore shared c q" "storeAudit env cfg q' = storeAudit shared c q"
    "storeEvidence env cfg q' = storeEvidence shared c q"
  using assms by (simp_all add: sharesDatabase_def soundStore_def storeAudit_def storeEvidence_def)

section \<open>Serving\<close>

text \<open>\<^verbatim>\<open>Run\<close> returns with the first failure of a server, even if the other one still serves, and without a failure
  only when both have ended.\<close>

lemma awaitServers_spec:
  "awaitServers n arrivals =
     (case find (\<lambda>r. channelValue r \<noteq> None) (take n arrivals) of
        Some r \<Rightarrow> Some (Inl (the (channelValue r)))
      | None \<Rightarrow> if length arrivals < n then None else Some (Inr ()))"
  by (induction n arrivals rule: awaitServers.induct) (auto split: option.splits)

text \<open>While the control plane serves on the bus in memory, it observes every lane decision that is published.\<close>

lemma serving_observes:
  assumes "App_Run lib sockets arrivals app w = (Serving bus, w')" and "rb_base (ca_bus app) = InMemory NewMemoryBus"
    and "en_Type event = EventMergeLaneAssigned"
  shows "AnyBus_Publish lib (rb_base bus) event p = (Inr (), p\<lparr>pc_observed := event # pc_observed p\<rparr>)"
  using assms
  by (auto simp: App_Run_def RecordingBus_Subscribe_def AnyBus_Subscribe_def AnyBus_Publish_def MemoryBus_Subscribe_def
      MemoryBus_Publish_def NewMemoryBus_def observeLane_def bindM_def split: prod.splits sum.splits option.splits if_splits)

text \<open>Without the GitHub integration no secret is required, and without a secret every signature is accepted.\<close>

lemma unsigned_without_integration:
  assumes "validConfig cfg" and "\<not> gh_Enabled (cg_GitHub cfg)"
  shows "ValidateForIngest cfg = Inr () \<and> webhook_verify wenv [] body signature = Inr ()"
  using assms config_Validate_Inr [of cfg]
  by (simp add: ValidateForIngest_def ValidateForGitHubIntegration_def ValidateForService_def webhook_verify_def)

section \<open>Properties\<close>

definition inProduction :: "Config \<Rightarrow> bool" where
  "inProduction cfg \<longleftrightarrow> ToLower (TrimSpace (tc_Environment (cg_Telemetry cfg))) \<in> {''prod'', ''production''}"

definition closed :: "('w, 's) ControlPlaneApp \<Rightarrow> bool" where
  \<comment> \<open>requests without credentials are refused by both servers and change nothing\<close>
  "closed app \<longleftrightarrow>
     (\<forall>now env r p. rq_Authorization r = [] \<and> rq_Path r \<noteq> ''/healthz'' \<longrightarrow> ca_httpServer app now env r p = (unauthorized, p))
     \<and> (\<forall>now env request p. ca_grpcServer app now env [] request p =
          (Inl (Unauthenticated, ''valid bearer credentials are required''), p))"

lemma NewWithAccess_closed:
  assumes "NewWithAccess cfg bus repo (Some authenticate) options = Inr app" and "\<And>now. \<exists>e. authenticate now [] = Inl e"
  shows "closed app"
proof -
  obtain err where "authenticate now [] = Inl (err now)" for now using assms(2) by metis
  with assms(1) show ?thesis
    by (auto simp: NewWithAccess_def closed_def controlPlaneHTTP_def controlPlaneGRPC_def AccessMiddleware_def
        AccessUnaryServerInterceptor_def roleForMethod_methodOf authorizationFromMetadata_def Let_def split: option.splits)
qed

text \<open>
  C12: how the control plane starts. Whatever the files, the environment, the database, NATS and GitHub do, the
  process either refuses its configuration, or it has an accepted configuration and stops only for something
  that this configuration asks for and that its surroundings lack (a secret, a key, the database, the migration,
  NATS), never for an unsupported mode or backend, or it serves. A process that serves in production refuses
  every request without credentials on both transports, and such a request changes nothing.
\<close>

theorem controlplane_starts_closed:
  "case fst (controlplane_main env w) of
     Inl e \<Rightarrow> (\<exists>c. e = ConfigRejected c)
       \<or> (\<exists>cfg. Load (se_Files env) (configPath env) = Inr cfg \<and> ValidateForControlPlane cfg = Inr () \<and> blamed cfg e)
   | Inr app \<Rightarrow> \<exists>cfg. Load (se_Files env) (configPath env) = Inr cfg
       \<and> ca_httpAddress app = sv_ControlPlaneAddress (cg_Service cfg) \<and> ca_grpcAddress app = sv_ControlPlaneGRPC (cg_Service cfg)
       \<and> (inProduction cfg \<longrightarrow> closed app)"
proof -
  obtain r w' where run: "controlplane_main env w = (r, w')" by fastforce
  show ?thesis
  proof (cases "Load (se_Files env) (configPath env)")
    case (Inl c)
    then show ?thesis by (simp add: controlplane_main_def)
  next
    case load: (Inr cfg)
    show ?thesis
    proof (cases "ValidateForControlPlane cfg")
      case (Inl c)
      with load show ?thesis by (simp add: controlplane_main_def)
    next
      case (Inr u)
      then have ok: "ValidateForControlPlane cfg = Inr ()" by simp
      have v: "validConfig cfg" using ValidateForControlPlane_valid [OF ok] .
      let ?build = "buildAuthenticator (se_SHA256 env) (se_Getenv env) (se_JWT env) (cg_Access cfg)"
      note secures = accepted_configuration_secures [OF ok, of "se_SHA256 env" "se_Getenv env" "se_JWT env"]
      show ?thesis
      proof (cases r)
        case (Inl e)
        have "blamed cfg e"
          using run Inl load ok secures BuildRepository_failed [OF v] BuildEventBus_failed [OF v] BuildGitHubService_failed
          by (auto simp: controlplane_main_def bindM_err NewWithAccess_def Let_def mapError_Inl blamed_def [of cfg "NoAuthenticator _"]
              split: sum.splits)
        then show ?thesis using run Inl load ok by auto
      next
        case app: (Inr app)
        then obtain authenticate bus repo options where a: "?build = Inr authenticate"
          and n: "NewWithAccess cfg bus repo (Some authenticate) options = Inr app"
          using run load ok by (auto simp: controlplane_main_def bindM_ok mapError_Inr)
        have "closed app" if "inProduction cfg"
          using NewWithAccess_closed [OF n] secures a that by (auto simp: inProduction_def)
        with run app load n show ?thesis by (auto simp: NewWithAccess_def Let_def)
      qed
    qed
  qed
qed

lemma ingest_failed:
  assumes run: "ingest_main env w = (Inl e, w')" and load: "Load (se_Files env) (configPath env) = Inr cfg"
    and ok: "ValidateForIngest cfg = Inr ()"
  shows "blamed cfg e"
proof -
  note v = ValidateForIngest_valid [OF ok]
  have "blamed cfg e" if "ingestapp_New env cfg bus g policies repo = Inl e" for bus g policies repo
    using that by (auto simp: ingestapp_New_def blamed_def bindE_Inl mapError_Inl dest: buildAnalyzers_panics)
  then show ?thesis
    using run load ok
    by (auto simp: ingest_main_def bindM_err mapError_Inl blamed_def [of cfg "PolicyRejected _"]
        dest: BuildRepository_failed [OF v] BuildEventBus_failed [OF v] BuildGitHubService_failed)
qed

lemma ingestapp_New_ok:
  assumes "ingestapp_New env cfg bus g policies repo = Inr app"
  shows "list_all usable (cg_MutationAnalyzers cfg) \<and> ia_Addr app = sv_IngestAddress (cg_Service cfg)"
  using assms buildAnalyzers_ok [of env "cg_MutationAnalyzers cfg"]
  by (auto simp: ingestapp_New_def bindE_Inr mapError_Inr)

lemma webhook_unsigned:
  assumes "secret \<noteq> []" and "\<forall>body. dl_Body r = Some body \<longrightarrow> dl_Signature r \<noteq> signatureOf wenv secret body"
  shows "\<exists>err. webhook_Decode wenv secret r = Inl err"
proof (cases "webhook_Decode wenv secret r")
  case (Inr h)
  then obtain body where "dl_Body r = Some body" "webhook_verify wenv secret body (dl_Signature r) = Inr ()"
    by (auto simp: webhook_Decode_def bindE_Inr split: if_splits option.splits)
  then show ?thesis using assms by (simp add: webhook_verify_iff)
qed simp

lemma ingestapp_New_signed:
  assumes "ingestapp_New env cfg bus g policies repo = Inr app" and "gh_WebhookSecret (cg_GitHub cfg) \<noteq> []"
    and "\<forall>body. dl_Body r = Some body \<longrightarrow> dl_Signature r \<noteq> signatureOf wenv (gh_WebhookSecret (cg_GitHub cfg)) body"
  shows "\<exists>err. ia_Handler app wenv ienv ''/webhooks/github'' r p = (WebhookAnswer (BadRequest err), p)"
  using assms(1) webhook_unsigned [OF assms(2,3)]
  by (auto simp: ingestapp_New_def bindE_Inr ingestMux_def WebhookHandler_ServeHTTP_def)

text \<open>
  C20: how ingestion starts. The process refuses its configuration, or stops for something that an accepted
  configuration asks for, or it serves; it serves only if every declared analyzer is an absolute path in its own
  allowlist, which no validation looks at, so that such a declaration passes validation and then panics. A
  process that serves with the GitHub integration answers every delivery that is not signed with the configured
  secret with a bad request that changes nothing.
\<close>

theorem ingestion_starts_signed:
  "(case fst (ingest_main env w) of
     Inl e \<Rightarrow> (\<exists>c. e = ConfigRejected c)
       \<or> (\<exists>cfg. Load (se_Files env) (configPath env) = Inr cfg \<and> ValidateForIngest cfg = Inr () \<and> blamed cfg e)
   | Inr app \<Rightarrow> \<exists>cfg. Load (se_Files env) (configPath env) = Inr cfg \<and> ia_Addr app = sv_IngestAddress (cg_Service cfg)
       \<and> list_all usable (cg_MutationAnalyzers cfg)
       \<and> (gh_Enabled (cg_GitHub cfg) \<longrightarrow>
           (\<forall>wenv ienv r p. (\<forall>body. dl_Body r = Some body \<longrightarrow> dl_Signature r \<noteq> signatureOf wenv (gh_WebhookSecret (cg_GitHub cfg)) body)
              \<longrightarrow> (\<exists>err. ia_Handler app wenv ienv ''/webhooks/github'' r p = (WebhookAnswer (BadRequest err), p)))))
   \<and> (\<forall>cfg ds. ValidateForIngest (cfg\<lparr>cg_MutationAnalyzers := ds\<rparr>) = ValidateForIngest cfg)"
proof (intro conjI allI)
  fix cfg ds
  show "ValidateForIngest (cfg\<lparr>cg_MutationAnalyzers := ds\<rparr>) = ValidateForIngest cfg" by (rule ValidateForIngest_analyzers)
next
  obtain r w' where run: "ingest_main env w = (r, w')" by fastforce
  show "case fst (ingest_main env w) of
     Inl e \<Rightarrow> (\<exists>c. e = ConfigRejected c)
       \<or> (\<exists>cfg. Load (se_Files env) (configPath env) = Inr cfg \<and> ValidateForIngest cfg = Inr () \<and> blamed cfg e)
   | Inr app \<Rightarrow> \<exists>cfg. Load (se_Files env) (configPath env) = Inr cfg \<and> ia_Addr app = sv_IngestAddress (cg_Service cfg)
       \<and> list_all usable (cg_MutationAnalyzers cfg)
       \<and> (gh_Enabled (cg_GitHub cfg) \<longrightarrow>
           (\<forall>wenv ienv r p. (\<forall>body. dl_Body r = Some body \<longrightarrow> dl_Signature r \<noteq> signatureOf wenv (gh_WebhookSecret (cg_GitHub cfg)) body)
              \<longrightarrow> (\<exists>err. ia_Handler app wenv ienv ''/webhooks/github'' r p = (WebhookAnswer (BadRequest err), p))))"
  proof (cases "Load (se_Files env) (configPath env)")
    case (Inl c)
    then show ?thesis by (simp add: ingest_main_def)
  next
    case load: (Inr cfg)
    show ?thesis
    proof (cases "ValidateForIngest cfg")
      case (Inl c)
      with load show ?thesis by (simp add: ingest_main_def)
    next
      case (Inr u)
      then have ok: "ValidateForIngest cfg = Inr ()" by simp
      show ?thesis
      proof (cases r)
        case (Inl e)
        then show ?thesis using run load ok ingest_failed [OF run [unfolded Inl] load ok] by auto
      next
        case app: (Inr app)
        then obtain bus g policies repo where n: "ingestapp_New env cfg bus g policies repo = Inr app"
          using run load ok by (auto simp: ingest_main_def bindM_ok mapError_Inr)
        with run app load show ?thesis
          using ingestapp_New_signed [OF n] ingestapp_New_ok [OF n] ValidateForIngest_secret [OF ok] by auto
      qed
    qed
  qed
qed

text \<open>
  C25: evidence survives restarts. On one PostgreSQL database, through any sequence of starts (each with its own
  configuration, with migrations that run again or fail half-way), calls of the service (with statements and commits that fail before or after
  they took effect) and ends of the process, in which everything but the database is lost: the store stays sound,
  so that the audit log of each evidence replays to its status; no audit entry is removed, changed or reordered;
  and evidence that is satisfied or waived keeps its status.
\<close>

theorem restarts_keep_evidence:
  assumes "px_Backend (cg_Persistence cfg) = ''postgres''" and "pg_codec (se_Pg env)"
    and "soundStore env cfg p" and "lives env p q"
  shows "soundStore env cfg q \<and> prefix (storeAudit env cfg p i) (storeAudit env cfg q i)
    \<and> (settled (recordedStatus (storeEvidence env cfg p i) n) \<longrightarrow>
         recordedStatus (storeEvidence env cfg q i) n = recordedStatus (storeEvidence env cfg p i) n)"
  using assms(4)
proof induction
  case begun
  show ?case using assms(3) by simp
next
  case (started q env' cfg' r q')
  have "sharesDatabase env env cfg" using assms(1) by (simp add: sharesDatabase_def)
  note same = sameStore [OF this this BuildRepository_tables [OF started.hyps(3)]]
  show ?case using started.IH unfolding same .
next
  case (served q env' cfg' q0 repo q1 g q')
  have shared: "sharesDatabase env env cfg" using assms(1) by (simp add: sharesDatabase_def)
  note same = sameStore [OF served.hyps(2) shared refl]
  have "px_Backend (cg_Persistence cfg') = ''postgres''" "pg_codec (se_Pg env')"
    using served.hyps(2) assms(2) by (simp_all add: sharesDatabase_def)
  from database_steps [OF this served.hyps(3) r_into_rtranclp [of "service_step (processService env' cfg' g repo)", OF served.hyps(4)],
      of i n, unfolded same]
  show ?case using served.IH by (metis prefix_order.trans)
next
  case (ended q q')
  then have "pg_tables (pc_database q') = pg_tables (pc_database q)" by simp
  moreover have "sharesDatabase env env cfg" using assms(1) by (simp add: sharesDatabase_def)
  ultimately show ?case using ended.IH sameStore by metis
qed

section \<open>Samples\<close>

definition silentNats :: "('w, unit) NatsLib" where
  "silentNats =
     \<lparr>nl_Connect = (\<lambda>_. retM ()), nl_JetStream = retM (), nl_StreamInfo = (\<lambda>_. retM ()), nl_AddStream = (\<lambda>_ _. retM ()),
      nl_PublishMsg = (\<lambda>_. retM ()), nl_Subscribe = (\<lambda>_ _ _. retM ()), nl_Ack = (\<lambda>_ w. w), nl_Nak = (\<lambda>_ w. w),
      nl_DrainSub = (\<lambda>_ w. w), nl_DrainConn = (\<lambda>w. w), nl_CloseConn = (\<lambda>w. w),
      nl_Marshal = (\<lambda>_. Inr []), nl_Unmarshal = (\<lambda>_. Inl ''no JSON'')\<rparr>"

definition sampleStart :: "Config \<Rightarrow> (SampleJson, Exchange list, unit) StartEnv" where
  "sampleStart cfg =
     \<lparr>se_Getenv = [''CI_TOKEN'' \<mapsto> ''t0ken''],
      se_Files = \<lparr>fi_ReadFile = (\<lambda>_. Inr []), fi_Decode = (\<lambda>_ _. Inr cfg), fi_Trailing = (\<lambda>_. None)\<rparr>,
      se_DecodePolicy = (\<lambda>_. (Inr \<lparr>pc_Policies = []\<rparr>, None)), se_SHA256 = (\<lambda>s. s), se_JWT = sampleJWTEnv, se_Now = 0,
      se_Order = rev, se_SqlOpen = (\<lambda>_. None), se_Pg = sampleDb, se_Nats = silentNats,
      se_Keys = \<lparr>ke_ReadFile = (\<lambda>_. Inr ''pem''), ke_PEM = (\<lambda>s. Some s), ke_PKCS1 = (\<lambda>s. Inr s), ke_PKCS8 = (\<lambda>_. Inl ''no key''),
        ke_ParseDuration = (\<lambda>_. Inr 10000000000)\<rparr>,
      se_Client = sampleClientEnv, se_Exec = sampleExec, se_Parsers = sampleParsers, se_Decoders = sampleDecoders,
      se_NewID = sampleIDs, se_Call = sampleEnv\<rparr>"

definition freshProcess :: "(SampleJson, Exchange list) Process" where
  "freshProcess =
     \<lparr>pc_memory = NewMemoryRepository,
      pc_database = \<lparr>pg_schema = [], pg_tables = \<lparr>pt_packets = [], pt_events = [], pt_evidence = [], pt_audit = [], pt_outcomes = []\<rparr>,
        pg_clock = 0\<rparr>,
      pc_github = \<lparr>cs_tokens = [], cs_net = []\<rparr>, pc_pools = 0, pc_observed = []\<rparr>"

definition gitHubConfig :: Config where
  "gitHubConfig = Defaults\<lparr>cg_GitHub := (cg_GitHub Defaults)\<lparr>gh_Enabled := True, gh_WebhookSecret := ''s3cret'', gh_AppID := ''17'',
     gh_PrivateKeyPath := ''key.pem''\<rparr>\<rparr>"

lemma sample_load: "config_Validate cfg = Inr () \<Longrightarrow> Load (se_Files (sampleStart cfg)) (configPath (sampleStart cfg)) = Inr cfg"
  by (simp add: Load_def ensureSingleDocument_def sampleStart_def)

lemma sample_backends:
  assumes "px_Backend (cg_Persistence cfg) = ''memory''" and "ec_Backend (cg_Events cfg) = ''memory''"
  shows "\<exists>repo w'. BuildRepository (sampleStart c) cfg w = (Inr repo, w')"
    and "\<exists>bus. BuildEventBus (sampleStart c) cfg repo w = (Inr bus, w)"
    and "\<exists>g. BuildGitHubService (sampleStart c) cfg = Inr g"
  using assms
  by (simp_all add: BuildRepository_def BuildEventBus_def NewBusFromConfig_def BuildGitHubService_def NewClient_def
      NewAppAuthenticator_def sampleStart_def bindM_def wrapM_def Let_def)

theorem controlplane_starts_closed_witness:
  "\<exists>app. fst (controlplane_main (sampleStart productionConfig) freshProcess) = Inr app \<and> closed app"
proof -
  let ?env = "sampleStart productionConfig" and ?cfg = productionConfig
  have v: "config_Validate ?cfg = Inr ()" "ValidateForControlPlane ?cfg = Inr ()" and prod: "inProduction ?cfg" by code_simp+
  have b: "px_Backend (cg_Persistence ?cfg) = ''memory''" "ec_Backend (cg_Events ?cfg) = ''memory''"
    by (simp_all add: productionConfig_def Defaults_def)
  have "buildCredentials (\<lambda>s. s) [''CI_TOKEN'' \<mapsto> ''t0ken''] 0 [] [] [] [\<lparr>st_Subject = ''ci'', st_TokenEnv = ''CI_TOKEN'',
      st_Roles = [RoleEvidenceWriter]\<rparr>] = Inr [\<lparr>sc_digest = ''t0ken'', sc_principal = \<lparr>pn_Subject = ''ci'', pn_Roles = [RoleEvidenceWriter]\<rparr>\<rparr>]"
    by code_simp
  then obtain login where login:
    "buildAuthenticator (se_SHA256 ?env) (se_Getenv ?env) (se_JWT ?env) (cg_Access ?cfg) = Inr login"
    by (simp add: buildAuthenticator_def productionConfig_def NewStaticTokenAuthenticator_def sampleStart_def)
  obtain repo w1 where repo: "BuildRepository ?env ?cfg freshProcess = (Inr repo, w1)" using sample_backends(1) [OF b] by blast
  obtain bus where bus: "BuildEventBus ?env ?cfg repo w1 = (Inr bus, w1)" using sample_backends(2) [OF b] by blast
  obtain g where "BuildGitHubService ?env ?cfg = Inr g" using sample_backends(3) [OF b] by blast
  then obtain app where app: "fst (controlplane_main ?env freshProcess) = Inr app"
    using v sample_load [OF v(1)] login repo bus by (simp add: controlplane_main_def NewWithAccess_def Let_def)
  then show ?thesis
    using controlplane_starts_closed [of ?env freshProcess] sample_load [OF v(1)] prod by simp
qed

theorem ingestion_starts_signed_witness:
  "\<exists>app err. fst (ingest_main (sampleStart gitHubConfig) freshProcess) = Inr app
     \<and> ia_Handler app sampleWebhookEnv sampleIngestEnv ''/webhooks/github'' (sampleDelivery []) freshProcess
         = (WebhookAnswer (BadRequest err), freshProcess)"
proof -
  let ?env = "sampleStart gitHubConfig" and ?cfg = gitHubConfig
  have v: "config_Validate ?cfg = Inr ()" "ValidateForIngest ?cfg = Inr ()" by code_simp+
  have b: "px_Backend (cg_Persistence ?cfg) = ''memory''" "ec_Backend (cg_Events ?cfg) = ''memory''"
    and e: "gh_Enabled (cg_GitHub ?cfg)" "cg_MutationAnalyzers ?cfg = []"
    by (simp_all add: gitHubConfig_def Defaults_def)
  obtain repo w1 where repo: "BuildRepository ?env ?cfg freshProcess = (Inr repo, w1)" using sample_backends(1) [OF b] by blast
  obtain bus where bus: "BuildEventBus ?env ?cfg repo w1 = (Inr bus, w1)" using sample_backends(2) [OF b] by blast
  obtain g where g: "BuildGitHubService ?env ?cfg = Inr g" using sample_backends(3) [OF b] by blast
  have "LoadConfig (se_DecodePolicy ?env) (fi_ReadFile (se_Files ?env) (cg_PolicyPath ?cfg)) = Inr \<lparr>pc_Policies = []\<rparr>"
    by (simp add: sampleStart_def LoadConfig_def Validate_def)
  then obtain app where app: "fst (ingest_main ?env freshProcess) = Inr app"
    using v sample_load [OF v(1)] repo bus g e by (simp add: ingest_main_def ingestapp_New_def)
  have "dl_Signature (sampleDelivery []) \<noteq> signatureOf sampleWebhookEnv (gh_WebhookSecret (cg_GitHub ?cfg)) body" for body
    by (simp add: sampleDelivery_def signatureOf_def)
  then show ?thesis
    using conjunct1 [OF ingestion_starts_signed [of ?env freshProcess]] sample_load [OF v(1)] app e(1) by auto
qed

text \<open>A process on a database that an earlier one left, with evidence that is satisfied; it ends, another one starts,
  runs the migrations again and is told that the evidence failed.\<close>

definition databaseConfig :: Config where
  "databaseConfig = Defaults\<lparr>cg_Persistence := (cg_Persistence Defaults)\<lparr>px_Backend := ''postgres''\<rparr>\<rparr>"

definition databaseStart :: "(SampleJson, Exchange list, unit) StartEnv" where
  "databaseStart = (sampleStart databaseConfig)\<lparr>se_Pg := lossyDb\<rparr>"

definition settledProcess :: "(SampleJson, Exchange list) Process" where
  "settledProcess = freshProcess\<lparr>pc_database := PgWorld.truncate settledTables\<rparr>"

definition startedProcess :: "(SampleJson, Exchange list) Process \<Rightarrow> (SampleJson, Exchange list) Process" where
  "startedProcess p = snd (BuildRepository databaseStart databaseConfig p)"

definition databaseRepository :: "(SampleJson, Exchange list) Process Repository" where
  "databaseRepository = partRepository pc_database (\<lambda>s. pc_database_update (\<lambda>_. s)) (postgresRepository lossyDb 0)"

definition restartedProcess :: "(SampleJson, Exchange list) Process" where
  "restartedProcess = snd (UpdateEvidenceExecution sampleEnv None (processService databaseStart databaseConfig Noop databaseRepository)
     ((satisfying ''cp_1'' ''tests'')\<lparr>ee_Status := EvidenceFailed\<rparr>)
     (startedProcess (freshProcess\<lparr>pc_database := pc_database settledProcess\<rparr>)))"

lemma databaseStart_fields:
  "px_Backend (cg_Persistence databaseConfig) = ''postgres''" "se_Pg databaseStart = lossyDb" "se_Now databaseStart = 0"
  by (simp_all add: databaseConfig_def databaseStart_def sampleStart_def)

lemma settledProcess_facts:
  "soundStore databaseStart databaseConfig settledProcess"
  "recordedStatus (storeEvidence databaseStart databaseConfig settledProcess ''cp_1'') ''tests'' = EvidenceSatisfied"
  "storeAudit databaseStart databaseConfig settledProcess ''cp_1'' \<noteq> []"
  using settledTables_sound lossy_facts
  by (auto simp: soundStore_def storeEvidence_def storeAudit_def databaseStart_fields settledProcess_def PgWorld.defs)

lemma databaseRepository_built: "\<exists>w. BuildRepository databaseStart databaseConfig settledProcess = (Inr databaseRepository, w)"
proof -
  have "\<not> isl (fst (BuildRepository databaseStart databaseConfig settledProcess))" by code_simp
  then obtain repo w where "BuildRepository databaseStart databaseConfig settledProcess = (Inr repo, w)"
    by (metis isl_def sum.exhaust surjective_pairing)
  then show ?thesis
    using BuildRepository_postgres [of databaseConfig databaseStart] by (auto simp: databaseRepository_def databaseStart_fields)
qed

theorem restarts_keep_evidence_witness:
  "storeAudit databaseStart databaseConfig settledProcess ''cp_1'' \<noteq> []
   \<and> recordedStatus (storeEvidence databaseStart databaseConfig settledProcess ''cp_1'') ''tests'' = EvidenceSatisfied
   \<and> lives databaseStart settledProcess restartedProcess
   \<and> recordedStatus (storeEvidence databaseStart databaseConfig restartedProcess ''cp_1'') ''tests'' = EvidenceSatisfied
   \<and> prefix (storeAudit databaseStart databaseConfig settledProcess ''cp_1'') (storeAudit databaseStart databaseConfig restartedProcess ''cp_1'')"
proof -
  have sh: "sharesDatabase databaseStart databaseStart databaseConfig" by (simp add: sharesDatabase_def databaseStart_fields)
  obtain w where built: "BuildRepository databaseStart databaseConfig settledProcess = (Inr databaseRepository, w)"
    using databaseRepository_built by blast
  have "lives databaseStart settledProcess (freshProcess\<lparr>pc_database := pc_database settledProcess\<rparr>)"
    by (rule lives.ended [OF lives.begun]) simp
  then have "lives databaseStart settledProcess (startedProcess (freshProcess\<lparr>pc_database := pc_database settledProcess\<rparr>))"
    unfolding startedProcess_def by (rule lives.started [OF _ sh surjective_pairing])
  then have l: "lives databaseStart settledProcess restartedProcess"
    unfolding restartedProcess_def by (rule lives.served [OF _ sh built service_step.updated [OF surjective_pairing]])
  from restarts_keep_evidence [OF databaseStart_fields(1) _ settledProcess_facts(1) l, of "''cp_1''" "''tests''"] l settledProcess_facts(2,3)
  show ?thesis by (simp add: databaseStart_fields lossyDb_codec settled_def)
qed

end
