(* ===== verification/Spec2Isabelle.thy ===== *)
theory Spec2Isabelle
  imports Grpc Calibration Cli GitHubClient ScmClients Startup
begin

text \<open>
  A verification development for \<^emph>\<open>merger\<close>, a change-control service for pull requests, written in
  Go. A pull request arrives as a GitHub webhook; the program turns it into a \<^emph>\<open>change packet\<close>: it
  parses the diff, classifies the mutations, resolves the affected systems, assesses merge conflicts
  and risk, evaluates policy rules, assigns a merge lane, stores the packet and publishes a check.
  Evidence that the policy demands is reported later, by clients of the control plane (HTTP or gRPC)
  or by GitHub check runs; each report is a step of a life cycle, is audited, and makes the program
  decide again about the packet.

  \<^bold>\<open>Conventions.\<close> A Go string is a \<^typ>\<open>string\<close> of bytes, a struct a record whose fields carry a
  two-letter prefix, an enumeration of strings a synonym with one constant per value; a pointer or an
  optional collaborator is an option, a metadata map an association list. An error result is
  \<^typ>\<open>'e + 'a\<close> (\<open>Prelude\<close>), an operation with effects a function from a world to a result and a
  world (\<open>Effects\<close>; the world after an error is kept, as in Go). The order in which Go ranges over a
  map is an argument of the definitions that do so, and theorems hold for every order that permutes
  its keys (\<open>map_order\<close>). Numbers of type \<^verbatim>\<open>int\<close> are \<^typ>\<open>int\<close> where the program bounds them, the
  32-bit fields of gRPC messages are words, and \<^verbatim>\<open>float64\<close> is \<^typ>\<open>rat\<close>, so rounding is not
  modelled. A time is an integer with 0 as the zero time. The clock, fresh identifiers, the
  environment, parsers and decoders of JSON, YAML and Go, SHA-256, HMAC and RSA are arguments.

  \<^bold>\<open>Shared parts.\<close>
  \<^item> \<open>Prelude\<close>: results with errors, loops with early return, map orders, and the lemmas on lists and
    maps that the components share; \<open>GoStrings\<close>: the parts of \<^verbatim>\<open>strings\<close>, \<^verbatim>\<open>strconv\<close>, \<^verbatim>\<open>path\<close> and
    \<^verbatim>\<open>filepath\<close> the program calls; \<open>Effects\<close>: the monad of operations.
  \<^item> \<open>Domain\<close>: \<open>internal/domain\<close>, one record per struct and one constant per named value.

  \<^bold>\<open>Engines.\<close> Each is a function of the packet, proved equal to a closed description.
  \<^item> \<open>Diff\<close> (\<open>pkg/diff/parser.go\<close>): parsing loses no line of the diff.
  \<^item> \<open>MutationRules\<close>, \<open>MutationEngine\<close> (\<open>internal/mutations\<close>): rules, extractors, analyzers, the engine;
    a classification has one mutation per kind, whose files, services and fields are those that a rule, an
    analyzer or the fallback reported; an external analyzer runs its allow-listed command and nothing else. Locale \<open>classifier\<close>.
  \<^item> \<open>RuntimeGraph\<close> (\<open>internal/runtimegraph\<close>): sources, the breadth-first traversal with its depth bound
    (equal to the set within that many steps), the merged impact.
  \<^item> \<open>Conflict\<close> (\<open>internal/conflictrisk\<close>) and \<open>Risk\<close> (\<open>internal/risk\<close>): scores and routes as formulas.
  \<^item> \<open>PolicyConfig\<close>, \<open>Policy\<close> (\<open>internal/policy\<close>): validation equals a declarative specification; the
    decision, the evidence, the reviewers and the minimum lane as functions of the matched rules.
  \<^item> \<open>Lanes\<close> (\<open>internal/lanes\<close>): the assigner refines an abstract order of four lanes. Locale
    \<open>lane_assigner\<close>.

  \<^bold>\<open>State.\<close>
  \<^item> \<open>Events\<close> (\<open>internal/events\<close>): the in-memory and the recording bus.
  \<^item> \<open>Store\<close> (\<open>internal/store\<close>): the repository interface as a record of operations, its contract as the
    locale \<open>repository\<close> (maps of packets and evidence, logs of audit entries), and the in-memory store,
    which meets it.
  \<^item> \<open>Access\<close>, \<open>Jwt\<close> (\<open>internal/access\<close>): roles, the disabled, static-token and JWT authenticators.
    Locales \<open>authenticator\<close> and \<open>bearer_authenticator\<close>.
  \<^item> \<open>Checks\<close> (\<open>internal/checks\<close>): the published check run and its summary, cut by runes.

  \<^bold>\<open>The control plane.\<close>
  \<^item> \<open>ControlPlane\<close> (\<open>internal/controlplane/service.go\<close>): the service; the locale \<open>evidence_service\<close>
    derives the effect of an update from the contract of the store.
  \<^item> \<open>Durable\<close>: the life cycle as an inductive relation, the steps of a running service, and the
    invariants of every reachable store (the audit log replays to the recorded status, settled
    evidence is final), on any store that has the whole effect of a call or none, whether it reports an
    error or not. Locales \<open>durable_repository\<close>, which \<open>repository\<close> extends, and \<open>durable_service\<close>.
  \<^item> \<open>EvidenceMachine\<close>: the exact effect of an update and progress to an approved packet on a store that
    does not fail. The instance is the in-memory store beside a GitHub client with a state of its own
    (\<open>World\<close>).
  \<^item> \<open>Postgres\<close> (\<open>internal/store/postgres.go\<close>, \<open>postgres_migrations.go\<close>): tables as lists of rows, the
    statements, queries and transactions the store issues, and a server that may fail at any of them,
    after a statement had its effect or before. The store meets \<open>durable_repository\<close>, so evidence is
    durable whatever fails; a packet that was saved is read back; migrations can be repeated.
  \<^item> \<open>Calibration\<close>: deployment outcomes and the calibration report.
  \<^item> \<open>Http\<close>, \<open>Grpc\<close> (\<open>http.go\<close>, \<open>access.go\<close>, \<open>internal/controlplanegrpc\<close>): the transports with their access
    control; evidence changes only for an authenticated evidence writer.

  \<^bold>\<open>Ingestion.\<close>
  \<^item> \<open>Ingest\<close> (\<open>internal/ingest\<close>, \<open>internal/github/webhook.go\<close>): signatures, decoding, every stage of the
    pipeline, check runs, the webhook handler.
  \<^item> \<open>CheckRuns\<close>: what a check run can change. Locale \<open>check_reconciler\<close>, an extension of
    \<open>evidence_service\<close>.
  \<^item> \<open>Pipeline\<close> (\<open>internal/app/ingest/app.go\<close>): the processor with the program's own engines, the order
    of storing and publishing, and where the lane of a new packet comes from. Locale \<open>pipeline\<close>.

  \<^bold>\<open>Clients of other systems.\<close> The network, with a server that answers as it likes, is an argument.
  \<^item> \<open>Web\<close>: requests, escaping for URLs and base64, with their round trips.
  \<^item> \<open>GitHubClient\<close> (\<open>internal/github\<close>): the signed token of the application, the tokens of installations
    with their shared cache, and the four calls; in every history of calls, a request for an
    installation carries a valid token of this installation. Locale \<open>token_source\<close>.
  \<^item> \<open>ScmClients\<close> (\<open>pkg/extensions/scm_clients.go\<close>): GitLab and Bitbucket; when a request is repeated and
    with which body, and which fields of an answer are lost.
  \<^item> \<open>Nats\<close> (\<open>internal/events/nats.go\<close>, \<open>factory.go\<close>): the bus over NATS; routing by subjects,
    acknowledgement, and the choice of the bus.

  \<^bold>\<open>The servers as processes.\<close>
  \<^item> \<open>Startup\<close> (\<open>internal/bootstrap\<close>, \<open>internal/app\<close>, \<open>cmd/merger-controlplane\<close>, \<open>cmd/merger-ingest\<close>): what is
    built from the configuration, both \<^verbatim>\<open>main\<close> functions and the loop that waits for the servers, on the
    state of a process with both stores, the GitHub client and the bus. What can stop a start, that a
    control plane in production is closed to requests without credentials, that ingestion with GitHub
    handles only signed deliveries, and that evidence survives restarts on one database. Locale
    \<open>durable_part\<close>: a store in a part of a larger state keeps its contract.

  \<^bold>\<open>The local program.\<close>
  \<^item> \<open>Configuration\<close> (\<open>internal/config\<close>, the authenticator of \<open>cmd/merger-controlplane\<close>): defaults,
    validation equal to a declarative specification, loading; an accepted configuration starts, and
    production is never open.
  \<^item> \<open>Files\<close>, \<open>Flags\<close>: paths, what is asked of a file system, and flags as the Go libraries treat them.
  \<^item> \<open>Scan\<close> (\<open>internal/scan\<close>, \<open>pkg/merger/scan.go\<close>): the engines on a diff and a working copy. The scan
    decides as the service does, returns for every diff, and every packet of either is well formed.
  \<^item> \<open>Resolve\<close> (\<open>internal/resolve\<close>): which configuration and policy a scan uses.
  \<^item> \<open>McpTools\<close>, \<open>Mcp\<close> (\<open>internal/mcpserver\<close>): the tools for agents and the JSON-RPC server; its read loop
    equals a line-by-line reference, tools wait for initialization, and readiness is judged exactly.
  \<^item> \<open>Cli\<close> (\<open>internal/cli\<close>, \<open>cmd/merger\<close>): the commands with their exit codes; the lane gate holds, a
    validated repository can be scanned, and initialization overwrites nothing unasked.

  \<^bold>\<open>Bounds.\<close> No definition uses fuel: loops over lists are structural, the graph traversal, the
  read loop of the MCP server and the decoders of text have termination proofs, and the properties state results, not results provided
  that there is one.

  \<^bold>\<open>Not modelled.\<close> The text of SQL statements (their meaning on tables is modelled), telemetry, the drawing of
  random identifiers, listening, serving and shutting down, because they are calls to systems outside of the
  program; generated protocol code. Texts of nested errors are kept as values, not
  rendered. Locks are left out: each operation of the in-memory store runs under one lock, so
  operations are atomic steps, and interleavings of calls of the service between store operations are
  not considered.

  \<^bold>\<open>Simplifications.\<close> An event carries the packet as it was when the event was published, where the program
  hands on a pointer that later stages write through. The properties of the whole pipeline are about a processor
  on the in-memory store, the default of the program. In the view that the pipeline has of the GitHub client, reading a file
  does not thread the token cache (\<open>GitHubClient\<close> itself does). JSON columns are assumed to
  read back what was written, which holds for valid UTF-8.
\<close>

end
